(* ===== verification/CTF_Prelude.thy ===== *)
theory CTF_Prelude
  imports Main
begin

text \<open>
  What the components share: the state-and-error monad in which the Go functions are
  written (a function of the state that returns an error or a value, and the next state),
  Hoare triples over it with one rule per combinator, and the row operations on database
  tables (lists of rows). The collection \<open>valid_rules\<close> holds the triples' rules and
  \<open>sem_simps\<close> the equations that run a computation symbolically.
\<close>

named_theorems valid_rules \<open>structural rules of the Hoare triples\<close>
named_theorems sem_simps \<open>equations that evaluate a computation on a state\<close>

type_synonym uuid = nat
type_synonym time = int

section \<open>Computations with state and errors\<close>

type_synonym ('s, 'e, 'a) sem = "'s \<Rightarrow> ('e + 'a) \<times> 's"

definition returnE :: "'a \<Rightarrow> ('s, 'e, 'a) sem" where
  "returnE x s = (Inr x, s)"

definition throwE :: "'e \<Rightarrow> ('s, 'e, 'a) sem" where
  "throwE e s = (Inl e, s)"

definition bindE :: "('s, 'e, 'a) sem \<Rightarrow> ('a \<Rightarrow> ('s, 'e, 'b) sem) \<Rightarrow> ('s, 'e, 'b) sem" where
  "bindE m f s = (case m s of (Inl e, s') \<Rightarrow> (Inl e, s') | (Inr x, s') \<Rightarrow> f x s')"

text \<open>\<open>v, err := m\<close> with the error kept as a value, for code that inspects it.\<close>

definition tryE :: "('s, 'e, 'a) sem \<Rightarrow> ('s, 'e, 'e + 'a) sem" where
  "tryE m s = (case m s of (r, s') \<Rightarrow> (Inr r, s'))"

definition mapErr :: "('e \<Rightarrow> 'e) \<Rightarrow> ('s, 'e, 'a) sem \<Rightarrow> ('s, 'e, 'a) sem" where
  "mapErr h m s = (case m s of (Inl e, s') \<Rightarrow> (Inl (h e), s') | (Inr x, s') \<Rightarrow> (Inr x, s'))"

definition liftE :: "'e + 'a \<Rightarrow> ('s, 'e, 'a) sem" where
  "liftE r s = (r, s)"

definition asksE :: "('s \<Rightarrow> 'a) \<Rightarrow> ('s, 'e, 'a) sem" where
  "asksE f s = (Inr (f s), s)"

definition modifyE :: "('s \<Rightarrow> 's) \<Rightarrow> ('s, 'e, unit) sem" where
  "modifyE f s = (Inr (), f s)"

text \<open>A loop whose body may fail: the first error leaves it.\<close>

fun forE :: "'a list \<Rightarrow> ('a \<Rightarrow> ('s, 'e, unit) sem) \<Rightarrow> ('s, 'e, unit) sem" where
  "forE [] f = returnE ()"
| "forE (x # xs) f = bindE (f x) (\<lambda>_. forE xs f)"

text \<open>The guard \<open>if c { return err }\<close>.\<close>

definition failIf :: "bool \<Rightarrow> 'e \<Rightarrow> ('s, 'e, unit) sem" where
  "failIf c e = (if c then throwE e else returnE ())"

lemma returnE_apply [simp, sem_simps]: "returnE x s = (Inr x, s)"
  by (simp add: returnE_def)

lemma throwE_apply [simp, sem_simps]: "throwE e s = (Inl e, s)"
  by (simp add: throwE_def)

lemma liftE_apply [simp, sem_simps]: "liftE r s = (r, s)"
  by (simp add: liftE_def)

lemma asksE_apply [simp, sem_simps]: "asksE f s = (Inr (f s), s)"
  by (simp add: asksE_def)

lemma modifyE_apply [simp, sem_simps]: "modifyE f s = (Inr (), f s)"
  by (simp add: modifyE_def)

lemma failIf_apply [sem_simps]: "failIf c e s = (if c then Inl e else Inr (), s)"
  by (simp add: failIf_def)

lemma bindE_returnE [simp]: "bindE (returnE x) f = f x"
  by (rule ext) (simp add: bindE_def)

lemma bindE_throwE [simp]: "bindE (throwE e) f = throwE e"
  by (rule ext) (simp add: bindE_def)

lemma bindE_return_right [simp]: "bindE m returnE = m"
  by (rule ext) (simp add: bindE_def split: prod.splits sum.splits)

lemma bindE_assoc: "bindE (bindE m f) g = bindE m (\<lambda>x. bindE (f x) g)"
  by (rule ext) (simp add: bindE_def split: prod.splits sum.splits)

lemma bindE_run_Inr [sem_simps]: "m s = (Inr x, s') \<Longrightarrow> bindE m f s = f x s'"
  by (simp add: bindE_def)

lemma bindE_run_Inl [sem_simps]: "m s = (Inl e, s') \<Longrightarrow> bindE m f s = (Inl e, s')"
  by (simp add: bindE_def)

lemma tryE_run: "m s = (r, s') \<Longrightarrow> tryE m s = (Inr r, s')"
  by (simp add: tryE_def)

lemma mapErr_run_Inr: "m s = (Inr x, s') \<Longrightarrow> mapErr h m s = (Inr x, s')"
  by (simp add: mapErr_def)

lemma mapErr_run_Inl: "m s = (Inl e, s') \<Longrightarrow> mapErr h m s = (Inl (h e), s')"
  by (simp add: mapErr_def)

text \<open>A run that succeeded went through every step.\<close>

lemma bindE_Inr_iff:
  "bindE m f s = (Inr y, t) \<longleftrightarrow> (\<exists>x s'. m s = (Inr x, s') \<and> f x s' = (Inr y, t))"
  by (auto simp: bindE_def split: prod.splits sum.splits)

lemma forE_Inr_Cons:
  "forE (x # xs) f w = (Inr u, w') \<longleftrightarrow> (\<exists>w1. f x w = (Inr (), w1) \<and> forE xs f w1 = (Inr u, w'))"
  by (auto simp: bindE_Inr_iff)

lemma bindE_Inl_iff:
  "bindE m f s = (Inl e, t) \<longleftrightarrow>
     m s = (Inl e, t) \<or> (\<exists>x s'. m s = (Inr x, s') \<and> f x s' = (Inl e, t))"
  by (auto simp: bindE_def split: prod.splits sum.splits)

lemma mapErr_Inr_iff [simp]: "mapErr h m s = (Inr x, t) \<longleftrightarrow> m s = (Inr x, t)"
  by (auto simp: mapErr_def split: prod.splits sum.splits)

lemma mapErr_Inl_iff:
  "mapErr h m s = (Inl e, t) \<longleftrightarrow> (\<exists>e'. m s = (Inl e', t) \<and> e = h e')"
  by (auto simp: mapErr_def split: prod.splits sum.splits)

lemma tryE_iff [simp]: "tryE m s = (Inr r, t) \<longleftrightarrow> m s = (r, t)"
  by (auto simp: tryE_def split: prod.splits)

lemma tryE_not_Inl [simp]: "tryE m s \<noteq> (Inl e, t)"
  by (auto simp: tryE_def split: prod.splits)

lemma failIf_Inr_iff [simp]: "failIf c e s = (Inr u, t) \<longleftrightarrow> \<not> c \<and> t = s"
  by (auto simp: failIf_apply)

lemma failIf_Inl_iff [simp]: "failIf c e s = (Inl e', t) \<longleftrightarrow> c \<and> e' = e \<and> t = s"
  by (auto simp: failIf_apply)

lemma liftE_Inr_iff: "liftE r s = (Inr x, t) \<longleftrightarrow> r = Inr x \<and> t = s"
  by auto

section \<open>Hoare triples\<close>

text \<open>
  \<open>valid P m Q E\<close>: from a state where \<open>P\<close> holds, \<open>m\<close> either returns a value and a
  state that satisfy \<open>Q\<close>, or an error and a state that satisfy \<open>E\<close>.
\<close>

definition valid ::
  "('s \<Rightarrow> bool) \<Rightarrow> ('s, 'e, 'a) sem \<Rightarrow> ('a \<Rightarrow> 's \<Rightarrow> bool) \<Rightarrow> ('e \<Rightarrow> 's \<Rightarrow> bool) \<Rightarrow> bool" where
  "valid P m Q E \<longleftrightarrow>
     (\<forall>s. P s \<longrightarrow> (case m s of (Inr x, s') \<Rightarrow> Q x s' | (Inl e, s') \<Rightarrow> E e s'))"

text \<open>\<open>keeps I m\<close>: \<open>I\<close> is an invariant of \<open>m\<close>, on success and on error.\<close>

definition keeps :: "('s \<Rightarrow> bool) \<Rightarrow> ('s, 'e, 'a) sem \<Rightarrow> bool" where
  "keeps I m \<longleftrightarrow> valid I m (\<lambda>_. I) (\<lambda>_. I)"

lemma validI:
  assumes "\<And>s x s'. P s \<Longrightarrow> m s = (Inr x, s') \<Longrightarrow> Q x s'"
    and "\<And>s e s'. P s \<Longrightarrow> m s = (Inl e, s') \<Longrightarrow> E e s'"
  shows "valid P m Q E"
  using assms by (auto simp: valid_def split: prod.splits sum.splits)

lemma validD_Inr: "valid P m Q E \<Longrightarrow> P s \<Longrightarrow> m s = (Inr x, s') \<Longrightarrow> Q x s'"
  by (force simp: valid_def)

lemma validD_Inl: "valid P m Q E \<Longrightarrow> P s \<Longrightarrow> m s = (Inl e, s') \<Longrightarrow> E e s'"
  by (force simp: valid_def)

lemma valid_conseq:
  assumes "valid P' m Q' E'" "\<And>s. P s \<Longrightarrow> P' s"
    "\<And>x s. Q' x s \<Longrightarrow> Q x s" "\<And>e s. E' e s \<Longrightarrow> E e s"
  shows "valid P m Q E"
  using assms by (fastforce simp: valid_def split: prod.splits sum.splits)

lemma valid_bindE:
  assumes "valid P m R E" and "\<And>x. valid (R x) (f x) Q E"
  shows "valid P (bindE m f) Q E"
proof (rule validI)
  fix s y t assume "P s" "bindE m f s = (Inr y, t)"
  then show "Q y t" using assms by (auto simp: bindE_Inr_iff dest!: validD_Inr)
next
  fix s e t assume "P s" "bindE m f s = (Inl e, t)"
  then show "E e t" using assms by (auto simp: bindE_Inl_iff dest: validD_Inr validD_Inl)
qed

lemma valid_returnE: "(\<And>s. P s \<Longrightarrow> Q x s) \<Longrightarrow> valid P (returnE x) Q E"
  by (simp add: valid_def)

lemma keepsI: "(\<And>s r s'. I s \<Longrightarrow> m s = (r, s') \<Longrightarrow> I s') \<Longrightarrow> keeps I m"
  by (auto simp: keeps_def valid_def split: prod.splits sum.splits)

lemma keepsD: "keeps I m \<Longrightarrow> I s \<Longrightarrow> m s = (r, s') \<Longrightarrow> I s'"
  by (cases r) (auto simp: keeps_def valid_def)

lemma keeps_snd: "keeps I m \<Longrightarrow> I s \<Longrightarrow> I (snd (m s))"
  by (cases "m s") (auto dest: keepsD)

lemma keeps_returnE [valid_rules]: "keeps I (returnE x)"
  by (rule keepsI) simp

lemma keeps_throwE [valid_rules]: "keeps I (throwE e)"
  by (rule keepsI) simp

lemma keeps_liftE [valid_rules]: "keeps I (liftE r)"
  by (rule keepsI) simp

lemma keeps_asksE [valid_rules]: "keeps I (asksE f)"
  by (rule keepsI) auto

lemma keeps_failIf [valid_rules]: "keeps I (failIf c e)"
  by (rule keepsI) (simp add: failIf_apply)

lemma keeps_modifyE: "(\<And>s. I s \<Longrightarrow> I (f s)) \<Longrightarrow> keeps I (modifyE f)"
  by (rule keepsI) auto

lemma keeps_bindE [valid_rules]: "keeps I m \<Longrightarrow> (\<And>x. keeps I (f x)) \<Longrightarrow> keeps I (bindE m f)"
  unfolding keeps_def by (rule valid_bindE)

lemma keeps_tryE [valid_rules]: "keeps I m \<Longrightarrow> keeps I (tryE m)"
  by (rule keepsI) (auto simp: tryE_def split: prod.splits dest: keepsD)

lemma keeps_mapErr [valid_rules]: "keeps I m \<Longrightarrow> keeps I (mapErr h m)"
  by (rule keepsI) (auto simp: mapErr_def split: prod.splits sum.splits dest: keepsD)

lemma keeps_forE [valid_rules]: "(\<And>x. keeps I (f x)) \<Longrightarrow> keeps I (forE xs f)"
  by (induction xs) (auto intro: valid_rules)

lemma keeps_if [valid_rules]:
  "(c \<Longrightarrow> keeps I m) \<Longrightarrow> (\<not> c \<Longrightarrow> keeps I n) \<Longrightarrow> keeps I (if c then m else n)"
  by simp

lemma keeps_case_option [valid_rules]:
  "keeps I m \<Longrightarrow> (\<And>x. keeps I (f x)) \<Longrightarrow> keeps I (case opt of None \<Rightarrow> m | Some x \<Rightarrow> f x)"
  by (cases opt) auto

lemma keeps_case_sum [valid_rules]:
  "(\<And>e. keeps I (f e)) \<Longrightarrow> (\<And>x. keeps I (g x)) \<Longrightarrow>
   keeps I (case r of Inl e \<Rightarrow> f e | Inr x \<Rightarrow> g x)"
  by (cases r) auto

lemma keeps_case_prod [valid_rules]:
  "(\<And>x y. keeps I (f x y)) \<Longrightarrow> keeps I (case p of (x, y) \<Rightarrow> f x y)"
  by (cases p) auto

lemma keeps_Let [valid_rules]: "(\<And>x. keeps I (f x)) \<Longrightarrow> keeps I (Let v f)"
  by simp

section \<open>Table rows\<close>

text \<open>A table is the list of its rows, in the order of their insertion.\<close>

definition upd_where :: "('r \<Rightarrow> bool) \<Rightarrow> ('r \<Rightarrow> 'r) \<Rightarrow> 'r list \<Rightarrow> 'r list" where
  "upd_where P f rows = map (\<lambda>r. if P r then f r else r) rows"

definition del_where :: "('r \<Rightarrow> bool) \<Rightarrow> 'r list \<Rightarrow> 'r list" where
  "del_where P rows = filter (\<lambda>r. \<not> P r) rows"

lemma upd_where_Nil [simp]: "upd_where P f [] = []"
  by (simp add: upd_where_def)

lemma upd_where_Cons [simp]:
  "upd_where P f (r # rows) = (if P r then f r else r) # upd_where P f rows"
  by (simp add: upd_where_def)

lemma upd_where_append [simp]:
  "upd_where P f (xs @ ys) = upd_where P f xs @ upd_where P f ys"
  by (simp add: upd_where_def)

lemma set_upd_where: "set (upd_where P f rows) = (\<lambda>r. if P r then f r else r) ` set rows"
  by (simp add: upd_where_def)

lemma in_upd_where:
  "r \<in> set (upd_where P f rows) \<longleftrightarrow>
     (\<exists>r' \<in> set rows. r = (if P r' then f r' else r'))"
  by (auto simp: set_upd_where)

lemma length_upd_where [simp]: "length (upd_where P f rows) = length rows"
  by (simp add: upd_where_def)

lemma del_where_Nil [simp]: "del_where P [] = []"
  by (simp add: del_where_def)

lemma del_where_Cons [simp]:
  "del_where P (r # rows) = (if P r then del_where P rows else r # del_where P rows)"
  by (simp add: del_where_def)

lemma set_del_where [simp]: "set (del_where P rows) = {r \<in> set rows. \<not> P r}"
  by (auto simp: del_where_def)

lemma map_upd_where_key: "(\<And>r. key (f r) = key r) \<Longrightarrow> map key (upd_where P f rows) = map key rows"
  by (induction rows) auto

lemma distinct_del_where: "distinct (map key rows) \<Longrightarrow> distinct (map key (del_where P rows))"
  by (induction rows) auto

lemma upd_where_none: "(\<And>r. r \<in> set rows \<Longrightarrow> \<not> P r) \<Longrightarrow> upd_where P f rows = rows"
  by (induction rows) auto

lemma find_append: "find P (xs @ ys) = (case find P xs of None \<Rightarrow> find P ys | Some x \<Rightarrow> Some x)"
  by (induction xs) auto

lemma find_SomeD: "find P xs = Some x \<Longrightarrow> x \<in> set xs \<and> P x"
  by (induction xs) (auto split: if_splits)

lemma find_SomeE:
  assumes "find P xs = Some x"
  obtains "x \<in> set xs" "P x"
  using find_SomeD [OF assms] by blast

lemma find_None_set: "find P xs = None \<longleftrightarrow> (\<forall>x \<in> set xs. \<not> P x)"
  by (induction xs) auto

lemma find_key_unique:
  "distinct (map key rows) \<Longrightarrow> r \<in> set rows \<Longrightarrow> find (\<lambda>x. key x = key r) rows = Some r"
  by (induction rows) (auto simp: image_iff)

lemma distinct_keys_eq:
  "distinct (map key rows) \<Longrightarrow> r \<in> set rows \<Longrightarrow> r' \<in> set rows \<Longrightarrow> key r = key r' \<Longrightarrow> r = r'"
  by (induction rows) (auto simp: image_iff)

lemma find_upd_where:
  assumes "\<And>r. key (f r) = key r"
  shows "find (\<lambda>r. key r = k) (upd_where (\<lambda>r. key r = j) f rows) =
    (if k = j then map_option f (find (\<lambda>r. key r = k) rows) else find (\<lambda>r. key r = k) rows)"
  by (induction rows) (auto simp: assms)

lemma filter_Cons_find: "filter P xs = x # ys \<Longrightarrow> find P xs = Some x"
  by (induction xs) (auto split: if_splits)

lemma filter_Nil_find: "filter P xs = [] \<longleftrightarrow> find P xs = None"
  by (induction xs) auto

lemma find_upd_where_sub:
  assumes "\<And>r. key (f r) = key r" and "\<And>r. key r = j \<Longrightarrow> Q r \<Longrightarrow> \<not> Q (f r)"
  shows "find (\<lambda>r. key r = k \<and> Q r) (upd_where (\<lambda>r. key r = j \<and> Q r) f rows) =
    (if k = j then None else find (\<lambda>r. key r = k \<and> Q r) rows)"
  by (induction rows) (auto simp: assms)

end
