(* ===== verification/CTF_Errors.thy ===== *)
theory CTF_Errors
  imports CTF_Prelude
begin

text \<open>
  The error values of the backend: the sentinels of \<open>internal/entity/error\<close> with their HTTP
  status and code, the driver's errors, and the wrapping that \<open>fmt.Errorf\<close> with \<open>%w\<close>
  builds. \<open>errors_is\<close> and \<open>errors_as_http\<close> walk the chain as the Go \<open>errors\<close> package
  does, and \<open>handle_error\<close> is the reply that \<open>httputil.HandleError\<close> writes.
\<close>

section \<open>Sentinels\<close>

datatype sentinel =
    ErrAppSettingsNotFound
  | ErrConfigNotFound
  | ErrBracketNotFound
  | ErrBracketNameConflict
  | ErrChallengeNotFound
  | ErrUserMustBeInTeam
  | ErrInvalidFlagFormat
  | ErrCommentNotFound
  | ErrCommentForbidden
  | ErrCompetitionNotFound
  | ErrCompetitionNotActive
  | ErrCompetitionNotStarted
  | ErrCompetitionEnded
  | ErrCompetitionPaused
  | ErrFieldNotFound
  | ErrFileNotFound
  | ErrHintNotFound
  | ErrHintAlreadyUnlocked
  | ErrInsufficientPoints
  | ErrPageNotFound
  | ErrPageSlugConflict
  | ErrCTFEventNotFound
  | ErrGlobalRatingNotFound
  | ErrSolveNotFound
  | ErrAlreadySolved
  | ErrTagNotFound
  | ErrTeamNotFound
  | ErrTeamAlreadyExists
  | ErrUserAlreadyInTeam
  | ErrTeamFull
  | ErrNotCaptain
  | ErrCannotLeaveAsOnlyMember
  | ErrNewCaptainNotInTeam
  | ErrCannotTransferToSelf
  | ErrNoTeamSelected
  | ErrCannotSwitchTeams
  | ErrInvalidTransition
  | ErrSoloModeNotAllowed
  | ErrTeamModeRequired
  | ErrConfirmationRequired
  | ErrRosterFrozen
  | ErrEmailNotVerified
  | ErrTeamBanned
  | ErrUserNotFound
  | ErrUserAlreadyExists
  | ErrInvalidCredentials
  | ErrTokenNotFound
  | ErrTokenExpired
  | ErrTokenAlreadyUsed
  | ErrUserNotVerified
  | ErrNotAuthenticated
  | ErrNotificationNotFound

record http_error =
  Err :: string
  StatusCode :: nat
  Code :: string

definition HTTPError :: "string \<Rightarrow> nat \<Rightarrow> string \<Rightarrow> http_error" where
  "HTTPError msg status code = \<lparr>Err = msg, StatusCode = status, Code = code\<rparr>"

text \<open>One table per file of \<open>internal/entity/error\<close>.\<close>

definition app_settings_errors :: "(sentinel \<times> http_error) list" where
  "app_settings_errors = [
    (ErrAppSettingsNotFound, HTTPError ''app settings not found'' 404 ''APP_SETTINGS_NOT_FOUND''),
    (ErrConfigNotFound, HTTPError ''config not found'' 404 ''CONFIG_NOT_FOUND'')]"

definition bracket_errors :: "(sentinel \<times> http_error) list" where
  "bracket_errors = [
    (ErrBracketNotFound, HTTPError ''bracket not found'' 404 ''BRACKET_NOT_FOUND''),
    (ErrBracketNameConflict, HTTPError ''bracket name already exists'' 409 ''BRACKET_NAME_CONFLICT'')]"

definition challenge_errors :: "(sentinel \<times> http_error) list" where
  "challenge_errors = [
    (ErrChallengeNotFound, HTTPError ''challenge not found'' 404 ''CHALLENGE_NOT_FOUND''),
    (ErrUserMustBeInTeam, HTTPError ''user must be in a team to submit flags'' 403 ''USER_NOT_IN_TEAM''),
    (ErrInvalidFlagFormat, HTTPError ''invalid flag format'' 400 ''INVALID_FLAG_FORMAT'')]"

definition comment_errors :: "(sentinel \<times> http_error) list" where
  "comment_errors = [
    (ErrCommentNotFound, HTTPError ''comment not found'' 404 ''COMMENT_NOT_FOUND''),
    (ErrCommentForbidden, HTTPError ''not allowed to modify this comment'' 403 ''COMMENT_FORBIDDEN'')]"

definition competition_errors :: "(sentinel \<times> http_error) list" where
  "competition_errors = [
    (ErrCompetitionNotFound, HTTPError ''competition not found'' 404 ''COMPETITION_NOT_FOUND''),
    (ErrCompetitionNotActive, HTTPError ''competition is not active'' 403 ''COMPETITION_NOT_ACTIVE''),
    (ErrCompetitionNotStarted, HTTPError ''competition has not started yet'' 403 ''COMPETITION_NOT_STARTED''),
    (ErrCompetitionEnded, HTTPError ''competition has ended'' 403 ''COMPETITION_ENDED''),
    (ErrCompetitionPaused, HTTPError ''competition is paused'' 403 ''COMPETITION_PAUSED'')]"

definition field_errors :: "(sentinel \<times> http_error) list" where
  "field_errors = [
    (ErrFieldNotFound, HTTPError ''field not found'' 404 ''FIELD_NOT_FOUND'')]"

definition file_errors :: "(sentinel \<times> http_error) list" where
  "file_errors = [
    (ErrFileNotFound, HTTPError ''file not found'' 404 ''FILE_NOT_FOUND'')]"

definition hint_errors :: "(sentinel \<times> http_error) list" where
  "hint_errors = [
    (ErrHintNotFound, HTTPError ''hint not found'' 404 ''HINT_NOT_FOUND''),
    (ErrHintAlreadyUnlocked, HTTPError ''hint already unlocked'' 409 ''HINT_ALREADY_UNLOCKED''),
    (ErrInsufficientPoints, HTTPError ''insufficient points to unlock hint'' 402 ''INSUFFICIENT_POINTS'')]"

definition page_errors :: "(sentinel \<times> http_error) list" where
  "page_errors = [
    (ErrPageNotFound, HTTPError ''page not found'' 404 ''PAGE_NOT_FOUND''),
    (ErrPageSlugConflict, HTTPError ''page slug already exists'' 409 ''PAGE_SLUG_CONFLICT'')]"

definition rating_errors :: "(sentinel \<times> http_error) list" where
  "rating_errors = [
    (ErrCTFEventNotFound, HTTPError ''ctf event not found'' 404 ''CTF_EVENT_NOT_FOUND''),
    (ErrGlobalRatingNotFound, HTTPError ''global rating not found'' 404 ''GLOBAL_RATING_NOT_FOUND'')]"

definition solve_errors :: "(sentinel \<times> http_error) list" where
  "solve_errors = [
    (ErrSolveNotFound, HTTPError ''solve not found'' 404 ''SOLVE_NOT_FOUND''),
    (ErrAlreadySolved, HTTPError ''already solved'' 409 ''ALREADY_SOLVED'')]"

definition tag_errors :: "(sentinel \<times> http_error) list" where
  "tag_errors = [
    (ErrTagNotFound, HTTPError ''tag not found'' 404 ''TAG_NOT_FOUND'')]"

definition team_errors :: "(sentinel \<times> http_error) list" where
  "team_errors = [
    (ErrTeamNotFound, HTTPError ''team not found'' 404 ''TEAM_NOT_FOUND''),
    (ErrTeamAlreadyExists, HTTPError ''team already exists'' 409 ''TEAM_ALREADY_EXISTS''),
    (ErrUserAlreadyInTeam, HTTPError ''user already in team'' 409 ''USER_ALREADY_IN_TEAM''),
    (ErrTeamFull, HTTPError ''team is full'' 409 ''TEAM_FULL''),
    (ErrNotCaptain, HTTPError ''only captain can perform this action'' 403 ''NOT_CAPTAIN''),
    (ErrCannotLeaveAsOnlyMember, HTTPError ''cannot leave team as only member, delete team instead'' 409 ''CANNOT_LEAVE_AS_ONLY_MEMBER''),
    (ErrNewCaptainNotInTeam, HTTPError ''new captain must be a member of the team'' 400 ''NEW_CAPTAIN_NOT_IN_TEAM''),
    (ErrCannotTransferToSelf, HTTPError ''cannot transfer captainship to yourself'' 400 ''CANNOT_TRANSFER_TO_SELF''),
    (ErrNoTeamSelected, HTTPError ''user has not selected a participation mode'' 400 ''NO_TEAM_SELECTED''),
    (ErrCannotSwitchTeams, HTTPError ''team switching is disabled for this competition'' 403 ''CANNOT_SWITCH_TEAMS''),
    (ErrInvalidTransition, HTTPError ''invalid participation state transition'' 400 ''INVALID_TRANSITION''),
    (ErrSoloModeNotAllowed, HTTPError ''solo mode is not allowed for this competition'' 403 ''SOLO_MODE_NOT_ALLOWED''),
    (ErrTeamModeRequired, HTTPError ''this competition requires team participation'' 403 ''TEAM_MODE_REQUIRED''),
    (ErrConfirmationRequired, HTTPError ''confirmation required for this action'' 400 ''CONFIRMATION_REQUIRED''),
    (ErrRosterFrozen, HTTPError ''team roster is frozen'' 403 ''ROSTER_FROZEN''),
    (ErrEmailNotVerified, HTTPError ''email verification required'' 403 ''EMAIL_NOT_VERIFIED''),
    (ErrTeamBanned, HTTPError ''team is banned'' 403 ''TEAM_BANNED'')]"

definition user_errors :: "(sentinel \<times> http_error) list" where
  "user_errors = [
    (ErrUserNotFound, HTTPError ''user not found'' 404 ''USER_NOT_FOUND''),
    (ErrUserAlreadyExists, HTTPError ''user already exists'' 409 ''USER_ALREADY_EXISTS''),
    (ErrInvalidCredentials, HTTPError ''invalid credentials'' 401 ''INVALID_CREDENTIALS''),
    (ErrTokenNotFound, HTTPError ''token not found'' 404 ''TOKEN_NOT_FOUND''),
    (ErrTokenExpired, HTTPError ''token expired'' 400 ''TOKEN_EXPIRED''),
    (ErrTokenAlreadyUsed, HTTPError ''token already used'' 400 ''TOKEN_ALREADY_USED''),
    (ErrUserNotVerified, HTTPError ''email not verified'' 401 ''USER_NOT_VERIFIED''),
    (ErrNotAuthenticated, HTTPError ''not authenticated'' 401 ''NOT_AUTHENTICATED'')]"

definition http_errors :: "(sentinel \<times> http_error) list" where
  "http_errors = app_settings_errors @ bracket_errors @ challenge_errors @ comment_errors @ competition_errors @ field_errors @ file_errors @ hint_errors @ page_errors @ rating_errors @ solve_errors @ tag_errors @ team_errors @ user_errors"

lemmas http_error_tables = app_settings_errors_def bracket_errors_def challenge_errors_def comment_errors_def competition_errors_def field_errors_def file_errors_def hint_errors_def page_errors_def rating_errors_def solve_errors_def tag_errors_def team_errors_def user_errors_def

text \<open>
  The dynamic type of a sentinel: \<open>*HTTPError\<close> for the entries of the tables, a plain
  \<open>errors.New\<close> value for \<open>ErrNotificationNotFound\<close>.
\<close>

definition sentinel_http :: "sentinel \<Rightarrow> http_error option" where
  "sentinel_http s = map_of http_errors s"

definition sentinel_msg :: "sentinel \<Rightarrow> string" where
  "sentinel_msg s =
     (case sentinel_http s of Some h \<Rightarrow> Err h | None \<Rightarrow> ''notification not found'')"

section \<open>Error values\<close>

text \<open>What the driver reports: no row, a constraint, a value out of range, a failure.\<close>

datatype pgerr =
    NoRows
  | UniqueViolation
  | ForeignKeyViolation
  | CheckViolation
  | OutOfRange
  | Failure

text \<open>
  \<open>Wrapf pre e post\<close> is \<open>fmt.Errorf(pre + "%w" + post, e)\<close>, \<open>Wrapf2\<close> the form with two
  \<open>%w\<close>, \<open>Plain\<close> an error that wraps nothing. \<open>GoPanic\<close> is the outcome of code that
  panicked instead of returning.
\<close>

datatype goerr =
    Sentinel sentinel
  | Pg pgerr
  | Plain string
  | Wrapf string goerr string
  | Wrapf2 string goerr string goerr
  | GoPanic

text \<open>\<open>usecaseutil.Wrap\<close>: nil stays nil, an error is wrapped as \<open>msg: err\<close>.\<close>

definition Wrap_nil :: "goerr option \<Rightarrow> string \<Rightarrow> goerr option" where
  "Wrap_nil err msg =
     (case err of None \<Rightarrow> None | Some e \<Rightarrow> Some (Wrapf (msg @ '': '') e ''''))"

abbreviation wrap :: "string \<Rightarrow> goerr \<Rightarrow> goerr" where
  "wrap msg e \<equiv> Wrapf (msg @ '': '') e ''''"

lemma Wrap_nil_Some [simp]: "Wrap_nil (Some e) msg = Some (wrap msg e)"
  by (simp add: Wrap_nil_def)

lemma Wrap_nil_None [simp]: "Wrap_nil None msg = None"
  by (simp add: Wrap_nil_def)

text \<open>The text of the driver's errors is not the program's: it is left as a constant.\<close>

fun error_msg :: "goerr \<Rightarrow> string" where
  "error_msg (Sentinel s) = sentinel_msg s"
| "error_msg (Pg e) = ''database error''"
| "error_msg (Plain s) = s"
| "error_msg (Wrapf a e b) = a @ error_msg e @ b"
| "error_msg (Wrapf2 a e b e') = a @ error_msg e @ b @ error_msg e'"
| "error_msg GoPanic = ''panic''"

text \<open>\<open>errors.Is(err, target)\<close> for a target that is a leaf.\<close>

fun errors_is :: "goerr \<Rightarrow> goerr \<Rightarrow> bool" where
  "errors_is (Wrapf a e b) t = errors_is e t"
| "errors_is (Wrapf2 a e b e') t = (errors_is e t \<or> errors_is e' t)"
| "errors_is e t = (e = t)"

text \<open>\<open>errors.As(err, &httpErr)\<close>: the first \<open>*HTTPError\<close> of the tree, in depth-first order.\<close>

fun errors_as_http :: "goerr \<Rightarrow> http_error option" where
  "errors_as_http (Sentinel s) = sentinel_http s"
| "errors_as_http (Wrapf a e b) = errors_as_http e"
| "errors_as_http (Wrapf2 a e b e') =
     (case errors_as_http e of Some h \<Rightarrow> Some h | None \<Rightarrow> errors_as_http e')"
| "errors_as_http (Pg _) = None"
| "errors_as_http (Plain _) = None"
| "errors_as_http GoPanic = None"

abbreviation is_sentinel :: "goerr \<Rightarrow> sentinel \<Rightarrow> bool" where
  "is_sentinel e s \<equiv> errors_is e (Sentinel s)"

definition isNoRows :: "goerr \<Rightarrow> bool" where
  "isNoRows e = errors_is e (Pg NoRows)"

text \<open>The only driver error with code 23505 is the unique violation.\<close>

definition isPgUniqueViolation :: "goerr \<Rightarrow> bool" where
  "isPgUniqueViolation e = errors_is e (Pg UniqueViolation)"

section \<open>The HTTP reply\<close>

record error_response =
  resp_status :: nat
  resp_error :: string
  resp_code :: string

definition handle_error :: "goerr \<Rightarrow> error_response" where
  "handle_error e =
     (case errors_as_http e of
        Some h \<Rightarrow> \<lparr>resp_status = StatusCode h, resp_error = Err h, resp_code = Code h\<rparr>
      | None \<Rightarrow> \<lparr>resp_status = 500, resp_error = ''Internal server error'', resp_code = ''''\<rparr>)"

section \<open>Facts about the tables and the chain\<close>

lemma http_errors_distinct: "distinct (map fst http_errors)"
  by (simp add: http_errors_def http_error_tables)

lemma sentinel_http_in: "(s, h) \<in> set http_errors \<Longrightarrow> sentinel_http s = Some h"
  unfolding sentinel_http_def by (rule map_of_is_SomeI [OF http_errors_distinct])

lemma http_errors_status:
  "list_all (\<lambda>(s, h). StatusCode h \<in> {400, 401, 402, 403, 404, 409}) http_errors"
  by (simp add: http_errors_def http_error_tables HTTPError_def)

lemma http_errors_keys:
  "set (map fst http_errors) = {s. s \<noteq> ErrNotificationNotFound}"
proof -
  have "ErrNotificationNotFound \<notin> set (map fst http_errors)"
    by (simp add: http_errors_def http_error_tables)
  moreover have "s \<in> set (map fst http_errors)" if "s \<noteq> ErrNotificationNotFound" for s
    using that by (cases s) (simp_all add: http_errors_def http_error_tables)
  ultimately show ?thesis by blast
qed

lemma sentinel_http_None: "sentinel_http s = None \<longleftrightarrow> s = ErrNotificationNotFound"
  using http_errors_keys by (auto simp: sentinel_http_def map_of_eq_None_iff)

text \<open>Wrapping in front of an error or behind it changes neither its identity nor its reply.\<close>

lemma handle_error_Wrapf [simp]: "handle_error (Wrapf a e b) = handle_error e"
  by (simp add: handle_error_def)

lemma handle_error_wraps:
  "handle_error (foldr (\<lambda>m e. wrap m e) ms e) = handle_error e"
  by (induction ms) auto

lemma errors_is_wraps:
  "errors_is (foldr (\<lambda>m e. wrap m e) ms e) t = errors_is e t"
  by (induction ms) auto

lemma errors_is_refl_leaf [simp]:
  "errors_is (Sentinel s) (Sentinel s)" "errors_is (Pg p) (Pg p)"
  by auto

lemma isNoRows_Pg [simp]: "isNoRows (Pg p) \<longleftrightarrow> p = NoRows"
  by (simp add: isNoRows_def)

lemma isPgUnique_Pg [simp]: "isPgUniqueViolation (Pg p) \<longleftrightarrow> p = UniqueViolation"
  by (simp add: isPgUniqueViolation_def)

end
