(* ===== verification/CTF_Entities.thy ===== *)
theory CTF_Entities
  imports CTF_Prelude Complex_Main
begin

text \<open>
  The structs of \<open>internal/entity\<close> as records, field by field and in the source's order, with a
  prefix per struct; their string types and constants; the records of \<open>internal/repo\<close>. A
  pointer field is an option, a \<open>float64\<close> the rational it denotes, a
  \<open>time.Time\<close> an integer number of microseconds (what the database stores), a JSON map an
  association list.
\<close>

section \<open>Constants\<close>

datatype json = JNull | JBool bool | JInt int | JStr string | JUuid uuid

type_synonym details = "(string \<times> json) list"

abbreviation RoleUser :: string where
  "RoleUser \<equiv> ''user''"

abbreviation RoleAdmin :: string where
  "RoleAdmin \<equiv> ''admin''"

abbreviation TeamActionCreated :: string where
  "TeamActionCreated \<equiv> ''created''"

abbreviation TeamActionJoined :: string where
  "TeamActionJoined \<equiv> ''joined''"

abbreviation TeamActionLeft :: string where
  "TeamActionLeft \<equiv> ''left''"

abbreviation TeamActionCaptainTransfer :: string where
  "TeamActionCaptainTransfer \<equiv> ''captain_transferred''"

abbreviation TeamActionDeleted :: string where
  "TeamActionDeleted \<equiv> ''deleted''"

abbreviation TeamActionMemberKicked :: string where
  "TeamActionMemberKicked \<equiv> ''member_kicked''"

abbreviation AuditActionCreate :: string where
  "AuditActionCreate \<equiv> ''create''"

abbreviation AuditActionUpdate :: string where
  "AuditActionUpdate \<equiv> ''update''"

abbreviation AuditActionDelete :: string where
  "AuditActionDelete \<equiv> ''delete''"

abbreviation AuditActionBan :: string where
  "AuditActionBan \<equiv> ''ban''"

abbreviation AuditActionUnban :: string where
  "AuditActionUnban \<equiv> ''unban''"

abbreviation AuditEntityChallenge :: string where
  "AuditEntityChallenge \<equiv> ''challenge''"

abbreviation AuditEntityCompetition :: string where
  "AuditEntityCompetition \<equiv> ''competition''"

abbreviation AuditEntityTeam :: string where
  "AuditEntityTeam \<equiv> ''team''"

abbreviation AuditEntityUser :: string where
  "AuditEntityUser \<equiv> RoleUser"

abbreviation AuditEntityAppSettings :: string where
  "AuditEntityAppSettings \<equiv> ''app_settings''"

abbreviation CompetitionStatusNotStarted :: string where
  "CompetitionStatusNotStarted \<equiv> ''not_started''"

abbreviation CompetitionStatusActive :: string where
  "CompetitionStatusActive \<equiv> ''active''"

abbreviation CompetitionStatusPaused :: string where
  "CompetitionStatusPaused \<equiv> ''paused''"

abbreviation CompetitionStatusFrozen :: string where
  "CompetitionStatusFrozen \<equiv> ''frozen''"

abbreviation CompetitionStatusEnded :: string where
  "CompetitionStatusEnded \<equiv> ''ended''"

abbreviation ModeSoloOnly :: string where
  "ModeSoloOnly \<equiv> ''solo_only''"

abbreviation ModeTeamsOnly :: string where
  "ModeTeamsOnly \<equiv> ''teams_only''"

abbreviation ModeFlexible :: string where
  "ModeFlexible \<equiv> ''flexible''"

abbreviation FieldTypeText :: string where
  "FieldTypeText \<equiv> ''text''"

abbreviation FieldTypeNumber :: string where
  "FieldTypeNumber \<equiv> ''number''"

abbreviation FieldTypeSelect :: string where
  "FieldTypeSelect \<equiv> ''select''"

abbreviation FieldTypeBoolean :: string where
  "FieldTypeBoolean \<equiv> ''boolean''"

abbreviation EntityTypeUser :: string where
  "EntityTypeUser \<equiv> ''user''"

abbreviation EntityTypeTeam :: string where
  "EntityTypeTeam \<equiv> ''team''"

abbreviation NotificationInfo :: string where
  "NotificationInfo \<equiv> ''info''"

abbreviation NotificationWarning :: string where
  "NotificationWarning \<equiv> ''warning''"

abbreviation NotificationSuccess :: string where
  "NotificationSuccess \<equiv> ''success''"

abbreviation NotificationError :: string where
  "NotificationError \<equiv> ''error''"

abbreviation ConfigTypeString :: string where
  "ConfigTypeString \<equiv> ''string''"

abbreviation ConfigTypeInt :: string where
  "ConfigTypeInt \<equiv> ''int''"

abbreviation ConfigTypeBool :: string where
  "ConfigTypeBool \<equiv> ''bool''"

abbreviation ConfigTypeJSON :: string where
  "ConfigTypeJSON \<equiv> ''json''"

abbreviation ScoreboardVisiblePublic :: string where
  "ScoreboardVisiblePublic \<equiv> ''public''"

abbreviation ScoreboardVisibleHidden :: string where
  "ScoreboardVisibleHidden \<equiv> ''hidden''"

abbreviation ScoreboardVisibleAdminsOnly :: string where
  "ScoreboardVisibleAdminsOnly \<equiv> ''admins_only''"

abbreviation TokenTypeEmailVerification :: string where
  "TokenTypeEmailVerification \<equiv> ''email_verification''"

abbreviation TokenTypePasswordReset :: string where
  "TokenTypePasswordReset \<equiv> ''password_reset''"

abbreviation FileTypeChallenge :: string where
  "FileTypeChallenge \<equiv> ''challenge''"

abbreviation FileTypeWriteup :: string where
  "FileTypeWriteup \<equiv> ''writeup''"

section \<open>Entities\<close>

record user =
  user_ID :: uuid
  user_TeamID :: "uuid option"
  user_Username :: string
  user_Email :: string
  user_PasswordHash :: string
  user_Role :: string
  user_IsVerified :: bool
  user_VerifiedAt :: "time option"
  user_CreatedAt :: time

record team =
  team_ID :: uuid
  team_Name :: string
  team_InviteToken :: uuid
  team_CaptainID :: uuid
  team_BracketID :: "uuid option"
  team_IsSolo :: bool
  team_IsAutoCreated :: bool
  team_IsBanned :: bool
  team_BannedAt :: "time option"
  team_BannedReason :: "string option"
  team_IsHidden :: bool
  team_CreatedAt :: time

record team_audit_log =
  talog_ID :: uuid
  talog_TeamID :: uuid
  talog_UserID :: uuid
  talog_Action :: string
  talog_Details :: details
  talog_CreatedAt :: time

record audit_log =
  alog_ID :: uuid
  alog_UserID :: "uuid option"
  alog_Action :: string
  alog_EntityType :: string
  alog_EntityID :: string
  alog_IP :: string
  alog_Details :: details
  alog_CreatedAt :: time

record challenge =
  chal_ID :: uuid
  chal_Title :: string
  chal_Description :: string
  chal_Category :: string
  chal_Points :: int
  chal_InitialValue :: int
  chal_MinValue :: int
  chal_Decay :: int
  chal_SolveCount :: int
  chal_FlagHash :: string
  chal_IsHidden :: bool
  chal_IsRegex :: bool
  chal_IsCaseInsensitive :: bool
  chal_FlagRegex :: string
  chal_FlagFormatRegex :: "string option"

record solve =
  solve_ID :: uuid
  solve_UserID :: uuid
  solve_TeamID :: uuid
  solve_ChallengeID :: uuid
  solve_SolvedAt :: time

record hint =
  hint_ID :: uuid
  hint_ChallengeID :: uuid
  hint_Content :: string
  hint_Cost :: int
  hint_OrderIndex :: int

record hint_unlock =
  unlock_ID :: uuid
  unlock_HintID :: uuid
  unlock_TeamID :: uuid
  unlock_UnlockedAt :: time

record award =
  award_ID :: uuid
  award_TeamID :: uuid
  award_Value :: int
  award_Description :: string
  award_CreatedBy :: "uuid option"
  award_CreatedAt :: time

record competition =
  comp_ID :: int
  comp_Name :: string
  comp_StartTime :: "time option"
  comp_EndTime :: "time option"
  comp_FreezeTime :: "time option"
  comp_IsPaused :: bool
  comp_IsPublic :: bool
  comp_FlagRegex :: "string option"
  comp_Mode :: string
  comp_AllowTeamSwitch :: bool
  comp_MinTeamSize :: int
  comp_MaxTeamSize :: int
  comp_CreatedAt :: time
  comp_UpdatedAt :: time

record submission =
  sub_ID :: uuid
  sub_UserID :: uuid
  sub_TeamID :: "uuid option"
  sub_ChallengeID :: uuid
  sub_SubmittedFlag :: string
  sub_IsCorrect :: bool
  sub_IP :: string
  sub_CreatedAt :: time

record submission_stats =
  substats_Total :: int
  substats_Correct :: int
  substats_Incorrect :: int

record tag =
  tag_ID :: uuid
  tag_Name :: string
  tag_Color :: string

record bracket =
  bracket_ID :: uuid
  bracket_Name :: string
  bracket_Description :: string
  bracket_IsDefault :: bool
  bracket_CreatedAt :: time

record page =
  page_ID :: uuid
  page_Title :: string
  page_Slug :: string
  page_Content :: string
  page_IsDraft :: bool
  page_OrderIndex :: int
  page_CreatedAt :: time
  page_UpdatedAt :: time

record page_list_item =
  pitem_ID :: uuid
  pitem_Title :: string
  pitem_Slug :: string
  pitem_OrderIndex :: int

record notification =
  notif_ID :: uuid
  notif_Title :: string
  notif_Content :: string
  notif_Type :: string
  notif_IsPinned :: bool
  notif_IsGlobal :: bool
  notif_CreatedAt :: time

record user_notification =
  unotif_ID :: uuid
  unotif_UserID :: uuid
  unotif_NotificationID :: "uuid option"
  unotif_Title :: string
  unotif_Content :: string
  unotif_Type :: string
  unotif_IsRead :: bool
  unotif_CreatedAt :: time

record field =
  field_ID :: uuid
  field_Name :: string
  field_FieldType :: string
  field_EntityType :: string
  field_Required :: bool
  field_Options :: "string list"
  field_OrderIndex :: int
  field_CreatedAt :: time

record field_value =
  fval_ID :: uuid
  fval_FieldID :: uuid
  fval_EntityID :: uuid
  fval_Value :: string
  fval_CreatedAt :: time

record comment =
  comment_ID :: uuid
  comment_UserID :: uuid
  comment_ChallengeID :: uuid
  comment_Content :: string
  comment_CreatedAt :: time
  comment_UpdatedAt :: time

record config =
  config_Key :: string
  config_Value :: string
  config_ValueType :: string
  config_Description :: string
  config_UpdatedAt :: time

record app_settings =
  set_ID :: int
  set_AppName :: string
  set_VerifyEmails :: bool
  set_FrontendURL :: string
  set_CORSOrigins :: string
  set_ResendEnabled :: bool
  set_ResendFromEmail :: string
  set_ResendFromName :: string
  set_VerifyTTLHours :: int
  set_ResetTTLHours :: int
  set_SubmitLimitPerUser :: int
  set_SubmitLimitDurationMin :: int
  set_ScoreboardVisible :: string
  set_RegistrationOpen :: bool
  set_UpdatedAt :: time

record api_token =
  token_ID :: uuid
  token_UserID :: uuid
  token_TokenHash :: string
  token_Description :: string
  token_ExpiresAt :: "time option"
  token_LastUsedAt :: "time option"
  token_CreatedAt :: time

record verification_token =
  vtoken_ID :: uuid
  vtoken_UserID :: uuid
  vtoken_Token :: string
  vtoken_Type :: string
  vtoken_ExpiresAt :: time
  vtoken_UsedAt :: "time option"
  vtoken_CreatedAt :: time

record ctf_event =
  event_ID :: uuid
  event_Name :: string
  event_StartTime :: time
  event_EndTime :: time
  event_Weight :: rat
  event_CreatedAt :: time

record team_rating =
  trating_ID :: uuid
  trating_TeamID :: uuid
  trating_CTFEventID :: uuid
  trating_Rank :: int
  trating_Score :: int
  trating_RatingPoints :: rat
  trating_CreatedAt :: time

record global_rating =
  grating_TeamID :: uuid
  grating_TeamName :: string
  grating_TotalPoints :: rat
  grating_EventsCount :: int
  grating_BestRank :: "int option"
  grating_LastUpdated :: time

record file_info =
  file_ID :: uuid
  file_Type :: string
  file_ChallengeID :: uuid
  file_Location :: string
  file_Filename :: string
  file_Size :: int
  file_SHA256 :: string
  file_CreatedAt :: time

record score_point =
  point_Timestamp :: time
  point_Score :: int

record team_timeline =
  timeline_TeamID :: uuid
  timeline_TeamName :: string
  timeline_Timeline :: "score_point list"

record time_range =
  range_Start :: time
  range_End :: time

record scoreboard_graph =
  graph_Range :: time_range
  graph_Teams :: "team_timeline list"

record general_stats =
  gstats_UserCount :: int
  gstats_TeamCount :: int
  gstats_ChallengeCount :: int
  gstats_SolveCount :: int

record challenge_stats =
  cstats_ID :: uuid
  cstats_Title :: string
  cstats_Category :: string
  cstats_Points :: int
  cstats_SolveCount :: int

record challenge_solve_entry =
  csolve_TeamID :: uuid
  csolve_TeamName :: string
  csolve_SolvedAt :: time

record challenge_detail_stats =
  cdetail_ID :: uuid
  cdetail_Title :: string
  cdetail_Category :: string
  cdetail_Points :: int
  cdetail_SolveCount :: int
  cdetail_TotalTeams :: int
  cdetail_PercentageSolved :: rat
  cdetail_FirstBlood :: "challenge_solve_entry option"
  cdetail_Solves :: "challenge_solve_entry list"

record scoreboard_history_entry =
  shist_TeamID :: uuid
  shist_TeamName :: string
  shist_Points :: int
  shist_Timestamp :: time

record submission_with_details =
  subd_Submission :: submission
  subd_Username :: string
  subd_TeamName :: string
  subd_ChallengeTitle :: string
  subd_ChallengeCategory :: string

section \<open>Records of the repository contract\<close>

record scoreboard_entry =
  sb_TeamID :: uuid
  sb_TeamName :: string
  sb_Points :: int
  sb_SolvedAt :: time

record first_blood_entry =
  fb_UserID :: uuid
  fb_Username :: string
  fb_TeamID :: uuid
  fb_TeamName :: string
  fb_SolvedAt :: time

record challenge_with_solved =
  cws_Challenge :: challenge
  cws_Solved :: bool

end
