(* ===== verification/CTF_Rows.thy ===== *)
theory CTF_Rows
  imports CTF_Prelude CTF_Entities
begin

text \<open>
  The rows of the database, as \<open>sqlc/models.go\<close> declares them: one record per table, a
  field \<open>table_column\<close> per column in the order of the model, an option where the column is
  nullable. \<open>db\<close> is the database: a list of rows per table, in the order of insertion.
\<close>

record users_row =
  users_id :: uuid
  users_team_id :: "uuid option"
  users_username :: string
  users_email :: string
  users_password_hash :: string
  users_role :: "string option"
  users_is_verified :: "bool option"
  users_verified_at :: "time option"
  users_created_at :: "time option"

record teams_row =
  teams_id :: uuid
  teams_name :: string
  teams_invite_token :: uuid
  teams_captain_id :: uuid
  teams_bracket_id :: "uuid option"
  teams_created_at :: "time option"
  teams_deleted_at :: "time option"
  teams_is_solo :: "bool option"
  teams_is_auto_created :: "bool option"
  teams_is_banned :: "bool option"
  teams_banned_at :: "time option"
  teams_banned_reason :: "string option"
  teams_is_hidden :: "bool option"

record team_audit_log_row =
  team_audit_log_id :: uuid
  team_audit_log_team_id :: uuid
  team_audit_log_user_id :: uuid
  team_audit_log_action :: string
  team_audit_log_details :: "details option"
  team_audit_log_created_at :: "time option"

record audit_logs_row =
  audit_logs_id :: uuid
  audit_logs_user_id :: "uuid option"
  audit_logs_action :: string
  audit_logs_entity_type :: string
  audit_logs_entity_id :: "string option"
  audit_logs_ip :: "string option"
  audit_logs_details :: "details option"
  audit_logs_created_at :: "time option"

record competition_row =
  competition_id :: int
  competition_name :: string
  competition_start_time :: "time option"
  competition_end_time :: "time option"
  competition_freeze_time :: "time option"
  competition_is_paused :: "bool option"
  competition_is_public :: "bool option"
  competition_flag_regex :: "string option"
  competition_mode :: "string option"
  competition_allow_team_switch :: "bool option"
  competition_min_team_size :: "int option"
  competition_max_team_size :: "int option"
  competition_created_at :: "time option"
  competition_updated_at :: "time option"

record challenges_row =
  challenges_id :: uuid
  challenges_title :: string
  challenges_description :: string
  challenges_category :: "string option"
  challenges_points :: "int option"
  challenges_flag_hash :: string
  challenges_is_hidden :: "bool option"
  challenges_initial_value :: int
  challenges_min_value :: int
  challenges_decay :: int
  challenges_solve_count :: int
  challenges_is_regex :: "bool option"
  challenges_is_case_insensitive :: "bool option"
  challenges_flag_regex :: "string option"
  challenges_flag_format_regex :: "string option"

record solves_row =
  solves_id :: uuid
  solves_user_id :: uuid
  solves_team_id :: uuid
  solves_challenge_id :: uuid
  solves_solved_at :: "time option"

record hints_row =
  hints_id :: uuid
  hints_challenge_id :: uuid
  hints_content :: string
  hints_cost :: int
  hints_order_index :: int

record hint_unlocks_row =
  hint_unlocks_id :: uuid
  hint_unlocks_hint_id :: uuid
  hint_unlocks_team_id :: uuid
  hint_unlocks_unlocked_at :: "time option"

record awards_row =
  awards_id :: uuid
  awards_team_id :: uuid
  awards_value :: int
  awards_description :: string
  awards_created_by :: "uuid option"
  awards_created_at :: "time option"

record submissions_row =
  submissions_id :: uuid
  submissions_user_id :: uuid
  submissions_team_id :: "uuid option"
  submissions_challenge_id :: uuid
  submissions_submitted_flag :: string
  submissions_is_correct :: bool
  submissions_ip :: "string option"
  submissions_created_at :: "time option"

record tags_row =
  tags_id :: uuid
  tags_name :: string
  tags_color :: "string option"

record challenge_tags_row =
  challenge_tags_challenge_id :: uuid
  challenge_tags_tag_id :: uuid

record brackets_row =
  brackets_id :: uuid
  brackets_name :: string
  brackets_description :: "string option"
  brackets_is_default :: "bool option"
  brackets_created_at :: "time option"

record pages_row =
  pages_id :: uuid
  pages_title :: string
  pages_slug :: string
  pages_content :: string
  pages_is_draft :: "bool option"
  pages_order_index :: "int option"
  pages_created_at :: "time option"
  pages_updated_at :: "time option"

record notifications_row =
  notifications_id :: uuid
  notifications_title :: string
  notifications_content :: string
  notifications_type :: "string option"
  notifications_is_pinned :: "bool option"
  notifications_is_global :: "bool option"
  notifications_created_at :: "time option"

record user_notifications_row =
  user_notifications_id :: uuid
  user_notifications_user_id :: uuid
  user_notifications_notification_id :: "uuid option"
  user_notifications_title :: "string option"
  user_notifications_content :: "string option"
  user_notifications_type :: "string option"
  user_notifications_is_read :: "bool option"
  user_notifications_created_at :: "time option"

record fields_row =
  fields_id :: uuid
  fields_name :: string
  fields_field_type :: string
  fields_entity_type :: string
  fields_required :: "bool option"
  fields_options :: "string list option"
  fields_order_index :: "int option"
  fields_created_at :: "time option"

record field_values_row =
  field_values_id :: uuid
  field_values_field_id :: uuid
  field_values_entity_id :: uuid
  field_values_value :: string
  field_values_created_at :: "time option"

record configs_row =
  configs_key :: string
  configs_value :: string
  configs_value_type :: string
  configs_description :: "string option"
  configs_updated_at :: "time option"

record app_settings_row =
  app_settings_id :: int
  app_settings_app_name :: string
  app_settings_verify_emails :: bool
  app_settings_frontend_url :: string
  app_settings_cors_origins :: string
  app_settings_resend_enabled :: bool
  app_settings_resend_from_email :: string
  app_settings_resend_from_name :: string
  app_settings_verify_ttl_hours :: int
  app_settings_reset_ttl_hours :: int
  app_settings_submit_limit_per_user :: int
  app_settings_submit_limit_duration_min :: int
  app_settings_scoreboard_visible :: string
  app_settings_registration_open :: bool
  app_settings_updated_at :: time

record verification_tokens_row =
  verification_tokens_id :: uuid
  verification_tokens_user_id :: uuid
  verification_tokens_token :: string
  verification_tokens_type :: string
  verification_tokens_expires_at :: time
  verification_tokens_used_at :: "time option"
  verification_tokens_created_at :: "time option"

record api_tokens_row =
  api_tokens_id :: uuid
  api_tokens_user_id :: uuid
  api_tokens_token_hash :: string
  api_tokens_description :: "string option"
  api_tokens_expires_at :: "time option"
  api_tokens_last_used_at :: "time option"
  api_tokens_created_at :: "time option"

record comments_row =
  comments_id :: uuid
  comments_user_id :: uuid
  comments_challenge_id :: uuid
  comments_content :: string
  comments_created_at :: "time option"
  comments_updated_at :: "time option"

record ctf_events_row =
  ctf_events_id :: uuid
  ctf_events_name :: string
  ctf_events_start_time :: time
  ctf_events_end_time :: time
  ctf_events_weight :: rat
  ctf_events_created_at :: "time option"

record team_ratings_row =
  team_ratings_id :: uuid
  team_ratings_team_id :: uuid
  team_ratings_ctf_event_id :: uuid
  team_ratings_rank :: int
  team_ratings_score :: int
  team_ratings_rating_points :: rat
  team_ratings_created_at :: "time option"

record global_ratings_row =
  global_ratings_team_id :: uuid
  global_ratings_total_points :: rat
  global_ratings_events_count :: int
  global_ratings_best_rank :: "int option"
  global_ratings_last_updated :: "time option"

record files_row =
  files_id :: uuid
  files_type :: string
  files_challenge_id :: uuid
  files_location :: string
  files_filename :: string
  files_size :: int
  files_sha256 :: string
  files_created_at :: time

record db =
  users :: "users_row list"
  teams :: "teams_row list"
  team_audit_log :: "team_audit_log_row list"
  audit_logs :: "audit_logs_row list"
  competition :: "competition_row list"
  challenges :: "challenges_row list"
  solves :: "solves_row list"
  hints :: "hints_row list"
  hint_unlocks :: "hint_unlocks_row list"
  awards :: "awards_row list"
  submissions :: "submissions_row list"
  tags :: "tags_row list"
  challenge_tags :: "challenge_tags_row list"
  brackets :: "brackets_row list"
  pages :: "pages_row list"
  notifications :: "notifications_row list"
  user_notifications :: "user_notifications_row list"
  fields_tab :: "fields_row list"
  field_values :: "field_values_row list"
  configs :: "configs_row list"
  app_settings :: "app_settings_row list"
  verification_tokens :: "verification_tokens_row list"
  api_tokens :: "api_tokens_row list"
  comments :: "comments_row list"
  ctf_events :: "ctf_events_row list"
  team_ratings :: "team_ratings_row list"
  global_ratings :: "global_ratings_row list"
  files :: "files_row list"

definition empty_db :: db where
  "empty_db = \<lparr>users = [],
    teams = [],
    team_audit_log = [],
    audit_logs = [],
    competition = [],
    challenges = [],
    solves = [],
    hints = [],
    hint_unlocks = [],
    awards = [],
    submissions = [],
    tags = [],
    challenge_tags = [],
    brackets = [],
    pages = [],
    notifications = [],
    user_notifications = [],
    fields_tab = [],
    field_values = [],
    configs = [],
    app_settings = [],
    verification_tokens = [],
    api_tokens = [],
    comments = [],
    ctf_events = [],
    team_ratings = [],
    global_ratings = [],
    files = []\<rparr>"

end
