(* ===== verification/CTF_BoundedCache.thy ===== *)
theory CTF_BoundedCache
  imports CTF_Prelude
begin

text \<open>
  \<open>pkg/cache/bounded.go\<close>: the bounded FIFO cache, with its list of entries and its index
  from keys to positions, as the code keeps them. An access outside the list is a panic and is
  a value of the model. \<open>bc_ok\<close> is the invariant that ties the two together; under it the
  cache refines an association list, and no operation panics. The locale \<open>memo\<close> states what
  a client that memoizes a function relies on.
\<close>

section \<open>The cache\<close>

datatype panic = IndexOutOfRange

abbreviation DefaultBoundedCacheSize :: int where
  "DefaultBoundedCacheSize \<equiv> 100"

record ('k, 'v) bounded_cache =
  bc_entries :: "('k \<times> 'v) list"
  bc_index :: "'k \<Rightarrow> int option"
  bc_maxSize :: int

definition NewBoundedCache :: "int \<Rightarrow> ('k, 'v) bounded_cache" where
  "NewBoundedCache maxSize =
     (let maxSize = (if maxSize \<le> 0 then DefaultBoundedCacheSize else maxSize) in
      \<lparr>bc_entries = [], bc_index = \<lambda>_. None, bc_maxSize = maxSize\<rparr>)"

definition BoundedCache_Get :: "('k, 'v) bounded_cache \<Rightarrow> 'k \<Rightarrow> panic + 'v option" where
  "BoundedCache_Get c key =
     (case bc_index c key of
        Some idx \<Rightarrow>
          (if 0 \<le> idx \<and> idx < int (length (bc_entries c))
           then Inr (Some (snd (bc_entries c ! nat idx))) else Inl IndexOutOfRange)
      | None \<Rightarrow> Inr None)"

text \<open>
  The loop over the index subtracts 1 from every position that is left; \<open>range\<close> over a map
  visits each key once, in any order, and the body touches only that key.
\<close>

definition bc_evict :: "('k, 'v) bounded_cache \<Rightarrow> panic + ('k, 'v) bounded_cache" where
  "bc_evict c =
     (case bc_entries c of
        [] \<Rightarrow> Inl IndexOutOfRange
      | oldest # rest \<Rightarrow>
          (let index = (bc_index c)(fst oldest := None) in
           Inr (c\<lparr>bc_entries := rest, bc_index := \<lambda>k. map_option (\<lambda>idx. idx - 1) (index k)\<rparr>)))"

definition bc_append :: "'k \<Rightarrow> 'v \<Rightarrow> ('k, 'v) bounded_cache \<Rightarrow> ('k, 'v) bounded_cache" where
  "bc_append key v c =
     c\<lparr>bc_index := (bc_index c)(key := Some (int (length (bc_entries c)))),
       bc_entries := bc_entries c @ [(key, v)]\<rparr>"

definition BoundedCache_Set ::
  "('k, 'v) bounded_cache \<Rightarrow> 'k \<Rightarrow> 'v \<Rightarrow> panic + ('k, 'v) bounded_cache" where
  "BoundedCache_Set c key v =
     (if bc_index c key \<noteq> None then Inr c
      else if int (length (bc_entries c)) \<ge> bc_maxSize c
        then (case bc_evict c of Inl p \<Rightarrow> Inl p | Inr c \<Rightarrow> Inr (bc_append key v c))
      else Inr (bc_append key v c))"

definition BoundedCache_Len :: "('k, 'v) bounded_cache \<Rightarrow> int" where
  "BoundedCache_Len c = int (length (bc_entries c))"

section \<open>The invariant\<close>

definition bc_ok :: "('k, 'v) bounded_cache \<Rightarrow> bool" where
  "bc_ok c \<longleftrightarrow>
     1 \<le> bc_maxSize c \<and> int (length (bc_entries c)) \<le> bc_maxSize c \<and>
     distinct (map fst (bc_entries c)) \<and>
     (\<forall>k i. bc_index c k = Some i \<longleftrightarrow>
        0 \<le> i \<and> i < int (length (bc_entries c)) \<and> fst (bc_entries c ! nat i) = k)"

lemma bc_okD:
  assumes "bc_ok c"
  shows "1 \<le> bc_maxSize c" "int (length (bc_entries c)) \<le> bc_maxSize c"
    "distinct (map fst (bc_entries c))"
  using assms by (auto simp: bc_ok_def)

lemma bc_ok_index:
  assumes "bc_ok c"
  shows "bc_index c k = Some i \<longleftrightarrow>
     0 \<le> i \<and> i < int (length (bc_entries c)) \<and> fst (bc_entries c ! nat i) = k"
  using assms by (auto simp: bc_ok_def)

lemma bc_ok_dom: "bc_ok c \<Longrightarrow> bc_index c k = None \<longleftrightarrow> k \<notin> fst ` set (bc_entries c)"
proof -
  assume ok: "bc_ok c"
  have "(\<exists>i. bc_index c k = Some i) \<longleftrightarrow> k \<in> fst ` set (bc_entries c)"
  proof
    assume "\<exists>i. bc_index c k = Some i"
    then obtain i where "0 \<le> i" "i < int (length (bc_entries c))" "fst (bc_entries c ! nat i) = k"
      using bc_ok_index [OF ok] by blast
    then show "k \<in> fst ` set (bc_entries c)" by (metis image_eqI nat_less_iff nth_mem)
  next
    assume "k \<in> fst ` set (bc_entries c)"
    then obtain n where "n < length (bc_entries c)" "fst (bc_entries c ! n) = k"
      by (auto simp: in_set_conv_nth)
    then have "bc_index c k = Some (int n)" by (simp add: bc_ok_index [OF ok])
    then show "\<exists>i. bc_index c k = Some i" ..
  qed
  then show ?thesis by (cases "bc_index c k") auto
qed

lemma bc_ok_New: "bc_ok (NewBoundedCache n)"
  by (auto simp: bc_ok_def NewBoundedCache_def Let_def)

text \<open>Refinement: a lookup in the cache is a lookup in the association list of its entries.\<close>

lemma bc_Get_map_of:
  assumes "bc_ok c"
  shows "BoundedCache_Get c k = Inr (map_of (bc_entries c) k)"
proof (cases "bc_index c k")
  case None
  then have "map_of (bc_entries c) k = None"
    using bc_ok_dom [OF assms] by (simp add: map_of_eq_None_iff)
  with None show ?thesis by (simp add: BoundedCache_Get_def)
next
  case (Some i)
  then have i: "0 \<le> i" "i < int (length (bc_entries c))" "fst (bc_entries c ! nat i) = k"
    using bc_ok_index [OF assms] by auto
  then have "(k, snd (bc_entries c ! nat i)) \<in> set (bc_entries c)"
    by (metis nat_less_iff nth_mem prod.collapse)
  then show ?thesis
    using Some i bc_okD(3) [OF assms] by (simp add: BoundedCache_Get_def)
qed

lemma bc_append_ok:
  assumes ok: "bc_ok c" and new: "k \<notin> fst ` set (bc_entries c)"
    and room: "int (length (bc_entries c)) < bc_maxSize c"
  shows "bc_ok (bc_append k v c)"
proof -
  let ?n = "length (bc_entries c)"
  have "(bc_index (bc_append k v c) j = Some i) \<longleftrightarrow>
      0 \<le> i \<and> i < int (Suc ?n) \<and> fst ((bc_entries c @ [(k, v)]) ! nat i) = j" for j i
  proof (cases "i = int ?n")
    case True
    then show ?thesis using bc_ok_index [OF ok, of j i] by (auto simp: bc_append_def)
  next
    case False
    then have app: "0 \<le> i \<and> i < int (Suc ?n) \<longleftrightarrow> 0 \<le> i \<and> i < int ?n" by auto
    have "fst (bc_entries c ! nat i) \<noteq> k" if "0 \<le> i" "i < int ?n"
      using new that by (metis image_eqI nat_less_iff nth_mem)
    then show ?thesis
      using False app bc_ok_index [OF ok, of j i]
      by (auto simp: bc_append_def nth_append nat_less_iff)
  qed
  then show ?thesis
    using bc_okD [OF ok] new room by (auto simp: bc_ok_def bc_append_def)
qed

lemma bc_evict_ok:
  assumes ok: "bc_ok c" and full: "bc_entries c = e # es"
  obtains c' where "bc_evict c = Inr c'" "bc_ok c'" "bc_entries c' = es" "bc_maxSize c' = bc_maxSize c"
proof -
  let ?c = "c\<lparr>bc_entries := es,
    bc_index := \<lambda>k. map_option (\<lambda>idx. idx - 1) (((bc_index c)(fst e := None)) k)\<rparr>"
  have "(bc_index ?c j = Some i) \<longleftrightarrow> 0 \<le> i \<and> i < int (length es) \<and> fst (es ! nat i) = j" for j i
  proof -
    have pos: "fst e \<notin> fst ` set es" using bc_okD(3) [OF ok] full by simp
    have "(bc_index ?c j = Some i) \<longleftrightarrow> j \<noteq> fst e \<and> bc_index c j = Some (i + 1)"
      by (auto split: if_splits)
    also have "\<dots> \<longleftrightarrow> j \<noteq> fst e \<and> 0 \<le> i + 1 \<and> i < int (length es) \<and> fst ((e # es) ! nat (i + 1)) = j"
      using bc_ok_index [OF ok, of j "i + 1"] full by auto
    also have "\<dots> \<longleftrightarrow> 0 \<le> i \<and> i < int (length es) \<and> fst (es ! nat i) = j"
    proof (cases "0 \<le> i")
      case True
      then show ?thesis
        using pos by (auto simp: nat_add_distrib) (metis image_eqI nat_less_iff nth_mem)
    next
      case False
      then show ?thesis by (cases "i = -1") auto
    qed
    finally show ?thesis .
  qed
  then have "bc_ok ?c"
    using bc_okD [OF ok] full by (auto simp: bc_ok_def)
  then show thesis
    by (intro that [of ?c]) (auto simp: bc_evict_def full Let_def)
qed

text \<open>
  What an insertion does to the association list: nothing for a key that is present; otherwise
  the pair is appended, after the oldest one has left when the cache is full.
\<close>

definition fifo_put :: "int \<Rightarrow> 'k \<Rightarrow> 'v \<Rightarrow> ('k \<times> 'v) list \<Rightarrow> ('k \<times> 'v) list" where
  "fifo_put n k v es =
     (if k \<in> fst ` set es then es
      else (if int (length es) \<ge> n then tl es else es) @ [(k, v)])"

lemma bc_Set_fifo:
  assumes ok: "bc_ok c"
  obtains c' where "BoundedCache_Set c k v = Inr c'" "bc_ok c'" "bc_maxSize c' = bc_maxSize c"
    "bc_entries c' = fifo_put (bc_maxSize c) k v (bc_entries c)"
proof (cases "bc_index c k = None")
  case False
  then show thesis
    using bc_ok_dom [OF ok, of k] ok that [of c] by (auto simp: BoundedCache_Set_def fifo_put_def)
next
  case True
  then have new: "k \<notin> fst ` set (bc_entries c)" using bc_ok_dom [OF ok] by auto
  show thesis
  proof (cases "int (length (bc_entries c)) \<ge> bc_maxSize c")
    case False
    then show thesis
      using True new bc_append_ok [OF ok new, of v]
      by (intro that [of "bc_append k v c"])
        (auto simp: BoundedCache_Set_def fifo_put_def bc_append_def)
  next
    case full: True
    then obtain e es where es: "bc_entries c = e # es"
      using bc_okD(1) [OF ok] by (cases "bc_entries c") auto
    obtain c1 where c1: "bc_evict c = Inr c1" "bc_ok c1" "bc_entries c1 = es"
      "bc_maxSize c1 = bc_maxSize c"
      using bc_evict_ok [OF ok es] .
    have "bc_ok (bc_append k v c1)"
      using c1 new es bc_okD(2) [OF ok] by (intro bc_append_ok) auto
    then show thesis
      using True full new es c1
      by (intro that [of "bc_append k v c1"])
        (auto simp: BoundedCache_Set_def fifo_put_def bc_append_def)
  qed
qed

section \<open>Memoizing clients\<close>

text \<open>What a client that memoizes a function relies on.\<close>

locale memo =
  fixes inv :: "'c \<Rightarrow> bool"
    and get :: "'c \<Rightarrow> 'k \<Rightarrow> panic + 'v option"
    and put :: "'c \<Rightarrow> 'k \<Rightarrow> 'v \<Rightarrow> panic + 'c"
  assumes get_total: "inv c \<Longrightarrow> \<exists>r. get c k = Inr r"
    and put_total: "inv c \<Longrightarrow> \<exists>c'. put c k v = Inr c'"
    and put_inv: "inv c \<Longrightarrow> put c k v = Inr c' \<Longrightarrow> inv c'"
    and put_get_new: "inv c \<Longrightarrow> get c k = Inr None \<Longrightarrow> put c k v = Inr c' \<Longrightarrow> get c' k = Inr (Some v)"
    and put_get: "inv c \<Longrightarrow> put c k v = Inr c' \<Longrightarrow> get c' j = Inr (Some x) \<Longrightarrow>
        get c j = Inr (Some x) \<or> j = k \<and> x = v"
begin

text \<open>Every cached value is one the function \<open>f\<close> gives.\<close>

definition agrees :: "('k \<Rightarrow> 'v option) \<Rightarrow> 'c \<Rightarrow> bool" where
  "agrees f c \<longleftrightarrow> inv c \<and> (\<forall>k x. get c k = Inr (Some x) \<longrightarrow> f k = Some x)"

lemma agrees_put:
  assumes "agrees f c" "f k = Some v" "put c k v = Inr c'"
  shows "agrees f c'"
  using assms put_inv put_get unfolding agrees_def by blast

lemma agrees_get: "agrees f c \<Longrightarrow> get c k = Inr (Some x) \<Longrightarrow> f k = Some x"
  by (auto simp: agrees_def)

lemma agrees_get_cases:
  assumes "agrees f c"
  obtains "get c k = Inr None" | x where "get c k = Inr (Some x)" "f k = Some x"
  using assms get_total [of c k] by (metis agrees_def not_None_eq)

end

lemma fifo_put_map_of:
  assumes "map_of (fifo_put n k v es) j = Some x" "distinct (map fst es)"
  shows "map_of es j = Some x \<or> j = k \<and> x = v"
proof (cases "k \<in> fst ` set es \<or> \<not> int (length es) \<ge> n")
  case True
  then show ?thesis using assms by (auto simp: fifo_put_def map_add_def split: if_splits option.splits)
next
  case False
  with assms(1) have "map_of (tl es @ [(k, v)]) j = Some x" by (auto simp: fifo_put_def)
  then have "j = k \<and> x = v \<or> map_of (tl es) j = Some x"
    by (auto simp: map_add_def split: option.splits if_splits)
  moreover have "map_of es j = Some x" if "map_of (tl es) j = Some x"
    using that assms(2) by (cases es) (force dest: map_of_SomeD)+
  ultimately show ?thesis by blast
qed

interpretation bounded: memo bc_ok BoundedCache_Get BoundedCache_Set
proof
  fix c :: "('a, 'b) bounded_cache" and k v c' j x
  assume ok: "bc_ok c"
  show "\<exists>r. BoundedCache_Get c k = Inr r" using bc_Get_map_of [OF ok] by auto
  obtain c1 where c1: "BoundedCache_Set c k v = Inr c1" "bc_ok c1"
    "bc_entries c1 = fifo_put (bc_maxSize c) k v (bc_entries c)"
    using bc_Set_fifo [OF ok] .
  show "\<exists>c'. BoundedCache_Set c k v = Inr c'" using c1 by auto
  show "bc_ok c'" if "BoundedCache_Set c k v = Inr c'" using that c1 by auto
  show "BoundedCache_Get c' k = Inr (Some v)"
    if "BoundedCache_Get c k = Inr None" "BoundedCache_Set c k v = Inr c'"
  proof -
    have "k \<notin> fst ` set (bc_entries c)"
      using that bc_Get_map_of [OF ok] by (auto simp: map_of_eq_None_iff)
    then show ?thesis
      using that c1 bc_Get_map_of [OF c1(2)]
      by (cases "bc_entries c")
        (force simp: fifo_put_def map_add_def split: option.splits dest!: map_of_SomeD)+
  qed
  show "BoundedCache_Get c j = Inr (Some x) \<or> j = k \<and> x = v"
    if "BoundedCache_Set c k v = Inr c'" "BoundedCache_Get c' j = Inr (Some x)"
    using that c1 bc_Get_map_of [OF c1(2)] bc_Get_map_of [OF ok] bc_okD(3) [OF ok]
    by (auto dest: fifo_put_map_of)
qed

end
