(* ===== verification/CTF_World.thy ===== *)
theory CTF_World
  imports CTF_Prelude CTF_Errors CTF_Rows CTF_BoundedCache
begin

text \<open>
  The state a request works on (\<open>world\<close>): the database, the redis cache, the clock, the source
  of fresh UUIDs, what was broadcast, and the script of infrastructure failures. A query is a
  computation on the database alone; \<open>sql\<close> runs it on the pool, \<open>sql_tx\<close> inside a
  transaction, and \<open>run_transaction\<close> is \<open>TxBase.RunTransaction\<close>.

  Every call of the database or of redis first consumes one entry of \<open>faults\<close>: \<open>True\<close>
  makes the call fail, \<open>False\<close> and an exhausted script let it through. A theorem about all
  worlds is therefore a theorem about all patterns of failures.
\<close>

section \<open>Events and cached values\<close>

datatype ws_payload =
    PScoreboardUpdate string uuid string int time
  | PNotification string string string time

record ws_event =
  ev_Type :: string
  ev_Payload :: ws_payload
  ev_Timestamp :: time

text \<open>
  What the JSON strings in redis decode to: one constructor per type the code stores. The
  documents are written and read with the same struct tags.
\<close>

datatype cached =
    CCompetition competition
  | CScoreboard "scoreboard_entry list"
  | CGeneralStats general_stats
  | CChallengeStats "challenge_stats list"
  | CDetailStats "challenge_detail_stats option"
  | CHistory "scoreboard_history_entry list"
  | CGraph scoreboard_graph
  | CAppSettings app_settings

text \<open>A compiled regular expression is known by its source pattern.\<close>

datatype regexp = Regexp (re_source: string)

record world =
  store :: db
  redis :: "string \<Rightarrow> (cached \<times> time) option"
  clock :: time
  ticks :: "nat list"
  uuid_src :: "nat \<Rightarrow> uuid"
  uuid_pos :: nat
  faults :: "bool list"
  tx_failed :: bool
  events :: "ws_event list"
  regex_cache :: "(string, regexp) bounded_cache"

type_synonym 'a op = "(world, goerr, 'a) sem"
type_synonym 'a query = "(db, pgerr, 'a) sem"

text \<open>A world with a given database, no cache entry and no failure ahead.\<close>

definition world_of :: "db \<Rightarrow> world" where
  "world_of d = \<lparr>store = d, redis = \<lambda>_. None, clock = 1, ticks = [],
     uuid_src = \<lambda>n. 1000 + n, uuid_pos = 0, faults = [], tx_failed = False, events = [],
     regex_cache = NewBoundedCache DefaultBoundedCacheSize\<rparr>"

section \<open>Clock, UUIDs and calls\<close>

text \<open>\<open>time.Now()\<close>: time passes between two readings as \<open>ticks\<close> tells.\<close>

definition nowE :: "time op" where
  "nowE w = (Inr (clock w),
     w\<lparr>clock := clock w + (case ticks w of [] \<Rightarrow> 0 | n # _ \<Rightarrow> int n), ticks := tl (ticks w)\<rparr>)"

definition uuid_New :: "uuid op" where
  "uuid_New w = (Inr (uuid_src w (uuid_pos w)), w\<lparr>uuid_pos := Suc (uuid_pos w)\<rparr>)"

definition next_fault :: "world \<Rightarrow> bool" where
  "next_fault w = (case faults w of b # _ \<Rightarrow> b | [] \<Rightarrow> False)"

definition use_fault :: "world \<Rightarrow> world" where
  "use_fault w = w\<lparr>faults := tl (faults w)\<rparr>"

definition driver :: "unit op" where
  "driver w = (if next_fault w then (Inl (Pg Failure), use_fault w) else (Inr (), use_fault w))"

definition sql :: "'a query \<Rightarrow> 'a op" where
  "sql q = bindE driver (\<lambda>_ w. case q (store w) of
       (Inl e, _) \<Rightarrow> (Inl (Pg e), w)
     | (Inr x, d) \<Rightarrow> (Inr x, w\<lparr>store := d\<rparr>))"

text \<open>
  Inside a transaction a statement that fails aborts it: the server then refuses every further
  statement and the commit. Finding no row is reported by the client and aborts nothing.
\<close>

definition sql_tx :: "'a query \<Rightarrow> 'a op" where
  "sql_tx q w =
     (if tx_failed w then (Inl (Pg Failure), w)
      else case sql q w of
          (Inl e, w') \<Rightarrow> (Inl e, w'\<lparr>tx_failed := (e \<noteq> Pg NoRows)\<rparr>)
        | (Inr x, w') \<Rightarrow> (Inr x, w'))"

definition rollback :: "db \<Rightarrow> unit op" where
  "rollback d w = driver (w\<lparr>store := d, tx_failed := False\<rparr>)"

definition commit :: "db \<Rightarrow> unit op" where
  "commit d w =
     (if tx_failed w then (Inl (Pg Failure), w\<lparr>store := d, tx_failed := False\<rparr>)
      else case driver w of
          (Inl e, w') \<Rightarrow> (Inl e, w'\<lparr>store := d\<rparr>)
        | (Inr _, w') \<Rightarrow> (Inr (), w'))"

definition run_transaction :: "'a op \<Rightarrow> 'a op" where
  "run_transaction fn w =
     (case driver w of
        (Inl e, w1) \<Rightarrow> (Inl (wrap ''RunTransaction - BeginTx'' e), w1)
      | (Inr _, w1) \<Rightarrow>
         (case fn (w1\<lparr>tx_failed := False\<rparr>) of
            (Inl GoPanic, w2) \<Rightarrow> (Inl GoPanic, snd (rollback (store w1) w2))
          | (Inl e, w2) \<Rightarrow>
             (case rollback (store w1) w2 of
                (Inl rbErr, w3) \<Rightarrow>
                  (Inl (Wrapf2 ''RunTransaction - FnError: '' e '', RollbackError: '' rbErr), w3)
              | (Inr _, w3) \<Rightarrow> (Inl e, w3))
          | (Inr x, w2) \<Rightarrow>
             (case commit (store w1) w2 of
                (Inl e, w3) \<Rightarrow> (Inl (wrap ''RunTransaction - Commit'' e), w3)
              | (Inr _, w3) \<Rightarrow> (Inr x, w3))))"

text \<open>\<open>v, err := m\<close> where the code goes on with the error at hand; a panic is no error.\<close>

definition errE :: "'a op \<Rightarrow> (goerr + 'a) op" where
  "errE m w = (case m w of (Inl GoPanic, w') \<Rightarrow> (Inl GoPanic, w') | (r, w') \<Rightarrow> (Inr r, w'))"

section \<open>Running a call\<close>

lemma errE_Inr_iff: "errE m w = (Inr r, w') \<longleftrightarrow> m w = (r, w') \<and> r \<noteq> Inl GoPanic"
  by (auto simp: errE_def split: prod.splits sum.splits goerr.splits)

lemma errE_Inl_iff: "errE m w = (Inl e, w') \<longleftrightarrow> m w = (Inl GoPanic, w') \<and> e = GoPanic"
  by (auto simp: errE_def split: prod.splits sum.splits goerr.splits)

lemma use_fault_simps [simp]:
  "store (use_fault w) = store w" "redis (use_fault w) = redis w" "clock (use_fault w) = clock w"
  "ticks (use_fault w) = ticks w" "uuid_src (use_fault w) = uuid_src w"
  "uuid_pos (use_fault w) = uuid_pos w" "faults (use_fault w) = tl (faults w)"
  "tx_failed (use_fault w) = tx_failed w" "events (use_fault w) = events w"
  "regex_cache (use_fault w) = regex_cache w"
  by (simp_all add: use_fault_def)

lemma driver_Inr_iff: "driver w = (Inr u, w') \<longleftrightarrow> \<not> next_fault w \<and> w' = use_fault w"
  by (simp add: driver_def, blast)

lemma driver_Inl_iff:
  "driver w = (Inl e, w') \<longleftrightarrow> next_fault w \<and> e = Pg Failure \<and> w' = use_fault w"
  by (simp add: driver_def, blast)

lemma sql_run:
  "sql q w =
     (if next_fault w then (Inl (Pg Failure), use_fault w)
      else case q (store w) of
          (Inl e, _) \<Rightarrow> (Inl (Pg e), use_fault w)
        | (Inr x, d) \<Rightarrow> (Inr x, (use_fault w)\<lparr>store := d\<rparr>))"
  by (simp add: sql_def bindE_def driver_def)

lemma sql_Inr_iff:
  "sql q w = (Inr x, w') \<longleftrightarrow>
     \<not> next_fault w \<and> (\<exists>d. q (store w) = (Inr x, d) \<and> w' = (use_fault w)\<lparr>store := d\<rparr>)"
  by (simp add: sql_run split: prod.split sum.split, blast)

lemma sql_Inl_iff:
  "sql q w = (Inl e, w') \<longleftrightarrow>
     w' = use_fault w \<and>
     (next_fault w \<and> e = Pg Failure \<or>
      \<not> next_fault w \<and> (\<exists>pe d. q (store w) = (Inl pe, d) \<and> e = Pg pe))"
  by (simp add: sql_run split: prod.split sum.split, blast)

lemma sql_tx_Inr_iff:
  "sql_tx q w = (Inr x, w') \<longleftrightarrow> \<not> tx_failed w \<and> sql q w = (Inr x, w')"
  by (auto simp: sql_tx_def split: prod.splits sum.splits)

text \<open>A call that reports an error has not changed the database.\<close>

lemma sql_Inl_store: "sql q w = (Inl e, w') \<Longrightarrow> store w' = store w"
  by (auto simp: sql_Inl_iff)

lemma sql_tx_Inl_store: "sql_tx q w = (Inl e, w') \<Longrightarrow> store w' = store w"
  by (auto simp: sql_tx_def split: if_splits prod.splits sum.splits dest: sql_Inl_store)

lemma nowE_store: "nowE w = (r, w') \<Longrightarrow> store w' = store w"
  by (auto simp: nowE_def)

lemma nowE_Inr_iff:
  "nowE w = (Inr t, w') \<longleftrightarrow> t = clock w \<and>
     w' = w\<lparr>clock := clock w + (case ticks w of [] \<Rightarrow> 0 | n # _ \<Rightarrow> int n), ticks := tl (ticks w)\<rparr>"
  unfolding nowE_def prod.inject sum.inject by blast

lemma uuid_New_Inr_iff:
  "uuid_New w = (Inr u, w') \<longleftrightarrow>
     u = uuid_src w (uuid_pos w) \<and> w' = w\<lparr>uuid_pos := Suc (uuid_pos w)\<rparr>"
  unfolding uuid_New_def prod.inject sum.inject by blast

lemma nowE_not_Inl [simp]: "nowE w \<noteq> (Inl e, w')" "uuid_New w \<noteq> (Inl e, w')"
  unfolding nowE_def uuid_New_def prod.inject by blast+

section \<open>Transactions\<close>

text \<open>Atomicity: a transaction that reports an error leaves the database as it was.\<close>

lemma run_transaction_Inl_store:
  "run_transaction fn w = (Inl e, w') \<Longrightarrow> store w' = store w"
  by (auto simp: run_transaction_def driver_def rollback_def commit_def
      split: prod.splits sum.splits if_splits goerr.splits)

lemma run_transaction_Inr_iff:
  "run_transaction fn w = (Inr x, w') \<longleftrightarrow>
     \<not> next_fault w \<and>
     (\<exists>w2. fn ((use_fault w)\<lparr>tx_failed := False\<rparr>) = (Inr x, w2) \<and> \<not> tx_failed w2 \<and>
           \<not> next_fault w2 \<and> w' = use_fault w2)"
  by (auto simp: run_transaction_def driver_def commit_def rollback_def
      split: prod.splits sum.splits if_splits goerr.splits)

lemma run_transaction_Inr:
  assumes "run_transaction fn w = (Inr x, w')"
  obtains w1 w2 where "fn w1 = (Inr x, w2)" "store w1 = store w" "store w' = store w2"
    "clock w1 = clock w" "redis w1 = redis w" "redis w' = redis w2" "clock w' = clock w2"
    "uuid_src w1 = uuid_src w" "uuid_pos w1 = uuid_pos w" "events w1 = events w"
    "events w' = events w2" "ticks w1 = ticks w"
proof -
  from assms obtain w2 where w2: "fn ((use_fault w)\<lparr>tx_failed := False\<rparr>) = (Inr x, w2)"
    and w': "w' = use_fault w2"
    by (auto simp: run_transaction_Inr_iff)
  show thesis by (rule that [OF w2]) (simp_all add: w')
qed

section \<open>Invariants of the database\<close>

text \<open>
  \<open>db_keeps J m\<close>: \<open>J\<close> is an invariant of the database under \<open>m\<close>. The rules reduce it
  to the queries \<open>m\<close> runs; for a transaction, to its body.
\<close>

abbreviation db_keeps :: "(db \<Rightarrow> bool) \<Rightarrow> 'a op \<Rightarrow> bool" where
  "db_keeps J m \<equiv> keeps (\<lambda>w. J (store w)) m"

lemma db_keeps_driver [valid_rules]: "db_keeps J driver"
  by (rule keepsI) (auto simp: driver_def split: if_splits)

lemma keeps_errE [valid_rules]: "keeps I m \<Longrightarrow> keeps I (errE m)"
  by (rule keepsI)
    (auto simp: errE_def split: prod.splits sum.splits goerr.splits dest: keepsD)

lemma db_keeps_nowE [valid_rules]: "db_keeps J nowE"
  by (rule keepsI) (simp add: nowE_store)

lemma db_keeps_uuid_New [valid_rules]: "db_keeps J uuid_New"
  by (rule keepsI) (auto simp: uuid_New_def)

lemma db_keeps_sql [valid_rules]:
  assumes "keeps J q" shows "db_keeps J (sql q)"
proof (rule keepsI)
  fix w r w' assume J: "J (store w)" and run: "sql q w = (r, w')"
  then show "J (store w')"
    using keepsD [OF assms J] by (cases r) (auto simp: sql_Inr_iff sql_Inl_iff)
qed

lemma db_keeps_sql_tx [valid_rules]:
  assumes "keeps J q" shows "db_keeps J (sql_tx q)"
proof (rule keepsI)
  fix w r w' assume J: "J (store w)" and run: "sql_tx q w = (r, w')"
  then show "J (store w')"
    using keepsD [OF db_keeps_sql [OF assms], of w]
    by (auto simp: sql_tx_def split: if_splits prod.splits sum.splits)
qed

lemma db_keeps_run_transaction [valid_rules]:
  assumes "db_keeps J fn" shows "db_keeps J (run_transaction fn)"
proof (rule keepsI)
  fix w r w' assume J: "J (store w)" and run: "run_transaction fn w = (r, w')"
  show "J (store w')"
  proof (cases r)
    case (Inl e) then show ?thesis using run J by (auto dest: run_transaction_Inl_store)
  next
    case (Inr x)
    with run obtain w1 w2 where "fn w1 = (Inr x, w2)" "store w1 = store w" "store w' = store w2"
      by (auto elim: run_transaction_Inr)
    then show ?thesis using keepsD [OF assms, of w1] J by auto
  qed
qed

section \<open>Queries\<close>

text \<open>A statement that returns rows, one row, and the number of affected rows.\<close>

definition select_all :: "(db \<Rightarrow> 'r list) \<Rightarrow> 'r list query" where
  "select_all f = asksE f"

definition select_one :: "(db \<Rightarrow> 'r list) \<Rightarrow> 'r query" where
  "select_one f d = (case f d of [] \<Rightarrow> (Inl NoRows, d) | r # _ \<Rightarrow> (Inr r, d))"

lemma keeps_select_all [valid_rules]: "keeps J (select_all f)"
  unfolding select_all_def by (rule keeps_asksE)

lemma keeps_select_one [valid_rules]: "keeps J (select_one f)"
  by (rule keepsI) (auto simp: select_one_def split: list.splits)

lemma select_all_apply [simp]: "select_all f d = (Inr (f d), d)"
  by (simp add: select_all_def)

lemma select_one_Inr_iff: "select_one f d = (Inr r, d') \<longleftrightarrow> d' = d \<and> (\<exists>rs. f d = r # rs)"
  by (auto simp: select_one_def split: list.splits)

lemma select_one_Inl_iff: "select_one f d = (Inl e, d') \<longleftrightarrow> d' = d \<and> e = NoRows \<and> f d = []"
  by (auto simp: select_one_def split: list.splits)

end
