(* ===== verification/CTF_RosterStore.thy ===== *)
theory CTF_RosterStore
  imports CTF_World
begin

text \<open>
  Users, teams and the team audit log in the database: the queries of \<open>sqlc/users.sql.go\<close>
  and \<open>sqlc/teams.sql.go\<close> with the constraints of \<open>schema/postgres.sql\<close> (primary and
  unique keys, foreign keys, cascades), and over them \<open>UserRepo\<close>, \<open>TeamRepo\<close>,
  \<open>TxUserRepo\<close> and \<open>TxTeamRepo\<close> with their translation of errors. A query without
  \<open>ORDER BY\<close> returns the rows in the order of their insertion.
\<close>

section \<open>Conversions of \<open>helper.go\<close>\<close>

definition ptrTimeToTime :: "time option \<Rightarrow> time" where
  "ptrTimeToTime t = (case t of None \<Rightarrow> 0 | Some x \<Rightarrow> x)"

definition boolPtrToBool :: "bool option \<Rightarrow> bool" where
  "boolPtrToBool p = (case p of None \<Rightarrow> False | Some b \<Rightarrow> b)"

definition int32PtrToInt :: "int option \<Rightarrow> int" where
  "int32PtrToInt p = (case p of None \<Rightarrow> 0 | Some i \<Rightarrow> i)"

definition ptrStrToStr :: "string option \<Rightarrow> string" where
  "ptrStrToStr p = (case p of None \<Rightarrow> '''' | Some s \<Rightarrow> s)"

definition strPtrOrNil :: "string \<Rightarrow> string option" where
  "strPtrOrNil s = (if s = '''' then None else Some s)"

definition intToInt32Safe :: "int \<Rightarrow> goerr + int" where
  "intToInt32Safe i =
     (if i < - (2 ^ 31) \<or> i > 2 ^ 31 - 1 then Inl (Plain ''int value out of int32 range'') else Inr i)"

definition intToInt32Ptr :: "int \<Rightarrow> int option" where
  "intToInt32Ptr i =
     (if i = 0 then None else case intToInt32Safe i of Inl _ \<Rightarrow> None | Inr v \<Rightarrow> Some v)"

lemma conversion_simps [simp]:
  "boolPtrToBool (Some b) = b" "ptrTimeToTime (Some t) = t" "int32PtrToInt (Some i) = i"
  "ptrStrToStr (Some s) = s" "boolPtrToBool None = False" "ptrTimeToTime None = 0"
  "int32PtrToInt None = 0" "ptrStrToStr None = ''''"
  by (simp_all add: boolPtrToBool_def ptrTimeToTime_def int32PtrToInt_def ptrStrToStr_def)

lemma ptrStr_roundtrip [simp]: "ptrStrToStr (strPtrOrNil s) = s"
  by (simp add: strPtrOrNil_def)

lemma intToInt32Safe_Inr_iff:
  "intToInt32Safe i = Inr j \<longleftrightarrow> j = i \<and> - (2 ^ 31) \<le> i \<and> i \<le> 2 ^ 31 - 1"
  by (auto simp: intToInt32Safe_def)

lemma int32Ptr_roundtrip:
  "- (2 ^ 31) \<le> i \<Longrightarrow> i \<le> 2 ^ 31 - 1 \<Longrightarrow> int32PtrToInt (intToInt32Ptr i) = i"
  by (simp add: intToInt32Ptr_def intToInt32Safe_def)

text \<open>\<open>ORDER BY key ASC\<close>: rows whose key is NULL come last.\<close>

definition order_by_asc :: "('r \<Rightarrow> 'k :: linorder option) \<Rightarrow> 'r list \<Rightarrow> 'r list" where
  "order_by_asc key rows =
     sort_key (\<lambda>r. the (key r)) (filter (\<lambda>r. key r \<noteq> None) rows) @ filter (\<lambda>r. key r = None) rows"

lemma set_order_by_asc [simp]: "set (order_by_asc key rows) = set rows"
  by (auto simp: order_by_asc_def)

section \<open>Users\<close>

definition user_exists :: "uuid \<Rightarrow> db \<Rightarrow> bool" where
  "user_exists ID d = (ID \<in> users_id ` set (users d))"

definition team_exists :: "uuid \<Rightarrow> db \<Rightarrow> bool" where
  "team_exists ID d = (ID \<in> teams_id ` set (teams d))"

definition users_insert :: "users_row \<Rightarrow> uuid query" where
  "users_insert r d =
     (if list_ex (\<lambda>u. users_id u = users_id r \<or> users_username u = users_username r \<or>
                      users_email u = users_email r) (users d)
      then (Inl UniqueViolation, d)
      else (Inr (users_id r), d\<lparr>users := users d @ [r]\<rparr>))"

definition sqlc_CreateUserReturningID ::
  "uuid \<Rightarrow> string \<Rightarrow> string \<Rightarrow> string \<Rightarrow> string option \<Rightarrow> bool option \<Rightarrow> time option \<Rightarrow> uuid query" where
  "sqlc_CreateUserReturningID ID username email password_hash role is_verified created_at =
     users_insert \<lparr>users_id = ID, users_team_id = None, users_username = username,
       users_email = email, users_password_hash = password_hash, users_role = role,
       users_is_verified = is_verified, users_verified_at = None, users_created_at = created_at\<rparr>"

definition sqlc_CreateUser ::
  "uuid \<Rightarrow> string \<Rightarrow> string \<Rightarrow> string \<Rightarrow> string option \<Rightarrow> bool option \<Rightarrow> time option \<Rightarrow> unit query" where
  "sqlc_CreateUser ID username email password_hash role is_verified created_at =
     bindE (users_insert \<lparr>users_id = ID, users_team_id = None, users_username = username,
       users_email = email, users_password_hash = password_hash, users_role = role,
       users_is_verified = is_verified, users_verified_at = None, users_created_at = created_at\<rparr>)
     (\<lambda>_. returnE ())"

definition sqlc_GetUserByID :: "uuid \<Rightarrow> users_row query" where
  "sqlc_GetUserByID ID = select_one (\<lambda>d. filter (\<lambda>u. users_id u = ID) (users d))"

definition sqlc_GetUserByEmail :: "string \<Rightarrow> users_row query" where
  "sqlc_GetUserByEmail email = select_one (\<lambda>d. filter (\<lambda>u. users_email u = email) (users d))"

definition sqlc_GetUserByUsername :: "string \<Rightarrow> users_row query" where
  "sqlc_GetUserByUsername name =
     select_one (\<lambda>d. filter (\<lambda>u. users_username u = name) (users d))"

definition sqlc_ListUsersByTeamID :: "uuid option \<Rightarrow> users_row list query" where
  "sqlc_ListUsersByTeamID team_id = select_all (\<lambda>d.
     filter (\<lambda>u. team_id \<noteq> None \<and> users_team_id u = team_id) (users d))"

definition sqlc_GetAllUsers :: "users_row list query" where
  "sqlc_GetAllUsers = select_all (\<lambda>d. order_by_asc users_created_at (users d))"

definition sqlc_UpdateUserTeamID :: "uuid \<Rightarrow> uuid option \<Rightarrow> uuid query" where
  "sqlc_UpdateUserTeamID ID team_id d =
     (if \<not> user_exists ID d then (Inl NoRows, d)
      else if (case team_id of None \<Rightarrow> False | Some t \<Rightarrow> \<not> team_exists t d)
        then (Inl ForeignKeyViolation, d)
      else (Inr ID, d\<lparr>users := upd_where (\<lambda>u. users_id u = ID)
                        (\<lambda>u. u\<lparr>users_team_id := team_id\<rparr>) (users d)\<rparr>))"

definition sqlc_UpdateUserVerified :: "uuid \<Rightarrow> bool option \<Rightarrow> time option \<Rightarrow> unit query" where
  "sqlc_UpdateUserVerified ID is_verified verified_at = modifyE (\<lambda>d.
     d\<lparr>users := upd_where (\<lambda>u. users_id u = ID)
        (\<lambda>u. u\<lparr>users_is_verified := is_verified, users_verified_at := verified_at\<rparr>) (users d)\<rparr>)"

definition sqlc_UpdatePassword :: "uuid \<Rightarrow> string \<Rightarrow> unit query" where
  "sqlc_UpdatePassword ID password_hash = modifyE (\<lambda>d.
     d\<lparr>users := upd_where (\<lambda>u. users_id u = ID)
        (\<lambda>u. u\<lparr>users_password_hash := password_hash\<rparr>) (users d)\<rparr>)"

definition lock_user :: "uuid \<Rightarrow> uuid query" where
  "lock_user ID = select_one (\<lambda>d. map users_id (filter (\<lambda>u. users_id u = ID) (users d)))"

section \<open>Teams\<close>

abbreviation live :: "teams_row \<Rightarrow> bool" where
  "live t \<equiv> teams_deleted_at t = None"

definition teams_insert :: "teams_row \<Rightarrow> uuid query" where
  "teams_insert r d =
     (if list_ex (\<lambda>t. teams_id t = teams_id r \<or> teams_name t = teams_name r) (teams d)
      then (Inl UniqueViolation, d)
      else if \<not> user_exists (teams_captain_id r) d then (Inl ForeignKeyViolation, d)
      else (Inr (teams_id r), d\<lparr>teams := teams d @ [r]\<rparr>))"

definition sqlc_CreateTeamReturningID ::
  "uuid \<Rightarrow> string \<Rightarrow> uuid \<Rightarrow> uuid \<Rightarrow> bool option \<Rightarrow> bool option \<Rightarrow> time option \<Rightarrow> uuid query" where
  "sqlc_CreateTeamReturningID ID name invite_token captain_id is_solo is_auto_created created_at =
     teams_insert \<lparr>teams_id = ID, teams_name = name, teams_invite_token = invite_token,
       teams_captain_id = captain_id, teams_bracket_id = None, teams_created_at = created_at,
       teams_deleted_at = None, teams_is_solo = is_solo, teams_is_auto_created = is_auto_created,
       teams_is_banned = Some False, teams_banned_at = None, teams_banned_reason = None,
       teams_is_hidden = Some False\<rparr>"

definition sqlc_CreateTeam ::
  "uuid \<Rightarrow> string \<Rightarrow> uuid \<Rightarrow> uuid \<Rightarrow> bool option \<Rightarrow> bool option \<Rightarrow> time option \<Rightarrow> unit query" where
  "sqlc_CreateTeam ID name invite_token captain_id is_solo is_auto_created created_at =
     bindE (teams_insert \<lparr>teams_id = ID, teams_name = name, teams_invite_token = invite_token,
       teams_captain_id = captain_id, teams_bracket_id = None, teams_created_at = created_at,
       teams_deleted_at = None, teams_is_solo = is_solo, teams_is_auto_created = is_auto_created,
       teams_is_banned = Some False, teams_banned_at = None, teams_banned_reason = None,
       teams_is_hidden = Some False\<rparr>)
     (\<lambda>_. returnE ())"

definition sqlc_GetTeamByID :: "uuid \<Rightarrow> teams_row query" where
  "sqlc_GetTeamByID ID = select_one (\<lambda>d. filter (\<lambda>t. teams_id t = ID \<and> live t) (teams d))"

definition sqlc_GetTeamByName :: "string \<Rightarrow> teams_row query" where
  "sqlc_GetTeamByName name =
     select_one (\<lambda>d. filter (\<lambda>t. teams_name t = name \<and> live t) (teams d))"

definition sqlc_GetTeamByInviteToken :: "uuid \<Rightarrow> teams_row query" where
  "sqlc_GetTeamByInviteToken token =
     select_one (\<lambda>d. filter (\<lambda>t. teams_invite_token t = token \<and> live t) (teams d))"

definition sqlc_GetSoloTeamByUserID :: "uuid \<Rightarrow> teams_row query" where
  "sqlc_GetSoloTeamByUserID ID = select_one (\<lambda>d.
     filter (\<lambda>t. teams_is_solo t = Some True \<and> live t \<and>
        list_ex (\<lambda>u. users_id u = ID \<and> users_team_id u = Some (teams_id t)) (users d)) (teams d))"

definition sqlc_GetAllTeams :: "teams_row list query" where
  "sqlc_GetAllTeams = select_all (\<lambda>d. order_by_asc teams_created_at (filter live (teams d)))"

definition sqlc_CountTeamMembers :: "uuid option \<Rightarrow> int query" where
  "sqlc_CountTeamMembers team_id = asksE (\<lambda>d.
     int (length (filter (\<lambda>u. team_id \<noteq> None \<and> users_team_id u = team_id) (users d))))"

text \<open>\<open>UPDATE teams SET ... WHERE id = $1 AND deleted_at IS NULL RETURNING id\<close>\<close>

definition update_live_team :: "uuid \<Rightarrow> (teams_row \<Rightarrow> teams_row) \<Rightarrow> uuid query" where
  "update_live_team ID f d =
     (if list_ex (\<lambda>t. teams_id t = ID \<and> live t) (teams d)
      then (Inr ID, d\<lparr>teams := upd_where (\<lambda>t. teams_id t = ID \<and> live t) f (teams d)\<rparr>)
      else (Inl NoRows, d))"

definition sqlc_SoftDeleteTeam :: "time \<Rightarrow> uuid \<Rightarrow> uuid query" where
  "sqlc_SoftDeleteTeam now ID = update_live_team ID (\<lambda>t. t\<lparr>teams_deleted_at := Some now\<rparr>)"

definition sqlc_BanTeam :: "uuid \<Rightarrow> time option \<Rightarrow> string option \<Rightarrow> uuid query" where
  "sqlc_BanTeam ID banned_at reason = update_live_team ID (\<lambda>t. t\<lparr>teams_is_banned := Some True,
     teams_banned_at := banned_at, teams_banned_reason := reason\<rparr>)"

definition sqlc_UnbanTeam :: "uuid \<Rightarrow> uuid query" where
  "sqlc_UnbanTeam ID = update_live_team ID (\<lambda>t. t\<lparr>teams_is_banned := Some False,
     teams_banned_at := None, teams_banned_reason := None\<rparr>)"

definition sqlc_SetTeamHidden :: "uuid \<Rightarrow> bool option \<Rightarrow> uuid query" where
  "sqlc_SetTeamHidden ID hidden = update_live_team ID (\<lambda>t. t\<lparr>teams_is_hidden := hidden\<rparr>)"

definition sqlc_SetTeamBracket :: "uuid \<Rightarrow> uuid option \<Rightarrow> uuid query" where
  "sqlc_SetTeamBracket ID bracket_id d =
     (if list_ex (\<lambda>t. teams_id t = ID \<and> live t) (teams d) \<and>
         (case bracket_id of None \<Rightarrow> False | Some b \<Rightarrow> b \<notin> brackets_id ` set (brackets d))
      then (Inl ForeignKeyViolation, d)
      else update_live_team ID (\<lambda>t. t\<lparr>teams_bracket_id := bracket_id\<rparr>) d)"

text \<open>
  The deletion cascades: members lose their team, what belongs to the team is deleted.
\<close>

definition delete_teams_cascade :: "uuid set \<Rightarrow> db \<Rightarrow> db" where
  "delete_teams_cascade ids d = d\<lparr>
     teams := del_where (\<lambda>t. teams_id t \<in> ids) (teams d),
     users := upd_where (\<lambda>u. (case users_team_id u of None \<Rightarrow> False | Some t \<Rightarrow> t \<in> ids))
                (\<lambda>u. u\<lparr>users_team_id := None\<rparr>) (users d),
     solves := del_where (\<lambda>s. solves_team_id s \<in> ids) (solves d),
     hint_unlocks := del_where (\<lambda>u. hint_unlocks_team_id u \<in> ids) (hint_unlocks d),
     awards := del_where (\<lambda>a. awards_team_id a \<in> ids) (awards d),
     team_audit_log := del_where (\<lambda>l. team_audit_log_team_id l \<in> ids) (team_audit_log d),
     submissions := del_where (\<lambda>s. (case submissions_team_id s of None \<Rightarrow> False | Some t \<Rightarrow> t \<in> ids))
                      (submissions d),
     team_ratings := del_where (\<lambda>r. team_ratings_team_id r \<in> ids) (team_ratings d),
     global_ratings := del_where (\<lambda>r. global_ratings_team_id r \<in> ids) (global_ratings d)\<rparr>"

definition sqlc_HardDeleteTeamsBefore :: "time \<Rightarrow> unit query" where
  "sqlc_HardDeleteTeamsBefore cutoff = modifyE (\<lambda>d.
     delete_teams_cascade
       (set (map teams_id (filter (\<lambda>t. case teams_deleted_at t of None \<Rightarrow> False | Some t \<Rightarrow> t < cutoff)
          (teams d)))) d)"

definition lock_team :: "uuid \<Rightarrow> uuid query" where
  "lock_team ID = select_one (\<lambda>d. map teams_id (filter (\<lambda>t. teams_id t = ID) (teams d)))"

text \<open>\<open>UPDATE teams SET captain_id = .. WHERE id = ..\<close>: the number of affected rows.\<close>

definition set_team_captain :: "uuid \<Rightarrow> uuid \<Rightarrow> nat query" where
  "set_team_captain ID captain d =
     (if \<not> team_exists ID d then (Inr 0, d)
      else if \<not> user_exists captain d then (Inl ForeignKeyViolation, d)
      else (Inr (length (filter (\<lambda>t. teams_id t = ID) (teams d))),
            d\<lparr>teams := upd_where (\<lambda>t. teams_id t = ID) (\<lambda>t. t\<lparr>teams_captain_id := captain\<rparr>) (teams d)\<rparr>))"

definition set_team_deleted :: "uuid \<Rightarrow> time \<Rightarrow> nat query" where
  "set_team_deleted ID now d =
     (Inr (length (filter (\<lambda>t. teams_id t = ID \<and> live t) (teams d))),
      d\<lparr>teams := upd_where (\<lambda>t. teams_id t = ID \<and> live t)
          (\<lambda>t. t\<lparr>teams_deleted_at := Some now\<rparr>) (teams d)\<rparr>)"

definition team_audit_log_insert :: "team_audit_log_row \<Rightarrow> unit query" where
  "team_audit_log_insert r d =
     (if list_ex (\<lambda>l. team_audit_log_id l = team_audit_log_id r) (team_audit_log d)
      then (Inl UniqueViolation, d)
      else if \<not> team_exists (team_audit_log_team_id r) d \<or> \<not> user_exists (team_audit_log_user_id r) d
      then (Inl ForeignKeyViolation, d)
      else (Inr (), d\<lparr>team_audit_log := team_audit_log d @ [r]\<rparr>))"

end
