(* ===== verification/CTF_ScoreStore.thy ===== *)
theory CTF_ScoreStore
  imports CTF_RosterStore
begin

text \<open>
  Challenges, solves, hints, their unlocks and awards in the database: the queries of
  \<open>sqlc/challenges.sql.go\<close>, \<open>solves.sql.go\<close>, \<open>hints.sql.go\<close>,
  \<open>hint_unlocks.sql.go\<close> and \<open>awards.sql.go\<close> with the constraints and cascades of the
  schema. Sums are computed without bound and cast to a 32-bit integer, which fails when the sum
  does not fit. Rows that the \<open>ORDER BY\<close> leaves unordered keep the order of insertion.
\<close>

section \<open>Sums\<close>

definition int4_ok :: "int \<Rightarrow> bool" where
  "int4_ok i \<longleftrightarrow> - (2 ^ 31) \<le> i \<and> i \<le> 2 ^ 31 - 1"

text \<open>\<open>COALESCE(SUM(x), 0)\<close>: NULLs do not count.\<close>

definition sum_some :: "int option list \<Rightarrow> int" where
  "sum_some xs = sum_list (map (\<lambda>x. case x of None \<Rightarrow> 0 | Some i \<Rightarrow> i) xs)"

text \<open>\<open>MAX(x)\<close>: NULL when there is nothing but NULLs.\<close>

fun max_some :: "int option list \<Rightarrow> int option" where
  "max_some [] = None"
| "max_some (None # xs) = max_some xs"
| "max_some (Some x # xs) = (case max_some xs of None \<Rightarrow> Some x | Some y \<Rightarrow> Some (max x y))"

section \<open>Challenges\<close>

definition challenge_exists :: "uuid \<Rightarrow> db \<Rightarrow> bool" where
  "challenge_exists ID d = (ID \<in> challenges_id ` set (challenges d))"

definition sqlc_CreateChallenge :: "challenges_row \<Rightarrow> unit query" where
  "sqlc_CreateChallenge r d =
     (if list_ex (\<lambda>c. challenges_id c = challenges_id r) (challenges d)
      then (Inl UniqueViolation, d)
      else (Inr (), d\<lparr>challenges := challenges d @ [r]\<rparr>))"

definition sqlc_GetChallengeByID :: "uuid \<Rightarrow> challenges_row query" where
  "sqlc_GetChallengeByID ID = select_one (\<lambda>d. filter (\<lambda>c. challenges_id c = ID) (challenges d))"

definition sqlc_GetChallengeByIDForUpdate :: "uuid \<Rightarrow> challenges_row query" where
  "sqlc_GetChallengeByIDForUpdate ID =
     select_one (\<lambda>d. filter (\<lambda>c. challenges_id c = ID) (challenges d))"

definition sqlc_IncrementChallengeSolveCount :: "uuid \<Rightarrow> int query" where
  "sqlc_IncrementChallengeSolveCount ID d =
     (case find (\<lambda>c. challenges_id c = ID) (challenges d) of
        None \<Rightarrow> (Inl NoRows, d)
      | Some c \<Rightarrow>
          (let n = challenges_solve_count c + 1 in
           if \<not> int4_ok n then (Inl OutOfRange, d)
           else (Inr n, d\<lparr>challenges := upd_where (\<lambda>c. challenges_id c = ID)
                  (\<lambda>c. c\<lparr>challenges_solve_count := challenges_solve_count c + 1\<rparr>) (challenges d)\<rparr>)))"

definition sqlc_UpdateChallengePoints :: "uuid \<Rightarrow> int option \<Rightarrow> uuid query" where
  "sqlc_UpdateChallengePoints ID points d =
     (if \<not> challenge_exists ID d then (Inl NoRows, d)
      else (Inr ID, d\<lparr>challenges := upd_where (\<lambda>c. challenges_id c = ID)
              (\<lambda>c. c\<lparr>challenges_points := points\<rparr>) (challenges d)\<rparr>))"

text \<open>Every column but the id and the solve count.\<close>

definition sqlc_UpdateChallenge :: "challenges_row \<Rightarrow> unit query" where
  "sqlc_UpdateChallenge r = modifyE (\<lambda>d.
     d\<lparr>challenges := upd_where (\<lambda>c. challenges_id c = challenges_id r)
        (\<lambda>c. r\<lparr>challenges_solve_count := challenges_solve_count c\<rparr>) (challenges d)\<rparr>)"

text \<open>Deleting a challenge deletes what refers to it, and the unlocks of its hints.\<close>

definition delete_hints_cascade :: "(hints_row \<Rightarrow> bool) \<Rightarrow> db \<Rightarrow> db" where
  "delete_hints_cascade P d = d\<lparr>
     hint_unlocks := del_where (\<lambda>u. list_ex (\<lambda>h. hints_id h = hint_unlocks_hint_id u \<and> P h) (hints d))
                       (hint_unlocks d),
     hints := del_where P (hints d)\<rparr>"

definition delete_challenge_cascade :: "uuid \<Rightarrow> db \<Rightarrow> db" where
  "delete_challenge_cascade ID d =
     (let d = delete_hints_cascade (\<lambda>h. hints_challenge_id h = ID) d in
      d\<lparr>challenges := del_where (\<lambda>c. challenges_id c = ID) (challenges d),
        solves := del_where (\<lambda>s. solves_challenge_id s = ID) (solves d),
        files := del_where (\<lambda>f. files_challenge_id f = ID) (files d),
        submissions := del_where (\<lambda>s. submissions_challenge_id s = ID) (submissions d),
        challenge_tags := del_where (\<lambda>t. challenge_tags_challenge_id t = ID) (challenge_tags d),
        comments := del_where (\<lambda>c. comments_challenge_id c = ID) (comments d)\<rparr>)"

definition sqlc_DeleteChallenge :: "uuid \<Rightarrow> uuid query" where
  "sqlc_DeleteChallenge ID d =
     (if challenge_exists ID d then (Inr ID, delete_challenge_cascade ID d) else (Inl NoRows, d))"

text \<open>The lists of visible challenges with the \<open>solved\<close> column.\<close>

definition sqlc_ListChallenges :: "(challenges_row \<times> int) list query" where
  "sqlc_ListChallenges = select_all (\<lambda>d.
     [(c, 0). c \<leftarrow> challenges d, challenges_is_hidden c = Some False])"

definition sqlc_ListChallengesByTag :: "uuid \<Rightarrow> (challenges_row \<times> int) list query" where
  "sqlc_ListChallengesByTag tag = select_all (\<lambda>d.
     [(c, 0). c \<leftarrow> challenges d, ct \<leftarrow> challenge_tags d,
        challenge_tags_challenge_id ct = challenges_id c \<and> challenge_tags_tag_id ct = tag \<and>
        challenges_is_hidden c = Some False])"

definition left_join_solves :: "uuid \<Rightarrow> db \<Rightarrow> challenges_row \<Rightarrow> (challenges_row \<times> int) list" where
  "left_join_solves team d c =
     (case filter (\<lambda>s. solves_challenge_id s = challenges_id c \<and> solves_team_id s = team) (solves d) of
        [] \<Rightarrow> [(c, 0)]
      | ss \<Rightarrow> map (\<lambda>_. (c, 1)) ss)"

definition sqlc_ListChallengesForTeam :: "uuid \<Rightarrow> (challenges_row \<times> int) list query" where
  "sqlc_ListChallengesForTeam team = select_all (\<lambda>d.
     concat (map (left_join_solves team d)
       (filter (\<lambda>c. challenges_is_hidden c = Some False) (challenges d))))"

definition sqlc_ListChallengesForTeamByTag :: "uuid \<Rightarrow> uuid \<Rightarrow> (challenges_row \<times> int) list query" where
  "sqlc_ListChallengesForTeamByTag tag team = select_all (\<lambda>d.
     concat (map (left_join_solves team d)
       [c. c \<leftarrow> challenges d, ct \<leftarrow> challenge_tags d,
          challenge_tags_challenge_id ct = challenges_id c \<and> challenge_tags_tag_id ct = tag \<and>
          challenges_is_hidden c = Some False]))"

section \<open>Solves\<close>

definition sqlc_CreateSolve :: "solves_row \<Rightarrow> unit query" where
  "sqlc_CreateSolve r d =
     (if list_ex (\<lambda>s. solves_id s = solves_id r \<or>
           solves_team_id s = solves_team_id r \<and> solves_challenge_id s = solves_challenge_id r) (solves d)
      then (Inl UniqueViolation, d)
      else if \<not> user_exists (solves_user_id r) d \<or> \<not> team_exists (solves_team_id r) d \<or>
              \<not> challenge_exists (solves_challenge_id r) d
      then (Inl ForeignKeyViolation, d)
      else (Inr (), d\<lparr>solves := solves d @ [r]\<rparr>))"

definition sqlc_DeleteSolvesByTeamID :: "uuid \<Rightarrow> unit query" where
  "sqlc_DeleteSolvesByTeamID team = modifyE (\<lambda>d.
     d\<lparr>solves := del_where (\<lambda>s. solves_team_id s = team) (solves d)\<rparr>)"

definition sqlc_GetAllSolves :: "solves_row list query" where
  "sqlc_GetAllSolves = select_all (\<lambda>d. order_by_asc solves_solved_at (solves d))"

definition sqlc_GetSolveByID :: "uuid \<Rightarrow> solves_row query" where
  "sqlc_GetSolveByID ID = select_one (\<lambda>d. filter (\<lambda>s. solves_id s = ID) (solves d))"

definition sqlc_GetSolveByTeamAndChallenge :: "uuid \<Rightarrow> uuid \<Rightarrow> solves_row query" where
  "sqlc_GetSolveByTeamAndChallenge team chal = select_one (\<lambda>d.
     filter (\<lambda>s. solves_team_id s = team \<and> solves_challenge_id s = chal) (solves d))"

definition sqlc_GetSolveByTeamAndChallengeForUpdate :: "uuid \<Rightarrow> uuid \<Rightarrow> solves_row query" where
  "sqlc_GetSolveByTeamAndChallengeForUpdate team chal = select_one (\<lambda>d.
     filter (\<lambda>s. solves_team_id s = team \<and> solves_challenge_id s = chal) (solves d))"

text \<open>\<open>ORDER BY key DESC\<close>: NULLs come first.\<close>

definition order_by_desc :: "('r \<Rightarrow> int option) \<Rightarrow> 'r list \<Rightarrow> 'r list" where
  "order_by_desc key rows =
     filter (\<lambda>r. key r = None) rows @ sort_key (\<lambda>r. - the (key r)) (filter (\<lambda>r. key r \<noteq> None) rows)"

definition sqlc_GetSolvesByUserID :: "uuid \<Rightarrow> solves_row list query" where
  "sqlc_GetSolvesByUserID user = select_all (\<lambda>d.
     order_by_desc solves_solved_at (filter (\<lambda>s. solves_user_id s = user) (solves d)))"

text \<open>The score of a team: its solves joined with their challenges, and its awards.\<close>

definition solve_join :: "db \<Rightarrow> (solves_row \<times> challenges_row) list" where
  "solve_join d = [(s, c). s \<leftarrow> solves d, c \<leftarrow> challenges d, challenges_id c = solves_challenge_id s]"

definition team_solve_points :: "db \<Rightarrow> uuid \<Rightarrow> int" where
  "team_solve_points d team =
     sum_some (map (\<lambda>(s, c). challenges_points c) (filter (\<lambda>(s, c). solves_team_id s = team) (solve_join d)))"

definition team_award_points :: "db \<Rightarrow> uuid \<Rightarrow> int" where
  "team_award_points d team =
     sum_list (map awards_value (filter (\<lambda>a. awards_team_id a = team) (awards d)))"

definition team_score :: "db \<Rightarrow> uuid \<Rightarrow> int" where
  "team_score d team = team_solve_points d team + team_award_points d team"

definition sqlc_GetTeamScore :: "uuid \<Rightarrow> int query" where
  "sqlc_GetTeamScore team d =
     (if int4_ok (team_solve_points d team) \<and> int4_ok (team_award_points d team) \<and>
         int4_ok (team_score d team)
      then (Inr (team_score d team), d) else (Inl OutOfRange, d))"

section \<open>Hints and unlocks\<close>

definition sqlc_CreateHint :: "hints_row \<Rightarrow> unit query" where
  "sqlc_CreateHint r d =
     (if list_ex (\<lambda>h. hints_id h = hints_id r) (hints d) then (Inl UniqueViolation, d)
      else if \<not> challenge_exists (hints_challenge_id r) d then (Inl ForeignKeyViolation, d)
      else (Inr (), d\<lparr>hints := hints d @ [r]\<rparr>))"

definition sqlc_DeleteHint :: "uuid \<Rightarrow> unit query" where
  "sqlc_DeleteHint ID = modifyE (delete_hints_cascade (\<lambda>h. hints_id h = ID))"

definition sqlc_GetHintByID :: "uuid \<Rightarrow> hints_row query" where
  "sqlc_GetHintByID ID = select_one (\<lambda>d. filter (\<lambda>h. hints_id h = ID) (hints d))"

definition sqlc_GetHintsByChallengeID :: "uuid \<Rightarrow> hints_row list query" where
  "sqlc_GetHintsByChallengeID chal = select_all (\<lambda>d.
     sort_key hints_order_index (filter (\<lambda>h. hints_challenge_id h = chal) (hints d)))"

definition sqlc_UpdateHint :: "uuid \<Rightarrow> string \<Rightarrow> int \<Rightarrow> int \<Rightarrow> unit query" where
  "sqlc_UpdateHint ID content cost order_index = modifyE (\<lambda>d.
     d\<lparr>hints := upd_where (\<lambda>h. hints_id h = ID)
        (\<lambda>h. h\<lparr>hints_content := content, hints_cost := cost, hints_order_index := order_index\<rparr>)
        (hints d)\<rparr>)"

definition sqlc_CreateHintUnlock :: "time \<Rightarrow> uuid \<Rightarrow> uuid \<Rightarrow> uuid \<Rightarrow> unit query" where
  "sqlc_CreateHintUnlock now ID hint team d =
     (if list_ex (\<lambda>u. hint_unlocks_team_id u = team \<and> hint_unlocks_hint_id u = hint) (hint_unlocks d)
      then (Inr (), d)
      else if list_ex (\<lambda>u. hint_unlocks_id u = ID) (hint_unlocks d) then (Inl UniqueViolation, d)
      else if hint \<notin> hints_id ` set (hints d) \<or> \<not> team_exists team d then (Inl ForeignKeyViolation, d)
      else (Inr (), d\<lparr>hint_unlocks := hint_unlocks d @ [\<lparr>hint_unlocks_id = ID,
              hint_unlocks_hint_id = hint, hint_unlocks_team_id = team,
              hint_unlocks_unlocked_at = Some now\<rparr>]\<rparr>))"

definition sqlc_GetHintUnlockByTeamAndHint :: "uuid \<Rightarrow> uuid \<Rightarrow> hint_unlocks_row query" where
  "sqlc_GetHintUnlockByTeamAndHint team hint = select_one (\<lambda>d.
     filter (\<lambda>u. hint_unlocks_team_id u = team \<and> hint_unlocks_hint_id u = hint) (hint_unlocks d))"

definition sqlc_GetHintUnlockByTeamAndHintForUpdate :: "uuid \<Rightarrow> uuid \<Rightarrow> hint_unlocks_row query" where
  "sqlc_GetHintUnlockByTeamAndHintForUpdate team hint = select_one (\<lambda>d.
     filter (\<lambda>u. hint_unlocks_team_id u = team \<and> hint_unlocks_hint_id u = hint) (hint_unlocks d))"

definition sqlc_GetUnlockedHintIDs :: "uuid \<Rightarrow> uuid \<Rightarrow> uuid list query" where
  "sqlc_GetUnlockedHintIDs team chal = select_all (\<lambda>d.
     [hint_unlocks_hint_id u. u \<leftarrow> hint_unlocks d, h \<leftarrow> hints d,
        hints_id h = hint_unlocks_hint_id u \<and> hint_unlocks_team_id u = team \<and>
        hints_challenge_id h = chal])"

section \<open>Awards\<close>

definition sqlc_CreateAward :: "awards_row \<Rightarrow> unit query" where
  "sqlc_CreateAward r d =
     (if list_ex (\<lambda>a. awards_id a = awards_id r) (awards d) then (Inl UniqueViolation, d)
      else if \<not> team_exists (awards_team_id r) d \<or>
              (case awards_created_by r of None \<Rightarrow> False | Some u \<Rightarrow> \<not> user_exists u d)
      then (Inl ForeignKeyViolation, d)
      else (Inr (), d\<lparr>awards := awards d @ [r]\<rparr>))"

definition sqlc_GetAllAwards :: "awards_row list query" where
  "sqlc_GetAllAwards = select_all (\<lambda>d. order_by_asc awards_created_at (awards d))"

definition sqlc_GetAwardsByTeamID :: "uuid \<Rightarrow> awards_row list query" where
  "sqlc_GetAwardsByTeamID team = select_all (\<lambda>d.
     order_by_desc awards_created_at (filter (\<lambda>a. awards_team_id a = team) (awards d)))"

definition sqlc_GetTeamTotalAwards :: "uuid \<Rightarrow> int query" where
  "sqlc_GetTeamTotalAwards team d =
     (if int4_ok (team_award_points d team) then (Inr (team_award_points d team), d)
      else (Inl OutOfRange, d))"

section \<open>Scores after a change\<close>

lemma sum_some_append: "sum_some (xs @ ys) = sum_some xs + sum_some ys"
  by (simp add: sum_some_def)

lemma sum_some_Nil [simp]: "sum_some [] = 0"
  by (simp add: sum_some_def)

lemma team_award_points_append:
  "team_award_points (d\<lparr>awards := awards d @ [r]\<rparr>) team =
     team_award_points d team + (if awards_team_id r = team then awards_value r else 0)"
  by (simp add: team_award_points_def)

lemma solve_join_cong:
  "solves d = solves d' \<Longrightarrow> challenges d = challenges d' \<Longrightarrow> solve_join d = solve_join d'"
  by (simp add: solve_join_def)

lemma team_solve_points_awards [simp]:
  "team_solve_points (d\<lparr>awards := a\<rparr>) team = team_solve_points d team"
  by (simp add: team_solve_points_def solve_join_def)

lemma team_score_unlocks [simp]: "team_score (d\<lparr>hint_unlocks := u\<rparr>) team = team_score d team"
  by (simp add: team_score_def team_solve_points_def solve_join_def team_award_points_def)

end
