(* ===== verification/CTF_RosterRepo.thy ===== *)
theory CTF_RosterRepo
  imports CTF_RosterStore
begin

text \<open>
  \<open>UserRepo\<close>, \<open>TeamRepo\<close>, \<open>TxUserRepo\<close> and \<open>TxTeamRepo\<close>: the queries of
  \<open>CTF_RosterStore\<close> with the conversion of rows to entities and of the driver's errors to
  the sentinels. A method that fills in fields of the entity it is given returns the entity.
\<close>

section \<open>Errors and rows\<close>

text \<open>\<open>if isNoRows(err) { return sentinel }; return fmt.Errorf("msg: %w", err)\<close>\<close>

definition no_rows_as :: "sentinel \<Rightarrow> string \<Rightarrow> goerr \<Rightarrow> goerr" where
  "no_rows_as s msg e = (if isNoRows e then Sentinel s else wrap msg e)"

definition toEntityUser :: "users_row \<Rightarrow> user" where
  "toEntityUser u = \<lparr>user_ID = users_id u, user_TeamID = users_team_id u,
     user_Username = users_username u, user_Email = users_email u,
     user_PasswordHash = users_password_hash u, user_Role = ptrStrToStr (users_role u),
     user_IsVerified = boolPtrToBool (users_is_verified u), user_VerifiedAt = users_verified_at u,
     user_CreatedAt = ptrTimeToTime (users_created_at u)\<rparr>"

definition toEntityTeamFromRow :: "teams_row \<Rightarrow> team" where
  "toEntityTeamFromRow t = \<lparr>team_ID = teams_id t, team_Name = teams_name t,
     team_InviteToken = teams_invite_token t, team_CaptainID = teams_captain_id t,
     team_BracketID = teams_bracket_id t, team_IsSolo = boolPtrToBool (teams_is_solo t),
     team_IsAutoCreated = boolPtrToBool (teams_is_auto_created t),
     team_IsBanned = boolPtrToBool (teams_is_banned t), team_BannedAt = teams_banned_at t,
     team_BannedReason = teams_banned_reason t, team_IsHidden = boolPtrToBool (teams_is_hidden t),
     team_CreatedAt = ptrTimeToTime (teams_created_at t)\<rparr>"

lemma toEntityUser_simps [simp]:
  "user_ID (toEntityUser u) = users_id u" "user_TeamID (toEntityUser u) = users_team_id u"
  "user_Username (toEntityUser u) = users_username u"
  by (simp_all add: toEntityUser_def)

lemma toEntityTeam_simps [simp]:
  "team_ID (toEntityTeamFromRow t) = teams_id t"
  "team_Name (toEntityTeamFromRow t) = teams_name t"
  "team_CaptainID (toEntityTeamFromRow t) = teams_captain_id t"
  "team_InviteToken (toEntityTeamFromRow t) = teams_invite_token t"
  "team_BracketID (toEntityTeamFromRow t) = teams_bracket_id t"
  "team_IsSolo (toEntityTeamFromRow t) = boolPtrToBool (teams_is_solo t)"
  "team_IsAutoCreated (toEntityTeamFromRow t) = boolPtrToBool (teams_is_auto_created t)"
  "team_IsBanned (toEntityTeamFromRow t) = boolPtrToBool (teams_is_banned t)"
  "team_IsHidden (toEntityTeamFromRow t) = boolPtrToBool (teams_is_hidden t)"
  by (simp_all add: toEntityTeamFromRow_def)

section \<open>UserRepo\<close>

definition UserRepo_Create :: "user \<Rightarrow> user op" where
  "UserRepo_Create u =
     (let u = (if user_Role u = '''' then u\<lparr>user_Role := RoleUser\<rparr> else u) in
      bindE uuid_New (\<lambda>ID. bindE nowE (\<lambda>now.
      bindE (mapErr (wrap ''UserRepo - Create'')
        (sql (sqlc_CreateUser ID (user_Username u) (user_Email u) (user_PasswordHash u)
           (Some (user_Role u)) (Some False) (Some now)))) (\<lambda>_.
      returnE (u\<lparr>user_ID := ID, user_CreatedAt := now, user_IsVerified := False\<rparr>)))))"

definition UserRepo_GetByID :: "uuid \<Rightarrow> user op" where
  "UserRepo_GetByID ID =
     bindE (mapErr (no_rows_as ErrUserNotFound ''UserRepo - GetByID'')
       (sql (sqlc_GetUserByID ID))) (\<lambda>u. returnE (toEntityUser u))"

definition UserRepo_GetByEmail :: "string \<Rightarrow> user op" where
  "UserRepo_GetByEmail email =
     bindE (mapErr (no_rows_as ErrUserNotFound ''UserRepo - GetByEmail'')
       (sql (sqlc_GetUserByEmail email))) (\<lambda>u. returnE (toEntityUser u))"

definition UserRepo_GetByUsername :: "string \<Rightarrow> user op" where
  "UserRepo_GetByUsername username =
     bindE (mapErr (no_rows_as ErrUserNotFound ''UserRepo - GetByUsername'')
       (sql (sqlc_GetUserByUsername username))) (\<lambda>u. returnE (toEntityUser u))"

definition UserRepo_GetByTeamID :: "uuid \<Rightarrow> user list op" where
  "UserRepo_GetByTeamID team_id =
     bindE (mapErr (wrap ''UserRepo - GetByTeamID'') (sql (sqlc_ListUsersByTeamID (Some team_id))))
       (\<lambda>rows. returnE (map toEntityUser rows))"

definition UserRepo_GetAll :: "user list op" where
  "UserRepo_GetAll =
     bindE (mapErr (wrap ''UserRepo - GetAll'') (sql sqlc_GetAllUsers))
       (\<lambda>rows. returnE (map toEntityUser rows))"

definition UserRepo_UpdateTeamID :: "uuid \<Rightarrow> uuid option \<Rightarrow> unit op" where
  "UserRepo_UpdateTeamID user_id team_id =
     bindE (mapErr (no_rows_as ErrUserNotFound ''UserRepo - UpdateTeamID'')
       (sql (sqlc_UpdateUserTeamID user_id team_id))) (\<lambda>_. returnE ())"

definition UserRepo_SetVerified :: "uuid \<Rightarrow> unit op" where
  "UserRepo_SetVerified user_id =
     bindE nowE (\<lambda>now. mapErr (wrap ''UserRepo - SetVerified'')
       (sql (sqlc_UpdateUserVerified user_id (Some True) (Some now))))"

definition UserRepo_UpdatePassword :: "uuid \<Rightarrow> string \<Rightarrow> unit op" where
  "UserRepo_UpdatePassword user_id password_hash =
     mapErr (wrap ''UserRepo - UpdatePassword'') (sql (sqlc_UpdatePassword user_id password_hash))"

section \<open>TeamRepo\<close>

definition TeamRepo_Create :: "team \<Rightarrow> team op" where
  "TeamRepo_Create t =
     bindE uuid_New (\<lambda>ID. bindE nowE (\<lambda>now.
     bindE (mapErr (wrap ''TeamRepo - Create'')
       (sql (sqlc_CreateTeam ID (team_Name t) (team_InviteToken t) (team_CaptainID t)
          (Some (team_IsSolo t)) (Some (team_IsAutoCreated t)) (Some now)))) (\<lambda>_.
     returnE (t\<lparr>team_ID := ID, team_CreatedAt := now\<rparr>))))"

definition TeamRepo_GetByID :: "uuid \<Rightarrow> team op" where
  "TeamRepo_GetByID ID =
     bindE (mapErr (no_rows_as ErrTeamNotFound ''TeamRepo - GetByID'')
       (sql (sqlc_GetTeamByID ID))) (\<lambda>t. returnE (toEntityTeamFromRow t))"

definition TeamRepo_GetByInviteToken :: "uuid \<Rightarrow> team op" where
  "TeamRepo_GetByInviteToken token =
     (if token = 0 then throwE (Sentinel ErrTeamNotFound)
      else bindE (mapErr (no_rows_as ErrTeamNotFound ''TeamRepo - GetByInviteToken'')
        (sql (sqlc_GetTeamByInviteToken token))) (\<lambda>t. returnE (toEntityTeamFromRow t)))"

definition TeamRepo_GetByName :: "string \<Rightarrow> team op" where
  "TeamRepo_GetByName name =
     bindE (mapErr (no_rows_as ErrTeamNotFound ''TeamRepo - GetByName'')
       (sql (sqlc_GetTeamByName name))) (\<lambda>t. returnE (toEntityTeamFromRow t))"

definition TeamRepo_Delete :: "uuid \<Rightarrow> unit op" where
  "TeamRepo_Delete ID =
     bindE nowE (\<lambda>now. bindE (mapErr (no_rows_as ErrTeamNotFound ''TeamRepo - Delete'')
       (sql (sqlc_SoftDeleteTeam now ID))) (\<lambda>_. returnE ()))"

definition TeamRepo_HardDeleteTeams :: "time \<Rightarrow> unit op" where
  "TeamRepo_HardDeleteTeams cutoff =
     mapErr (wrap ''TeamRepo - HardDeleteTeams'') (sql (sqlc_HardDeleteTeamsBefore cutoff))"

definition TeamRepo_GetSoloTeamByUserID :: "uuid \<Rightarrow> team op" where
  "TeamRepo_GetSoloTeamByUserID user_id =
     bindE (mapErr (no_rows_as ErrTeamNotFound ''TeamRepo - GetSoloTeamByUserID'')
       (sql (sqlc_GetSoloTeamByUserID user_id))) (\<lambda>t. returnE (toEntityTeamFromRow t))"

definition TeamRepo_CountTeamMembers :: "uuid \<Rightarrow> int op" where
  "TeamRepo_CountTeamMembers team_id =
     mapErr (wrap ''TeamRepo - CountTeamMembers'') (sql (sqlc_CountTeamMembers (Some team_id)))"

definition TeamRepo_Ban :: "uuid \<Rightarrow> string \<Rightarrow> unit op" where
  "TeamRepo_Ban team_id reason =
     bindE nowE (\<lambda>now. bindE (mapErr (no_rows_as ErrTeamNotFound ''TeamRepo - Ban'')
       (sql (sqlc_BanTeam team_id (Some now) (Some reason)))) (\<lambda>_. returnE ()))"

definition TeamRepo_Unban :: "uuid \<Rightarrow> unit op" where
  "TeamRepo_Unban team_id =
     bindE (mapErr (no_rows_as ErrTeamNotFound ''TeamRepo - Unban'')
       (sql (sqlc_UnbanTeam team_id))) (\<lambda>_. returnE ())"

definition TeamRepo_SetHidden :: "uuid \<Rightarrow> bool \<Rightarrow> unit op" where
  "TeamRepo_SetHidden team_id hidden =
     bindE (mapErr (no_rows_as ErrTeamNotFound ''TeamRepo - SetHidden'')
       (sql (sqlc_SetTeamHidden team_id (Some hidden)))) (\<lambda>_. returnE ())"

definition TeamRepo_GetAll :: "team list op" where
  "TeamRepo_GetAll =
     bindE (mapErr (wrap ''TeamRepo - GetAll'') (sql sqlc_GetAllTeams))
       (\<lambda>rows. returnE (map toEntityTeamFromRow rows))"

definition TeamRepo_SetBracket :: "uuid \<Rightarrow> uuid option \<Rightarrow> unit op" where
  "TeamRepo_SetBracket team_id bracket_id =
     bindE (mapErr (no_rows_as ErrTeamNotFound ''TeamRepo - SetBracket'')
       (sql (sqlc_SetTeamBracket team_id bracket_id))) (\<lambda>_. returnE ())"

section \<open>TxUserRepo\<close>

definition CreateUserTx :: "user \<Rightarrow> user op" where
  "CreateUserTx u =
     bindE nowE (\<lambda>now. bindE uuid_New (\<lambda>ID.
     bindE (mapErr (wrap ''TxUserRepo - CreateUserTx'')
       (sql_tx (sqlc_CreateUserReturningID ID (user_Username u) (user_Email u) (user_PasswordHash u)
          (Some (user_Role u)) (Some False) (Some now)))) (\<lambda>ID.
     returnE (u\<lparr>user_CreatedAt := now, user_ID := ID\<rparr>))))"

definition UpdateUserTeamIDTx :: "uuid \<Rightarrow> uuid option \<Rightarrow> unit op" where
  "UpdateUserTeamIDTx user_id team_id =
     bindE (mapErr (no_rows_as ErrUserNotFound ''TxUserRepo - UpdateUserTeamIDTx'')
       (sql_tx (sqlc_UpdateUserTeamID user_id team_id))) (\<lambda>_. returnE ())"

definition LockUserTx :: "uuid \<Rightarrow> unit op" where
  "LockUserTx user_id =
     bindE (mapErr (no_rows_as ErrUserNotFound ''TxUserRepo - LockUserTx - Scan'')
       (sql_tx (lock_user user_id))) (\<lambda>_. returnE ())"

section \<open>TxTeamRepo\<close>

definition CreateTeamTx :: "team \<Rightarrow> team op" where
  "CreateTeamTx t =
     bindE nowE (\<lambda>now. bindE uuid_New (\<lambda>ID.
     bindE (mapErr (wrap ''TxTeamRepo - CreateTeamTx'')
       (sql_tx (sqlc_CreateTeamReturningID ID (team_Name t) (team_InviteToken t) (team_CaptainID t)
          (Some (team_IsSolo t)) (Some (team_IsAutoCreated t)) (Some now)))) (\<lambda>ID.
     returnE (t\<lparr>team_CreatedAt := now, team_ID := ID\<rparr>))))"

definition GetTeamByNameTx :: "string \<Rightarrow> team op" where
  "GetTeamByNameTx name =
     bindE (mapErr (no_rows_as ErrTeamNotFound ''TxTeamRepo - GetTeamByNameTx'')
       (sql_tx (sqlc_GetTeamByName name))) (\<lambda>t. returnE (toEntityTeamFromRow t))"

definition GetTeamByInviteTokenTx :: "uuid \<Rightarrow> team op" where
  "GetTeamByInviteTokenTx token =
     bindE (mapErr (no_rows_as ErrTeamNotFound ''TxTeamRepo - GetTeamByInviteTokenTx'')
       (sql_tx (sqlc_GetTeamByInviteToken token))) (\<lambda>t. returnE (toEntityTeamFromRow t))"

definition GetUsersByTeamIDTx :: "uuid \<Rightarrow> user list op" where
  "GetUsersByTeamIDTx team_id =
     bindE (mapErr (wrap ''TxTeamRepo - GetUsersByTeamIDTx'')
       (sql_tx (sqlc_ListUsersByTeamID (Some team_id)))) (\<lambda>rows. returnE (map toEntityUser rows))"

definition DeleteTeamTx :: "uuid \<Rightarrow> unit op" where
  "DeleteTeamTx team_id =
     bindE nowE (\<lambda>now. bindE (mapErr (wrap ''TxTeamRepo - DeleteTeamTx - Exec'')
       (sql_tx (set_team_deleted team_id now))) (\<lambda>n. failIf (n = 0) (Sentinel ErrTeamNotFound)))"

definition UpdateTeamCaptainTx :: "uuid \<Rightarrow> uuid \<Rightarrow> unit op" where
  "UpdateTeamCaptainTx team_id new_captain_id =
     bindE (mapErr (wrap ''TxTeamRepo - UpdateTeamCaptainTx - Exec'')
       (sql_tx (set_team_captain team_id new_captain_id)))
       (\<lambda>n. failIf (n = 0) (Sentinel ErrTeamNotFound))"

definition SoftDeleteTeamTx :: "uuid \<Rightarrow> unit op" where
  "SoftDeleteTeamTx team_id =
     bindE nowE (\<lambda>now. bindE (mapErr (no_rows_as ErrTeamNotFound ''TxTeamRepo - SoftDeleteTeamTx'')
       (sql_tx (sqlc_SoftDeleteTeam now team_id))) (\<lambda>_. returnE ()))"

text \<open>Details that are nil are stored as \<open>{}\<close>; marshalling a map of strings cannot fail.\<close>

definition CreateTeamAuditLogTx :: "uuid \<Rightarrow> uuid \<Rightarrow> string \<Rightarrow> details \<Rightarrow> unit op" where
  "CreateTeamAuditLogTx team_id user_id action details =
     bindE uuid_New (\<lambda>ID. bindE nowE (\<lambda>now.
     mapErr (wrap ''TxTeamRepo - CreateTeamAuditLogTx - Exec'')
       (sql_tx (team_audit_log_insert \<lparr>team_audit_log_id = ID, team_audit_log_team_id = team_id,
          team_audit_log_user_id = user_id, team_audit_log_action = action,
          team_audit_log_details = Some details, team_audit_log_created_at = Some now\<rparr>))))"

definition LockTeamTx :: "uuid \<Rightarrow> unit op" where
  "LockTeamTx team_id =
     bindE (mapErr (no_rows_as ErrTeamNotFound ''TxTeamRepo - LockTeamTx - Scan'')
       (sql_tx (lock_team team_id))) (\<lambda>_. returnE ())"

definition GetTeamByIDTx :: "uuid \<Rightarrow> team op" where
  "GetTeamByIDTx ID =
     bindE (mapErr (no_rows_as ErrTeamNotFound ''TxTeamRepo - GetTeamByIDTx'')
       (sql_tx (sqlc_GetTeamByID ID))) (\<lambda>t. returnE (toEntityTeamFromRow t))"

definition GetSoloTeamByUserIDTx :: "uuid \<Rightarrow> team op" where
  "GetSoloTeamByUserIDTx user_id =
     bindE (mapErr (no_rows_as ErrTeamNotFound ''TxTeamRepo - GetSoloTeamByUserIDTx'')
       (sql_tx (sqlc_GetSoloTeamByUserID user_id))) (\<lambda>t. returnE (toEntityTeamFromRow t))"

end
