(* ===== verification/CTF_Cache.thy ===== *)
theory CTF_Cache
  imports CTF_World
begin

text \<open>
  The redis client as the code uses it, \<open>cache.GetOrLoad\<close> and the key names of
  \<open>pkg/cache\<close>, and the invalidation of the scoreboard cache. A redis call that fails is a miss
  when it reads and is ignored when it writes, as in the code. An entry is visible until its
  expiry. The string form of a UUID belongs to another package and is a parameter.
\<close>

section \<open>Redis\<close>

abbreviation second :: time where
  "second \<equiv> 1000000"

definition redis_lookup :: "world \<Rightarrow> string \<Rightarrow> cached option" where
  "redis_lookup w key =
     (case redis w key of
        Some (v, expiry) \<Rightarrow> if clock w < expiry then Some v else None
      | None \<Rightarrow> None)"

definition redis_Get :: "string \<Rightarrow> cached option op" where
  "redis_Get key w =
     (if next_fault w then (Inr None, use_fault w) else (Inr (redis_lookup w key), use_fault w))"

definition redis_Set :: "string \<Rightarrow> cached \<Rightarrow> time \<Rightarrow> unit op" where
  "redis_Set key v ttl w =
     (Inr (), if next_fault w then use_fault w
              else (use_fault w)\<lparr>redis := (redis w)(key \<mapsto> (v, clock w + ttl))\<rparr>)"

definition redis_Del :: "string list \<Rightarrow> unit op" where
  "redis_Del keys w =
     (Inr (), if next_fault w then use_fault w
              else (use_fault w)\<lparr>redis := (\<lambda>k. if k \<in> set keys then None else redis w k)\<rparr>)"

section \<open>GetOrLoad\<close>

text \<open>
  \<open>dec\<close> is \<open>json.Unmarshal\<close> into the result type, \<open>enc\<close> is \<open>json.Marshal\<close>. One
  caller at a time: \<open>singleflight\<close> runs the function it is given.
\<close>

definition GetOrLoad ::
  "('a \<Rightarrow> cached) \<Rightarrow> (cached \<Rightarrow> 'a option) \<Rightarrow> string \<Rightarrow> time \<Rightarrow> 'a op \<Rightarrow> 'a op" where
  "GetOrLoad enc dec key ttl loadFn =
     bindE (redis_Get key) (\<lambda>val.
       case (case val of Some v \<Rightarrow> dec v | None \<Rightarrow> None) of
         Some result \<Rightarrow> returnE result
       | None \<Rightarrow>
           bindE loadFn (\<lambda>data.
           bindE (redis_Set key (enc data) ttl) (\<lambda>_. returnE data)))"

definition Cache_Del :: "string list \<Rightarrow> unit op" where
  "Cache_Del keys = (if 0 < length keys then redis_Del keys else returnE ())"

section \<open>Keys\<close>

abbreviation KeyScoreboard :: string where
  "KeyScoreboard \<equiv> ''scoreboard''"

abbreviation KeyScoreboardFrozen :: string where
  "KeyScoreboardFrozen \<equiv> ''scoreboard:frozen''"

abbreviation KeyCompetition :: string where
  "KeyCompetition \<equiv> ''competition''"

abbreviation KeyAppSettings :: string where
  "KeyAppSettings \<equiv> ''app_settings''"

definition KeyScoreboardBracket :: "string \<Rightarrow> string" where
  "KeyScoreboardBracket bracketID = ''scoreboard:bracket:'' @ bracketID"

definition KeyScoreboardBracketFrozen :: "string \<Rightarrow> string" where
  "KeyScoreboardBracketFrozen bracketID = ''scoreboard:frozen:bracket:'' @ bracketID"

section \<open>ScoreboardCacheService\<close>

text \<open>
  A service built over a nil cache does nothing; one built without a getter cannot find the
  bracket of a team.
\<close>

record scoreboard_cache =
  sc_cache :: bool
  sc_getter :: "(uuid \<Rightarrow> uuid option op) option"

definition InvalidateAll :: "scoreboard_cache \<Rightarrow> unit op" where
  "InvalidateAll s =
     (if sc_cache s then Cache_Del [KeyScoreboard, KeyScoreboardFrozen] else returnE ())"

definition InvalidateForTeam :: "(uuid \<Rightarrow> string) \<Rightarrow> scoreboard_cache \<Rightarrow> uuid \<Rightarrow> unit op" where
  "InvalidateForTeam uuid_String s teamID =
     bindE (InvalidateAll s) (\<lambda>_.
       case sc_getter s of
         None \<Rightarrow> returnE ()
       | Some getter \<Rightarrow>
           bindE (tryE (getter teamID)) (\<lambda>r. case r of
             Inl _ \<Rightarrow> returnE ()
           | Inr None \<Rightarrow> returnE ()
           | Inr (Some bracketID) \<Rightarrow>
               Cache_Del [KeyScoreboardBracket (uuid_String bracketID),
                          KeyScoreboardBracketFrozen (uuid_String bracketID)]))"

section \<open>Facts\<close>

lemma redis_Get_Inr_iff:
  "redis_Get key w = (Inr v, w') \<longleftrightarrow>
     w' = use_fault w \<and> v = (if next_fault w then None else redis_lookup w key)"
  unfolding redis_Get_def by (cases "next_fault w") (simp_all, blast+)

lemma redis_calls_total [simp]:
  "redis_Get key w \<noteq> (Inl e, w')" "redis_Set key v ttl w \<noteq> (Inl e, w')"
  "redis_Del keys w \<noteq> (Inl e, w')"
  by (simp_all add: redis_Get_def redis_Set_def redis_Del_def)

lemma redis_calls_store:
  "redis_Get key w = (r, w') \<Longrightarrow> store w' = store w"
  "redis_Set key v ttl w = (r', w') \<Longrightarrow> store w' = store w"
  "redis_Del keys w = (r'', w') \<Longrightarrow> store w' = store w"
  by (auto simp: redis_Get_def redis_Set_def redis_Del_def split: if_splits)

lemma db_keeps_redis [valid_rules]:
  "db_keeps J (redis_Get key)" "db_keeps J (redis_Set key v ttl)" "db_keeps J (redis_Del keys)"
  by (rule keepsI, simp add: redis_calls_store)+

lemma db_keeps_Cache_Del [valid_rules]: "db_keeps J (Cache_Del keys)"
  unfolding Cache_Del_def by (intro valid_rules)

lemma db_keeps_InvalidateAll [valid_rules]: "db_keeps J (InvalidateAll s)"
  unfolding InvalidateAll_def by (intro valid_rules)

lemma db_keeps_GetOrLoad [valid_rules]:
  "db_keeps J loadFn \<Longrightarrow> db_keeps J (GetOrLoad enc dec key ttl loadFn)"
  unfolding GetOrLoad_def by (intro valid_rules)

text \<open>The call returns what was cached or what the loader returns.\<close>

lemma GetOrLoad_Inr:
  assumes "GetOrLoad enc dec key ttl loadFn w = (Inr x, w')"
  shows "(\<exists>v. redis_lookup w key = Some v \<and> dec v = Some x \<and> store w' = store w) \<or>
    (\<exists>w2. loadFn (use_fault w) = (Inr x, w2) \<and> store w' = store w2)"
proof -
  from assms obtain val where
    val: "val = (if next_fault w then None else redis_lookup w key)"
    and run: "(case (case val of Some v \<Rightarrow> dec v | None \<Rightarrow> None) of
         Some result \<Rightarrow> returnE result
       | None \<Rightarrow> bindE loadFn (\<lambda>data. bindE (redis_Set key (enc data) ttl) (\<lambda>_. returnE data)))
       (use_fault w) = (Inr x, w')"
    by (auto simp: GetOrLoad_def bindE_Inr_iff redis_Get_Inr_iff)
  show ?thesis
  proof (cases "case val of Some v \<Rightarrow> dec v | None \<Rightarrow> None")
    case None
    then show ?thesis using run
      by (auto simp: bindE_Inr_iff dest: redis_calls_store)
  next
    case (Some r)
    then obtain v where "val = Some v" "dec v = Some r" by (auto split: option.splits)
    then show ?thesis using run val by (auto split: if_splits)
  qed
qed

text \<open>After a successful invalidation the next read goes to the loader.\<close>

lemma redis_Del_lookup:
  assumes "\<not> next_fault w" "key \<in> set keys"
  shows "redis_lookup (snd (redis_Del keys w)) key = None"
  using assms by (simp add: redis_Del_def redis_lookup_def)

lemma redis_Del_other:
  assumes "key \<notin> set keys"
  shows "redis_lookup (snd (redis_Del keys w)) key = redis_lookup w key"
  using assms by (simp add: redis_Del_def redis_lookup_def split: option.split prod.split)

lemma bracket_keys_distinct:
  "KeyScoreboardBracket b \<noteq> KeyScoreboard" "KeyScoreboardBracket b \<noteq> KeyScoreboardFrozen"
  "KeyScoreboardBracketFrozen b \<noteq> KeyScoreboard"
  "KeyScoreboardBracketFrozen b \<noteq> KeyScoreboardFrozen"
  "KeyScoreboardBracket b \<noteq> KeyScoreboardBracketFrozen b'"
  by (simp_all add: KeyScoreboardBracket_def KeyScoreboardBracketFrozen_def)

end
