(* ===== verification/CTF_Competition.thy ===== *)
theory CTF_Competition
  imports CTF_RosterRepo CTF_Cache
begin

text \<open>
  The competition: its row, \<open>CompetitionRepo\<close>, the status machine of
  \<open>entity/competition.go\<close>, the guards of \<open>usecase/competition/guard.go\<close> and
  \<open>CompetitionUseCase\<close> with its cache; the audit log of administrative actions.
\<close>

section \<open>Status\<close>

definition CompetitionMode_Isvalid :: "string \<Rightarrow> bool" where
  "CompetitionMode_Isvalid m = (m = ModeSoloOnly \<or> m = ModeTeamsOnly \<or> m = ModeFlexible)"

definition CompetitionMode_AllowsSolo :: "string \<Rightarrow> bool" where
  "CompetitionMode_AllowsSolo m = (m = ModeSoloOnly \<or> m = ModeFlexible)"

definition CompetitionMode_AllowsTeams :: "string \<Rightarrow> bool" where
  "CompetitionMode_AllowsTeams m = (m = ModeTeamsOnly \<or> m = ModeFlexible)"

text \<open>\<open>now\<close> is the one reading of the clock that \<open>GetStatus\<close> makes.\<close>

definition Competition_GetStatus :: "time \<Rightarrow> competition \<Rightarrow> string" where
  "Competition_GetStatus now c =
     (if (case comp_StartTime c of None \<Rightarrow> True | Some t \<Rightarrow> now < t) then CompetitionStatusNotStarted
      else if (case comp_EndTime c of None \<Rightarrow> False | Some t \<Rightarrow> t < now) then CompetitionStatusEnded
      else if comp_IsPaused c then CompetitionStatusPaused
      else if (case comp_FreezeTime c of None \<Rightarrow> False | Some t \<Rightarrow> t < now) then CompetitionStatusFrozen
      else CompetitionStatusActive)"

definition Competition_IsSubmissionAllowed :: "time \<Rightarrow> competition \<Rightarrow> bool" where
  "Competition_IsSubmissionAllowed now c =
     (let status = Competition_GetStatus now c in
      status = CompetitionStatusActive \<or> status = CompetitionStatusFrozen)"

section \<open>CompetitionRepo\<close>

definition sqlc_GetCompetition :: "competition_row query" where
  "sqlc_GetCompetition = select_one (\<lambda>d. filter (\<lambda>c. competition_id c = 1) (competition d))"

definition sqlc_UpdateCompetition ::
  "string \<Rightarrow> time option \<Rightarrow> time option \<Rightarrow> time option \<Rightarrow> bool option \<Rightarrow> bool option \<Rightarrow> string option \<Rightarrow>
   string option \<Rightarrow> bool option \<Rightarrow> int option \<Rightarrow> int option \<Rightarrow> time option \<Rightarrow> unit query" where
  "sqlc_UpdateCompetition name start_time end_time freeze_time is_paused is_public flag_regex mode
     allow_team_switch min_team_size max_team_size updated_at = modifyE (\<lambda>d.
     d\<lparr>competition := upd_where (\<lambda>c. competition_id c = 1) (\<lambda>c. c\<lparr>competition_name := name,
        competition_start_time := start_time, competition_end_time := end_time,
        competition_freeze_time := freeze_time, competition_is_paused := is_paused,
        competition_is_public := is_public, competition_flag_regex := flag_regex,
        competition_mode := mode, competition_allow_team_switch := allow_team_switch,
        competition_min_team_size := min_team_size, competition_max_team_size := max_team_size,
        competition_updated_at := updated_at\<rparr>) (competition d)\<rparr>)"

definition toEntityCompetition :: "competition_row \<Rightarrow> competition" where
  "toEntityCompetition c = \<lparr>comp_ID = competition_id c, comp_Name = competition_name c,
     comp_StartTime = competition_start_time c, comp_EndTime = competition_end_time c,
     comp_FreezeTime = competition_freeze_time c,
     comp_IsPaused = boolPtrToBool (competition_is_paused c),
     comp_IsPublic = boolPtrToBool (competition_is_public c),
     comp_FlagRegex = competition_flag_regex c, comp_Mode = ptrStrToStr (competition_mode c),
     comp_AllowTeamSwitch = boolPtrToBool (competition_allow_team_switch c),
     comp_MinTeamSize = int32PtrToInt (competition_min_team_size c),
     comp_MaxTeamSize = int32PtrToInt (competition_max_team_size c),
     comp_CreatedAt = ptrTimeToTime (competition_created_at c),
     comp_UpdatedAt = ptrTimeToTime (competition_updated_at c)\<rparr>"

definition CompetitionRepo_Get :: "competition op" where
  "CompetitionRepo_Get =
     bindE (mapErr (no_rows_as ErrCompetitionNotFound ''CompetitionRepo - Get'')
       (sql sqlc_GetCompetition)) (\<lambda>c. returnE (toEntityCompetition c))"

definition CompetitionRepo_Update :: "competition \<Rightarrow> unit op" where
  "CompetitionRepo_Update c =
     bindE (mapErr (wrap ''CompetitionRepo - Update MinTeamSize'')
       (liftE (intToInt32Safe (comp_MinTeamSize c)))) (\<lambda>minTeamSize.
     bindE (mapErr (wrap ''CompetitionRepo - Update MaxTeamSize'')
       (liftE (intToInt32Safe (comp_MaxTeamSize c)))) (\<lambda>maxTeamSize.
     bindE nowE (\<lambda>updatedAt.
     mapErr (wrap ''CompetitionRepo - Update'')
       (sql (sqlc_UpdateCompetition (comp_Name c) (comp_StartTime c) (comp_EndTime c)
          (comp_FreezeTime c) (Some (comp_IsPaused c)) (Some (comp_IsPublic c)) (comp_FlagRegex c)
          (Some (comp_Mode c)) (Some (comp_AllowTeamSwitch c)) (Some minTeamSize)
          (Some maxTeamSize) (Some updatedAt))))))"

section \<open>Guards\<close>

definition Guard_RequireTeamSwitch :: "competition op" where
  "Guard_RequireTeamSwitch =
     bindE CompetitionRepo_Get (\<lambda>comp.
     bindE (failIf (\<not> comp_AllowTeamSwitch comp) (Sentinel ErrRosterFrozen)) (\<lambda>_.
     returnE comp))"

definition Guard_RequireTeamSwitchAndTeamsMode :: "competition op" where
  "Guard_RequireTeamSwitchAndTeamsMode =
     bindE Guard_RequireTeamSwitch (\<lambda>comp.
     bindE (failIf (\<not> CompetitionMode_AllowsTeams (comp_Mode comp)) (Sentinel ErrSoloModeNotAllowed)) (\<lambda>_.
     returnE comp))"

definition Guard_RequireTeamSwitchAndSoloMode :: "competition op" where
  "Guard_RequireTeamSwitchAndSoloMode =
     bindE Guard_RequireTeamSwitch (\<lambda>comp.
     bindE (failIf (\<not> CompetitionMode_AllowsSolo (comp_Mode comp)) (Sentinel ErrSoloModeNotAllowed)) (\<lambda>_.
     returnE comp))"

section \<open>Audit log\<close>

text \<open>Its id and time are defaults of the table.\<close>

definition audit_logs_insert :: "audit_logs_row \<Rightarrow> (uuid \<times> time option) query" where
  "audit_logs_insert r d =
     (if list_ex (\<lambda>l. audit_logs_id l = audit_logs_id r) (audit_logs d)
      then (Inl UniqueViolation, d)
      else if (case audit_logs_user_id r of None \<Rightarrow> False | Some u \<Rightarrow> \<not> user_exists u d)
      then (Inl ForeignKeyViolation, d)
      else (Inr (audit_logs_id r, audit_logs_created_at r), d\<lparr>audit_logs := audit_logs d @ [r]\<rparr>))"

definition sqlc_CreateAuditLog ::
  "uuid \<Rightarrow> time \<Rightarrow> uuid option \<Rightarrow> string \<Rightarrow> string \<Rightarrow> string option \<Rightarrow> string option \<Rightarrow> details option \<Rightarrow>
   (uuid \<times> time option) query" where
  "sqlc_CreateAuditLog ID now user_id action entity_type entity_id ip details =
     audit_logs_insert \<lparr>audit_logs_id = ID, audit_logs_user_id = user_id,
       audit_logs_action = action, audit_logs_entity_type = entity_type,
       audit_logs_entity_id = entity_id, audit_logs_ip = ip, audit_logs_details = details,
       audit_logs_created_at = Some now\<rparr>"

definition AuditLogRepo_Create ::
  "uuid option \<Rightarrow> string \<Rightarrow> string \<Rightarrow> string \<Rightarrow> string \<Rightarrow> details \<Rightarrow> unit op" where
  "AuditLogRepo_Create userID action entityType entityID ip details =
     bindE uuid_New (\<lambda>ID. bindE nowE (\<lambda>now.
     bindE (mapErr (wrap ''AuditLogRepo - Create'')
       (sql (sqlc_CreateAuditLog ID now userID action entityType (strPtrOrNil entityID)
          (strPtrOrNil ip) (Some details)))) (\<lambda>_. returnE ())))"

section \<open>CompetitionUseCase\<close>

definition CompetitionUseCase_Get :: "competition op" where
  "CompetitionUseCase_Get =
     bindE (redis_Get KeyCompetition) (\<lambda>val.
       case val of
         Some (CCompetition c) \<Rightarrow> returnE c
       | _ \<Rightarrow>
           mapErr (wrap ''CompetitionUseCase - Get'')
             (bindE CompetitionRepo_Get (\<lambda>comp.
              bindE (redis_Set KeyCompetition (CCompetition comp) (5 * second)) (\<lambda>_.
              returnE comp))))"

definition CompetitionUseCase_Update :: "competition \<Rightarrow> uuid \<Rightarrow> string \<Rightarrow> unit op" where
  "CompetitionUseCase_Update c actorID clientIP =
     bindE (mapErr (wrap ''CompetitionUseCase - Update'') (CompetitionRepo_Update c)) (\<lambda>_.
     bindE (redis_Del [KeyCompetition]) (\<lambda>_.
     mapErr (wrap ''CompetitionUseCase - Update - Create'')
       (AuditLogRepo_Create (Some actorID) AuditActionUpdate AuditEntityCompetition ''settings''
          clientIP [(''message'', JStr ''competition settings updated'')])))"

definition CompetitionUseCase_GetStatus :: "string op" where
  "CompetitionUseCase_GetStatus =
     bindE (mapErr (wrap ''CompetitionUseCase - GetStatus'') CompetitionUseCase_Get) (\<lambda>comp.
     bindE nowE (\<lambda>now. returnE (Competition_GetStatus now comp)))"

definition CompetitionUseCase_IsSubmissionAllowed :: "bool op" where
  "CompetitionUseCase_IsSubmissionAllowed =
     bindE (mapErr (wrap ''CompetitionUseCase - IsSubmissionAllowed'') CompetitionUseCase_Get) (\<lambda>comp.
     bindE nowE (\<lambda>now. returnE (Competition_IsSubmissionAllowed now comp)))"

end
