(* ===== verification/CTF_ScoreRepo.thy ===== *)
theory CTF_ScoreRepo
  imports CTF_ScoreStore CTF_RosterRepo CTF_Competition
begin

text \<open>
  \<open>ChallengeRepo\<close>, \<open>SolveRepo\<close>, \<open>HintRepo\<close>, \<open>HintUnlockRepo\<close>, \<open>AwardRepo\<close> and the
  transactional \<open>TxChallengeRepo\<close>, \<open>TxSolveRepo\<close>, \<open>TxHintRepo\<close>,
  \<open>TxAwardRepo\<close>, \<open>TxAuditRepo\<close>. Integers that go to the database pass the 32-bit check
  first. The scoreboard queries are in \<open>CTF_Scoreboard\<close>.
\<close>

section \<open>Rows to entities\<close>

definition toEntityChallengeFromRow :: "challenges_row \<Rightarrow> challenge" where
  "toEntityChallengeFromRow c = \<lparr>chal_ID = challenges_id c, chal_Title = challenges_title c,
     chal_Description = challenges_description c,
     chal_Category = ptrStrToStr (challenges_category c),
     chal_Points = (case challenges_points c of None \<Rightarrow> 0 | Some p \<Rightarrow> p),
     chal_InitialValue = challenges_initial_value c, chal_MinValue = challenges_min_value c,
     chal_Decay = challenges_decay c, chal_SolveCount = challenges_solve_count c,
     chal_FlagHash = challenges_flag_hash c, chal_IsHidden = boolPtrToBool (challenges_is_hidden c),
     chal_IsRegex = boolPtrToBool (challenges_is_regex c),
     chal_IsCaseInsensitive = boolPtrToBool (challenges_is_case_insensitive c),
     chal_FlagRegex = ptrStrToStr (challenges_flag_regex c),
     chal_FlagFormatRegex = challenges_flag_format_regex c\<rparr>"

definition toEntitySolve :: "solves_row \<Rightarrow> solve" where
  "toEntitySolve s = \<lparr>solve_ID = solves_id s, solve_UserID = solves_user_id s,
     solve_TeamID = solves_team_id s, solve_ChallengeID = solves_challenge_id s,
     solve_SolvedAt = ptrTimeToTime (solves_solved_at s)\<rparr>"

definition toEntityHint :: "hints_row \<Rightarrow> hint" where
  "toEntityHint h = \<lparr>hint_ID = hints_id h, hint_ChallengeID = hints_challenge_id h,
     hint_Content = hints_content h, hint_Cost = hints_cost h, hint_OrderIndex = hints_order_index h\<rparr>"

definition toEntityHintUnlock :: "hint_unlocks_row \<Rightarrow> hint_unlock" where
  "toEntityHintUnlock u = \<lparr>unlock_ID = hint_unlocks_id u, unlock_HintID = hint_unlocks_hint_id u,
     unlock_TeamID = hint_unlocks_team_id u,
     unlock_UnlockedAt = ptrTimeToTime (hint_unlocks_unlocked_at u)\<rparr>"

definition toEntityAward :: "awards_row \<Rightarrow> award" where
  "toEntityAward a = \<lparr>award_ID = awards_id a, award_TeamID = awards_team_id a,
     award_Value = awards_value a, award_Description = awards_description a,
     award_CreatedBy = awards_created_by a, award_CreatedAt = ptrTimeToTime (awards_created_at a)\<rparr>"

text \<open>The columns of a challenge once the integers are checked.\<close>

definition challenge_row :: "challenge \<Rightarrow> challenges_row" where
  "challenge_row c = \<lparr>challenges_id = chal_ID c, challenges_title = chal_Title c,
     challenges_description = chal_Description c, challenges_category = strPtrOrNil (chal_Category c),
     challenges_points = Some (chal_Points c), challenges_flag_hash = chal_FlagHash c,
     challenges_is_hidden = Some (chal_IsHidden c), challenges_initial_value = chal_InitialValue c,
     challenges_min_value = chal_MinValue c, challenges_decay = chal_Decay c,
     challenges_solve_count = chal_SolveCount c, challenges_is_regex = Some (chal_IsRegex c),
     challenges_is_case_insensitive = Some (chal_IsCaseInsensitive c),
     challenges_flag_regex = strPtrOrNil (chal_FlagRegex c),
     challenges_flag_format_regex = chal_FlagFormatRegex c\<rparr>"

definition int32E :: "string \<Rightarrow> int \<Rightarrow> int op" where
  "int32E msg i = mapErr (wrap msg) (liftE (intToInt32Safe i))"

section \<open>ChallengeRepo\<close>

definition ChallengeRepo_Create :: "challenge \<Rightarrow> challenge op" where
  "ChallengeRepo_Create c =
     bindE uuid_New (\<lambda>ID.
     let c = c\<lparr>chal_ID := ID\<rparr> in
     bindE (int32E ''ChallengeRepo - Create Points'' (chal_Points c)) (\<lambda>_.
     bindE (int32E ''ChallengeRepo - Create InitialValue'' (chal_InitialValue c)) (\<lambda>_.
     bindE (int32E ''ChallengeRepo - Create MinValue'' (chal_MinValue c)) (\<lambda>_.
     bindE (int32E ''ChallengeRepo - Create Decay'' (chal_Decay c)) (\<lambda>_.
     bindE (int32E ''ChallengeRepo - Create SolveCount'' (chal_SolveCount c)) (\<lambda>_.
     bindE (mapErr (wrap ''ChallengeRepo - Create'') (sql (sqlc_CreateChallenge (challenge_row c)))) (\<lambda>_.
     returnE c)))))))"

definition ChallengeRepo_GetByID :: "uuid \<Rightarrow> challenge op" where
  "ChallengeRepo_GetByID ID =
     bindE (mapErr (no_rows_as ErrChallengeNotFound ''ChallengeRepo - GetByID'')
       (sql (sqlc_GetChallengeByID ID))) (\<lambda>c. returnE (toEntityChallengeFromRow c))"

definition ChallengeRepo_listForTeamByTag :: "uuid \<Rightarrow> uuid \<Rightarrow> challenge_with_solved list op" where
  "ChallengeRepo_listForTeamByTag teamID tagID =
     bindE (mapErr (wrap ''ChallengeRepo - GetAll'') (sql (sqlc_ListChallengesForTeamByTag tagID teamID)))
       (\<lambda>rows. returnE (map (\<lambda>(c, solved). \<lparr>cws_Challenge = toEntityChallengeFromRow c,
          cws_Solved = (solved = 1)\<rparr>) rows))"

definition ChallengeRepo_listByTag :: "uuid \<Rightarrow> challenge_with_solved list op" where
  "ChallengeRepo_listByTag tagID =
     bindE (mapErr (wrap ''ChallengeRepo - GetAll'') (sql (sqlc_ListChallengesByTag tagID)))
       (\<lambda>rows. returnE (map (\<lambda>(c, solved). \<lparr>cws_Challenge = toEntityChallengeFromRow c,
          cws_Solved = False\<rparr>) rows))"

definition ChallengeRepo_listForTeam :: "uuid \<Rightarrow> challenge_with_solved list op" where
  "ChallengeRepo_listForTeam teamID =
     bindE (mapErr (wrap ''ChallengeRepo - GetAll'') (sql (sqlc_ListChallengesForTeam teamID)))
       (\<lambda>rows. returnE (map (\<lambda>(c, solved). \<lparr>cws_Challenge = toEntityChallengeFromRow c,
          cws_Solved = (solved = 1)\<rparr>) rows))"

definition ChallengeRepo_listAllChallenges :: "challenge_with_solved list op" where
  "ChallengeRepo_listAllChallenges =
     bindE (mapErr (wrap ''ChallengeRepo - GetAll'') (sql sqlc_ListChallenges))
       (\<lambda>rows. returnE (map (\<lambda>(c, solved). \<lparr>cws_Challenge = toEntityChallengeFromRow c,
          cws_Solved = False\<rparr>) rows))"

definition ChallengeRepo_GetAll :: "uuid option \<Rightarrow> uuid option \<Rightarrow> challenge_with_solved list op" where
  "ChallengeRepo_GetAll teamID tagID =
     (case (tagID, teamID) of
        (Some tag, Some team) \<Rightarrow> ChallengeRepo_listForTeamByTag team tag
      | (Some tag, None) \<Rightarrow> ChallengeRepo_listByTag tag
      | (None, Some team) \<Rightarrow> ChallengeRepo_listForTeam team
      | (None, None) \<Rightarrow> ChallengeRepo_listAllChallenges)"

definition ChallengeRepo_Update :: "challenge \<Rightarrow> unit op" where
  "ChallengeRepo_Update c =
     bindE (int32E ''ChallengeRepo - Update Points'' (chal_Points c)) (\<lambda>_.
     bindE (int32E ''ChallengeRepo - Update InitialValue'' (chal_InitialValue c)) (\<lambda>_.
     bindE (int32E ''ChallengeRepo - Update MinValue'' (chal_MinValue c)) (\<lambda>_.
     bindE (int32E ''ChallengeRepo - Update Decay'' (chal_Decay c)) (\<lambda>_.
     mapErr (wrap ''ChallengeRepo - Update'') (sql (sqlc_UpdateChallenge (challenge_row c)))))))"

definition ChallengeRepo_Delete :: "uuid \<Rightarrow> unit op" where
  "ChallengeRepo_Delete ID =
     bindE (mapErr (no_rows_as ErrChallengeNotFound ''ChallengeRepo - Delete'')
       (sql (sqlc_DeleteChallenge ID))) (\<lambda>_. returnE ())"

definition ChallengeRepo_IncrementSolveCount :: "uuid \<Rightarrow> int op" where
  "ChallengeRepo_IncrementSolveCount ID =
     mapErr (wrap ''ChallengeRepo - IncrementSolveCount'') (sql (sqlc_IncrementChallengeSolveCount ID))"

definition ChallengeRepo_UpdatePoints :: "uuid \<Rightarrow> int \<Rightarrow> unit op" where
  "ChallengeRepo_UpdatePoints ID points =
     bindE (int32E ''ChallengeRepo - UpdatePoints'' points) (\<lambda>pts.
     bindE (mapErr (no_rows_as ErrChallengeNotFound ''ChallengeRepo - UpdatePoints'')
       (sql (sqlc_UpdateChallengePoints ID (Some pts)))) (\<lambda>_. returnE ()))"

section \<open>SolveRepo\<close>

definition already_solved_or :: "string \<Rightarrow> goerr \<Rightarrow> goerr" where
  "already_solved_or msg e = (if isPgUniqueViolation e then Sentinel ErrAlreadySolved else wrap msg e)"

definition solve_row :: "uuid \<Rightarrow> time \<Rightarrow> solve \<Rightarrow> solves_row" where
  "solve_row ID now s = \<lparr>solves_id = ID, solves_user_id = solve_UserID s,
     solves_team_id = solve_TeamID s, solves_challenge_id = solve_ChallengeID s,
     solves_solved_at = Some now\<rparr>"

definition SolveRepo_Create :: "solve \<Rightarrow> solve op" where
  "SolveRepo_Create s =
     bindE uuid_New (\<lambda>ID. bindE nowE (\<lambda>now.
     bindE (mapErr (already_solved_or ''SolveRepo - Create'')
       (sql (sqlc_CreateSolve (solve_row ID now s)))) (\<lambda>_.
     returnE (s\<lparr>solve_ID := ID, solve_SolvedAt := now\<rparr>))))"

definition SolveRepo_GetByID :: "uuid \<Rightarrow> solve op" where
  "SolveRepo_GetByID ID =
     bindE (mapErr (no_rows_as ErrSolveNotFound ''SolveRepo - GetByID'')
       (sql (sqlc_GetSolveByID ID))) (\<lambda>s. returnE (toEntitySolve s))"

definition SolveRepo_GetByTeamAndChallenge :: "uuid \<Rightarrow> uuid \<Rightarrow> solve op" where
  "SolveRepo_GetByTeamAndChallenge teamID challengeID =
     bindE (mapErr (no_rows_as ErrSolveNotFound ''SolveRepo - GetByTeamAndChallenge'')
       (sql (sqlc_GetSolveByTeamAndChallenge teamID challengeID))) (\<lambda>s. returnE (toEntitySolve s))"

definition SolveRepo_GetByUserID :: "uuid \<Rightarrow> solve list op" where
  "SolveRepo_GetByUserID userID =
     bindE (mapErr (wrap ''SolveRepo - GetByUserID'') (sql (sqlc_GetSolvesByUserID userID)))
       (\<lambda>rows. returnE (map toEntitySolve rows))"

definition SolveRepo_GetAll :: "solve list op" where
  "SolveRepo_GetAll =
     bindE (mapErr (wrap ''SolveRepo - GetAll'') (sql sqlc_GetAllSolves))
       (\<lambda>rows. returnE (map toEntitySolve rows))"

definition SolveRepo_GetTeamScore :: "uuid \<Rightarrow> int op" where
  "SolveRepo_GetTeamScore teamID =
     mapErr (wrap ''SolveRepo - GetTeamScore'') (sql (sqlc_GetTeamScore teamID))"

section \<open>HintRepo and HintUnlockRepo\<close>

definition HintRepo_Create :: "hint \<Rightarrow> hint op" where
  "HintRepo_Create h =
     bindE uuid_New (\<lambda>ID.
     bindE (int32E ''HintRepo - Create Cost'' (hint_Cost h)) (\<lambda>cost.
     bindE (int32E ''HintRepo - Create OrderIndex'' (hint_OrderIndex h)) (\<lambda>orderIndex.
     bindE (mapErr (wrap ''HintRepo - Create'')
       (sql (sqlc_CreateHint \<lparr>hints_id = ID, hints_challenge_id = hint_ChallengeID h,
          hints_content = hint_Content h, hints_cost = cost, hints_order_index = orderIndex\<rparr>))) (\<lambda>_.
     returnE (h\<lparr>hint_ID := ID\<rparr>)))))"

definition HintRepo_GetByID :: "uuid \<Rightarrow> hint op" where
  "HintRepo_GetByID ID =
     bindE (mapErr (no_rows_as ErrHintNotFound ''HintRepo - GetByID'')
       (sql (sqlc_GetHintByID ID))) (\<lambda>h. returnE (toEntityHint h))"

definition HintRepo_GetByChallengeID :: "uuid \<Rightarrow> hint list op" where
  "HintRepo_GetByChallengeID challengeID =
     bindE (mapErr (wrap ''HintRepo - GetByChallengeID'') (sql (sqlc_GetHintsByChallengeID challengeID)))
       (\<lambda>rows. returnE (map toEntityHint rows))"

definition HintRepo_Update :: "hint \<Rightarrow> unit op" where
  "HintRepo_Update h =
     bindE (int32E ''HintRepo - Update Cost'' (hint_Cost h)) (\<lambda>cost.
     bindE (int32E ''HintRepo - Update OrderIndex'' (hint_OrderIndex h)) (\<lambda>orderIndex.
     mapErr (wrap ''HintRepo - Update'')
       (sql (sqlc_UpdateHint (hint_ID h) (hint_Content h) cost orderIndex))))"

definition HintRepo_Delete :: "uuid \<Rightarrow> unit op" where
  "HintRepo_Delete ID = mapErr (wrap ''HintRepo - Delete'') (sql (sqlc_DeleteHint ID))"

definition HintUnlockRepo_GetByTeamAndHint :: "uuid \<Rightarrow> uuid \<Rightarrow> hint_unlock op" where
  "HintUnlockRepo_GetByTeamAndHint teamID hintID =
     bindE (mapErr (no_rows_as ErrHintNotFound ''HintUnlockRepo - GetByTeamAndHint'')
       (sql (sqlc_GetHintUnlockByTeamAndHint teamID hintID))) (\<lambda>u. returnE (toEntityHintUnlock u))"

definition HintUnlockRepo_GetUnlockedHintIDs :: "uuid \<Rightarrow> uuid \<Rightarrow> uuid list op" where
  "HintUnlockRepo_GetUnlockedHintIDs teamID challengeID =
     sql (sqlc_GetUnlockedHintIDs teamID challengeID)"

definition HintUnlockRepo_Create :: "hint_unlock \<Rightarrow> hint_unlock op" where
  "HintUnlockRepo_Create u =
     bindE uuid_New (\<lambda>ID. bindE nowE (\<lambda>now.
     bindE (sql (sqlc_CreateHintUnlock now ID (unlock_HintID u) (unlock_TeamID u))) (\<lambda>_.
     returnE (u\<lparr>unlock_ID := ID\<rparr>))))"

section \<open>AwardRepo\<close>

definition award_row :: "uuid \<Rightarrow> time \<Rightarrow> int \<Rightarrow> award \<Rightarrow> awards_row" where
  "award_row ID now v a = \<lparr>awards_id = ID, awards_team_id = award_TeamID a, awards_value = v,
     awards_description = award_Description a, awards_created_by = award_CreatedBy a,
     awards_created_at = Some now\<rparr>"

definition AwardRepo_Create :: "award \<Rightarrow> award op" where
  "AwardRepo_Create a =
     bindE uuid_New (\<lambda>ID. bindE nowE (\<lambda>now.
     bindE (int32E ''AwardRepo - Create'' (award_Value a)) (\<lambda>v.
     bindE (mapErr (wrap ''AwardRepo - Create'') (sql (sqlc_CreateAward (award_row ID now v a)))) (\<lambda>_.
     returnE (a\<lparr>award_ID := ID, award_CreatedAt := now\<rparr>)))))"

definition AwardRepo_GetByTeamID :: "uuid \<Rightarrow> award list op" where
  "AwardRepo_GetByTeamID teamID =
     bindE (mapErr (wrap ''AwardRepo - GetByTeamID'') (sql (sqlc_GetAwardsByTeamID teamID)))
       (\<lambda>rows. returnE (map toEntityAward rows))"

definition AwardRepo_GetTeamTotalAwards :: "uuid \<Rightarrow> int op" where
  "AwardRepo_GetTeamTotalAwards teamID =
     mapErr (wrap ''AwardRepo - GetTeamTotalAwards'') (sql (sqlc_GetTeamTotalAwards teamID))"

definition AwardRepo_GetAll :: "award list op" where
  "AwardRepo_GetAll =
     bindE (mapErr (wrap ''AwardRepo - GetAll'') (sql sqlc_GetAllAwards))
       (\<lambda>rows. returnE (map toEntityAward rows))"

section \<open>TxChallengeRepo\<close>

definition GetChallengeByIDTx :: "uuid \<Rightarrow> challenge op" where
  "GetChallengeByIDTx ID =
     bindE (mapErr (no_rows_as ErrChallengeNotFound ''TxChallengeRepo - GetChallengeByIDTx'')
       (sql_tx (sqlc_GetChallengeByIDForUpdate ID))) (\<lambda>c. returnE (toEntityChallengeFromRow c))"

definition IncrementChallengeSolveCountTx :: "uuid \<Rightarrow> int op" where
  "IncrementChallengeSolveCountTx ID =
     mapErr (wrap ''TxChallengeRepo - IncrementChallengeSolveCountTx'')
       (sql_tx (sqlc_IncrementChallengeSolveCount ID))"

definition UpdateChallengePointsTx :: "uuid \<Rightarrow> int \<Rightarrow> unit op" where
  "UpdateChallengePointsTx ID points =
     bindE (int32E ''TxChallengeRepo - UpdateChallengePointsTx'' points) (\<lambda>pts.
     bindE (mapErr (no_rows_as ErrChallengeNotFound ''TxChallengeRepo - UpdateChallengePointsTx'')
       (sql_tx (sqlc_UpdateChallengePoints ID (Some pts)))) (\<lambda>_. returnE ()))"

definition DeleteChallengeTx :: "uuid \<Rightarrow> unit op" where
  "DeleteChallengeTx ID =
     bindE (mapErr (no_rows_as ErrChallengeNotFound ''TxChallengeRepo - DeleteChallengeTx'')
       (sql_tx (sqlc_DeleteChallenge ID))) (\<lambda>_. returnE ())"

section \<open>TxSolveRepo\<close>

definition CreateSolveTx :: "solve \<Rightarrow> solve op" where
  "CreateSolveTx s =
     bindE uuid_New (\<lambda>ID. bindE nowE (\<lambda>now.
     bindE (mapErr (already_solved_or ''TxSolveRepo - CreateSolveTx'')
       (sql_tx (sqlc_CreateSolve (solve_row ID now s)))) (\<lambda>_.
     returnE (s\<lparr>solve_ID := ID, solve_SolvedAt := now\<rparr>))))"

definition DeleteSolvesByTeamIDTx :: "uuid \<Rightarrow> unit op" where
  "DeleteSolvesByTeamIDTx teamID =
     mapErr (wrap ''TxSolveRepo - DeleteSolvesByTeamIDTx'') (sql_tx (sqlc_DeleteSolvesByTeamID teamID))"

definition GetSolveByTeamAndChallengeTx :: "uuid \<Rightarrow> uuid \<Rightarrow> solve op" where
  "GetSolveByTeamAndChallengeTx teamID challengeID =
     bindE (mapErr (no_rows_as ErrSolveNotFound ''TxSolveRepo - GetSolveByTeamAndChallengeTx'')
       (sql_tx (sqlc_GetSolveByTeamAndChallengeForUpdate teamID challengeID)))
       (\<lambda>s. returnE (toEntitySolve s))"

definition GetTeamScoreTx :: "uuid \<Rightarrow> int op" where
  "GetTeamScoreTx teamID =
     mapErr (wrap ''TxSolveRepo - GetTeamScoreTx'') (sql_tx (sqlc_GetTeamScore teamID))"

section \<open>TxHintRepo, TxAwardRepo, TxAuditRepo\<close>

definition CreateHintUnlockTx :: "uuid \<Rightarrow> uuid \<Rightarrow> unit op" where
  "CreateHintUnlockTx teamID hintID =
     bindE uuid_New (\<lambda>ID. bindE nowE (\<lambda>now.
     mapErr (wrap ''TxHintRepo - CreateHintUnlockTx'')
       (sql_tx (sqlc_CreateHintUnlock now ID hintID teamID))))"

definition GetHintUnlockByTeamAndHintTx :: "uuid \<Rightarrow> uuid \<Rightarrow> hint_unlock op" where
  "GetHintUnlockByTeamAndHintTx teamID hintID =
     bindE (mapErr (no_rows_as ErrHintNotFound ''TxHintRepo - GetHintUnlockByTeamAndHintTx'')
       (sql_tx (sqlc_GetHintUnlockByTeamAndHintForUpdate teamID hintID)))
       (\<lambda>u. returnE (toEntityHintUnlock u))"

definition CreateAwardTx :: "award \<Rightarrow> award op" where
  "CreateAwardTx a =
     bindE uuid_New (\<lambda>ID. bindE nowE (\<lambda>now.
     bindE (int32E ''TxAwardRepo - CreateAwardTx'' (award_Value a)) (\<lambda>v.
     bindE (mapErr (wrap ''TxAwardRepo - CreateAwardTx'')
       (sql_tx (sqlc_CreateAward (award_row ID now v a)))) (\<lambda>_.
     returnE (a\<lparr>award_ID := ID, award_CreatedAt := now\<rparr>)))))"

definition CreateAuditLogTx ::
  "uuid option \<Rightarrow> string \<Rightarrow> string \<Rightarrow> string \<Rightarrow> string \<Rightarrow> details option \<Rightarrow> unit op" where
  "CreateAuditLogTx userID action entityType entityID ip details =
     bindE uuid_New (\<lambda>ID. bindE nowE (\<lambda>now.
     bindE (mapErr (wrap ''TxAuditRepo - CreateAuditLogTx'')
       (sql_tx (sqlc_CreateAuditLog ID now userID action entityType (strPtrOrNil entityID)
          (strPtrOrNil ip) details))) (\<lambda>_. returnE ())))"

end
