(* ===== verification/CTF_Tags.thy ===== *)
theory CTF_Tags
  imports CTF_ScoreRepo "HOL-Library.List_Lexorder"
begin

text \<open>
  Tags of challenges: the queries of \<open>sqlc/tags.sql.go\<close>, \<open>TagRepo\<close> and \<open>TagUseCase\<close>.
  \<open>ORDER BY name\<close> sorts by the collation of the database, which is a parameter: the sort key
  of a string.
\<close>

type_synonym collation = "string \<Rightarrow> nat list"

section \<open>Queries\<close>

definition tag_exists :: "uuid \<Rightarrow> db \<Rightarrow> bool" where
  "tag_exists ID d = (ID \<in> tags_id ` set (tags d))"

text \<open>\<open>ON CONFLICT DO NOTHING\<close>: a pair that is there already is not an error.\<close>

definition sqlc_AddChallengeTag :: "uuid \<Rightarrow> uuid \<Rightarrow> unit query" where
  "sqlc_AddChallengeTag chal tag d =
     (if list_ex (\<lambda>r. challenge_tags_challenge_id r = chal \<and> challenge_tags_tag_id r = tag) (challenge_tags d)
      then (Inr (), d)
      else if \<not> challenge_exists chal d \<or> \<not> tag_exists tag d then (Inl ForeignKeyViolation, d)
      else (Inr (), d\<lparr>challenge_tags := challenge_tags d @
              [\<lparr>challenge_tags_challenge_id = chal, challenge_tags_tag_id = tag\<rparr>]\<rparr>))"

definition sqlc_CreateTag :: "uuid \<Rightarrow> string \<Rightarrow> string option \<Rightarrow> unit query" where
  "sqlc_CreateTag ID name color d =
     (if list_ex (\<lambda>t. tags_id t = ID \<or> tags_name t = name) (tags d) then (Inl UniqueViolation, d)
      else (Inr (), d\<lparr>tags := tags d @ [\<lparr>tags_id = ID, tags_name = name, tags_color = color\<rparr>]\<rparr>))"

definition sqlc_DeleteChallengeTags :: "uuid \<Rightarrow> unit query" where
  "sqlc_DeleteChallengeTags chal = modifyE (\<lambda>d.
     d\<lparr>challenge_tags := del_where (\<lambda>r. challenge_tags_challenge_id r = chal) (challenge_tags d)\<rparr>)"

definition sqlc_DeleteTag :: "uuid \<Rightarrow> unit query" where
  "sqlc_DeleteTag ID = modifyE (\<lambda>d.
     d\<lparr>tags := del_where (\<lambda>t. tags_id t = ID) (tags d),
       challenge_tags := del_where (\<lambda>r. challenge_tags_tag_id r = ID) (challenge_tags d)\<rparr>)"

definition sqlc_GetAllTags :: "collation \<Rightarrow> tags_row list query" where
  "sqlc_GetAllTags coll = select_all (\<lambda>d. sort_key (\<lambda>t. coll (tags_name t)) (tags d))"

definition sqlc_GetTagByID :: "uuid \<Rightarrow> tags_row query" where
  "sqlc_GetTagByID ID = select_one (\<lambda>d. filter (\<lambda>t. tags_id t = ID) (tags d))"

definition sqlc_GetTagByName :: "string \<Rightarrow> tags_row query" where
  "sqlc_GetTagByName name = select_one (\<lambda>d. filter (\<lambda>t. tags_name t = name) (tags d))"

definition sqlc_GetTagsByChallengeID :: "collation \<Rightarrow> uuid \<Rightarrow> tags_row list query" where
  "sqlc_GetTagsByChallengeID coll chal = select_all (\<lambda>d.
     sort_key (\<lambda>t. coll (tags_name t))
       [t. t \<leftarrow> tags d, r \<leftarrow> challenge_tags d,
          challenge_tags_tag_id r = tags_id t \<and> challenge_tags_challenge_id r = chal])"

definition sqlc_GetTagsByChallengeIDs :: "collation \<Rightarrow> uuid list \<Rightarrow> (uuid \<times> tags_row) list query" where
  "sqlc_GetTagsByChallengeIDs coll chals = select_all (\<lambda>d.
     sort_key fst (sort_key (\<lambda>(c, t). coll (tags_name t))
       [(challenge_tags_challenge_id r, t). t \<leftarrow> tags d, r \<leftarrow> challenge_tags d,
          challenge_tags_tag_id r = tags_id t \<and> challenge_tags_challenge_id r \<in> set chals]))"

definition sqlc_UpdateTag :: "uuid \<Rightarrow> string \<Rightarrow> string option \<Rightarrow> unit query" where
  "sqlc_UpdateTag ID name color d =
     (if tag_exists ID d \<and> list_ex (\<lambda>t. tags_id t \<noteq> ID \<and> tags_name t = name) (tags d)
      then (Inl UniqueViolation, d)
      else (Inr (), d\<lparr>tags := upd_where (\<lambda>t. tags_id t = ID)
              (\<lambda>t. t\<lparr>tags_name := name, tags_color := color\<rparr>) (tags d)\<rparr>))"

section \<open>TagRepo\<close>

text \<open>Each method builds the entity from the row in the same way.\<close>

definition tag_entity :: "tags_row \<Rightarrow> tag" where
  "tag_entity t = \<lparr>tag_ID = tags_id t, tag_Name = tags_name t, tag_Color = ptrStrToStr (tags_color t)\<rparr>"

abbreviation default_color :: string where
  "default_color \<equiv> ''#6b7280''"

definition TagRepo_Create :: "tag \<Rightarrow> tag op" where
  "TagRepo_Create t =
     bindE (if tag_ID t = 0 then uuid_New else returnE (tag_ID t)) (\<lambda>ID.
     let color = (if tag_Color t = '''' then Some default_color else strPtrOrNil (tag_Color t)) in
     bindE (sql (sqlc_CreateTag ID (tag_Name t) color)) (\<lambda>_. returnE (t\<lparr>tag_ID := ID\<rparr>)))"

definition TagRepo_GetByID :: "uuid \<Rightarrow> tag op" where
  "TagRepo_GetByID ID =
     bindE (mapErr (no_rows_as ErrTagNotFound ''TagRepo - GetByID'') (sql (sqlc_GetTagByID ID)))
       (\<lambda>t. returnE (tag_entity t))"

definition TagRepo_GetByName :: "string \<Rightarrow> tag op" where
  "TagRepo_GetByName name =
     bindE (mapErr (no_rows_as ErrTagNotFound ''TagRepo - GetByName'') (sql (sqlc_GetTagByName name)))
       (\<lambda>t. returnE (tag_entity t))"

definition TagRepo_GetAll :: "collation \<Rightarrow> tag list op" where
  "TagRepo_GetAll coll =
     bindE (mapErr (wrap ''TagRepo - GetAll'') (sql (sqlc_GetAllTags coll)))
       (\<lambda>rows. returnE (map tag_entity rows))"

definition TagRepo_Update :: "tag \<Rightarrow> unit op" where
  "TagRepo_Update t =
     (let color = (if tag_Color t = '''' then Some default_color else strPtrOrNil (tag_Color t)) in
      sql (sqlc_UpdateTag (tag_ID t) (tag_Name t) color))"

definition TagRepo_Delete :: "uuid \<Rightarrow> unit op" where
  "TagRepo_Delete ID = sql (sqlc_DeleteTag ID)"

definition TagRepo_GetByChallengeID :: "collation \<Rightarrow> uuid \<Rightarrow> tag list op" where
  "TagRepo_GetByChallengeID coll chal =
     bindE (mapErr (wrap ''TagRepo - GetByChallengeID'') (sql (sqlc_GetTagsByChallengeID coll chal)))
       (\<lambda>rows. returnE (map tag_entity rows))"

text \<open>The rows are appended to the entry of their challenge; a challenge without rows has no entry.\<close>

fun group_tags :: "(uuid \<times> tags_row) list \<Rightarrow> (uuid \<Rightarrow> tag list option) \<Rightarrow> (uuid \<Rightarrow> tag list option)" where
  "group_tags [] out = out"
| "group_tags ((c, t) # rows) out =
     group_tags rows (out(c \<mapsto> (case out c of None \<Rightarrow> [] | Some ts \<Rightarrow> ts) @ [tag_entity t]))"

definition TagRepo_GetByChallengeIDs :: "collation \<Rightarrow> uuid list \<Rightarrow> (uuid \<Rightarrow> tag list option) op" where
  "TagRepo_GetByChallengeIDs coll chals =
     (if length chals = 0 then returnE (\<lambda>_. None)
      else bindE (mapErr (wrap ''TagRepo - GetByChallengeIDs'') (sql (sqlc_GetTagsByChallengeIDs coll chals)))
             (\<lambda>rows. returnE (group_tags rows (\<lambda>_. None))))"

definition TagRepo_SetChallengeTags :: "uuid \<Rightarrow> uuid list \<Rightarrow> unit op" where
  "TagRepo_SetChallengeTags chal tagIDs =
     bindE (mapErr (wrap ''TagRepo - SetChallengeTags - Delete'') (sql (sqlc_DeleteChallengeTags chal))) (\<lambda>_.
     forE tagIDs (\<lambda>tag. mapErr (wrap ''TagRepo - SetChallengeTags - Add'') (sql (sqlc_AddChallengeTag chal tag))))"

section \<open>TagUseCase\<close>

definition TagUseCase_Create :: "string \<Rightarrow> string \<Rightarrow> tag op" where
  "TagUseCase_Create name color =
     bindE (failIf (name = '''') (Plain ''TagUseCase - Create: name is required'')) (\<lambda>_.
     bindE uuid_New (\<lambda>ID.
     mapErr (wrap ''TagUseCase - Create'')
       (TagRepo_Create \<lparr>tag_ID = ID, tag_Name = name,
          tag_Color = (if color = '''' then default_color else color)\<rparr>)))"

definition TagUseCase_GetByID :: "uuid \<Rightarrow> tag op" where
  "TagUseCase_GetByID ID = mapErr (wrap ''TagUseCase - GetByID'') (TagRepo_GetByID ID)"

definition TagUseCase_GetAll :: "collation \<Rightarrow> tag list op" where
  "TagUseCase_GetAll coll = mapErr (wrap ''TagUseCase - GetAll'') (TagRepo_GetAll coll)"

definition TagUseCase_Update :: "uuid \<Rightarrow> string \<Rightarrow> string \<Rightarrow> tag op" where
  "TagUseCase_Update ID name color =
     bindE (mapErr (wrap ''TagUseCase - Update - GetByID'') (TagRepo_GetByID ID)) (\<lambda>t.
     let t = t\<lparr>tag_Name := name, tag_Color := (if color \<noteq> '''' then color else default_color)\<rparr> in
     bindE (mapErr (wrap ''TagUseCase - Update'') (TagRepo_Update t)) (\<lambda>_. returnE t))"

definition TagUseCase_Delete :: "uuid \<Rightarrow> unit op" where
  "TagUseCase_Delete ID = mapErr (wrap ''TagUseCase - Delete'') (TagRepo_Delete ID)"

section \<open>Facts\<close>

text \<open>The map holds, per challenge, the tags of its rows in the order of the rows.\<close>

lemma group_tags_spec:
  "group_tags rows out c =
     (if filter (\<lambda>r. fst r = c) rows = [] then out c
      else Some ((case out c of None \<Rightarrow> [] | Some ts \<Rightarrow> ts) @
             map (\<lambda>r. tag_entity (snd r)) (filter (\<lambda>r. fst r = c) rows)))"
proof (induction rows arbitrary: out)
  case (Cons r rows)
  obtain c' t where "r = (c', t)" by force
  then show ?case by (simp add: Cons.IH split: option.split)
qed simp

end
