(* ===== verification/CTF_Events.thy ===== *)
theory CTF_Events
  imports CTF_World
begin

text \<open>
  \<open>pkg/websocket\<close>: the events and the \<open>Broadcaster\<close>. \<open>Hub.BroadcastEvent\<close>
  hands the event to the loop of the hub; here it is appended to the events of the world. An event
  that the hub drops because its queue stays full for 100 ms, and the copy published over redis, are steps of
  \<open>CTF_Hub\<close>.
\<close>

abbreviation EventTypeSolve :: string where
  "EventTypeSolve \<equiv> ''solve''"

abbreviation EventTypeFirstBlood :: string where
  "EventTypeFirstBlood \<equiv> ''first_blood''"

abbreviation EventTypeNotification :: string where
  "EventTypeNotification \<equiv> ''notification''"

definition BroadcastEvent :: "ws_event \<Rightarrow> unit op" where
  "BroadcastEvent e = modifyE (\<lambda>w. w\<lparr>events := events w @ [e]\<rparr>)"

text \<open>The payload has the string form of the team id, which the model leaves a UUID.\<close>

definition NotifySolve :: "uuid \<Rightarrow> string \<Rightarrow> int \<Rightarrow> bool \<Rightarrow> unit op" where
  "NotifySolve team challengeTitle points isFirstBlood =
     bindE nowE (\<lambda>now.
     bindE (BroadcastEvent \<lparr>ev_Type = ''scoreboard_update'',
        ev_Payload = PScoreboardUpdate EventTypeSolve team challengeTitle points now, ev_Timestamp = now\<rparr>) (\<lambda>_.
     if isFirstBlood
     then BroadcastEvent \<lparr>ev_Type = ''scoreboard_update'',
        ev_Payload = PScoreboardUpdate EventTypeFirstBlood team challengeTitle points now, ev_Timestamp = now\<rparr>
     else returnE ()))"

definition NotifyNotification :: "string \<Rightarrow> string \<Rightarrow> unit op" where
  "NotifyNotification message level =
     bindE nowE (\<lambda>now.
     BroadcastEvent \<lparr>ev_Type = ''notification'',
        ev_Payload = PNotification EventTypeNotification message level now, ev_Timestamp = now\<rparr>)"

lemma BroadcastEvent_apply [simp]: "BroadcastEvent e w = (Inr (), w\<lparr>events := events w @ [e]\<rparr>)"
  by (simp add: BroadcastEvent_def)

lemma db_keeps_Broadcast [valid_rules]:
  "db_keeps J (BroadcastEvent e)" "db_keeps J (NotifySolve t c p f)" "db_keeps J (NotifyNotification m l)"
proof -
  show B: "db_keeps J (BroadcastEvent e)" for e by (rule keepsI) auto
  show "db_keeps J (NotifySolve t c p f)" "db_keeps J (NotifyNotification m l)"
    unfolding NotifySolve_def NotifyNotification_def by (intro valid_rules B)+
qed

lemma notify_run:
  "NotifySolve t c p f w = (Inr (), w') \<Longrightarrow> store w' = store w"
  "NotifySolve t c p f w \<noteq> (Inl e, w')"
  by (auto simp: NotifySolve_def bindE_def nowE_def split: if_splits)

section \<open>Calls that broadcast and compile nothing\<close>

abbreviation side_keep :: "(ws_event list \<Rightarrow> (string, regexp) bounded_cache \<Rightarrow> bool) \<Rightarrow> 'a op \<Rightarrow> bool" where
  "side_keep J m \<equiv> keeps (\<lambda>w. J (events w) (regex_cache w)) m"

lemma side_keep_calls [valid_rules]:
  "side_keep J driver" "side_keep J nowE" "side_keep J uuid_New"
  by (rule keepsI, auto simp: driver_def nowE_def uuid_New_def split: if_splits)+

lemma side_keep_sql [valid_rules]: "side_keep J (sql q)"
  by (rule keepsI) (auto simp: sql_run split: prod.splits sum.splits if_splits)

lemma side_keep_sql_tx [valid_rules]: "side_keep J (sql_tx q)"
  by (rule keepsI) (auto simp: sql_tx_def sql_run split: prod.splits sum.splits if_splits)

lemma side_keep_run_transaction [valid_rules]:
  assumes "side_keep J fn" shows "side_keep J (run_transaction fn)"
proof (rule keepsI)
  fix w r w' assume J: "J (events w) (regex_cache w)" and run: "run_transaction fn w = (r, w')"
  have fn: "J (events w2) (regex_cache w2)"
    if "fn ((use_fault w)\<lparr>tx_failed := False\<rparr>) = (x, w2)" for x w2
    using keepsD [OF assms _ that] J by simp
  show "J (events w') (regex_cache w')"
    using run J by (auto simp: run_transaction_def driver_def rollback_def commit_def
        split: prod.splits sum.splits if_splits goerr.splits dest!: fn)
qed

lemma keeps_side:
  assumes "\<And>J. side_keep J m" "m w = (r, w')"
  shows "events w' = events w \<and> regex_cache w' = regex_cache w"
  using keepsD [OF assms(1) [of "\<lambda>e c. e = events w \<and> c = regex_cache w"] _ assms(2)] by simp

lemma keeps_store:
  assumes "\<And>J. db_keeps J m" "m w = (r, w')"
  shows "store w' = store w"
  using keepsD [OF assms(1) [of "\<lambda>d. d = store w"] _ assms(2)] by simp

end
