(* ===== verification/CTF_Strings.thy ===== *)
theory CTF_Strings
  imports CTF_Prelude "HOL-Library.Sublist"
begin

text \<open>
  The functions of Go's package \<open>strings\<close> that the code uses, on strings as lists of bytes:
  \<open>TrimSpace\<close> with the white space of Unicode in its UTF-8 encoding, and \<open>ToLower\<close>, whose
  mapping of strings that are not ASCII is a parameter.
\<close>

section \<open>TrimSpace\<close>

text \<open>The encodings of the characters with property White_Space.\<close>

definition space_encodings :: "string list" where
  "space_encodings =
    [[CHR 0x09], [CHR 0x0A], [CHR 0x0B], [CHR 0x0C], [CHR 0x0D], [CHR 0x20], [CHR 0xC2, CHR 0x85],
     [CHR 0xC2, CHR 0xA0], [CHR 0xE1, CHR 0x9A, CHR 0x80], [CHR 0xE2, CHR 0x80, CHR 0x80],
     [CHR 0xE2, CHR 0x80, CHR 0x81], [CHR 0xE2, CHR 0x80, CHR 0x82], [CHR 0xE2, CHR 0x80, CHR 0x83],
     [CHR 0xE2, CHR 0x80, CHR 0x84], [CHR 0xE2, CHR 0x80, CHR 0x85], [CHR 0xE2, CHR 0x80, CHR 0x86],
     [CHR 0xE2, CHR 0x80, CHR 0x87], [CHR 0xE2, CHR 0x80, CHR 0x88], [CHR 0xE2, CHR 0x80, CHR 0x89],
     [CHR 0xE2, CHR 0x80, CHR 0x8A], [CHR 0xE2, CHR 0x80, CHR 0xA8], [CHR 0xE2, CHR 0x80, CHR 0xA9],
     [CHR 0xE2, CHR 0x80, CHR 0xAF], [CHR 0xE2, CHR 0x81, CHR 0x9F], [CHR 0xE3, CHR 0x80, CHR 0x80]]"

definition strip_one :: "string list \<Rightarrow> string \<Rightarrow> string option" where
  "strip_one ps s = map_option (\<lambda>p. drop (length p) s) (find (\<lambda>p. p \<noteq> [] \<and> prefix p s) ps)"

lemma strip_one_shorter: "strip_one ps s = Some s' \<Longrightarrow> length s' < length s"
  by (auto simp: strip_one_def dest!: find_SomeD prefix_length_le)
    (metis diff_less length_greater_0_conv order_less_le_trans)

function strip_all :: "string list \<Rightarrow> string \<Rightarrow> string" where
  "strip_all ps s = (case strip_one ps s of None \<Rightarrow> s | Some s' \<Rightarrow> strip_all ps s')"
  by pat_completeness auto
termination
  by (relation "measure (\<lambda>(ps, s). length s)") (auto dest: strip_one_shorter)

declare strip_all.simps [simp del]

definition TrimLeftSpace :: "string \<Rightarrow> string" where
  "TrimLeftSpace s = strip_all space_encodings s"

definition TrimRightSpace :: "string \<Rightarrow> string" where
  "TrimRightSpace s = rev (strip_all (map rev space_encodings) (rev s))"

definition TrimSpace :: "string \<Rightarrow> string" where
  "TrimSpace s = TrimRightSpace (TrimLeftSpace s)"

lemma strip_all_stops: "strip_one ps (strip_all ps s) = None"
proof (induction ps s rule: strip_all.induct)
  case (1 ps s)
  then show ?case by (subst strip_all.simps) (auto split: option.splits)
qed

lemma strip_all_stopped: "strip_one ps s = None \<Longrightarrow> strip_all ps s = s"
  by (subst strip_all.simps) simp

lemma strip_all_suffix: "suffix (strip_all ps s) s"
proof (induction ps s rule: strip_all.induct)
  case (1 ps s)
  show ?case
  proof (cases "strip_one ps s")
    case None
    then show ?thesis by (simp add: strip_all_stopped)
  next
    case (Some s')
    then have "suffix s' s" by (auto simp: strip_one_def suffix_drop)
    moreover have "strip_all ps s = strip_all ps s'" using Some by (subst strip_all.simps) simp
    ultimately show ?thesis using 1 [OF Some] suffix_order.trans by metis
  qed
qed

text \<open>A string that starts with no white space keeps its start when its end is trimmed.\<close>

lemma strip_one_None_prefix:
  assumes "strip_one ps s = None" "prefix t s"
  shows "strip_one ps t = None"
  using assms by (auto simp: strip_one_def find_None_set dest: prefix_order.trans)

theorem TrimSpace_idem: "TrimSpace (TrimSpace s) = TrimSpace s"
proof -
  let ?l = "TrimLeftSpace s" and ?t = "TrimSpace s"
  have "suffix (strip_all (map rev space_encodings) (rev ?l)) (rev ?l)" by (rule strip_all_suffix)
  then have "prefix ?t ?l" by (simp add: TrimSpace_def TrimRightSpace_def suffix_to_prefix)
  then have "strip_one space_encodings ?t = None"
    using strip_one_None_prefix strip_all_stops by (metis TrimLeftSpace_def)
  then have l: "TrimLeftSpace ?t = ?t" by (simp add: TrimLeftSpace_def strip_all_stopped)
  have "strip_one (map rev space_encodings) (rev ?t) = None"
    by (simp add: TrimSpace_def TrimRightSpace_def strip_all_stops)
  then have "TrimRightSpace ?t = ?t" by (simp add: TrimRightSpace_def strip_all_stopped)
  with l show ?thesis by (metis TrimSpace_def)
qed

section \<open>ToLower\<close>

definition is_ascii :: "string \<Rightarrow> bool" where
  "is_ascii s = list_all (\<lambda>c. of_char c < (128 :: nat)) s"

definition ascii_lower :: "char \<Rightarrow> char" where
  "ascii_lower c = (let n = of_char c in if 65 \<le> n \<and> n \<le> (90 :: nat) then char_of (n + 32) else c)"

definition ToLower :: "(string \<Rightarrow> string) \<Rightarrow> string \<Rightarrow> string" where
  "ToLower unicode_lower s = (if is_ascii s then map ascii_lower s else unicode_lower s)"

end
