(* ===== verification/CTF_Float.thy ===== *)
theory CTF_Float
  imports Complex_Main "HOL-Library.Log_Nat"
begin

text \<open>
  The arithmetic of \<open>float64\<close> that the scoring formula uses: a value is a rational number and
  every operation rounds its exact result to 53 significant bits, ties to even (\<open>rnd64\<close>). The
  exponent is not bounded: the operands are 64-bit integers and the results of at most four
  operations on them, so nothing overflows or is denormal. The locale \<open>rounding\<close> states what
  the proofs about scores need of a rounding.
\<close>

section \<open>The interface\<close>

locale rounding =
  fixes rnd :: "rat \<Rightarrow> rat"
  assumes mono: "x \<le> y \<Longrightarrow> rnd x \<le> rnd y"
    and exact: "\<bar>n\<bar> < 2 ^ 53 \<Longrightarrow> rnd (of_int n) = of_int n"
begin

lemma zero: "rnd 0 = 0"
  using exact [of 0] by simp

lemma nonneg: "0 \<le> x \<Longrightarrow> 0 \<le> rnd x"
  using mono [of 0 x] zero by simp

lemma nonpos: "x \<le> 0 \<Longrightarrow> rnd x \<le> 0"
  using mono [of x 0] zero by simp

lemma below_int: "x \<le> of_int n \<Longrightarrow> \<bar>n\<bar> < 2 ^ 53 \<Longrightarrow> rnd x \<le> of_int n"
  using mono [of x "of_int n"] exact by simp

end

section \<open>Rounding to an integer, ties to even\<close>

definition round_half_even :: "rat \<Rightarrow> int" where
  "round_half_even m =
     (let f = \<lfloor>m\<rfloor>; r = m - of_int f in
      if r < 1 / 2 then f else if r > 1 / 2 then f + 1 else if even f then f else f + 1)"

lemma round_half_even_bounds: "\<lfloor>m\<rfloor> \<le> round_half_even m" "round_half_even m \<le> \<lfloor>m\<rfloor> + 1"
  by (auto simp: round_half_even_def Let_def)

lemma round_half_even_int [simp]: "round_half_even (of_int n) = n"
  by (simp add: round_half_even_def)

lemma round_half_even_mono:
  assumes "x \<le> y" shows "round_half_even x \<le> round_half_even y"
proof (cases "\<lfloor>x\<rfloor> = \<lfloor>y\<rfloor>")
  case True
  then show ?thesis using assms by (auto simp: round_half_even_def Let_def)
next
  case False
  then have "\<lfloor>x\<rfloor> + 1 \<le> \<lfloor>y\<rfloor>" using floor_mono [OF assms] by simp
  then show ?thesis using round_half_even_bounds(2) [of x] round_half_even_bounds(1) [of y] by linarith
qed

lemma round_half_even_error: "\<bar>of_int (round_half_even m) - m\<bar> \<le> 1 / 2"
proof -
  define r where "r = m - of_int \<lfloor>m\<rfloor>"
  have r: "0 \<le> r" "r < 1" unfolding r_def by linarith+
  have "of_int (round_half_even m) - m = (if r < 1 / 2 then - r else if r > 1 / 2 then 1 - r
      else if even \<lfloor>m\<rfloor> then - r else 1 - r)"
    by (simp add: round_half_even_def Let_def r_def)
  then show ?thesis using r by (simp add: abs_le_iff)
qed

section \<open>The binade of a positive number\<close>

definition binade :: "rat \<Rightarrow> int" where
  "binade x = (case quotient_of x of (p, q) \<Rightarrow>
     let e = int (floorlog 2 (nat p)) - int (floorlog 2 (nat q)) in
     if 2 powi e \<le> x then e else e - 1)"

lemma floorlog_rat:
  assumes "0 < n"
  shows "2 powi (int (floorlog 2 (nat n)) - 1) \<le> (of_int n :: rat)"
    "(of_int n :: rat) < 2 powi int (floorlog 2 (nat n))"
proof -
  let ?k = "floorlog 2 (nat n)"
  have b: "2 ^ (?k - 1) \<le> nat n" "nat n < 2 ^ ?k" using floorlog_bounds [of "nat n" 2] assms by auto
  have k: "0 < ?k" using assms by (simp add: floorlog_def)
  have "(2::rat) powi (int ?k - 1) = 2 ^ (?k - 1)" using k by (simp add: power_int_def nat_diff_distrib)
  moreover have "(of_nat (2 ^ (?k - 1)) :: rat) \<le> of_nat (nat n)" using b(1) by (rule of_nat_mono)
  moreover have "(of_nat (nat n) :: rat) < of_nat (2 ^ ?k)" using b(2) by (simp only: of_nat_less_iff)
  moreover have "(of_nat (nat n) :: rat) = of_int n" using assms by simp
  ultimately show "2 powi (int ?k - 1) \<le> (of_int n :: rat)" "(of_int n :: rat) < 2 powi int ?k" by simp_all
qed

lemma binade_bounds:
  assumes "0 < x"
  shows "2 powi binade x \<le> x" "x < 2 powi (binade x + 1)"
proof -
  obtain p q where pq: "quotient_of x = (p, q)" by fastforce
  then have x: "x = of_int p / of_int q" and q: "0 < q" using quotient_of_div quotient_of_denom_pos by blast+
  have p: "0 < p" using assms q by (simp add: x zero_less_divide_iff)
  define P Q where "P = int (floorlog 2 (nat p))" and "Q = int (floorlog 2 (nat q))"
  note P = floorlog_rat [OF p, folded P_def] and Q = floorlog_rat [OF q, folded Q_def]
  have "x < 2 powi P / 2 powi (Q - 1)" unfolding x
    using P(2) Q(1) p q by (intro frac_less) auto
  also have "\<dots> = 2 powi (P - Q + 1)" by (simp add: power_int_diff power_int_add)
  finally have u: "x < 2 powi (P - Q + 1)" .
  have "2 powi (P - 1) / 2 powi Q \<le> x" unfolding x
    using P(1) Q(2) p q by (intro frac_le) auto
  moreover have "2 powi (P - 1) / 2 powi Q = (2::rat) powi (P - Q - 1)"
    by (simp add: power_int_diff power_int_add)
  ultimately have l: "2 powi (P - Q - 1) \<le> x" by simp
  show "2 powi binade x \<le> x" "x < 2 powi (binade x + 1)"
    using u l by (auto simp: binade_def pq Let_def P_def Q_def)
qed

lemma binade_mono:
  assumes "0 < x" "x \<le> y" shows "binade x \<le> binade y"
proof (rule ccontr)
  assume "\<not> binade x \<le> binade y"
  then have "binade y + 1 \<le> binade x" by simp
  then have "2 powi (binade y + 1) \<le> (2 powi binade x :: rat)" by (rule power_int_increasing) simp
  then show False using binade_bounds [of x] binade_bounds [of y] assms by linarith
qed

section \<open>Rounding to 53 bits\<close>

definition ulp :: "rat \<Rightarrow> rat" where
  "ulp x = 2 powi (binade x - 52)"

definition rnd_pos :: "rat \<Rightarrow> rat" where
  "rnd_pos x = of_int (round_half_even (x / ulp x)) * ulp x"

definition rnd64 :: "rat \<Rightarrow> rat" where
  "rnd64 x = (if x = 0 then 0 else if x < 0 then - rnd_pos (- x) else rnd_pos x)"

lemma ulp_pos [simp]: "0 < ulp x"
  by (simp add: ulp_def)

lemma ulp_nonneg [simp]: "0 \<le> ulp x" "ulp x \<noteq> 0"
  by (simp_all add: ulp_def)

lemma significand:
  assumes "0 < x" shows "2 ^ 52 \<le> x / ulp x" "x / ulp x < 2 ^ 53"
proof -
  have eq: "2 powi binade x = 2 ^ 52 * ulp x" "2 powi (binade x + 1) = 2 ^ 53 * ulp x"
    by (simp_all add: ulp_def power_int_diff power_int_add)
  show "2 ^ 52 \<le> x / ulp x" "x / ulp x < 2 ^ 53"
    using binade_bounds [OF assms] unfolding eq by (simp_all add: field_simps)
qed

lemma rnd_pos_range:
  assumes "0 < x" shows "2 powi binade x \<le> rnd_pos x" "rnd_pos x \<le> 2 powi (binade x + 1)"
proof -
  let ?m = "round_half_even (x / ulp x)"
  have "2 ^ 52 \<le> ?m" using round_half_even_mono [OF significand(1) [OF assms]]
    round_half_even_int [of "2 ^ 52"] by simp
  then have l: "(2 ^ 52 :: rat) \<le> of_int ?m" using of_int_le_iff [of "2 ^ 52" ?m, where 'a = rat] by simp
  have "?m \<le> 2 ^ 53" using round_half_even_mono [OF less_imp_le [OF significand(2) [OF assms]]]
    round_half_even_int [of "2 ^ 53"] by simp
  then have u: "(of_int ?m :: rat) \<le> 2 ^ 53" using of_int_le_iff [of ?m "2 ^ 53", where 'a = rat] by simp
  have eq: "2 powi binade x = 2 ^ 52 * ulp x" "2 powi (binade x + 1) = 2 ^ 53 * ulp x"
    by (simp_all add: ulp_def power_int_diff power_int_add)
  show "2 powi binade x \<le> rnd_pos x" "rnd_pos x \<le> 2 powi (binade x + 1)"
    unfolding rnd_pos_def eq using l u by (simp_all add: mult_right_mono)
qed

lemma rnd_pos_mono:
  assumes "0 < x" "x \<le> y" shows "rnd_pos x \<le> rnd_pos y"
proof (cases "binade x = binade y")
  case True
  then have u: "ulp x = ulp y" by (simp add: ulp_def)
  have "x / ulp x \<le> y / ulp y" using assms(2) by (simp add: u divide_right_mono)
  then have "round_half_even (x / ulp x) \<le> round_half_even (y / ulp y)" by (rule round_half_even_mono)
  then show ?thesis unfolding rnd_pos_def u by (simp add: mult_right_mono)
next
  case False
  then have "binade x + 1 \<le> binade y" using binade_mono [OF assms] by simp
  then have "2 powi (binade x + 1) \<le> (2 powi binade y :: rat)" by (rule power_int_increasing) simp
  then show ?thesis using rnd_pos_range(2) [OF assms(1)] rnd_pos_range(1) [of y] assms by linarith
qed

lemma rnd_pos_nonneg: "0 < x \<Longrightarrow> 0 \<le> rnd_pos x"
  using rnd_pos_range(1) [of x] by (meson le_less_trans less_imp_le zero_less_power_int zero_less_numeral less_le_trans)

lemma rnd64_mono:
  assumes "x \<le> y" shows "rnd64 x \<le> rnd64 y"
proof -
  consider "x < 0" "0 < y" | "y < 0" | "0 < x" | "x = 0" "0 \<le> y" | "y = 0" "x \<le> 0" using assms by linarith
  then show ?thesis
  proof cases
    case 1
    then show ?thesis using rnd_pos_nonneg [of "- x"] rnd_pos_nonneg [of y] by (simp add: rnd64_def)
  next
    case 2
    then show ?thesis using rnd_pos_mono [of "- y" "- x"] assms by (simp add: rnd64_def)
  next
    case 3
    then show ?thesis using rnd_pos_mono [of x y] assms by (simp add: rnd64_def)
  qed (use rnd_pos_nonneg [of "- x"] rnd_pos_nonneg [of y] in \<open>auto simp: rnd64_def\<close>)
qed

lemma rnd_pos_exact:
  assumes "0 < n" "n < 2 ^ 53" shows "rnd_pos (of_int n) = of_int n"
proof -
  let ?e = "binade (of_int n)"
  have "2 powi ?e \<le> (of_int n :: rat)" using binade_bounds(1) [of "of_int n"] assms by simp
  also have "\<dots> < of_int (2 ^ 53)" using assms(2) by (simp only: of_int_less_iff)
  also have "\<dots> = 2 powi 53" by simp
  finally have lt: "2 powi ?e < (2 powi 53 :: rat)" .
  have "?e < 53"
  proof (rule ccontr)
    assume "\<not> ?e < 53"
    then have "2 powi 53 \<le> (2 powi ?e :: rat)" by (intro power_int_increasing) auto
    then show False using lt by simp
  qed
  then have "(2::rat) powi (52 - ?e) = of_int (2 ^ nat (52 - ?e))" by (simp add: power_int_def)
  then have "of_int n / ulp (of_int n) = of_int (n * 2 ^ nat (52 - ?e))"
    by (simp add: ulp_def power_int_diff field_simps)
  then have "round_half_even (of_int n / ulp (of_int n)) = n * 2 ^ nat (52 - ?e)"
    by (metis round_half_even_int)
  then have "rnd_pos (of_int n) = of_int (n * 2 ^ nat (52 - ?e)) * ulp (of_int n)"
    by (simp add: rnd_pos_def)
  also have "\<dots> = of_int n / ulp (of_int n) * ulp (of_int n)"
    using \<open>of_int n / ulp (of_int n) = of_int (n * 2 ^ nat (52 - ?e))\<close> by simp
  finally show ?thesis by simp
qed

lemma rnd64_exact: "\<bar>n\<bar> < 2 ^ 53 \<Longrightarrow> rnd64 (of_int n) = of_int n"
  using rnd_pos_exact [of n] rnd_pos_exact [of "- n"] by (auto simp: rnd64_def abs_if split: if_splits)

text \<open>The relative error is at most half a unit in the last place.\<close>

lemma rnd64_error: "\<bar>rnd64 x - x\<bar> \<le> \<bar>x\<bar> / 2 ^ 53"
proof -
  have pos: "\<bar>rnd_pos x - x\<bar> \<le> x / 2 ^ 53" if "0 < x" for x
  proof -
    have "rnd_pos x - x = (of_int (round_half_even (x / ulp x)) - x / ulp x) * ulp x"
      by (simp add: rnd_pos_def left_diff_distrib)
    then have "\<bar>rnd_pos x - x\<bar> = \<bar>of_int (round_half_even (x / ulp x)) - x / ulp x\<bar> * ulp x"
      by (simp add: abs_mult)
    also have "\<dots> \<le> 1 / 2 * ulp x"
      using round_half_even_error by (intro mult_right_mono) auto
    also have "\<dots> \<le> x / 2 ^ 53" using significand(1) [OF that] by (simp add: field_simps)
    finally show ?thesis .
  qed
  consider "x = 0" | "0 < x" | "x < 0" by linarith
  then show ?thesis
  proof cases
    case 3
    have "\<bar>rnd64 x - x\<bar> = \<bar>rnd_pos (- x) - (- x)\<bar>" using 3 by (simp add: rnd64_def abs_if)
    also have "\<dots> \<le> \<bar>x\<bar> / 2 ^ 53" using pos [of "- x"] 3 by simp
    finally show ?thesis .
  qed (use pos [of x] in \<open>auto simp: rnd64_def\<close>)
qed

interpretation binary64: rounding rnd64
  by unfold_locales (auto intro: rnd64_mono rnd64_exact)

text \<open>Exact arithmetic is the rounding of the specification.\<close>

interpretation unrounded: rounding "\<lambda>x. x"
  by unfold_locales auto

end
