(* ===== verification/CTF_Scoring.thy ===== *)
theory CTF_Scoring
  imports CTF_Float
begin

text \<open>
  \<open>CalculateDynamicScore\<close> of \<open>usecase/competition/scoring.go\<close>, over any rounding;
  the code rounds to \<open>float64\<close>, without fused multiply-add, and exact arithmetic gives the
  specification. The facts about all roundings are proved once, in the locale.
\<close>

section \<open>The formula\<close>

text \<open>\<open>initial + ((min - initial) / decay^2) * (solves - 1)^2\<close>, each operation rounded.\<close>

definition dynamic_value :: "(rat \<Rightarrow> rat) \<Rightarrow> int \<Rightarrow> int \<Rightarrow> int \<Rightarrow> int \<Rightarrow> rat" where
  "dynamic_value rnd initial minScore decay solves =
     (let solveCount = rnd (of_int (solves - 1));
          decayFloat = rnd (of_int decay);
          slope = rnd (rnd (rnd (of_int minScore) - rnd (of_int initial)) / rnd (decayFloat * decayFloat))
      in rnd (rnd (of_int initial) + rnd (slope * rnd (solveCount * solveCount))))"

definition dynamic_score :: "(rat \<Rightarrow> rat) \<Rightarrow> int \<Rightarrow> int \<Rightarrow> int \<Rightarrow> int \<Rightarrow> int" where
  "dynamic_score rnd initial minScore decay solves =
     (if solves \<le> 0 then initial
      else
        let decay = (if decay = 0 then 1 else decay) in
        if solves > decay then minScore
        else
          let score = \<lceil>dynamic_value rnd initial minScore decay solves\<rceil> in
          if score < minScore then minScore else score)"

definition CalculateDynamicScore :: "int \<Rightarrow> int \<Rightarrow> int \<Rightarrow> int \<Rightarrow> int" where
  "CalculateDynamicScore = dynamic_score rnd64"

section \<open>All roundings\<close>

context rounding
begin

lemma slope_nonpos:
  assumes "minScore \<le> initial"
  shows "rnd (rnd (rnd (of_int minScore) - rnd (of_int initial)) / rnd (d * d)) \<le> 0"
proof -
  have "rnd (of_int minScore) \<le> rnd (of_int initial)" using assms by (intro mono) simp
  then have "rnd (rnd (of_int minScore) - rnd (of_int initial)) \<le> 0" by (intro nonpos) simp
  moreover have "0 \<le> rnd (d * d)" by (intro nonneg) simp
  ultimately show ?thesis by (intro nonpos) (simp add: divide_nonpos_nonneg)
qed

lemma value_antimono:
  assumes "minScore \<le> initial" "1 \<le> s" "s \<le> s'"
  shows "dynamic_value rnd initial minScore d s' \<le> dynamic_value rnd initial minScore d s"
proof -
  have "0 \<le> rnd (of_int (s - 1))" "rnd (of_int (s - 1)) \<le> rnd (of_int (s' - 1))"
    using assms by (intro nonneg mono; simp)+
  then have "rnd (of_int (s - 1)) * rnd (of_int (s - 1)) \<le> rnd (of_int (s' - 1)) * rnd (of_int (s' - 1))"
    by (intro mult_mono) auto
  then have "rnd (rnd (of_int (s - 1)) * rnd (of_int (s - 1))) \<le> rnd (rnd (of_int (s' - 1)) * rnd (of_int (s' - 1)))"
    by (rule mono)
  then show ?thesis
    unfolding dynamic_value_def Let_def
    by (rule mono [OF add_left_mono [OF mono [OF mult_left_mono_neg [OF _ slope_nonpos [OF assms(1)]]]]])
qed

lemma value_first: "\<bar>initial\<bar> < 2 ^ 53 \<Longrightarrow> dynamic_value rnd initial minScore d 1 = of_int initial"
  by (simp add: dynamic_value_def exact zero)

lemma value_le_initial:
  assumes "minScore \<le> initial" "\<bar>initial\<bar> < 2 ^ 53" "1 \<le> s"
  shows "dynamic_value rnd initial minScore d s \<le> of_int initial"
  using value_antimono [OF assms(1) _ assms(3), of d] by (simp add: value_first [OF assms(2)])

lemma score_bounds:
  assumes "minScore \<le> initial" "\<bar>initial\<bar> < 2 ^ 53"
  shows "minScore \<le> dynamic_score rnd initial minScore decay solves"
    "dynamic_score rnd initial minScore decay solves \<le> initial"
  using assms value_le_initial [OF assms, of solves]
  by (auto simp: dynamic_score_def Let_def ceiling_le_iff not_less)

lemma score_antimono:
  assumes "minScore \<le> initial" "\<bar>initial\<bar> < 2 ^ 53" "s \<le> s'"
  shows "dynamic_score rnd initial minScore decay s' \<le> dynamic_score rnd initial minScore decay s"
proof -
  let ?d = "if decay = 0 then 1 else decay"
  consider "s \<le> 0" | "?d < s'" | "1 \<le> s" "s' \<le> ?d" by linarith
  then show ?thesis
  proof cases
    case 1
    then show ?thesis using score_bounds(2) [OF assms(1,2)] by (simp add: dynamic_score_def)
  next
    case 2
    then have "dynamic_score rnd initial minScore decay s' \<in> {initial, minScore} \<and>
        (dynamic_score rnd initial minScore decay s' = initial \<longrightarrow> s' \<le> 0 \<or> initial = minScore)"
      by (simp add: dynamic_score_def Let_def split: if_splits)
    then consider "dynamic_score rnd initial minScore decay s' = minScore" | "s' \<le> 0" by blast
    then show ?thesis
      using score_bounds [OF assms(1,2), of decay s] assms(3) by cases (auto simp: dynamic_score_def)
  next
    case 3
    then show ?thesis
      using ceiling_mono [OF value_antimono [OF assms(1) 3(1) assms(3), of ?d]] assms(3)
      by (auto simp: dynamic_score_def Let_def)
  qed
qed

lemma score_first: "\<bar>initial\<bar> < 2 ^ 53 \<Longrightarrow> minScore \<le> initial \<Longrightarrow> 0 \<le> decay \<Longrightarrow>
    dynamic_score rnd initial minScore decay 1 = initial"
  by (auto simp: dynamic_score_def Let_def value_first)

end

section \<open>The code against exact arithmetic\<close>

text \<open>With at most \<open>2 ^ 26\<close> solves to the minimum only three of the operations round.\<close>

lemma value_error:
  assumes "0 \<le> minScore" "minScore \<le> initial" "initial < 2 ^ 31" "1 \<le> s" "s \<le> d" "d \<le> 2 ^ 26"
  shows "\<bar>dynamic_value rnd64 initial minScore d s - dynamic_value (\<lambda>x. x) initial minScore d s\<bar> < 1"
proof -
  define q where "q = (of_int minScore - of_int initial :: rat) / of_int (d * d)"
  define n where "n = (s - 1) * (s - 1)"
  have dd: "\<bar>d * d\<bar> < 2 ^ 53"
  proof -
    have "d * d \<le> 2 ^ 26 * 2 ^ 26" using assms by (intro mult_mono) auto
    then show ?thesis using assms by (simp add: abs_mult)
  qed
  have n: "0 \<le> n" "n \<le> d * d" using assms by (auto simp: n_def intro: mult_mono)
  have ints: "rnd64 (of_int minScore) = of_int minScore" "rnd64 (of_int initial) = of_int initial"
    "rnd64 (of_int d) = of_int d" "rnd64 (of_int (s - 1)) = of_int (s - 1)"
    "rnd64 (of_int (d * d)) = of_int (d * d)" "rnd64 (of_int n) = of_int n"
    "rnd64 (of_int (minScore - initial)) = of_int (minScore - initial)"
    using assms dd n by (intro binary64.exact; simp)+
  have v: "dynamic_value rnd64 initial minScore d s = rnd64 (of_int initial + rnd64 (rnd64 q * of_int n))"
    using ints by (simp add: dynamic_value_def Let_def q_def n_def)
  have v0: "dynamic_value (\<lambda>x. x) initial minScore d s = of_int initial + q * of_int n"
    by (simp add: dynamic_value_def Let_def q_def n_def)
  have dpos: "0 < (of_int (d * d) :: rat)" using assms by simp
  define p where "p = rnd64 q * of_int n"
  have q0: "\<bar>q * of_int n\<bar> \<le> 2147483648"
  proof -
    have "q * of_int n = - (of_int (initial - minScore) * (of_int n / of_int (d * d)))"
      by (simp add: q_def left_diff_distrib diff_divide_distrib)
    moreover have "0 \<le> (of_int (initial - minScore) * (of_int n / of_int (d * d)) :: rat)"
      using assms n dpos by (intro mult_nonneg_nonneg divide_nonneg_nonneg) auto
    ultimately have "\<bar>q * of_int n\<bar> = of_int (initial - minScore) * (of_int n / of_int (d * d))"
      by (simp only: abs_minus abs_of_nonneg)
    also have "\<dots> \<le> of_int (initial - minScore) * 1"
    proof (rule mult_left_mono)
      have "(of_int n :: rat) \<le> of_int (d * d)" using n(2) by (simp only: of_int_le_iff)
      then show "(of_int n :: rat) / of_int (d * d) \<le> 1" using dpos by (simp only: divide_le_eq_1_pos)
    qed (use assms in simp)
    also have "\<dots> \<le> 2147483648"
      using assms(1,3) of_int_le_iff [of "initial - minScore" 2147483648, where 'a = rat] by simp
    finally show ?thesis .
  qed
  have small: "\<bar>rnd64 x - x\<bar> \<le> 1 / 8" if "\<bar>x\<bar> \<le> 8589934592" for x
  proof -
    have "\<bar>x\<bar> / 2 ^ 53 \<le> 8589934592 / 2 ^ 53" using that by (rule divide_right_mono) simp
    then show ?thesis using rnd64_error [of x] by simp
  qed
  have e1: "\<bar>p - q * of_int n\<bar> \<le> 1 / 8"
  proof -
    have "\<bar>p - q * of_int n\<bar> = \<bar>rnd64 q - q\<bar> * of_int n"
      using n by (simp add: p_def left_diff_distrib [symmetric] abs_mult)
    also have "\<dots> \<le> \<bar>q\<bar> / 2 ^ 53 * of_int n" using rnd64_error n by (intro mult_right_mono) auto
    also have "\<dots> = \<bar>q * of_int n\<bar> / 2 ^ 53" using n by (simp add: abs_mult)
    also have "\<dots> \<le> 2147483648 / 2 ^ 53" using q0 by (rule divide_right_mono) simp
    also have "\<dots> \<le> 1 / 8" by simp
    finally show ?thesis .
  qed
  then have p: "\<bar>p\<bar> \<le> 4294967296" using q0 by linarith
  then have e2: "\<bar>rnd64 p - p\<bar> \<le> 1 / 8" by (intro small) simp
  have i: "0 \<le> (of_int initial :: rat)" "(of_int initial :: rat) \<le> 2147483648"
    using assms of_int_le_iff [of initial 2147483648, where 'a = rat] by simp_all
  then have "\<bar>of_int initial + rnd64 p\<bar> \<le> 8589934592" using e2 p by linarith
  then have e3: "\<bar>rnd64 (of_int initial + rnd64 p) - (of_int initial + rnd64 p)\<bar> \<le> 1 / 8" by (rule small)
  show ?thesis unfolding v v0 p_def [symmetric] using e1 e2 e3 by linarith
qed

lemma ceiling_close:
  fixes x y :: rat
  assumes "\<bar>x - y\<bar> < 1" shows "\<bar>\<lceil>x\<rceil> - \<lceil>y\<rceil>\<bar> \<le> 1"
  using assms by linarith

section \<open>Properties\<close>



text \<open>C21 The rounding of \<open>float64\<close> costs at most one point: the score is within one of the score in exact
  arithmetic.\<close>

theorem CalculateDynamicScore_accuracy:
  assumes "0 \<le> minScore" "minScore \<le> initial" "initial < 2 ^ 31" "0 \<le> decay" "decay \<le> 2 ^ 26"
  shows "\<bar>CalculateDynamicScore initial minScore decay solves -
      dynamic_score (\<lambda>x. x) initial minScore decay solves\<bar> \<le> 1"
proof (cases "1 \<le> solves \<and> solves \<le> (if decay = 0 then 1 else decay)")
  case True
  let ?d = "if decay = 0 then 1 else decay"
  have "\<bar>dynamic_value rnd64 initial minScore ?d solves - dynamic_value (\<lambda>x. x) initial minScore ?d solves\<bar> < 1"
    using True assms by (intro value_error) auto
  from ceiling_close [OF this] show ?thesis
    using True by (auto simp: CalculateDynamicScore_def dynamic_score_def Let_def)
qed (auto simp: CalculateDynamicScore_def dynamic_score_def Let_def)

theorem CalculateDynamicScore_accuracy_witness:
  "\<bar>CalculateDynamicScore 500 100 7 4 - dynamic_score (\<lambda>x. x) 500 100 7 4\<bar> \<le> 1"
  by (rule CalculateDynamicScore_accuracy) simp_all

text \<open>The minimum is reached one solve later than the comment in the code says: with as many solves as
  the decay the score is still above it, with one more it is the minimum.\<close>

theorem CalculateDynamicScore_at_decay:
  "CalculateDynamicScore 500 100 10 10 = 176 \<and> CalculateDynamicScore 500 100 10 11 = 100"
  by code_simp

end
