(* ===== verification/CTF_Challenges.thy ===== *)
theory CTF_Challenges
  imports CTF_Tags CTF_Events CTF_Strings CTF_Scoring
begin

text \<open>
  \<open>ChallengeUseCase\<close> of \<open>usecase/challenge/challenge.go\<close>, method by method.
  What the code takes from elsewhere is a parameter: SHA-256 in hexadecimal, the lower case of
  strings that are not ASCII, the compiler and matcher of regular expressions, the string form of a
  UUID and the collation of the database (\<open>externals\<close>), and the encryption service. A
  \<open>SubmitFlag\<close> returns its two Go results as a pair.
\<close>

section \<open>The use case\<close>

record externals =
  ext_sha256 :: "string \<Rightarrow> string"
  ext_lower :: "string \<Rightarrow> string"
  ext_compile :: "string \<Rightarrow> goerr + regexp"
  ext_match :: "regexp \<Rightarrow> string \<Rightarrow> bool"
  ext_uuid :: "uuid \<Rightarrow> string"
  ext_collation :: collation

record crypto_service =
  cs_Encrypt :: "string \<Rightarrow> string op"
  cs_Decrypt :: "string \<Rightarrow> goerr + string"

text \<open>Optional dependencies; a Boolean tells whether a repository is not nil.\<close>

record challenge_uc =
  cu_ext :: externals
  cu_tagRepo :: bool
  cu_compRepo :: bool
  cu_teamRepo :: bool
  cu_scoreboardCache :: "scoreboard_cache option"
  cu_broadcaster :: bool
  cu_crypto :: "crypto_service option"

record challenge_with_tags =
  cwt_Challenge :: challenge_with_solved
  cwt_Tags :: "tag list"

abbreviation regex_hash :: string where
  "regex_hash \<equiv> ''REGEX_CHALLENGE''"

abbreviation ErrServiceNotConfigured :: goerr where
  "ErrServiceNotConfigured \<equiv> Plain ''encryption service not configured''"

definition invalidate_cache :: "challenge_uc \<Rightarrow> unit op" where
  "invalidate_cache uc =
     (case cu_scoreboardCache uc of None \<Rightarrow> returnE () | Some sc \<Rightarrow> InvalidateAll sc)"

section \<open>GetAll\<close>

definition Challenge_GetAll :: "challenge_uc \<Rightarrow> uuid option \<Rightarrow> uuid option \<Rightarrow> challenge_with_tags list op" where
  "Challenge_GetAll uc teamID tagID =
     bindE (mapErr (wrap ''ChallengeUseCase - GetAll'') (ChallengeRepo_GetAll teamID tagID)) (\<lambda>chals.
     if \<not> cu_tagRepo uc then returnE (map (\<lambda>c. \<lparr>cwt_Challenge = c, cwt_Tags = []\<rparr>) chals)
     else
       bindE (mapErr (wrap ''ChallengeUseCase - GetAll - GetTags'')
         (TagRepo_GetByChallengeIDs (ext_collation (cu_ext uc)) (map (\<lambda>c. chal_ID (cws_Challenge c)) chals)))
         (\<lambda>tagsMap. returnE (map (\<lambda>c. \<lparr>cwt_Challenge = c,
            cwt_Tags = (case tagsMap (chal_ID (cws_Challenge c)) of None \<Rightarrow> [] | Some ts \<Rightarrow> ts)\<rparr>) chals)))"

section \<open>Create, Update, Delete\<close>

definition hash_flag :: "challenge_uc \<Rightarrow> string \<Rightarrow> bool \<Rightarrow> string" where
  "hash_flag uc flag isCaseInsensitive =
     ext_sha256 (cu_ext uc)
       (if isCaseInsensitive then ToLower (ext_lower (cu_ext uc)) (TrimSpace flag) else flag)"

definition Challenge_Create ::
  "challenge_uc \<Rightarrow> string \<Rightarrow> string \<Rightarrow> string \<Rightarrow> int \<Rightarrow> int \<Rightarrow> int \<Rightarrow> int \<Rightarrow> string \<Rightarrow> bool \<Rightarrow> bool \<Rightarrow> bool \<Rightarrow>
   string option \<Rightarrow> uuid list \<Rightarrow> challenge op" where
  "Challenge_Create uc title description category points initialValue minValue decay flag isHidden
     isRegex isCaseInsensitive flagFormatRegex tagIDs =
     bindE (if isRegex
            then (case cu_crypto uc of
                None \<Rightarrow> throwE (wrap ''ChallengeUseCase - Create'' ErrServiceNotConfigured)
              | Some cs \<Rightarrow>
                  bindE (mapErr (wrap ''ChallengeUseCase - Create - Encrypt'') (cs_Encrypt cs flag))
                    (\<lambda>encrypted. returnE (regex_hash, encrypted)))
            else returnE (hash_flag uc flag isCaseInsensitive, '''')) (\<lambda>(flagHash, flagRegex).
     bindE (mapErr (wrap ''ChallengeUseCase - Create'') (ChallengeRepo_Create
       \<lparr>chal_ID = 0, chal_Title = title, chal_Description = description, chal_Category = category,
        chal_Points = points, chal_InitialValue = initialValue, chal_MinValue = minValue,
        chal_Decay = decay, chal_SolveCount = 0, chal_FlagHash = flagHash, chal_IsHidden = isHidden,
        chal_IsRegex = isRegex, chal_IsCaseInsensitive = isCaseInsensitive, chal_FlagRegex = flagRegex,
        chal_FlagFormatRegex = flagFormatRegex\<rparr>)) (\<lambda>challenge.
     bindE (if cu_tagRepo uc \<and> 0 < length tagIDs
            then mapErr (wrap ''ChallengeUseCase - Create - SetTags'')
                   (TagRepo_SetChallengeTags (chal_ID challenge) tagIDs)
            else returnE ()) (\<lambda>_.
     returnE challenge)))"

definition challengeUpdateApplyBasic ::
  "string \<Rightarrow> string \<Rightarrow> string \<Rightarrow> int \<Rightarrow> int \<Rightarrow> int \<Rightarrow> int \<Rightarrow> bool \<Rightarrow> bool \<Rightarrow> bool \<Rightarrow> string option \<Rightarrow>
   challenge \<Rightarrow> challenge" where
  "challengeUpdateApplyBasic title description category points initialValue minValue decay isHidden isRegex
     isCaseInsensitive flagFormatRegex c = c\<lparr>chal_Title := title, chal_Description := description,
     chal_Category := category, chal_Points := points, chal_InitialValue := initialValue,
     chal_MinValue := minValue, chal_Decay := decay, chal_IsHidden := isHidden,
     chal_IsRegex := isRegex, chal_IsCaseInsensitive := isCaseInsensitive,
     chal_FlagFormatRegex := flagFormatRegex\<rparr>"

definition challengeUpdateApplyFlag ::
  "challenge_uc \<Rightarrow> string \<Rightarrow> bool \<Rightarrow> bool \<Rightarrow> challenge \<Rightarrow> challenge op" where
  "challengeUpdateApplyFlag uc flag isRegex isCaseInsensitive c =
     (if flag = '''' then returnE c
      else if isRegex
      then (case cu_crypto uc of
          None \<Rightarrow> throwE (wrap ''ChallengeUseCase - Update'' ErrServiceNotConfigured)
        | Some cs \<Rightarrow>
            bindE (mapErr (wrap ''ChallengeUseCase - Update - Encrypt'') (cs_Encrypt cs flag))
              (\<lambda>encrypted. returnE (c\<lparr>chal_FlagRegex := encrypted, chal_FlagHash := regex_hash\<rparr>)))
      else returnE (c\<lparr>chal_FlagHash := hash_flag uc flag isCaseInsensitive, chal_FlagRegex := ''''\<rparr>))"

definition Challenge_Update ::
  "challenge_uc \<Rightarrow> uuid \<Rightarrow> string \<Rightarrow> string \<Rightarrow> string \<Rightarrow> int \<Rightarrow> int \<Rightarrow> int \<Rightarrow> int \<Rightarrow> string \<Rightarrow> bool \<Rightarrow> bool \<Rightarrow>
   bool \<Rightarrow> string option \<Rightarrow> uuid list \<Rightarrow> challenge op" where
  "Challenge_Update uc ID title description category points initialValue minValue decay flag isHidden
     isRegex isCaseInsensitive flagFormatRegex tagIDs =
     bindE (mapErr (wrap ''ChallengeUseCase - Update - GetByID'') (ChallengeRepo_GetByID ID)) (\<lambda>c.
     let c = challengeUpdateApplyBasic title description category points initialValue minValue decay
               isHidden isRegex isCaseInsensitive flagFormatRegex c in
     bindE (challengeUpdateApplyFlag uc flag isRegex isCaseInsensitive c) (\<lambda>c.
     bindE (mapErr (wrap ''ChallengeUseCase - Update'') (ChallengeRepo_Update c)) (\<lambda>_.
     bindE (if cu_tagRepo uc
            then mapErr (wrap ''ChallengeUseCase - Update - SetTags'') (TagRepo_SetChallengeTags ID tagIDs)
            else returnE ()) (\<lambda>_.
     bindE (invalidate_cache uc) (\<lambda>_.
     returnE c)))))"

definition deleteTx :: "challenge_uc \<Rightarrow> uuid \<Rightarrow> uuid \<Rightarrow> string \<Rightarrow> unit op" where
  "deleteTx uc ID actorID clientIP =
     bindE (GetChallengeByIDTx ID) (\<lambda>_.
     bindE (mapErr (wrap ''DeleteChallengeTx'') (DeleteChallengeTx ID)) (\<lambda>_.
     mapErr (wrap ''CreateAuditLogTx'') (CreateAuditLogTx (Some actorID) AuditActionDelete
       AuditEntityChallenge (ext_uuid (cu_ext uc) ID) clientIP None)))"

definition Challenge_Delete :: "challenge_uc \<Rightarrow> uuid \<Rightarrow> uuid \<Rightarrow> string \<Rightarrow> unit op" where
  "Challenge_Delete uc ID actorID clientIP =
     bindE (mapErr (wrap ''ChallengeUseCase - Delete - Transaction'')
       (run_transaction (deleteTx uc ID actorID clientIP))) (\<lambda>_.
     invalidate_cache uc)"

section \<open>Compiled expressions\<close>

text \<open>
  The cache is asked twice, the second time inside \<open>singleflight\<close>; an index out of range of
  the cache would panic.
\<close>

definition regex_Get :: "string \<Rightarrow> regexp option op" where
  "regex_Get pattern w =
     (case BoundedCache_Get (regex_cache w) pattern of Inl _ \<Rightarrow> (Inl GoPanic, w) | Inr r \<Rightarrow> (Inr r, w))"

definition regex_Set :: "string \<Rightarrow> regexp \<Rightarrow> unit op" where
  "regex_Set pattern re w =
     (case BoundedCache_Set (regex_cache w) pattern re of
        Inl _ \<Rightarrow> (Inl GoPanic, w) | Inr c \<Rightarrow> (Inr (), w\<lparr>regex_cache := c\<rparr>))"

definition getCompiledRegex :: "challenge_uc \<Rightarrow> string \<Rightarrow> regexp op" where
  "getCompiledRegex uc pattern =
     bindE (regex_Get pattern) (\<lambda>r. case r of Some re \<Rightarrow> returnE re
     | None \<Rightarrow>
         bindE (regex_Get pattern) (\<lambda>r. case r of Some re \<Rightarrow> returnE re
         | None \<Rightarrow>
             bindE (mapErr (wrap ''ChallengeUseCase - getCompiledRegex - Compile'')
               (liftE (ext_compile (cu_ext uc) pattern))) (\<lambda>compiled.
             bindE (regex_Set pattern compiled) (\<lambda>_. returnE compiled))))"

section \<open>SubmitFlag\<close>

definition submitValidateTeam :: "challenge_uc \<Rightarrow> uuid \<Rightarrow> unit op" where
  "submitValidateTeam uc teamID =
     (if \<not> cu_teamRepo uc then returnE ()
      else bindE (mapErr (wrap ''ChallengeUseCase - SubmitFlag - GetTeam'') (TeamRepo_GetByID teamID))
             (\<lambda>team. failIf (team_IsBanned team) (Sentinel ErrTeamBanned)))"

definition submitGetChallenge :: "uuid \<Rightarrow> challenge op" where
  "submitGetChallenge challengeID =
     mapErr (\<lambda>e. if is_sentinel e ErrChallengeNotFound then Sentinel ErrChallengeNotFound
                 else wrap ''ChallengeUseCase - SubmitFlag - GetByID'' e)
       (ChallengeRepo_GetByID challengeID)"

text \<open>The pattern of the challenge, else the one of the competition; a failing read means none.\<close>

definition submitValidateFlagFormat :: "challenge_uc \<Rightarrow> string \<Rightarrow> challenge \<Rightarrow> unit op" where
  "submitValidateFlagFormat uc flag challenge =
     bindE (case chal_FlagFormatRegex challenge of
         Some r \<Rightarrow> if r \<noteq> '''' then returnE (Some r) else returnE None
       | None \<Rightarrow> returnE None) (\<lambda>own.
     bindE (case own of Some r \<Rightarrow> returnE r
       | None \<Rightarrow>
           if \<not> cu_compRepo uc then returnE ''''
           else bindE (errE CompetitionRepo_Get) (\<lambda>r. case r of
                Inl _ \<Rightarrow> returnE ''''
              | Inr cmp \<Rightarrow> returnE (case comp_FlagRegex cmp of None \<Rightarrow> '''' | Some r \<Rightarrow> r))) (\<lambda>formatRegex.
     if formatRegex = '''' then returnE ()
     else bindE (mapErr (wrap ''ChallengeUseCase - SubmitFlag - MatchString'')
            (liftE (ext_compile (cu_ext uc) formatRegex))) (\<lambda>re.
          failIf (\<not> ext_match (cu_ext uc) re flag) (Sentinel ErrInvalidFlagFormat))))"

definition submitCheckRegexFlag :: "challenge_uc \<Rightarrow> string \<Rightarrow> challenge \<Rightarrow> bool op" where
  "submitCheckRegexFlag uc flag challenge =
     (case cu_crypto uc of None \<Rightarrow> returnE False
      | Some cs \<Rightarrow>
          (case cs_Decrypt cs (chal_FlagRegex challenge) of
             Inl _ \<Rightarrow> returnE False
           | Inr pattern \<Rightarrow>
               let pattern = (if chal_IsCaseInsensitive challenge then ''(?i)'' @ pattern else pattern) in
               bindE (errE (getCompiledRegex uc pattern)) (\<lambda>r. case r of
                 Inl _ \<Rightarrow> returnE False
               | Inr compiled \<Rightarrow> returnE (ext_match (cu_ext uc) compiled flag))))"

definition submitCheckHashFlag :: "challenge_uc \<Rightarrow> string \<Rightarrow> challenge \<Rightarrow> bool" where
  "submitCheckHashFlag uc flag challenge =
     (let userInput = (if chal_IsCaseInsensitive challenge then ToLower (ext_lower (cu_ext uc)) flag else flag) in
      ext_sha256 (cu_ext uc) userInput = chal_FlagHash challenge)"

definition submitCheckFlag :: "challenge_uc \<Rightarrow> string \<Rightarrow> challenge \<Rightarrow> bool op" where
  "submitCheckFlag uc flag challenge =
     (if chal_IsRegex challenge then submitCheckRegexFlag uc flag challenge
      else returnE (submitCheckHashFlag uc flag challenge))"

definition submitRecordSolveCheckExisting :: "uuid \<Rightarrow> uuid \<Rightarrow> unit op" where
  "submitRecordSolveCheckExisting teamID challengeID =
     bindE (errE (GetSolveByTeamAndChallengeTx teamID challengeID)) (\<lambda>r. case r of
       Inr _ \<Rightarrow> throwE (Sentinel ErrAlreadySolved)
     | Inl e \<Rightarrow> failIf (\<not> is_sentinel e ErrSolveNotFound) (wrap ''GetSolveByTeamAndChallengeTx'' e))"

text \<open>Returns the challenge with its new points.\<close>

definition submitRecordSolveUpdatePointsIfDecay :: "uuid \<Rightarrow> challenge \<Rightarrow> int \<Rightarrow> challenge op" where
  "submitRecordSolveUpdatePointsIfDecay challengeID solved solveCount =
     (if chal_InitialValue solved \<le> 0 \<or> chal_Decay solved \<le> 0 then returnE solved
      else
        let newPoints = CalculateDynamicScore (chal_InitialValue solved) (chal_MinValue solved)
                          (chal_Decay solved) solveCount in
        if newPoints = chal_Points solved then returnE solved
        else bindE (mapErr (wrap ''UpdateChallengePointsTx'') (UpdateChallengePointsTx challengeID newPoints))
               (\<lambda>_. returnE (solved\<lparr>chal_Points := newPoints\<rparr>)))"

definition new_solve :: "uuid \<Rightarrow> uuid \<Rightarrow> uuid \<Rightarrow> solve" where
  "new_solve userID teamID challengeID = \<lparr>solve_ID = 0, solve_UserID = userID, solve_TeamID = teamID,
     solve_ChallengeID = challengeID, solve_SolvedAt = 0\<rparr>"

definition recordSolveTx :: "uuid \<Rightarrow> uuid \<Rightarrow> uuid \<Rightarrow> (challenge \<times> int) op" where
  "recordSolveTx userID teamID challengeID =
     bindE (submitRecordSolveCheckExisting teamID challengeID) (\<lambda>_.
     bindE (mapErr (wrap ''GetChallengeByIDTx'') (GetChallengeByIDTx challengeID)) (\<lambda>solved.
     bindE (mapErr (wrap ''CreateSolveTx'') (CreateSolveTx (new_solve userID teamID challengeID))) (\<lambda>_.
     bindE (mapErr (wrap ''IncrementChallengeSolveCountTx'') (IncrementChallengeSolveCountTx challengeID)) (\<lambda>solveCount.
     bindE (submitRecordSolveUpdatePointsIfDecay challengeID solved solveCount) (\<lambda>solved.
     returnE (solved, solveCount))))))"

definition submitRecordSolve :: "uuid \<Rightarrow> uuid \<Rightarrow> uuid \<Rightarrow> (challenge \<times> int) op" where
  "submitRecordSolve userID teamID challengeID = run_transaction (recordSolveTx userID teamID challengeID)"

definition submitNotifySolve :: "challenge_uc \<Rightarrow> uuid \<Rightarrow> challenge \<Rightarrow> bool \<Rightarrow> unit op" where
  "submitNotifySolve uc teamID challenge isFirstBlood =
     (if cu_broadcaster uc then NotifySolve teamID (chal_Title challenge) (chal_Points challenge) isFirstBlood
      else returnE ())"

definition Challenge_SubmitFlag ::
  "challenge_uc \<Rightarrow> uuid \<Rightarrow> string \<Rightarrow> uuid \<Rightarrow> uuid option \<Rightarrow> (bool \<times> goerr option) op" where
  "Challenge_SubmitFlag uc challengeID flag userID teamID =
     (case teamID of None \<Rightarrow> returnE (False, Some (Sentinel ErrUserMustBeInTeam))
      | Some team \<Rightarrow>
     let flag = TrimSpace flag in
     bindE (errE (submitValidateTeam uc team)) (\<lambda>r. case r of Inl e \<Rightarrow> returnE (False, Some e) | Inr _ \<Rightarrow>
     bindE (errE (submitGetChallenge challengeID)) (\<lambda>r. case r of Inl e \<Rightarrow> returnE (False, Some e)
       | Inr challenge \<Rightarrow>
     bindE (errE (submitValidateFlagFormat uc flag challenge)) (\<lambda>r. case r of Inl e \<Rightarrow> returnE (False, Some e)
       | Inr _ \<Rightarrow>
     bindE (submitCheckFlag uc flag challenge) (\<lambda>ok.
     if \<not> ok then returnE (False, None)
     else
     bindE (errE (submitRecordSolve userID team challengeID)) (\<lambda>r. case r of
         Inl e \<Rightarrow> returnE (is_sentinel e ErrAlreadySolved, Some e)
       | Inr (solved, solveCount) \<Rightarrow>
     bindE (invalidate_cache uc) (\<lambda>_.
     bindE (submitNotifySolve uc team solved (solveCount = 1)) (\<lambda>_.
     returnE (True, None)))))))))"

end
