(* ===== verification/CTF_RosterFacts.thy ===== *)
theory CTF_RosterFacts
  imports CTF_RosterRepo
begin

text \<open>
  What a successful call of the user and team repositories did: the collection \<open>effects\<close>
  holds, per method, the state it leaves and what it found. \<open>user_row\<close> and
  \<open>live_team\<close> are the lookups the statements are about.
\<close>

named_theorems effects \<open>what a repository method did when it succeeded\<close>

definition user_row :: "db \<Rightarrow> uuid \<Rightarrow> users_row option" where
  "user_row d u = find (\<lambda>r. users_id r = u) (users d)"

definition live_team :: "db \<Rightarrow> uuid \<Rightarrow> teams_row option" where
  "live_team d t = find (\<lambda>r. teams_id r = t \<and> live r) (teams d)"

definition members_of :: "db \<Rightarrow> uuid \<Rightarrow> users_row list" where
  "members_of d t = filter (\<lambda>u. users_team_id u = Some t) (users d)"

lemma user_row_SomeD: "user_row d u = Some r \<Longrightarrow> r \<in> set (users d) \<and> users_id r = u"
  by (auto simp: user_row_def dest: find_SomeD)

lemma live_team_SomeD:
  "live_team d t = Some r \<Longrightarrow> r \<in> set (teams d) \<and> teams_id r = t \<and> teams_deleted_at r = None"
  by (auto simp: live_team_def dest: find_SomeD)

lemma user_row_exists: "user_row d u = Some r \<Longrightarrow> user_exists u d"
  by (auto simp: user_exists_def dest!: user_row_SomeD)

lemma live_team_exists: "live_team d t = Some r \<Longrightarrow> team_exists t d"
  by (auto simp: team_exists_def dest!: live_team_SomeD)

lemma user_row_None: "user_row d u = None \<longleftrightarrow> \<not> user_exists u d"
  by (auto simp: user_exists_def user_row_def find_None_set)

lemma user_exists_row: "user_exists u d \<longleftrightarrow> (\<exists>r. user_row d u = Some r)"
  using user_row_None [of d u] by auto

section \<open>Reads\<close>

lemma UserRepo_GetByID_Inr [effects]:
  "UserRepo_GetByID u w = (Inr x, w') \<Longrightarrow>
     store w' = store w \<and> (\<exists>r. user_row (store w) u = Some r \<and> x = toEntityUser r)"
  by (auto simp: UserRepo_GetByID_def bindE_Inr_iff sql_Inr_iff sqlc_GetUserByID_def
      select_one_Inr_iff user_row_def dest: filter_Cons_find)

lemma TeamRepo_GetByID_Inr [effects]:
  "TeamRepo_GetByID t w = (Inr x, w') \<Longrightarrow>
     store w' = store w \<and> (\<exists>r. live_team (store w) t = Some r \<and> x = toEntityTeamFromRow r)"
  by (auto simp: TeamRepo_GetByID_def bindE_Inr_iff sql_Inr_iff sqlc_GetTeamByID_def
      select_one_Inr_iff live_team_def dest: filter_Cons_find)

lemma GetTeamByIDTx_Inr [effects]:
  "GetTeamByIDTx t w = (Inr x, w') \<Longrightarrow>
     store w' = store w \<and> (\<exists>r. live_team (store w) t = Some r \<and> x = toEntityTeamFromRow r)"
  by (auto simp: GetTeamByIDTx_def bindE_Inr_iff sql_tx_Inr_iff sql_Inr_iff sqlc_GetTeamByID_def
      select_one_Inr_iff live_team_def dest: filter_Cons_find)

lemma GetTeamByInviteTokenTx_Inr [effects]:
  "GetTeamByInviteTokenTx tok w = (Inr x, w') \<Longrightarrow>
     store w' = store w \<and>
     (\<exists>r. r \<in> set (teams (store w)) \<and> teams_invite_token r = tok \<and> teams_deleted_at r = None \<and>
        x = toEntityTeamFromRow r)"
  by (auto simp: GetTeamByInviteTokenTx_def bindE_Inr_iff sql_tx_Inr_iff sql_Inr_iff
      sqlc_GetTeamByInviteToken_def select_one_Inr_iff dest!: filter_Cons_find find_SomeD)

lemma GetUsersByTeamIDTx_Inr [effects]:
  "GetUsersByTeamIDTx t w = (Inr x, w') \<Longrightarrow>
     store w' = store w \<and> x = map toEntityUser (members_of (store w) t)"
  by (auto simp: GetUsersByTeamIDTx_def bindE_Inr_iff sql_tx_Inr_iff sql_Inr_iff
      sqlc_ListUsersByTeamID_def members_of_def)

lemma LockUserTx_Inr [effects]:
  "LockUserTx u w = (Inr x, w') \<Longrightarrow> store w' = store w \<and> user_exists u (store w)"
  by (auto simp: LockUserTx_def bindE_Inr_iff sql_tx_Inr_iff sql_Inr_iff lock_user_def
      select_one_Inr_iff user_exists_def filter_eq_Cons_iff)

lemma LockTeamTx_Inr [effects]:
  "LockTeamTx t w = (Inr x, w') \<Longrightarrow> store w' = store w"
  by (auto simp: LockTeamTx_def bindE_Inr_iff sql_tx_Inr_iff sql_Inr_iff lock_team_def
      select_one_Inr_iff)

lemma GetTeamByNameTx_store:
  "GetTeamByNameTx name w = (r, w') \<Longrightarrow> store w' = store w"
proof (cases r)
  case (Inr x)
  assume "GetTeamByNameTx name w = (r, w')"
  then show ?thesis using Inr
    by (auto simp: GetTeamByNameTx_def bindE_Inr_iff sql_tx_Inr_iff sql_Inr_iff
        sqlc_GetTeamByName_def select_one_Inr_iff)
next
  case (Inl e)
  assume "GetTeamByNameTx name w = (r, w')"
  then show ?thesis using Inl
    by (auto simp: GetTeamByNameTx_def bindE_Inl_iff mapErr_Inl_iff dest: sql_tx_Inl_store)
qed

section \<open>Writes\<close>

lemma UpdateUserTeamIDTx_Inr [effects]:
  "UpdateUserTeamIDTx u t w = (Inr x, w') \<Longrightarrow>
     store w' = (store w)\<lparr>users := upd_where (\<lambda>r. users_id r = u)
        (\<lambda>r. r\<lparr>users_team_id := t\<rparr>) (users (store w))\<rparr> \<and>
     user_exists u (store w) \<and> (\<forall>i. t = Some i \<longrightarrow> team_exists i (store w))"
  by (auto simp: UpdateUserTeamIDTx_def bindE_Inr_iff sql_tx_Inr_iff sql_Inr_iff
      sqlc_UpdateUserTeamID_def split: if_splits option.splits)

lemma SoftDeleteTeamTx_Inr [effects]:
  "SoftDeleteTeamTx t w = (Inr x, w') \<Longrightarrow>
     \<exists>now. store w' = (store w)\<lparr>teams := upd_where (\<lambda>r. teams_id r = t \<and> live r)
        (\<lambda>r. r\<lparr>teams_deleted_at := Some now\<rparr>) (teams (store w))\<rparr>"
  by (auto simp: SoftDeleteTeamTx_def bindE_Inr_iff sql_tx_Inr_iff sql_Inr_iff
      sqlc_SoftDeleteTeam_def update_live_team_def nowE_Inr_iff split: if_splits)

lemma UpdateTeamCaptainTx_Inr [effects]:
  "UpdateTeamCaptainTx t c w = (Inr x, w') \<Longrightarrow>
     store w' = (store w)\<lparr>teams := upd_where (\<lambda>r. teams_id r = t)
        (\<lambda>r. r\<lparr>teams_captain_id := c\<rparr>) (teams (store w))\<rparr> \<and> user_exists c (store w)"
  by (auto simp: UpdateTeamCaptainTx_def bindE_Inr_iff sql_tx_Inr_iff sql_Inr_iff
      set_team_captain_def split: if_splits)

lemma CreateTeamAuditLogTx_Inr [effects]:
  "CreateTeamAuditLogTx t u a det w = (Inr x, w') \<Longrightarrow>
     \<exists>row. store w' = (store w)\<lparr>team_audit_log := team_audit_log (store w) @ [row]\<rparr> \<and>
       team_audit_log_team_id row = t \<and> team_audit_log_user_id row = u \<and>
       team_audit_log_action row = a \<and> team_audit_log_details row = Some det"
  by (auto simp: CreateTeamAuditLogTx_def bindE_Inr_iff sql_tx_Inr_iff sql_Inr_iff
      team_audit_log_insert_def nowE_Inr_iff uuid_New_Inr_iff split: if_splits)

lemma CreateTeamTx_Inr [effects]:
  "CreateTeamTx t w = (Inr x, w') \<Longrightarrow>
     \<exists>row. store w' = (store w)\<lparr>teams := teams (store w) @ [row]\<rparr> \<and>
       \<not> team_exists (teams_id row) (store w) \<and> teams_name row \<notin> teams_name ` set (teams (store w)) \<and>
       teams_deleted_at row = None \<and> teams_captain_id row = team_CaptainID t \<and>
       teams_name row = team_Name t \<and> teams_is_solo row = Some (team_IsSolo t) \<and>
       teams_is_banned row = Some False \<and> teams_is_hidden row = Some False \<and>
       teams_invite_token row = team_InviteToken t \<and>
       team_ID x = teams_id row \<and> team_Name x = team_Name t \<and> team_CaptainID x = team_CaptainID t \<and>
       team_IsSolo x = team_IsSolo t \<and> team_InviteToken x = team_InviteToken t"
  apply (clarsimp simp: CreateTeamTx_def bindE_Inr_iff sql_tx_Inr_iff sql_Inr_iff team_exists_def
      sqlc_CreateTeamReturningID_def teams_insert_def nowE_Inr_iff uuid_New_Inr_iff list_ex_iff
      split: if_splits)
  apply (rule exI, rule conjI, rule refl)
  apply auto
  done

lemma uuid_New_store: "uuid_New w = (r, w') \<Longrightarrow> store w' = store w"
  by (auto simp: uuid_New_def)

end
