(* ===== verification/CTF_ScoreFacts.thy ===== *)
theory CTF_ScoreFacts
  imports CTF_RosterFacts CTF_ScoreRepo
begin

text \<open>
  What a successful call of the transactional challenge, solve, hint and award methods did, in the
  collection \<open>effects\<close>; and that the ones that read change nothing whatever they answer.
\<close>

definition chal_row :: "db \<Rightarrow> uuid \<Rightarrow> challenges_row option" where
  "chal_row d c = find (\<lambda>r. challenges_id r = c) (challenges d)"

definition solve_of :: "db \<Rightarrow> uuid \<Rightarrow> uuid \<Rightarrow> solves_row option" where
  "solve_of d t c = find (\<lambda>s. solves_team_id s = t \<and> solves_challenge_id s = c) (solves d)"

lemma chal_row_SomeD: "chal_row d c = Some r \<Longrightarrow> r \<in> set (challenges d) \<and> challenges_id r = c"
  by (auto simp: chal_row_def dest: find_SomeD)

lemma solve_of_None: "solve_of d t c = None \<longleftrightarrow>
    (\<forall>s \<in> set (solves d). \<not> (solves_team_id s = t \<and> solves_challenge_id s = c))"
  by (auto simp: solve_of_def find_None_set)

section \<open>Challenges and solves\<close>

lemma chal_entity_simps:
  "chal_ID (toEntityChallengeFromRow r) = challenges_id r"
  "chal_Title (toEntityChallengeFromRow r) = challenges_title r"
  "chal_Points (toEntityChallengeFromRow r) = (case challenges_points r of None \<Rightarrow> 0 | Some p \<Rightarrow> p)"
  "chal_InitialValue (toEntityChallengeFromRow r) = challenges_initial_value r"
  "chal_MinValue (toEntityChallengeFromRow r) = challenges_min_value r"
  "chal_Decay (toEntityChallengeFromRow r) = challenges_decay r"
  "chal_SolveCount (toEntityChallengeFromRow r) = challenges_solve_count r"
  by (simp_all add: toEntityChallengeFromRow_def)

lemma chal_entity_points:
  "(toEntityChallengeFromRow r)\<lparr>chal_Points := p\<rparr> = toEntityChallengeFromRow (r\<lparr>challenges_points := Some p\<rparr>)"
  by (simp add: toEntityChallengeFromRow_def)

lemma int32E_Inr [simp]: "int32E msg i w = (Inr j, w') \<longleftrightarrow> j = i \<and> int4_ok i \<and> w' = w"
  by (auto simp: int32E_def intToInt32Safe_Inr_iff int4_ok_def)

lemma int32E_store: "int32E msg i w = (r, w') \<Longrightarrow> w' = w"
  by (auto simp: int32E_def mapErr_def split: sum.splits)

lemma ChallengeRepo_GetByID_Inr [effects]:
  "ChallengeRepo_GetByID c w = (Inr x, w') \<Longrightarrow>
     store w' = store w \<and> (\<exists>r. chal_row (store w) c = Some r \<and> x = toEntityChallengeFromRow r)"
  by (auto simp: ChallengeRepo_GetByID_def bindE_Inr_iff sql_Inr_iff sqlc_GetChallengeByID_def
      select_one_Inr_iff chal_row_def dest: filter_Cons_find)

lemma GetChallengeByIDTx_Inr [effects]:
  "GetChallengeByIDTx c w = (Inr x, w') \<Longrightarrow>
     store w' = store w \<and> (\<exists>r. chal_row (store w) c = Some r \<and> x = toEntityChallengeFromRow r)"
  by (auto simp: GetChallengeByIDTx_def bindE_Inr_iff sql_tx_Inr_iff sql_Inr_iff
      sqlc_GetChallengeByIDForUpdate_def select_one_Inr_iff chal_row_def dest: filter_Cons_find)

lemma GetSolveByTeamAndChallengeTx_NotFound:
  assumes "GetSolveByTeamAndChallengeTx t c w = (Inl e, w')" "is_sentinel e ErrSolveNotFound"
  shows "store w' = store w \<and> solve_of (store w) t c = None"
proof -
  from assms(1) obtain e' where
    e': "sql_tx (sqlc_GetSolveByTeamAndChallengeForUpdate t c) w = (Inl e', w')"
    and e: "e = no_rows_as ErrSolveNotFound ''TxSolveRepo - GetSolveByTeamAndChallengeTx'' e'"
    by (auto simp: GetSolveByTeamAndChallengeTx_def bindE_Inl_iff mapErr_Inl_iff)
  have store: "store w' = store w" using sql_tx_Inl_store [OF e'] .
  from e' consider "e' = Pg Failure" | "e' = Pg NoRows" "solve_of (store w) t c = None"
    by (auto simp: sql_tx_def sql_Inl_iff sqlc_GetSolveByTeamAndChallengeForUpdate_def select_one_Inl_iff
        solve_of_def filter_Nil_find split: if_splits prod.splits sum.splits)
  then show ?thesis using assms(2) e store by cases (auto simp: no_rows_as_def isNoRows_def)
qed

lemma CreateSolveTx_Inr [effects]:
  "CreateSolveTx s w = (Inr x, w') \<Longrightarrow>
     \<exists>row. store w' = (store w)\<lparr>solves := solves (store w) @ [row]\<rparr> \<and>
       solves_id row \<notin> solves_id ` set (solves (store w)) \<and>
       solves_user_id row = solve_UserID s \<and> solves_team_id row = solve_TeamID s \<and>
       solves_challenge_id row = solve_ChallengeID s \<and> solves_solved_at row \<noteq> None \<and>
       user_exists (solve_UserID s) (store w) \<and> team_exists (solve_TeamID s) (store w) \<and>
       challenge_exists (solve_ChallengeID s) (store w) \<and>
       solve_of (store w) (solve_TeamID s) (solve_ChallengeID s) = None"
  apply (clarsimp simp: CreateSolveTx_def bindE_Inr_iff sql_tx_Inr_iff sql_Inr_iff sqlc_CreateSolve_def
      solve_row_def nowE_Inr_iff uuid_New_Inr_iff list_ex_iff split: if_splits)
  apply (rule exI, rule conjI, rule refl)
  apply (auto simp: solve_of_None)
  done

lemma IncrementChallengeSolveCountTx_Inr [effects]:
  "IncrementChallengeSolveCountTx c w = (Inr n, w') \<Longrightarrow>
     store w' = (store w)\<lparr>challenges := upd_where (\<lambda>r. challenges_id r = c)
        (\<lambda>r. r\<lparr>challenges_solve_count := challenges_solve_count r + 1\<rparr>) (challenges (store w))\<rparr> \<and>
     (\<exists>r. chal_row (store w) c = Some r \<and> n = challenges_solve_count r + 1)"
  by (auto simp: IncrementChallengeSolveCountTx_def sql_tx_Inr_iff sql_Inr_iff Let_def chal_row_def
      sqlc_IncrementChallengeSolveCount_def split: option.splits if_splits)

lemma UpdateChallengePointsTx_Inr [effects]:
  "UpdateChallengePointsTx c p w = (Inr x, w') \<Longrightarrow>
     store w' = (store w)\<lparr>challenges := upd_where (\<lambda>r. challenges_id r = c)
        (\<lambda>r. r\<lparr>challenges_points := Some p\<rparr>) (challenges (store w))\<rparr>"
  by (auto simp: UpdateChallengePointsTx_def bindE_Inr_iff sql_tx_Inr_iff sql_Inr_iff
      sqlc_UpdateChallengePoints_def split: if_splits)

section \<open>Hints and awards\<close>

definition hint_row :: "db \<Rightarrow> uuid \<Rightarrow> hints_row option" where
  "hint_row d h = find (\<lambda>r. hints_id r = h) (hints d)"

definition unlock_of :: "db \<Rightarrow> uuid \<Rightarrow> uuid \<Rightarrow> hint_unlocks_row option" where
  "unlock_of d t h = find (\<lambda>u. hint_unlocks_team_id u = t \<and> hint_unlocks_hint_id u = h) (hint_unlocks d)"

lemma unlock_of_None: "unlock_of d t h = None \<longleftrightarrow>
    (\<forall>u \<in> set (hint_unlocks d). \<not> (hint_unlocks_team_id u = t \<and> hint_unlocks_hint_id u = h))"
  by (auto simp: unlock_of_def find_None_set)

lemma HintRepo_GetByID_Inr [effects]:
  "HintRepo_GetByID h w = (Inr x, w') \<Longrightarrow>
     store w' = store w \<and> (\<exists>r. hint_row (store w) h = Some r \<and> x = toEntityHint r)"
  by (auto simp: HintRepo_GetByID_def bindE_Inr_iff sql_Inr_iff sqlc_GetHintByID_def
      select_one_Inr_iff hint_row_def dest: filter_Cons_find)

lemma GetHintUnlockByTeamAndHintTx_NotFound:
  assumes "GetHintUnlockByTeamAndHintTx t h w = (Inl e, w')" "is_sentinel e ErrHintNotFound"
  shows "store w' = store w \<and> unlock_of (store w) t h = None"
proof -
  from assms(1) obtain e' where
    e': "sql_tx (sqlc_GetHintUnlockByTeamAndHintForUpdate t h) w = (Inl e', w')"
    and e: "e = no_rows_as ErrHintNotFound ''TxHintRepo - GetHintUnlockByTeamAndHintTx'' e'"
    by (auto simp: GetHintUnlockByTeamAndHintTx_def bindE_Inl_iff mapErr_Inl_iff)
  have store: "store w' = store w" using sql_tx_Inl_store [OF e'] .
  from e' consider "e' = Pg Failure" | "e' = Pg NoRows" "unlock_of (store w) t h = None"
    by (auto simp: sql_tx_def sql_Inl_iff sqlc_GetHintUnlockByTeamAndHintForUpdate_def select_one_Inl_iff
        unlock_of_def filter_Nil_find split: if_splits prod.splits sum.splits)
  then show ?thesis using assms(2) e store by cases (auto simp: no_rows_as_def isNoRows_def)
qed

lemma GetTeamScoreTx_Inr [effects]:
  "GetTeamScoreTx t w = (Inr n, w') \<Longrightarrow> store w' = store w \<and> n = team_score (store w) t"
  by (auto simp: GetTeamScoreTx_def sql_tx_Inr_iff sql_Inr_iff sqlc_GetTeamScore_def split: if_splits)

lemma CreateAwardTx_Inr [effects]:
  "CreateAwardTx a w = (Inr x, w') \<Longrightarrow>
     \<exists>row. store w' = (store w)\<lparr>awards := awards (store w) @ [row]\<rparr> \<and>
       awards_id row \<notin> awards_id ` set (awards (store w)) \<and>
       awards_team_id row = award_TeamID a \<and> awards_value row = award_Value a \<and>
       awards_description row = award_Description a \<and> awards_created_by row = award_CreatedBy a \<and>
       team_exists (award_TeamID a) (store w)"
  apply (clarsimp simp: CreateAwardTx_def bindE_Inr_iff sql_tx_Inr_iff sql_Inr_iff sqlc_CreateAward_def
      award_row_def nowE_Inr_iff uuid_New_Inr_iff list_ex_iff split: if_splits)
  apply (rule exI, rule conjI, rule refl)
  apply auto
  done

lemma CreateHintUnlockTx_Inr [effects]:
  "CreateHintUnlockTx t h w = (Inr x, w') \<Longrightarrow> unlock_of (store w) t h = None \<Longrightarrow>
     \<exists>row. store w' = (store w)\<lparr>hint_unlocks := hint_unlocks (store w) @ [row]\<rparr> \<and>
       hint_unlocks_team_id row = t \<and> hint_unlocks_hint_id row = h"
  by (auto simp: CreateHintUnlockTx_def bindE_Inr_iff sql_tx_Inr_iff sql_Inr_iff sqlc_CreateHintUnlock_def
      nowE_Inr_iff uuid_New_Inr_iff list_ex_iff unlock_of_None split: if_splits)

end
