(* ===== verification/CTF_Roster.thy ===== *)
theory CTF_Roster
  imports CTF_RosterFacts
begin

text \<open>
  The abstract roster: who is in which team and who leads which team that is not deleted. Its
  steps (\<open>roster_step\<close>) say what each operation on teams may do to it. The invariants are
  proved here by induction over the steps; \<open>CTF_Teams\<close> proves that the code only makes
  these steps.
\<close>

section \<open>State and steps\<close>

record roster =
  r_team :: "uuid \<Rightarrow> uuid option option"
  r_captain :: "uuid \<Rightarrow> uuid option"

datatype roster_event =
    ERegister uuid
  | ECreate uuid uuid
  | EJoin uuid uuid
  | ELeave uuid
  | ETransfer uuid uuid
  | EDisband uuid
  | EKick uuid uuid
  | EPurge "uuid set"
  | EIdle

definition r_members :: "roster \<Rightarrow> uuid \<Rightarrow> uuid set" where
  "r_members s t = {u. r_team s u = Some (Some t)}"

text \<open>Leaving a team of one's own, of which one is the only member, deletes the team.\<close>

definition drop_team :: "uuid option \<Rightarrow> roster \<Rightarrow> roster" where
  "drop_team old s = (case old of None \<Rightarrow> s | Some t \<Rightarrow> s\<lparr>r_captain := (r_captain s)(t := None)\<rparr>)"

definition may_drop :: "roster \<Rightarrow> uuid \<Rightarrow> uuid option \<Rightarrow> bool" where
  "may_drop s u old \<longleftrightarrow>
     r_team s u = Some old \<and>
     (case old of None \<Rightarrow> True | Some t \<Rightarrow> r_captain s t \<noteq> None \<and> r_members s t = {u})"

inductive roster_step :: "nat \<Rightarrow> roster \<Rightarrow> roster_event \<Rightarrow> roster \<Rightarrow> bool" for n where
  register: "r_team s u = None \<Longrightarrow>
    roster_step n s (ERegister u) (s\<lparr>r_team := (r_team s)(u \<mapsto> None)\<rparr>)"
| create: "may_drop s u old \<Longrightarrow> r_captain s t = None \<Longrightarrow> r_members s t = {} \<Longrightarrow>
    s' = drop_team old s \<Longrightarrow>
    roster_step n s (ECreate u t)
      (s'\<lparr>r_team := (r_team s)(u \<mapsto> Some t), r_captain := (r_captain s')(t \<mapsto> u)\<rparr>)"
| join: "may_drop s u old \<Longrightarrow> r_captain s t \<noteq> None \<Longrightarrow> card (r_members s t) < n \<Longrightarrow>
    s' = drop_team old s \<Longrightarrow>
    roster_step n s (EJoin u t) (s'\<lparr>r_team := (r_team s)(u \<mapsto> Some t)\<rparr>)"
| leave: "r_team s u = Some (Some t) \<Longrightarrow> r_captain s t = Some c \<Longrightarrow> c \<noteq> u \<Longrightarrow>
    roster_step n s (ELeave u) (s\<lparr>r_team := (r_team s)(u \<mapsto> None)\<rparr>)"
| transfer: "r_captain s t = Some c \<Longrightarrow> r_team s u = Some (Some t) \<Longrightarrow>
    roster_step n s (ETransfer c u) (s\<lparr>r_captain := (r_captain s)(t \<mapsto> u)\<rparr>)"
| disband: "r_captain s t = Some c \<Longrightarrow>
    roster_step n s (EDisband c)
      (s\<lparr>r_captain := (r_captain s)(t := None),
         r_team := (\<lambda>u. if r_team s u = Some (Some t) then Some None else r_team s u)\<rparr>)"
| kick: "r_captain s t = Some c \<Longrightarrow> r_team s u = Some (Some t) \<Longrightarrow> u \<noteq> c \<Longrightarrow>
    roster_step n s (EKick c u) (s\<lparr>r_team := (r_team s)(u \<mapsto> None)\<rparr>)"
| purge: "(\<And>t. t \<in> T \<Longrightarrow> r_captain s t = None) \<Longrightarrow>
    roster_step n s (EPurge T)
      (s\<lparr>r_team := (\<lambda>u. case r_team s u of Some (Some t) \<Rightarrow> if t \<in> T then Some None else Some (Some t)
                        | x \<Rightarrow> x)\<rparr>)"
| idle: "roster_step n s EIdle s"

inductive_cases roster_stepE: "roster_step n s e s'"
inductive_simps roster_step_leave_simp: "roster_step n s (ELeave u) s'"
inductive_simps roster_step_join_simp: "roster_step n s (EJoin u t) s'"

section \<open>Invariants\<close>

text \<open>The captain of a team is one of its members.\<close>

definition captains_ok :: "roster \<Rightarrow> bool" where
  "captains_ok s \<longleftrightarrow> (\<forall>t c. r_captain s t = Some c \<longrightarrow> r_team s c = Some (Some t))"

text \<open>No team has more than \<open>max 1 n\<close> members.\<close>

definition sizes_ok :: "nat \<Rightarrow> roster \<Rightarrow> bool" where
  "sizes_ok n s \<longleftrightarrow> (\<forall>t. finite (r_members s t) \<and> card (r_members s t) \<le> max 1 n)"

lemma captains_okD: "captains_ok s \<Longrightarrow> r_captain s t = Some c \<Longrightarrow> r_team s c = Some (Some t)"
  by (auto simp: captains_ok_def)

lemma drop_team_simps [simp]:
  "r_team (drop_team old s) = r_team s"
  "r_captain (drop_team old s) t = (if old = Some t then None else r_captain s t)"
  by (auto simp: drop_team_def split: option.splits)

lemma may_drop_captain:
  assumes "may_drop s u old" "captains_ok s" "r_captain s t = Some u"
  shows "old = Some t"
  using assms by (auto simp: may_drop_def dest: captains_okD)

lemma may_drop_only:
  assumes "may_drop s u (Some t)" "captains_ok s" "r_captain s t = Some c"
  shows "c = u"
  using assms by (auto simp: may_drop_def r_members_def dest!: captains_okD)

lemma captains_ok_step:
  assumes "roster_step n s e s'" and ok: "captains_ok s"
  shows "captains_ok s'"
  using assms(1)
proof cases
  case (create u old t s0)
  show ?thesis unfolding captains_ok_def
  proof (intro allI impI)
    fix t' c assume *: "r_captain s' t' = Some c"
    show "r_team s' c = Some (Some t')"
    proof (cases "t' = t")
      case False
      with * create have c: "r_captain s t' = Some c" "old \<noteq> Some t'" by (auto split: if_splits)
      then have "c \<noteq> u" using may_drop_captain [OF create(3) ok] by auto
      then show ?thesis using create c captains_okD [OF ok] by auto
    qed (use * create in auto)
  qed
next
  case (join u old t s0)
  show ?thesis unfolding captains_ok_def
  proof (intro allI impI)
    fix t' c assume "r_captain s' t' = Some c"
    with join have c: "r_captain s t' = Some c" "old \<noteq> Some t'" by (auto split: if_splits)
    then have "c \<noteq> u" using may_drop_captain [OF join(3) ok] by auto
    then show "r_team s' c = Some (Some t')" using join c captains_okD [OF ok] by auto
  qed
next
  case (leave u t c)
  then show ?thesis using captains_okD [OF ok] by (fastforce simp: captains_ok_def)
next
  case (kick t c u)
  then show ?thesis using captains_okD [OF ok] by (fastforce simp: captains_ok_def)
next
  case (disband t c)
  then show ?thesis using captains_okD [OF ok] by (fastforce simp: captains_ok_def)
next
  case (purge T)
  then show ?thesis using captains_okD [OF ok] by (fastforce simp: captains_ok_def split: if_splits)
next
  case (register u)
  then show ?thesis using captains_okD [OF ok] by (fastforce simp: captains_ok_def)
qed (use ok in \<open>auto simp: captains_ok_def\<close>)

text \<open>Only joining and creating add a member, one at a time.\<close>

lemma r_members_upd:
  "r_members (s\<lparr>r_team := (r_team s)(u \<mapsto> x)\<rparr>) t =
     (if x = Some t then insert u (r_members s t) else r_members s t - {u})"
  by (auto simp: r_members_def)

lemma r_members_shrink:
  assumes "\<And>u. r_team s' u = Some (Some t) \<Longrightarrow> r_team s u = Some (Some t)" "sizes_ok n s"
  shows "finite (r_members s' t) \<and> card (r_members s' t) \<le> max 1 n"
proof -
  have "r_members s' t \<subseteq> r_members s t" using assms(1) by (auto simp: r_members_def)
  then show ?thesis using assms(2) card_mono [of "r_members s t" "r_members s' t"]
    by (auto simp: sizes_ok_def intro: finite_subset le_trans)
qed

lemma r_members_grow:
  assumes "\<And>v. v \<noteq> u \<Longrightarrow> r_team s' v = r_team s v" "r_team s' u = Some (Some t)" "sizes_ok n s"
    and "card (r_members s t) < max 1 n"
  shows "finite (r_members s' t') \<and> card (r_members s' t') \<le> max 1 n"
proof (cases "t' = t")
  case True
  have "r_members s' t = insert u (r_members s t)"
    using assms(1,2) by (auto simp: r_members_def) (metis)
  then show ?thesis using assms(3,4) True by (auto simp: sizes_ok_def card_insert_if)
next
  case False
  then show ?thesis
    by (intro r_members_shrink [OF _ assms(3)])
      (metis assms(1) assms(2) option.inject)
qed

lemma sizes_ok_step:
  assumes "roster_step n s e s'" and ok: "sizes_ok n s"
  shows "sizes_ok n s'"
  unfolding sizes_ok_def
proof
  fix t0
  show "finite (r_members s' t0) \<and> card (r_members s' t0) \<le> max 1 n"
    using assms(1)
  proof cases
    case (create u old t s0)
    then show ?thesis by (intro r_members_grow [of u s' s t n t0] ok) auto
  next
    case (join u old t s0)
    then show ?thesis by (intro r_members_grow [of u s' s t n t0] ok) auto
  qed (rule r_members_shrink [OF _ ok]; auto split: if_splits option.splits)+
qed

section \<open>Runs\<close>

inductive roster_reach :: "nat \<Rightarrow> roster \<Rightarrow> roster \<Rightarrow> bool" for n where
  start: "roster_reach n s s"
| more: "roster_reach n s s' \<Longrightarrow> roster_step n s' e s'' \<Longrightarrow> roster_reach n s s''"

lemma roster_reach_trans: "roster_reach n s' s'' \<Longrightarrow> roster_reach n s s' \<Longrightarrow> roster_reach n s s''"
  by (induction rule: roster_reach.induct) (auto intro: roster_reach.more)

lemma roster_reach_invariant:
  assumes "roster_reach n s s'" "captains_ok s" "sizes_ok n s"
  shows "captains_ok s' \<and> sizes_ok n s'"
  using assms by induction (auto intro: captains_ok_step sizes_ok_step)

section \<open>The roster of a database\<close>

definition roster_of :: "db \<Rightarrow> roster" where
  "roster_of d = \<lparr>r_team = (\<lambda>u. map_option users_team_id (user_row d u)),
     r_captain = (\<lambda>t. map_option teams_captain_id (live_team d t))\<rparr>"

lemma roster_of_simps [simp]:
  "r_team (roster_of d) u = map_option users_team_id (user_row d u)"
  "r_captain (roster_of d) t = map_option teams_captain_id (live_team d t)"
  by (simp_all add: roster_of_def)

lemma user_row_upd_team:
  "user_row (d\<lparr>users := upd_where (\<lambda>r. users_id r = u) (\<lambda>r. r\<lparr>users_team_id := t\<rparr>) (users d)\<rparr>) v =
     (if v = u then map_option (\<lambda>r. r\<lparr>users_team_id := t\<rparr>) (user_row d v) else user_row d v)"
  by (simp add: user_row_def find_upd_where)

lemma live_team_soft_delete:
  "find (\<lambda>r. teams_id r = i \<and> live r)
     (upd_where (\<lambda>r. teams_id r = t \<and> live r) (\<lambda>r. r\<lparr>teams_deleted_at := Some now\<rparr>) rows) =
     (if i = t then None else find (\<lambda>r. teams_id r = i \<and> live r) rows)"
  by (rule find_upd_where_sub) auto

lemma live_team_captain:
  "find (\<lambda>r. teams_id r = i \<and> live r)
     (upd_where (\<lambda>r. teams_id r = t) (\<lambda>r. r\<lparr>teams_captain_id := c\<rparr>) rows) =
     (if i = t then map_option (\<lambda>r. r\<lparr>teams_captain_id := c\<rparr>) (find (\<lambda>r. teams_id r = i \<and> live r) rows)
      else find (\<lambda>r. teams_id r = i \<and> live r) rows)"
  by (induction rows) auto

end
