(* ===== verification/CTF_TeamOps.thy ===== *)
theory CTF_TeamOps
  imports CTF_ScoreRepo
begin

text \<open>
  \<open>TeamUseCase\<close> of \<open>usecase/team/team.go\<close>, method by method, and \<open>AwardUseCase\<close>. The
  repositories are the ones of the model; of the struct the fields that vary are kept: the
  maximal size of a team and the scoreboard cache, which may be nil. Reads on the pool inside a
  transaction come before the transaction's first write, so one database serves both.
\<close>

section \<open>The use case\<close>

abbreviation DefaultMaxTeamSize :: int where
  "DefaultMaxTeamSize \<equiv> 10"

record team_uc =
  tu_scoreboardCache :: "scoreboard_cache option"
  tu_maxTeamSize :: int

definition NewTeamUseCase :: "scoreboard_cache option \<Rightarrow> team_uc" where
  "NewTeamUseCase sc = \<lparr>tu_scoreboardCache = sc, tu_maxTeamSize = DefaultMaxTeamSize\<rparr>"

definition NewTeamUseCaseWithSize :: "scoreboard_cache option \<Rightarrow> int \<Rightarrow> team_uc" where
  "NewTeamUseCaseWithSize sc maxTeamSize = \<lparr>tu_scoreboardCache = sc, tu_maxTeamSize = maxTeamSize\<rparr>"

definition invalidateScoreboardCache :: "team_uc \<Rightarrow> unit op" where
  "invalidateScoreboardCache uc =
     (case tu_scoreboardCache uc of None \<Rightarrow> returnE () | Some sc \<Rightarrow> InvalidateAll sc)"

text \<open>A team as the code builds it, before the database fills in the rest.\<close>

definition new_team :: "string \<Rightarrow> uuid \<Rightarrow> uuid \<Rightarrow> bool \<Rightarrow> team" where
  "new_team name token captain solo = \<lparr>team_ID = 0, team_Name = name, team_InviteToken = token,
     team_CaptainID = captain, team_BracketID = None, team_IsSolo = solo,
     team_IsAutoCreated = False, team_IsBanned = False, team_BannedAt = None,
     team_BannedReason = None, team_IsHidden = False, team_CreatedAt = 0\<rparr>"

section \<open>Leaving a solo team behind\<close>

definition shouldCleanupSoloTeam :: "user \<Rightarrow> user list \<Rightarrow> team \<Rightarrow> bool" where
  "shouldCleanupSoloTeam user members oldTeam =
     (length members = 1 \<and> user_ID (members ! 0) = user_ID user \<and>
      (team_IsSolo oldTeam \<or> team_IsAutoCreated oldTeam))"

text \<open>Called with \<open>user.TeamID\<close> not nil; \<open>teamID\<close> is what it points to.\<close>

definition handleSoloTeamCleanup :: "user \<Rightarrow> uuid \<Rightarrow> uuid \<Rightarrow> bool \<Rightarrow> unit op" where
  "handleSoloTeamCleanup user teamID actorID confirmReset =
     bindE (mapErr (wrap ''GetTeamByIDTx'') (GetTeamByIDTx teamID)) (\<lambda>oldTeam.
     bindE (mapErr (wrap ''GetUsersByTeamIDTx'') (GetUsersByTeamIDTx teamID)) (\<lambda>members.
     bindE (failIf (\<not> shouldCleanupSoloTeam user members oldTeam) (Sentinel ErrUserAlreadyInTeam)) (\<lambda>_.
     bindE (failIf (\<not> confirmReset) (Sentinel ErrConfirmationRequired)) (\<lambda>_.
     bindE (mapErr (wrap ''SoftDeleteTeamTx'') (SoftDeleteTeamTx teamID)) (\<lambda>_.
     bindE (mapErr (wrap ''DeleteSolvesByTeamIDTx'') (DeleteSolvesByTeamIDTx teamID)) (\<lambda>_.
     mapErr (wrap ''CreateTeamAuditLogTx'')
       (CreateTeamAuditLogTx teamID actorID TeamActionDeleted
          [(''reason'', JStr ''solo_team_cleanup'')])))))))"

section \<open>Create\<close>

definition validateTeamNameAvailableTx :: "string \<Rightarrow> unit op" where
  "validateTeamNameAvailableTx name =
     bindE (tryE (GetTeamByNameTx name)) (\<lambda>r. case r of
       Inr _ \<Rightarrow> throwE (Wrapf '''' (Sentinel ErrTeamAlreadyExists) '': name'')
     | Inl e \<Rightarrow>
         if \<not> is_sentinel e ErrTeamNotFound then throwE (wrap ''GetTeamByNameTx'' e)
         else returnE ())"

definition createTx :: "string \<Rightarrow> uuid \<Rightarrow> bool \<Rightarrow> bool \<Rightarrow> team op" where
  "createTx name captainID isSolo confirmReset =
     bindE (mapErr (wrap ''LockUserTx'') (LockUserTx captainID)) (\<lambda>_.
     bindE (validateTeamNameAvailableTx name) (\<lambda>_.
     bindE (mapErr (wrap ''GetByID'') (UserRepo_GetByID captainID)) (\<lambda>user.
     bindE (case user_TeamID user of None \<Rightarrow> returnE ()
            | Some t \<Rightarrow> handleSoloTeamCleanup user t captainID confirmReset) (\<lambda>_.
     bindE uuid_New (\<lambda>token.
     bindE (mapErr (wrap ''CreateTeamTx'') (CreateTeamTx (new_team name token captainID isSolo))) (\<lambda>team.
     bindE (mapErr (wrap ''UpdateUserTeamIDTx'') (UpdateUserTeamIDTx captainID (Some (team_ID team)))) (\<lambda>_.
     bindE (mapErr (wrap ''CreateTeamAuditLogTx'')
       (CreateTeamAuditLogTx (team_ID team) captainID TeamActionCreated [])) (\<lambda>_.
     returnE team))))))))"

definition Team_Create :: "string \<Rightarrow> uuid \<Rightarrow> bool \<Rightarrow> bool \<Rightarrow> team op" where
  "Team_Create name captainID isSolo confirmReset =
     bindE (mapErr (wrap ''TeamUseCase - Create - Guard'') Guard_RequireTeamSwitchAndTeamsMode) (\<lambda>_.
     mapErr (wrap ''TeamUseCase - Create - Transaction'')
       (run_transaction (createTx name captainID isSolo confirmReset)))"

datatype confirm_reason = ConfirmReasonNone | ConfirmReasonSoloTeamReset | ConfirmReasonProgressLoss

record affected_data =
  aff_SolveCount :: int
  aff_Points :: int

record operation_result =
  res_Team :: "team option"
  res_RequiresConfirm :: bool
  res_ConfirmationReason :: confirm_reason
  res_AffectedData :: "affected_data option"

definition tryCreateWhenInTeam :: "user \<Rightarrow> uuid \<Rightarrow> uuid \<Rightarrow> operation_result op" where
  "tryCreateWhenInTeam user teamID captainID =
     run_transaction (
       bindE (LockUserTx captainID) (\<lambda>_.
       bindE (mapErr (wrap ''GetTeamByIDTx'') (GetTeamByIDTx teamID)) (\<lambda>oldTeam.
       bindE (mapErr (wrap ''GetUsersByTeamIDTx'') (GetUsersByTeamIDTx teamID)) (\<lambda>members.
       bindE (failIf (\<not> shouldCleanupSoloTeam user members oldTeam) (Sentinel ErrUserAlreadyInTeam)) (\<lambda>_.
       bindE (mapErr (wrap ''GetTeamScoreTx'') (GetTeamScoreTx teamID)) (\<lambda>points.
       returnE \<lparr>res_Team = None, res_RequiresConfirm = True,
         res_ConfirmationReason = ConfirmReasonSoloTeamReset,
         res_AffectedData = Some \<lparr>aff_SolveCount = 0, aff_Points = points\<rparr>\<rparr>))))))"

definition Team_TryCreate :: "string \<Rightarrow> uuid \<Rightarrow> bool \<Rightarrow> operation_result op" where
  "Team_TryCreate name captainID isSolo =
     bindE (mapErr (wrap ''TeamUseCase - TryCreate - Guard'') Guard_RequireTeamSwitchAndTeamsMode) (\<lambda>_.
     bindE (mapErr (wrap ''TeamUseCase - TryCreate - GetByID'') (UserRepo_GetByID captainID)) (\<lambda>user.
     case user_TeamID user of
       None \<Rightarrow>
         bindE (Team_Create name captainID isSolo False) (\<lambda>team.
         returnE \<lparr>res_Team = Some team, res_RequiresConfirm = False,
           res_ConfirmationReason = ConfirmReasonNone, res_AffectedData = None\<rparr>)
     | Some t \<Rightarrow> tryCreateWhenInTeam user t captainID))"

definition Team_ConfirmCreate :: "string \<Rightarrow> uuid \<Rightarrow> bool \<Rightarrow> team op" where
  "Team_ConfirmCreate name captainID isSolo = Team_Create name captainID isSolo True"

section \<open>Join\<close>

definition joinTx :: "team_uc \<Rightarrow> uuid \<Rightarrow> uuid \<Rightarrow> bool \<Rightarrow> team op" where
  "joinTx uc inviteToken userID confirmReset =
     bindE (mapErr (wrap ''LockUserTx'') (LockUserTx userID)) (\<lambda>_.
     bindE (mapErr (wrap ''GetTeamByInviteTokenTx'') (GetTeamByInviteTokenTx inviteToken)) (\<lambda>team.
     bindE (mapErr (wrap ''LockTeamTx'') (LockTeamTx (team_ID team))) (\<lambda>_.
     bindE (mapErr (wrap ''GetUsersByTeamIDTx target'') (GetUsersByTeamIDTx (team_ID team))) (\<lambda>members.
     bindE (failIf (int (length members) \<ge> tu_maxTeamSize uc) (Sentinel ErrTeamFull)) (\<lambda>_.
     bindE (mapErr (wrap ''GetByID'') (UserRepo_GetByID userID)) (\<lambda>user.
     bindE (case user_TeamID user of None \<Rightarrow> returnE ()
            | Some t \<Rightarrow> handleSoloTeamCleanup user t userID confirmReset) (\<lambda>_.
     bindE (mapErr (wrap ''UpdateUserTeamIDTx'') (UpdateUserTeamIDTx userID (Some (team_ID team)))) (\<lambda>_.
     bindE (mapErr (wrap ''CreateTeamAuditLogTx'')
       (CreateTeamAuditLogTx (team_ID team) userID TeamActionJoined [])) (\<lambda>_.
     returnE team)))))))))"

definition Team_Join :: "team_uc \<Rightarrow> uuid \<Rightarrow> uuid \<Rightarrow> bool \<Rightarrow> team op" where
  "Team_Join uc inviteToken userID confirmReset =
     bindE (mapErr (wrap ''TeamUseCase - Join - Guard'') Guard_RequireTeamSwitch) (\<lambda>_.
     mapErr (wrap ''TeamUseCase - Join - Transaction'')
       (run_transaction (joinTx uc inviteToken userID confirmReset)))"

section \<open>Leave\<close>

text \<open>
  The three \<open>Prepare\<close> steps begin alike: lock the caller, read it, lock its team and read the
  team on the pool.
\<close>

definition leavePrepare :: "uuid \<Rightarrow> (user \<times> team \<times> user list) op" where
  "leavePrepare userID =
     bindE (mapErr (wrap ''LockUserTx'') (LockUserTx userID)) (\<lambda>_.
     bindE (mapErr (wrap ''GetByID'') (UserRepo_GetByID userID)) (\<lambda>user.
     case user_TeamID user of None \<Rightarrow> throwE (Sentinel ErrTeamNotFound)
     | Some t \<Rightarrow>
     bindE (mapErr (wrap ''LockTeamTx'') (LockTeamTx t)) (\<lambda>_.
     bindE (mapErr (wrap ''GetByID team'') (TeamRepo_GetByID t)) (\<lambda>team.
     bindE (mapErr (wrap ''GetUsersByTeamIDTx'') (GetUsersByTeamIDTx t)) (\<lambda>members.
     returnE (user, team, members))))))"

definition leaveValidate :: "user \<Rightarrow> team \<Rightarrow> user list \<Rightarrow> unit op" where
  "leaveValidate user team members =
     bindE (failIf (length members = 1) (Sentinel ErrCannotLeaveAsOnlyMember)) (\<lambda>_.
     failIf (team_CaptainID team = user_ID user) (Sentinel ErrNotCaptain))"

definition leaveExecute :: "uuid \<Rightarrow> team \<Rightarrow> unit op" where
  "leaveExecute userID team =
     bindE (mapErr (wrap ''UpdateUserTeamIDTx'') (UpdateUserTeamIDTx userID None)) (\<lambda>_.
     mapErr (wrap ''CreateTeamAuditLogTx'')
       (CreateTeamAuditLogTx (team_ID team) userID TeamActionLeft []))"

definition leaveTx :: "uuid \<Rightarrow> unit op" where
  "leaveTx userID =
     bindE (leavePrepare userID) (\<lambda>(user, team, members).
     bindE (leaveValidate user team members) (\<lambda>_.
     leaveExecute userID team))"

definition Team_Leave :: "uuid \<Rightarrow> unit op" where
  "Team_Leave userID =
     bindE (mapErr (wrap ''TeamUseCase - Leave - Guard'') Guard_RequireTeamSwitch) (\<lambda>_.
     run_transaction (leaveTx userID))"

section \<open>TransferCaptain\<close>

definition transferCaptainPrepare :: "uuid \<Rightarrow> uuid \<Rightarrow> (user \<times> team \<times> user) op" where
  "transferCaptainPrepare captainID newCaptainID =
     bindE (mapErr (wrap ''LockUserTx captain'') (LockUserTx captainID)) (\<lambda>_.
     bindE (mapErr (wrap ''GetByID captain'') (UserRepo_GetByID captainID)) (\<lambda>captain.
     case user_TeamID captain of None \<Rightarrow> throwE (Sentinel ErrTeamNotFound)
     | Some t \<Rightarrow>
     bindE (mapErr (wrap ''LockTeamTx'') (LockTeamTx t)) (\<lambda>_.
     bindE (mapErr (wrap ''GetByID team'') (TeamRepo_GetByID t)) (\<lambda>team.
     bindE (mapErr (wrap ''GetByID newCaptain'') (UserRepo_GetByID newCaptainID)) (\<lambda>newCaptain.
     returnE (captain, team, newCaptain))))))"

definition transferCaptainValidate :: "team \<Rightarrow> user \<Rightarrow> uuid \<Rightarrow> unit op" where
  "transferCaptainValidate team newCaptain captainID =
     bindE (failIf (team_CaptainID team \<noteq> captainID) (Sentinel ErrNotCaptain)) (\<lambda>_.
     failIf (user_TeamID newCaptain \<noteq> Some (team_ID team)) (Sentinel ErrNewCaptainNotInTeam))"

definition transferCaptainExecute :: "uuid \<Rightarrow> uuid \<Rightarrow> team \<Rightarrow> unit op" where
  "transferCaptainExecute captainID newCaptainID team =
     bindE (mapErr (wrap ''UpdateTeamCaptainTx'') (UpdateTeamCaptainTx (team_ID team) newCaptainID)) (\<lambda>_.
     mapErr (wrap ''CreateTeamAuditLogTx'')
       (CreateTeamAuditLogTx (team_ID team) captainID TeamActionCaptainTransfer
          [(''from'', JUuid captainID), (''to'', JUuid newCaptainID)]))"

definition transferCaptainTx :: "uuid \<Rightarrow> uuid \<Rightarrow> unit op" where
  "transferCaptainTx captainID newCaptainID =
     bindE (transferCaptainPrepare captainID newCaptainID) (\<lambda>(captain, team, newCaptain).
     bindE (transferCaptainValidate team newCaptain captainID) (\<lambda>_.
     transferCaptainExecute captainID newCaptainID team))"

definition Team_TransferCaptain :: "uuid \<Rightarrow> uuid \<Rightarrow> unit op" where
  "Team_TransferCaptain captainID newCaptainID =
     bindE (mapErr (wrap ''TeamUseCase - TransferCaptain - Guard'') Guard_RequireTeamSwitch) (\<lambda>_.
     bindE (failIf (captainID = newCaptainID) (Sentinel ErrCannotTransferToSelf)) (\<lambda>_.
     run_transaction (transferCaptainTx captainID newCaptainID)))"

section \<open>Reads\<close>

definition Team_GetByID :: "uuid \<Rightarrow> team op" where
  "Team_GetByID ID = mapErr (wrap ''TeamUseCase - GetByID'') (TeamRepo_GetByID ID)"

definition Team_GetMyTeam :: "uuid \<Rightarrow> (team \<times> user list) op" where
  "Team_GetMyTeam userID =
     bindE (mapErr (wrap ''TeamUseCase - GetMyTeam - GetByID'') (UserRepo_GetByID userID)) (\<lambda>user.
     case user_TeamID user of None \<Rightarrow> throwE (Sentinel ErrTeamNotFound)
     | Some t \<Rightarrow>
     bindE (mapErr (wrap ''TeamUseCase - GetMyTeam - GetByID'') (TeamRepo_GetByID t)) (\<lambda>team.
     bindE (mapErr (wrap ''TeamUseCase - GetMyTeam - GetByTeamID'') (UserRepo_GetByTeamID t)) (\<lambda>members.
     returnE (team, members))))"

definition Team_GetTeamMembers :: "uuid \<Rightarrow> user list op" where
  "Team_GetTeamMembers teamID =
     mapErr (wrap ''TeamUseCase - GetTeamMembers'') (UserRepo_GetByTeamID teamID)"

section \<open>CreateSoloTeam\<close>

definition createSoloTeamTx :: "uuid \<Rightarrow> bool \<Rightarrow> team op" where
  "createSoloTeamTx userID confirmReset =
     bindE (mapErr (wrap ''LockUserTx'') (LockUserTx userID)) (\<lambda>_.
     bindE (mapErr (wrap ''GetByID'') (UserRepo_GetByID userID)) (\<lambda>user.
     bindE (case user_TeamID user of None \<Rightarrow> returnE ()
            | Some t \<Rightarrow> handleSoloTeamCleanup user t userID confirmReset) (\<lambda>_.
     bindE uuid_New (\<lambda>token.
     bindE (tryE (GetTeamByNameTx (user_Username user))) (\<lambda>r.
     let name = (case r of Inr _ \<Rightarrow> user_Username user @ '' (Solo)'' | Inl _ \<Rightarrow> user_Username user) in
     bindE (mapErr (wrap ''CreateTeamTx'') (CreateTeamTx (new_team name token userID True))) (\<lambda>team.
     bindE (mapErr (wrap ''UpdateUserTeamIDTx'') (UpdateUserTeamIDTx userID (Some (team_ID team)))) (\<lambda>_.
     bindE (mapErr (wrap ''CreateTeamAuditLogTx'')
       (CreateTeamAuditLogTx (team_ID team) userID TeamActionCreated [(''mode'', JStr ''solo'')])) (\<lambda>_.
     returnE team))))))))"

definition Team_CreateSoloTeam :: "uuid \<Rightarrow> bool \<Rightarrow> team op" where
  "Team_CreateSoloTeam userID confirmReset =
     bindE (mapErr (wrap ''TeamUseCase - CreateSoloTeam - Guard'') Guard_RequireTeamSwitchAndSoloMode) (\<lambda>_.
     mapErr (wrap ''TeamUseCase - CreateSoloTeam - Transaction'')
       (run_transaction (createSoloTeamTx userID confirmReset)))"

section \<open>DisbandTeam\<close>

definition disbandPrepare :: "uuid \<Rightarrow> (user \<times> team \<times> user list) op" where
  "disbandPrepare captainID =
     bindE (mapErr (wrap ''LockUserTx'') (LockUserTx captainID)) (\<lambda>_.
     bindE (mapErr (wrap ''GetByID'') (UserRepo_GetByID captainID)) (\<lambda>user.
     case user_TeamID user of None \<Rightarrow> throwE (Sentinel ErrTeamNotFound)
     | Some t \<Rightarrow>
     bindE (mapErr (wrap ''LockTeamTx'') (LockTeamTx t)) (\<lambda>_.
     bindE (mapErr (wrap ''GetByID team'') (TeamRepo_GetByID t)) (\<lambda>team.
     bindE (mapErr (wrap ''GetUsersByTeamIDTx'') (GetUsersByTeamIDTx (team_ID team))) (\<lambda>members.
     returnE (user, team, members))))))"

definition disbandValidate :: "team \<Rightarrow> uuid \<Rightarrow> unit op" where
  "disbandValidate team captainID =
     failIf (team_CaptainID team \<noteq> captainID) (Sentinel ErrNotCaptain)"

text \<open>The wrapping names the member by its id; the id is left out of the text.\<close>

definition disbandExecute :: "team \<Rightarrow> user list \<Rightarrow> uuid \<Rightarrow> unit op" where
  "disbandExecute team members captainID =
     bindE (mapErr (wrap ''SoftDeleteTeamTx'') (SoftDeleteTeamTx (team_ID team))) (\<lambda>_.
     bindE (forE members (\<lambda>member.
       mapErr (wrap ''UpdateUserTeamIDTx member'') (UpdateUserTeamIDTx (user_ID member) None))) (\<lambda>_.
     CreateTeamAuditLogTx (team_ID team) captainID TeamActionDeleted
       [(''reason'', JStr ''disbanded_by_captain'')]))"

definition disbandTeamTx :: "uuid \<Rightarrow> unit op" where
  "disbandTeamTx captainID =
     bindE (disbandPrepare captainID) (\<lambda>(user, team, members).
     bindE (disbandValidate team captainID) (\<lambda>_.
     disbandExecute team members captainID))"

definition Team_DisbandTeam :: "uuid \<Rightarrow> unit op" where
  "Team_DisbandTeam captainID =
     bindE (mapErr (wrap ''TeamUseCase - DisbandTeam - Guard'') Guard_RequireTeamSwitch) (\<lambda>_.
     run_transaction (disbandTeamTx captainID))"

section \<open>KickMember\<close>

definition kickMemberPrepare :: "uuid \<Rightarrow> uuid \<Rightarrow> (user \<times> team \<times> user) op" where
  "kickMemberPrepare captainID targetUserID =
     bindE (mapErr (wrap ''LockUserTx captain'') (LockUserTx captainID)) (\<lambda>_.
     bindE (mapErr (wrap ''GetByID captain'') (UserRepo_GetByID captainID)) (\<lambda>captain.
     case user_TeamID captain of None \<Rightarrow> throwE (Sentinel ErrTeamNotFound)
     | Some t \<Rightarrow>
     bindE (mapErr (wrap ''LockTeamTx'') (LockTeamTx t)) (\<lambda>_.
     bindE (mapErr (wrap ''GetByID team'') (TeamRepo_GetByID t)) (\<lambda>team.
     bindE (mapErr (wrap ''GetByID target'') (UserRepo_GetByID targetUserID)) (\<lambda>targetUser.
     returnE (captain, team, targetUser))))))"

definition kickMemberValidate :: "team \<Rightarrow> user \<Rightarrow> uuid \<Rightarrow> unit op" where
  "kickMemberValidate team targetUser captainID =
     bindE (failIf (team_CaptainID team \<noteq> captainID) (Sentinel ErrNotCaptain)) (\<lambda>_.
     failIf (user_TeamID targetUser \<noteq> Some (team_ID team)) (Sentinel ErrUserNotFound))"

definition kickMemberExecute :: "uuid \<Rightarrow> uuid \<Rightarrow> uuid \<Rightarrow> unit op" where
  "kickMemberExecute teamID captainID targetUserID =
     bindE (mapErr (wrap ''UpdateUserTeamIDTx'') (UpdateUserTeamIDTx targetUserID None)) (\<lambda>_.
     CreateTeamAuditLogTx teamID captainID TeamActionMemberKicked
       [(''target_user_id'', JUuid targetUserID)])"

definition kickMemberTx :: "uuid \<Rightarrow> uuid \<Rightarrow> unit op" where
  "kickMemberTx captainID targetUserID =
     bindE (kickMemberPrepare captainID targetUserID) (\<lambda>(captain, team, targetUser).
     bindE (kickMemberValidate team targetUser captainID) (\<lambda>_.
     kickMemberExecute (team_ID team) captainID targetUserID))"

definition Team_KickMember :: "uuid \<Rightarrow> uuid \<Rightarrow> unit op" where
  "Team_KickMember captainID targetUserID =
     bindE (mapErr (wrap ''TeamUseCase - KickMember - Guard'') Guard_RequireTeamSwitch) (\<lambda>_.
     bindE (failIf (captainID = targetUserID) (Sentinel ErrCannotLeaveAsOnlyMember)) (\<lambda>_.
     run_transaction (kickMemberTx captainID targetUserID)))"

section \<open>Administration\<close>

definition Team_BanTeam :: "team_uc \<Rightarrow> uuid \<Rightarrow> string \<Rightarrow> unit op" where
  "Team_BanTeam uc teamID reason =
     bindE (mapErr (wrap ''TeamUseCase - BanTeam - GetByID'') (TeamRepo_GetByID teamID)) (\<lambda>_.
     bindE (mapErr (wrap ''TeamUseCase - BanTeam - Ban'') (TeamRepo_Ban teamID reason)) (\<lambda>_.
     invalidateScoreboardCache uc))"

definition Team_UnbanTeam :: "team_uc \<Rightarrow> uuid \<Rightarrow> unit op" where
  "Team_UnbanTeam uc teamID =
     bindE (mapErr (wrap ''TeamUseCase - UnbanTeam - GetByID'') (TeamRepo_GetByID teamID)) (\<lambda>_.
     bindE (mapErr (wrap ''TeamUseCase - UnbanTeam - Unban'') (TeamRepo_Unban teamID)) (\<lambda>_.
     invalidateScoreboardCache uc))"

definition Team_SetHidden :: "team_uc \<Rightarrow> uuid \<Rightarrow> bool \<Rightarrow> unit op" where
  "Team_SetHidden uc teamID hidden =
     bindE (mapErr (wrap ''TeamUseCase - SetHidden - GetByID'') (TeamRepo_GetByID teamID)) (\<lambda>_.
     bindE (mapErr (wrap ''TeamUseCase - SetHidden - SetHidden'') (TeamRepo_SetHidden teamID hidden)) (\<lambda>_.
     invalidateScoreboardCache uc))"

definition Team_SetBracket :: "team_uc \<Rightarrow> uuid \<Rightarrow> uuid option \<Rightarrow> unit op" where
  "Team_SetBracket uc teamID bracketID =
     bindE (mapErr (wrap ''TeamUseCase - SetBracket - GetByID'') (TeamRepo_GetByID teamID)) (\<lambda>_.
     bindE (mapErr (wrap ''TeamUseCase - SetBracket'') (TeamRepo_SetBracket teamID bracketID)) (\<lambda>_.
     invalidateScoreboardCache uc))"

section \<open>AwardUseCase\<close>

definition Award_Create ::
  "scoreboard_cache option \<Rightarrow> uuid \<Rightarrow> int \<Rightarrow> string \<Rightarrow> uuid \<Rightarrow> award op" where
  "Award_Create sc teamID v description createdBy =
     bindE (failIf (v = 0) (Plain ''AwardUseCase - Create: value cannot be 0'')) (\<lambda>_.
     bindE (mapErr (wrap ''AwardUseCase - Create'')
       (run_transaction (CreateAwardTx \<lparr>award_ID = 0, award_TeamID = teamID, award_Value = v,
          award_Description = description, award_CreatedBy = Some createdBy, award_CreatedAt = 0\<rparr>))) (\<lambda>award.
     bindE (case sc of None \<Rightarrow> returnE () | Some s \<Rightarrow> InvalidateAll s) (\<lambda>_.
     returnE award)))"

definition Award_GetByTeamID :: "uuid \<Rightarrow> award list op" where
  "Award_GetByTeamID teamID = mapErr (wrap ''AwardUseCase - GetByTeamID'') (AwardRepo_GetByTeamID teamID)"

end
