(* ===== verification/CTF_TeamStore.thy ===== *)
theory CTF_TeamStore
  imports CTF_Roster CTF_TeamOps
begin

text \<open>
  The interface between the team use case and the tables: the locale \<open>team_store\<close> lists the
  statements \<open>TeamUseCase\<close> issues and assumes that each keeps a predicate of the database;
  inside it every method of the use case is shown to keep it, whatever fails on the way. It is
  interpreted for the constraints of the schema and for the tables that teams must not touch.
\<close>

section \<open>The interface\<close>

locale team_store =
  fixes J :: "db \<Rightarrow> bool"
  assumes user_team: "keeps J (sqlc_UpdateUserTeamID u ti)"
    and team_insert: "keeps J (teams_insert r)"
    and team_delete: "keeps J (sqlc_SoftDeleteTeam now t)"
    and team_captain: "keeps J (set_team_captain t c)"
    and team_ban: "keeps J (sqlc_BanTeam t bat reason)"
    and team_unban: "keeps J (sqlc_UnbanTeam t)"
    and team_hidden: "keeps J (sqlc_SetTeamHidden t h)"
    and team_bracket: "keeps J (sqlc_SetTeamBracket t b)"
    and solves_delete: "keeps J (sqlc_DeleteSolvesByTeamID t)"
    and audit_insert: "keeps J (team_audit_log_insert l)"
begin

lemmas statements = user_team team_insert team_delete team_captain team_ban team_unban
  team_hidden team_bracket solves_delete audit_insert

lemma reads:
  "db_keeps J (UserRepo_GetByID u)" "db_keeps J (TeamRepo_GetByID t)" "db_keeps J (LockUserTx u)"
  "db_keeps J (LockTeamTx t)" "db_keeps J (GetTeamByIDTx t)" "db_keeps J (GetTeamByNameTx name)"
  "db_keeps J (GetTeamByInviteTokenTx tok)" "db_keeps J (GetUsersByTeamIDTx t)"
  "db_keeps J CompetitionRepo_Get" "db_keeps J (UserRepo_GetByTeamID t)" "db_keeps J (GetTeamScoreTx t)"
  unfolding UserRepo_GetByID_def TeamRepo_GetByID_def LockUserTx_def LockTeamTx_def GetTeamByIDTx_def
    GetTeamByNameTx_def GetTeamByInviteTokenTx_def GetUsersByTeamIDTx_def CompetitionRepo_Get_def
    UserRepo_GetByTeamID_def GetTeamScoreTx_def sqlc_GetUserByID_def sqlc_GetTeamByID_def lock_user_def
    lock_team_def sqlc_GetTeamByName_def sqlc_GetTeamByInviteToken_def sqlc_ListUsersByTeamID_def
    sqlc_GetCompetition_def
  by (intro valid_rules keepsI; auto simp: sqlc_GetTeamScore_def split: if_splits)+

lemma writes:
  "db_keeps J (UpdateUserTeamIDTx u ti)" "db_keeps J (CreateTeamTx tm)" "db_keeps J (SoftDeleteTeamTx t)"
  "db_keeps J (UpdateTeamCaptainTx t c)" "db_keeps J (CreateTeamAuditLogTx t u a det)"
  "db_keeps J (DeleteSolvesByTeamIDTx t)" "db_keeps J (TeamRepo_Ban t reason)"
  "db_keeps J (TeamRepo_Unban t)" "db_keeps J (TeamRepo_SetHidden t h)" "db_keeps J (TeamRepo_SetBracket t b)"
  unfolding UpdateUserTeamIDTx_def CreateTeamTx_def SoftDeleteTeamTx_def UpdateTeamCaptainTx_def
    CreateTeamAuditLogTx_def DeleteSolvesByTeamIDTx_def TeamRepo_Ban_def TeamRepo_Unban_def
    TeamRepo_SetHidden_def TeamRepo_SetBracket_def sqlc_CreateTeamReturningID_def
  by (intro valid_rules statements)+

lemmas methods = valid_rules reads writes

lemma guards:
  "db_keeps J Guard_RequireTeamSwitch" "db_keeps J Guard_RequireTeamSwitchAndTeamsMode"
  "db_keeps J Guard_RequireTeamSwitchAndSoloMode"
  unfolding Guard_RequireTeamSwitch_def Guard_RequireTeamSwitchAndTeamsMode_def
    Guard_RequireTeamSwitchAndSoloMode_def
  by (intro methods)+

lemma cleanup: "db_keeps J (handleSoloTeamCleanup user t actor reset)"
  unfolding handleSoloTeamCleanup_def by (intro methods)

lemma create: "db_keeps J (Team_Create name u solo reset)"
  unfolding Team_Create_def createTx_def validateTeamNameAvailableTx_def
  by (intro methods guards cleanup)

lemma try_create: "db_keeps J (Team_TryCreate name u solo)"
  unfolding Team_TryCreate_def tryCreateWhenInTeam_def by (intro methods guards create)

lemma create_solo: "db_keeps J (Team_CreateSoloTeam u reset)"
  unfolding Team_CreateSoloTeam_def createSoloTeamTx_def by (intro methods guards cleanup)

lemma join: "db_keeps J (Team_Join uc tok u reset)"
  unfolding Team_Join_def joinTx_def by (intro methods guards cleanup)

lemma leave: "db_keeps J (Team_Leave u)"
  unfolding Team_Leave_def leaveTx_def leavePrepare_def leaveValidate_def leaveExecute_def
  by (intro methods guards)

lemma transfer: "db_keeps J (Team_TransferCaptain c u)"
  unfolding Team_TransferCaptain_def transferCaptainTx_def transferCaptainPrepare_def
    transferCaptainValidate_def transferCaptainExecute_def
  by (intro methods guards)

lemma disband: "db_keeps J (Team_DisbandTeam c)"
  unfolding Team_DisbandTeam_def disbandTeamTx_def disbandPrepare_def disbandValidate_def
    disbandExecute_def
  by (intro methods guards)

lemma kick: "db_keeps J (Team_KickMember c u)"
  unfolding Team_KickMember_def kickMemberTx_def kickMemberPrepare_def kickMemberValidate_def
    kickMemberExecute_def
  by (intro methods guards)

lemma administration:
  "db_keeps J (Team_BanTeam uc t reason)" "db_keeps J (Team_UnbanTeam uc t)"
  "db_keeps J (Team_SetHidden uc t h)" "db_keeps J (Team_SetBracket uc t b)"
  unfolding Team_BanTeam_def Team_UnbanTeam_def Team_SetHidden_def Team_SetBracket_def
    invalidateScoreboardCache_def
  by (intro methods)+

end

section \<open>The constraints of the schema\<close>

text \<open>
  Primary and unique keys of users, teams, their audit log and solves, and the foreign keys
  between them.
\<close>

definition users_keys :: "users_row list \<Rightarrow> bool" where
  "users_keys us \<longleftrightarrow> distinct (map users_id us) \<and> distinct (map users_username us) \<and>
     distinct (map users_email us)"

definition teams_keys :: "teams_row list \<Rightarrow> bool" where
  "teams_keys ts \<longleftrightarrow> distinct (map teams_id ts) \<and> distinct (map teams_name ts)"

definition member_fk :: "db \<Rightarrow> bool" where
  "member_fk d \<longleftrightarrow> (\<forall>u \<in> set (users d). \<forall>t. users_team_id u = Some t \<longrightarrow> team_exists t d)"

definition captain_fk :: "db \<Rightarrow> bool" where
  "captain_fk d \<longleftrightarrow> (\<forall>t \<in> set (teams d). user_exists (teams_captain_id t) d)"

definition audit_fk :: "db \<Rightarrow> bool" where
  "audit_fk d \<longleftrightarrow> (\<forall>l \<in> set (team_audit_log d).
     team_exists (team_audit_log_team_id l) d \<and> user_exists (team_audit_log_user_id l) d)"

definition roster_schema :: "db \<Rightarrow> bool" where
  "roster_schema d \<longleftrightarrow> users_keys (users d) \<and> teams_keys (teams d) \<and> member_fk d \<and> captain_fk d \<and>
     audit_fk d"

lemma roster_schemaD:
  assumes "roster_schema d"
  shows "users_keys (users d)" "teams_keys (teams d)" "member_fk d" "captain_fk d" "audit_fk d"
  using assms by (auto simp: roster_schema_def)

lemma users_keys_upd: "users_keys (upd_where P (\<lambda>r. r\<lparr>users_team_id := t\<rparr>) us) = users_keys us"
  by (simp add: users_keys_def map_upd_where_key)

lemma user_exists_upd [simp]:
  "user_exists u (d\<lparr>users := upd_where P (\<lambda>r. r\<lparr>users_team_id := t\<rparr>) (users d)\<rparr>) = user_exists u d"
proof -
  have "users_id ` set (upd_where P (\<lambda>r. r\<lparr>users_team_id := t\<rparr>) (users d)) =
      set (map users_id (upd_where P (\<lambda>r. r\<lparr>users_team_id := t\<rparr>) (users d)))" by simp
  also have "\<dots> = set (map users_id (users d))" by (subst map_upd_where_key) simp_all
  finally show ?thesis by (simp add: user_exists_def)
qed

lemma exists_frames [simp]:
  "team_exists t (d\<lparr>users := us\<rparr>) = team_exists t d"
  "user_exists u (d\<lparr>teams := ts\<rparr>) = user_exists u d"
  "team_exists t (d\<lparr>team_audit_log := l\<rparr>) = team_exists t d"
  "user_exists u (d\<lparr>team_audit_log := l\<rparr>) = user_exists u d"
  "team_exists t (d\<lparr>solves := s\<rparr>) = team_exists t d"
  "user_exists u (d\<lparr>solves := s\<rparr>) = user_exists u d"
  by (simp_all add: team_exists_def user_exists_def)

text \<open>An update of a team that keeps its key, its name and its captain.\<close>

lemma roster_schema_upd_team:
  assumes "roster_schema d" and f: "\<And>t. teams_id (f t) = teams_id t" "\<And>t. teams_name (f t) = teams_name t"
    "\<And>t. teams_captain_id (f t) = teams_captain_id t"
  shows "roster_schema (d\<lparr>teams := upd_where P f (teams d)\<rparr>)"
proof -
  let ?d = "d\<lparr>teams := upd_where P f (teams d)\<rparr>"
  have ids: "teams_id ` set (upd_where P f (teams d)) = teams_id ` set (teams d)"
    by (metis map_upd_where_key f(1) set_map)
  then have te: "team_exists t ?d = team_exists t d" for t by (simp add: team_exists_def)
  have ue: "user_exists u ?d = user_exists u d" for u by simp
  have "teams_keys (upd_where P f (teams d))"
    using assms(1) by (simp add: roster_schema_def teams_keys_def map_upd_where_key f)
  then show ?thesis
    using assms(1) unfolding roster_schema_def member_fk_def captain_fk_def audit_fk_def te ue
    by (auto simp: in_upd_where f)
qed

lemma schema_live_update:
  assumes "\<And>t. teams_id (f t) = teams_id t" "\<And>t. teams_name (f t) = teams_name t"
    "\<And>t. teams_captain_id (f t) = teams_captain_id t"
  shows "keeps roster_schema (update_live_team t f)"
  by (rule keepsI)
    (auto simp: update_live_team_def split: if_splits intro!: roster_schema_upd_team assms)

lemma schema_user_team: "keeps roster_schema (sqlc_UpdateUserTeamID u t)"
proof (rule keepsI)
  fix d r d' assume ok: "roster_schema d" and run: "sqlc_UpdateUserTeamID u t d = (r, d')"
  show "roster_schema d'"
  proof (cases "d' = d")
    case False
    with run have d': "d' = d\<lparr>users := upd_where (\<lambda>r. users_id r = u) (\<lambda>r. r\<lparr>users_team_id := t\<rparr>) (users d)\<rparr>"
      and fk: "\<And>i. t = Some i \<Longrightarrow> team_exists i d"
      by (auto simp: sqlc_UpdateUserTeamID_def split: if_splits option.splits)
    show ?thesis
      using roster_schemaD [OF ok] fk unfolding roster_schema_def d'
      by (auto simp: users_keys_upd member_fk_def captain_fk_def audit_fk_def in_upd_where split: if_splits)
  qed (use ok in simp)
qed

lemma schema_team_insert: "keeps roster_schema (teams_insert t)"
proof (rule keepsI)
  fix d r d' assume ok: "roster_schema d" and run: "teams_insert t d = (r, d')"
  show "roster_schema d'"
  proof (cases "d' = d")
    case False
    with run have d': "d' = d\<lparr>teams := teams d @ [t]\<rparr>" and fk: "user_exists (teams_captain_id t) d"
      and new: "teams_id t \<notin> teams_id ` set (teams d)" "teams_name t \<notin> teams_name ` set (teams d)"
      by (auto simp: teams_insert_def list_ex_iff split: if_splits)
    have te: "team_exists i d'" if "team_exists i d" for i using that by (auto simp: team_exists_def d')
    have ue: "user_exists i d' = user_exists i d" for i by (simp add: d')
    show ?thesis
      using roster_schemaD [OF ok] fk new
      unfolding roster_schema_def member_fk_def captain_fk_def audit_fk_def ue
      by (auto simp: d' teams_keys_def intro: te [unfolded d'])
  qed (use ok in simp)
qed

lemma schema_captain: "keeps roster_schema (set_team_captain t c)"
proof (rule keepsI)
  fix d r d' assume ok: "roster_schema d" and run: "set_team_captain t c d = (r, d')"
  show "roster_schema d'"
  proof (cases "d' = d")
    case False
    with run have d': "d' = d\<lparr>teams := upd_where (\<lambda>r. teams_id r = t) (\<lambda>r. r\<lparr>teams_captain_id := c\<rparr>) (teams d)\<rparr>"
      and fk: "user_exists c d"
      by (auto simp: set_team_captain_def split: if_splits)
    have "map teams_id (teams d') = map teams_id (teams d)" by (simp add: d' map_upd_where_key)
    then have "teams_id ` set (teams d') = teams_id ` set (teams d)" by (metis set_map)
    then have te: "team_exists i d' = team_exists i d" for i by (simp add: team_exists_def)
    have ue: "user_exists i d' = user_exists i d" for i by (simp add: d')
    show ?thesis
      using roster_schemaD [OF ok] fk
      unfolding roster_schema_def member_fk_def captain_fk_def audit_fk_def te ue
      by (auto simp: d' teams_keys_def map_upd_where_key in_upd_where)
  qed (use ok in simp)
qed

lemma schema_audit: "keeps roster_schema (team_audit_log_insert l)"
  by (rule keepsI)
    (auto simp: team_audit_log_insert_def roster_schema_def member_fk_def captain_fk_def audit_fk_def
      split: if_splits)

lemma schema_solves: "keeps roster_schema (sqlc_DeleteSolvesByTeamID t)"
  by (rule keepsI)
    (auto simp: sqlc_DeleteSolvesByTeamID_def roster_schema_def member_fk_def captain_fk_def audit_fk_def)

lemma schema_bracket: "keeps roster_schema (sqlc_SetTeamBracket t b)"
proof (rule keepsI)
  fix d r d' assume ok: "roster_schema d" and run: "sqlc_SetTeamBracket t b d = (r, d')"
  have "keeps roster_schema (update_live_team t (\<lambda>t. t\<lparr>teams_bracket_id := b\<rparr>))"
    by (rule schema_live_update) auto
  with ok run show "roster_schema d'"
    by (auto simp: sqlc_SetTeamBracket_def split: if_splits dest: keepsD)
qed

interpretation schema: team_store roster_schema
  by unfold_locales
    (simp_all add: schema_user_team schema_team_insert schema_captain schema_audit schema_solves
      schema_bracket sqlc_SoftDeleteTeam_def sqlc_BanTeam_def sqlc_UnbanTeam_def
      sqlc_SetTeamHidden_def schema_live_update)

section \<open>What teams do not touch\<close>

text \<open>Challenges, hints, unlocks, awards and the competition are no business of the team methods.\<close>

interpretation scoring: team_store
  "\<lambda>d. challenges d = cs \<and> hints d = hs \<and> hint_unlocks d = us \<and> awards d = aws \<and> competition d = cm"
  for cs hs us aws cm
  by unfold_locales
    (rule keepsI, auto simp: sqlc_UpdateUserTeamID_def teams_insert_def sqlc_SoftDeleteTeam_def
      update_live_team_def set_team_captain_def sqlc_BanTeam_def sqlc_UnbanTeam_def
      sqlc_SetTeamHidden_def sqlc_SetTeamBracket_def sqlc_DeleteSolvesByTeamID_def
      team_audit_log_insert_def split: if_splits option.splits)+

end
