(* ===== verification/CTF_Submit.thy ===== *)
theory CTF_Submit
  imports CTF_Challenges CTF_ScoreFacts CTF_TeamStore
begin

text \<open>
  What a submission does. \<open>solved_db\<close> is the specification of an accepted one: a row in
  the table of solves and the challenge counted and rescored. \<open>recordSolveTx\<close> implements it, and
  \<open>Challenge_SubmitFlag\<close> changes the database in no other way.
\<close>

section \<open>The specification\<close>

text \<open>The row of a challenge after one more solve.\<close>

definition solved_row :: "challenges_row \<Rightarrow> challenges_row" where
  "solved_row r =
     (let n = challenges_solve_count r + 1;
          p = CalculateDynamicScore (challenges_initial_value r) (challenges_min_value r) (challenges_decay r) n;
          r' = r\<lparr>challenges_solve_count := n\<rparr> in
      if challenges_initial_value r \<le> 0 \<or> challenges_decay r \<le> 0 \<or>
         p = (case challenges_points r of None \<Rightarrow> 0 | Some p \<Rightarrow> p)
      then r' else r'\<lparr>challenges_points := Some p\<rparr>)"

lemma solved_row_simps [simp]:
  "challenges_id (solved_row r) = challenges_id r"
  "challenges_solve_count (solved_row r) = challenges_solve_count r + 1"
  "challenges_initial_value (solved_row r) = challenges_initial_value r"
  "challenges_min_value (solved_row r) = challenges_min_value r"
  "challenges_decay (solved_row r) = challenges_decay r"
  by (simp_all add: solved_row_def Let_def)

definition solved_db :: "uuid \<Rightarrow> solves_row \<Rightarrow> db \<Rightarrow> db" where
  "solved_db c s d = d\<lparr>solves := solves d @ [s],
     challenges := upd_where (\<lambda>r. challenges_id r = c) solved_row (challenges d)\<rparr>"

definition chal_keys :: "db \<Rightarrow> bool" where
  "chal_keys d \<longleftrightarrow> distinct (map challenges_id (challenges d))"

lemma upd_where_key_cong:
  assumes "distinct (map key rows)" "find (\<lambda>x. key x = k) rows = Some r" "f r = g r"
  shows "upd_where (\<lambda>x. key x = k) f rows = upd_where (\<lambda>x. key x = k) g rows"
proof -
  have r: "r \<in> set rows" "key r = k" using assms(2) by (auto dest: find_SomeD)
  have "x = r" if "x \<in> set rows" "key x = k" for x
    using distinct_keys_eq [OF assms(1) that(1) r(1)] that(2) r(2) by simp
  then show ?thesis unfolding upd_where_def using assms(3) by (auto intro!: map_cong)
qed

lemma upd_where_twice:
  assumes "\<And>r. key (f r) = key r"
  shows "upd_where (\<lambda>r. key r = k) g (upd_where (\<lambda>r. key r = k) f rows) =
    upd_where (\<lambda>r. key r = k) (\<lambda>r. g (f r)) rows"
  by (induction rows) (auto simp: assms)

section \<open>Recording a solve\<close>

lemma CheckExisting_Inr:
  "submitRecordSolveCheckExisting t c w = (Inr x, w') \<Longrightarrow> store w' = store w \<and> solve_of (store w) t c = None"
  apply (clarsimp simp: submitRecordSolveCheckExisting_def bindE_Inr_iff errE_Inr_iff)
  subgoal for r by (cases r) (auto dest: GetSolveByTeamAndChallengeTx_NotFound)
  done

text \<open>The last step, on the challenges \<open>cs\<close> as they were before the count.\<close>

lemma UpdatePoints_Inr:
  assumes run: "submitRecordSolveUpdatePointsIfDecay c (toEntityChallengeFromRow r) n w = (Inr x, w')"
    and n: "n = challenges_solve_count r + 1"
    and cs: "distinct (map challenges_id cs)" "find (\<lambda>r. challenges_id r = c) cs = Some r"
    and w: "challenges (store w) = upd_where (\<lambda>r. challenges_id r = c)
        (\<lambda>r. r\<lparr>challenges_solve_count := challenges_solve_count r + 1\<rparr>) cs"
  shows "store w' = (store w)\<lparr>challenges := upd_where (\<lambda>r. challenges_id r = c) solved_row cs\<rparr> \<and>
    x = toEntityChallengeFromRow (r\<lparr>challenges_points := challenges_points (solved_row r)\<rparr>)"
proof -
  let ?p = "CalculateDynamicScore (challenges_initial_value r) (challenges_min_value r) (challenges_decay r) n"
  let ?P = "\<lambda>r. challenges_id r = c"
  show ?thesis
  proof (cases "challenges_initial_value r \<le> 0 \<or> challenges_decay r \<le> 0 \<or>
      ?p = (case challenges_points r of None \<Rightarrow> 0 | Some p \<Rightarrow> p)")
    case True
    then have sr: "solved_row r = r\<lparr>challenges_solve_count := challenges_solve_count r + 1\<rparr>"
      by (simp add: solved_row_def Let_def n)
    have "w' = w" "x = toEntityChallengeFromRow r"
      using run True
      by (auto simp: submitRecordSolveUpdatePointsIfDecay_def chal_entity_simps Let_def split: if_splits)
    moreover have "upd_where ?P solved_row cs = challenges (store w)"
      unfolding w by (rule upd_where_key_cong [OF cs]) (simp add: sr)
    ultimately show ?thesis by (simp add: sr)
  next
    case False
    then have sr: "solved_row r = r\<lparr>challenges_solve_count := challenges_solve_count r + 1, challenges_points := Some ?p\<rparr>"
      by (simp add: solved_row_def Let_def n)
    from run False have "UpdateChallengePointsTx c ?p w = (Inr (), w')"
      "x = toEntityChallengeFromRow (r\<lparr>challenges_points := Some ?p\<rparr>)"
      by (auto simp: submitRecordSolveUpdatePointsIfDecay_def chal_entity_simps chal_entity_points Let_def
          bindE_Inr_iff)
    moreover have "upd_where ?P (\<lambda>r. r\<lparr>challenges_points := Some ?p\<rparr>) (challenges (store w)) =
        upd_where ?P solved_row cs"
      unfolding w by (subst upd_where_twice, simp, rule upd_where_key_cong [OF cs]) (simp add: sr)
    ultimately show ?thesis
      using UpdateChallengePointsTx_Inr [of c ?p w "()" w'] by (simp add: sr)
  qed
qed

lemma recordSolveTx_Inr:
  assumes run: "recordSolveTx u t c w = (Inr (ch, n), w')" and keys: "chal_keys (store w)"
  obtains r s where "chal_row (store w) c = Some r" "solve_of (store w) t c = None"
    "store w' = solved_db c s (store w)" "n = challenges_solve_count r + 1"
    "ch = toEntityChallengeFromRow (r\<lparr>challenges_points := challenges_points (solved_row r)\<rparr>)"
    "solves_user_id s = u" "solves_team_id s = t" "solves_challenge_id s = c"
    "solves_id s \<notin> solves_id ` set (solves (store w))"
    "user_exists u (store w)" "team_exists t (store w)"
proof -
  from run obtain w1 ch0 w2 w3 w4 x where
    1: "submitRecordSolveCheckExisting t c w = (Inr (), w1)" and 2: "GetChallengeByIDTx c w1 = (Inr ch0, w2)" and
    3: "CreateSolveTx (new_solve u t c) w2 = (Inr x, w3)" and
    4: "IncrementChallengeSolveCountTx c w3 = (Inr n, w4)" and
    5: "submitRecordSolveUpdatePointsIfDecay c ch0 n w4 = (Inr ch, w')"
    by (auto simp: recordSolveTx_def bindE_Inr_iff)
  have w1: "store w1 = store w" "solve_of (store w) t c = None" using CheckExisting_Inr [OF 1] by auto
  obtain r where r: "store w2 = store w" "chal_row (store w) c = Some r" "ch0 = toEntityChallengeFromRow r"
    using GetChallengeByIDTx_Inr [OF 2] w1 by auto
  obtain s where s: "store w3 = (store w)\<lparr>solves := solves (store w) @ [s]\<rparr>"
    "solves_id s \<notin> solves_id ` set (solves (store w))"
    "solves_user_id s = u" "solves_team_id s = t" "solves_challenge_id s = c"
    "user_exists u (store w)" "team_exists t (store w)"
    using CreateSolveTx_Inr [OF 3] r(1) by (auto simp: new_solve_def)
  have w4: "store w4 = (store w3)\<lparr>challenges := upd_where (\<lambda>r. challenges_id r = c)
        (\<lambda>r. r\<lparr>challenges_solve_count := challenges_solve_count r + 1\<rparr>) (challenges (store w))\<rparr>"
    and n: "n = challenges_solve_count r + 1"
    using IncrementChallengeSolveCountTx_Inr [OF 4] s(1) r(2) by (auto simp: chal_row_def)
  have "store w' = (store w4)\<lparr>challenges := upd_where (\<lambda>r. challenges_id r = c) solved_row (challenges (store w))\<rparr> \<and>
      ch = toEntityChallengeFromRow (r\<lparr>challenges_points := challenges_points (solved_row r)\<rparr>)"
    using r(2,3) keys w4
    by (intro UpdatePoints_Inr [OF 5 [unfolded r(3)] n]) (simp_all add: chal_row_def chal_keys_def)
  then have "store w' = solved_db c s (store w)"
    "ch = toEntityChallengeFromRow (r\<lparr>challenges_points := challenges_points (solved_row r)\<rparr>)"
    by (simp_all add: w4 s(1) solved_db_def)
  with that r(2) w1(2) n s show thesis by blast
qed

lemma side_keep_recordSolveTx: "side_keep J (recordSolveTx u t c)"
  unfolding recordSolveTx_def submitRecordSolveCheckExisting_def GetSolveByTeamAndChallengeTx_def
    GetChallengeByIDTx_def CreateSolveTx_def IncrementChallengeSolveCountTx_def
    submitRecordSolveUpdatePointsIfDecay_def UpdateChallengePointsTx_def int32E_def
  by (intro valid_rules)

section \<open>The steps that only read\<close>

lemma submit_reads:
  "db_keeps J (submitValidateTeam uc t)" "db_keeps J (submitGetChallenge c)"
  "db_keeps J (submitValidateFlagFormat uc flag ch)"
  unfolding submitValidateTeam_def submitGetChallenge_def submitValidateFlagFormat_def TeamRepo_GetByID_def
    ChallengeRepo_GetByID_def CompetitionRepo_Get_def sqlc_GetTeamByID_def sqlc_GetChallengeByID_def
    sqlc_GetCompetition_def
  by (intro valid_rules)+

lemma submit_reads_side:
  "side_keep J (submitValidateTeam uc t)" "side_keep J (submitGetChallenge c)"
  "side_keep J (submitValidateFlagFormat uc flag ch)"
  unfolding submitValidateTeam_def submitGetChallenge_def submitValidateFlagFormat_def TeamRepo_GetByID_def
    ChallengeRepo_GetByID_def CompetitionRepo_Get_def
  by (intro valid_rules)+

lemma submitCheckFlag_keeps:
  assumes "\<And>w c. I (w\<lparr>regex_cache := c\<rparr>) = I w"
  shows "keeps I (submitCheckFlag uc flag ch)"
proof -
  have "keeps I (regex_Get p)" "keeps I (regex_Set p re)" for p re
    by (rule keepsI, auto simp: regex_Get_def regex_Set_def assms split: sum.splits)+
  then show ?thesis
    unfolding submitCheckFlag_def submitCheckRegexFlag_def getCompiledRegex_def by (intro valid_rules)
qed

lemma keeps_quiet:
  assumes "\<And>J. db_keeps J m" "\<And>J. side_keep J m" "m w = (r, w')"
  shows "store w' = store w \<and> events w' = events w \<and> regex_cache w' = regex_cache w"
  using keeps_store [OF assms(1,3)] keeps_side [OF assms(2,3)] by simp

lemma submit_read_run:
  "submitValidateTeam uc t w = (r1, w') \<Longrightarrow>
     store w' = store w \<and> events w' = events w \<and> regex_cache w' = regex_cache w"
  "submitGetChallenge c w = (r2, w') \<Longrightarrow>
     store w' = store w \<and> events w' = events w \<and> regex_cache w' = regex_cache w"
  "submitValidateFlagFormat uc flag ch w = (r1, w') \<Longrightarrow>
     store w' = store w \<and> events w' = events w \<and> regex_cache w' = regex_cache w"
  by (erule keeps_quiet [rotated 2]; rule submit_reads submit_reads_side)+

lemma submitCheckFlag_run:
  assumes "submitCheckFlag uc flag ch w = (r, w')"
  shows "store w' = store w \<and> events w' = events w"
  using keepsD [OF submitCheckFlag_keeps [of "\<lambda>w'. store w' = store w \<and> events w' = events w"] _ assms] by simp

lemma submitGetChallenge_Inr:
  "submitGetChallenge c w = (Inr ch, w') \<Longrightarrow>
     \<exists>r. chal_row (store w) c = Some r \<and> ch = toEntityChallengeFromRow r"
  by (auto simp: submitGetChallenge_def dest!: ChallengeRepo_GetByID_Inr)

lemma invalidate_cache_run:
  "invalidate_cache uc w = (r, w') \<Longrightarrow> r = Inr () \<and> store w' = store w \<and> events w' = events w"
  by (auto simp: invalidate_cache_def InvalidateAll_def Cache_Del_def redis_Del_def split: option.splits if_splits)

section \<open>A submission\<close>

text \<open>What an accepted submission sends: the solve, and the first blood of the first one.\<close>

definition solve_events :: "challenge_uc \<Rightarrow> uuid \<Rightarrow> challenges_row \<Rightarrow> time \<Rightarrow> ws_event list" where
  "solve_events uc t r now =
     (let p = (case challenges_points (solved_row r) of None \<Rightarrow> 0 | Some p \<Rightarrow> p);
          ev = (\<lambda>typ. \<lparr>ev_Type = ''scoreboard_update'',
             ev_Payload = PScoreboardUpdate typ t (challenges_title r) p now, ev_Timestamp = now\<rparr>) in
      if \<not> cu_broadcaster uc then []
      else ev EventTypeSolve # (if challenges_solve_count r = 0 then [ev EventTypeFirstBlood] else []))"

lemma solved_title [simp]: "challenges_title (solved_row r) = challenges_title r"
  by (simp add: solved_row_def Let_def)

lemma submitNotifySolve_run:
  assumes "submitNotifySolve uc t (toEntityChallengeFromRow (r\<lparr>challenges_points := challenges_points (solved_row r)\<rparr>))
      (challenges_solve_count r + 1 = 1) w = (x, w')"
  shows "x = Inr () \<and> store w' = store w \<and> (\<exists>now. events w' = events w @ solve_events uc t r now)"
  using assms by (auto simp: submitNotifySolve_def NotifySolve_def bindE_def nowE_def chal_entity_simps
      solve_events_def Let_def split: if_splits)

lemma submitRecordSolve_Inr:
  assumes "submitRecordSolve u t c w = (Inr (ch, n), w')" "chal_keys (store w)"
  obtains r s where "chal_row (store w) c = Some r" "solve_of (store w) t c = None"
    "store w' = solved_db c s (store w)" "n = challenges_solve_count r + 1" "events w' = events w"
    "ch = toEntityChallengeFromRow (r\<lparr>challenges_points := challenges_points (solved_row r)\<rparr>)"
    "solves_user_id s = u" "solves_team_id s = t" "solves_challenge_id s = c"
    "solves_id s \<notin> solves_id ` set (solves (store w))"
    "user_exists u (store w)" "team_exists t (store w)"
proof -
  from assms(1) obtain w1 w2 where tx: "recordSolveTx u t c w1 = (Inr (ch, n), w2)"
    "store w1 = store w" "store w' = store w2" "events w1 = events w" "events w' = events w2"
    unfolding submitRecordSolve_def by (rule run_transaction_Inr)
  have "events w2 = events w1" using keeps_side [OF side_keep_recordSolveTx tx(1)] by simp
  then show thesis using recordSolveTx_Inr [OF tx(1)] assms(2) tx that by metis
qed

text \<open>A submission that went through: the record of an accepted one, or nothing.\<close>

lemma SubmitFlag_Inr:
  assumes run: "Challenge_SubmitFlag uc c flag u tm w = (Inr (ok, err), w')" and keys: "chal_keys (store w)"
  obtains "store w' = store w" "events w' = events w" "(ok, err) \<noteq> (True, None)"
  | t r s w1 w2 now where "tm = Some t" "ok" "err = None" "chal_row (store w) c = Some r"
      "submitCheckFlag uc (TrimSpace flag) (toEntityChallengeFromRow r) w1 = (Inr True, w2)"
      "regex_cache w1 = regex_cache w" "solve_of (store w) t c = None"
      "store w' = solved_db c s (store w)" "events w' = events w @ solve_events uc t r now"
      "solves_user_id s = u" "solves_team_id s = t" "solves_challenge_id s = c"
      "solves_id s \<notin> solves_id ` set (solves (store w))" "user_exists u (store w)" "team_exists t (store w)"
proof (cases tm)
  case None
  then show thesis using run that(1) by (auto simp: Challenge_SubmitFlag_def)
next
  case (Some t)
  let ?f = "TrimSpace flag"
  from run Some obtain x1 w1 where 1: "submitValidateTeam uc t w = (x1, w1)"
    by (cases "submitValidateTeam uc t w") blast
  note s1 = submit_read_run(1) [OF 1]
  show thesis
  proof (cases x1)
    case (Inl e)
    then show thesis using run Some 1 s1 that(1)
      by (auto simp: Challenge_SubmitFlag_def Let_def bindE_Inr_iff errE_Inr_iff)
  next
    case I1: (Inr x)
    obtain x2 w2 where 2: "submitGetChallenge c w1 = (x2, w2)" by (cases "submitGetChallenge c w1") blast
    note s2 = submit_read_run(2) [OF 2]
    show thesis
    proof (cases x2)
      case (Inl e)
      then show thesis using run Some 1 I1 2 s1 s2 that(1)
        by (auto simp: Challenge_SubmitFlag_def Let_def bindE_Inr_iff errE_Inr_iff)
    next
      case I2: (Inr ch)
      obtain r where r: "chal_row (store w) c = Some r" "ch = toEntityChallengeFromRow r"
        using submitGetChallenge_Inr [of c w1 ch w2] 2 I2 s1 by auto
      obtain x3 w3 where 3: "submitValidateFlagFormat uc ?f ch w2 = (x3, w3)"
        by (cases "submitValidateFlagFormat uc ?f ch w2") blast
      note s3 = submit_read_run(3) [OF 3]
      show thesis
      proof (cases x3)
        case (Inl e)
        then show thesis using run Some 1 I1 2 I2 3 s1 s2 s3 that(1)
          by (auto simp: Challenge_SubmitFlag_def Let_def bindE_Inr_iff errE_Inr_iff)
      next
        case I3: (Inr y)
        from run Some 1 I1 2 I2 3 I3 obtain b w4 where 4: "submitCheckFlag uc ?f ch w3 = (Inr b, w4)"
          and rest: "(if \<not> b then returnE (False, None) else
             bindE (errE (submitRecordSolve u t c)) (\<lambda>r. case r of
                 Inl e \<Rightarrow> returnE (is_sentinel e ErrAlreadySolved, Some e)
               | Inr (solved, solveCount) \<Rightarrow>
             bindE (invalidate_cache uc) (\<lambda>_.
             bindE (submitNotifySolve uc t solved (solveCount = 1)) (\<lambda>_.
             returnE (True, None))))) w4 = (Inr (ok, err), w')"
          by (auto simp: Challenge_SubmitFlag_def Let_def bindE_Inr_iff errE_Inr_iff)
        note s4 = submitCheckFlag_run [OF 4]
        have s: "store w4 = store w" "events w4 = events w" "regex_cache w3 = regex_cache w"
          using s1 s2 s3 s4 by simp_all
        show thesis
        proof (cases b)
          case False
          then show thesis using rest s that(1) by auto
        next
          case True
          obtain x5 w5 where 5: "submitRecordSolve u t c w4 = (x5, w5)"
            by (cases "submitRecordSolve u t c w4") blast
          show thesis
          proof (cases x5)
            case (Inl e)
            have "events w5 = events w4"
              using keeps_side [OF side_keep_run_transaction [OF side_keep_recordSolveTx]] 5
              unfolding submitRecordSolve_def by blast
            moreover have "store w5 = store w4"
              using 5 Inl unfolding submitRecordSolve_def by (auto dest: run_transaction_Inl_store)
            ultimately show thesis using rest True 5 Inl s that(1)
              by (auto simp: bindE_Inr_iff errE_Inr_iff)
          next
            case (Inr res)
            obtain ch' n where res: "res = (ch', n)" by force
            from 5 Inr res keys s(1) obtain r' so where so: "chal_row (store w) c = Some r'" "solve_of (store w) t c = None"
              "store w5 = solved_db c so (store w)" "n = challenges_solve_count r' + 1" "events w5 = events w"
              "ch' = toEntityChallengeFromRow (r'\<lparr>challenges_points := challenges_points (solved_row r')\<rparr>)"
              "solves_user_id so = u" "solves_team_id so = t" "solves_challenge_id so = c"
              "solves_id so \<notin> solves_id ` set (solves (store w))"
              "user_exists u (store w)" "team_exists t (store w)"
              using submitRecordSolve_Inr [of u t c w4 ch' n w5] s(2) by metis
            have rr: "r' = r" using so(1) r(1) by simp
            from rest True 5 Inr res obtain w6 w7 where 6: "invalidate_cache uc w5 = (Inr (), w6)"
              "submitNotifySolve uc t ch' (n = 1) w6 = (Inr (), w')" and okerr: "ok" "err = None"
              by (auto simp: bindE_Inr_iff errE_Inr_iff)
            obtain now where "store w' = store w6" "events w' = events w6 @ solve_events uc t r now"
              using submitNotifySolve_run [OF 6(2) [unfolded so(4,6) rr]] by auto
            moreover have "submitCheckFlag uc ?f (toEntityChallengeFromRow r) w3 = (Inr True, w4)"
              using 4 True r(2) by simp
            note 4 = this
            ultimately show thesis
              using that(2) [OF Some okerr r(1) 4 s(3) so(2) _ _ so(7-12)] so(3,5)
                invalidate_cache_run [OF 6(1)] by auto
          qed
        qed
      qed
    qed
  qed
qed

end
