(* ===== verification/CTF_SubmitMatch.thy ===== *)
theory CTF_SubmitMatch
  imports CTF_Submit
begin

text \<open>
  The cache of compiled expressions is invisible: \<open>submitCheckFlag\<close> answers what
  \<open>flag_matches\<close>, which compiles every time, does; and no submission panics.
\<close>

section \<open>Matching without the cache\<close>

definition compiled :: "challenge_uc \<Rightarrow> string \<Rightarrow> regexp option" where
  "compiled uc p = (case ext_compile (cu_ext uc) p of Inl _ \<Rightarrow> None | Inr re \<Rightarrow> Some re)"

text \<open>Every cached expression is what compiling its key gives.\<close>

definition regex_ok :: "challenge_uc \<Rightarrow> world \<Rightarrow> bool" where
  "regex_ok uc w \<longleftrightarrow> bounded.agrees (compiled uc) (regex_cache w)"

definition flag_matches :: "challenge_uc \<Rightarrow> string \<Rightarrow> challenge \<Rightarrow> bool" where
  "flag_matches uc flag c =
     (if chal_IsRegex c then
        (case cu_crypto uc of None \<Rightarrow> False
         | Some cs \<Rightarrow>
            (case cs_Decrypt cs (chal_FlagRegex c) of Inl _ \<Rightarrow> False
             | Inr pattern \<Rightarrow>
                (case compiled uc ((if chal_IsCaseInsensitive c then ''(?i)'' else '''') @ pattern) of
                   None \<Rightarrow> False | Some re \<Rightarrow> ext_match (cu_ext uc) re flag)))
      else submitCheckHashFlag uc flag c)"

lemma regex_Get_run:
  assumes "regex_ok uc w"
  obtains "regex_Get p w = (Inr None, w)" | re where "regex_Get p w = (Inr (Some re), w)" "compiled uc p = Some re"
  using assms unfolding regex_ok_def
  by (cases rule: bounded.agrees_get_cases [of "compiled uc" "regex_cache w" p])
    (auto simp: regex_Get_def)

lemma regex_Set_run:
  assumes "regex_ok uc w" "compiled uc p = Some re"
  shows "\<exists>w'. regex_Set p re w = (Inr (), w') \<and> regex_ok uc w'"
proof -
  have "bc_ok (regex_cache w)" using assms(1) by (simp add: regex_ok_def bounded.agrees_def)
  then obtain c' where c': "BoundedCache_Set (regex_cache w) p re = Inr c'" using bounded.put_total [of "regex_cache w" p re] by blast
  moreover have "bounded.agrees (compiled uc) c'"
    using bounded.agrees_put [of "compiled uc" "regex_cache w" p re c'] assms c' by (simp add: regex_ok_def)
  ultimately show ?thesis by (simp add: regex_Set_def regex_ok_def)
qed

lemma getCompiledRegex_run:
  assumes "regex_ok uc w"
  shows "\<exists>r w'. getCompiledRegex uc p w = (r, w') \<and> regex_ok uc w' \<and> r \<noteq> Inl GoPanic \<and>
    compiled uc p = (case r of Inl _ \<Rightarrow> None | Inr re \<Rightarrow> Some re)"
proof (cases rule: regex_Get_run [OF assms, of p])
  case 1
  show ?thesis
  proof (cases "ext_compile (cu_ext uc) p")
    case (Inl e)
    then show ?thesis using 1 assms
      by (simp add: getCompiledRegex_def bindE_def mapErr_def compiled_def)
  next
    case (Inr re)
    then have "compiled uc p = Some re" by (simp add: compiled_def)
    with regex_Set_run [OF assms this] Inr 1 show ?thesis
      by (auto simp: getCompiledRegex_def bindE_def mapErr_def)
  qed
next
  case (2 re)
  then show ?thesis using assms by (simp add: getCompiledRegex_def bindE_def)
qed

lemma errE_run: "m w = (r, w') \<Longrightarrow> r \<noteq> Inl GoPanic \<Longrightarrow> errE m w = (Inr r, w')"
  by (simp add: errE_Inr_iff)

lemma submitCheckFlag_answer:
  assumes "regex_ok uc w"
  shows "\<exists>w'. submitCheckFlag uc flag c w = (Inr (flag_matches uc flag c), w') \<and> regex_ok uc w'"
proof (cases "chal_IsRegex c")
  case False
  then show ?thesis using assms by (simp add: submitCheckFlag_def flag_matches_def)
next
  case True
  show ?thesis
  proof (cases "cu_crypto uc")
    case None
    then show ?thesis using assms True
      by (simp add: submitCheckFlag_def flag_matches_def submitCheckRegexFlag_def)
  next
    case (Some cs)
    show ?thesis
    proof (cases "cs_Decrypt cs (chal_FlagRegex c)")
      case (Inl e)
      then show ?thesis using assms True Some
        by (simp add: submitCheckFlag_def flag_matches_def submitCheckRegexFlag_def)
    next
      case (Inr pattern)
      let ?p = "(if chal_IsCaseInsensitive c then ''(?i)'' else '''') @ pattern"
      obtain r w' where r: "getCompiledRegex uc ?p w = (r, w')" "regex_ok uc w'" "r \<noteq> Inl GoPanic"
        "compiled uc ?p = (case r of Inl _ \<Rightarrow> None | Inr re \<Rightarrow> Some re)"
        using getCompiledRegex_run [OF assms] by blast
      have p: "?p = (if chal_IsCaseInsensitive c then ''(?i)'' @ pattern else pattern)" by simp
      show ?thesis
        using True Some Inr r(2,4) errE_run [of "getCompiledRegex uc ?p", OF r(1,3)] unfolding p
        by (cases r) (simp_all add: submitCheckFlag_def flag_matches_def submitCheckRegexFlag_def
            bindE_run_Inr p)
    qed
  qed
qed

section \<open>Answers\<close>

text \<open>\<open>quiet m\<close>: no panic leaves \<open>m\<close>; \<open>answers I m\<close>: from \<open>I\<close>, \<open>m\<close> returns a value and keeps \<open>I\<close>.\<close>

definition quiet :: "'a op \<Rightarrow> bool" where
  "quiet m \<longleftrightarrow> (\<forall>w w'. m w \<noteq> (Inl GoPanic, w'))"

named_theorems quiet_rules \<open>computations that do not panic\<close>

lemma quietD: "quiet m \<Longrightarrow> m w \<noteq> (Inl GoPanic, w')"
  by (simp add: quiet_def)

lemma quiet_basic [quiet_rules]:
  "quiet (returnE x)" "e \<noteq> GoPanic \<Longrightarrow> quiet (throwE e)" "e \<noteq> GoPanic \<Longrightarrow> quiet (failIf c e)"
  "quiet nowE" "quiet uuid_New"
  by (auto simp: quiet_def)

lemma quiet_sql [quiet_rules]: "quiet (sql q)"
  by (auto simp: quiet_def sql_Inl_iff)

lemma quiet_sql_tx [quiet_rules]: "quiet (sql_tx q)"
  by (auto simp: quiet_def sql_tx_def sql_Inl_iff split: if_splits prod.splits sum.splits)

lemma quiet_bindE [quiet_rules]: "quiet m \<Longrightarrow> (\<And>x. quiet (f x)) \<Longrightarrow> quiet (bindE m f)"
  by (auto simp: quiet_def bindE_Inl_iff)

lemma quiet_mapErr [quiet_rules]: "(\<And>e. h e \<noteq> GoPanic) \<Longrightarrow> quiet (mapErr h m)"
  unfolding quiet_def mapErr_Inl_iff by metis

lemma quiet_errE [quiet_rules]: "quiet m \<Longrightarrow> quiet (errE m)"
  by (auto simp: quiet_def errE_Inl_iff)

lemma quiet_cases [quiet_rules]:
  "(c \<Longrightarrow> quiet m) \<Longrightarrow> (\<not> c \<Longrightarrow> quiet n) \<Longrightarrow> quiet (if c then m else n)"
  "quiet m \<Longrightarrow> (\<And>x. quiet (f x)) \<Longrightarrow> quiet (case opt of None \<Rightarrow> m | Some x \<Rightarrow> f x)"
  "(\<And>e. quiet (g e)) \<Longrightarrow> (\<And>x. quiet (f x)) \<Longrightarrow> quiet (case r of Inl e \<Rightarrow> g e | Inr x \<Rightarrow> f x)"
  "(\<And>x. quiet (f x)) \<Longrightarrow> quiet (Let v f)"
  by (auto split: option.split sum.split)

lemma quiet_run_transaction [quiet_rules]: "quiet fn \<Longrightarrow> quiet (run_transaction fn)"
  by (auto simp: quiet_def run_transaction_def driver_def rollback_def commit_def
      split: prod.splits sum.splits if_splits goerr.splits)

lemma no_rows_as_not_panic [simp]: "no_rows_as s m e \<noteq> GoPanic"
  by (simp add: no_rows_as_def)

lemma quiet_submit:
  "quiet (submitValidateTeam uc t)" "quiet (submitGetChallenge c)" "quiet (submitValidateFlagFormat uc flag ch)"
  "quiet (submitRecordSolve u t c)"
  unfolding submitValidateTeam_def submitGetChallenge_def submitValidateFlagFormat_def TeamRepo_GetByID_def
    ChallengeRepo_GetByID_def CompetitionRepo_Get_def submitRecordSolve_def recordSolveTx_def
    submitRecordSolveCheckExisting_def GetSolveByTeamAndChallengeTx_def GetChallengeByIDTx_def
    CreateSolveTx_def IncrementChallengeSolveCountTx_def submitRecordSolveUpdatePointsIfDecay_def
    UpdateChallengePointsTx_def int32E_def
  by (intro quiet_rules; simp)+

abbreviation answers :: "(world \<Rightarrow> bool) \<Rightarrow> 'a op \<Rightarrow> bool" where
  "answers I m \<equiv> valid I m (\<lambda>_. I) (\<lambda>_ _. False)"

lemma answers_errE: "quiet m \<Longrightarrow> keeps I m \<Longrightarrow> answers I (errE m)"
  by (rule validI) (auto simp: errE_Inr_iff errE_Inl_iff quiet_def dest: keepsD)

lemma answers_bindE: "answers I m \<Longrightarrow> (\<And>x. answers I (f x)) \<Longrightarrow> answers I (bindE m f)"
  by (rule valid_bindE)

lemma answers_case:
  "answers I (returnE x)"
  "(c \<Longrightarrow> answers I m) \<Longrightarrow> (\<not> c \<Longrightarrow> answers I n) \<Longrightarrow> answers I (if c then m else n)"
  "(\<And>e. answers I (g e)) \<Longrightarrow> (\<And>x. answers I (f x)) \<Longrightarrow> answers I (case r of Inl e \<Rightarrow> g e | Inr x \<Rightarrow> f x)"
  "answers I m \<Longrightarrow> (\<And>x. answers I (f x)) \<Longrightarrow> answers I (case opt of None \<Rightarrow> m | Some x \<Rightarrow> f x)"
  "(\<And>x y. answers I (h x y)) \<Longrightarrow> answers I (case p of (x, y) \<Rightarrow> h x y)"
  by (auto intro: valid_returnE split: sum.split option.split prod.split)

lemma answers_submitCheckFlag: "answers (regex_ok uc) (submitCheckFlag uc flag c)"
  using submitCheckFlag_answer [of uc _ flag c] by (fastforce intro!: validI)

lemma regex_ok_side: "side_keep (\<lambda>_. bounded.agrees (compiled uc)) m \<Longrightarrow> keeps (regex_ok uc) m"
  by (simp add: regex_ok_def [abs_def])

lemma answers_quiet:
  "answers (regex_ok uc) (invalidate_cache uc')" "answers (regex_ok uc) (submitNotifySolve uc' t c f)"
  by (auto intro!: validI simp: invalidate_cache_def InvalidateAll_def Cache_Del_def redis_Del_def regex_ok_def
      submitNotifySolve_def NotifySolve_def nowE_def bindE_def split: option.splits if_splits)

lemma SubmitFlag_answers: "answers (regex_ok uc) (Challenge_SubmitFlag uc c flag u tm)"
  unfolding Challenge_SubmitFlag_def Let_def
  by (intro answers_case answers_bindE answers_errE quiet_submit regex_ok_side submit_reads_side
      answers_submitCheckFlag answers_quiet side_keep_run_transaction [OF side_keep_recordSolveTx, folded submitRecordSolve_def])

end
