(* ===== verification/CTF_Hints.thy ===== *)
theory CTF_Hints
  imports CTF_ScoreFacts CTF_Events
begin

text \<open>
  \<open>HintUseCase\<close> of \<open>usecase/challenge/hint.go\<close>, what an unlocked hint costs, and that
  unlocking is all or nothing. \<open>UnlockHint\<close> opens its transaction with \<open>BeginTx\<close> and rolls
  back in a deferred function whose own error only goes to a local variable, so the caller never sees it.
\<close>

section \<open>The use case\<close>

text \<open>The string form of a UUID is a parameter; the cache may be nil.\<close>

record hint_uc =
  hu_uuid :: "uuid \<Rightarrow> string"
  hu_scoreboardCache :: "scoreboard_cache option"

record hint_with_unlock =
  hwu_Hint :: hint
  hwu_Unlocked :: bool

definition Hint_Create :: "uuid \<Rightarrow> string \<Rightarrow> int \<Rightarrow> int \<Rightarrow> hint op" where
  "Hint_Create challengeID content cost orderIndex =
     mapErr (wrap ''HintUseCase - Create'') (HintRepo_Create
       \<lparr>hint_ID = 0, hint_ChallengeID = challengeID, hint_Content = content, hint_Cost = cost,
        hint_OrderIndex = orderIndex\<rparr>)"

definition Hint_GetByID :: "uuid \<Rightarrow> hint op" where
  "Hint_GetByID ID = mapErr (wrap ''HintUseCase - GetByID'') (HintRepo_GetByID ID)"

text \<open>A hint that is still locked is copied without its content.\<close>

definition hide_hint :: "uuid list \<Rightarrow> hint \<Rightarrow> hint_with_unlock" where
  "hide_hint unlocked h =
     (if hint_ID h \<in> set unlocked then \<lparr>hwu_Hint = h, hwu_Unlocked = True\<rparr>
      else \<lparr>hwu_Hint = \<lparr>hint_ID = hint_ID h, hint_ChallengeID = hint_ChallengeID h, hint_Content = '''',
              hint_Cost = hint_Cost h, hint_OrderIndex = hint_OrderIndex h\<rparr>,
            hwu_Unlocked = False\<rparr>)"

definition Hint_GetByChallengeID :: "uuid \<Rightarrow> uuid option \<Rightarrow> hint_with_unlock list op" where
  "Hint_GetByChallengeID challengeID teamID =
     bindE (mapErr (wrap ''HintUseCase - GetByChallengeID'') (HintRepo_GetByChallengeID challengeID)) (\<lambda>hs.
     bindE (case teamID of None \<Rightarrow> returnE []
        | Some t \<Rightarrow> mapErr (wrap ''HintUseCase - GetByChallengeID - GetUnlockedHintIDs'')
                      (HintUnlockRepo_GetUnlockedHintIDs t challengeID)) (\<lambda>unlockedIDs.
     returnE (map (hide_hint unlockedIDs) hs)))"

definition Hint_Update :: "uuid \<Rightarrow> string \<Rightarrow> int \<Rightarrow> int \<Rightarrow> hint op" where
  "Hint_Update ID content cost orderIndex =
     bindE (mapErr (wrap ''HintUseCase - Update - GetByID'') (HintRepo_GetByID ID)) (\<lambda>h.
     let h = h\<lparr>hint_Content := content, hint_Cost := cost, hint_OrderIndex := orderIndex\<rparr> in
     bindE (mapErr (wrap ''HintUseCase - Update'') (HintRepo_Update h)) (\<lambda>_. returnE h))"

definition Hint_Delete :: "uuid \<Rightarrow> unit op" where
  "Hint_Delete ID = mapErr (wrap ''HintUseCase - Delete'') (HintRepo_Delete ID)"

definition unlockHintCheckAlreadyUnlocked :: "uuid \<Rightarrow> uuid \<Rightarrow> unit op" where
  "unlockHintCheckAlreadyUnlocked teamID hintID =
     bindE (errE (GetHintUnlockByTeamAndHintTx teamID hintID)) (\<lambda>r. case r of
       Inr _ \<Rightarrow> throwE (Sentinel ErrHintAlreadyUnlocked)
     | Inl e \<Rightarrow> failIf (\<not> is_sentinel e ErrHintNotFound)
                 (wrap ''HintUseCase - UnlockHint - GetByTeamAndHintTx'' e))"

definition unlockHintChargeIfNeeded :: "hint_uc \<Rightarrow> uuid \<Rightarrow> hint \<Rightarrow> unit op" where
  "unlockHintChargeIfNeeded uc teamID h =
     (if hint_Cost h \<le> 0 then returnE ()
      else
        bindE (mapErr (wrap ''HintUseCase - UnlockHint - GetTeamScoreTx'') (GetTeamScoreTx teamID)) (\<lambda>teamScore.
        bindE (failIf (teamScore < hint_Cost h) (Sentinel ErrInsufficientPoints)) (\<lambda>_.
        bindE (CreateAwardTx \<lparr>award_ID = 0, award_TeamID = teamID, award_Value = - hint_Cost h,
           award_Description = ''Hint unlock: '' @ hu_uuid uc (hint_ID h), award_CreatedBy = None,
           award_CreatedAt = 0\<rparr>) (\<lambda>_. returnE ()))))"

definition unlockHintInTx :: "hint_uc \<Rightarrow> uuid \<Rightarrow> uuid \<Rightarrow> hint \<Rightarrow> unit op" where
  "unlockHintInTx uc teamID hintID h =
     bindE (mapErr (wrap ''HintUseCase - UnlockHint - LockTeamTx'') (LockTeamTx teamID)) (\<lambda>_.
     bindE (unlockHintCheckAlreadyUnlocked teamID hintID) (\<lambda>_.
     bindE (unlockHintChargeIfNeeded uc teamID h) (\<lambda>_.
     CreateHintUnlockTx teamID hintID)))"

text \<open>
  The transaction of \<open>UnlockHint\<close>: a rollback after a failed commit finds the transaction closed
  and sends nothing; a panic leaves the transaction open, to die with its connection.
\<close>

definition unlock_transaction :: "unit op \<Rightarrow> unit op" where
  "unlock_transaction fn w =
     (case driver w of
        (Inl e, w1) \<Rightarrow> (Inl (wrap ''HintUseCase - UnlockHint - BeginTx'' e), w1)
      | (Inr _, w1) \<Rightarrow>
         (case fn (w1\<lparr>tx_failed := False\<rparr>) of
            (Inl GoPanic, w2) \<Rightarrow> (Inl GoPanic, w2\<lparr>store := store w1\<rparr>)
          | (Inl e, w2) \<Rightarrow> (Inl e, snd (rollback (store w1) w2))
          | (Inr _, w2) \<Rightarrow>
             (case commit (store w1) w2 of
                (Inl e, w3) \<Rightarrow> (Inl (wrap ''HintUseCase - UnlockHint - Commit'' e), w3)
              | (Inr _, w3) \<Rightarrow> (Inr (), w3))))"

definition Hint_UnlockHint :: "hint_uc \<Rightarrow> uuid \<Rightarrow> uuid \<Rightarrow> hint op" where
  "Hint_UnlockHint uc teamID hintID =
     bindE (mapErr (\<lambda>e. if is_sentinel e ErrHintNotFound then Sentinel ErrHintNotFound
                        else wrap ''HintUseCase - UnlockHint - GetByID'' e) (HintRepo_GetByID hintID)) (\<lambda>h.
     bindE (unlock_transaction (unlockHintInTx uc teamID hintID h)) (\<lambda>_.
     bindE (case hu_scoreboardCache uc of None \<Rightarrow> returnE () | Some sc \<Rightarrow> InvalidateAll sc) (\<lambda>_.
     returnE h)))"

section \<open>All or nothing\<close>

lemma InvalidateAll_total [simp]: "InvalidateAll sc w \<noteq> (Inl e, w')"
  by (simp add: InvalidateAll_def Cache_Del_def)

lemma unlock_transaction_Inl_store: "unlock_transaction fn w = (Inl e, w') \<Longrightarrow> store w' = store w"
  by (auto simp: unlock_transaction_def driver_def rollback_def commit_def
      split: prod.splits sum.splits if_splits goerr.splits)

lemma unlock_transaction_Inr:
  assumes "unlock_transaction fn w = (Inr u, w')"
  obtains w1 w2 where "fn w1 = (Inr (), w2)" "store w1 = store w" "store w' = store w2"
proof -
  from assms obtain w2 where w2: "fn ((use_fault w)\<lparr>tx_failed := False\<rparr>) = (Inr (), w2)" "w' = use_fault w2"
    by (auto simp: unlock_transaction_def driver_def rollback_def commit_def
        split: prod.splits sum.splits if_splits goerr.splits)
  show thesis by (rule that [OF w2(1)]) (simp_all add: w2(2))
qed

lemma db_keeps_unlock_transaction [valid_rules]:
  assumes "db_keeps J fn" shows "db_keeps J (unlock_transaction fn)"
proof (rule keepsI)
  fix w r w' assume J: "J (store w)" and run: "unlock_transaction fn w = (r, w')"
  show "J (store w')"
  proof (cases r)
    case (Inl e) then show ?thesis using run J by (auto dest: unlock_transaction_Inl_store)
  next
    case (Inr x)
    with run obtain w1 w2 where "fn w1 = (Inr (), w2)" "store w1 = store w" "store w' = store w2"
      by (auto elim: unlock_transaction_Inr)
    then show ?thesis using keepsD [OF assms, of w1] J by auto
  qed
qed

end
