(* ===== verification/CTF_Demo.thy ===== *)
theory CTF_Demo
  imports CTF_TeamOps
begin

text \<open>
  A small concrete board on which the theorems are evaluated: two teams of two and one members, a
  deleted team, a user without a team, a challenge that was solved once, one that is hidden and
  one with a regular expression, a hint and an award. The clock stands inside the competition.
\<close>

definition demo_user :: "uuid \<Rightarrow> string \<Rightarrow> uuid option \<Rightarrow> users_row" where
  "demo_user u name t = \<lparr>users_id = u, users_team_id = t, users_username = name,
     users_email = name @ ''@ctf.io'', users_password_hash = ''hash'', users_role = Some ''user'',
     users_is_verified = Some True, users_verified_at = None, users_created_at = Some 0\<rparr>"

definition demo_team :: "uuid \<Rightarrow> string \<Rightarrow> uuid \<Rightarrow> uuid \<Rightarrow> bool \<Rightarrow> time option \<Rightarrow> teams_row" where
  "demo_team t name token captain solo deleted = \<lparr>teams_id = t, teams_name = name,
     teams_invite_token = token, teams_captain_id = captain, teams_bracket_id = None,
     teams_created_at = Some 0, teams_deleted_at = deleted, teams_is_solo = Some solo,
     teams_is_auto_created = Some False, teams_is_banned = Some False, teams_banned_at = None,
     teams_banned_reason = None, teams_is_hidden = Some False\<rparr>"

definition demo_challenge ::
  "uuid \<Rightarrow> string \<Rightarrow> string \<Rightarrow> bool \<Rightarrow> string option \<Rightarrow> int \<Rightarrow> challenges_row" where
  "demo_challenge c title hash hidden regex solve_count = \<lparr>challenges_id = c, challenges_title = title,
     challenges_description = '''', challenges_category = Some ''web'', challenges_points = Some 500,
     challenges_flag_hash = hash, challenges_is_hidden = Some hidden, challenges_initial_value = 500,
     challenges_min_value = 100, challenges_decay = 10, challenges_solve_count = solve_count,
     challenges_is_regex = Some (regex \<noteq> None), challenges_is_case_insensitive = Some False,
     challenges_flag_regex = regex, challenges_flag_format_regex = None\<rparr>"

definition demo_competition :: competition_row where
  "demo_competition = \<lparr>competition_id = 1, competition_name = ''demo'', competition_start_time = Some 0,
     competition_end_time = Some 100000000, competition_freeze_time = Some 50000000,
     competition_is_paused = Some False, competition_is_public = Some True,
     competition_flag_regex = None, competition_mode = Some ''flexible'',
     competition_allow_team_switch = Some True, competition_min_team_size = Some 1,
     competition_max_team_size = Some 10, competition_created_at = Some 0,
     competition_updated_at = Some 0\<rparr>"

definition demo_db :: db where
  "demo_db = empty_db\<lparr>
     users := [demo_user 1 ''alice'' (Some 11), demo_user 2 ''bob'' (Some 11), demo_user 3 ''carol'' None,
       demo_user 4 ''dave'' (Some 12)],
     teams := [demo_team 11 ''alpha'' 21 1 False None, demo_team 12 ''delta'' 22 4 True None,
       demo_team 13 ''ghost'' 23 3 False (Some 5)],
     competition := [demo_competition],
     challenges := [demo_challenge 31 ''easy'' ''h1'' False None 1, demo_challenge 32 ''shadow'' ''h2'' True None 0,
       demo_challenge 33 ''pattern'' '''' False (Some ''re'') 0],
     solves := [\<lparr>solves_id = 51, solves_user_id = 2, solves_team_id = 11, solves_challenge_id = 31,
       solves_solved_at = Some 7\<rparr>],
     hints := [\<lparr>hints_id = 41, hints_challenge_id = 31, hints_content = ''look'', hints_cost = 50,
       hints_order_index = 0\<rparr>],
     awards := [\<lparr>awards_id = 61, awards_team_id = 12, awards_value = 70, awards_description = ''style'',
       awards_created_by = Some 1, awards_created_at = Some 9\<rparr>]\<rparr>"

definition demo_world :: world where
  "demo_world = world_of demo_db"

definition demo_uc :: team_uc where
  "demo_uc = NewTeamUseCase (Some \<lparr>sc_cache = True, sc_getter = None\<rparr>)"

end
