(* ===== verification/CTF_HintProps.thy ===== *)
theory CTF_HintProps
  imports CTF_Hints CTF_Demo
begin

text \<open>
  What unlocking a hint does: it charges the team once, never below zero, and all or nothing; and the
  content of a hint is shown to the teams that unlocked it only.
\<close>

section \<open>Runs\<close>

lemma CheckAlreadyUnlocked_Inr:
  "unlockHintCheckAlreadyUnlocked t h w = (Inr x, w') \<Longrightarrow> store w' = store w \<and> unlock_of (store w) t h = None"
  apply (clarsimp simp: unlockHintCheckAlreadyUnlocked_def bindE_Inr_iff errE_Inr_iff)
  subgoal for r by (cases r) (auto dest: GetHintUnlockByTeamAndHintTx_NotFound)
  done

definition charged :: "uuid \<Rightarrow> int \<Rightarrow> db \<Rightarrow> db \<Rightarrow> bool" where
  "charged t cost d d' \<longleftrightarrow>
     (if cost \<le> 0 then d' = d
      else cost \<le> team_score d t \<and> (\<exists>a. awards_team_id a = t \<and> awards_value a = - cost \<and>
        awards_id a \<notin> awards_id ` set (awards d) \<and> team_exists t d \<and>
        d' = d\<lparr>awards := awards d @ [a]\<rparr>))"

lemma ChargeIfNeeded_Inr:
  assumes "unlockHintChargeIfNeeded uc t h w = (Inr x, w')"
  shows "charged t (hint_Cost h) (store w) (store w')"
proof (cases "hint_Cost h \<le> 0")
  case True
  then show ?thesis using assms by (simp add: unlockHintChargeIfNeeded_def charged_def)
next
  case False
  with assms obtain n w1 y where "GetTeamScoreTx t w = (Inr n, w1)" "hint_Cost h \<le> n"
    "CreateAwardTx \<lparr>award_ID = 0, award_TeamID = t, award_Value = - hint_Cost h,
       award_Description = ''Hint unlock: '' @ hu_uuid uc (hint_ID h), award_CreatedBy = None,
       award_CreatedAt = 0\<rparr> w1 = (Inr y, w')"
    by (auto simp: unlockHintChargeIfNeeded_def bindE_Inr_iff)
  then show ?thesis using False by (auto simp: charged_def dest!: GetTeamScoreTx_Inr CreateAwardTx_Inr)
qed

lemma charged_unlocks: "charged t cost d d' \<Longrightarrow> unlock_of d' t' h = unlock_of d t' h \<and> hint_unlocks d' = hint_unlocks d"
  by (auto simp: charged_def unlock_of_def split: if_splits)

lemma unlockHintInTx_Inr:
  assumes "unlockHintInTx uc t hid h w = (Inr x, w')"
  shows "unlock_of (store w) t hid = None \<and>
    (\<exists>d u. charged t (hint_Cost h) (store w) d \<and> hint_unlocks_team_id u = t \<and> hint_unlocks_hint_id u = hid \<and>
       store w' = d\<lparr>hint_unlocks := hint_unlocks (store w) @ [u]\<rparr>)"
proof -
  from assms obtain y1 w1 w2 w3 where 1: "LockTeamTx t w = (Inr y1, w1)"
    and 2: "unlockHintCheckAlreadyUnlocked t hid w1 = (Inr (), w2)"
    and 3: "unlockHintChargeIfNeeded uc t h w2 = (Inr (), w3)"
    and 4: "CreateHintUnlockTx t hid w3 = (Inr x, w')"
    by (auto simp: unlockHintInTx_def bindE_Inr_iff)
  have s: "store w2 = store w" "unlock_of (store w) t hid = None"
    using LockTeamTx_Inr [OF 1] CheckAlreadyUnlocked_Inr [OF 2] by auto
  have c: "charged t (hint_Cost h) (store w) (store w3)" using ChargeIfNeeded_Inr [OF 3] s by simp
  note u = charged_unlocks [OF c]
  with CreateHintUnlockTx_Inr [OF 4] s c show ?thesis by auto
qed

lemma UnlockHint_Inr:
  assumes "Hint_UnlockHint uc t hid w = (Inr x, w')"
  obtains r d u where "hint_row (store w) hid = Some r" "x = toEntityHint r" "unlock_of (store w) t hid = None"
    "charged t (hints_cost r) (store w) d" "hint_unlocks_team_id u = t" "hint_unlocks_hint_id u = hid"
    "store w' = d\<lparr>hint_unlocks := hint_unlocks (store w) @ [u]\<rparr>"
proof -
  from assms obtain w1 w2 where 1: "HintRepo_GetByID hid w = (Inr x, w1)"
    and 2: "unlock_transaction (unlockHintInTx uc t hid x) w1 = (Inr (), w2)" and 3: "store w' = store w2"
    by (auto simp: Hint_UnlockHint_def bindE_Inr_iff InvalidateAll_def Cache_Del_def redis_Del_def
        split: option.splits if_splits)
  obtain r where r: "hint_row (store w) hid = Some r" "x = toEntityHint r" "store w1 = store w"
    using HintRepo_GetByID_Inr [OF 1] by auto
  obtain v1 v2 where v: "unlockHintInTx uc t hid x v1 = (Inr (), v2)" "store v1 = store w" "store w' = store v2"
    using unlock_transaction_Inr [OF 2] r(3) 3 by metis
  have "hint_Cost x = hints_cost r" using r(2) by (simp add: toEntityHint_def)
  with unlockHintInTx_Inr [OF v(1)] v r that show thesis by auto
qed

lemma UnlockHint_Inl_store:
  assumes "Hint_UnlockHint uc t hid w = (Inl e, w')"
  shows "store w' = store w"
proof -
  have read: "store w1 = store w" if "HintRepo_GetByID hid w = (r, w1)" for r w1
    using that by (cases r) (auto simp: HintRepo_GetByID_def bindE_Inl_iff mapErr_Inl_iff
        dest: sql_Inl_store HintRepo_GetByID_Inr [unfolded HintRepo_GetByID_def])
  from assms show ?thesis
    by (auto simp: Hint_UnlockHint_def bindE_Inl_iff bindE_Inr_iff mapErr_Inl_iff
        dest!: read unlock_transaction_Inl_store split: option.splits)
qed

lemma charged_score:
  "charged t cost d d' \<Longrightarrow>
   team_score d' t' = team_score d t' - (if t' = t \<and> 0 < cost then cost else 0)"
  by (auto simp: charged_def team_score_def team_award_points_append split: if_splits)

section \<open>Properties\<close>

text \<open>C8 A hint that is unlocked was not unlocked before by the team; a row records the unlock and, when
  the hint has a price, an award of the negated price that the score covered. Nothing else changes.\<close>

theorem UnlockHint_effect:
  assumes "Hint_UnlockHint uc t hid w = (Inr x, w')"
  shows "\<exists>r u. hint_row (store w) hid = Some r \<and> x = toEntityHint r \<and> unlock_of (store w) t hid = None \<and>
    hint_unlocks_team_id u = t \<and> hint_unlocks_hint_id u = hid \<and>
    (\<exists>as. store w' = (store w)\<lparr>awards := awards (store w) @ as, hint_unlocks := hint_unlocks (store w) @ [u]\<rparr> \<and>
       (if hints_cost r \<le> 0 then as = []
        else hints_cost r \<le> team_score (store w) t \<and>
          (\<exists>a. as = [a] \<and> awards_team_id a = t \<and> awards_value a = - hints_cost r)))"
proof -
  from UnlockHint_Inr [OF assms] obtain r d u where *: "hint_row (store w) hid = Some r" "x = toEntityHint r"
    "unlock_of (store w) t hid = None" "charged t (hints_cost r) (store w) d" "hint_unlocks_team_id u = t"
    "hint_unlocks_hint_id u = hid" "store w' = d\<lparr>hint_unlocks := hint_unlocks (store w) @ [u]\<rparr>" .
  have "\<exists>as. d = (store w)\<lparr>awards := awards (store w) @ as\<rparr> \<and>
       (if hints_cost r \<le> 0 then as = []
        else hints_cost r \<le> team_score (store w) t \<and>
          (\<exists>a. as = [a] \<and> awards_team_id a = t \<and> awards_value a = - hints_cost r))"
    using *(4) by (auto simp: charged_def split: if_splits)
  then show ?thesis using * by (intro exI [of _ r] exI [of _ u]) auto
qed

text \<open>C10 Unlocking a hint lowers the score of the team by its price and of no other team, and never below
  zero when there is a price.\<close>

theorem UnlockHint_score:
  assumes "Hint_UnlockHint uc t hid w = (Inr x, w')"
  shows "team_score (store w') t = team_score (store w) t - max 0 (hint_Cost x) \<and>
    (0 < hint_Cost x \<longrightarrow> 0 \<le> team_score (store w') t) \<and>
    (\<forall>t'. t' \<noteq> t \<longrightarrow> team_score (store w') t' = team_score (store w) t')"
proof -
  from UnlockHint_Inr [OF assms] obtain r d u where *: "x = toEntityHint r"
    "charged t (hints_cost r) (store w) d" "store w' = d\<lparr>hint_unlocks := hint_unlocks (store w) @ [u]\<rparr>" .
  show ?thesis
    using charged_score [OF *(2)] *(1,3) *(2) by (auto simp: toEntityHint_def charged_def)
qed

text \<open>Unlocking is all or nothing: when the call reports an error, at whatever step and with whatever
  failures of the rollback or the commit, neither the unlock nor the charge is in the database.\<close>

theorem UnlockHint_atomic:
  assumes "Hint_UnlockHint uc t hid w = (Inl e, w')"
  shows "store w' = store w"
  using assms by (rule UnlockHint_Inl_store)

text \<open>C17 The hints of a challenge are listed with their content for the team that unlocked them and without
  it for everybody else, and the list changes nothing.\<close>

theorem GetByChallengeID_hides:
  assumes "Hint_GetByChallengeID c tm w = (Inr hs, w')"
  shows "store w' = store w \<and>
    (\<forall>h \<in> set hs. (if hwu_Unlocked h
       then \<exists>t. tm = Some t \<and> unlock_of (store w) t (hint_ID (hwu_Hint h)) \<noteq> None
       else hint_Content (hwu_Hint h) = ''''))"
proof -
  from assms obtain hints1 w1 ids where 1: "HintRepo_GetByChallengeID c w = (Inr hints1, w1)"
    and 2: "(case tm of None \<Rightarrow> returnE []
        | Some t \<Rightarrow> mapErr (wrap ''HintUseCase - GetByChallengeID - GetUnlockedHintIDs'')
                      (HintUnlockRepo_GetUnlockedHintIDs t c)) w1 = (Inr ids, w')"
    and hs: "hs = map (hide_hint ids) hints1"
    by (auto simp: Hint_GetByChallengeID_def bindE_Inr_iff)
  have s1: "store w1 = store w"
    using 1 by (auto simp: HintRepo_GetByChallengeID_def bindE_Inr_iff sql_Inr_iff sqlc_GetHintsByChallengeID_def)
  have ids: "store w' = store w1 \<and> (\<forall>i \<in> set ids. \<exists>t. tm = Some t \<and> unlock_of (store w1) t i \<noteq> None)"
  proof (cases tm)
    case None
    then show ?thesis using 2 by auto
  next
    case (Some t)
    then show ?thesis using 2
      by (auto simp: HintUnlockRepo_GetUnlockedHintIDs_def sql_Inr_iff sqlc_GetUnlockedHintIDs_def
          unlock_of_None split: if_splits)
  qed
  then show ?thesis using s1 by (auto simp: hs hide_hint_def split: if_splits)
qed

section \<open>Witnesses\<close>

definition demo_hint_uc :: hint_uc where
  "demo_hint_uc = \<lparr>hu_uuid = (\<lambda>_. ''41''), hu_scoreboardCache = Some \<lparr>sc_cache = True, sc_getter = None\<rparr>\<rparr>"

definition demo_hint :: hint where
  "demo_hint = \<lparr>hint_ID = 41, hint_ChallengeID = 31, hint_Content = ''look'', hint_Cost = 50, hint_OrderIndex = 0\<rparr>"

definition demo_unlocked :: world where
  "demo_unlocked = snd (Hint_UnlockHint demo_hint_uc 12 41 demo_world)"

lemma demo_unlock_run: "Hint_UnlockHint demo_hint_uc 12 41 demo_world = (Inr demo_hint, demo_unlocked)"
proof -
  have "fst (Hint_UnlockHint demo_hint_uc 12 41 demo_world) = Inr demo_hint" by code_simp
  then show ?thesis by (simp add: prod_eq_iff demo_unlocked_def)
qed

theorem UnlockHint_effect_witness:
  "unlock_of demo_db 12 41 = None \<and> length (hint_unlocks (store demo_unlocked)) = 1"
  using UnlockHint_effect [OF demo_unlock_run]
  by (auto simp: demo_world_def world_of_def) (simp add: demo_db_def empty_db_def)

theorem UnlockHint_score_witness:
  "team_score (store demo_unlocked) 12 = team_score demo_db 12 - 50 \<and> 0 \<le> team_score (store demo_unlocked) 12"
  using UnlockHint_score [OF demo_unlock_run] by (simp add: demo_hint_def demo_world_def world_of_def)

theorem UnlockHint_atomic_witness:
  "store (snd (Hint_UnlockHint demo_hint_uc 12 41 demo_unlocked)) = store demo_unlocked"
proof -
  have "fst (Hint_UnlockHint demo_hint_uc 12 41 demo_unlocked) = Inl (Sentinel ErrHintAlreadyUnlocked)" by code_simp
  then have "Hint_UnlockHint demo_hint_uc 12 41 demo_unlocked = (Inl (Sentinel ErrHintAlreadyUnlocked),
      snd (Hint_UnlockHint demo_hint_uc 12 41 demo_unlocked))" by (simp add: prod_eq_iff)
  then show ?thesis by (rule UnlockHint_atomic)
qed

theorem GetByChallengeID_hides_witness:
  "hint_Content (hwu_Hint (hide_hint [] demo_hint)) = ''''"
proof -
  let ?m = "Hint_GetByChallengeID 31 (Some 11) demo_unlocked"
  have "fst ?m = Inr [hide_hint [] demo_hint]" by code_simp
  then have "?m = (Inr [hide_hint [] demo_hint], snd ?m)" by (simp add: prod_eq_iff)
  from GetByChallengeID_hides [OF this] show ?thesis by (simp add: hide_hint_def demo_hint_def)
qed

end
