(* ===== verification/CTF_Teams.thy ===== *)
theory CTF_Teams
  imports CTF_TeamStore
begin

text \<open>
  The team use case refines the abstract roster: a method that succeeds makes the step of its
  name on the roster of the database, one that fails leaves the database as it was. Every
  method is one request of \<open>team_exec\<close>; \<open>db_reach\<close> are the databases that sequences of
  requests lead to, whatever fails on the way, and inherit the invariants of the roster.
\<close>

section \<open>The roster of a database\<close>

lemma roster_of_cong: "users d = users d' \<Longrightarrow> teams d = teams d' \<Longrightarrow> roster_of d = roster_of d'"
  by (simp add: roster_of_def user_row_def live_team_def)

lemma user_row_set:
  "users_keys (users d) \<Longrightarrow> user_row d u = Some r \<longleftrightarrow> r \<in> set (users d) \<and> users_id r = u"
  by (auto simp: users_keys_def user_row_def dest: find_SomeD find_key_unique)

lemma live_team_set:
  assumes "teams_keys (teams d)"
  shows "live_team d t = Some r \<longleftrightarrow> r \<in> set (teams d) \<and> teams_id r = t \<and> teams_deleted_at r = None"
proof
  assume *: "r \<in> set (teams d) \<and> teams_id r = t \<and> teams_deleted_at r = None"
  then obtain r' where r': "live_team d t = Some r'"
    by (cases "live_team d t") (auto simp: live_team_def find_None_set)
  then have "r' = r"
    using assms * distinct_keys_eq [of teams_id "teams d" r' r]
    by (auto simp: teams_keys_def dest!: live_team_SomeD)
  with r' show "live_team d t = Some r" by simp
qed (auto dest: live_team_SomeD)

lemma r_members_of:
  assumes "users_keys (users d)"
  shows "r_members (roster_of d) t = users_id ` set (members_of d t)"
  using user_row_set [OF assms] by (auto simp: r_members_def members_of_def image_iff)

lemma card_r_members_of:
  assumes "users_keys (users d)"
  shows "card (r_members (roster_of d) t) = length (members_of d t)"
proof -
  have "distinct (map users_id (members_of d t))"
    using assms unfolding users_keys_def members_of_def by (simp add: distinct_map_filter)
  then show ?thesis
    by (metis r_members_of [OF assms] distinct_card length_map list.set_map)
qed

lemma roster_of_user_team:
  "users d = us \<Longrightarrow>
   roster_of (d\<lparr>users := upd_where (\<lambda>r. users_id r = u) (\<lambda>r. r\<lparr>users_team_id := t\<rparr>) us\<rparr>) =
     (roster_of d)\<lparr>r_team := (\<lambda>v. if v = u then map_option (\<lambda>_. t) (r_team (roster_of d) v)
                             else r_team (roster_of d) v)\<rparr>"
  by (rule roster.equality; simp; rule ext)
    (auto simp: user_row_def live_team_def find_upd_where option.map_comp comp_def)

lemma roster_of_soft_delete:
  "teams d = ts \<Longrightarrow>
   roster_of (d\<lparr>teams := upd_where (\<lambda>r. teams_id r = t \<and> live r)
      (\<lambda>r. r\<lparr>teams_deleted_at := Some now\<rparr>) ts\<rparr>) = drop_team (Some t) (roster_of d)"
  by (rule roster.equality; simp add: drop_team_def; rule ext)
    (auto simp: user_row_def live_team_def live_team_soft_delete)

lemma roster_of_captain:
  assumes "live_team d t = Some r" "teams d = ts"
  shows "roster_of (d\<lparr>teams := upd_where (\<lambda>r. teams_id r = t) (\<lambda>r. r\<lparr>teams_captain_id := c\<rparr>) ts\<rparr>) =
    (roster_of d)\<lparr>r_captain := (r_captain (roster_of d))(t \<mapsto> c)\<rparr>"
  using assms by (intro roster.equality; simp; intro ext)
    (auto simp: user_row_def live_team_def live_team_captain)

lemma roster_of_new_team:
  assumes "teams_deleted_at r = None" "\<not> team_exists (teams_id r) d" "teams d = ts"
  shows "roster_of (d\<lparr>teams := ts @ [r]\<rparr>) =
    (roster_of d)\<lparr>r_captain := (r_captain (roster_of d))(teams_id r \<mapsto> teams_captain_id r)\<rparr>"
  using assms by (intro roster.equality; simp; intro ext)
    (auto simp: user_row_def live_team_def find_append team_exists_def find_None_set image_iff
      split: option.splits dest!: find_SomeD)

lemma roster_of_audit [simp]: "roster_of (d\<lparr>team_audit_log := l\<rparr>) = roster_of d"
  by (rule roster_of_cong) auto

lemma roster_of_solves [simp]: "roster_of (d\<lparr>solves := l\<rparr>) = roster_of d"
  by (rule roster_of_cong) auto

lemma no_members_of_new_team:
  assumes "roster_schema d" "\<not> team_exists t d"
  shows "r_members (roster_of d) t = {}" "r_captain (roster_of d) t = None"
  using assms by (auto simp: r_members_def roster_schema_def member_fk_def
      dest!: user_row_SomeD live_team_exists)
    (metis live_team_exists option.exhaust)

section \<open>Cleaning up a solo team\<close>

lemma DeleteSolvesByTeamIDTx_Inr [effects]:
  "DeleteSolvesByTeamIDTx t w = (Inr x, w') \<Longrightarrow>
     store w' = (store w)\<lparr>solves := del_where (\<lambda>s. solves_team_id s = t) (solves (store w))\<rparr>"
  by (auto simp: DeleteSolvesByTeamIDTx_def sql_tx_Inr_iff sql_Inr_iff sqlc_DeleteSolvesByTeamID_def)

text \<open>What the cleanup found, and the database it left.\<close>

lemma handleSoloTeamCleanup_Inr:
  assumes "handleSoloTeamCleanup user t actor reset w = (Inr x, w')"
  obtains r m now row where
    "reset" "live_team (store w) t = Some r" "members_of (store w) t = [m]" "users_id m = user_ID user"
    "boolPtrToBool (teams_is_solo r) \<or> boolPtrToBool (teams_is_auto_created r)"
    "store w' = (store w)\<lparr>
       teams := upd_where (\<lambda>r. teams_id r = t \<and> live r) (\<lambda>r. r\<lparr>teams_deleted_at := Some now\<rparr>)
                  (teams (store w)),
       solves := del_where (\<lambda>s. solves_team_id s = t) (solves (store w)),
       team_audit_log := team_audit_log (store w) @ [row]\<rparr>"
    "team_audit_log_team_id row = t" "team_audit_log_user_id row = actor"
    "team_audit_log_action row = TeamActionDeleted"
proof -
  from assms obtain w1 w2 w3 w4 team ms where
    1: "GetTeamByIDTx t w = (Inr team, w1)" and
    2: "GetUsersByTeamIDTx t w1 = (Inr ms, w2)" and
    c: "shouldCleanupSoloTeam user ms team" "reset" and
    3: "SoftDeleteTeamTx t w2 = (Inr (), w3)" and
    4: "DeleteSolvesByTeamIDTx t w3 = (Inr (), w4)" and
    5: "CreateTeamAuditLogTx t actor TeamActionDeleted [(''reason'', JStr ''solo_team_cleanup'')] w4
          = (Inr x, w')"
    by (auto simp: handleSoloTeamCleanup_def bindE_Inr_iff)
  from 1 obtain r where r: "store w1 = store w" "live_team (store w) t = Some r"
    "team = toEntityTeamFromRow r" by (auto dest: GetTeamByIDTx_Inr)
  have ms: "store w2 = store w" "ms = map toEntityUser (members_of (store w) t)"
    using GetUsersByTeamIDTx_Inr [OF 2] r by auto
  obtain m where m: "members_of (store w) t = [m]" "users_id m = user_ID user"
    using c ms by (auto simp: shouldCleanupSoloTeam_def length_Suc_conv)
  show thesis
    using SoftDeleteTeamTx_Inr [OF 3] DeleteSolvesByTeamIDTx_Inr [OF 4] CreateTeamAuditLogTx_Inr [OF 5]
      r ms m c that [OF c(2) r(2) m]
    by (auto simp: shouldCleanupSoloTeam_def)
qed

text \<open>The optional cleanup of \<open>createTx\<close>, \<open>joinTx\<close> and \<open>createSoloTeamTx\<close>.\<close>

lemma cleanup_step:
  assumes run: "(case user_TeamID (toEntityUser r) of None \<Rightarrow> returnE ()
            | Some t \<Rightarrow> handleSoloTeamCleanup (toEntityUser r) t a reset) w = (Inr x, w')"
    and row: "user_row (store w) u = Some r" and ok: "roster_schema (store w)"
  shows "may_drop (roster_of (store w)) u (users_team_id r)"
    and "roster_of (store w') = drop_team (users_team_id r) (roster_of (store w))"
    and "roster_schema (store w')"
    and "users (store w') = users (store w)"
    and "\<And>i. team_exists i (store w') = team_exists i (store w)"
proof -
  have keys: "users_keys (users (store w))" using roster_schemaD [OF ok] by auto
  have id: "users_id r = u" using user_row_SomeD [OF row] by simp
  have *: "may_drop (roster_of (store w)) u (users_team_id r) \<and>
     roster_of (store w') = drop_team (users_team_id r) (roster_of (store w)) \<and>
     roster_schema (store w') \<and> users (store w') = users (store w) \<and>
     (\<forall>i. team_exists i (store w') = team_exists i (store w))"
  proof (cases "users_team_id r")
    case None
    then show ?thesis using run row ok by (auto simp: may_drop_def drop_team_def)
  next
    case (Some t)
    with run have h: "handleSoloTeamCleanup (toEntityUser r) t a reset w = (Inr x, w')" by simp
    then have schema: "roster_schema (store w')"
      using keepsD [OF schema.cleanup _ h] ok by simp
    from h obtain tr m now lrow where h:
      "live_team (store w) t = Some tr" "members_of (store w) t = [m]" "users_id m = u"
      "store w' = (store w)\<lparr>
       teams := upd_where (\<lambda>r. teams_id r = t \<and> live r) (\<lambda>r. r\<lparr>teams_deleted_at := Some now\<rparr>)
                  (teams (store w)),
       solves := del_where (\<lambda>s. solves_team_id s = t) (solves (store w)),
       team_audit_log := team_audit_log (store w) @ [lrow]\<rparr>"
      by (rule handleSoloTeamCleanup_Inr) (auto simp: id)
    have "map teams_id (teams (store w')) = map teams_id (teams (store w))"
      by (simp add: h map_upd_where_key)
    then have "team_exists i (store w') = team_exists i (store w)" for i
      by (metis team_exists_def set_map)
    moreover have "roster_of (store w') = drop_team (Some t) (roster_of (store w))"
      unfolding h(4) roster_of_audit roster_of_solves
      by (rule roster_of_soft_delete) simp
    ultimately show ?thesis
      using Some row schema h r_members_of [OF keys, of t] by (auto simp: may_drop_def)
  qed
  then show "may_drop (roster_of (store w)) u (users_team_id r)"
    "roster_of (store w') = drop_team (users_team_id r) (roster_of (store w))"
    "roster_schema (store w')" "users (store w') = users (store w)"
    "\<And>i. team_exists i (store w') = team_exists i (store w)" by auto
qed

section \<open>Guards and transactions\<close>

lemma CompetitionRepo_Get_Inr [effects]:
  "CompetitionRepo_Get w = (Inr c, w') \<Longrightarrow> store w' = store w \<and>
     (\<exists>r rs. filter (\<lambda>c. competition_id c = 1) (competition (store w)) = r # rs \<and>
        c = toEntityCompetition r)"
  by (auto simp: CompetitionRepo_Get_def bindE_Inr_iff sql_Inr_iff sqlc_GetCompetition_def
      select_one_Inr_iff)

lemma guards_store:
  "Guard_RequireTeamSwitch w = (Inr c, w') \<Longrightarrow> store w' = store w \<and> comp_AllowTeamSwitch c"
  "Guard_RequireTeamSwitchAndTeamsMode w = (Inr c, w') \<Longrightarrow>
     store w' = store w \<and> comp_AllowTeamSwitch c \<and> CompetitionMode_AllowsTeams (comp_Mode c)"
  "Guard_RequireTeamSwitchAndSoloMode w = (Inr c, w') \<Longrightarrow>
     store w' = store w \<and> comp_AllowTeamSwitch c \<and> CompetitionMode_AllowsSolo (comp_Mode c)"
  by (auto simp: Guard_RequireTeamSwitch_def Guard_RequireTeamSwitchAndTeamsMode_def
      Guard_RequireTeamSwitchAndSoloMode_def bindE_Inr_iff dest: CompetitionRepo_Get_Inr)

text \<open>A guarded transaction that succeeded ran its body on the database of the call.\<close>

lemma guarded_Inr:
  assumes "bindE (mapErr h g) (\<lambda>_. mapErr h' (run_transaction fn)) w = (Inr x, w')"
    and g: "\<And>c w1. g w = (Inr c, w1) \<Longrightarrow> store w1 = store w"
  obtains w1 w2 where "fn w1 = (Inr x, w2)" "store w1 = store w" "store w' = store w2"
proof -
  from assms(1) obtain c w0 where 0: "g w = (Inr c, w0)" "run_transaction fn w0 = (Inr x, w')"
    unfolding bindE_Inr_iff mapErr_Inr_iff by blast
  from 0(2) obtain w1 w2 where "fn w1 = (Inr x, w2)" "store w1 = store w0" "store w' = store w2"
    by (rule run_transaction_Inr)
  then show thesis using that g [OF 0(1)] by simp
qed

lemma guarded_plain_Inr:
  assumes "bindE (mapErr h g) (\<lambda>_. run_transaction fn) w = (Inr x, w')"
    and g: "\<And>c w1. g w = (Inr c, w1) \<Longrightarrow> store w1 = store w"
  obtains w1 w2 where "fn w1 = (Inr x, w2)" "store w1 = store w" "store w' = store w2"
proof -
  from assms(1) obtain c w0 where 0: "g w = (Inr c, w0)" "run_transaction fn w0 = (Inr x, w')"
    unfolding bindE_Inr_iff mapErr_Inr_iff by blast
  from 0(2) obtain w1 w2 where "fn w1 = (Inr x, w2)" "store w1 = store w0" "store w' = store w2"
    by (rule run_transaction_Inr)
  then show thesis using that g [OF 0(1)] by simp
qed

section \<open>Each transaction makes its step\<close>

text \<open>The end of \<open>createTx\<close> and \<open>createSoloTeamTx\<close>: a team is inserted and its captain moved in.\<close>

lemma found_team_step:
  assumes team: "CreateTeamTx (new_team name token u solo) w = (Inr team, w1)"
    and user: "UpdateUserTeamIDTx u (Some (team_ID team)) w1 = (Inr x, w2)"
    and log: "CreateTeamAuditLogTx (team_ID team) u a det w2 = (Inr y, w')"
    and s0: "roster_of (store w) = drop_team old s0" "may_drop s0 u old"
      "\<And>i. \<not> team_exists i (store w) \<Longrightarrow> r_members s0 i = {} \<and> r_captain s0 i = None"
  shows "roster_step n s0 (ECreate u (team_ID team)) (roster_of (store w'))"
proof -
  obtain row where row: "store w1 = (store w)\<lparr>teams := teams (store w) @ [row]\<rparr>"
    "\<not> team_exists (teams_id row) (store w)" "teams_deleted_at row = None"
    "teams_captain_id row = u" "team_ID team = teams_id row"
    using CreateTeamTx_Inr [OF team] by (auto simp: new_team_def)
  obtain lrow where lrow: "store w' = (store w2)\<lparr>team_audit_log := team_audit_log (store w2) @ [lrow]\<rparr>"
    using CreateTeamAuditLogTx_Inr [OF log] by auto
  let ?t = "team_ID team"
  have reg: "r_team s0 u = Some old" using s0(2) by (simp add: may_drop_def)
  have "roster_of (store w') = roster_of (store w2)" by (simp add: lrow)
  also have "\<dots> = (drop_team old s0)\<lparr>r_team := (r_team s0)(u \<mapsto> Some ?t),
      r_captain := (r_captain (drop_team old s0))(?t \<mapsto> u)\<rparr>"
  proof -
    have "roster_of (store w1) = (drop_team old s0)\<lparr>r_captain := (r_captain (drop_team old s0))(?t \<mapsto> u)\<rparr>"
      using row by (simp add: roster_of_new_team s0(1) del: roster_of_simps)
    then show ?thesis
      using UpdateUserTeamIDTx_Inr [OF user] reg
      by (auto simp: roster_of_user_team fun_eq_iff simp del: roster_of_simps)
  qed
  finally show ?thesis
    using row s0 by (auto intro: roster_step.create)
qed

lemma validateTeamNameAvailableTx_Inr [effects]:
  assumes "validateTeamNameAvailableTx name w = (Inr x, w')"
  shows "store w' = store w"
proof -
  from assms obtain r where "GetTeamByNameTx name w = (r, w')"
    by (cases "GetTeamByNameTx name w")
      (auto simp: validateTeamNameAvailableTx_def bindE_Inr_iff split: sum.splits if_splits)
  then show ?thesis by (rule GetTeamByNameTx_store)
qed

lemma createTx_step:
  assumes run: "createTx name u solo reset w = (Inr team, w')" and ok: "roster_schema (store w)"
  shows "roster_step n (roster_of (store w)) (ECreate u (team_ID team)) (roster_of (store w'))"
proof -
  from run obtain w1 w2 user w3 w4 token w5 w6 w7 where
    1: "LockUserTx u w = (Inr (), w1)" and 2: "validateTeamNameAvailableTx name w1 = (Inr (), w2)" and
    3: "UserRepo_GetByID u w2 = (Inr user, w3)" and
    4: "(case user_TeamID user of None \<Rightarrow> returnE ()
         | Some t \<Rightarrow> handleSoloTeamCleanup user t u reset) w3 = (Inr (), w4)" and
    5: "uuid_New w4 = (Inr token, w5)" and
    6: "CreateTeamTx (new_team name token u solo) w5 = (Inr team, w6)" and
    7: "UpdateUserTeamIDTx u (Some (team_ID team)) w6 = (Inr (), w7)" and
    8: "CreateTeamAuditLogTx (team_ID team) u TeamActionCreated [] w7 = (Inr (), w')"
    by (auto simp: createTx_def bindE_Inr_iff)
  have "store w1 = store w" using LockUserTx_Inr [OF 1] by simp
  moreover have "store w2 = store w1" using validateTeamNameAvailableTx_Inr [OF 2] .
  ultimately obtain r where r: "store w3 = store w" "user_row (store w3) u = Some r" "user = toEntityUser r"
    using UserRepo_GetByID_Inr [OF 3] by auto
  note c = cleanup_step [OF 4 [unfolded r(3)] r(2)] and w5 = uuid_New_store [OF 5]
  have ok3: "roster_schema (store w3)" using ok r by simp
  show ?thesis
    using found_team_step [OF 6 7 8, of "users_team_id r" "roster_of (store w3)"] c [OF ok3] w5 r(1)
      no_members_of_new_team [OF ok3] by auto
qed

lemma createSoloTeamTx_step:
  assumes run: "createSoloTeamTx u reset w = (Inr team, w')" and ok: "roster_schema (store w)"
  shows "roster_step n (roster_of (store w)) (ECreate u (team_ID team)) (roster_of (store w'))"
proof -
  from run obtain w1 user w3 w4 token w5 w5' nm res w6 w7 where
    1: "LockUserTx u w = (Inr (), w1)" and
    3: "UserRepo_GetByID u w1 = (Inr user, w3)" and
    4: "(case user_TeamID user of None \<Rightarrow> returnE ()
         | Some t \<Rightarrow> handleSoloTeamCleanup user t u reset) w3 = (Inr (), w4)" and
    5: "uuid_New w4 = (Inr token, w5)" "GetTeamByNameTx (user_Username user) w5 = (res, w5')" and
    6: "CreateTeamTx (new_team nm token u True) w5' = (Inr team, w6)" and
    7: "UpdateUserTeamIDTx u (Some (team_ID team)) w6 = (Inr (), w7)" and
    8: "CreateTeamAuditLogTx (team_ID team) u TeamActionCreated [(''mode'', JStr ''solo'')] w7 = (Inr (), w')"
    by (auto simp: createSoloTeamTx_def bindE_Inr_iff Let_def)
  have "store w1 = store w" using LockUserTx_Inr [OF 1] by simp
  then obtain r where r: "store w3 = store w" "user_row (store w3) u = Some r" "user = toEntityUser r"
    using UserRepo_GetByID_Inr [OF 3] by auto
  have w5: "store w5' = store w4"
    using uuid_New_store [OF 5(1)] GetTeamByNameTx_store [OF 5(2)] by simp
  have ok3: "roster_schema (store w3)" using ok r by simp
  show ?thesis
    using found_team_step [OF 6 7 8, of "users_team_id r" "roster_of (store w3)"] w5 r(1)
      cleanup_step [OF 4 [unfolded r(3)] r(2) ok3] no_members_of_new_team [OF ok3] by auto
qed

lemma joinTx_step:
  assumes run: "joinTx uc tok u reset w = (Inr team, w')" and ok: "roster_schema (store w)"
  shows "roster_step (nat (tu_maxTeamSize uc)) (roster_of (store w)) (EJoin u (team_ID team))
    (roster_of (store w'))"
proof -
  from run obtain w1 w2 w3 ms w4 user w5 w6 w7 where
    1: "LockUserTx u w = (Inr (), w1)" and 2: "GetTeamByInviteTokenTx tok w1 = (Inr team, w2)" and
    3: "LockTeamTx (team_ID team) w2 = (Inr (), w3)" and
    4: "GetUsersByTeamIDTx (team_ID team) w3 = (Inr ms, w4)" and
    size: "\<not> int (length ms) \<ge> tu_maxTeamSize uc" and
    5: "UserRepo_GetByID u w4 = (Inr user, w5)" and
    6: "(case user_TeamID user of None \<Rightarrow> returnE ()
         | Some t \<Rightarrow> handleSoloTeamCleanup user t u reset) w5 = (Inr (), w6)" and
    7: "UpdateUserTeamIDTx u (Some (team_ID team)) w6 = (Inr (), w7)" and
    8: "CreateTeamAuditLogTx (team_ID team) u TeamActionJoined [] w7 = (Inr (), w')"
    by (auto simp: joinTx_def bindE_Inr_iff)
  let ?s = "roster_of (store w)" and ?t = "team_ID team"
  have w2: "store w2 = store w" using LockUserTx_Inr [OF 1] GetTeamByInviteTokenTx_Inr [OF 2] by auto
  obtain tr where tr: "tr \<in> set (teams (store w))" "teams_deleted_at tr = None" "team = toEntityTeamFromRow tr"
    using LockUserTx_Inr [OF 1] GetTeamByInviteTokenTx_Inr [OF 2] by auto
  have live: "live_team (store w) ?t = Some tr"
    using live_team_set [OF roster_schemaD(2) [OF ok]] tr by simp
  have ms: "ms = map toEntityUser (members_of (store w) ?t)" "store w4 = store w"
    using LockTeamTx_Inr [OF 3] GetUsersByTeamIDTx_Inr [OF 4] w2 by auto
  obtain r where r: "store w5 = store w" "user_row (store w5) u = Some r" "user = toEntityUser r"
    using UserRepo_GetByID_Inr [OF 5] ms by auto
  have ok5: "roster_schema (store w5)" using ok r by simp
  note c = cleanup_step [OF 6 [unfolded r(3)] r(2) ok5]
  have reg: "r_team ?s u = Some (users_team_id r)" using c(1) r(1) by (simp add: may_drop_def)
  obtain lrow where lrow: "store w' = (store w7)\<lparr>team_audit_log := team_audit_log (store w7) @ [lrow]\<rparr>"
    using CreateTeamAuditLogTx_Inr [OF 8] by auto
  have "roster_of (store w') = roster_of (store w7)" by (simp add: lrow)
  also have "\<dots> = (drop_team (users_team_id r) ?s)\<lparr>r_team := (r_team ?s)(u \<mapsto> Some ?t)\<rparr>"
    using UpdateUserTeamIDTx_Inr [OF 7] reg c(2) r(1)
    by (auto simp: roster_of_user_team fun_eq_iff simp del: roster_of_simps)
  finally have "roster_of (store w') = \<dots>" .
  moreover have "card (r_members ?s ?t) < nat (tu_maxTeamSize uc)"
    using size ms by (simp add: card_r_members_of roster_schemaD(1) [OF ok])
  ultimately show ?thesis
    using c(1) r(1) live by (auto intro!: roster_step.join)
qed

lemma leaveTx_step:
  assumes run: "leaveTx u w = (Inr x, w')" and ok: "roster_schema (store w)"
  shows "roster_step n (roster_of (store w)) (ELeave u) (roster_of (store w'))"
proof -
  from run obtain w1 user t w2 w3 team w4 ms w5 w6 where
    1: "LockUserTx u w = (Inr (), w1)" and 2: "UserRepo_GetByID u w1 = (Inr user, w2)" and
    t: "user_TeamID user = Some t" and
    3: "LockTeamTx t w2 = (Inr (), w3)" and 4: "TeamRepo_GetByID t w3 = (Inr team, w4)" and
    5: "GetUsersByTeamIDTx t w4 = (Inr ms, w5)" and
    c: "team_CaptainID team \<noteq> user_ID user" and
    6: "UpdateUserTeamIDTx u None w5 = (Inr (), w6)" and
    7: "CreateTeamAuditLogTx (team_ID team) u TeamActionLeft [] w6 = (Inr (), w')"
    by (auto simp: leaveTx_def leavePrepare_def leaveValidate_def leaveExecute_def bindE_Inr_iff
        split: option.splits)
  obtain r tr where r: "store w5 = store w" "user_row (store w) u = Some r" "user = toEntityUser r"
    "live_team (store w) t = Some tr" "team = toEntityTeamFromRow tr"
    using LockUserTx_Inr [OF 1] UserRepo_GetByID_Inr [OF 2] LockTeamTx_Inr [OF 3]
      TeamRepo_GetByID_Inr [OF 4] GetUsersByTeamIDTx_Inr [OF 5] by auto
  obtain lrow where lrow: "store w' = (store w6)\<lparr>team_audit_log := team_audit_log (store w6) @ [lrow]\<rparr>"
    using CreateTeamAuditLogTx_Inr [OF 7] by auto
  have "roster_of (store w') =
      (roster_of (store w))\<lparr>r_team := (r_team (roster_of (store w)))(u \<mapsto> None)\<rparr>"
    using UpdateUserTeamIDTx_Inr [OF 6] r by (auto simp: lrow roster_of_user_team fun_eq_iff)
  moreover have "users_id r = u" using r user_row_SomeD by blast
  ultimately show ?thesis
    using r c t by (auto intro!: roster_step.leave [of _ _ t "teams_captain_id tr"])
qed

lemma transferCaptainTx_step:
  assumes run: "transferCaptainTx c u w = (Inr x, w')" and ok: "roster_schema (store w)"
  shows "roster_step n (roster_of (store w)) (ETransfer c u) (roster_of (store w'))"
proof -
  from run obtain w1 cap t w2 w3 team w4 new w5 w6 where
    1: "LockUserTx c w = (Inr (), w1)" and 2: "UserRepo_GetByID c w1 = (Inr cap, w2)" and
    3: "LockTeamTx t w2 = (Inr (), w3)" and 4: "TeamRepo_GetByID t w3 = (Inr team, w4)" and
    5: "UserRepo_GetByID u w4 = (Inr new, w5)" and
    v: "team_CaptainID team = c" "user_TeamID new = Some (team_ID team)" and
    6: "UpdateTeamCaptainTx (team_ID team) u w5 = (Inr (), w6)" and
    7: "CreateTeamAuditLogTx (team_ID team) c TeamActionCaptainTransfer
          [(''from'', JUuid c), (''to'', JUuid u)] w6 = (Inr (), w')"
    by (auto simp: transferCaptainTx_def transferCaptainPrepare_def transferCaptainValidate_def
        transferCaptainExecute_def bindE_Inr_iff split: option.splits)
  obtain r tr where r: "store w5 = store w" "user_row (store w) u = Some r" "new = toEntityUser r"
    "live_team (store w) t = Some tr" "team = toEntityTeamFromRow tr"
    using LockUserTx_Inr [OF 1] UserRepo_GetByID_Inr [OF 2] LockTeamTx_Inr [OF 3]
      TeamRepo_GetByID_Inr [OF 4] UserRepo_GetByID_Inr [OF 5] by auto
  have t: "teams_id tr = t" using live_team_SomeD [OF r(4)] by simp
  obtain lrow where lrow: "store w' = (store w6)\<lparr>team_audit_log := team_audit_log (store w6) @ [lrow]\<rparr>"
    using CreateTeamAuditLogTx_Inr [OF 7] by auto
  have "roster_of (store w') =
      (roster_of (store w))\<lparr>r_captain := (r_captain (roster_of (store w)))(t \<mapsto> u)\<rparr>"
    using UpdateTeamCaptainTx_Inr [OF 6] r t
    by (auto simp: lrow roster_of_captain [OF r(4)] simp del: roster_of_simps)
  then show ?thesis
    using r v t by (auto intro!: roster_step.transfer)
qed

lemma kickMemberTx_step:
  assumes run: "kickMemberTx c u w = (Inr x, w')" and ok: "roster_schema (store w)" and ne: "c \<noteq> u"
  shows "roster_step n (roster_of (store w)) (EKick c u) (roster_of (store w'))"
proof -
  from run obtain w1 cap t w2 w3 team w4 tgt w5 w6 where
    1: "LockUserTx c w = (Inr (), w1)" and 2: "UserRepo_GetByID c w1 = (Inr cap, w2)" and
    3: "LockTeamTx t w2 = (Inr (), w3)" and 4: "TeamRepo_GetByID t w3 = (Inr team, w4)" and
    5: "UserRepo_GetByID u w4 = (Inr tgt, w5)" and
    v: "team_CaptainID team = c" "user_TeamID tgt = Some (team_ID team)" and
    6: "UpdateUserTeamIDTx u None w5 = (Inr (), w6)" and
    7: "CreateTeamAuditLogTx (team_ID team) c TeamActionMemberKicked
          [(''target_user_id'', JUuid u)] w6 = (Inr x, w')"
    by (auto simp: kickMemberTx_def kickMemberPrepare_def kickMemberValidate_def
        kickMemberExecute_def bindE_Inr_iff split: option.splits)
  obtain r tr where r: "store w5 = store w" "user_row (store w) u = Some r" "tgt = toEntityUser r"
    "live_team (store w) t = Some tr" "team = toEntityTeamFromRow tr"
    using LockUserTx_Inr [OF 1] UserRepo_GetByID_Inr [OF 2] LockTeamTx_Inr [OF 3]
      TeamRepo_GetByID_Inr [OF 4] UserRepo_GetByID_Inr [OF 5] by auto
  have t: "teams_id tr = t" using live_team_SomeD [OF r(4)] by simp
  obtain lrow where lrow: "store w' = (store w6)\<lparr>team_audit_log := team_audit_log (store w6) @ [lrow]\<rparr>"
    using CreateTeamAuditLogTx_Inr [OF 7] by auto
  have "roster_of (store w') =
      (roster_of (store w))\<lparr>r_team := (r_team (roster_of (store w)))(u \<mapsto> None)\<rparr>"
    using UpdateUserTeamIDTx_Inr [OF 6] r by (auto simp: lrow roster_of_user_team fun_eq_iff)
  then show ?thesis
    using r v t ne by (auto intro!: roster_step.kick [of _ t])
qed

text \<open>The loop of \<open>disbandExecute\<close> clears the team of every listed member.\<close>

lemma clear_members_Inr:
  assumes "forE ms (\<lambda>m. mapErr (wrap msg) (UpdateUserTeamIDTx (user_ID m) None)) w = (Inr x, w')"
  shows "store w' = (store w)\<lparr>users := upd_where (\<lambda>r. users_id r \<in> user_ID ` set ms)
           (\<lambda>r. r\<lparr>users_team_id := None\<rparr>) (users (store w))\<rparr>"
  using assms
proof (induction ms arbitrary: w)
  case Nil
  then show ?case by (auto simp: upd_where_def)
next
  case (Cons m ms)
  then obtain w1 where 1: "UpdateUserTeamIDTx (user_ID m) None w = (Inr (), w1)"
    and 2: "forE ms (\<lambda>m. mapErr (wrap msg) (UpdateUserTeamIDTx (user_ID m) None)) w1 = (Inr x, w')"
    by (auto simp: bindE_Inr_iff)
  show ?case
    using Cons.IH [OF 2] UpdateUserTeamIDTx_Inr [OF 1]
    by (auto simp: upd_where_def comp_def intro!: map_cong)
qed

lemma find_clear_members:
  "find (\<lambda>r. users_id r = v) (upd_where (\<lambda>r. users_id r \<in> U) (\<lambda>r. r\<lparr>users_team_id := None\<rparr>) us) =
     (if v \<in> U then map_option (\<lambda>r. r\<lparr>users_team_id := None\<rparr>) (find (\<lambda>r. users_id r = v) us)
      else find (\<lambda>r. users_id r = v) us)"
  by (induction us) auto

lemma disbandTeamTx_step:
  assumes run: "disbandTeamTx c w = (Inr x, w')" and ok: "roster_schema (store w)"
  shows "roster_step n (roster_of (store w)) (EDisband c) (roster_of (store w'))"
proof -
  from run obtain w1 cap t w2 w3 team w4 ms w5 w6 w7 where
    1: "LockUserTx c w = (Inr (), w1)" and 2: "UserRepo_GetByID c w1 = (Inr cap, w2)" and
    3: "LockTeamTx t w2 = (Inr (), w3)" and 4: "TeamRepo_GetByID t w3 = (Inr team, w4)" and
    5: "GetUsersByTeamIDTx (team_ID team) w4 = (Inr ms, w5)" and
    v: "team_CaptainID team = c" and
    6: "SoftDeleteTeamTx (team_ID team) w5 = (Inr (), w6)" and
    7: "forE ms (\<lambda>member. mapErr (wrap ''UpdateUserTeamIDTx member'')
          (UpdateUserTeamIDTx (user_ID member) None)) w6 = (Inr (), w7)" and
    8: "CreateTeamAuditLogTx (team_ID team) c TeamActionDeleted
          [(''reason'', JStr ''disbanded_by_captain'')] w7 = (Inr x, w')"
    by (auto simp: disbandTeamTx_def disbandPrepare_def disbandValidate_def disbandExecute_def
        bindE_Inr_iff split: option.splits)
  obtain tr where r: "store w4 = store w" "live_team (store w) t = Some tr"
    "team = toEntityTeamFromRow tr"
    using LockUserTx_Inr [OF 1] UserRepo_GetByID_Inr [OF 2] LockTeamTx_Inr [OF 3]
      TeamRepo_GetByID_Inr [OF 4] by auto
  have t: "teams_id tr = t" using live_team_SomeD [OF r(2)] by simp
  let ?d = "store w"
  have ms: "user_ID ` set ms = users_id ` set (members_of ?d t)" and w5: "store w5 = ?d"
    using GetUsersByTeamIDTx_Inr [OF 5] r t by (auto simp: image_image)
  obtain now where w6: "store w6 = ?d\<lparr>teams := upd_where (\<lambda>r. teams_id r = t \<and> live r)
        (\<lambda>r. r\<lparr>teams_deleted_at := Some now\<rparr>) (teams ?d)\<rparr>"
    using SoftDeleteTeamTx_Inr [OF 6] w5 r t by auto
  have w7: "store w7 = (store w6)\<lparr>users := upd_where (\<lambda>r. users_id r \<in> users_id ` set (members_of ?d t))
           (\<lambda>r. r\<lparr>users_team_id := None\<rparr>) (users (store w6))\<rparr>"
    using clear_members_Inr [OF 7] ms by simp
  obtain lrow where w': "store w' = (store w7)\<lparr>team_audit_log := team_audit_log (store w7) @ [lrow]\<rparr>"
    using CreateTeamAuditLogTx_Inr [OF 8] by auto
  have keys: "users_keys (users ?d)" using roster_schemaD [OF ok] by simp
  have mem: "v \<in> users_id ` set (members_of ?d t) \<longleftrightarrow> (\<exists>r. user_row ?d v = Some r \<and> users_team_id r = Some t)" for v
    using user_row_set [OF keys] by (auto simp: members_of_def image_iff)
  have "r_captain (roster_of (store w')) = (r_captain (roster_of ?d))(t := None)"
    by (rule ext) (simp add: w' w7 w6 live_team_def live_team_soft_delete)
  moreover have "r_team (roster_of (store w')) v =
      (if r_team (roster_of ?d) v = Some (Some t) then Some None else r_team (roster_of ?d) v)" for v
  proof -
    have "user_row (store w') v = (if v \<in> users_id ` set (members_of ?d t)
        then map_option (\<lambda>r. r\<lparr>users_team_id := None\<rparr>) (user_row ?d v) else user_row ?d v)"
      by (simp add: w' w7 user_row_def w6 find_clear_members)
    then show ?thesis using mem [of v] by (auto split: if_splits)
  qed
  ultimately have "roster_of (store w') = (roster_of ?d)\<lparr>r_captain := (r_captain (roster_of ?d))(t := None),
      r_team := (\<lambda>u. if r_team (roster_of ?d) u = Some (Some t) then Some None else r_team (roster_of ?d) u)\<rparr>"
    by (intro roster.equality) (simp_all add: fun_eq_iff)
  moreover have "r_captain (roster_of ?d) t = Some c" using r v by simp
  ultimately show ?thesis by (simp only:) (rule roster_step.disband)
qed

section \<open>Registration and purge\<close>

lemma UserRepo_Create_Inr:
  assumes "UserRepo_Create u w = (Inr x, w')"
  obtains row where "store w' = (store w)\<lparr>users := users (store w) @ [row]\<rparr>"
    "\<not> user_exists (users_id row) (store w)" "users_team_id row = None" "user_ID x = users_id row"
    "users_username row \<notin> users_username ` set (users (store w))"
    "users_email row \<notin> users_email ` set (users (store w))"
proof -
  from assms have "\<exists>row. store w' = (store w)\<lparr>users := users (store w) @ [row]\<rparr> \<and>
    \<not> user_exists (users_id row) (store w) \<and> users_team_id row = None \<and> user_ID x = users_id row \<and>
    users_username row \<notin> users_username ` set (users (store w)) \<and>
    users_email row \<notin> users_email ` set (users (store w))"
    apply (clarsimp simp: UserRepo_Create_def Let_def bindE_Inr_iff sql_Inr_iff sqlc_CreateUser_def
        users_insert_def nowE_Inr_iff uuid_New_Inr_iff list_ex_iff split: if_splits)
    subgoal by (rule exI, rule conjI, rule refl) (auto simp: user_exists_def)
    subgoal by (rule exI, rule conjI, rule refl) (auto simp: user_exists_def)
    done
  then show thesis using that by blast
qed

lemma UserRepo_Create_step:
  assumes "UserRepo_Create u w = (Inr x, w')"
  shows "roster_step n (roster_of (store w)) (ERegister (user_ID x)) (roster_of (store w'))"
  using assms
proof (rule UserRepo_Create_Inr)
  fix row assume row: "store w' = (store w)\<lparr>users := users (store w) @ [row]\<rparr>"
    "\<not> user_exists (users_id row) (store w)" "users_team_id row = None" "user_ID x = users_id row"
  have None: "user_row (store w) (users_id row) = None" using row by (simp add: user_row_None)
  have "roster_of (store w') = (roster_of (store w))\<lparr>r_team := (r_team (roster_of (store w)))(users_id row \<mapsto> None)\<rparr>"
    using row None by (intro roster.equality; simp; intro ext)
      (auto simp: user_row_def live_team_def find_append split: option.splits)
  then show ?thesis using row None by (auto intro!: roster_step.register)
qed

definition purged :: "time \<Rightarrow> db \<Rightarrow> uuid set" where
  "purged cutoff d =
     set (map teams_id (filter (\<lambda>t. case teams_deleted_at t of None \<Rightarrow> False | Some t \<Rightarrow> t < cutoff) (teams d)))"

lemma TeamRepo_HardDeleteTeams_Inr:
  "TeamRepo_HardDeleteTeams cutoff w = (Inr x, w') \<Longrightarrow>
     store w' = delete_teams_cascade (purged cutoff (store w)) (store w)"
  by (auto simp: TeamRepo_HardDeleteTeams_def sql_Inr_iff sqlc_HardDeleteTeamsBefore_def purged_def)

lemma purged_not_live:
  assumes "teams_keys (teams d)" "t \<in> purged cutoff d"
  shows "live_team d t = None"
proof (rule ccontr)
  assume "live_team d t \<noteq> None"
  then obtain r where r: "r \<in> set (teams d)" "teams_id r = t" "teams_deleted_at r = None"
    by (auto dest: live_team_SomeD)
  from assms(2) obtain r' at' where "r' \<in> set (teams d)" "teams_id r' = t" "teams_deleted_at r' = Some at'"
    by (auto simp: purged_def split: option.splits)
  then show False
    using r distinct_keys_eq [of teams_id "teams d" r r'] assms(1) by (auto simp: teams_keys_def)
qed

lemma find_del_where_other:
  "(\<And>r. r \<in> set rows \<Longrightarrow> P r \<Longrightarrow> \<not> Q r) \<Longrightarrow> find Q (del_where P rows) = find Q rows"
  by (induction rows) auto

lemma TeamRepo_HardDeleteTeams_step:
  assumes "TeamRepo_HardDeleteTeams cutoff w = (Inr x, w')" and ok: "roster_schema (store w)"
  shows "roster_step n (roster_of (store w)) (EPurge (purged cutoff (store w))) (roster_of (store w'))"
proof -
  let ?d = "store w" and ?T = "purged cutoff (store w)"
  have tk: "teams_keys (teams ?d)" using roster_schemaD [OF ok] by simp
  have w': "store w' = delete_teams_cascade ?T ?d" using TeamRepo_HardDeleteTeams_Inr [OF assms(1)] .
  have "live_team (store w') t = live_team ?d t" for t
  proof -
    have "find (\<lambda>r. teams_id r = t \<and> live r) (del_where (\<lambda>t. teams_id t \<in> ?T) (teams ?d)) =
        find (\<lambda>r. teams_id r = t \<and> live r) (teams ?d)"
    proof (rule find_del_where_other)
      fix r assume "r \<in> set (teams ?d)" "teams_id r \<in> ?T"
      then show "\<not> (teams_id r = t \<and> live r)"
        using purged_not_live [OF tk, of "teams_id r" cutoff] live_team_set [OF tk, of "teams_id r" r] by auto
    qed
    then show ?thesis by (simp add: w' delete_teams_cascade_def live_team_def)
  qed
  moreover have "user_row (store w') u = map_option (\<lambda>r. if (case users_team_id r of None \<Rightarrow> False | Some t \<Rightarrow> t \<in> ?T)
      then r\<lparr>users_team_id := None\<rparr> else r) (user_row ?d u)" for u
  proof -
    have "find (\<lambda>r. users_id r = u) (upd_where P (\<lambda>r. r\<lparr>users_team_id := None\<rparr>) us) =
        map_option (\<lambda>r. if P r then r\<lparr>users_team_id := None\<rparr> else r) (find (\<lambda>r. users_id r = u) us)" for P us
      by (induction us) auto
    then show ?thesis by (simp add: w' delete_teams_cascade_def user_row_def)
  qed
  ultimately have "roster_of (store w') = (roster_of ?d)\<lparr>r_team :=
     (\<lambda>u. case r_team (roster_of ?d) u of Some (Some t) \<Rightarrow> if t \<in> ?T then Some None else Some (Some t) | x \<Rightarrow> x)\<rparr>"
    by (intro roster.equality; simp; intro ext)
      (auto split: option.splits)
  then show ?thesis by (simp only:) (rule roster_step.purge, simp add: purged_not_live [OF tk])
qed

section \<open>Requests\<close>

datatype team_request =
    QRegister user
  | QCreate string uuid bool bool
  | QTryCreate string uuid bool
  | QCreateSolo uuid bool
  | QJoin uuid uuid bool
  | QLeave uuid
  | QTransfer uuid uuid
  | QDisband uuid
  | QKick uuid uuid
  | QBan uuid string
  | QUnban uuid
  | QHidden uuid bool
  | QBracket uuid "uuid option"
  | QPurge time

text \<open>A request, with the event of the roster that its answer stands for.\<close>

fun team_exec :: "team_uc \<Rightarrow> team_request \<Rightarrow> roster_event op" where
  "team_exec uc (QRegister u) = bindE (UserRepo_Create u) (\<lambda>u. returnE (ERegister (user_ID u)))"
| "team_exec uc (QCreate name u solo reset) =
     bindE (Team_Create name u solo reset) (\<lambda>t. returnE (ECreate u (team_ID t)))"
| "team_exec uc (QTryCreate name u solo) =
     bindE (Team_TryCreate name u solo) (\<lambda>r. returnE
       (case res_Team r of None \<Rightarrow> EIdle | Some t \<Rightarrow> ECreate u (team_ID t)))"
| "team_exec uc (QCreateSolo u reset) =
     bindE (Team_CreateSoloTeam u reset) (\<lambda>t. returnE (ECreate u (team_ID t)))"
| "team_exec uc (QJoin tok u reset) =
     bindE (Team_Join uc tok u reset) (\<lambda>t. returnE (EJoin u (team_ID t)))"
| "team_exec uc (QLeave u) = bindE (Team_Leave u) (\<lambda>_. returnE (ELeave u))"
| "team_exec uc (QTransfer c u) = bindE (Team_TransferCaptain c u) (\<lambda>_. returnE (ETransfer c u))"
| "team_exec uc (QDisband c) = bindE (Team_DisbandTeam c) (\<lambda>_. returnE (EDisband c))"
| "team_exec uc (QKick c u) = bindE (Team_KickMember c u) (\<lambda>_. returnE (EKick c u))"
| "team_exec uc (QBan t reason) = bindE (Team_BanTeam uc t reason) (\<lambda>_. returnE EIdle)"
| "team_exec uc (QUnban t) = bindE (Team_UnbanTeam uc t) (\<lambda>_. returnE EIdle)"
| "team_exec uc (QHidden t h) = bindE (Team_SetHidden uc t h) (\<lambda>_. returnE EIdle)"
| "team_exec uc (QBracket t b) = bindE (Team_SetBracket uc t b) (\<lambda>_. returnE EIdle)"
| "team_exec uc (QPurge cutoff) =
     bindE (asksE (\<lambda>w. purged cutoff (store w))) (\<lambda>T.
     bindE (TeamRepo_HardDeleteTeams cutoff) (\<lambda>_. returnE (EPurge T)))"

fun_cases team_exec_joinE: "team_exec uc (QJoin tok u reset) = m"

text \<open>The databases that a sequence of requests leads to, each in a world of its own.\<close>

inductive team_run :: "team_uc \<Rightarrow> db \<Rightarrow> db \<Rightarrow> bool" for uc where
  start: "team_run uc d d"
| more: "team_run uc d (store w) \<Longrightarrow> team_exec uc q w = (r, w') \<Longrightarrow> team_run uc d (store w')"

section \<open>Errors\<close>

lemma repo_Inl_store:
  "UserRepo_GetByID u w = (Inl e, w') \<Longrightarrow> store w' = store w"
  "TeamRepo_GetByID t w = (Inl e, w') \<Longrightarrow> store w' = store w"
  "CompetitionRepo_Get w = (Inl e, w') \<Longrightarrow> store w' = store w"
  "UserRepo_Create usr w = (Inl e, w') \<Longrightarrow> store w' = store w"
  "TeamRepo_Ban t reason w = (Inl e, w') \<Longrightarrow> store w' = store w"
  "TeamRepo_Unban t w = (Inl e, w') \<Longrightarrow> store w' = store w"
  "TeamRepo_SetHidden t h w = (Inl e, w') \<Longrightarrow> store w' = store w"
  "TeamRepo_SetBracket t b w = (Inl e, w') \<Longrightarrow> store w' = store w"
  "TeamRepo_HardDeleteTeams cutoff w = (Inl e, w') \<Longrightarrow> store w' = store w"
  by (auto simp: UserRepo_GetByID_def TeamRepo_GetByID_def CompetitionRepo_Get_def UserRepo_Create_def
      TeamRepo_Ban_def TeamRepo_Unban_def TeamRepo_SetHidden_def TeamRepo_SetBracket_def
      TeamRepo_HardDeleteTeams_def Let_def bindE_Inl_iff mapErr_Inl_iff nowE_Inr_iff uuid_New_Inr_iff
      dest!: sql_Inl_store split: if_splits)

lemma team_switch_Inl_store: "Guard_RequireTeamSwitch w = (Inl e, w') \<Longrightarrow> store w' = store w"
  by (auto simp: Guard_RequireTeamSwitch_def bindE_Inl_iff dest!: repo_Inl_store CompetitionRepo_Get_Inr)

lemma guards_Inl_store:
  "Guard_RequireTeamSwitchAndTeamsMode w = (Inl e, w') \<Longrightarrow> store w' = store w"
  "Guard_RequireTeamSwitchAndSoloMode w = (Inl e, w') \<Longrightarrow> store w' = store w"
  by (auto simp: Guard_RequireTeamSwitchAndTeamsMode_def
      Guard_RequireTeamSwitchAndSoloMode_def bindE_Inl_iff dest!: team_switch_Inl_store
      guards_store)

lemma invalidate_total: "invalidateScoreboardCache uc w \<noteq> (Inl e, w')"
  by (auto simp: invalidateScoreboardCache_def InvalidateAll_def Cache_Del_def split: option.splits)

lemma invalidate_store: "invalidateScoreboardCache uc w = (r, w') \<Longrightarrow> store w' = store w"
  by (auto simp: invalidateScoreboardCache_def InvalidateAll_def Cache_Del_def
      dest: redis_calls_store split: option.splits if_splits)

lemmas team_methods_def = Team_Create_def Team_CreateSoloTeam_def Team_Join_def Team_Leave_def
  Team_TransferCaptain_def Team_DisbandTeam_def Team_KickMember_def Team_BanTeam_def Team_UnbanTeam_def
  Team_SetHidden_def Team_SetBracket_def

lemma team_method_Inl_store:
  "Team_Create name u solo reset w = (Inl e, w') \<Longrightarrow> store w' = store w"
  "Team_CreateSoloTeam u reset w = (Inl e, w') \<Longrightarrow> store w' = store w"
  "Team_Join uc tok u reset w = (Inl e, w') \<Longrightarrow> store w' = store w"
  "Team_Leave u w = (Inl e, w') \<Longrightarrow> store w' = store w"
  "Team_TransferCaptain c u w = (Inl e, w') \<Longrightarrow> store w' = store w"
  "Team_DisbandTeam c w = (Inl e, w') \<Longrightarrow> store w' = store w"
  "Team_KickMember c u w = (Inl e, w') \<Longrightarrow> store w' = store w"
  "Team_BanTeam uc t reason w = (Inl e, w') \<Longrightarrow> store w' = store w"
  "Team_UnbanTeam uc t w = (Inl e, w') \<Longrightarrow> store w' = store w"
  "Team_SetHidden uc t h w = (Inl e, w') \<Longrightarrow> store w' = store w"
  "Team_SetBracket uc t b w = (Inl e, w') \<Longrightarrow> store w' = store w"
  by (auto simp: team_methods_def bindE_Inl_iff mapErr_Inl_iff invalidate_total
      dest!: guards_store team_switch_Inl_store guards_Inl_store run_transaction_Inl_store repo_Inl_store TeamRepo_GetByID_Inr)

section \<open>Administration keeps the roster\<close>

lemma roster_of_upd_live:
  assumes "\<And>r. teams_id (f r) = teams_id r" "\<And>r. teams_captain_id (f r) = teams_captain_id r"
    "\<And>r. teams_deleted_at (f r) = teams_deleted_at r"
  shows "roster_of (d\<lparr>teams := upd_where P f (teams d)\<rparr>) = roster_of d"
proof -
  have "map_option teams_captain_id (find (\<lambda>r. teams_id r = i \<and> live r) (upd_where P f rows)) =
      map_option teams_captain_id (find (\<lambda>r. teams_id r = i \<and> live r) rows)" for i rows
    by (induction rows) (auto simp: assms)
  then show ?thesis by (simp add: roster_of_def user_row_def live_team_def)
qed

lemma roster_live_update:
  assumes "\<And>r. teams_id (f r) = teams_id r" "\<And>r. teams_captain_id (f r) = teams_captain_id r"
    "\<And>r. teams_deleted_at (f r) = teams_deleted_at r"
  shows "keeps (\<lambda>d. roster_of d = s) (update_live_team t f)"
  by (rule keepsI) (auto simp: update_live_team_def roster_of_upd_live assms split: if_splits)

lemma roster_bracket: "keeps (\<lambda>d. roster_of d = s) (sqlc_SetTeamBracket t b)"
  by (rule keepsI)
    (auto simp: sqlc_SetTeamBracket_def update_live_team_def roster_of_upd_live split: if_splits)

lemma administration_roster:
  "db_keeps (\<lambda>d. roster_of d = s) (Team_BanTeam uc t reason)"
  "db_keeps (\<lambda>d. roster_of d = s) (Team_UnbanTeam uc t)"
  "db_keeps (\<lambda>d. roster_of d = s) (Team_SetHidden uc t h)"
  "db_keeps (\<lambda>d. roster_of d = s) (Team_SetBracket uc t b)"
  unfolding Team_BanTeam_def Team_UnbanTeam_def Team_SetHidden_def Team_SetBracket_def
    TeamRepo_GetByID_def TeamRepo_Ban_def TeamRepo_Unban_def TeamRepo_SetHidden_def
    TeamRepo_SetBracket_def sqlc_GetTeamByID_def sqlc_BanTeam_def sqlc_UnbanTeam_def
    sqlc_SetTeamHidden_def invalidateScoreboardCache_def
  by (intro valid_rules roster_bracket roster_live_update; simp)+

section \<open>The methods make the steps of their events\<close>

lemma team_method_step:
  assumes ok: "roster_schema (store w)"
  shows "Team_Create name u solo reset w = (Inr t, w') \<Longrightarrow>
      roster_step n (roster_of (store w)) (ECreate u (team_ID t)) (roster_of (store w'))"
    and "Team_CreateSoloTeam u reset w = (Inr t, w') \<Longrightarrow>
      roster_step n (roster_of (store w)) (ECreate u (team_ID t)) (roster_of (store w'))"
    and "Team_Join uc tok u reset w = (Inr t, w') \<Longrightarrow>
      roster_step (nat (tu_maxTeamSize uc)) (roster_of (store w)) (EJoin u (team_ID t)) (roster_of (store w'))"
    and "Team_Leave u w = (Inr x, w') \<Longrightarrow>
      roster_step n (roster_of (store w)) (ELeave u) (roster_of (store w'))"
    and "Team_DisbandTeam u w = (Inr x, w') \<Longrightarrow>
      roster_step n (roster_of (store w)) (EDisband u) (roster_of (store w'))"
  subgoal
    unfolding Team_Create_def by (erule guarded_Inr) (use ok guards_store createTx_step in metis)+
  subgoal
    unfolding Team_CreateSoloTeam_def
    by (erule guarded_Inr) (use ok guards_store createSoloTeamTx_step in metis)+
  subgoal
    unfolding Team_Join_def by (erule guarded_Inr) (use ok guards_store joinTx_step in metis)+
  subgoal
    unfolding Team_Leave_def by (erule guarded_plain_Inr) (use ok guards_store leaveTx_step in metis)+
  subgoal
    unfolding Team_DisbandTeam_def
    by (erule guarded_plain_Inr) (use ok guards_store disbandTeamTx_step in metis)+
  done

lemma checked_transaction_Inr:
  assumes "bindE (mapErr h Guard_RequireTeamSwitch) (\<lambda>_. bindE (failIf b e) (\<lambda>_. run_transaction fn)) w =
      (Inr x, w')"
  obtains w1 w2 where "fn w1 = (Inr x, w2)" "store w1 = store w" "store w' = store w2" "\<not> b"
proof -
  from assms obtain c w0 where 0: "Guard_RequireTeamSwitch w = (Inr c, w0)" "\<not> b"
    "run_transaction fn w0 = (Inr x, w')"
    by (auto simp: bindE_Inr_iff mapErr_Inr_iff)
  from 0(3) obtain w1 w2 where "fn w1 = (Inr x, w2)" "store w1 = store w0" "store w' = store w2"
    by (rule run_transaction_Inr)
  then show thesis using that 0(2) guards_store(1) [OF 0(1)] by simp
qed

lemma team_pair_method_step:
  assumes ok: "roster_schema (store w)"
  shows "Team_TransferCaptain c u w = (Inr x, w') \<Longrightarrow>
      roster_step n (roster_of (store w)) (ETransfer c u) (roster_of (store w'))"
    and "Team_KickMember c u w = (Inr x, w') \<Longrightarrow>
      roster_step n (roster_of (store w)) (EKick c u) (roster_of (store w'))"
  subgoal
    unfolding Team_TransferCaptain_def
    by (erule checked_transaction_Inr) (use ok transferCaptainTx_step in metis)
  subgoal
    unfolding Team_KickMember_def
    by (erule checked_transaction_Inr) (use ok kickMemberTx_step in metis)
  done

section \<open>TryCreate\<close>

text \<open>For a user with a team \<open>TryCreate\<close> only reports.\<close>

lemma GetTeamScoreTx_store: "GetTeamScoreTx t w = (Inr x, w') \<Longrightarrow> store w' = store w"
  by (auto simp: GetTeamScoreTx_def bindE_Inr_iff sql_tx_Inr_iff sql_Inr_iff sqlc_GetTeamScore_def
      split: if_splits)

lemma tryCreateWhenInTeam_Inr:
  "tryCreateWhenInTeam user t u w = (Inr r, w') \<Longrightarrow> store w' = store w \<and> res_Team r = None"
  unfolding tryCreateWhenInTeam_def
  by (erule run_transaction_Inr)
    (auto simp: bindE_Inr_iff dest!: LockUserTx_Inr GetTeamByIDTx_Inr GetUsersByTeamIDTx_Inr GetTeamScoreTx_store)

lemma TryCreate_Inr:
  assumes "Team_TryCreate name u solo w = (Inr r, w')"
  obtains t w1 where "store w1 = store w" "Team_Create name u solo False w1 = (Inr t, w')" "res_Team r = Some t"
  | "store w' = store w" "res_Team r = None"
proof -
  from assms obtain c w1 user w2 where 1: "Guard_RequireTeamSwitchAndTeamsMode w = (Inr c, w1)"
    "UserRepo_GetByID u w1 = (Inr user, w2)" and
    2: "(case user_TeamID user of
       None \<Rightarrow> bindE (Team_Create name u solo False) (\<lambda>team.
         returnE \<lparr>res_Team = Some team, res_RequiresConfirm = False,
           res_ConfirmationReason = ConfirmReasonNone, res_AffectedData = None\<rparr>)
     | Some t \<Rightarrow> tryCreateWhenInTeam user t u) w2 = (Inr r, w')"
    unfolding Team_TryCreate_def bindE_Inr_iff mapErr_Inr_iff by blast
  have w2: "store w2 = store w" using guards_store(2) [OF 1(1)] UserRepo_GetByID_Inr [OF 1(2)] by simp
  show thesis
  proof (cases "user_TeamID user")
    case None then show thesis using 2 that(1) [OF w2] by (auto simp: bindE_Inr_iff)
  next
    case (Some t) then show thesis using 2 that(2) w2 by (auto dest: tryCreateWhenInTeam_Inr)
  qed
qed

lemma TryCreate_Inl_store: "Team_TryCreate name u solo w = (Inl e, w') \<Longrightarrow> store w' = store w"
  by (auto simp: Team_TryCreate_def tryCreateWhenInTeam_def bindE_Inl_iff mapErr_Inl_iff
      dest!: guards_store guards_Inl_store run_transaction_Inl_store repo_Inl_store team_method_Inl_store
        UserRepo_GetByID_Inr split: option.splits)

section \<open>Requests, together\<close>

lemma team_exec_Inl_store: "team_exec uc q w = (Inl e, w') \<Longrightarrow> store w' = store w"
  by (cases q)
    (auto simp: bindE_Inl_iff dest!: team_method_Inl_store TryCreate_Inl_store repo_Inl_store)

lemma team_exec_Inr_step:
  assumes ok: "roster_schema (store w)" and run: "team_exec uc q w = (Inr e, w')"
  shows "roster_step (nat (tu_maxTeamSize uc)) (roster_of (store w)) e (roster_of (store w'))"
proof (cases q)
  case (QTryCreate name u solo)
  with run obtain r where r: "Team_TryCreate name u solo w = (Inr r, w')"
    "e = (case res_Team r of None \<Rightarrow> EIdle | Some t \<Rightarrow> ECreate u (team_ID t))"
    by (auto simp: bindE_Inr_iff)
  from r(1) show ?thesis
    by (rule TryCreate_Inr)
      (use r(2) ok in \<open>auto dest: team_method_step(1) [rotated] simp: roster_step.idle
        simp del: roster_of_simps\<close>)
next
  case (QPurge cutoff)
  with run have "TeamRepo_HardDeleteTeams cutoff w = (Inr (), w')" "e = EPurge (purged cutoff (store w))"
    by (auto simp: bindE_Inr_iff)
  then show ?thesis using TeamRepo_HardDeleteTeams_step [OF _ ok] by simp
qed (use run in \<open>auto simp: bindE_Inr_iff roster_step.idle
      intro: UserRepo_Create_step team_method_step [OF ok] team_pair_method_step [OF ok]
      dest!: keepsD [OF administration_roster(1) refl] keepsD [OF administration_roster(2) refl]
        keepsD [OF administration_roster(3) refl] keepsD [OF administration_roster(4) refl]
      simp del: roster_of_simps\<close>)

section \<open>Requests keep the schema\<close>

lemma schema_new_user:
  assumes ok: "roster_schema d" and new: "\<not> user_exists (users_id r) d"
    "users_username r \<notin> users_username ` set (users d)" "users_email r \<notin> users_email ` set (users d)"
    "users_team_id r = None"
  shows "roster_schema (d\<lparr>users := users d @ [r]\<rparr>)"
proof -
  have ue: "user_exists u (d\<lparr>users := users d @ [r]\<rparr>)" if "user_exists u d" for u
    using that by (auto simp: user_exists_def)
  show ?thesis
    using roster_schemaD [OF ok] new unfolding roster_schema_def
    by (auto simp: users_keys_def member_fk_def captain_fk_def audit_fk_def user_exists_def)
qed

lemma schema_purge:
  assumes ok: "roster_schema d"
  shows "roster_schema (delete_teams_cascade T d)" (is "roster_schema ?d")
proof -
  have "map users_id (users ?d) = map users_id (users d)"
    by (simp add: delete_teams_cascade_def map_upd_where_key)
  then have "users_id ` set (users ?d) = users_id ` set (users d)" by (metis set_map)
  then have ue: "user_exists u ?d = user_exists u d" for u by (simp add: user_exists_def)
  have te: "team_exists t ?d \<longleftrightarrow> team_exists t d \<and> t \<notin> T" for t
    by (auto simp: team_exists_def delete_teams_cascade_def image_iff)
  have "users_keys (users ?d)" "teams_keys (teams ?d)"
    using roster_schemaD(1,2) [OF ok]
    by (auto simp: delete_teams_cascade_def users_keys_def teams_keys_def map_upd_where_key distinct_del_where)
  moreover have "member_fk ?d"
    unfolding member_fk_def te
  proof (intro ballI allI impI)
    fix u t assume "u \<in> set (users ?d)" and t: "users_team_id u = Some t"
    then obtain u0 where "u0 \<in> set (users d)"
      "u = (if case users_team_id u0 of None \<Rightarrow> False | Some t \<Rightarrow> t \<in> T then u0\<lparr>users_team_id := None\<rparr> else u0)"
      by (auto simp: delete_teams_cascade_def in_upd_where)
    then have "u0 \<in> set (users d)" "users_team_id u0 = Some t" "t \<notin> T"
      using t by (cases "users_team_id u0"; simp split: if_splits)+
    then show "team_exists t d \<and> t \<notin> T"
      using roster_schemaD(3) [OF ok] by (auto simp: member_fk_def)
  qed
  moreover have "captain_fk ?d"
    using roster_schemaD(4) [OF ok] unfolding captain_fk_def ue by (simp add: delete_teams_cascade_def)
  moreover have "audit_fk ?d"
    using roster_schemaD(5) [OF ok] unfolding audit_fk_def ue te by (simp add: delete_teams_cascade_def)
  ultimately show ?thesis by (simp add: roster_schema_def)
qed

lemma team_exec_schema:
  assumes ok: "roster_schema (store w)" and run: "team_exec uc q w = (r, w')"
  shows "roster_schema (store w')"
proof (cases r)
  case (Inl e)
  then show ?thesis using ok team_exec_Inl_store run by metis
next
  case (Inr e)
  have kept: "db_keeps roster_schema (team_exec uc q)"
    if "\<And>u. q \<noteq> QRegister u" "\<And>c. q \<noteq> QPurge c"
    using that by (cases q; simp; intro valid_rules schema.create schema.try_create schema.create_solo
      schema.join schema.leave schema.transfer schema.disband schema.kick schema.administration)
  show ?thesis
  proof (cases q)
    case (QRegister u)
    with run Inr obtain x where "UserRepo_Create u w = (Inr x, w')" by (auto simp: bindE_Inr_iff)
    then show ?thesis by (rule UserRepo_Create_Inr) (simp add: schema_new_user ok)
  next
    case (QPurge cutoff)
    with run Inr have "TeamRepo_HardDeleteTeams cutoff w = (Inr (), w')" by (auto simp: bindE_Inr_iff)
    then show ?thesis by (simp add: TeamRepo_HardDeleteTeams_Inr schema_purge ok)
  qed (use keepsD [OF kept ok run] in auto)
qed

lemma team_run_roster:
  assumes "team_run uc d d'" "roster_schema d"
  shows "roster_schema d' \<and> roster_reach (nat (tu_maxTeamSize uc)) (roster_of d) (roster_of d')"
  using assms
proof induction
  case (more d w q r w')
  then have ok: "roster_schema (store w)"
    and reach: "roster_reach (nat (tu_maxTeamSize uc)) (roster_of d) (roster_of (store w))" by auto
  have "roster_reach (nat (tu_maxTeamSize uc)) (roster_of d) (roster_of (store w'))"
  proof (cases r)
    case (Inl e)
    then show ?thesis using reach team_exec_Inl_store more(2) by metis
  next
    case (Inr e)
    then show ?thesis
      using roster_reach.more [OF reach] team_exec_Inr_step [OF ok] more(2) by blast
  qed
  then show ?case using team_exec_schema [OF ok more(2)] by simp
qed (simp add: roster_reach.start)

end
