(* ===== verification/CTF_Board.thy ===== *)
theory CTF_Board
  imports CTF_SubmitMatch CTF_HintProps CTF_Teams
begin

text \<open>
  The board as a whole: what the challenge use case asks of the tables (the locale
  \<open>challenge_store\<close>), the invariant of challenges, solves and unlocks (\<open>score_ok\<close>), and the
  databases that any sequence of submissions, unlocks, challenge changes and team requests leads to
  (\<open>board_run\<close>), whatever fails on the way; then the same with awards, the administration of hints (the locale
  \<open>admin_store\<close>) and requests that work on other tables (\<open>contest_run\<close>).
\<close>

section \<open>The interface of the challenge use case\<close>

text \<open>What the repository has checked of a row it writes: its numbers fit into their columns.\<close>

definition columns_fit :: "challenges_row \<Rightarrow> bool" where
  "columns_fit r \<longleftrightarrow> (\<forall>p. challenges_points r = Some p \<longrightarrow> int4_ok p) \<and> int4_ok (challenges_initial_value r) \<and>
     int4_ok (challenges_min_value r) \<and> int4_ok (challenges_decay r)"

lemma int32E_cases: "int32E msg i = (if int4_ok i then returnE i else throwE (wrap msg (Plain ''int value out of int32 range'')))"
  by (rule ext) (auto simp: int32E_def intToInt32Safe_def int4_ok_def mapErr_def)

lemma keeps_int32E: "(int4_ok i \<Longrightarrow> keeps I (f i)) \<Longrightarrow> keeps I (bindE (int32E msg i) f)"
  by (simp add: int32E_cases keeps_throwE)

locale challenge_store =
  fixes J :: "db \<Rightarrow> bool"
  assumes insert: "challenges_solve_count r = 0 \<Longrightarrow> columns_fit r \<Longrightarrow> keeps J (sqlc_CreateChallenge r)"
    and replace: "columns_fit r \<Longrightarrow> keeps J (sqlc_UpdateChallenge r)"
    and remove: "keeps J (sqlc_DeleteChallenge c)"
    and tag: "keeps J (sqlc_AddChallengeTag c t)"
    and untag: "keeps J (sqlc_DeleteChallengeTags c)"
    and audit: "keeps J (audit_logs_insert l)"
begin

lemma tags: "db_keeps J (TagRepo_SetChallengeTags c ts)"
  unfolding TagRepo_SetChallengeTags_def by (intro valid_rules tag untag)

lemma repo_create: "chal_SolveCount c = 0 \<Longrightarrow> db_keeps J (ChallengeRepo_Create c)"
  unfolding ChallengeRepo_Create_def Let_def
  by (rule keeps_bindE, rule valid_rules, (rule keeps_int32E)+, intro valid_rules insert)
    (simp_all add: challenge_row_def columns_fit_def)

lemma repo_read: "db_keeps J (ChallengeRepo_GetByID c)"
  unfolding ChallengeRepo_GetByID_def sqlc_GetChallengeByID_def by (intro valid_rules)

lemma repo_update: "db_keeps J (ChallengeRepo_Update c)"
  unfolding ChallengeRepo_Update_def
  by ((rule keeps_int32E)+, intro valid_rules replace) (simp add: challenge_row_def columns_fit_def)

lemma cache: "db_keeps J (invalidate_cache uc)"
  unfolding invalidate_cache_def by (intro valid_rules)

lemma create:
  assumes "\<And>cs s. cu_crypto uc = Some cs \<Longrightarrow> db_keeps J (cs_Encrypt cs s)"
  shows "db_keeps J (Challenge_Create uc title descr cat pts iv mv dc flag hid re ci fmt ts)"
proof -
  have "db_keeps J (case cu_crypto uc of
                None \<Rightarrow> throwE (wrap ''ChallengeUseCase - Create'' ErrServiceNotConfigured)
              | Some cs \<Rightarrow>
                  bindE (mapErr (wrap ''ChallengeUseCase - Create - Encrypt'') (cs_Encrypt cs flag))
                    (\<lambda>encrypted. returnE (regex_hash, encrypted)))"
    using assms by (cases "cu_crypto uc") (auto intro!: valid_rules)
  note flag = keeps_if [OF this keeps_returnE]
  show ?thesis
    unfolding Challenge_Create_def
    by (rule keeps_bindE, rule flag, intro valid_rules tags repo_create) simp
qed

lemma update:
  assumes "\<And>cs s. cu_crypto uc = Some cs \<Longrightarrow> db_keeps J (cs_Encrypt cs s)"
  shows "db_keeps J (Challenge_Update uc ID title descr cat pts iv mv dc flag hid re ci fmt ts)"
proof -
  have "db_keeps J (challengeUpdateApplyFlag uc flag re ci c)" for c
    using assms unfolding challengeUpdateApplyFlag_def
    by (cases "cu_crypto uc") (auto intro!: valid_rules)
  then show ?thesis
    unfolding Challenge_Update_def Let_def by (intro valid_rules tags repo_read repo_update cache)
qed

lemma delete: "db_keeps J (Challenge_Delete uc c u ip)"
  unfolding Challenge_Delete_def deleteTx_def GetChallengeByIDTx_def DeleteChallengeTx_def CreateAuditLogTx_def
    sqlc_GetChallengeByIDForUpdate_def sqlc_CreateAuditLog_def
  by (intro valid_rules cache remove audit)

end

section \<open>The invariant\<close>

definition solves_of :: "db \<Rightarrow> uuid \<Rightarrow> solves_row list" where
  "solves_of d c = filter (\<lambda>s. solves_challenge_id s = c) (solves d)"

text \<open>
  Challenges have a key, a team solves a challenge once and unlocks a hint once, solves refer to
  challenges, and the count of a challenge covers its solves.
\<close>

definition score_ok :: "db \<Rightarrow> bool" where
  "score_ok d \<longleftrightarrow> chal_keys d \<and>
     distinct (map (\<lambda>s. (solves_team_id s, solves_challenge_id s)) (solves d)) \<and>
     distinct (map (\<lambda>u. (hint_unlocks_team_id u, hint_unlocks_hint_id u)) (hint_unlocks d)) \<and>
     (\<forall>s \<in> set (solves d). challenge_exists (solves_challenge_id s) d) \<and>
     (\<forall>r \<in> set (challenges d). int (length (solves_of d (challenges_id r))) \<le> challenges_solve_count r)"

lemma score_frame:
  "challenges d' = challenges d \<Longrightarrow> solves d' = solves d \<Longrightarrow> hint_unlocks d' = hint_unlocks d \<Longrightarrow>
   score_ok d \<Longrightarrow> score_ok d'"
  by (simp add: score_ok_def chal_keys_def solves_of_def challenge_exists_def)

lemma keeps_score_frame:
  assumes "\<And>d. challenges (snd (q d)) = challenges d \<and> solves (snd (q d)) = solves d \<and>
    hint_unlocks (snd (q d)) = hint_unlocks d"
  shows "keeps score_ok q"
  using assms score_frame by (intro keepsI) (metis snd_conv)

lemma solves_of_del: "solves_of (d\<lparr>solves := del_where P (solves d)\<rparr>) c = del_where P (solves_of d c)"
  by (simp add: solves_of_def del_where_def filter_filter conj_commute)

lemma length_del_where: "length (del_where P xs) \<le> length xs"
  by (simp add: del_where_def)

lemma score_ok_del_solves: "score_ok d \<Longrightarrow> score_ok (d\<lparr>solves := del_where P (solves d)\<rparr>)"
  unfolding score_ok_def solves_of_del
  by (fastforce simp: chal_keys_def challenge_exists_def distinct_del_where
      intro: order_trans [OF _ of_nat_mono] dest: order_trans [OF of_nat_mono [OF length_del_where], rotated])

lemma score_ok_del_unlocks: "score_ok d \<Longrightarrow> score_ok (d\<lparr>hint_unlocks := del_where P (hint_unlocks d)\<rparr>)"
  by (simp add: score_ok_def chal_keys_def solves_of_def challenge_exists_def distinct_del_where)

lemma score_ok_insert:
  assumes "score_ok d" "challenges_id r \<notin> challenges_id ` set (challenges d)" "challenges_solve_count r = 0"
  shows "score_ok (d\<lparr>challenges := challenges d @ [r]\<rparr>)"
proof -
  have "\<forall>s \<in> set (solves d). solves_challenge_id s \<noteq> challenges_id r"
    using assms(1,2) by (metis challenge_exists_def score_ok_def)
  then have "solves_of d (challenges_id r) = []" by (simp add: solves_of_def filter_empty_conv)
  then show ?thesis
    using assms by (auto simp: score_ok_def chal_keys_def solves_of_def challenge_exists_def)
qed

lemma score_ok_upd:
  assumes "score_ok d" "\<And>r. P r \<Longrightarrow> challenges_id (f r) = challenges_id r"
    "\<And>r. P r \<Longrightarrow> challenges_solve_count r \<le> challenges_solve_count (f r)"
  shows "score_ok (d\<lparr>challenges := upd_where P f (challenges d)\<rparr>)"
proof -
  have ids: "map challenges_id (upd_where P f rows) = map challenges_id rows" for rows
    using assms(2) by (induction rows) auto
  then have "challenges_id ` set (upd_where P f (challenges d)) = challenges_id ` set (challenges d)"
    by (metis set_map)
  then show ?thesis
    using assms by (fastforce simp: score_ok_def chal_keys_def solves_of_def challenge_exists_def ids in_upd_where)
qed

lemma score_ok_delete: "score_ok d \<Longrightarrow> score_ok (delete_challenge_cascade c d)"
proof -
  assume ok: "score_ok d"
  have "solves_of (delete_challenge_cascade c d) k = (if k = c then [] else solves_of d k)" for k
    by (auto simp: solves_of_def delete_challenge_cascade_def delete_hints_cascade_def Let_def del_where_def
        filter_empty_conv intro: filter_cong)
  then show ?thesis
    using ok by (auto simp: score_ok_def chal_keys_def challenge_exists_def delete_challenge_cascade_def
        delete_hints_cascade_def Let_def distinct_del_where)
qed

interpretation score: challenge_store score_ok
proof
  show "keeps score_ok (sqlc_CreateChallenge r)" if "challenges_solve_count r = 0" for r
    using that by (intro keepsI)
      (auto simp: sqlc_CreateChallenge_def list_ex_iff intro!: score_ok_insert split: if_splits)
  show "keeps score_ok (sqlc_UpdateChallenge r)" for r
    by (rule keepsI) (auto simp: sqlc_UpdateChallenge_def intro!: score_ok_upd)
  show "keeps score_ok (sqlc_DeleteChallenge c)" for c
    by (rule keepsI) (auto simp: sqlc_DeleteChallenge_def score_ok_delete split: if_splits)
qed (rule keeps_score_frame, simp add: sqlc_AddChallengeTag_def sqlc_DeleteChallengeTags_def audit_logs_insert_def)+

interpretation score_teams: team_store score_ok
proof
  show "keeps score_ok (sqlc_DeleteSolvesByTeamID t)" for t
    by (rule keepsI) (auto simp: sqlc_DeleteSolvesByTeamID_def score_ok_del_solves)
qed (rule keeps_score_frame, auto simp: sqlc_UpdateUserTeamID_def teams_insert_def sqlc_SoftDeleteTeam_def
      update_live_team_def set_team_captain_def sqlc_BanTeam_def sqlc_UnbanTeam_def
      sqlc_SetTeamHidden_def sqlc_SetTeamBracket_def team_audit_log_insert_def split: option.splits)+

interpretation roster_of_challenges: challenge_store
  "\<lambda>d. users d = us \<and> teams d = ts \<and> team_audit_log d = al" for us ts al
  by unfold_locales (rule keepsI, auto simp: sqlc_CreateChallenge_def sqlc_UpdateChallenge_def
    sqlc_DeleteChallenge_def delete_challenge_cascade_def delete_hints_cascade_def sqlc_AddChallengeTag_def
    sqlc_DeleteChallengeTags_def audit_logs_insert_def Let_def split: if_splits)+

section \<open>Requests\<close>

lemma score_registration: "db_keeps score_ok (UserRepo_Create u)"
proof (rule keepsI)
  fix w r w' assume ok: "score_ok (store w)" and run: "UserRepo_Create u w = (r, w')"
  then show "score_ok (store w')"
    by (cases r) (auto dest: repo_Inl_store elim!: UserRepo_Create_Inr intro: score_frame)
qed

lemma score_purge: "db_keeps score_ok (TeamRepo_HardDeleteTeams cutoff)"
proof -
  have "keeps score_ok (sqlc_HardDeleteTeamsBefore cutoff)"
    unfolding sqlc_HardDeleteTeamsBefore_def
  proof (rule keeps_modifyE)
    fix d assume "score_ok d"
    let ?T = "set (map teams_id (filter (\<lambda>t. case teams_deleted_at t of None \<Rightarrow> False | Some t \<Rightarrow> t < cutoff) (teams d)))"
    have "score_ok (d\<lparr>solves := del_where (\<lambda>s. solves_team_id s \<in> ?T) (solves d)\<rparr>
        \<lparr>hint_unlocks := del_where (\<lambda>u. hint_unlocks_team_id u \<in> ?T) (hint_unlocks d)\<rparr>)"
      using score_ok_del_unlocks [OF score_ok_del_solves [OF \<open>score_ok d\<close>]] by (simp add: del_where_def)
    then show "score_ok (delete_teams_cascade ?T d)"
      by (rule score_frame [rotated 3]) (simp_all add: delete_teams_cascade_def)
  qed
  then show ?thesis unfolding TeamRepo_HardDeleteTeams_def by (intro valid_rules)
qed

lemma score_team_exec: "db_keeps score_ok (team_exec uc q)"
  by (cases q; simp; intro valid_rules score_registration score_purge score_teams.create score_teams.try_create
    score_teams.create_solo score_teams.join score_teams.leave score_teams.transfer score_teams.disband
    score_teams.kick score_teams.administration)

lemma score_ok_solved:
  assumes "score_ok d" "chal_row d c = Some r" "solve_of d t c = None" "solves_team_id s = t" "solves_challenge_id s = c"
  shows "score_ok (solved_db c s d)"
proof -
  have ex: "challenge_exists c d" using chal_row_SomeD [OF assms(2)] by (auto simp: challenge_exists_def)
  have new: "(t, c) \<notin> (\<lambda>s. (solves_team_id s, solves_challenge_id s)) ` set (solves d)"
    using assms(3) by (auto simp: solve_of_None)
  let ?d = "d\<lparr>challenges := upd_where (\<lambda>r. challenges_id r = c) solved_row (challenges d)\<rparr>"
  have 1: "score_ok ?d" by (rule score_ok_upd [OF assms(1)]) simp_all
  have cnt: "int (length (solves_of d (challenges_id r'))) + (if challenges_id r' = c then 1 else 0) \<le> challenges_solve_count r'"
    if "r' \<in> set (challenges ?d)" for r'
    using that assms(1) by (auto simp: score_ok_def in_upd_where)
  have so: "solves_of (solved_db c s d) k = solves_of d k @ (if k = c then [s] else [])" for k
    using assms(5) by (simp add: solves_of_def solved_db_def)
  have ce: "challenge_exists k (solved_db c s d) = challenge_exists k ?d" for k
    by (simp add: challenge_exists_def solved_db_def)
  have ids: "map challenges_id (challenges ?d) = map challenges_id (challenges d)"
    by (simp add: map_upd_where_key)
  then have "challenge_exists k ?d = challenge_exists k d" for k unfolding challenge_exists_def by (metis set_map)
  note ex' = this
  have tabs: "challenges (solved_db c s d) = challenges ?d" "solves (solved_db c s d) = solves d @ [s]"
    "hint_unlocks (solved_db c s d) = hint_unlocks d"
    by (simp_all add: solved_db_def)
  show ?thesis
    unfolding score_ok_def
  proof (intro conjI ballI)
    show "chal_keys (solved_db c s d)" using 1 by (simp add: score_ok_def chal_keys_def tabs)
    show "distinct (map (\<lambda>s. (solves_team_id s, solves_challenge_id s)) (solves (solved_db c s d)))"
      using assms(1,4,5) new by (simp add: tabs score_ok_def)
    show "distinct (map (\<lambda>u. (hint_unlocks_team_id u, hint_unlocks_hint_id u)) (hint_unlocks (solved_db c s d)))"
      using assms(1) by (simp add: tabs score_ok_def)
    show "challenge_exists (solves_challenge_id s') (solved_db c s d)" if "s' \<in> set (solves (solved_db c s d))" for s'
      using that ex assms(1,5) by (auto simp: tabs ce ex' score_ok_def)
    show "int (length (solves_of (solved_db c s d) (challenges_id r'))) \<le> challenges_solve_count r'"
      if "r' \<in> set (challenges (solved_db c s d))" for r'
      using cnt [of r'] that by (simp add: tabs so split: if_splits)
  qed
qed

lemma SubmitFlag_score_ok:
  assumes "Challenge_SubmitFlag uc c flag u tm w = (r, w')" "score_ok (store w)" "r = Inr x"
  shows "score_ok (store w') \<and> users (store w') = users (store w) \<and> teams (store w') = teams (store w) \<and>
    team_audit_log (store w') = team_audit_log (store w)"
proof -
  obtain ok err where x: "x = (ok, err)" by force
  have keys: "chal_keys (store w)" using assms(2) by (simp add: score_ok_def)
  show ?thesis
    by (rule SubmitFlag_Inr [OF assms(1) [unfolded assms(3) x] keys])
      (use assms(2) in \<open>auto intro: score_ok_solved simp: solved_db_def [symmetric]\<close>, simp_all add: solved_db_def)
qed

lemma UnlockHint_score_ok:
  assumes "Hint_UnlockHint uc t h w = (r, w')" "score_ok (store w)"
  shows "score_ok (store w') \<and> users (store w') = users (store w) \<and> teams (store w') = teams (store w) \<and>
    team_audit_log (store w') = team_audit_log (store w)"
proof (cases r)
  case (Inl e)
  then show ?thesis using assms UnlockHint_Inl_store [of uc t h w e w'] by simp
next
  case (Inr x)
  from UnlockHint_Inr [OF assms(1) [unfolded Inr]] obtain hr :: hints_row and d u where *: "unlock_of (store w) t h = None"
    "charged t (hints_cost hr) (store w) d" "hint_unlocks_team_id u = t" "hint_unlocks_hint_id u = h"
    "store w' = d\<lparr>hint_unlocks := hint_unlocks (store w) @ [u]\<rparr>" .
  obtain as where d: "d = (store w)\<lparr>awards := as\<rparr>"
  proof (cases "hints_cost hr \<le> 0")
    case True
    then show thesis using that [of "awards (store w)"] *(2) by (simp add: charged_def)
  next
    case False
    then show thesis using that *(2) by (auto simp: charged_def)
  qed
  show ?thesis
    using assms(2) *(1,3-5) d
    by (auto simp: score_ok_def chal_keys_def solves_of_def challenge_exists_def unlock_of_None)
qed

text \<open>Encryption is a computation of its own: it does not touch the database.\<close>

definition crypto_pure :: "challenge_uc \<Rightarrow> bool" where
  "crypto_pure uc \<longleftrightarrow> (\<forall>cs s w r w'. cu_crypto uc = Some cs \<longrightarrow> cs_Encrypt cs s w = (r, w') \<longrightarrow> store w' = store w)"

lemma crypto_pure_keeps: "crypto_pure uc \<Longrightarrow> cu_crypto uc = Some cs \<Longrightarrow> db_keeps J (cs_Encrypt cs s)"
  by (rule keepsI) (auto simp: crypto_pure_def)

section \<open>The databases that requests lead to\<close>

text \<open>Each request runs in a world of its own over the database the previous one left.\<close>

inductive board_run :: "team_uc \<Rightarrow> challenge_uc \<Rightarrow> hint_uc \<Rightarrow> db \<Rightarrow> db \<Rightarrow> bool" for tuc cuc huc where
  start: "board_run tuc cuc huc d d"
| team: "board_run tuc cuc huc d (store w) \<Longrightarrow> team_exec tuc q w = (r1, w') \<Longrightarrow> board_run tuc cuc huc d (store w')"
| submit: "board_run tuc cuc huc d (store w) \<Longrightarrow> regex_ok cuc w \<Longrightarrow>
    Challenge_SubmitFlag cuc c flag u tm w = (r2, w') \<Longrightarrow> board_run tuc cuc huc d (store w')"
| unlock: "board_run tuc cuc huc d (store w) \<Longrightarrow> Hint_UnlockHint huc t h w = (r3, w') \<Longrightarrow>
    board_run tuc cuc huc d (store w')"
| create: "board_run tuc cuc huc d (store w) \<Longrightarrow>
    Challenge_Create cuc title descr cat pts iv mv dc flag hid re ci fmt ts w = (r4, w') \<Longrightarrow>
    board_run tuc cuc huc d (store w')"
| update: "board_run tuc cuc huc d (store w) \<Longrightarrow>
    Challenge_Update cuc c title descr cat pts iv mv dc flag hid re ci fmt ts w = (r5, w') \<Longrightarrow>
    board_run tuc cuc huc d (store w')"
| delete: "board_run tuc cuc huc d (store w) \<Longrightarrow> Challenge_Delete cuc c actor ip w = (r6, w') \<Longrightarrow>
    board_run tuc cuc huc d (store w')"

definition board_ok :: "db \<Rightarrow> bool" where
  "board_ok d \<longleftrightarrow> score_ok d \<and> roster_schema d"

lemma roster_schema_frame:
  "users d' = users d \<Longrightarrow> teams d' = teams d \<Longrightarrow> team_audit_log d' = team_audit_log d \<Longrightarrow>
   roster_schema d' = roster_schema d"
  by (simp add: roster_schema_def member_fk_def captain_fk_def audit_fk_def team_exists_def user_exists_def)

lemma SubmitFlag_Inr_total:
  assumes "regex_ok uc w" "Challenge_SubmitFlag uc c flag u tm w = (r, w')"
  shows "\<exists>x. r = Inr x"
  using validD_Inl [OF SubmitFlag_answers assms(1)] assms(2) by (cases r) auto

lemma board_run_inv:
  assumes "board_run tuc cuc huc d d'" "board_ok d" "crypto_pure cuc"
  shows "board_ok d' \<and> roster_reach (nat (tu_maxTeamSize tuc)) (roster_of d) (roster_of d')"
  using assms
proof induction
  case (team d w q r w')
  then have ok: "score_ok (store w)" "roster_schema (store w)"
    and reach: "roster_reach (nat (tu_maxTeamSize tuc)) (roster_of d) (roster_of (store w))"
    by (auto simp: board_ok_def)
  have "team_run tuc (store w) (store w')" using team_run.more [OF team_run.start team.hyps(2)] .
  note step = team_run_roster [OF this ok(2)]
  have "score_ok (store w')" using keepsD [OF score_team_exec ok(1) team.hyps(2)] .
  moreover have "roster_reach (nat (tu_maxTeamSize tuc)) (roster_of d) (roster_of (store w'))"
    by (rule roster_reach_trans [OF conjunct2 [OF step] reach])
  ultimately show ?case using step by (simp add: board_ok_def)
next
  case (submit d w c flag u tm r w')
  then have ok: "score_ok (store w)" by (auto simp: board_ok_def)
  obtain x where x: "r = Inr x" using SubmitFlag_Inr_total submit.hyps(2,3) by blast
  note f = SubmitFlag_score_ok [OF submit.hyps(3) ok x]
  then show ?case using submit roster_schema_frame [of "store w'" "store w"] roster_of_cong [of "store w'" "store w"]
    by (simp add: board_ok_def)
next
  case (unlock d w t h r w')
  then have ok: "score_ok (store w)" by (auto simp: board_ok_def)
  note f = UnlockHint_score_ok [OF unlock.hyps(2) ok]
  then show ?case using unlock roster_schema_frame [of "store w'" "store w"] roster_of_cong [of "store w'" "store w"]
    by (simp add: board_ok_def)
next
  case (create d w title descr cat pts iv mv dc flag hid re ci fmt ts r w')
  then have ok: "score_ok (store w)" by (auto simp: board_ok_def)
  note s = keepsD [OF score.create [OF crypto_pure_keeps [OF create.prems(2)]] ok create.hyps(2)]
  note f = keepsD [OF roster_of_challenges.create [OF crypto_pure_keeps [OF create.prems(2)]] _ create.hyps(2)]
  show ?case using s f create roster_schema_frame [of "store w'" "store w"] roster_of_cong [of "store w'" "store w"]
    by (simp add: board_ok_def)
next
  case (update d w c title descr cat pts iv mv dc flag hid re ci fmt ts r w')
  then have ok: "score_ok (store w)" by (auto simp: board_ok_def)
  note s = keepsD [OF score.update [OF crypto_pure_keeps [OF update.prems(2)]] ok update.hyps(2)]
  note f = keepsD [OF roster_of_challenges.update [OF crypto_pure_keeps [OF update.prems(2)]] _ update.hyps(2)]
  show ?case using s f update roster_schema_frame [of "store w'" "store w"] roster_of_cong [of "store w'" "store w"]
    by (simp add: board_ok_def)
next
  case (delete d w c actor ip r w')
  then have ok: "score_ok (store w)" by (auto simp: board_ok_def)
  note s = keepsD [OF score.delete ok delete.hyps(2)]
  note f = keepsD [OF roster_of_challenges.delete _ delete.hyps(2)]
  show ?case using s f delete roster_schema_frame [of "store w'" "store w"] roster_of_cong [of "store w'" "store w"]
    by (simp add: board_ok_def)
qed (simp add: roster_reach.start)

section \<open>Awards, hints and what lies elsewhere\<close>

text \<open>What awards and the administration of hints ask of the tables.\<close>

locale admin_store =
  fixes J :: "db \<Rightarrow> bool"
  assumes award: "int4_ok (awards_value r) \<Longrightarrow> keeps J (sqlc_CreateAward r)"
    and hint: "int4_ok (hints_cost h) \<Longrightarrow> int4_ok (hints_order_index h) \<Longrightarrow> keeps J (sqlc_CreateHint h)"
    and rewrite: "int4_ok cost \<Longrightarrow> int4_ok place \<Longrightarrow> keeps J (sqlc_UpdateHint i content cost place)"
    and erase: "keeps J (sqlc_DeleteHint i)"
begin

lemma award_tx: "db_keeps J (CreateAwardTx a)"
  unfolding CreateAwardTx_def
  by (rule keeps_bindE, rule valid_rules, rule keeps_bindE, rule valid_rules, rule keeps_int32E, intro valid_rules award)
    (simp add: award_row_def)

lemma award_create: "db_keeps J (Award_Create sc t v descr admin)"
  unfolding Award_Create_def InvalidateAll_def by (intro valid_rules award_tx)

lemma hint_create: "db_keeps J (Hint_Create c content cost place)"
  unfolding Hint_Create_def HintRepo_Create_def
  by (rule keeps_mapErr, rule keeps_bindE, rule valid_rules, (rule keeps_int32E)+, intro valid_rules hint) simp_all

lemma hint_rewrite: "db_keeps J (HintRepo_Update h)"
  unfolding HintRepo_Update_def by ((rule keeps_int32E)+, intro valid_rules rewrite)

lemma hint_update: "db_keeps J (Hint_Update i content cost place)"
  unfolding Hint_Update_def HintRepo_GetByID_def sqlc_GetHintByID_def by (intro valid_rules hint_rewrite)

lemma hint_delete: "db_keeps J (Hint_Delete i)"
  unfolding Hint_Delete_def HintRepo_Delete_def by (intro valid_rules erase)

end

interpretation score_admin: admin_store score_ok
proof
  show "keeps score_ok (sqlc_DeleteHint i)" for i
    by (rule keepsI) (auto simp: sqlc_DeleteHint_def delete_hints_cascade_def intro: score_frame [OF _ _ _ score_ok_del_unlocks])
qed (rule keeps_score_frame, simp add: sqlc_CreateAward_def sqlc_CreateHint_def sqlc_UpdateHint_def)+

interpretation roster_of_admin: admin_store "\<lambda>d. users d = us \<and> teams d = ts \<and> team_audit_log d = al" for us ts al
  by unfold_locales (rule keepsI, auto simp: sqlc_CreateAward_def sqlc_CreateHint_def sqlc_UpdateHint_def sqlc_DeleteHint_def
      delete_hints_cascade_def split: if_splits)+

datatype admin_request =
    AAward "scoreboard_cache option" uuid int string uuid
  | AHintCreate uuid string int int
  | AHintUpdate uuid string int int
  | AHintDelete uuid

fun admin_exec :: "admin_request \<Rightarrow> unit op" where
  "admin_exec (AAward sc t v descr admin) = bindE (Award_Create sc t v descr admin) (\<lambda>_. returnE ())"
| "admin_exec (AHintCreate c content cost place) = bindE (Hint_Create c content cost place) (\<lambda>_. returnE ())"
| "admin_exec (AHintUpdate i content cost place) = bindE (Hint_Update i content cost place) (\<lambda>_. returnE ())"
| "admin_exec (AHintDelete i) = Hint_Delete i"

lemma score_admin_exec: "db_keeps score_ok (admin_exec q)"
  by (cases q; simp; intro valid_rules score_admin.award_create score_admin.hint_create score_admin.hint_update score_admin.hint_delete)

lemma roster_admin_exec: "db_keeps (\<lambda>d. users d = us \<and> teams d = ts \<and> team_audit_log d = al) (admin_exec q)"
  by (cases q; simp; intro valid_rules roster_of_admin.award_create roster_of_admin.hint_create roster_of_admin.hint_update
      roster_of_admin.hint_delete)

text \<open>A request that works elsewhere leaves these tables alone; of a user it may change the password, the role and the
  verification, not the name, the address or the team.\<close>

definition user_key :: "users_row \<Rightarrow> uuid \<times> string \<times> string \<times> uuid option" where
  "user_key u = (users_id u, users_username u, users_email u, users_team_id u)"

definition elsewhere :: "db \<Rightarrow> db \<Rightarrow> bool" where
  "elsewhere d d' \<longleftrightarrow> map user_key (users d') = map user_key (users d) \<and> teams d' = teams d \<and>
     team_audit_log d' = team_audit_log d \<and> challenges d' = challenges d \<and> solves d' = solves d \<and> hints d' = hints d \<and>
     hint_unlocks d' = hint_unlocks d \<and> awards d' = awards d"

lemma elsewhere_parts:
  "elsewhere d d' \<Longrightarrow> challenges d' = challenges d \<and> awards d' = awards d \<and> hints d' = hints d"
  by (simp add: elsewhere_def)

lemma user_keys_maps:
  assumes "map user_key us' = map user_key us"
  shows "map users_id us' = map users_id us" "map users_username us' = map users_username us"
    "map users_email us' = map users_email us"
    "map_option users_team_id (find (\<lambda>r. users_id r = u) us') = map_option users_team_id (find (\<lambda>r. users_id r = u) us)"
    "users_team_id ` set us' = users_team_id ` set us"
proof -
  have m: "map (\<lambda>u. g (user_key u)) us' = map (\<lambda>u. g (user_key u)) us" for g :: "uuid \<times> string \<times> string \<times> uuid option \<Rightarrow> 'b"
    using arg_cong [OF assms, of "map g"] by (simp add: o_def)
  show "map users_id us' = map users_id us" using m [of fst] by (simp add: user_key_def)
  show "map users_username us' = map users_username us" using m [of "\<lambda>k. fst (snd k)"] by (simp add: user_key_def)
  show "map users_email us' = map users_email us" using m [of "\<lambda>k. fst (snd (snd k))"] by (simp add: user_key_def)
  have "map users_team_id us' = map users_team_id us" using m [of "\<lambda>k. snd (snd (snd k))"] by (simp add: user_key_def)
  then show "users_team_id ` set us' = users_team_id ` set us" by (metis set_map)
  have "map_option users_team_id (find (\<lambda>r. users_id r = u) xs) =
      map_option (\<lambda>k. snd (snd (snd k))) (find (\<lambda>k. fst k = u) (map user_key xs))" for xs
    by (induction xs) (simp_all add: user_key_def)
  then show "map_option users_team_id (find (\<lambda>r. users_id r = u) us') = map_option users_team_id (find (\<lambda>r. users_id r = u) us)"
    by (simp add: assms)
qed

lemma elsewhere_ok:
  assumes "elsewhere d d'" "board_ok d"
  shows "board_ok d' \<and> roster_of d' = roster_of d"
proof -
  note k = user_keys_maps [of "users d'" "users d"]
  have keys: "map user_key (users d') = map user_key (users d)" "teams d' = teams d" using assms(1) by (simp_all add: elsewhere_def)
  have "users_keys (users d') = users_keys (users d)" using k(1-3) [OF keys(1)] by (simp add: users_keys_def)
  moreover have "user_exists u d' = user_exists u d" for u
    using k(1) [OF keys(1)] unfolding user_exists_def by (metis set_map)
  moreover have "team_exists t d' = team_exists t d" for t using keys by (simp add: team_exists_def)
  moreover have "member_fk d' = member_fk d"
  proof -
    have "member_fk x \<longleftrightarrow> (\<forall>k \<in> users_team_id ` set (users x). \<forall>t. k = Some t \<longrightarrow> team_exists t x)" for x
      by (simp add: member_fk_def)
    then show ?thesis unfolding team_exists_def by (simp only: k(5) [OF keys(1)] keys(2))
  qed
  ultimately have "roster_schema d' = roster_schema d"
    using assms(1) by (simp add: roster_schema_def captain_fk_def audit_fk_def elsewhere_def)
  moreover have "score_ok d'" using assms score_frame [of d' d] by (simp add: elsewhere_def board_ok_def)
  moreover have "roster_of d' = roster_of d"
    using k(4) [OF keys(1)] keys(2) by (simp add: roster_of_def user_row_def live_team_def)
  ultimately show ?thesis using assms(2) by (simp add: board_ok_def)
qed

text \<open>Sequences of all these requests.\<close>

inductive contest_run :: "team_uc \<Rightarrow> challenge_uc \<Rightarrow> hint_uc \<Rightarrow> db \<Rightarrow> db \<Rightarrow> bool" for tuc cuc huc where
  start: "contest_run tuc cuc huc d d"
| board: "contest_run tuc cuc huc d d1 \<Longrightarrow> board_run tuc cuc huc d1 d2 \<Longrightarrow> contest_run tuc cuc huc d d2"
| admin: "contest_run tuc cuc huc d (store w) \<Longrightarrow> admin_exec q w = (r, w') \<Longrightarrow> contest_run tuc cuc huc d (store w')"
| other: "contest_run tuc cuc huc d d1 \<Longrightarrow> elsewhere d1 d2 \<Longrightarrow> contest_run tuc cuc huc d d2"

lemma contest_run_inv:
  assumes "contest_run tuc cuc huc d d'" "board_ok d" "crypto_pure cuc"
  shows "board_ok d' \<and> roster_reach (nat (tu_maxTeamSize tuc)) (roster_of d) (roster_of d')"
  using assms
proof induction
  case (board d d1 d2)
  with board_run_inv [OF board.hyps(2)] show ?case by (blast intro: roster_reach_trans)
next
  case (admin d w q r w')
  then have ok: "score_ok (store w)" "roster_schema (store w)" by (auto simp: board_ok_def)
  have "score_ok (store w')" by (rule keepsD [OF score_admin_exec ok(1) admin.hyps(2)])
  moreover have f: "users (store w') = users (store w)" "teams (store w') = teams (store w)"
      "team_audit_log (store w') = team_audit_log (store w)"
    using keepsD [OF roster_admin_exec _ admin.hyps(2)] by simp_all
  ultimately show ?case using admin ok roster_schema_frame [OF f] roster_of_cong [OF f(1,2)] by (simp add: board_ok_def)
next
  case (other d d1 d2)
  with elsewhere_ok [OF other.hyps(2)] show ?case by simp
qed (simp add: roster_reach.start)

end
