(* ===== verification/CTF_Calm.thy ===== *)
theory CTF_Calm
  imports CTF_RosterFacts CTF_Competition
begin

text \<open>
  Runs in which no call of the infrastructure fails: the collection \<open>calm\<close> executes the calls
  on a world whose script of failures is empty, so that the outcome of a request can be stated as
  an equation. \<open>calm_runs\<close> holds the runs of the repository methods themselves.
\<close>

named_theorems calm \<open>execution of calls when nothing fails\<close>

section \<open>Calls\<close>

lemma use_fault_calm [calm]: "faults w = [] \<Longrightarrow> use_fault w = w"
  by (simp add: use_fault_def)

lemma next_fault_calm [calm]: "faults w = [] \<Longrightarrow> \<not> next_fault w"
  by (simp add: next_fault_def)

lemma sql_calm:
  "faults w = [] \<Longrightarrow> sql q w = (case q (store w) of
     (Inl e, _) \<Rightarrow> (Inl (Pg e), w) | (Inr x, d) \<Rightarrow> (Inr x, w\<lparr>store := d\<rparr>))"
  by (simp add: sql_run calm split: prod.split sum.split)

lemma sql_calm_Inr [calm]:
  "faults w = [] \<Longrightarrow> q (store w) = (Inr x, d) \<Longrightarrow> sql q w = (Inr x, w\<lparr>store := d\<rparr>)"
  by (simp add: sql_calm)

lemma sql_calm_Inl [calm]:
  "faults w = [] \<Longrightarrow> q (store w) = (Inl e, d) \<Longrightarrow> sql q w = (Inl (Pg e), w)"
  by (simp add: sql_calm)

lemma sql_tx_calm_Inr [calm]:
  "faults w = [] \<Longrightarrow> \<not> tx_failed w \<Longrightarrow> q (store w) = (Inr x, d) \<Longrightarrow>
     sql_tx q w = (Inr x, w\<lparr>store := d\<rparr>)"
  by (simp add: sql_tx_def sql_calm)

lemma sql_tx_calm_NoRows [calm]:
  "faults w = [] \<Longrightarrow> \<not> tx_failed w \<Longrightarrow> q (store w) = (Inl NoRows, d) \<Longrightarrow>
     sql_tx q w = (Inl (Pg NoRows), w)"
  by (simp add: sql_tx_def sql_calm)

lemma run_transaction_calm_Inr:
  assumes "faults w = []" "fn (w\<lparr>tx_failed := False\<rparr>) = (Inr x, w2)" "faults w2 = []" "\<not> tx_failed w2"
  shows "run_transaction fn w = (Inr x, w2)"
  using assms by (simp add: run_transaction_def driver_def commit_def calm)

lemma run_transaction_calm_Inl:
  assumes "faults w = []" "fn (w\<lparr>tx_failed := False\<rparr>) = (Inl e, w2)" "faults w2 = []" "e \<noteq> GoPanic"
  shows "run_transaction fn w = (Inl e, w2\<lparr>store := store w, tx_failed := False\<rparr>)"
  using assms by (simp add: run_transaction_def driver_def rollback_def calm split: goerr.split)

lemma redis_calm [calm]:
  "faults w = [] \<Longrightarrow> redis_Get key w = (Inr (redis_lookup w key), w)"
  "faults w = [] \<Longrightarrow> redis_Set key v ttl w = (Inr (), w\<lparr>redis := (redis w)(key \<mapsto> (v, clock w + ttl))\<rparr>)"
  "faults w = [] \<Longrightarrow> redis_Del keys w =
     (Inr (), w\<lparr>redis := (\<lambda>k. if k \<in> set keys then None else redis w k)\<rparr>)"
  by (simp_all add: redis_Get_def redis_Set_def redis_Del_def calm)

section \<open>Repository methods\<close>

named_theorems calm_runs \<open>runs of repository methods when nothing fails\<close>

lemma select_one_find:
  "select_one (\<lambda>d. filter P (f d)) d = (case find P (f d) of None \<Rightarrow> (Inl NoRows, d) | Some r \<Rightarrow> (Inr r, d))"
proof (cases "filter P (f d)")
  case Nil
  then show ?thesis by (simp add: select_one_def filter_Nil_find [symmetric])
      (simp add: filter_Nil_find)
next
  case (Cons r rs)
  then show ?thesis using filter_Cons_find [OF Cons] by (simp add: select_one_def)
qed

lemma UserRepo_GetByID_calm [calm_runs]:
  "faults w = [] \<Longrightarrow> user_row (store w) u = Some r \<Longrightarrow>
     UserRepo_GetByID u w = (Inr (toEntityUser r), w)"
  by (simp add: UserRepo_GetByID_def bindE_def mapErr_def sql_calm sqlc_GetUserByID_def
      select_one_find user_row_def)

lemma LockUserTx_calm [calm_runs]:
  "faults w = [] \<Longrightarrow> \<not> tx_failed w \<Longrightarrow> user_row (store w) u = Some r \<Longrightarrow>
     LockUserTx u w = (Inr (), w)"
  by (cases "filter (\<lambda>r. users_id r = u) (users (store w))")
    (auto simp: LockUserTx_def bindE_def mapErr_def sql_calm sql_tx_def lock_user_def select_one_def
      filter_Nil_find user_row_def)

lemma LockTeamTx_calm [calm_runs]:
  "faults w = [] \<Longrightarrow> \<not> tx_failed w \<Longrightarrow> live_team (store w) t = Some r \<Longrightarrow>
     LockTeamTx t w = (Inr (), w)"
  by (cases "filter (\<lambda>r. teams_id r = t) (teams (store w))")
    (auto simp: LockTeamTx_def bindE_def mapErr_def sql_calm sql_tx_def lock_team_def select_one_def
      filter_Nil_find find_None_set live_team_def dest!: find_SomeD)

lemma TeamRepo_GetByID_calm [calm_runs]:
  "faults w = [] \<Longrightarrow> live_team (store w) t = Some r \<Longrightarrow>
     TeamRepo_GetByID t w = (Inr (toEntityTeamFromRow r), w)"
  by (simp add: TeamRepo_GetByID_def bindE_def mapErr_def sql_calm sqlc_GetTeamByID_def
      select_one_find live_team_def)

lemma GetTeamByInviteTokenTx_calm [calm_runs]:
  "faults w = [] \<Longrightarrow> \<not> tx_failed w \<Longrightarrow>
     find (\<lambda>t. teams_invite_token t = tok \<and> live t) (teams (store w)) = Some r \<Longrightarrow>
     GetTeamByInviteTokenTx tok w = (Inr (toEntityTeamFromRow r), w)"
  by (simp add: GetTeamByInviteTokenTx_def bindE_def mapErr_def sql_tx_def sql_calm
      sqlc_GetTeamByInviteToken_def select_one_find)

lemma GetUsersByTeamIDTx_calm [calm_runs]:
  "faults w = [] \<Longrightarrow> \<not> tx_failed w \<Longrightarrow>
     GetUsersByTeamIDTx t w = (Inr (map toEntityUser (members_of (store w) t)), w)"
  by (simp add: GetUsersByTeamIDTx_def bindE_def mapErr_def sql_tx_def sql_calm
      sqlc_ListUsersByTeamID_def members_of_def)

lemma UpdateUserTeamIDTx_calm [calm_runs]:
  "faults w = [] \<Longrightarrow> \<not> tx_failed w \<Longrightarrow> user_exists u (store w) \<Longrightarrow>
     (\<And>i. t = Some i \<Longrightarrow> team_exists i (store w)) \<Longrightarrow>
     UpdateUserTeamIDTx u t w = (Inr (), w\<lparr>store := (store w)\<lparr>users := upd_where (\<lambda>r. users_id r = u)
        (\<lambda>r. r\<lparr>users_team_id := t\<rparr>) (users (store w))\<rparr>\<rparr>)"
  by (cases t) (simp_all add: UpdateUserTeamIDTx_def bindE_def mapErr_def sql_tx_def sql_calm
      sqlc_UpdateUserTeamID_def)

lemma CompetitionRepo_Get_calm [calm_runs]:
  "faults w = [] \<Longrightarrow> find (\<lambda>c. competition_id c = 1) (competition (store w)) = Some c \<Longrightarrow>
     CompetitionRepo_Get w = (Inr (toEntityCompetition c), w)"
  by (simp add: CompetitionRepo_Get_def bindE_def mapErr_def sql_calm sqlc_GetCompetition_def
      select_one_find)

text \<open>The time that the log records and the world after the clock was read.\<close>

definition tick :: "world \<Rightarrow> world" where
  "tick w = w\<lparr>clock := clock w + (case ticks w of [] \<Rightarrow> 0 | n # _ \<Rightarrow> int n), ticks := tl (ticks w)\<rparr>"

lemma nowE_tick: "nowE w = (Inr (clock w), tick w)"
  by (simp add: nowE_def tick_def)

lemma tick_simps [simp]:
  "store (tick w) = store w" "faults (tick w) = faults w" "tx_failed (tick w) = tx_failed w"
  "uuid_src (tick w) = uuid_src w" "uuid_pos (tick w) = uuid_pos w" "redis (tick w) = redis w"
  "events (tick w) = events w"
  by (simp_all add: tick_def)

definition next_uuid :: "world \<Rightarrow> uuid" where
  "next_uuid w = uuid_src w (uuid_pos w)"

definition audit_row :: "world \<Rightarrow> uuid \<Rightarrow> uuid \<Rightarrow> string \<Rightarrow> details \<Rightarrow> team_audit_log_row" where
  "audit_row w t u a det = \<lparr>team_audit_log_id = next_uuid w, team_audit_log_team_id = t,
     team_audit_log_user_id = u, team_audit_log_action = a, team_audit_log_details = Some det,
     team_audit_log_created_at = Some (clock w)\<rparr>"

lemma CreateTeamAuditLogTx_calm:
  assumes "faults w = []" "\<not> tx_failed w" "team_exists t (store w)" "user_exists u (store w)"
    "next_uuid w \<notin> team_audit_log_id ` set (team_audit_log (store w))"
  shows "\<exists>w'. CreateTeamAuditLogTx t u a det w = (Inr (), w') \<and> faults w' = [] \<and> \<not> tx_failed w' \<and>
    store w' = (store w)\<lparr>team_audit_log := team_audit_log (store w) @ [audit_row w t u a det]\<rparr>"
proof -
  have "\<not> list_ex (\<lambda>l. team_audit_log_id l = next_uuid w) (team_audit_log (store w))"
    using assms(5) by (force simp: list_ex_iff)
  then show ?thesis
    using assms by (simp add: CreateTeamAuditLogTx_def bindE_def mapErr_def uuid_New_def nowE_tick
      sql_tx_def sql_calm team_audit_log_insert_def audit_row_def next_uuid_def tick_def)
qed

end
