(* ===== verification/CTF_SubmitCalm.thy ===== *)
theory CTF_SubmitCalm
  imports CTF_Submit CTF_Calm CTF_Teams
begin

text \<open>
  A submission when nothing fails, run step by step: what each call of \<open>SubmitFlag\<close> returns on a
  database that satisfies the constraints, and the record of the solve as one equation.
\<close>

section \<open>Reads\<close>

lemma ChallengeRepo_GetByID_calm [calm_runs]:
  "faults w = [] \<Longrightarrow> chal_row (store w) c = Some r \<Longrightarrow>
     ChallengeRepo_GetByID c w = (Inr (toEntityChallengeFromRow r), w)"
  by (simp add: ChallengeRepo_GetByID_def bindE_def mapErr_def sql_calm sqlc_GetChallengeByID_def
      select_one_find chal_row_def)

lemma GetChallengeByIDTx_calm [calm_runs]:
  "faults w = [] \<Longrightarrow> \<not> tx_failed w \<Longrightarrow> chal_row (store w) c = Some r \<Longrightarrow>
     GetChallengeByIDTx c w = (Inr (toEntityChallengeFromRow r), w)"
  by (simp add: GetChallengeByIDTx_def bindE_def mapErr_def sql_tx_def sql_calm sqlc_GetChallengeByIDForUpdate_def
      select_one_find chal_row_def)

lemma CheckExisting_calm:
  assumes "faults w = []" "\<not> tx_failed w"
  shows "submitRecordSolveCheckExisting t c w =
    (if solve_of (store w) t c = None then Inr () else Inl (Sentinel ErrAlreadySolved), w)"
proof (cases "solve_of (store w) t c")
  case None
  then have "GetSolveByTeamAndChallengeTx t c w = (Inl (Sentinel ErrSolveNotFound), w)"
    using assms by (simp add: GetSolveByTeamAndChallengeTx_def bindE_def mapErr_def sql_tx_def sql_calm
        sqlc_GetSolveByTeamAndChallengeForUpdate_def select_one_find solve_of_def no_rows_as_def isNoRows_def)
  then show ?thesis using None
    by (simp add: submitRecordSolveCheckExisting_def bindE_def errE_def failIf_apply)
next
  case (Some s)
  then have "GetSolveByTeamAndChallengeTx t c w = (Inr (toEntitySolve s), w)"
    using assms by (simp add: GetSolveByTeamAndChallengeTx_def bindE_def mapErr_def sql_tx_def sql_calm
        sqlc_GetSolveByTeamAndChallengeForUpdate_def select_one_find solve_of_def)
  then show ?thesis using Some
    by (simp add: submitRecordSolveCheckExisting_def bindE_def errE_def)
qed

section \<open>Writes\<close>

definition solve_made :: "world \<Rightarrow> uuid \<Rightarrow> uuid \<Rightarrow> uuid \<Rightarrow> solves_row" where
  "solve_made w u t c = solve_row (next_uuid w) (clock w) (new_solve u t c)"

definition after_fresh :: "world \<Rightarrow> world" where
  "after_fresh w = tick (w\<lparr>uuid_pos := Suc (uuid_pos w)\<rparr>)"

lemma after_fresh_simps [simp]:
  "store (after_fresh w) = store w" "faults (after_fresh w) = faults w"
  "tx_failed (after_fresh w) = tx_failed w" "events (after_fresh w) = events w"
  "redis (after_fresh w) = redis w"
  by (simp_all add: after_fresh_def)

lemma CreateSolveTx_calm:
  assumes "faults w = []" "\<not> tx_failed w" "user_exists u (store w)" "team_exists t (store w)"
    "chal_row (store w) c = Some r" "solve_of (store w) t c = None"
    "next_uuid w \<notin> solves_id ` set (solves (store w))"
  shows "\<exists>x. CreateSolveTx (new_solve u t c) w = (Inr x, (after_fresh w)\<lparr>store :=
    (store w)\<lparr>solves := solves (store w) @ [solve_made w u t c]\<rparr>\<rparr>)"
proof -
  have "challenge_exists c (store w)" using chal_row_SomeD [OF assms(5)] by (auto simp: challenge_exists_def)
  moreover have "\<not> list_ex (\<lambda>s. solves_id s = next_uuid w \<or> solves_team_id s = t \<and> solves_challenge_id s = c)
      (solves (store w))"
    using assms(6,7) by (force simp: list_ex_iff solve_of_None image_iff)
  ultimately show ?thesis
    using assms(1-4)
    by (simp add: CreateSolveTx_def bindE_def mapErr_def uuid_New_def nowE_tick sql_tx_def sql_calm
        sqlc_CreateSolve_def solve_row_def new_solve_def solve_made_def next_uuid_def after_fresh_def)
qed

lemma Increment_calm:
  assumes "faults w = []" "\<not> tx_failed w" "chal_row (store w) c = Some r" "int4_ok (challenges_solve_count r + 1)"
  shows "IncrementChallengeSolveCountTx c w = (Inr (challenges_solve_count r + 1),
    w\<lparr>store := (store w)\<lparr>challenges := upd_where (\<lambda>r. challenges_id r = c)
      (\<lambda>r. r\<lparr>challenges_solve_count := challenges_solve_count r + 1\<rparr>) (challenges (store w))\<rparr>\<rparr>)"
  using assms by (simp add: IncrementChallengeSolveCountTx_def mapErr_def sql_tx_def sql_calm
      sqlc_IncrementChallengeSolveCount_def chal_row_def Let_def)

text \<open>The new score fits the column.\<close>

definition score_fits :: "challenges_row \<Rightarrow> bool" where
  "score_fits r \<longleftrightarrow> int4_ok (CalculateDynamicScore (challenges_initial_value r) (challenges_min_value r)
     (challenges_decay r) (challenges_solve_count r + 1))"

lemma score_fits_bounds:
  assumes "challenges_min_value r \<le> challenges_initial_value r" "int4_ok (challenges_min_value r)"
    "int4_ok (challenges_initial_value r)"
  shows "score_fits r"
proof -
  have "\<bar>challenges_initial_value r\<bar> < 2 ^ 53" using assms(3) by (auto simp: int4_ok_def)
  note b = binary64.score_bounds [OF assms(1) this]
  show ?thesis unfolding score_fits_def CalculateDynamicScore_def int4_ok_def
    using b [of "challenges_decay r" "challenges_solve_count r + 1"] assms(2,3) by (auto simp: int4_ok_def)
qed

lemma UpdatePoints_calm:
  assumes "faults w = []" "\<not> tx_failed w" "challenge_exists c (store w)" "score_fits r"
  shows "\<exists>ch w'. submitRecordSolveUpdatePointsIfDecay c (toEntityChallengeFromRow r) (challenges_solve_count r + 1) w =
    (Inr ch, w') \<and> faults w' = [] \<and> \<not> tx_failed w' \<and> regex_cache w' = regex_cache w"
proof -
  let ?p = "CalculateDynamicScore (challenges_initial_value r) (challenges_min_value r) (challenges_decay r)
      (challenges_solve_count r + 1)"
  have "UpdateChallengePointsTx c ?p w = (Inr (), w\<lparr>store := (store w)\<lparr>challenges :=
      upd_where (\<lambda>r. challenges_id r = c) (\<lambda>r. r\<lparr>challenges_points := Some ?p\<rparr>) (challenges (store w))\<rparr>\<rparr>)"
  proof -
    have "int32E ''TxChallengeRepo - UpdateChallengePointsTx'' ?p w = (Inr ?p, w)"
      using assms(4) by (simp add: score_fits_def)
    then show ?thesis using assms
      by (simp add: UpdateChallengePointsTx_def bindE_run_Inr) (simp add: bindE_def mapErr_def sql_tx_def sql_calm
        sqlc_UpdateChallengePoints_def)
  qed
  then show ?thesis using assms(1,2)
    by (simp add: submitRecordSolveUpdatePointsIfDecay_def chal_entity_simps Let_def bindE_def mapErr_def)
qed

lemma recordSolveTx_calm:
  assumes "faults w = []" "\<not> tx_failed w" "user_exists u (store w)" "team_exists t (store w)"
    "chal_row (store w) c = Some r" "solve_of (store w) t c = None" "int4_ok (challenges_solve_count r + 1)"
    "score_fits r" "next_uuid w \<notin> solves_id ` set (solves (store w))"
  shows "\<exists>ch w'. recordSolveTx u t c w = (Inr (ch, challenges_solve_count r + 1), w') \<and>
    faults w' = [] \<and> \<not> tx_failed w'"
proof -
  define w1 where "w1 = (after_fresh w)\<lparr>store := (store w)\<lparr>solves := solves (store w) @ [solve_made w u t c]\<rparr>\<rparr>"
  obtain x where 1: "CreateSolveTx (new_solve u t c) w = (Inr x, w1)"
    using CreateSolveTx_calm [OF assms(1-6,9)] by (auto simp: w1_def)
  have row1: "chal_row (store w1) c = Some r" using assms(5) by (simp add: w1_def chal_row_def)
  have w1: "faults w1 = []" "\<not> tx_failed w1" using assms(1,2) by (simp_all add: w1_def)
  define w2 where "w2 = w1\<lparr>store := (store w1)\<lparr>challenges := upd_where (\<lambda>r. challenges_id r = c)
      (\<lambda>r. r\<lparr>challenges_solve_count := challenges_solve_count r + 1\<rparr>) (challenges (store w1))\<rparr>\<rparr>"
  have 2: "IncrementChallengeSolveCountTx c w1 = (Inr (challenges_solve_count r + 1), w2)"
    using Increment_calm [OF w1 row1 assms(7)] by (simp add: w2_def)
  have "map challenges_id (challenges (store w2)) = map challenges_id (challenges (store w1))"
    by (simp add: w2_def map_upd_where_key)
  then have "challenge_exists c (store w2)"
    using chal_row_SomeD [OF row1] unfolding challenge_exists_def by (metis image_eqI set_map)
  with w1 obtain ch w' where 3: "submitRecordSolveUpdatePointsIfDecay c (toEntityChallengeFromRow r)
      (challenges_solve_count r + 1) w2 = (Inr ch, w')" "faults w' = []" "\<not> tx_failed w'"
    using UpdatePoints_calm [of w2 c r] assms(8) by (auto simp: w2_def)
  show ?thesis
    using 1 2 3 assms(6) GetChallengeByIDTx_calm [OF assms(1,2,5)] CheckExisting_calm [OF assms(1,2), of t c]
    by (simp add: recordSolveTx_def bindE_def mapErr_def)
qed

section \<open>The verdict\<close>

text \<open>The expression a flag must match: the one of the challenge, else the one of the competition.\<close>

definition flag_format :: "challenge_uc \<Rightarrow> db \<Rightarrow> challenges_row \<Rightarrow> string" where
  "flag_format uc d r =
     (case challenges_flag_format_regex r of Some p \<Rightarrow> (if p \<noteq> '''' then p else
        (if cu_compRepo uc then (case find (\<lambda>c. competition_id c = 1) (competition d) of None \<Rightarrow> ''''
           | Some cmp \<Rightarrow> ptrStrToStr (competition_flag_regex cmp)) else ''''))
      | None \<Rightarrow>
        (if cu_compRepo uc then (case find (\<lambda>c. competition_id c = 1) (competition d) of None \<Rightarrow> ''''
           | Some cmp \<Rightarrow> ptrStrToStr (competition_flag_regex cmp)) else ''''))"

lemma competition_flag_calm:
  assumes "faults w = []"
  shows "bindE (errE CompetitionRepo_Get) (\<lambda>r. case r of Inl _ \<Rightarrow> returnE ''''
      | Inr cmp \<Rightarrow> returnE (case comp_FlagRegex cmp of None \<Rightarrow> '''' | Some r \<Rightarrow> r)) w =
    (Inr (case find (\<lambda>c. competition_id c = 1) (competition (store w)) of None \<Rightarrow> ''''
       | Some cmp \<Rightarrow> ptrStrToStr (competition_flag_regex cmp)), w)"
proof (cases "find (\<lambda>c. competition_id c = 1) (competition (store w))")
  case None
  then have "\<exists>e. CompetitionRepo_Get w = (Inl e, w) \<and> e \<noteq> GoPanic"
    using assms by (simp add: CompetitionRepo_Get_def bindE_def mapErr_def sql_calm sqlc_GetCompetition_def
        select_one_find no_rows_as_def)
  then show ?thesis using None by (auto simp: bindE_def errE_def split: goerr.splits)
next
  case (Some c)
  then show ?thesis using CompetitionRepo_Get_calm [OF assms Some]
    by (simp add: bindE_def errE_def toEntityCompetition_def ptrStrToStr_def)
qed

lemma submitValidateFlagFormat_calm:
  assumes "faults w = []"
  shows "submitValidateFlagFormat uc flag (toEntityChallengeFromRow r) w =
    (if flag_format uc (store w) r = '''' then Inr ()
     else case ext_compile (cu_ext uc) (flag_format uc (store w) r) of
       Inl e \<Rightarrow> Inl (wrap ''ChallengeUseCase - SubmitFlag - MatchString'' e)
     | Inr re \<Rightarrow> if ext_match (cu_ext uc) re flag then Inr () else Inl (Sentinel ErrInvalidFlagFormat), w)"
proof -
  have f: "chal_FlagFormatRegex (toEntityChallengeFromRow r) = challenges_flag_format_regex r"
    by (simp add: toEntityChallengeFromRow_def)
  let ?own = "case challenges_flag_format_regex r of Some r \<Rightarrow> if r \<noteq> '''' then returnE (Some r) else returnE None
       | None \<Rightarrow> returnE None"
  let ?comp = "\<lambda>own. case own of Some r \<Rightarrow> returnE r
       | None \<Rightarrow>
           if \<not> cu_compRepo uc then returnE ''''
           else bindE (errE CompetitionRepo_Get) (\<lambda>r. case r of
                Inl _ \<Rightarrow> returnE ''''
              | Inr cmp \<Rightarrow> returnE (case comp_FlagRegex cmp of None \<Rightarrow> '''' | Some r \<Rightarrow> r))"
  have "bindE ?own ?comp w = (Inr (flag_format uc (store w) r), w)"
    using competition_flag_calm [OF assms]
    by (cases "challenges_flag_format_regex r") (auto simp: flag_format_def)
  then show ?thesis
    unfolding submitValidateFlagFormat_def f bindE_assoc [symmetric]
    by (simp add: bindE_run_Inr) (simp add: bindE_def mapErr_def failIf_apply split: sum.split)
qed

lemma submitCheckFlag_frame:
  assumes "submitCheckFlag uc flag c w = (r, w')"
  shows "\<exists>rc. w' = w\<lparr>regex_cache := rc\<rparr>"
proof -
  have "w'\<lparr>regex_cache := regex_cache w\<rparr> = w"
    using keepsD [OF submitCheckFlag_keeps [of "\<lambda>w'. w'\<lparr>regex_cache := regex_cache w\<rparr> = w"] _ assms] by simp
  then have "w' = w\<lparr>regex_cache := regex_cache w'\<rparr>" by (metis world.surjective world.update_convs(10))
  then show ?thesis by blast
qed

lemma submitValidateTeam_calm:
  assumes "faults w = []" "live_team (store w) t = Some tr" "teams_is_banned tr \<noteq> Some True"
  shows "submitValidateTeam uc t w = (Inr (), w)"
proof -
  have "\<not> team_IsBanned (toEntityTeamFromRow tr)"
    using assms(3) by (auto simp: toEntityTeamFromRow_def boolPtrToBool_def split: option.split)
  then show ?thesis using TeamRepo_GetByID_calm [OF assms(1,2)]
    by (simp add: submitValidateTeam_def bindE_def mapErr_def failIf_apply)
qed

lemma submitRecordSolve_calm:
  assumes "faults w = []" "user_exists u (store w)" "team_exists t (store w)" "chal_row (store w) c = Some r"
    "int4_ok (challenges_solve_count r + 1)" "score_fits r" "next_uuid w \<notin> solves_id ` set (solves (store w))"
  shows "\<exists>x w'. submitRecordSolve u t c w =
    (if solve_of (store w) t c = None then Inr x else Inl (Sentinel ErrAlreadySolved), w')"
proof (cases "solve_of (store w) t c = None")
  case True
  let ?w = "w\<lparr>tx_failed := False\<rparr>"
  obtain ch w' where "recordSolveTx u t c ?w = (Inr (ch, challenges_solve_count r + 1), w')" "faults w' = []"
    "\<not> tx_failed w'"
    using recordSolveTx_calm [of ?w u t c r] assms True by (auto simp: next_uuid_def)
  from run_transaction_calm_Inr [of w "recordSolveTx u t c", OF assms(1) this] True show ?thesis
    unfolding submitRecordSolve_def by auto
next
  case False
  let ?w = "w\<lparr>tx_failed := False\<rparr>"
  have "recordSolveTx u t c ?w = (Inl (Sentinel ErrAlreadySolved), ?w)"
    using CheckExisting_calm [of ?w t c] assms(1) False by (simp add: recordSolveTx_def bindE_def)
  from run_transaction_calm_Inl [of w "recordSolveTx u t c", OF assms(1) this] assms(1) False show ?thesis
    unfolding submitRecordSolve_def by auto
qed

end
