(* ===== verification/CTF_SubmitProps.thy ===== *)
theory CTF_SubmitProps
  imports CTF_SubmitCalm CTF_SubmitMatch CTF_Demo
begin

text \<open>
  Properties of submissions: an accepted one is characterised exactly, every other answer changes
  nothing, no submission panics, and the right flag is accepted when nothing fails.
\<close>

section \<open>Scores\<close>

definition chal_pts :: "db \<Rightarrow> uuid \<Rightarrow> int" where
  "chal_pts d c = sum_some (map challenges_points (filter (\<lambda>r. challenges_id r = c) (challenges d)))"

lemma sum_some_concat: "sum_some (concat (map f xs)) = sum_list (map (\<lambda>x. sum_some (f x)) xs)"
  by (induction xs) (simp_all add: sum_some_append)

lemma team_solve_points_sum:
  "team_solve_points d t =
     sum_list (map (\<lambda>s. chal_pts d (solves_challenge_id s)) (filter (\<lambda>s. solves_team_id s = t) (solves d)))"
proof -
  have c: "concat (map (\<lambda>c. if challenges_id c = k then [(s, c)] else []) cs) =
      map (Pair s) (filter (\<lambda>r. challenges_id r = k) cs)" for s :: solves_row and k cs
    by (induction cs) auto
  have "sum_some (map (\<lambda>(s, c). challenges_points c) (filter (\<lambda>(s, c). solves_team_id s = t)
      (concat (map (\<lambda>s. map (Pair s) (filter (\<lambda>r. challenges_id r = solves_challenge_id s) (challenges d))) ss)))) =
    sum_list (map (\<lambda>s. chal_pts d (solves_challenge_id s)) (filter (\<lambda>s. solves_team_id s = t) ss))" for ss
    by (induction ss) (simp_all add: sum_some_append chal_pts_def comp_def filter_map)
  from this [of "solves d"] show ?thesis by (simp add: team_solve_points_def solve_join_def c)
qed

definition row_points :: "challenges_row \<Rightarrow> int" where
  "row_points r = (case challenges_points r of None \<Rightarrow> 0 | Some p \<Rightarrow> p)"

lemma chal_pts_solved:
  assumes "chal_keys d" "chal_row d c = Some r"
  shows "chal_pts (solved_db c s d) c' = (if c' = c then row_points (solved_row r) else chal_pts d c')"
proof -
  have k: "filter (\<lambda>r. challenges_id r = c') (upd_where (\<lambda>r. challenges_id r = c) solved_row rows) =
      map (if c' = c then solved_row else (\<lambda>r. r)) (filter (\<lambda>r. challenges_id r = c') rows)" for rows
    by (induction rows) auto
  have u: "filter (\<lambda>r. challenges_id r = c) rows = [r]"
    if "distinct (map challenges_id rows)" "find (\<lambda>r. challenges_id r = c) rows = Some r" for rows
    using that by (induction rows) (auto split: if_splits simp: filter_empty_conv image_iff)
  show ?thesis
    using u [of "challenges d"] assms
    by (auto simp: chal_pts_def solved_db_def k chal_keys_def chal_row_def sum_some_def row_points_def comp_def)
qed

lemma team_score_solved:
  assumes "chal_keys d" "chal_row d c = Some r" "solve_of d t c = None" "solves_challenge_id s = c"
  shows "team_score (solved_db c s d) t =
    team_score d t + (if solves_team_id s = t then row_points (solved_row r) else 0)"
proof -
  let ?L = "filter (\<lambda>s. solves_team_id s = t) (solves d)"
  have m: "map (\<lambda>s'. chal_pts (solved_db c s d) (solves_challenge_id s')) ?L =
      map (\<lambda>s'. chal_pts d (solves_challenge_id s')) ?L"
    using assms(3) by (intro map_cong) (auto simp: solve_of_None chal_pts_solved [OF assms(1,2)])
  have "solves (solved_db c s d) = solves d @ [s]" by (simp add: solved_db_def)
  then have "team_solve_points (solved_db c s d) t = team_solve_points d t +
      (if solves_team_id s = t then row_points (solved_row r) else 0)"
    using chal_pts_solved [OF assms(1,2), of s c] assms(4) by (simp add: team_solve_points_sum m)
  then show ?thesis by (simp add: team_score_def team_award_points_def solved_db_def)
qed

lemma solved_points:
  "0 < challenges_initial_value r \<Longrightarrow> 0 < challenges_decay r \<Longrightarrow>
   row_points (solved_row r) = CalculateDynamicScore (challenges_initial_value r) (challenges_min_value r)
      (challenges_decay r) (challenges_solve_count r + 1)"
  by (auto simp: solved_row_def Let_def row_points_def split: option.split)

lemma solved_points_static:
  "\<not> (0 < challenges_initial_value r \<and> 0 < challenges_decay r) \<Longrightarrow> row_points (solved_row r) = row_points r"
  by (auto simp: solved_row_def Let_def row_points_def)

section \<open>The verdict when nothing fails\<close>

definition format_accepts :: "challenge_uc \<Rightarrow> db \<Rightarrow> challenges_row \<Rightarrow> string \<Rightarrow> bool" where
  "format_accepts uc d r flag =
     (flag_format uc d r = '''' \<or>
      (case compiled uc (flag_format uc d r) of None \<Rightarrow> False | Some re \<Rightarrow> ext_match (cu_ext uc) re flag))"

lemma format_accepts_calm:
  assumes "faults w = []" "format_accepts uc (store w) r flag"
  shows "submitValidateFlagFormat uc flag (toEntityChallengeFromRow r) w = (Inr (), w)"
  using assms by (auto simp: submitValidateFlagFormat_calm format_accepts_def compiled_def split: sum.splits)

text \<open>The answer to a submission that passed the guards.\<close>

definition verdict :: "challenge_uc \<Rightarrow> db \<Rightarrow> uuid \<Rightarrow> challenges_row \<Rightarrow> string \<Rightarrow> bool \<times> goerr option" where
  "verdict uc d t r flag =
     (if \<not> flag_matches uc flag (toEntityChallengeFromRow r) then (False, None)
      else if solve_of d t (challenges_id r) = None then (True, None)
      else (True, Some (Sentinel ErrAlreadySolved)))"

lemma bind_errE_run: "m w = (r, w') \<Longrightarrow> r \<noteq> Inl GoPanic \<Longrightarrow> bindE (errE m) f w = f r w'"
  by (simp add: bindE_run_Inr errE_run)

lemma SubmitFlag_calm:
  assumes "faults w = []" "regex_ok uc w" "live_team (store w) t = Some tr" "teams_is_banned tr \<noteq> Some True"
    "user_exists u (store w)" "chal_row (store w) c = Some r" "format_accepts uc (store w) r (TrimSpace flag)"
    "int4_ok (challenges_solve_count r + 1)" "score_fits r" "next_uuid w \<notin> solves_id ` set (solves (store w))"
  shows "\<exists>w'. Challenge_SubmitFlag uc c flag u (Some t) w = (Inr (verdict uc (store w) t r (TrimSpace flag)), w')"
proof -
  let ?ch = "toEntityChallengeFromRow r"
  obtain w1 where 1: "submitCheckFlag uc (TrimSpace flag) ?ch w = (Inr (flag_matches uc (TrimSpace flag) ?ch), w1)"
    using submitCheckFlag_answer [OF assms(2)] by blast
  obtain rc where w1: "w1 = w\<lparr>regex_cache := rc\<rparr>" using submitCheckFlag_frame [OF 1] by blast
  have te: "team_exists t (store w)" using live_team_exists [OF assms(3)] .
  obtain x w2 where 2: "submitRecordSolve u t c w1 =
    (if solve_of (store w) t c = None then Inr x else Inl (Sentinel ErrAlreadySolved), w2)"
    using submitRecordSolve_calm [of w1 u t c r] assms te by (auto simp: w1 next_uuid_def)
  have b1: "bindE (errE (submitValidateTeam uc t)) f w = f (Inr ()) w" for f :: "goerr + unit \<Rightarrow> 'b op"
    by (rule bind_errE_run, rule submitValidateTeam_calm [OF assms(1,3,4)]) simp
  have "submitGetChallenge c w = (Inr ?ch, w)"
    using ChallengeRepo_GetByID_calm [OF assms(1,6)] by (simp add: submitGetChallenge_def mapErr_def)
  then have b2: "bindE (errE (submitGetChallenge c)) f w = f (Inr ?ch) w" for f :: "goerr + challenge \<Rightarrow> 'b op"
    by (rule bind_errE_run) simp
  have b3: "bindE (errE (submitValidateFlagFormat uc (TrimSpace flag) ?ch)) f w = f (Inr ()) w"
    for f :: "goerr + unit \<Rightarrow> 'b op"
    by (rule bind_errE_run, rule format_accepts_calm [OF assms(1,7)]) simp
  have b4: "bindE (errE (submitRecordSolve u t c)) f w1 =
      f (if solve_of (store w) t c = None then Inr x else Inl (Sentinel ErrAlreadySolved)) w2"
    for f :: "goerr + challenge \<times> int \<Rightarrow> 'b op"
    by (rule bind_errE_run, rule 2) simp
  have b5: "bindE (submitCheckFlag uc (TrimSpace flag) ?ch) f w = f (flag_matches uc (TrimSpace flag) ?ch) w1"
    for f :: "bool \<Rightarrow> 'b op"
    by (rule bindE_run_Inr, rule 1)
  note steps = b1 b2 b3 b5 b4
  have cid: "challenges_id r = c" using chal_row_SomeD [OF assms(6)] by simp
  have last: "\<exists>w'. bindE (invalidate_cache uc) (\<lambda>_. bindE (submitNotifySolve uc t a b) (\<lambda>_. returnE (True, None))) w2 =
      (Inr (True, None), w')" for a b
    by (cases "cu_scoreboardCache uc") (auto simp: invalidate_cache_def InvalidateAll_def Cache_Del_def redis_Del_def
      submitNotifySolve_def NotifySolve_def nowE_def bindE_def)
  show ?thesis
    using last by (cases x) (auto simp: Challenge_SubmitFlag_def Let_def steps verdict_def cid)
qed

section \<open>Properties\<close>

text \<open>C2 An accepted submission came from a team, named an existing challenge the team had not solved, and its
  trimmed flag matches the one of the challenge as an uncached comparison would tell. It inserts one row in
  the table of solves and counts and rescores the challenge; it sends the solve, and the first blood exactly
  when nobody had solved the challenge. Nothing else in the database changes, whatever fails.\<close>

theorem SubmitFlag_accepted:
  assumes "Challenge_SubmitFlag uc c flag u tm w = (Inr (True, None), w')"
    and "chal_keys (store w)" "regex_ok uc w"
  shows "\<exists>t r s now. tm = Some t \<and> chal_row (store w) c = Some r \<and> solve_of (store w) t c = None \<and>
    flag_matches uc (TrimSpace flag) (toEntityChallengeFromRow r) \<and>
    solves_user_id s = u \<and> solves_team_id s = t \<and> solves_challenge_id s = c \<and>
    store w' = solved_db c s (store w) \<and> events w' = events w @ solve_events uc t r now"
proof (rule SubmitFlag_Inr [OF assms(1,2)])
  fix t r s w1 w2 now
  assume *: "tm = Some t" "chal_row (store w) c = Some r" "regex_cache w1 = regex_cache w"
    "submitCheckFlag uc (TrimSpace flag) (toEntityChallengeFromRow r) w1 = (Inr True, w2)"
    "solve_of (store w) t c = None" "store w' = solved_db c s (store w)"
    "events w' = events w @ solve_events uc t r now"
    "solves_user_id s = u" "solves_team_id s = t" "solves_challenge_id s = c"
  have "regex_ok uc w1" using assms(3) *(3) by (simp add: regex_ok_def)
  then have "flag_matches uc (TrimSpace flag) (toEntityChallengeFromRow r)"
    using submitCheckFlag_answer [of uc w1 "TrimSpace flag" "toEntityChallengeFromRow r"] *(4) by auto
  with * show ?thesis by blast
qed simp

text \<open>C7 Every other answer leaves the database, and what was sent, as it was: a wrong flag, a banned team, a
  flag of the wrong format, a challenge already solved, and every failure of the infrastructure at any
  step.\<close>

theorem SubmitFlag_otherwise_unchanged:
  assumes "Challenge_SubmitFlag uc c flag u tm w = (Inr (ok, err), w')" "chal_keys (store w)"
    and "(ok, err) \<noteq> (True, None)"
  shows "store w' = store w \<and> events w' = events w"
  by (rule SubmitFlag_Inr [OF assms(1,2)]) (use assms(3) in auto)

text \<open>C11 When nothing fails, the submission of a team that is not banned, for an existing challenge and with
  a flag of the required format, is answered by the comparison alone: a wrong flag is refused, the right one is
  accepted, and accepted again as already solved.\<close>

theorem SubmitFlag_verdict:
  assumes "faults w = []" "regex_ok uc w" "live_team (store w) t = Some tr" "teams_is_banned tr \<noteq> Some True"
    "user_exists u (store w)" "chal_row (store w) c = Some r" "format_accepts uc (store w) r (TrimSpace flag)"
    "int4_ok (challenges_solve_count r + 1)" "score_fits r" "next_uuid w \<notin> solves_id ` set (solves (store w))"
  shows "fst (Challenge_SubmitFlag uc c flag u (Some t) w) =
    Inr (if \<not> flag_matches uc (TrimSpace flag) (toEntityChallengeFromRow r) then (False, None)
         else if solve_of (store w) t c = None then (True, None) else (True, Some (Sentinel ErrAlreadySolved)))"
  using SubmitFlag_calm [OF assms] chal_row_SomeD [OF assms(6)] by (auto simp: verdict_def)

text \<open>C12 Every submission is answered, whatever fails: none panics, and the cache of compiled expressions stays
  correct for the next one.\<close>

theorem SubmitFlag_returns:
  assumes "regex_ok uc w"
  shows "\<exists>ok err w'. Challenge_SubmitFlag uc c flag u tm w = (Inr (ok, err), w') \<and> regex_ok uc w'"
proof -
  obtain x w' where run: "Challenge_SubmitFlag uc c flag u tm w = (x, w')"
    by (cases "Challenge_SubmitFlag uc c flag u tm w")
  have "regex_ok uc w' \<and> (\<exists>ok err. x = Inr (ok, err))"
    using validD_Inr [OF SubmitFlag_answers assms] validD_Inl [OF SubmitFlag_answers assms] run
    by (cases x) auto
  with run show ?thesis by auto
qed

text \<open>C13 Through the cache of compiled expressions, with its eviction, a submitted flag is compared as if every
  expression were compiled anew.\<close>

theorem submitCheckFlag_uncached:
  assumes "regex_ok uc w"
  shows "fst (submitCheckFlag uc flag ch w) = Inr (flag_matches uc flag ch)"
  using submitCheckFlag_answer [OF assms, of flag ch] by auto

text \<open>C9 An accepted submission raises the score of its team by the new value of the challenge, which for a
  dynamic challenge is its score at the new number of solves, and leaves the score of every team that has not
  solved the challenge.\<close>

theorem SubmitFlag_score:
  assumes "Challenge_SubmitFlag uc c flag u (Some t) w = (Inr (True, None), w')"
    and "chal_keys (store w)" "chal_row (store w) c = Some r"
  shows "team_score (store w') t = team_score (store w) t + row_points (solved_row r) \<and>
    (0 < challenges_initial_value r \<and> 0 < challenges_decay r \<longrightarrow>
      row_points (solved_row r) = CalculateDynamicScore (challenges_initial_value r) (challenges_min_value r)
        (challenges_decay r) (challenges_solve_count r + 1)) \<and>
    (\<forall>t'. t' \<noteq> t \<and> solve_of (store w) t' c = None \<longrightarrow> team_score (store w') t' = team_score (store w) t')"
proof (rule SubmitFlag_Inr [OF assms(1,2)])
  fix t0 r' s
  assume "Some t = Some t0" "chal_row (store w) c = Some r'" "solve_of (store w) t0 c = None"
    "store w' = solved_db c s (store w)" "solves_team_id s = t0" "solves_challenge_id s = c"
  then show ?thesis using assms(3) by (auto simp: team_score_solved [OF assms(2,3)] solved_points)
qed simp

section \<open>Witnesses\<close>

text \<open>A toy hash that prefixes an \<open>h\<close>; expressions that match themselves; no encryption.\<close>

definition demo_chal_uc :: challenge_uc where
  "demo_chal_uc = \<lparr>cu_ext = \<lparr>ext_sha256 = (\<lambda>s. ''h'' @ s), ext_lower = (\<lambda>s. s),
       ext_compile = (\<lambda>p. if p = ''*'' then Inl (Plain ''bad'') else Inr (Regexp p)),
       ext_match = (\<lambda>re s. re_source re = s), ext_uuid = (\<lambda>_. ''id''), ext_collation = (\<lambda>_. [])\<rparr>,
     cu_tagRepo = True, cu_compRepo = True, cu_teamRepo = True,
     cu_scoreboardCache = Some \<lparr>sc_cache = True, sc_getter = None\<rparr>, cu_broadcaster = True,
     cu_crypto = Some \<lparr>cs_Encrypt = (\<lambda>s. returnE s), cs_Decrypt = (\<lambda>s. Inr s)\<rparr>\<rparr>"

definition demo_solved :: world where
  "demo_solved = snd (Challenge_SubmitFlag demo_chal_uc 31 '' 1 '' 4 (Some 12) demo_world)"

lemma demo_chal_keys: "chal_keys (store demo_world)"
  by (simp add: chal_keys_def demo_world_def world_of_def demo_db_def empty_db_def demo_challenge_def)

lemma demo_regex_ok: "regex_ok uc demo_world"
  using bc_ok_New [of DefaultBoundedCacheSize] by (simp add: regex_ok_def bounded.agrees_def demo_world_def world_of_def
      BoundedCache_Get_def NewBoundedCache_def Let_def)

lemma demo_chal_row: "chal_row (store demo_world) 31 = Some (demo_challenge 31 ''easy'' ''h1'' False None 1)"
  by (simp add: chal_row_def demo_world_def world_of_def demo_db_def empty_db_def demo_challenge_def)

lemma demo_submit:
  "\<exists>w'. Challenge_SubmitFlag demo_chal_uc 31 flag 4 (Some 12) demo_world =
     (Inr (if ''h'' @ TrimSpace flag = ''h1'' then (True, None) else (False, None)), w')"
proof -
  let ?r = "demo_challenge 31 ''easy'' ''h1'' False None 1"
  have "\<exists>w'. Challenge_SubmitFlag demo_chal_uc 31 flag 4 (Some 12) demo_world =
      (Inr (verdict demo_chal_uc (store demo_world) 12 ?r (TrimSpace flag)), w')"
  proof (rule SubmitFlag_calm [where tr = "demo_team 12 ''delta'' 22 4 True None"])
    have "flag_format demo_chal_uc (store demo_world) ?r = ''''"
      by (simp add: flag_format_def demo_chal_uc_def demo_world_def world_of_def demo_db_def empty_db_def
          demo_challenge_def demo_competition_def ptrStrToStr_def)
    then show "format_accepts demo_chal_uc (store demo_world) ?r (TrimSpace flag)" by (simp add: format_accepts_def)
    show "score_fits ?r" by (rule score_fits_bounds) (simp_all add: demo_challenge_def int4_ok_def)
    show "regex_ok demo_chal_uc demo_world" by (rule demo_regex_ok)
    show "chal_row (store demo_world) 31 = Some ?r" by (rule demo_chal_row)
  qed (simp_all add: demo_world_def world_of_def demo_db_def empty_db_def live_team_def
      user_exists_def demo_user_def demo_team_def demo_challenge_def next_uuid_def int4_ok_def)
  moreover have "solve_of (store demo_world) 12 31 = None"
    by (simp add: solve_of_def demo_world_def world_of_def demo_db_def empty_db_def)
  then have "verdict demo_chal_uc (store demo_world) 12 ?r f = (if ''h'' @ f = ''h1'' then (True, None) else (False, None))"
    for f
    by (simp add: verdict_def flag_matches_def submitCheckHashFlag_def demo_chal_uc_def toEntityChallengeFromRow_def
        demo_challenge_def boolPtrToBool_def)
  ultimately show ?thesis by simp
qed

lemma demo_trim: "TrimSpace '' 1 '' = ''1''"
  by code_simp

lemma demo_submit_run:
  "Challenge_SubmitFlag demo_chal_uc 31 '' 1 '' 4 (Some 12) demo_world = (Inr (True, None), demo_solved)"
  using demo_submit [of "'' 1 ''"] by (auto simp: demo_solved_def demo_trim)

theorem SubmitFlag_accepted_witness:
  "\<exists>s now. store demo_solved = solved_db 31 s demo_db \<and>
     events demo_solved = solve_events demo_chal_uc 12 (demo_challenge 31 ''easy'' ''h1'' False None 1) now"
  using SubmitFlag_accepted [OF demo_submit_run demo_chal_keys demo_regex_ok] demo_chal_row
  by (auto simp: demo_world_def world_of_def)

theorem SubmitFlag_otherwise_unchanged_witness:
  "\<exists>w'. Challenge_SubmitFlag demo_chal_uc 31 ''2'' 4 (Some 12) demo_world = (Inr (False, None), w') \<and>
     store w' = demo_db"
proof -
  have "TrimSpace ''2'' = ''2''" by code_simp
  then obtain w' where "Challenge_SubmitFlag demo_chal_uc 31 ''2'' 4 (Some 12) demo_world = (Inr (False, None), w')"
    using demo_submit [of "''2''"] by auto
  with SubmitFlag_otherwise_unchanged [OF this demo_chal_keys] show ?thesis
    by (auto simp: demo_world_def world_of_def)
qed

theorem SubmitFlag_verdict_witness:
  "fst (Challenge_SubmitFlag demo_chal_uc 31 '' 1 '' 2 (Some 11) demo_world) = Inr (True, Some (Sentinel ErrAlreadySolved))"
proof -
  let ?r = "demo_challenge 31 ''easy'' ''h1'' False None 1"
  have "fst (Challenge_SubmitFlag demo_chal_uc 31 '' 1 '' 2 (Some 11) demo_world) =
    Inr (if \<not> flag_matches demo_chal_uc (TrimSpace '' 1 '') (toEntityChallengeFromRow ?r) then (False, None)
         else if solve_of (store demo_world) 11 31 = None then (True, None)
         else (True, Some (Sentinel ErrAlreadySolved)))"
  proof (rule SubmitFlag_verdict [where tr = "demo_team 11 ''alpha'' 21 1 False None"])
    show "format_accepts demo_chal_uc (store demo_world) ?r (TrimSpace '' 1 '')"
      by (simp add: format_accepts_def flag_format_def demo_chal_uc_def demo_world_def world_of_def demo_db_def
          empty_db_def demo_challenge_def demo_competition_def ptrStrToStr_def)
    show "score_fits ?r" by (rule score_fits_bounds) (simp_all add: demo_challenge_def int4_ok_def)
    show "regex_ok demo_chal_uc demo_world" by (rule demo_regex_ok)
    show "chal_row (store demo_world) 31 = Some ?r" by (rule demo_chal_row)
  qed (simp_all add: demo_world_def world_of_def demo_db_def empty_db_def live_team_def
      user_exists_def demo_user_def demo_team_def demo_challenge_def next_uuid_def int4_ok_def)
  then show ?thesis
    by (simp add: demo_trim flag_matches_def submitCheckHashFlag_def demo_chal_uc_def toEntityChallengeFromRow_def
        demo_challenge_def boolPtrToBool_def solve_of_def demo_world_def world_of_def demo_db_def empty_db_def)
qed

theorem SubmitFlag_returns_witness:
  "\<exists>ok err w'. Challenge_SubmitFlag demo_chal_uc 33 ''re'' 4 (Some 12) (demo_world\<lparr>faults := [False, True]\<rparr>) =
     (Inr (ok, err), w')"
  using SubmitFlag_returns [of demo_chal_uc "demo_world\<lparr>faults := [False, True]\<rparr>"] demo_regex_ok
  by (fastforce simp: regex_ok_def)

theorem submitCheckFlag_uncached_witness:
  "fst (submitCheckFlag demo_chal_uc ''re''
      (toEntityChallengeFromRow (demo_challenge 33 ''pattern'' '''' False (Some ''re'') 0)) demo_world) = Inr True"
  by (subst submitCheckFlag_uncached [OF demo_regex_ok])
    (simp add: flag_matches_def toEntityChallengeFromRow_def demo_challenge_def demo_chal_uc_def compiled_def
      boolPtrToBool_def ptrStrToStr_def)

theorem SubmitFlag_score_witness:
  "team_score (store demo_solved) 12 = team_score demo_db 12 + 496"
proof -
  have "CalculateDynamicScore 500 100 10 2 = 496" by code_simp
  then have "row_points (solved_row (demo_challenge 31 ''easy'' ''h1'' False None 1)) = 496"
    by (simp add: solved_points demo_challenge_def)
  then show ?thesis
    using SubmitFlag_score [OF demo_submit_run demo_chal_keys demo_chal_row] by (simp add: demo_world_def world_of_def)
qed

end
