(* ===== verification/CTF_TeamProps.thy ===== *)
theory CTF_TeamProps
  imports CTF_Teams CTF_Demo CTF_Calm
begin

text \<open>
  The properties of the team use case, over the simulation and the interfaces of
  \<open>CTF_Teams\<close> and \<open>CTF_TeamStore\<close>, each with a run on the board of \<open>CTF_Demo\<close>.
\<close>

section \<open>The board of the witnesses\<close>

lemma demo_schema: "roster_schema demo_db"
  by (simp add: roster_schema_def users_keys_def teams_keys_def member_fk_def captain_fk_def audit_fk_def
      team_exists_def user_exists_def demo_db_def empty_db_def demo_user_def demo_team_def)

lemma demo_store [simp]: "store demo_world = demo_db"
  by (simp add: demo_world_def world_of_def)

lemma demo_size [simp]: "tu_maxTeamSize demo_uc = 10"
  by (simp add: demo_uc_def NewTeamUseCase_def)

lemma user_row_demo_set: "user_row demo_db u = Some r \<Longrightarrow> r \<in> set (users demo_db)"
  by (simp add: user_row_SomeD)

lemma demo_captains: "captains_ok (roster_of demo_db)"
  by (auto simp: captains_ok_def user_row_def live_team_def demo_db_def empty_db_def demo_user_def
      demo_team_def split: if_splits)

lemma demo_sizes: "sizes_ok 10 (roster_of demo_db)"
proof -
  have uk: "users_keys (users demo_db)" using roster_schemaD(1) [OF demo_schema] .
  have "length (members_of demo_db t) \<le> length (users demo_db)" for t by (simp add: members_of_def)
  then have "length (members_of demo_db t) \<le> 10" for t
    by (rule le_trans) (simp add: demo_db_def)
  moreover have "finite (r_members (roster_of demo_db) t)" for t by (simp add: r_members_of [OF uk])
  ultimately show ?thesis by (simp add: sizes_ok_def card_r_members_of [OF uk] max_def)
qed

text \<open>Carol founds a team, bob leaves alpha: two requests from the board.\<close>

definition demo_founded :: world where
  "demo_founded = snd (team_exec demo_uc (QCreate ''gamma'' 3 False False) demo_world)"

definition demo_left :: world where
  "demo_left = snd (team_exec demo_uc (QLeave 2) demo_founded)"

lemma demo_run: "team_run demo_uc demo_db (store demo_left)"
proof -
  have "team_run demo_uc demo_db (store demo_world)" by (simp add: team_run.start)
  then have "team_run demo_uc demo_db (store demo_founded)"
    unfolding demo_founded_def by (rule team_run.more) (rule prod.collapse [symmetric])
  then show ?thesis unfolding demo_left_def by (rule team_run.more) (rule prod.collapse [symmetric])
qed

section \<open>Refinement\<close>

text \<open>C1 Every request of the team use case implements the abstract roster, whatever calls of the
  database fail: one that answers makes the step of its event, one that reports an error leaves the
  database as it was.\<close>

theorem team_exec_refines:
  assumes "roster_schema (store w)" and "team_exec uc q w = (r, w')"
  shows "case r of
      Inl e \<Rightarrow> store w' = store w
    | Inr e \<Rightarrow> roster_step (nat (tu_maxTeamSize uc)) (roster_of (store w)) e (roster_of (store w'))"
  using team_exec_Inl_store team_exec_Inr_step [OF assms(1)] assms(2) by (cases r) fastforce+

theorem team_exec_refines_witness:
  "roster_step 10 (roster_of demo_db) (ECreate 3 1001)
     (roster_of (store (snd (team_exec demo_uc (QCreate ''gamma'' 3 False False) demo_world))))"
proof -
  let ?m = "team_exec demo_uc (QCreate ''gamma'' 3 False False)"
  have "fst (?m demo_world) = Inr (ECreate 3 1001)" by code_simp
  then have "?m demo_world = (Inr (ECreate 3 1001), snd (?m demo_world))" by (simp add: prod_eq_iff)
  from team_exec_refines [OF _ this] show ?thesis by (simp add: demo_schema del: roster_of_simps)
qed

text \<open>C4 On every database that team requests lead to, the captain of a team that is not deleted is
  one of its members.\<close>

theorem team_run_captain_is_member:
  assumes "team_run uc d d'" and "roster_schema d" "captains_ok (roster_of d)"
    "sizes_ok (nat (tu_maxTeamSize uc)) (roster_of d)"
    and "live_team d' t = Some team"
  shows "\<exists>u. user_row d' (teams_captain_id team) = Some u \<and> users_team_id u = Some t"
proof -
  have "captains_ok (roster_of d')"
    using team_run_roster [OF assms(1,2)] roster_reach_invariant assms(3,4) by blast
  from captains_okD [OF this, of t] show ?thesis using assms(5) by auto
qed

theorem team_run_captain_is_member_witness:
  "\<exists>u. user_row (store demo_left) 3 = Some u \<and> users_team_id u = Some 1001"
proof -
  have "map_option teams_captain_id (live_team (store demo_left) 1001) = Some 3" by code_simp
  then obtain team where "live_team (store demo_left) 1001 = Some team" "teams_captain_id team = 3" by auto
  then show ?thesis
    using team_run_captain_is_member [OF demo_run demo_schema demo_captains] demo_sizes by fastforce
qed

text \<open>C18 On every database that team requests lead to, no team has more members than the maximal team
  size, or one where that is smaller.\<close>

theorem team_run_size:
  assumes "team_run uc d d'" and "roster_schema d" "captains_ok (roster_of d)"
    "sizes_ok (nat (tu_maxTeamSize uc)) (roster_of d)"
  shows "length (members_of d' t) \<le> max 1 (nat (tu_maxTeamSize uc))"
proof -
  have ok: "roster_schema d'" and "sizes_ok (nat (tu_maxTeamSize uc)) (roster_of d')"
    using team_run_roster [OF assms(1,2)] roster_reach_invariant assms(3,4) by blast+
  then show ?thesis
    by (auto simp: sizes_ok_def card_r_members_of [OF roster_schemaD(1) [OF ok]])
qed

theorem team_run_size_witness: "length (members_of (store demo_left) 11) \<le> 10"
  using team_run_size [OF demo_run demo_schema demo_captains] demo_sizes by simp

section \<open>Frame\<close>

lemma registration_frame:
  "db_keeps (\<lambda>d. challenges d = cs \<and> hints d = hs \<and> hint_unlocks d = us \<and> awards d = aws \<and>
     competition d = cm) (UserRepo_Create u)"
proof (rule keepsI)
  fix w r w' assume I: "challenges (store w) = cs \<and> hints (store w) = hs \<and> hint_unlocks (store w) = us \<and>
      awards (store w) = aws \<and> competition (store w) = cm" and run: "UserRepo_Create u w = (r, w')"
  show "challenges (store w') = cs \<and> hints (store w') = hs \<and> hint_unlocks (store w') = us \<and>
      awards (store w') = aws \<and> competition (store w') = cm"
    using I run by (cases r) (auto dest: repo_Inl_store elim: UserRepo_Create_Inr)
qed

text \<open>Apart from the purge of deleted teams, no request, answered or failed, touches a challenge, a
  hint, an unlocked hint, an award or the competition.\<close>

theorem team_exec_frame:
  assumes "team_exec uc q w = (r, w')" and "\<And>cutoff. q \<noteq> QPurge cutoff"
  shows "challenges (store w') = challenges (store w) \<and> hints (store w') = hints (store w) \<and>
    hint_unlocks (store w') = hint_unlocks (store w) \<and> awards (store w') = awards (store w) \<and>
    competition (store w') = competition (store w)"
proof -
  have "db_keeps (\<lambda>d. challenges d = cs \<and> hints d = hs \<and> hint_unlocks d = us \<and> awards d = aws \<and>
     competition d = cm) (team_exec uc q)" for cs hs us aws cm
    using assms(2) by (cases q; simp; intro valid_rules registration_frame scoring.create scoring.try_create
      scoring.create_solo scoring.join scoring.leave scoring.transfer scoring.disband scoring.kick
      scoring.administration)
  from keepsD [OF this _ assms(1)] show ?thesis by simp
qed

theorem team_exec_frame_witness:
  "challenges (store demo_left) = challenges (store demo_founded)"
  using team_exec_frame [OF prod.collapse [symmetric], of "QLeave 2" demo_uc demo_founded]
  unfolding demo_left_def by blast

section \<open>Joining\<close>

lemma joinTx_calm:
  assumes calm: "faults w = []" "\<not> tx_failed w"
    and user: "user_row (store w) u = Some r" "users_team_id r = None"
    and team: "find (\<lambda>t. teams_invite_token t = tok \<and> live t) (teams (store w)) = Some t"
    and ok: "roster_schema (store w)"
  shows "tu_maxTeamSize uc \<le> int (length (members_of (store w) (teams_id t))) \<Longrightarrow>
      joinTx uc tok u reset w = (Inl (Sentinel ErrTeamFull), w)"
    and "int (length (members_of (store w) (teams_id t))) < tu_maxTeamSize uc \<Longrightarrow>
      next_uuid w \<notin> team_audit_log_id ` set (team_audit_log (store w)) \<Longrightarrow>
      \<exists>w'. joinTx uc tok u reset w = (Inr (toEntityTeamFromRow t), w') \<and> faults w' = [] \<and>
        \<not> tx_failed w' \<and>
        store w' = (store w)\<lparr>users := upd_where (\<lambda>r. users_id r = u)
            (\<lambda>r. r\<lparr>users_team_id := Some (teams_id t)\<rparr>) (users (store w)),
          team_audit_log := team_audit_log (store w) @ [audit_row w (teams_id t) u TeamActionJoined []]\<rparr>"
proof -
  have t: "t \<in> set (teams (store w))" "teams_deleted_at t = None" using team by (auto dest: find_SomeD)
  then have live: "live_team (store w) (teams_id t) = Some t"
    using live_team_set [OF roster_schemaD(2) [OF ok]] by simp
  have r: "user_TeamID (toEntityUser r) = None" using user by (simp add: toEntityUser_def)
  have id: "team_ID (toEntityTeamFromRow t) = teams_id t" by (simp add: toEntityTeamFromRow_def)
  have ex: "user_exists u (store w)" "team_exists (teams_id t) (store w)"
    using user_row_exists [OF user(1)] live_team_exists [OF live] by auto
  note runs = LockUserTx_calm [OF calm user(1)] GetTeamByInviteTokenTx_calm [OF calm team]
    LockTeamTx_calm [OF calm live] GetUsersByTeamIDTx_calm [OF calm] UserRepo_GetByID_calm [OF calm(1) user(1)]
  { assume "tu_maxTeamSize uc \<le> int (length (members_of (store w) (teams_id t)))"
    then show "joinTx uc tok u reset w = (Inl (Sentinel ErrTeamFull), w)"
      by (simp add: joinTx_def bindE_def mapErr_def runs id failIf_apply) }
  assume size: "int (length (members_of (store w) (teams_id t))) < tu_maxTeamSize uc"
    and fresh: "next_uuid w \<notin> team_audit_log_id ` set (team_audit_log (store w))"
  define d where "d = (store w)\<lparr>users := upd_where (\<lambda>r. users_id r = u)
    (\<lambda>r. r\<lparr>users_team_id := Some (teams_id t)\<rparr>) (users (store w))\<rparr>"
  define w1 where "w1 = w\<lparr>store := d\<rparr>"
  have upd: "UpdateUserTeamIDTx u (Some (teams_id t)) w = (Inr (), w1)"
    using UpdateUserTeamIDTx_calm [OF calm ex(1), of "Some (teams_id t)"] ex(2) by (simp add: w1_def d_def)
  obtain w' where log: "CreateTeamAuditLogTx (teams_id t) u TeamActionJoined [] w1 = (Inr (), w')"
    and w': "faults w' = []" "\<not> tx_failed w'" "store w' = (store w1)\<lparr>team_audit_log :=
      team_audit_log (store w1) @ [audit_row w1 (teams_id t) u TeamActionJoined []]\<rparr>"
    using CreateTeamAuditLogTx_calm [of w1 "teams_id t" u TeamActionJoined "[]"] calm ex fresh
    by (auto simp: w1_def d_def next_uuid_def)
  have "joinTx uc tok u reset w = (Inr (toEntityTeamFromRow t), w')"
    using size by (simp add: joinTx_def bindE_def mapErr_def runs id failIf_apply user(2) r upd log)
  then show "\<exists>w'. joinTx uc tok u reset w = (Inr (toEntityTeamFromRow t), w') \<and> faults w' = [] \<and>
        \<not> tx_failed w' \<and>
        store w' = (store w)\<lparr>users := upd_where (\<lambda>r. users_id r = u)
            (\<lambda>r. r\<lparr>users_team_id := Some (teams_id t)\<rparr>) (users (store w)),
          team_audit_log := team_audit_log (store w) @ [audit_row w (teams_id t) u TeamActionJoined []]\<rparr>"
    using w' by (simp add: w1_def d_def audit_row_def next_uuid_def)
qed

lemma Guard_RequireTeamSwitch_calm:
  assumes "faults w = []" "find (\<lambda>c. competition_id c = 1) (competition (store w)) = Some c"
    "competition_allow_team_switch c = Some True"
  shows "Guard_RequireTeamSwitch w = (Inr (toEntityCompetition c), w)"
  using assms by (simp add: Guard_RequireTeamSwitch_def bindE_def CompetitionRepo_Get_calm
      toEntityCompetition_def failIf_apply boolPtrToBool_def)

lemma Guard_RequireTeamSwitch_frozen:
  assumes "faults w = []" "find (\<lambda>c. competition_id c = 1) (competition (store w)) = Some c"
    "competition_allow_team_switch c \<noteq> Some True"
  shows "Guard_RequireTeamSwitch w = (Inl (Sentinel ErrRosterFrozen), w)"
  using assms by (auto simp: Guard_RequireTeamSwitch_def bindE_def CompetitionRepo_Get_calm
      toEntityCompetition_def failIf_apply boolPtrToBool_def split: option.splits)

text \<open>C19 When nothing fails, the competition exists and the next identifier is not in the audit log yet, a user
  without a team who presents the token of a team that is not deleted is told that rosters are frozen, unless the
  competition allows to switch teams; then they join the team, with one entry in its audit log and no other change,
  or are told that it is full, exactly when it has the maximal number of members. When they do not join, nothing
  changes.\<close>

theorem Team_Join_outcome:
  assumes "faults w = []" "roster_schema (store w)"
    and "find (\<lambda>c. competition_id c = 1) (competition (store w)) = Some c"
    and "user_row (store w) u = Some r" "users_team_id r = None"
    and "find (\<lambda>t. teams_invite_token t = tok \<and> live t) (teams (store w)) = Some t"
    and "next_uuid w \<notin> team_audit_log_id ` set (team_audit_log (store w))"
  shows "\<exists>w'. Team_Join uc tok u reset w =
      (if competition_allow_team_switch c \<noteq> Some True
       then Inl (wrap ''TeamUseCase - Join - Guard'' (Sentinel ErrRosterFrozen))
       else if int (length (members_of (store w) (teams_id t))) < tu_maxTeamSize uc
       then Inr (toEntityTeamFromRow t)
       else Inl (wrap ''TeamUseCase - Join - Transaction'' (Sentinel ErrTeamFull)), w') \<and>
    store w' = (if competition_allow_team_switch c = Some True \<and>
          int (length (members_of (store w) (teams_id t))) < tu_maxTeamSize uc
       then (store w)\<lparr>users := upd_where (\<lambda>r. users_id r = u)
              (\<lambda>r. r\<lparr>users_team_id := Some (teams_id t)\<rparr>) (users (store w)),
            team_audit_log := team_audit_log (store w) @ [audit_row w (teams_id t) u TeamActionJoined []]\<rparr>
       else store w)"
proof (cases "competition_allow_team_switch c = Some True")
  case False
  with Guard_RequireTeamSwitch_frozen [OF assms(1,3)] show ?thesis
    by (simp add: Team_Join_def bindE_def mapErr_def)
next
  case switch: True
  note guard = Guard_RequireTeamSwitch_calm [OF assms(1,3) switch]
  let ?w = "w\<lparr>tx_failed := False\<rparr>"
  have calm: "faults ?w = []" "\<not> tx_failed ?w" using assms(1) by simp_all
  note tx = joinTx_calm [of ?w u r tok t uc reset, OF calm, simplified, OF assms(4-6,2)]
  show ?thesis
  proof (cases "int (length (members_of (store w) (teams_id t))) < tu_maxTeamSize uc")
    case True
    then obtain w' where w': "joinTx uc tok u reset ?w = (Inr (toEntityTeamFromRow t), w')" "faults w' = []"
      "\<not> tx_failed w'" "store w' = (store w)\<lparr>users := upd_where (\<lambda>r. users_id r = u)
              (\<lambda>r. r\<lparr>users_team_id := Some (teams_id t)\<rparr>) (users (store w)),
            team_audit_log := team_audit_log (store w) @ [audit_row w (teams_id t) u TeamActionJoined []]\<rparr>"
      using tx(2) assms(7) by (auto simp: next_uuid_def audit_row_def)
    then show ?thesis
      using True run_transaction_calm_Inr [of w "joinTx uc tok u reset", OF assms(1) w'(1-3)] guard switch
      by (simp add: Team_Join_def bindE_def mapErr_def)
  next
    case False
    then have "run_transaction (joinTx uc tok u reset) w = (Inl (Sentinel ErrTeamFull), ?w)"
      using run_transaction_calm_Inl [OF assms(1), of "joinTx uc tok u reset"] tx(1) assms(1) by simp
    then show ?thesis
      using False guard switch
      by (simp add: Team_Join_def bindE_def mapErr_def)
  qed
qed

theorem Team_Join_outcome_witness:
  "\<exists>w'. Team_Join demo_uc 21 3 False demo_world = (Inr (toEntityTeamFromRow (demo_team 11 ''alpha'' 21 1 False None)), w')"
proof -
  have "find (\<lambda>c. competition_id c = 1) (competition (store demo_world)) = Some demo_competition"
    "user_row (store demo_world) 3 = Some (demo_user 3 ''carol'' None)"
    "find (\<lambda>t. teams_invite_token t = 21 \<and> live t) (teams (store demo_world)) =
      Some (demo_team 11 ''alpha'' 21 1 False None)"
    "team_audit_log (store demo_world) = []" "length (members_of demo_db 11) = 2"
    by (simp_all add: user_row_def members_of_def demo_db_def empty_db_def demo_competition_def demo_user_def demo_team_def)
  then show ?thesis
    using Team_Join_outcome [of demo_world demo_competition 3 "demo_user 3 ''carol'' None" 21
        "demo_team 11 ''alpha'' 21 1 False None" demo_uc False] demo_schema
    by (auto simp: demo_world_def world_of_def demo_competition_def demo_user_def demo_team_def)
qed

section \<open>Solo teams\<close>

text \<open>A user who joins the team they are already in, which succeeds only for the sole member of a
  solo team with the reset confirmed, ends up in a team that is deleted.\<close>

theorem Team_Join_own_team_strands:
  assumes "Team_Join uc tok u reset w = (Inr t, w')" and "roster_schema (store w)"
    and "user_row (store w) u = Some r" "users_team_id r = Some (team_ID t)"
  shows "live_team (store w') (team_ID t) = None \<and>
    (\<exists>r'. user_row (store w') u = Some r' \<and> users_team_id r' = Some (team_ID t))"
proof -
  have "roster_step (nat (tu_maxTeamSize uc)) (roster_of (store w)) (EJoin u (team_ID t)) (roster_of (store w'))"
    by (rule team_method_step(3) [OF assms(2,1)])
  then obtain old s' where drop: "may_drop (roster_of (store w)) u old" "s' = drop_team old (roster_of (store w))"
    and s: "roster_of (store w') = s'\<lparr>r_team := (r_team (roster_of (store w)))(u \<mapsto> Some (team_ID t))\<rparr>"
    unfolding roster_step_join_simp by blast
  have "old = Some (team_ID t)" using drop(1) assms(3,4) by (auto simp: may_drop_def)
  then have "r_captain (roster_of (store w')) (team_ID t) = None"
    "r_team (roster_of (store w')) u = Some (Some (team_ID t))"
    by (simp_all only: s drop(2)) simp_all
  then show ?thesis by auto
qed

theorem Team_Join_own_team_strands_witness:
  "live_team (store (snd (Team_Join demo_uc 22 4 True demo_world))) 12 = None"
proof -
  let ?m = "Team_Join demo_uc 22 4 True demo_world"
  let ?t = "toEntityTeamFromRow (demo_team 12 ''delta'' 22 4 True None)"
  have "fst ?m = Inr ?t" by code_simp
  then have run: "?m = (Inr ?t, snd ?m)" by (simp add: prod_eq_iff)
  have "user_row (store demo_world) 4 = Some (demo_user 4 ''dave'' (Some 12))"
    by (simp add: user_row_def demo_db_def empty_db_def demo_user_def)
  from Team_Join_own_team_strands [OF run _ this] show ?thesis
    by (simp add: demo_schema demo_user_def toEntityTeamFromRow_def demo_team_def)
qed

lemma tryCreateWhenInTeam_result:
  "tryCreateWhenInTeam user t u w = (r, w') \<Longrightarrow>
     store w' = store w \<and> (\<forall>res. r = Inr res \<longrightarrow> res_Team res = None \<and> res_RequiresConfirm res)"
  unfolding tryCreateWhenInTeam_def
  by (cases r; simp add: run_transaction_Inl_store)
    (erule run_transaction_Inr, auto simp: bindE_Inr_iff
      dest!: LockUserTx_Inr GetTeamByIDTx_Inr GetUsersByTeamIDTx_Inr GetTeamScoreTx_store)

text \<open>Trying to create a team changes nothing for a user who has one: the answer, if there is one,
  asks for a confirmation and names no team.\<close>

theorem Team_TryCreate_dry_run:
  assumes "Team_TryCreate name u solo w = (r, w')" and "user_row (store w) u = Some x" "users_team_id x \<noteq> None"
  shows "store w' = store w \<and> (\<forall>res. r = Inr res \<longrightarrow> res_Team res = None \<and> res_RequiresConfirm res)"
proof (cases r)
  case (Inl e)
  then show ?thesis using assms(1) by (simp add: TryCreate_Inl_store)
next
  case (Inr res)
  with assms(1) obtain c w1 user w2 where 1: "Guard_RequireTeamSwitchAndTeamsMode w = (Inr c, w1)"
    "UserRepo_GetByID u w1 = (Inr user, w2)" and
    2: "(case user_TeamID user of
       None \<Rightarrow> bindE (Team_Create name u solo False) (\<lambda>team.
         returnE \<lparr>res_Team = Some team, res_RequiresConfirm = False,
           res_ConfirmationReason = ConfirmReasonNone, res_AffectedData = None\<rparr>)
     | Some t \<Rightarrow> tryCreateWhenInTeam user t u) w2 = (r, w')"
    unfolding Team_TryCreate_def Inr bindE_Inr_iff mapErr_Inr_iff by blast
  have w2: "store w2 = store w" "user = toEntityUser x"
    using guards_store(2) [OF 1(1)] UserRepo_GetByID_Inr [OF 1(2)] assms(2) by auto
  then obtain t where "user_TeamID user = Some t" using assms(3) by (auto simp: toEntityUser_def)
  with 2 have "tryCreateWhenInTeam user t u w2 = (r, w')" by simp
  from tryCreateWhenInTeam_result [OF this] show ?thesis by (simp add: w2)
qed

theorem Team_TryCreate_dry_run_witness:
  "store (snd (Team_TryCreate ''omega'' 4 False demo_world)) = demo_db"
proof -
  have "user_row (store demo_world) 4 = Some (demo_user 4 ''dave'' (Some 12))"
    by (simp add: user_row_def demo_db_def empty_db_def demo_user_def)
  from Team_TryCreate_dry_run [OF prod.collapse [symmetric] this] show ?thesis
    by (simp add: demo_user_def)
qed

end
