(* ===== verification/CTF_BoardProps.thy ===== *)
theory CTF_BoardProps
  imports CTF_Board CTF_SubmitProps CTF_TeamProps
begin

text \<open>
  Properties of the board as a whole, over every sequence of requests of players, captains and
  administrators; and the round trip of a flag from its creation to its submission.
\<close>

section \<open>Witness run\<close>

lemma demo_board_ok: "board_ok demo_db"
  using demo_schema by (auto simp: board_ok_def score_ok_def chal_keys_def demo_db_def empty_db_def demo_challenge_def
      challenge_exists_def solves_of_def)

lemma demo_crypto_pure: "crypto_pure demo_chal_uc"
  by (auto simp: crypto_pure_def demo_chal_uc_def)

lemma demo_board_run:
  "board_run demo_uc demo_chal_uc demo_hint_uc demo_db
     (store (snd (Hint_UnlockHint demo_hint_uc 11 41 demo_solved)))"
proof -
  have "board_run demo_uc demo_chal_uc demo_hint_uc demo_db (store demo_world)"
    by (simp add: demo_world_def world_of_def board_run.start)
  from board_run.submit [OF this demo_regex_ok demo_submit_run]
  have "board_run demo_uc demo_chal_uc demo_hint_uc demo_db (store demo_solved)" .
  from board_run.unlock [OF this prod.collapse [symmetric]] show ?thesis .
qed

section \<open>Properties\<close>

text \<open>C3 On every database that requests lead to, whatever fails, no team has two solves of one challenge
  or two unlocks of one hint, every solve refers to a challenge, and the solve count of a challenge is at
  least the number of its solves.\<close>

theorem board_run_counts:
  assumes "board_run tuc cuc huc d d'" "board_ok d" "crypto_pure cuc"
  shows "distinct (map (\<lambda>s. (solves_team_id s, solves_challenge_id s)) (solves d')) \<and>
    distinct (map (\<lambda>u. (hint_unlocks_team_id u, hint_unlocks_hint_id u)) (hint_unlocks d')) \<and>
    (\<forall>s \<in> set (solves d'). challenge_exists (solves_challenge_id s) d') \<and>
    (\<forall>r \<in> set (challenges d'). int (length (solves_of d' (challenges_id r))) \<le> challenges_solve_count r)"
  using board_run_inv [OF assms] by (simp add: board_ok_def score_ok_def)

theorem board_run_counts_witness:
  "distinct (map (\<lambda>s. (solves_team_id s, solves_challenge_id s))
     (solves (store (snd (Hint_UnlockHint demo_hint_uc 11 41 demo_solved)))))"
  using board_run_counts [OF demo_board_run demo_board_ok demo_crypto_pure] by blast



section \<open>From the creation of a flag to its submission\<close>

lemma challenge_row_entity: "toEntityChallengeFromRow (challenge_row c) = c"
  by (cases c) (simp add: toEntityChallengeFromRow_def challenge_row_def ptrStrToStr_def strPtrOrNil_def boolPtrToBool_def)

lemma find_snoc: "(\<And>x. x \<in> set xs \<Longrightarrow> \<not> P x) \<Longrightarrow> P y \<Longrightarrow> find P (xs @ [y]) = Some y"
  by (induction xs) auto

lemma ChallengeRepo_Create_Inr:
  "ChallengeRepo_Create c w = (Inr ch, w') \<Longrightarrow>
     chal_row (store w') (chal_ID ch) = Some (challenge_row ch) \<and> ch = c\<lparr>chal_ID := chal_ID ch\<rparr>"
  by (auto simp: ChallengeRepo_Create_def Let_def bindE_Inr_iff sql_Inr_iff sqlc_CreateChallenge_def uuid_New_Inr_iff
      chal_row_def list_ex_iff challenge_row_def intro!: find_snoc split: if_splits)

lemma SetChallengeTags_challenges:
  "TagRepo_SetChallengeTags c ts w = (r, w') \<Longrightarrow> challenges (store w') = challenges (store w)"
proof -
  have "keeps (\<lambda>d. challenges d = cs) (sqlc_AddChallengeTag c t)" "keeps (\<lambda>d. challenges d = cs) (sqlc_DeleteChallengeTags c)"
    for cs t
    by (rule keepsI, auto simp: sqlc_AddChallengeTag_def sqlc_DeleteChallengeTags_def split: if_splits)+
  then have "db_keeps (\<lambda>d. challenges d = challenges (store w)) (TagRepo_SetChallengeTags c ts)"
    unfolding TagRepo_SetChallengeTags_def by (intro valid_rules)
  then show "TagRepo_SetChallengeTags c ts w = (r, w') \<Longrightarrow> challenges (store w') = challenges (store w)"
    by (auto dest: keepsD)
qed

lemma Create_hash_row:
  assumes "Challenge_Create uc title descr cat pts iv mv dc flag hid False ci fmt ts w = (Inr ch, w')"
  shows "chal_row (store w') (chal_ID ch) = Some (challenge_row ch) \<and> \<not> chal_IsRegex ch \<and>
    chal_IsCaseInsensitive ch = ci \<and> chal_FlagHash ch = hash_flag uc flag ci"
proof -
  from assms obtain w1 w2 where "ChallengeRepo_Create
       \<lparr>chal_ID = 0, chal_Title = title, chal_Description = descr, chal_Category = cat,
        chal_Points = pts, chal_InitialValue = iv, chal_MinValue = mv,
        chal_Decay = dc, chal_SolveCount = 0, chal_FlagHash = hash_flag uc flag ci, chal_IsHidden = hid,
        chal_IsRegex = False, chal_IsCaseInsensitive = ci, chal_FlagRegex = '''',
        chal_FlagFormatRegex = fmt\<rparr> w1 = (Inr ch, w2)"
    and "w' = w2 \<or> TagRepo_SetChallengeTags (chal_ID ch) ts w2 = (Inr (), w')"
    by (auto simp: Challenge_Create_def bindE_Inr_iff split: if_splits)
  then show ?thesis
    by (auto simp: chal_row_def dest!: ChallengeRepo_Create_Inr SetChallengeTags_challenges)
      (metis challenge.select_convs challenge.update_convs(1))+
qed

lemma hash_flag_matches:
  assumes "\<not> chal_IsRegex ch" "chal_FlagHash ch = hash_flag uc flag (chal_IsCaseInsensitive ch)"
  shows "flag_matches uc (TrimSpace s) ch \<longleftrightarrow>
    ext_sha256 (cu_ext uc) (if chal_IsCaseInsensitive ch then ToLower (ext_lower (cu_ext uc)) (TrimSpace s) else TrimSpace s) =
    ext_sha256 (cu_ext uc) (if chal_IsCaseInsensitive ch then ToLower (ext_lower (cu_ext uc)) (TrimSpace flag) else flag)"
  using assms by (simp add: flag_matches_def submitCheckHashFlag_def hash_flag_def Let_def)

text \<open>C14 A challenge created with a flag that is not an expression accepts the submission of that flag when the
  comparison ignores case or the flag has no white space around it. Otherwise, since a flag is trimmed when it is
  submitted but not when it is stored, no submission is accepted unless its hash collides with the one of a
  different string.\<close>

theorem Create_Submit_roundtrip:
  assumes "Challenge_Create uc title descr cat pts iv mv dc flag hid False ci fmt ts w = (Inr ch, w')"
  shows "\<exists>r. chal_row (store w') (chal_ID ch) = Some r \<and>
    (ci \<or> TrimSpace flag = flag \<longrightarrow> flag_matches uc (TrimSpace flag) (toEntityChallengeFromRow r)) \<and>
    (\<not> ci \<and> TrimSpace flag \<noteq> flag \<longrightarrow>
      (\<forall>s. flag_matches uc (TrimSpace s) (toEntityChallengeFromRow r) \<longrightarrow>
        TrimSpace s \<noteq> flag \<and> ext_sha256 (cu_ext uc) (TrimSpace s) = ext_sha256 (cu_ext uc) flag))"
proof -
  note c = Create_hash_row [OF assms]
  then have "\<not> chal_IsRegex ch" "chal_FlagHash ch = hash_flag uc flag (chal_IsCaseInsensitive ch)" by auto
  note m = hash_flag_matches [OF this]
  have "TrimSpace s \<noteq> flag" if "TrimSpace flag \<noteq> flag" for s using that TrimSpace_idem by metis
  moreover have "flag_matches uc (TrimSpace flag) ch" if "ci \<or> TrimSpace flag = flag"
    using that c by (subst m) auto
  moreover have "ext_sha256 (cu_ext uc) (TrimSpace s) = ext_sha256 (cu_ext uc) flag"
    if "flag_matches uc (TrimSpace s) ch" "\<not> ci" for s
    using that c by (simp add: m)
  ultimately show ?thesis using c by (auto simp: challenge_row_entity)
qed

theorem Create_Submit_roundtrip_witness:
  "\<exists>ch w' r. Challenge_Create demo_chal_uc ''new'' '''' ''web'' 500 500 100 10 '' x'' False False False None []
      demo_world = (Inr ch, w') \<and>
    chal_row (store w') (chal_ID ch) = Some r \<and> (\<forall>s. \<not> flag_matches demo_chal_uc (TrimSpace s) (toEntityChallengeFromRow r))"
proof -
  let ?m = "Challenge_Create demo_chal_uc ''new'' '''' ''web'' 500 500 100 10 '' x'' False False False None [] demo_world"
  have "case fst ?m of Inl _ \<Rightarrow> False | Inr ch \<Rightarrow> True" by code_simp
  then obtain ch where "fst ?m = Inr ch" by (cases "fst ?m") auto
  then have run: "?m = (Inr ch, snd ?m)" by (simp add: prod_eq_iff)
  have "TrimSpace '' x'' = ''x''" by code_simp
  with Create_Submit_roundtrip [OF run] obtain r where "chal_row (store (snd ?m)) (chal_ID ch) = Some r"
    "\<forall>s. flag_matches demo_chal_uc (TrimSpace s) (toEntityChallengeFromRow r) \<longrightarrow>
        TrimSpace s \<noteq> '' x'' \<and> ''h'' @ TrimSpace s = ''h'' @ '' x''"
    by (auto simp: demo_chal_uc_def)
  with run show ?thesis by auto
qed

section \<open>The solve count after a reset\<close>

text \<open>The small board with the challenge solved by the solo team too.\<close>

definition demo_reset_db :: db where
  "demo_reset_db = demo_db\<lparr>
     challenges := [demo_challenge 31 ''easy'' ''h1'' False None 2],
     solves := solves demo_db @ [\<lparr>solves_id = 52, solves_user_id = 4, solves_team_id = 12, solves_challenge_id = 31,
       solves_solved_at = Some 8\<rparr>]\<rparr>"

text \<open>The count may exceed the solves for good: replacing a solo team deletes the solves of the old one but
  leaves the solve counts, so the challenge stays cheaper for everybody.\<close>

theorem CreateSoloTeam_keeps_counts:
  "case Team_CreateSoloTeam 4 True (world_of demo_reset_db) of
     (r, w') \<Rightarrow> (case r of Inl _ \<Rightarrow> False | Inr _ \<Rightarrow> True) \<and> length (solves_of (store w') 31) = 1 \<and>
       map challenges_solve_count (challenges (store w')) = [2]"
  by code_simp

end
