(* ===== verification/CTF_Scoreboard.thy ===== *)
theory CTF_Scoreboard
  imports CTF_ScoreFacts CTF_Events CTF_Scoring "HOL-Library.Product_Lexorder"
begin

text \<open>
  The scoreboard: the ranking queries of \<open>sqlc/solves.sql.go\<close>, the methods of \<open>SolveRepo\<close>
  over them, and \<open>SolveUseCase\<close> of \<open>usecase/competition/solve.go\<close> with its cache. The four
  queries differ in the time up to which solves and awards count and in the bracket they select.
  Teams that \<open>ORDER BY\<close> leaves tied keep the order of insertion.
\<close>

section \<open>The queries\<close>

text \<open>\<open>x <= till\<close> where there is a bound; a NULL is never before it.\<close>

definition counts_at :: "time option \<Rightarrow> time option \<Rightarrow> bool" where
  "counts_at till x = (case till of None \<Rightarrow> True | Some f \<Rightarrow> (case x of None \<Rightarrow> False | Some y \<Rightarrow> y \<le> f))"

definition board_solves :: "time option \<Rightarrow> db \<Rightarrow> uuid \<Rightarrow> (solves_row \<times> challenges_row) list" where
  "board_solves till d t =
     filter (\<lambda>(s, c). solves_team_id s = t \<and> counts_at till (solves_solved_at s)) (solve_join d)"

definition board_solve_points :: "time option \<Rightarrow> db \<Rightarrow> uuid \<Rightarrow> int" where
  "board_solve_points till d t = sum_some (map (\<lambda>(s, c). challenges_points c) (board_solves till d t))"

definition board_last_solved :: "time option \<Rightarrow> db \<Rightarrow> uuid \<Rightarrow> time option" where
  "board_last_solved till d t = max_some (map (\<lambda>(s, c). solves_solved_at s) (board_solves till d t))"

definition board_award_points :: "time option \<Rightarrow> db \<Rightarrow> uuid \<Rightarrow> int" where
  "board_award_points till d t =
     sum_list (map awards_value (filter (\<lambda>a. awards_team_id a = t \<and> counts_at till (awards_created_at a)) (awards d)))"

definition board_points :: "time option \<Rightarrow> db \<Rightarrow> uuid \<Rightarrow> int" where
  "board_points till d t = board_solve_points till d t + board_award_points till d t"

definition board_visible :: "teams_row \<Rightarrow> bool" where
  "board_visible t \<longleftrightarrow> teams_is_banned t = Some False \<and> teams_is_hidden t = Some False \<and> teams_deleted_at t = None"

definition in_bracket :: "uuid option \<Rightarrow> teams_row \<Rightarrow> bool" where
  "in_bracket bracket t \<longleftrightarrow> bracket = None \<or> teams_bracket_id t = bracket"

text \<open>\<open>'9999-12-31'\<close>: the time of a team that has solved nothing.\<close>

definition end_of_time :: time where
  "end_of_time = 315537811200000000"

definition board_order :: "(uuid \<times> string \<times> int \<times> time option) \<Rightarrow> int \<times> time" where
  "board_order r = (case r of (_, _, points, solved) \<Rightarrow>
     (- points, case solved of None \<Rightarrow> end_of_time | Some x \<Rightarrow> x))"

text \<open>
  The sums are cast to 32 bits in the subqueries, for every team, and their sum is one of 32 bits; a
  value that does not fit fails the query.
\<close>

definition board_fits :: "time option \<Rightarrow> uuid option \<Rightarrow> db \<Rightarrow> bool" where
  "board_fits till bracket d \<longleftrightarrow>
     (\<forall>s \<in> set (solves d). int4_ok (board_solve_points till d (solves_team_id s))) \<and>
     (\<forall>a \<in> set (awards d). int4_ok (board_award_points till d (awards_team_id a))) \<and>
     (\<forall>t \<in> set (teams d). board_visible t \<and> in_bracket bracket t \<longrightarrow> int4_ok (board_points till d (teams_id t)))"

definition board_rows :: "time option \<Rightarrow> uuid option \<Rightarrow> db \<Rightarrow> (uuid \<times> string \<times> int \<times> time option) list" where
  "board_rows till bracket d = sort_key board_order
     (map (\<lambda>t. (teams_id t, teams_name t, board_points till d (teams_id t), board_last_solved till d (teams_id t)))
        (filter (\<lambda>t. board_visible t \<and> in_bracket bracket t) (teams d)))"

definition board_query :: "time option \<Rightarrow> uuid option \<Rightarrow> (uuid \<times> string \<times> int \<times> time option) list query" where
  "board_query till bracket d =
     (if board_fits till bracket d then (Inr (board_rows till bracket d), d) else (Inl OutOfRange, d))"

definition sqlc_GetScoreboard :: "(uuid \<times> string \<times> int \<times> time option) list query" where
  "sqlc_GetScoreboard = board_query None None"

definition sqlc_GetScoreboardFrozen :: "time \<Rightarrow> (uuid \<times> string \<times> int \<times> time option) list query" where
  "sqlc_GetScoreboardFrozen freeze = board_query (Some freeze) None"

definition sqlc_GetScoreboardByBracket :: "uuid option \<Rightarrow> (uuid \<times> string \<times> int \<times> time option) list query" where
  "sqlc_GetScoreboardByBracket bracket = board_query None bracket"

definition sqlc_GetScoreboardByBracketFrozen ::
  "time \<Rightarrow> uuid option \<Rightarrow> (uuid \<times> string \<times> int \<times> time option) list query" where
  "sqlc_GetScoreboardByBracketFrozen freeze bracket = board_query (Some freeze) bracket"

definition sqlc_GetFirstBlood :: "uuid \<Rightarrow> (uuid \<times> string \<times> uuid \<times> string \<times> time option) query" where
  "sqlc_GetFirstBlood chal = select_one (\<lambda>d.
     order_by_asc (\<lambda>(_, _, _, _, solved). solved)
       [(solves_user_id s, users_username u, solves_team_id s, teams_name t, solves_solved_at s).
          s \<leftarrow> solves d, u \<leftarrow> users d, t \<leftarrow> teams d,
          solves_challenge_id s = chal \<and> users_id u = solves_user_id s \<and> teams_id t = solves_team_id s])"

section \<open>SolveRepo\<close>

definition toScoreboardEntry :: "uuid \<times> string \<times> int \<times> time option \<Rightarrow> scoreboard_entry" where
  "toScoreboardEntry row = (case row of (team, name, points, solved) \<Rightarrow>
     \<lparr>sb_TeamID = team, sb_TeamName = name, sb_Points = points, sb_SolvedAt = ptrTimeToTime solved\<rparr>)"

definition toFirstBloodEntry :: "uuid \<times> string \<times> uuid \<times> string \<times> time option \<Rightarrow> first_blood_entry" where
  "toFirstBloodEntry row = (case row of (user, username, team, name, solved) \<Rightarrow>
     \<lparr>fb_UserID = user, fb_Username = username, fb_TeamID = team, fb_TeamName = name,
      fb_SolvedAt = ptrTimeToTime solved\<rparr>)"

definition SolveRepo_GetScoreboard :: "scoreboard_entry list op" where
  "SolveRepo_GetScoreboard =
     bindE (mapErr (wrap ''SolveRepo - GetScoreboard'') (sql sqlc_GetScoreboard))
       (\<lambda>rows. returnE (map toScoreboardEntry rows))"

definition SolveRepo_GetScoreboardFrozen :: "time \<Rightarrow> scoreboard_entry list op" where
  "SolveRepo_GetScoreboardFrozen freezeTime =
     bindE (mapErr (wrap ''SolveRepo - GetScoreboardFrozen'') (sql (sqlc_GetScoreboardFrozen freezeTime)))
       (\<lambda>rows. returnE (map toScoreboardEntry rows))"

definition SolveRepo_GetScoreboardByBracket :: "uuid option \<Rightarrow> scoreboard_entry list op" where
  "SolveRepo_GetScoreboardByBracket bracketID =
     bindE (mapErr (wrap ''SolveRepo - GetScoreboardByBracket'') (sql (sqlc_GetScoreboardByBracket bracketID)))
       (\<lambda>rows. returnE (map toScoreboardEntry rows))"

definition SolveRepo_GetScoreboardByBracketFrozen :: "time \<Rightarrow> uuid option \<Rightarrow> scoreboard_entry list op" where
  "SolveRepo_GetScoreboardByBracketFrozen freezeTime bracketID =
     bindE (mapErr (wrap ''SolveRepo - GetScoreboardByBracketFrozen'')
       (sql (sqlc_GetScoreboardByBracketFrozen freezeTime bracketID)))
       (\<lambda>rows. returnE (map toScoreboardEntry rows))"

definition SolveRepo_GetFirstBlood :: "uuid \<Rightarrow> first_blood_entry op" where
  "SolveRepo_GetFirstBlood challengeID =
     bindE (mapErr (no_rows_as ErrSolveNotFound ''SolveRepo - GetFirstBlood'') (sql (sqlc_GetFirstBlood challengeID)))
       (\<lambda>row. returnE (toFirstBloodEntry row))"

section \<open>SolveUseCase\<close>

record solve_uc =
  su_uuid :: "uuid \<Rightarrow> string"
  su_scoreboardCache :: "scoreboard_cache option"
  su_broadcaster :: bool

text \<open>The bracket of a team, as the wiring hands it to the scoreboard cache.\<close>

definition GetTeamBracketID :: "uuid \<Rightarrow> uuid option op" where
  "GetTeamBracketID teamID = bindE (TeamRepo_GetByID teamID) (\<lambda>team. returnE (team_BracketID team))"

definition solveCreateResolveTeamID :: "solve \<Rightarrow> solve op" where
  "solveCreateResolveTeamID s =
     (if solve_TeamID s \<noteq> 0 then returnE s
      else
        bindE (mapErr (wrap ''SolveUseCase - Create - LockUserTx'') (LockUserTx (solve_UserID s))) (\<lambda>_.
        bindE (mapErr (wrap ''SolveUseCase - Create - GetByID'') (UserRepo_GetByID (solve_UserID s))) (\<lambda>user.
        case user_TeamID user of None \<Rightarrow> throwE (Sentinel ErrNoTeamSelected)
        | Some t \<Rightarrow> returnE (s\<lparr>solve_TeamID := t\<rparr>))))"

text \<open>An error of the lookup other than finding the solve is ignored.\<close>

definition solveCreateUpsertInTx :: "solve \<Rightarrow> (challenge \<times> bool \<times> solve) op" where
  "solveCreateUpsertInTx s =
     bindE (mapErr (wrap ''SolveUseCase - Create - GetChallengeByIDTx'') (GetChallengeByIDTx (solve_ChallengeID s))) (\<lambda>challenge.
     bindE (errE (GetSolveByTeamAndChallengeTx (solve_TeamID s) (solve_ChallengeID s))) (\<lambda>existing.
     bindE (failIf (case existing of Inr _ \<Rightarrow> True | Inl _ \<Rightarrow> False) (Sentinel ErrAlreadySolved)) (\<lambda>_.
     let isFirstBlood = (chal_SolveCount challenge = 0) in
     bindE (mapErr (wrap ''SolveUseCase - Create - CreateSolveTx'') (CreateSolveTx s)) (\<lambda>s.
     bindE (mapErr (wrap ''SolveUseCase - Create - IncrementChallengeSolveCountTx'')
       (IncrementChallengeSolveCountTx (solve_ChallengeID s))) (\<lambda>newCount.
     let newPoints = CalculateDynamicScore (chal_InitialValue challenge) (chal_MinValue challenge)
                       (chal_Decay challenge) newCount in
     if 0 < chal_Decay challenge \<and> newPoints \<noteq> chal_Points challenge
     then bindE (mapErr (wrap ''SolveUseCase - Create - UpdateChallengePointsTx'')
            (UpdateChallengePointsTx (chal_ID challenge) newPoints)) (\<lambda>_.
          returnE (challenge\<lparr>chal_Points := newPoints\<rparr>, isFirstBlood, s))
     else returnE (challenge, isFirstBlood, s))))))"

definition SolveUseCase_Create :: "solve_uc \<Rightarrow> solve \<Rightarrow> solve op" where
  "SolveUseCase_Create uc s =
     bindE (mapErr (\<lambda>e. if is_sentinel e ErrAlreadySolved \<or> is_sentinel e ErrNoTeamSelected then e
                        else wrap ''SolveUseCase - Create - Transaction'' e)
       (run_transaction (bindE (solveCreateResolveTeamID s) solveCreateUpsertInTx)))
     (\<lambda>(challenge, isFirstBlood, s).
     bindE (case su_scoreboardCache uc of None \<Rightarrow> returnE ()
            | Some sc \<Rightarrow> InvalidateForTeam (su_uuid uc) sc (solve_TeamID s)) (\<lambda>_.
     bindE (if su_broadcaster uc
            then NotifySolve (solve_TeamID s) (chal_Title challenge) (chal_Points challenge) isFirstBlood
            else returnE ()) (\<lambda>_.
     returnE s)))"

definition getScoreboardCacheKey ::
  "solve_uc \<Rightarrow> competition option \<Rightarrow> uuid option \<Rightarrow> (string \<times> bool) op" where
  "getScoreboardCacheKey uc cmp bracketID =
     bindE (case cmp of None \<Rightarrow> returnE False
        | Some c \<Rightarrow> (case comp_FreezeTime c of None \<Rightarrow> returnE False
            | Some f \<Rightarrow> bindE nowE (\<lambda>now. returnE (f < now)))) (\<lambda>frozen.
     returnE (case bracketID of
         None \<Rightarrow> if frozen then (KeyScoreboardFrozen, True) else (KeyScoreboard, False)
       | Some b \<Rightarrow>
           if b = 0 then (if frozen then (KeyScoreboardFrozen, True) else (KeyScoreboard, False))
           else if frozen then (KeyScoreboardBracketFrozen (su_uuid uc b), True)
           else (KeyScoreboardBracket (su_uuid uc b), False)))"

definition scoreboard_dec :: "cached \<Rightarrow> scoreboard_entry list option" where
  "scoreboard_dec c = (case c of CScoreboard es \<Rightarrow> Some es | _ \<Rightarrow> None)"

definition SolveUseCase_GetScoreboard :: "solve_uc \<Rightarrow> uuid option \<Rightarrow> scoreboard_entry list op" where
  "SolveUseCase_GetScoreboard uc bracketID =
     bindE (errE CompetitionRepo_Get) (\<lambda>r.
     bindE (case r of Inr _ \<Rightarrow> returnE ()
        | Inl e \<Rightarrow> failIf (\<not> is_sentinel e ErrCompetitionNotFound)
                    (wrap ''SolveUseCase - GetScoreboard - GetCompetition'' e)) (\<lambda>_.
     let cmp = (case r of Inl _ \<Rightarrow> None | Inr c \<Rightarrow> Some c) in
     bindE (getScoreboardCacheKey uc cmp bracketID) (\<lambda>(cacheKey, frozen).
     GetOrLoad CScoreboard scoreboard_dec cacheKey (15 * second)
       (mapErr (wrap ''SolveUseCase - GetScoreboard'')
         (if frozen
          then SolveRepo_GetScoreboardByBracketFrozen
                 (case cmp of None \<Rightarrow> 0 | Some c \<Rightarrow> (case comp_FreezeTime c of None \<Rightarrow> 0 | Some f \<Rightarrow> f)) bracketID
          else SolveRepo_GetScoreboardByBracket bracketID)))))"

definition SolveUseCase_GetFirstBlood :: "uuid \<Rightarrow> first_blood_entry op" where
  "SolveUseCase_GetFirstBlood challengeID =
     mapErr (wrap ''SolveUseCase - GetFirstBlood'') (SolveRepo_GetFirstBlood challengeID)"

end
