(* ===== verification/CTF_ScoreboardProps.thy ===== *)
theory CTF_ScoreboardProps
  imports CTF_Scoreboard CTF_SubmitProps "HOL-Library.Multiset"
begin

text \<open>
  Properties of the scoreboard: what it lists and in which order, what the freeze hides, and how its
  cache behaves when a submission is accepted or a bracket is asked for.
\<close>

section \<open>Ranking\<close>

lemma board_points_score: "board_points None d t = team_score d t"
proof -
  have "board_solves None d t = filter (\<lambda>(s, c). solves_team_id s = t) (solve_join d)"
    unfolding board_solves_def counts_at_def by (rule filter_cong) auto
  then show ?thesis
    by (simp add: board_points_def team_score_def board_solve_points_def board_award_points_def
        team_solve_points_def team_award_points_def counts_at_def)
qed

lemma board_query_Inr: "board_query till b d = (Inr rows, d') \<Longrightarrow> rows = board_rows till b d \<and> d' = d"
  by (auto simp: board_query_def split: if_splits)

lemma board_rows_entries:
  "r \<in> set (board_rows till b d) \<Longrightarrow>
     \<exists>t \<in> set (teams d). board_visible t \<and> in_bracket b t \<and>
       r = (teams_id t, teams_name t, board_points till d (teams_id t), board_last_solved till d (teams_id t))"
  by (auto simp: board_rows_def)

text \<open>When a team last solved something, as the ranking sees it.\<close>

definition last_at :: "time option \<Rightarrow> db \<Rightarrow> uuid \<Rightarrow> time" where
  "last_at till d t = (case board_last_solved till d t of None \<Rightarrow> end_of_time | Some x \<Rightarrow> x)"

lemma board_rows_sorted:
  "sorted_wrt (\<lambda>(t1, _, p1, _) (t2, _, p2, _). p2 < p1 \<or> p2 = p1 \<and> last_at till d t1 \<le> last_at till d t2)
     (board_rows till b d)"
proof -
  have "sorted_wrt (\<lambda>r1 r2. board_order r1 \<le> board_order r2) (board_rows till b d)"
    using sorted_sort_key [of board_order] unfolding board_rows_def sorted_map by blast
  then show ?thesis
  proof (rule sorted_wrt_mono_rel [rotated])
    fix r1 r2 assume r: "r1 \<in> set (board_rows till b d)" "r2 \<in> set (board_rows till b d)" "board_order r1 \<le> board_order r2"
    obtain t1 t2 :: teams_row where "r1 = (teams_id t1, teams_name t1, board_points till d (teams_id t1), board_last_solved till d (teams_id t1))"
      "r2 = (teams_id t2, teams_name t2, board_points till d (teams_id t2), board_last_solved till d (teams_id t2))"
      using board_rows_entries [OF r(1)] board_rows_entries [OF r(2)] by blast
    with r(3) show "(\<lambda>(t1, _, p1, _) (t2, _, p2, _). p2 < p1 \<or> p2 = p1 \<and> last_at till d t1 \<le> last_at till d t2) r1 r2"
      unfolding board_order_def by (simp add: last_at_def [symmetric]) linarith
  qed
qed

text \<open>C16 The scoreboard lists exactly the teams that are neither banned, hidden nor deleted, of the bracket asked
  for, each once and with its score, by falling score, and among equal scores the team first that got there
  first, teams without a solve last.\<close>

theorem scoreboard_ranking:
  assumes "SolveRepo_GetScoreboardByBracket b w = (Inr es, w')"
  shows "store w' = store w \<and>
    mset (map sb_TeamID es) = mset (map teams_id (filter (\<lambda>t. board_visible t \<and> in_bracket b t) (teams (store w)))) \<and>
    (\<forall>e \<in> set es. sb_Points e = team_score (store w) (sb_TeamID e)) \<and>
    sorted_wrt (\<lambda>e1 e2. sb_Points e2 < sb_Points e1 \<or>
      sb_Points e2 = sb_Points e1 \<and>
      last_at None (store w) (sb_TeamID e1) \<le> last_at None (store w) (sb_TeamID e2)) es"
proof -
  have es: "es = map toScoreboardEntry (board_rows None b (store w))" and s: "store w' = store w"
    using assms by (auto simp: SolveRepo_GetScoreboardByBracket_def bindE_Inr_iff sql_Inr_iff
        sqlc_GetScoreboardByBracket_def dest!: board_query_Inr)
  have ids: "map sb_TeamID es = map fst (board_rows None b (store w))"
    by (simp add: es toScoreboardEntry_def comp_def case_prod_unfold)
  have "mset (map fst (board_rows None b (store w))) =
      mset (map teams_id (filter (\<lambda>t. board_visible t \<and> in_bracket b t) (teams (store w))))"
    by (simp add: board_rows_def comp_def flip: mset_map) (simp add: image_mset.compositionality comp_def)
  moreover have "\<forall>e \<in> set es. sb_Points e = team_score (store w) (sb_TeamID e)"
    by (auto simp: es toScoreboardEntry_def board_points_score dest!: board_rows_entries)
  moreover have "sorted_wrt (\<lambda>e1 e2. sb_Points e2 < sb_Points e1 \<or>
      sb_Points e2 = sb_Points e1 \<and>
      last_at None (store w) (sb_TeamID e1) \<le> last_at None (store w) (sb_TeamID e2)) es"
    using board_rows_sorted [of None "store w" b]
    by (simp add: es sorted_wrt_map toScoreboardEntry_def case_prod_unfold)
  ultimately show ?thesis using s ids by simp
qed

section \<open>The freeze\<close>

lemma filter_map_pair: "map (Pair s) (filter P cs) = map (\<lambda>c. (s, c)) (filter P cs)"
  by simp

lemma solve_join_concat:
  "solve_join d = concat (map (\<lambda>s. map (Pair s) (filter (\<lambda>c. challenges_id c = solves_challenge_id s) (challenges d))) (solves d))"
proof -
  have "concat (map (\<lambda>c. if challenges_id c = k then [(s, c)] else []) cs) =
      map (Pair s) (filter (\<lambda>r. challenges_id r = k) cs)" for s :: solves_row and k and cs :: "challenges_row list"
    by (induction cs) auto
  then show ?thesis by (simp add: solve_join_def)
qed

lemma solve_join_solved:
  "solve_join (solved_db c s d) =
     map (\<lambda>(s, r). (s, if challenges_id r = c then solved_row r else r)) (solve_join (d\<lparr>solves := solves d @ [s]\<rparr>))"
proof -
  have "filter (\<lambda>r. challenges_id r = k) (upd_where (\<lambda>r. challenges_id r = c) solved_row cs) =
      map (\<lambda>r. if challenges_id r = c then solved_row r else r) (filter (\<lambda>r. challenges_id r = k) cs)" for k cs
    by (induction cs) auto
  then show ?thesis
    by (simp add: solve_join_concat solved_db_def map_concat comp_def)
qed

text \<open>The freeze hides what comes after it: on a board frozen at a time, a solve recorded later of a challenge
  with a static score changes no row.\<close>

theorem frozen_static:
  assumes "solves_solved_at s = Some at0" "f < at0"
    and "\<forall>r \<in> set (challenges d). challenges_id r = c \<longrightarrow> challenges_initial_value r \<le> 0 \<or> challenges_decay r \<le> 0"
  shows "board_rows (Some f) b (solved_db c s d) = board_rows (Some f) b d"
proof -
  have late: "\<not> counts_at (Some f) (solves_solved_at s)" using assms(1,2) by (simp add: counts_at_def)
  have in_d: "r \<in> set (challenges d)" if "(s', r) \<in> set (board_solves (Some f) (d\<lparr>solves := solves d @ [s]\<rparr>) t)" for s' r t
    using that by (auto simp: board_solves_def solve_join_def)
  have old: "board_solves (Some f) (d\<lparr>solves := solves d @ [s]\<rparr>) t = board_solves (Some f) d t" for t
    using late by (simp add: board_solves_def solve_join_concat filter_concat comp_def filter_map case_prod_unfold)
  have new: "board_solves (Some f) (solved_db c s d) t =
      map (\<lambda>(s, r). (s, if challenges_id r = c then solved_row r else r)) (board_solves (Some f) (d\<lparr>solves := solves d @ [s]\<rparr>) t)" for t
    by (simp add: board_solves_def solve_join_solved filter_map comp_def case_prod_unfold)
  have pts: "challenges_points (if challenges_id r = c then solved_row r else r) = challenges_points r"
    if "r \<in> set (challenges d)" for r
    using assms(3) that by (auto simp: solved_row_def Let_def)
  have "map (\<lambda>(s, c). challenges_points c) (board_solves (Some f) (solved_db c s d) t) =
      map (\<lambda>(s, c). challenges_points c) (board_solves (Some f) d t)" for t
    unfolding new old [symmetric] by (auto intro!: map_cong pts in_d)
  then have "board_solve_points (Some f) (solved_db c s d) t = board_solve_points (Some f) d t" for t
    by (simp add: board_solve_points_def)
  moreover have "board_last_solved (Some f) (solved_db c s d) t = board_last_solved (Some f) d t" for t
    unfolding board_last_solved_def new old by (simp add: comp_def case_prod_unfold)
  ultimately show ?thesis
    by (simp add: board_rows_def board_points_def board_award_points_def) (simp add: solved_db_def)
qed

section \<open>The cache of the scoreboard\<close>

text \<open>Calls that leave redis alone while nothing fails.\<close>

abbreviation redis_keeps :: "(string \<Rightarrow> (cached \<times> time) option) \<Rightarrow> 'a op \<Rightarrow> bool" where
  "redis_keeps R m \<equiv> keeps (\<lambda>w. faults w = [] \<and> redis w = R) m"

lemma redis_keeps_calls [valid_rules]:
  "redis_keeps R driver" "redis_keeps R nowE" "redis_keeps R uuid_New"
  by (rule keepsI, auto simp: driver_def next_fault_def use_fault_def nowE_def uuid_New_def)+

lemma redis_keeps_sql [valid_rules]: "redis_keeps R (sql q)"
  by (rule keepsI) (auto simp: sql_run calm split: prod.splits sum.splits)

lemma redis_keeps_sql_tx [valid_rules]: "redis_keeps R (sql_tx q)"
  by (rule keepsI) (auto simp: sql_tx_def sql_run calm split: prod.splits sum.splits if_splits)

lemma redis_keeps_transaction [valid_rules]:
  assumes "redis_keeps R fn" shows "redis_keeps R (run_transaction fn)"
proof (rule keepsI)
  fix w r w' assume I: "faults w = [] \<and> redis w = R" and run: "run_transaction fn w = (r, w')"
  have fn: "faults w2 = [] \<and> redis w2 = R" if "fn (w\<lparr>tx_failed := False\<rparr>) = (x, w2)" for x w2
    using keepsD [OF assms _ that] I by simp
  show "faults w' = [] \<and> redis w' = R"
    using run I by (auto simp: run_transaction_def driver_def rollback_def commit_def calm
        split: prod.splits sum.splits if_splits goerr.splits dest!: fn)
qed

lemma redis_keeps_submit:
  "redis_keeps R (submitValidateTeam uc t)" "redis_keeps R (submitGetChallenge c)"
  "redis_keeps R (submitValidateFlagFormat uc flag ch)" "redis_keeps R (submitCheckFlag uc flag ch)"
  "redis_keeps R (submitRecordSolve u t c)" "redis_keeps R (submitNotifySolve uc t ch fb)"
proof -
  have regex: "redis_keeps R (regex_Get p)" "redis_keeps R (regex_Set p re)" for p re
    by (rule keepsI, auto simp: regex_Get_def regex_Set_def split: sum.splits)+
  have cast: "redis_keeps R (BroadcastEvent e)" for e by (rule keepsI) auto
  show "redis_keeps R (submitValidateTeam uc t)" "redis_keeps R (submitGetChallenge c)"
    "redis_keeps R (submitValidateFlagFormat uc flag ch)"
    unfolding submitValidateTeam_def submitGetChallenge_def submitValidateFlagFormat_def TeamRepo_GetByID_def
      ChallengeRepo_GetByID_def CompetitionRepo_Get_def
    by (intro valid_rules)+
  show "redis_keeps R (submitCheckFlag uc flag ch)"
    unfolding submitCheckFlag_def submitCheckRegexFlag_def getCompiledRegex_def by (intro valid_rules regex)
  show "redis_keeps R (submitRecordSolve u t c)"
    unfolding submitRecordSolve_def recordSolveTx_def submitRecordSolveCheckExisting_def
      GetSolveByTeamAndChallengeTx_def GetChallengeByIDTx_def CreateSolveTx_def IncrementChallengeSolveCountTx_def
      submitRecordSolveUpdatePointsIfDecay_def UpdateChallengePointsTx_def int32E_def
    by (intro valid_rules)
  show "redis_keeps R (submitNotifySolve uc t ch fb)"
    unfolding submitNotifySolve_def NotifySolve_def by (intro valid_rules cast)
qed

lemma case_answer_run: "(case r of Inl e \<Rightarrow> returnE (f e) | Inr x \<Rightarrow> g x) w = (Inr y, w') \<longleftrightarrow>
    (\<exists>e. r = Inl e \<and> y = f e \<and> w' = w) \<or> (\<exists>x. r = Inr x \<and> g x w = (Inr y, w'))"
  by (cases r) auto

lemma SubmitFlag_redis:
  assumes "Challenge_SubmitFlag uc c flag u tm w = (Inr (True, None), w')" "faults w = []"
  shows "\<exists>w1. faults w1 = [] \<and> redis w1 = redis w \<and> redis w' = redis (snd (invalidate_cache uc w1))"
proof -
  have step: "faults w2 = [] \<and> redis w2 = redis w"
    if "redis_keeps (redis w) m" "m w1 = (r, w2)" "faults w1 = [] \<and> redis w1 = redis w" for m :: "'b op" and w1 r w2
    using keepsD [OF that(1,3,2)] .
  let ?R = "redis w"
  from assms(1) obtain t where tm: "tm = Some t" by (cases tm) (auto simp: Challenge_SubmitFlag_def)
  from assms(1) obtain x1 w1 ch w2 x3 w3 w4 sol n w5 w6 where
    1: "submitValidateTeam uc t w = (x1, w1)" and 2: "submitGetChallenge c w1 = (Inr ch, w2)" and
    3: "submitValidateFlagFormat uc (TrimSpace flag) ch w2 = (x3, w3)" and
    4: "submitCheckFlag uc (TrimSpace flag) ch w3 = (Inr True, w4)" and
    5: "submitRecordSolve u t c w4 = (Inr (sol, n), w5)" and
    6: "invalidate_cache uc w5 = (Inr (), w6)" and 7: "submitNotifySolve uc t sol (n = 1) w6 = (Inr (), w')"
    unfolding tm by (clarsimp simp: Challenge_SubmitFlag_def Let_def bindE_Inr_iff errE_Inr_iff case_answer_run split: if_splits)
  have w5: "faults w5 = [] \<and> redis w5 = ?R"
    using assms(2) step [OF redis_keeps_submit(1) 1] step [OF redis_keeps_submit(2) 2]
      step [OF redis_keeps_submit(3) 3] step [OF redis_keeps_submit(4) 4] step [OF redis_keeps_submit(5) 5] by simp
  have "faults w6 = []"
    using 6 w5 by (auto simp: invalidate_cache_def InvalidateAll_def Cache_Del_def calm split: option.splits if_splits)
  then have "redis w' = redis w6" using keepsD [OF redis_keeps_submit(6) _ 7, of "redis w6"] by simp
  then show ?thesis using w5 6 by (intro exI [of _ w5]) simp
qed

text \<open>When redis answers, an accepted submission drops the two cached boards of all teams, so that the next
  reader loads a fresh one, but leaves the cached board of every bracket, which stays up with the old scores
  until it expires.\<close>

theorem SubmitFlag_invalidates:
  assumes "Challenge_SubmitFlag uc c flag u tm w = (Inr (True, None), w')" "faults w = []"
    and "cu_scoreboardCache uc = Some sc" "sc_cache sc"
  shows "redis w' KeyScoreboard = None \<and> redis w' KeyScoreboardFrozen = None \<and>
    redis w' (KeyScoreboardBracket b) = redis w (KeyScoreboardBracket b) \<and>
    redis w' (KeyScoreboardBracketFrozen b) = redis w (KeyScoreboardBracketFrozen b)"
proof -
  obtain w1 where "faults w1 = []" "redis w1 = redis w" "redis w' = redis (snd (invalidate_cache uc w1))"
    using SubmitFlag_redis [OF assms(1,2)] by blast
  then show ?thesis using assms(3,4)
    by (simp add: invalidate_cache_def InvalidateAll_def Cache_Del_def calm KeyScoreboardBracket_def
        KeyScoreboardBracketFrozen_def)
qed

lemma bracket_nil_rows:
  "(\<forall>t \<in> set (teams d). teams_bracket_id t \<noteq> Some 0) \<Longrightarrow> board_rows None (Some 0) d = []"
  by (simp add: board_rows_def in_bracket_def filter_empty_conv)

lemma GetScoreboard_calm:
  assumes "faults w = []" "find (\<lambda>c. competition_id c = 1) (competition (store w)) = Some c"
    "competition_freeze_time c = None" "b = None \<or> b = Some 0" "board_fits None b (store w)"
  shows "SolveUseCase_GetScoreboard uc b w =
    (case (case redis_lookup w KeyScoreboard of None \<Rightarrow> None | Some v \<Rightarrow> scoreboard_dec v) of
       Some es \<Rightarrow> (Inr es, w)
     | None \<Rightarrow> (let es = map toScoreboardEntry (board_rows None b (store w)) in
         (Inr es, w\<lparr>redis := (redis w)(KeyScoreboard \<mapsto> (CScoreboard es, clock w + 15 * second))\<rparr>)))"
proof -
  have get: "errE CompetitionRepo_Get w = (Inr (Inr (toEntityCompetition c)), w)"
    using CompetitionRepo_Get_calm [OF assms(1,2)] by (simp add: errE_def)
  have key: "getScoreboardCacheKey uc (Some (toEntityCompetition c)) b w = (Inr (KeyScoreboard, False), w)"
    using assms(3,4) by (auto simp: getScoreboardCacheKey_def toEntityCompetition_def)
  have load: "SolveRepo_GetScoreboardByBracket b w = (Inr (map toScoreboardEntry (board_rows None b (store w))), w)"
    using assms(1,5) by (simp add: SolveRepo_GetScoreboardByBracket_def sqlc_GetScoreboardByBracket_def board_query_def
        bindE_def mapErr_def sql_calm)
  have "SolveUseCase_GetScoreboard uc b w = GetOrLoad CScoreboard scoreboard_dec KeyScoreboard (15 * second)
      (mapErr (wrap ''SolveUseCase - GetScoreboard'') (SolveRepo_GetScoreboardByBracket b)) w"
    unfolding SolveUseCase_GetScoreboard_def bindE_run_Inr [where m = "errE CompetitionRepo_Get", OF get]
    by (simp add: Let_def bindE_run_Inr [where m = "getScoreboardCacheKey uc (Some (toEntityCompetition c)) b", OF key])
  then show ?thesis
    using assms(1) load
    by (simp add: GetOrLoad_def bindE_def mapErr_def calm Let_def split: option.split)
qed

text \<open>Asking for the bracket with the nil UUID caches its empty board under the key of the board of all teams:
  everybody who then asks for the scoreboard is shown no team at all until the entry expires.\<close>

theorem nil_bracket_poisons:
  assumes "faults w = []" "find (\<lambda>c. competition_id c = 1) (competition (store w)) = Some c"
    "competition_freeze_time c = None" "redis_lookup w KeyScoreboard = None"
    "board_fits None (Some 0) (store w)" "board_fits None None (store w)"
    "\<forall>t \<in> set (teams (store w)). teams_bracket_id t \<noteq> Some 0"
  shows "fst (SolveUseCase_GetScoreboard uc None (snd (SolveUseCase_GetScoreboard uc (Some 0) w))) = Inr []"
proof -
  let ?w = "w\<lparr>redis := (redis w)(KeyScoreboard \<mapsto> (CScoreboard [], clock w + 15 * second))\<rparr>"
  have first: "SolveUseCase_GetScoreboard uc (Some 0) w = (Inr [], ?w)"
    using GetScoreboard_calm [OF assms(1-3) _ assms(5)] assms(4) bracket_nil_rows [OF assms(7)] by (simp add: Let_def)
  have "redis_lookup ?w KeyScoreboard = Some (CScoreboard [])" by (simp add: redis_lookup_def)
  then have "SolveUseCase_GetScoreboard uc None ?w = (Inr [], ?w)"
    using GetScoreboard_calm [of ?w c None uc] assms(1-3,6) by (simp add: scoreboard_dec_def)
  then show ?thesis by (simp add: first)
qed

section \<open>Witnesses\<close>

text \<open>The freeze does not hide the fall of a dynamic score: a solve after the freeze changes the frozen board,
  because the points of a challenge are the current ones. The team that is first on the board frozen at time 10
  with 500 points has 496 after another team solves the same challenge later.\<close>

theorem frozen_board_moves:
  "board_rows (Some 10) None demo_db = [(11, ''alpha'', 500, Some 7), (12, ''delta'', 70, None)] \<and>
   board_rows (Some 10) None (solved_db 31 \<lparr>solves_id = 52, solves_user_id = 4, solves_team_id = 12,
       solves_challenge_id = 31, solves_solved_at = Some 99\<rparr> demo_db) =
     [(11, ''alpha'', 496, Some 7), (12, ''delta'', 70, None)]"
proof -
  let ?s = "\<lparr>solves_id = 52, solves_user_id = 4, solves_team_id = 12, solves_challenge_id = 31,
    solves_solved_at = Some 99\<rparr>"
  let ?d = "demo_db\<lparr>solves := solves demo_db @ [?s],
    challenges := map (\<lambda>r. if challenges_id r = 31 then r\<lparr>challenges_solve_count := 2, challenges_points := Some 496\<rparr> else r)
      (challenges demo_db)\<rparr>"
  have "CalculateDynamicScore 500 100 10 2 = 496" by code_simp
  then have "solved_db 31 ?s demo_db = ?d"
    by (simp add: solved_db_def upd_where_def solved_row_def demo_db_def empty_db_def demo_challenge_def)
  moreover have "board_rows (Some 10) None ?d = [(11, ''alpha'', 496, Some 7), (12, ''delta'', 70, None)]" by code_simp
  moreover have "board_rows (Some 10) None demo_db = [(11, ''alpha'', 500, Some 7), (12, ''delta'', 70, None)]" by code_simp
  ultimately show ?thesis by simp
qed

theorem scoreboard_ranking_witness:
  "\<exists>es w'. SolveRepo_GetScoreboardByBracket None demo_world = (Inr es, w') \<and> map sb_TeamID es = [11, 12] \<and>
     (\<forall>e \<in> set es. sb_Points e = team_score demo_db (sb_TeamID e))"
proof -
  let ?m = "SolveRepo_GetScoreboardByBracket None demo_world"
  have "case fst ?m of Inl _ \<Rightarrow> False | Inr es \<Rightarrow> map sb_TeamID es = [11, 12]" by code_simp
  then obtain es where es: "?m = (Inr es, snd ?m)" "map sb_TeamID es = [11, 12]"
    by (cases "fst ?m") (auto simp: prod_eq_iff)
  from scoreboard_ranking [OF es(1)] es show ?thesis by (auto simp: demo_world_def world_of_def)
qed

theorem frozen_static_witness:
  "board_rows (Some 10) None (solved_db 34 \<lparr>solves_id = 52, solves_user_id = 4, solves_team_id = 12,
       solves_challenge_id = 34, solves_solved_at = Some 99\<rparr>
       (demo_db\<lparr>challenges := [(demo_challenge 34 ''static'' ''h'' False None 0)\<lparr>challenges_decay := 0\<rparr>]\<rparr>)) =
   board_rows (Some 10) None
     (demo_db\<lparr>challenges := [(demo_challenge 34 ''static'' ''h'' False None 0)\<lparr>challenges_decay := 0\<rparr>]\<rparr>)"
  by (rule frozen_static [of _ 99]) simp_all

theorem SubmitFlag_invalidates_witness:
  "redis demo_solved KeyScoreboard = None"
  using SubmitFlag_invalidates [OF demo_submit_run, of "\<lparr>sc_cache = True, sc_getter = None\<rparr>"]
  by (simp add: demo_world_def world_of_def demo_chal_uc_def)

definition demo_solve_uc :: solve_uc where
  "demo_solve_uc = \<lparr>su_uuid = (\<lambda>_. ''id''), su_scoreboardCache = None, su_broadcaster = True\<rparr>"

definition demo_open_world :: world where
  "demo_open_world = world_of (demo_db\<lparr>competition := [demo_competition\<lparr>competition_freeze_time := None\<rparr>]\<rparr>)"

theorem nil_bracket_poisons_witness:
  "fst (SolveUseCase_GetScoreboard demo_solve_uc None
     (snd (SolveUseCase_GetScoreboard demo_solve_uc (Some 0) demo_open_world))) = Inr []"
proof (rule nil_bracket_poisons)
  show "find (\<lambda>c. competition_id c = 1) (competition (store demo_open_world)) =
      Some (demo_competition\<lparr>competition_freeze_time := None\<rparr>)"
    by (simp add: demo_open_world_def world_of_def demo_competition_def)
  show "board_fits None (Some 0) (store demo_open_world)" "board_fits None None (store demo_open_world)" by code_simp+
qed (simp_all add: demo_open_world_def world_of_def redis_lookup_def demo_db_def empty_db_def demo_team_def)

end
