(* ===== verification/CTF_Content.thy ===== *)
theory CTF_Content
  imports CTF_Tags CTF_Strings
begin

text \<open>
  The content an administrator edits and the discussion below a challenge: pages
  (\<open>pages.sql.go\<close>, \<open>PageRepo\<close>, \<open>PageUseCase\<close>), brackets (\<open>brackets.sql.go\<close>,
  \<open>BracketRepo\<close>, \<open>BracketUseCase\<close>) and comments (\<open>comments.sql.go\<close>, \<open>CommentRepo\<close>,
  \<open>CommentUseCase\<close>).
\<close>

definition unique_as :: "sentinel \<Rightarrow> string \<Rightarrow> goerr \<Rightarrow> goerr" where
  "unique_as s msg e = (if isPgUniqueViolation e then Sentinel s else wrap msg e)"

text \<open>The time a repository stores for an entity: the entity's own unless it is the zero time.\<close>

definition time_or_now :: "time \<Rightarrow> time op" where
  "time_or_now t = (if t = 0 then nowE else returnE t)"

definition id_or_new :: "uuid \<Rightarrow> uuid op" where
  "id_or_new ID = (if ID = 0 then uuid_New else returnE ID)"

section \<open>Pages: queries\<close>

definition sqlc_CreatePage :: "pages_row \<Rightarrow> pages_row query" where
  "sqlc_CreatePage r d =
     (if list_ex (\<lambda>p. pages_id p = pages_id r \<or> pages_slug p = pages_slug r) (pages d)
      then (Inl UniqueViolation, d)
      else (Inr r, d\<lparr>pages := pages d @ [r]\<rparr>))"

definition sqlc_DeletePage :: "uuid \<Rightarrow> unit query" where
  "sqlc_DeletePage ID = modifyE (\<lambda>d. d\<lparr>pages := del_where (\<lambda>p. pages_id p = ID) (pages d)\<rparr>)"

definition sqlc_GetAllPagesList :: "pages_row list query" where
  "sqlc_GetAllPagesList = select_all (\<lambda>d.
     order_by_asc pages_order_index (order_by_asc pages_created_at (pages d)))"

definition sqlc_GetPageByID :: "uuid \<Rightarrow> pages_row query" where
  "sqlc_GetPageByID ID = select_one (\<lambda>d. filter (\<lambda>p. pages_id p = ID) (pages d))"

definition sqlc_GetPageBySlug :: "string \<Rightarrow> pages_row query" where
  "sqlc_GetPageBySlug slug = select_one (\<lambda>d. filter (\<lambda>p. pages_slug p = slug) (pages d))"

definition sqlc_GetPublishedPagesList :: "(uuid \<times> string \<times> string \<times> int option) list query" where
  "sqlc_GetPublishedPagesList = select_all (\<lambda>d.
     map (\<lambda>p. (pages_id p, pages_title p, pages_slug p, pages_order_index p))
       (order_by_asc pages_order_index (order_by_asc pages_created_at
          (filter (\<lambda>p. pages_is_draft p = Some False) (pages d)))))"

definition sqlc_UpdatePage ::
  "uuid \<Rightarrow> string \<Rightarrow> string \<Rightarrow> string \<Rightarrow> bool option \<Rightarrow> int option \<Rightarrow> time option \<Rightarrow> unit query" where
  "sqlc_UpdatePage ID title slug content is_draft order_index updated_at d =
     (if list_ex (\<lambda>p. pages_id p = ID) (pages d) \<and>
         list_ex (\<lambda>p. pages_id p \<noteq> ID \<and> pages_slug p = slug) (pages d)
      then (Inl UniqueViolation, d)
      else (Inr (), d\<lparr>pages := upd_where (\<lambda>p. pages_id p = ID) (\<lambda>p. p\<lparr>pages_title := title,
              pages_slug := slug, pages_content := content, pages_is_draft := is_draft,
              pages_order_index := order_index, pages_updated_at := updated_at\<rparr>) (pages d)\<rparr>))"

section \<open>PageRepo\<close>

definition pageRowToEntity :: "pages_row \<Rightarrow> page" where
  "pageRowToEntity r = \<lparr>page_ID = pages_id r, page_Title = pages_title r, page_Slug = pages_slug r,
     page_Content = pages_content r,
     page_IsDraft = (case pages_is_draft r of None \<Rightarrow> False | Some b \<Rightarrow> b),
     page_OrderIndex = (case pages_order_index r of None \<Rightarrow> 0 | Some i \<Rightarrow> i),
     page_CreatedAt = ptrTimeToTime (pages_created_at r),
     page_UpdatedAt = ptrTimeToTime (pages_updated_at r)\<rparr>"

definition PageRepo_Create :: "page \<Rightarrow> page op" where
  "PageRepo_Create page =
     bindE (id_or_new (page_ID page)) (\<lambda>ID.
     bindE (time_or_now (page_CreatedAt page)) (\<lambda>createdAt.
     let updatedAt = (if page_UpdatedAt page = 0 then createdAt else page_UpdatedAt page) in
     bindE (mapErr (wrap ''PageRepo - Create OrderIndex'') (liftE (intToInt32Safe (page_OrderIndex page)))) (\<lambda>orderIndex.
     bindE (mapErr (unique_as ErrPageSlugConflict ''PageRepo - Create'')
       (sql (sqlc_CreatePage \<lparr>pages_id = ID, pages_title = page_Title page, pages_slug = page_Slug page,
          pages_content = page_Content page, pages_is_draft = Some (page_IsDraft page),
          pages_order_index = Some orderIndex, pages_created_at = Some createdAt,
          pages_updated_at = Some updatedAt\<rparr>))) (\<lambda>_.
     returnE (page\<lparr>page_ID := ID, page_CreatedAt := createdAt, page_UpdatedAt := updatedAt\<rparr>)))))"

definition PageRepo_GetByID :: "uuid \<Rightarrow> page op" where
  "PageRepo_GetByID ID =
     bindE (mapErr (no_rows_as ErrPageNotFound ''PageRepo - GetByID'') (sql (sqlc_GetPageByID ID)))
       (\<lambda>row. returnE (pageRowToEntity row))"

definition PageRepo_GetBySlug :: "string \<Rightarrow> page op" where
  "PageRepo_GetBySlug slug =
     bindE (mapErr (no_rows_as ErrPageNotFound ''PageRepo - GetBySlug'') (sql (sqlc_GetPageBySlug slug)))
       (\<lambda>row. returnE (pageRowToEntity row))"

definition PageRepo_GetPublishedList :: "page_list_item list op" where
  "PageRepo_GetPublishedList =
     bindE (mapErr (wrap ''PageRepo - GetPublishedList'') (sql sqlc_GetPublishedPagesList)) (\<lambda>rows.
     returnE (map (\<lambda>(ID, title, slug, orderIndex).
       \<lparr>pitem_ID = ID, pitem_Title = title, pitem_Slug = slug,
        pitem_OrderIndex = (case orderIndex of None \<Rightarrow> 0 | Some i \<Rightarrow> i)\<rparr>) rows))"

definition PageRepo_GetAllList :: "page list op" where
  "PageRepo_GetAllList =
     bindE (mapErr (wrap ''PageRepo - GetAllList'') (sql sqlc_GetAllPagesList))
       (\<lambda>rows. returnE (map pageRowToEntity rows))"

definition PageRepo_Update :: "page \<Rightarrow> page op" where
  "PageRepo_Update page =
     bindE nowE (\<lambda>now.
     bindE (mapErr (wrap ''PageRepo - Update OrderIndex'') (liftE (intToInt32Safe (page_OrderIndex page)))) (\<lambda>orderIndex.
     bindE (mapErr (unique_as ErrPageSlugConflict ''PageRepo - Update'')
       (sql (sqlc_UpdatePage (page_ID page) (page_Title page) (page_Slug page) (page_Content page)
          (Some (page_IsDraft page)) (Some orderIndex) (Some now)))) (\<lambda>_.
     returnE (page\<lparr>page_UpdatedAt := now\<rparr>))))"

definition PageRepo_Delete :: "uuid \<Rightarrow> unit op" where
  "PageRepo_Delete ID = sql (sqlc_DeletePage ID)"

section \<open>PageUseCase\<close>

definition Page_GetPublishedList :: "page_list_item list op" where
  "Page_GetPublishedList = mapErr (wrap ''PageUseCase - GetPublishedList'') PageRepo_GetPublishedList"

definition Page_GetBySlug :: "string \<Rightarrow> page op" where
  "Page_GetBySlug slug =
     bindE (failIf (TrimSpace slug = '''') (Plain ''PageUseCase - GetBySlug: slug is required'')) (\<lambda>_.
     bindE (mapErr (wrap ''PageUseCase - GetBySlug'') (PageRepo_GetBySlug slug)) (\<lambda>page.
     bindE (failIf (page_IsDraft page) (Sentinel ErrPageNotFound)) (\<lambda>_.
     returnE page)))"

definition Page_GetByID :: "uuid \<Rightarrow> page op" where
  "Page_GetByID ID = mapErr (wrap ''PageUseCase - GetByID'') (PageRepo_GetByID ID)"

definition Page_GetAllList :: "page list op" where
  "Page_GetAllList = mapErr (wrap ''PageUseCase - GetAllList'') PageRepo_GetAllList"

definition Page_Create :: "string \<Rightarrow> string \<Rightarrow> string \<Rightarrow> bool \<Rightarrow> int \<Rightarrow> page op" where
  "Page_Create title slug content isDraft orderIndex =
     (let title = TrimSpace title; slug = TrimSpace slug in
      bindE (failIf (title = '''') (Plain ''PageUseCase - Create: title is required'')) (\<lambda>_.
      bindE (failIf (slug = '''') (Plain ''PageUseCase - Create: slug is required'')) (\<lambda>_.
      bindE uuid_New (\<lambda>ID.
      mapErr (wrap ''PageUseCase - Create'')
        (PageRepo_Create \<lparr>page_ID = ID, page_Title = title, page_Slug = slug, page_Content = content,
           page_IsDraft = isDraft, page_OrderIndex = orderIndex, page_CreatedAt = 0, page_UpdatedAt = 0\<rparr>)))))"

text \<open>
  A blank title or slug is answered by \<open>nil, Wrap(err, ..)\<close> where \<open>err\<close> is the nil error of
  the lookup: no error and no page, \<open>None\<close>.
\<close>

definition Page_Update ::
  "uuid \<Rightarrow> string \<Rightarrow> string \<Rightarrow> string \<Rightarrow> bool \<Rightarrow> int \<Rightarrow> page option op" where
  "Page_Update ID title slug content isDraft orderIndex =
     bindE (mapErr (wrap ''PageUseCase - Update - GetByID'') (PageRepo_GetByID ID)) (\<lambda>page.
     let title = TrimSpace title; slug = TrimSpace slug in
     if title = ''''
     then (case Wrap_nil None ''PageUseCase - Update: title is required'' of None \<Rightarrow> returnE None | Some e \<Rightarrow> throwE e)
     else if slug = ''''
     then (case Wrap_nil None ''PageUseCase - Update: slug is required'' of None \<Rightarrow> returnE None | Some e \<Rightarrow> throwE e)
     else
       bindE (mapErr (wrap ''PageUseCase - Update'')
         (PageRepo_Update (page\<lparr>page_Title := title, page_Slug := slug, page_Content := content,
            page_IsDraft := isDraft, page_OrderIndex := orderIndex\<rparr>))) (\<lambda>page.
       returnE (Some page)))"

definition Page_Delete :: "uuid \<Rightarrow> unit op" where
  "Page_Delete ID = mapErr (\<lambda>_. Plain ''PageUseCase - Delete'') (PageRepo_Delete ID)"

section \<open>Brackets: queries\<close>

definition sqlc_CreateBracket :: "brackets_row \<Rightarrow> brackets_row query" where
  "sqlc_CreateBracket r d =
     (if list_ex (\<lambda>b. brackets_id b = brackets_id r \<or> brackets_name b = brackets_name r) (brackets d)
      then (Inl UniqueViolation, d)
      else (Inr r, d\<lparr>brackets := brackets d @ [r]\<rparr>))"

text \<open>The teams of the bracket lose it.\<close>

definition sqlc_DeleteBracket :: "uuid \<Rightarrow> unit query" where
  "sqlc_DeleteBracket ID = modifyE (\<lambda>d.
     d\<lparr>brackets := del_where (\<lambda>b. brackets_id b = ID) (brackets d),
       teams := (if list_ex (\<lambda>b. brackets_id b = ID) (brackets d)
                 then upd_where (\<lambda>t. teams_bracket_id t = Some ID) (\<lambda>t. t\<lparr>teams_bracket_id := None\<rparr>) (teams d)
                 else teams d)\<rparr>)"

definition sqlc_GetAllBrackets :: "collation \<Rightarrow> brackets_row list query" where
  "sqlc_GetAllBrackets coll = select_all (\<lambda>d. sort_key (\<lambda>b. coll (brackets_name b)) (brackets d))"

definition sqlc_GetBracketByID :: "uuid \<Rightarrow> brackets_row query" where
  "sqlc_GetBracketByID ID = select_one (\<lambda>d. filter (\<lambda>b. brackets_id b = ID) (brackets d))"

definition sqlc_GetBracketByName :: "string \<Rightarrow> brackets_row query" where
  "sqlc_GetBracketByName name = select_one (\<lambda>d. filter (\<lambda>b. brackets_name b = name) (brackets d))"

definition sqlc_UpdateBracket :: "uuid \<Rightarrow> string \<Rightarrow> string option \<Rightarrow> bool option \<Rightarrow> unit query" where
  "sqlc_UpdateBracket ID name description is_default d =
     (if list_ex (\<lambda>b. brackets_id b = ID) (brackets d) \<and>
         list_ex (\<lambda>b. brackets_id b \<noteq> ID \<and> brackets_name b = name) (brackets d)
      then (Inl UniqueViolation, d)
      else (Inr (), d\<lparr>brackets := upd_where (\<lambda>b. brackets_id b = ID) (\<lambda>b. b\<lparr>brackets_name := name,
              brackets_description := description, brackets_is_default := is_default\<rparr>) (brackets d)\<rparr>))"

section \<open>BracketRepo and BracketUseCase\<close>

definition bracketRowToEntity :: "brackets_row \<Rightarrow> bracket" where
  "bracketRowToEntity r = \<lparr>bracket_ID = brackets_id r, bracket_Name = brackets_name r,
     bracket_Description = (case brackets_description r of None \<Rightarrow> '''' | Some s \<Rightarrow> s),
     bracket_IsDefault = (case brackets_is_default r of None \<Rightarrow> False | Some b \<Rightarrow> b),
     bracket_CreatedAt = ptrTimeToTime (brackets_created_at r)\<rparr>"

definition BracketRepo_Create :: "bracket \<Rightarrow> bracket op" where
  "BracketRepo_Create bracket =
     bindE (id_or_new (bracket_ID bracket)) (\<lambda>ID.
     bindE (time_or_now (bracket_CreatedAt bracket)) (\<lambda>createdAt.
     bindE (mapErr (unique_as ErrBracketNameConflict ''BracketRepo - Create'')
       (sql (sqlc_CreateBracket \<lparr>brackets_id = ID, brackets_name = bracket_Name bracket,
          brackets_description = (if bracket_Description bracket = '''' then None else Some (bracket_Description bracket)),
          brackets_is_default = Some (bracket_IsDefault bracket),
          brackets_created_at = Some createdAt\<rparr>))) (\<lambda>_.
     returnE (bracket\<lparr>bracket_ID := ID, bracket_CreatedAt := createdAt\<rparr>))))"

definition BracketRepo_GetByID :: "uuid \<Rightarrow> bracket op" where
  "BracketRepo_GetByID ID =
     bindE (mapErr (no_rows_as ErrBracketNotFound ''BracketRepo - GetByID'') (sql (sqlc_GetBracketByID ID)))
       (\<lambda>row. returnE (bracketRowToEntity row))"

definition BracketRepo_GetByName :: "string \<Rightarrow> bracket op" where
  "BracketRepo_GetByName name =
     bindE (mapErr (no_rows_as ErrBracketNotFound ''BracketRepo - GetByName'') (sql (sqlc_GetBracketByName name)))
       (\<lambda>row. returnE (bracketRowToEntity row))"

definition BracketRepo_GetAll :: "collation \<Rightarrow> bracket list op" where
  "BracketRepo_GetAll coll =
     bindE (mapErr (wrap ''BracketRepo - GetAll'') (sql (sqlc_GetAllBrackets coll)))
       (\<lambda>rows. returnE (map bracketRowToEntity rows))"

definition BracketRepo_Update :: "bracket \<Rightarrow> unit op" where
  "BracketRepo_Update bracket =
     mapErr (unique_as ErrBracketNameConflict ''BracketRepo - Update'')
       (sql (sqlc_UpdateBracket (bracket_ID bracket) (bracket_Name bracket)
          (if bracket_Description bracket = '''' then None else Some (bracket_Description bracket))
          (Some (bracket_IsDefault bracket))))"

definition BracketRepo_Delete :: "uuid \<Rightarrow> unit op" where
  "BracketRepo_Delete ID = sql (sqlc_DeleteBracket ID)"

definition Bracket_Create :: "string \<Rightarrow> string \<Rightarrow> bool \<Rightarrow> bracket op" where
  "Bracket_Create name description isDefault =
     (let name = TrimSpace name in
      bindE (failIf (name = '''') (Plain ''BracketUseCase - Create: name is required'')) (\<lambda>_.
      bindE uuid_New (\<lambda>ID.
      mapErr (wrap ''BracketUseCase - Create'')
        (BracketRepo_Create \<lparr>bracket_ID = ID, bracket_Name = name, bracket_Description = description,
           bracket_IsDefault = isDefault, bracket_CreatedAt = 0\<rparr>))))"

definition Bracket_GetByID :: "uuid \<Rightarrow> bracket op" where
  "Bracket_GetByID ID = mapErr (wrap ''BracketUseCase - GetByID'') (BracketRepo_GetByID ID)"

definition Bracket_GetAll :: "collation \<Rightarrow> bracket list op" where
  "Bracket_GetAll coll = mapErr (wrap ''BracketUseCase - GetAll'') (BracketRepo_GetAll coll)"

definition Bracket_Update :: "uuid \<Rightarrow> string \<Rightarrow> string \<Rightarrow> bool \<Rightarrow> bracket op" where
  "Bracket_Update ID name description isDefault =
     bindE (mapErr (wrap ''BracketUseCase - Update - GetByID'') (BracketRepo_GetByID ID)) (\<lambda>bracket.
     let name = TrimSpace name in
     bindE (failIf (name = '''') (Plain ''BracketUseCase - Update: name is required'')) (\<lambda>_.
     let bracket = bracket\<lparr>bracket_Name := name, bracket_Description := description,
                     bracket_IsDefault := isDefault\<rparr> in
     bindE (mapErr (\<lambda>e. if is_sentinel e ErrBracketNameConflict then e else wrap ''BracketUseCase - Update'' e)
       (BracketRepo_Update bracket)) (\<lambda>_.
     returnE bracket)))"

definition Bracket_Delete :: "uuid \<Rightarrow> unit op" where
  "Bracket_Delete ID = mapErr (wrap ''BracketUseCase - Delete'') (BracketRepo_Delete ID)"

section \<open>Comments: queries\<close>

definition sqlc_CreateComment :: "comments_row \<Rightarrow> comments_row query" where
  "sqlc_CreateComment r d =
     (if list_ex (\<lambda>c. comments_id c = comments_id r) (comments d) then (Inl UniqueViolation, d)
      else if \<not> user_exists (comments_user_id r) d \<or> \<not> challenge_exists (comments_challenge_id r) d
      then (Inl ForeignKeyViolation, d)
      else (Inr r, d\<lparr>comments := comments d @ [r]\<rparr>))"

definition sqlc_DeleteComment :: "uuid \<Rightarrow> unit query" where
  "sqlc_DeleteComment ID = modifyE (\<lambda>d. d\<lparr>comments := del_where (\<lambda>c. comments_id c = ID) (comments d)\<rparr>)"

definition sqlc_GetCommentByID :: "uuid \<Rightarrow> comments_row query" where
  "sqlc_GetCommentByID ID = select_one (\<lambda>d. filter (\<lambda>c. comments_id c = ID) (comments d))"

definition sqlc_GetCommentsByChallengeID :: "uuid \<Rightarrow> comments_row list query" where
  "sqlc_GetCommentsByChallengeID chal = select_all (\<lambda>d.
     order_by_asc comments_created_at (filter (\<lambda>c. comments_challenge_id c = chal) (comments d)))"

definition sqlc_UpdateComment :: "uuid \<Rightarrow> string \<Rightarrow> time option \<Rightarrow> unit query" where
  "sqlc_UpdateComment ID content updated_at = modifyE (\<lambda>d.
     d\<lparr>comments := upd_where (\<lambda>c. comments_id c = ID)
        (\<lambda>c. c\<lparr>comments_content := content, comments_updated_at := updated_at\<rparr>) (comments d)\<rparr>)"

section \<open>CommentRepo and CommentUseCase\<close>

definition commentRowToEntity :: "comments_row \<Rightarrow> comment" where
  "commentRowToEntity r = \<lparr>comment_ID = comments_id r, comment_UserID = comments_user_id r,
     comment_ChallengeID = comments_challenge_id r, comment_Content = comments_content r,
     comment_CreatedAt = ptrTimeToTime (comments_created_at r),
     comment_UpdatedAt = ptrTimeToTime (comments_updated_at r)\<rparr>"

definition CommentRepo_Create :: "comment \<Rightarrow> comment op" where
  "CommentRepo_Create c =
     bindE (id_or_new (comment_ID c)) (\<lambda>ID.
     bindE (time_or_now (comment_CreatedAt c)) (\<lambda>createdAt.
     let updatedAt = (if comment_UpdatedAt c = 0 then createdAt else comment_UpdatedAt c) in
     bindE (mapErr (wrap ''CommentRepo - Create'')
       (sql (sqlc_CreateComment \<lparr>comments_id = ID, comments_user_id = comment_UserID c,
          comments_challenge_id = comment_ChallengeID c, comments_content = comment_Content c,
          comments_created_at = Some createdAt, comments_updated_at = Some updatedAt\<rparr>))) (\<lambda>_.
     returnE (c\<lparr>comment_ID := ID, comment_CreatedAt := createdAt, comment_UpdatedAt := updatedAt\<rparr>))))"

definition CommentRepo_GetByID :: "uuid \<Rightarrow> comment op" where
  "CommentRepo_GetByID ID =
     bindE (mapErr (no_rows_as ErrCommentNotFound ''CommentRepo - GetByID'') (sql (sqlc_GetCommentByID ID)))
       (\<lambda>row. returnE (commentRowToEntity row))"

definition CommentRepo_GetByChallengeID :: "uuid \<Rightarrow> comment list op" where
  "CommentRepo_GetByChallengeID challengeID =
     bindE (mapErr (wrap ''CommentRepo - GetByChallengeID'') (sql (sqlc_GetCommentsByChallengeID challengeID)))
       (\<lambda>rows. returnE (map commentRowToEntity rows))"

definition CommentRepo_Update :: "comment \<Rightarrow> comment op" where
  "CommentRepo_Update c =
     bindE nowE (\<lambda>now.
     bindE (sql (sqlc_UpdateComment (comment_ID c) (comment_Content c) (Some now))) (\<lambda>_.
     returnE (c\<lparr>comment_UpdatedAt := now\<rparr>)))"

definition CommentRepo_Delete :: "uuid \<Rightarrow> unit op" where
  "CommentRepo_Delete ID = sql (sqlc_DeleteComment ID)"

definition Comment_GetByChallengeID :: "uuid \<Rightarrow> comment list op" where
  "Comment_GetByChallengeID challengeID =
     mapErr (wrap ''CommentUseCase - GetByChallengeID'') (CommentRepo_GetByChallengeID challengeID)"

definition Comment_Create :: "uuid \<Rightarrow> uuid \<Rightarrow> string \<Rightarrow> comment op" where
  "Comment_Create userID challengeID content =
     (let content = TrimSpace content in
      bindE (failIf (content = '''') (Plain ''CommentUseCase - Create: content is required'')) (\<lambda>_.
      bindE (mapErr (wrap ''CommentUseCase - Create - GetByID challenge'') (ChallengeRepo_GetByID challengeID)) (\<lambda>_.
      mapErr (wrap ''CommentUseCase - Create'')
        (CommentRepo_Create \<lparr>comment_ID = 0, comment_UserID = userID, comment_ChallengeID = challengeID,
           comment_Content = content, comment_CreatedAt = 0, comment_UpdatedAt = 0\<rparr>))))"

definition Comment_Delete :: "uuid \<Rightarrow> uuid \<Rightarrow> unit op" where
  "Comment_Delete ID userID =
     bindE (mapErr (wrap ''CommentUseCase - Delete - GetByID'') (CommentRepo_GetByID ID)) (\<lambda>c.
     bindE (failIf (comment_UserID c \<noteq> userID) (Sentinel ErrCommentForbidden)) (\<lambda>_.
     mapErr (wrap ''CommentUseCase - Delete'') (CommentRepo_Delete ID)))"

end
