(* ===== verification/CTF_Strconv.thy ===== *)
theory CTF_Strconv
  imports CTF_Prelude
begin

text \<open>
  \<open>strconv.Atoi\<close> on a 64-bit platform: an optional sign, at least one decimal digit, nothing
  else, and a value that fits in an \<open>int\<close>. \<open>strconv.Itoa\<close> writes the shortest such string.
\<close>

definition is_digit :: "char \<Rightarrow> bool" where
  "is_digit c \<longleftrightarrow> (48 :: nat) \<le> of_char c \<and> of_char c \<le> (57 :: nat)"

definition digits_val :: "string \<Rightarrow> int" where
  "digits_val s = foldl (\<lambda>n c. 10 * n + (of_char c - 48)) 0 s"

definition split_sign :: "string \<Rightarrow> bool \<times> string" where
  "split_sign s = (case s of
       [] \<Rightarrow> (False, [])
     | c # cs \<Rightarrow> if c = CHR ''-'' then (True, cs) else if c = CHR ''+'' then (False, cs) else (False, s))"

definition Atoi :: "string \<Rightarrow> int option" where
  "Atoi s = (case split_sign s of (neg, ds) \<Rightarrow>
     if ds = [] \<or> \<not> list_all is_digit ds then None
     else (let v = (if neg then - digits_val ds else digits_val ds) in
           if - (2 ^ 63) \<le> v \<and> v \<le> 2 ^ 63 - 1 then Some v else None))"

fun digits_of :: "nat \<Rightarrow> string" where
  "digits_of n = (if n < 10 then [char_of (48 + n)] else digits_of (n div 10) @ [char_of (48 + n mod 10)])"

declare digits_of.simps [simp del]

definition Itoa :: "int \<Rightarrow> string" where
  "Itoa i = (if i < 0 then CHR ''-'' # digits_of (nat (- i)) else digits_of (nat i))"

section \<open>Round trip\<close>

lemma of_char_digit: "n < 10 \<Longrightarrow> of_char (char_of (48 + n :: nat)) = (of_nat (48 + n) :: 'a :: {linordered_euclidean_semiring_bit_operations})"
proof -
  assume "n < 10"
  then have "of_char (char_of (48 + n :: nat)) = 48 + n"
    by (simp add: of_char_of)
  then show ?thesis by (metis of_nat_of_char)
qed

lemma is_digit_digit: "n < 10 \<Longrightarrow> is_digit (char_of (48 + n :: nat))"
  by (simp add: is_digit_def of_char_digit)

lemma digits_of_digits: "list_all is_digit (digits_of n)"
proof (induction n rule: digits_of.induct)
  case (1 n)
  then show ?case
    by (subst digits_of.simps) (auto simp: is_digit_digit)
qed

lemma digits_of_nonempty [simp]: "digits_of n \<noteq> []"
  by (subst digits_of.simps) simp

lemma digits_val_digits_of: "digits_val (digits_of n) = int n"
proof (induction n rule: digits_of.induct)
  case (1 n)
  show ?case
  proof (cases "n < 10")
    case True
    then show ?thesis by (subst digits_of.simps) (simp add: digits_val_def of_char_digit)
  next
    case False
    with 1 have "digits_val (digits_of (n div 10)) = int (n div 10)" by simp
    then have "digits_val (digits_of n) = 10 * int (n div 10) + int (n mod 10)"
      using False by (subst digits_of.simps) (simp add: digits_val_def of_char_digit)
    then show ?thesis by presburger
  qed
qed

lemma digits_of_hd: "digits_of n = c # cs \<Longrightarrow> is_digit c"
  using digits_of_digits [of n] by simp

lemma split_sign_digits: "split_sign (digits_of n) = (False, digits_of n)"
proof (cases "digits_of n")
  case (Cons c cs)
  then have "is_digit c" by (rule digits_of_hd)
  then show ?thesis using Cons by (auto simp: split_sign_def is_digit_def)
qed simp

lemma Atoi_Itoa:
  assumes "- (2 ^ 63) \<le> i" "i \<le> 2 ^ 63 - 1"
  shows "Atoi (Itoa i) = Some i"
proof (cases "i < 0")
  case True
  then show ?thesis using assms digits_of_digits
    by (simp add: Itoa_def Atoi_def split_sign_def digits_val_digits_of Let_def)
next
  case False
  then show ?thesis using assms digits_of_digits
    by (simp add: Itoa_def Atoi_def split_sign_digits digits_val_digits_of Let_def)
qed

end
