(* ===== verification/CTF_Fields.thy ===== *)
theory CTF_Fields
  imports CTF_Content CTF_Strconv
begin

text \<open>
  Custom fields of users and teams: \<open>sqlc/fields.sql.go\<close>, \<open>FieldRepo\<close> and
  \<open>FieldValueRepo\<close>, \<open>FieldUseCase\<close> and \<open>FieldValidator\<close> of \<open>usecase/settings\<close>. A
  map of values is the list of its entries in the order in which the loop meets them, which Go leaves
  open; the options of a field are stored as a JSON array of strings, and as NULL when there are none.
\<close>

section \<open>Queries\<close>

definition field_checked :: "string \<Rightarrow> string \<Rightarrow> bool" where
  "field_checked field_type entity_type \<longleftrightarrow>
     field_type \<in> {FieldTypeText, FieldTypeNumber, FieldTypeSelect, FieldTypeBoolean} \<and>
     entity_type \<in> {EntityTypeUser, EntityTypeTeam}"

definition sqlc_CreateField :: "fields_row \<Rightarrow> unit query" where
  "sqlc_CreateField r d =
     (if \<not> field_checked (fields_field_type r) (fields_entity_type r) then (Inl CheckViolation, d)
      else if list_ex (\<lambda>f. fields_id f = fields_id r) (fields_tab d) then (Inl UniqueViolation, d)
      else (Inr (), d\<lparr>fields_tab := fields_tab d @ [r]\<rparr>))"

definition sqlc_DeleteField :: "uuid \<Rightarrow> unit query" where
  "sqlc_DeleteField ID = modifyE (\<lambda>d.
     d\<lparr>fields_tab := del_where (\<lambda>f. fields_id f = ID) (fields_tab d),
       field_values := (if list_ex (\<lambda>f. fields_id f = ID) (fields_tab d)
          then del_where (\<lambda>v. field_values_field_id v = ID) (field_values d) else field_values d)\<rparr>)"

definition sqlc_DeleteFieldValuesByEntityID :: "uuid \<Rightarrow> unit query" where
  "sqlc_DeleteFieldValuesByEntityID entity_id = modifyE (\<lambda>d.
     d\<lparr>field_values := del_where (\<lambda>v. field_values_entity_id v = entity_id) (field_values d)\<rparr>)"

definition sqlc_GetAllFields :: "collation \<Rightarrow> fields_row list query" where
  "sqlc_GetAllFields coll = select_all (\<lambda>d.
     sort_key (\<lambda>f. coll (fields_entity_type f))
       (order_by_asc fields_order_index (sort_key (\<lambda>f. coll (fields_name f)) (fields_tab d))))"

definition sqlc_GetFieldByID :: "uuid \<Rightarrow> fields_row query" where
  "sqlc_GetFieldByID ID = select_one (\<lambda>d. filter (\<lambda>f. fields_id f = ID) (fields_tab d))"

definition sqlc_GetFieldValuesByEntityID :: "uuid \<Rightarrow> field_values_row list query" where
  "sqlc_GetFieldValuesByEntityID entity_id = select_all (\<lambda>d.
     filter (\<lambda>v. field_values_entity_id v = entity_id) (field_values d))"

definition sqlc_GetFieldsByEntityType :: "collation \<Rightarrow> string \<Rightarrow> fields_row list query" where
  "sqlc_GetFieldsByEntityType coll entity_type = select_all (\<lambda>d.
     order_by_asc fields_order_index (sort_key (\<lambda>f. coll (fields_name f))
       (filter (\<lambda>f. fields_entity_type f = entity_type) (fields_tab d))))"

definition sqlc_UpdateField ::
  "uuid \<Rightarrow> string \<Rightarrow> string \<Rightarrow> bool option \<Rightarrow> string list option \<Rightarrow> int option \<Rightarrow> unit query" where
  "sqlc_UpdateField ID name field_type required options order_index d =
     (if list_ex (\<lambda>f. fields_id f = ID \<and> \<not> field_checked field_type (fields_entity_type f)) (fields_tab d)
      then (Inl CheckViolation, d)
      else (Inr (), d\<lparr>fields_tab := upd_where (\<lambda>f. fields_id f = ID) (\<lambda>f. f\<lparr>fields_name := name,
              fields_field_type := field_type, fields_required := required, fields_options := options,
              fields_order_index := order_index\<rparr>) (fields_tab d)\<rparr>))"

definition sqlc_UpsertFieldValue :: "field_values_row \<Rightarrow> unit query" where
  "sqlc_UpsertFieldValue r d =
     (if list_ex (\<lambda>v. field_values_field_id v = field_values_field_id r \<and>
                      field_values_entity_id v = field_values_entity_id r) (field_values d)
      then (Inr (), d\<lparr>field_values := upd_where (\<lambda>v. field_values_field_id v = field_values_field_id r \<and>
              field_values_entity_id v = field_values_entity_id r)
              (\<lambda>v. v\<lparr>field_values_value := field_values_value r\<rparr>) (field_values d)\<rparr>)
      else if list_ex (\<lambda>v. field_values_id v = field_values_id r) (field_values d) then (Inl UniqueViolation, d)
      else if \<not> list_ex (\<lambda>f. fields_id f = field_values_field_id r) (fields_tab d)
      then (Inl ForeignKeyViolation, d)
      else (Inr (), d\<lparr>field_values := field_values d @ [r]\<rparr>))"

section \<open>FieldRepo\<close>

definition optionsToBytes :: "string list \<Rightarrow> string list option" where
  "optionsToBytes opts = (if length opts = 0 then None else Some opts)"

definition optionsFromBytes :: "string list option \<Rightarrow> string list" where
  "optionsFromBytes b = (case b of None \<Rightarrow> [] | Some opts \<Rightarrow> opts)"

text \<open>Each reading method builds the entity from the row in the same way.\<close>

definition field_entity :: "fields_row \<Rightarrow> field" where
  "field_entity r = \<lparr>field_ID = fields_id r, field_Name = fields_name r, field_FieldType = fields_field_type r,
     field_EntityType = fields_entity_type r, field_Required = boolPtrToBool (fields_required r),
     field_Options = optionsFromBytes (fields_options r),
     field_OrderIndex = int32PtrToInt (fields_order_index r),
     field_CreatedAt = ptrTimeToTime (fields_created_at r)\<rparr>"

text \<open>The time of creation is not written back to the entity.\<close>

definition FieldRepo_Create :: "field \<Rightarrow> field op" where
  "FieldRepo_Create f =
     bindE (id_or_new (field_ID f)) (\<lambda>ID.
     bindE (time_or_now (field_CreatedAt f)) (\<lambda>createdAt.
     bindE (sql (sqlc_CreateField \<lparr>fields_id = ID, fields_name = field_Name f,
        fields_field_type = field_FieldType f, fields_entity_type = field_EntityType f,
        fields_required = Some (field_Required f), fields_options = optionsToBytes (field_Options f),
        fields_order_index = intToInt32Ptr (field_OrderIndex f), fields_created_at = Some createdAt\<rparr>)) (\<lambda>_.
     returnE (f\<lparr>field_ID := ID\<rparr>))))"

definition FieldRepo_GetByID :: "uuid \<Rightarrow> field op" where
  "FieldRepo_GetByID ID =
     bindE (mapErr (no_rows_as ErrFieldNotFound ''FieldRepo - GetByID'') (sql (sqlc_GetFieldByID ID)))
       (\<lambda>row. returnE (field_entity row))"

definition FieldRepo_GetByEntityType :: "collation \<Rightarrow> string \<Rightarrow> field list op" where
  "FieldRepo_GetByEntityType coll entityType =
     bindE (mapErr (wrap ''FieldRepo - GetByEntityType'') (sql (sqlc_GetFieldsByEntityType coll entityType)))
       (\<lambda>rows. returnE (map field_entity rows))"

definition FieldRepo_GetAll :: "collation \<Rightarrow> field list op" where
  "FieldRepo_GetAll coll =
     bindE (mapErr (wrap ''FieldRepo - GetAll'') (sql (sqlc_GetAllFields coll)))
       (\<lambda>rows. returnE (map field_entity rows))"

definition FieldRepo_Update :: "field \<Rightarrow> unit op" where
  "FieldRepo_Update f =
     sql (sqlc_UpdateField (field_ID f) (field_Name f) (field_FieldType f) (Some (field_Required f))
       (optionsToBytes (field_Options f)) (intToInt32Ptr (field_OrderIndex f)))"

definition FieldRepo_Delete :: "uuid \<Rightarrow> unit op" where
  "FieldRepo_Delete ID = sql (sqlc_DeleteField ID)"

section \<open>FieldValueRepo\<close>

definition FieldValueRepo_GetByEntityID :: "uuid \<Rightarrow> field_value list op" where
  "FieldValueRepo_GetByEntityID entityID =
     bindE (mapErr (wrap ''FieldValueRepo - GetByEntityID'') (sql (sqlc_GetFieldValuesByEntityID entityID))) (\<lambda>rows.
     returnE (map (\<lambda>r. \<lparr>fval_ID = field_values_id r, fval_FieldID = field_values_field_id r,
        fval_EntityID = field_values_entity_id r, fval_Value = field_values_value r,
        fval_CreatedAt = ptrTimeToTime (field_values_created_at r)\<rparr>) rows))"

text \<open>\<open>uuid.Parse\<close> belongs to another package and is a parameter.\<close>

definition FieldValueRepo_SetValues ::
  "(string \<Rightarrow> uuid option) \<Rightarrow> uuid \<Rightarrow> (string \<times> string) list \<Rightarrow> unit op" where
  "FieldValueRepo_SetValues uuid_Parse entityID vals =
     bindE (mapErr (wrap ''FieldValueRepo - SetValues - Delete'')
       (sql (sqlc_DeleteFieldValuesByEntityID entityID))) (\<lambda>_.
     forE vals (\<lambda>(fieldIDStr, val).
       case uuid_Parse fieldIDStr of
         None \<Rightarrow> throwE (Wrapf (''FieldValueRepo - SetValues: invalid field_id '' @ fieldIDStr @ '': '')
                           (Plain ''invalid UUID'') '''')
       | Some fieldID \<Rightarrow>
           bindE nowE (\<lambda>now. bindE uuid_New (\<lambda>ID.
           mapErr (wrap ''FieldValueRepo - SetValues - Upsert'')
             (sql (sqlc_UpsertFieldValue \<lparr>field_values_id = ID, field_values_field_id = fieldID,
                field_values_entity_id = entityID, field_values_value = val,
                field_values_created_at = Some now\<rparr>))))))"

section \<open>FieldUseCase\<close>

definition Field_GetByEntityType :: "collation \<Rightarrow> string \<Rightarrow> field list op" where
  "Field_GetByEntityType coll entityType =
     mapErr (wrap ''FieldUseCase - GetByEntityType'') (FieldRepo_GetByEntityType coll entityType)"

definition Field_Create ::
  "string \<Rightarrow> string \<Rightarrow> string \<Rightarrow> bool \<Rightarrow> string list \<Rightarrow> int \<Rightarrow> field op" where
  "Field_Create name fieldType entityType required options orderIndex =
     (let name = TrimSpace name in
      bindE (failIf (name = '''') (Plain ''FieldUseCase - Create: name is required'')) (\<lambda>_.
      bindE uuid_New (\<lambda>ID.
      mapErr (wrap ''FieldUseCase - Create'')
        (FieldRepo_Create \<lparr>field_ID = ID, field_Name = name, field_FieldType = fieldType,
           field_EntityType = entityType, field_Required = required, field_Options = options,
           field_OrderIndex = orderIndex, field_CreatedAt = 0\<rparr>))))"

definition Field_GetByID :: "uuid \<Rightarrow> field op" where
  "Field_GetByID ID = mapErr (wrap ''FieldUseCase - GetByID'') (FieldRepo_GetByID ID)"

definition Field_GetAll :: "collation \<Rightarrow> field list op" where
  "Field_GetAll coll = mapErr (wrap ''FieldUseCase - GetAll'') (FieldRepo_GetAll coll)"

text \<open>A blank name is answered by \<open>nil, Wrap(err, ..)\<close> with a nil \<open>err\<close>: \<open>None\<close>.\<close>

definition Field_Update ::
  "uuid \<Rightarrow> string \<Rightarrow> string \<Rightarrow> bool \<Rightarrow> string list \<Rightarrow> int \<Rightarrow> field option op" where
  "Field_Update ID name fieldType required options orderIndex =
     bindE (mapErr (\<lambda>e. if is_sentinel e ErrFieldNotFound then e else wrap ''FieldUseCase - Update - GetByID'' e)
       (FieldRepo_GetByID ID)) (\<lambda>f.
     let name = TrimSpace name in
     if name = ''''
     then (case Wrap_nil None ''FieldUseCase - Update: name is required'' of None \<Rightarrow> returnE None | Some e \<Rightarrow> throwE e)
     else
       let f = f\<lparr>field_Name := name, field_FieldType := fieldType, field_Required := required,
                 field_Options := options, field_OrderIndex := orderIndex\<rparr> in
       bindE (mapErr (wrap ''FieldUseCase - Update'') (FieldRepo_Update f)) (\<lambda>_. returnE (Some f)))"

definition Field_Delete :: "uuid \<Rightarrow> unit op" where
  "Field_Delete ID = mapErr (wrap ''FieldUseCase - Delete'') (FieldRepo_Delete ID)"

section \<open>FieldValidator\<close>

definition validateNumber :: "string \<Rightarrow> goerr option" where
  "validateNumber val = (case Atoi val of None \<Rightarrow> Some (Plain ''must be a number'') | Some _ \<Rightarrow> None)"

definition validateBoolean :: "string \<Rightarrow> goerr option" where
  "validateBoolean val =
     (if val \<noteq> ''true'' \<and> val \<noteq> ''false'' then Some (Plain ''must be true or false'') else None)"

definition validateSelect :: "string \<Rightarrow> string list \<Rightarrow> goerr option" where
  "validateSelect val options =
     (if length options = 0 then None
      else if list_ex (\<lambda>opt. opt = val) options then None
      else Some (Plain (''invalid option: '' @ val)))"

definition validateText :: "string \<Rightarrow> goerr option" where
  "validateText val = (if 500 < length val then Some (Plain ''text too long (max 500)'') else None)"

definition validateValue :: "field \<Rightarrow> string \<Rightarrow> goerr option" where
  "validateValue f val =
     (if field_FieldType f = FieldTypeNumber then validateNumber val
      else if field_FieldType f = FieldTypeBoolean then validateBoolean val
      else if field_FieldType f = FieldTypeSelect then validateSelect val (field_Options f)
      else if field_FieldType f = FieldTypeText then validateText val
      else None)"

text \<open>\<open>fieldMap[f.ID] = f\<close> for every field: the last field of an id stays.\<close>

definition field_map :: "field list \<Rightarrow> uuid \<Rightarrow> field option" where
  "field_map fs = foldl (\<lambda>m f. m(field_ID f \<mapsto> f)) (\<lambda>_. None) fs"

fun validate_each :: "(uuid \<Rightarrow> string) \<Rightarrow> (uuid \<Rightarrow> field option) \<Rightarrow> (uuid \<times> string) list \<Rightarrow> goerr option" where
  "validate_each uuid_String fieldMap [] = None"
| "validate_each uuid_String fieldMap ((fieldID, val) # vals) =
     (case fieldMap fieldID of
        None \<Rightarrow> Some (Plain (''unknown field: '' @ uuid_String fieldID))
      | Some f \<Rightarrow> (case validateValue f val of
          Some e \<Rightarrow> Wrap_nil (Some e) (''field '' @ field_Name f)
        | None \<Rightarrow> validate_each uuid_String fieldMap vals))"

fun require_each :: "field list \<Rightarrow> (uuid \<times> string) list \<Rightarrow> goerr option" where
  "require_each [] vals = None"
| "require_each (f # fs) vals =
     (if field_Required f \<and> map_of vals (field_ID f) = None
      then Some (Plain (''field '' @ field_Name f @ '' is required''))
      else require_each fs vals)"

definition FieldValidator_ValidateValues ::
  "(uuid \<Rightarrow> string) \<Rightarrow> collation \<Rightarrow> string \<Rightarrow> (uuid \<times> string) list \<Rightarrow> unit op" where
  "FieldValidator_ValidateValues uuid_String coll entityType vals =
     bindE (FieldRepo_GetByEntityType coll entityType) (\<lambda>fs.
     case validate_each uuid_String (field_map fs) vals of
       Some e \<Rightarrow> throwE e
     | None \<Rightarrow> (case require_each fs vals of Some e \<Rightarrow> throwE e | None \<Rightarrow> returnE ()))"

end
