(* ===== verification/CTF_FieldProps.thy ===== *)
theory CTF_FieldProps
  imports CTF_Fields CTF_Demo
begin

text \<open>
  What \<open>FieldValidator\<close> accepts, as a condition on the set of values: the order in which the loop
  meets them decides only which error is reported. And what \<open>SetValues\<close> leaves behind when it
  fails.
\<close>

section \<open>The validator\<close>

definition value_fits :: "field \<Rightarrow> string \<Rightarrow> bool" where
  "value_fits f val \<longleftrightarrow>
     (field_FieldType f = FieldTypeNumber \<longrightarrow> (\<exists>i. Atoi val = Some i)) \<and>
     (field_FieldType f = FieldTypeBoolean \<longrightarrow> val \<in> {''true'', ''false''}) \<and>
     (field_FieldType f = FieldTypeSelect \<longrightarrow> field_Options f = [] \<or> val \<in> set (field_Options f)) \<and>
     (field_FieldType f = FieldTypeText \<longrightarrow> length val \<le> 500)"

lemma validateValue_None: "validateValue f val = None \<longleftrightarrow> value_fits f val"
  by (auto simp: validateValue_def value_fits_def validateNumber_def validateBoolean_def
      validateSelect_def validateText_def list_ex_iff split: option.splits)

lemma field_map_fold:
  "foldl (\<lambda>m f. m(field_ID f \<mapsto> f)) m0 fs k = Some f \<Longrightarrow> m0 k = Some f \<or> f \<in> set fs \<and> field_ID f = k"
proof (induction fs arbitrary: m0)
  case (Cons g fs)
  from Cons.IH [of "m0(field_ID g \<mapsto> g)"] Cons.prems show ?case by (auto split: if_splits)
qed simp

lemma field_map_out:
  "k \<notin> field_ID ` set fs \<Longrightarrow> foldl (\<lambda>m f. m(field_ID f \<mapsto> f)) m0 fs k = m0 k"
  by (induction fs arbitrary: m0) auto

lemma field_map_in:
  "distinct (map field_ID fs) \<Longrightarrow> f \<in> set fs \<Longrightarrow> foldl (\<lambda>m f. m(field_ID f \<mapsto> f)) m0 fs (field_ID f) = Some f"
proof (induction fs arbitrary: m0)
  case (Cons g fs)
  show ?case
  proof (cases "f = g")
    case True
    then show ?thesis using Cons.prems field_map_out [of "field_ID g" fs "m0(field_ID g \<mapsto> g)"]
      by (auto simp add: fun_upd_same simp del: fun_upd_apply)
  next
    case False
    then show ?thesis using Cons by auto
  qed
qed simp

lemma field_map_Some:
  assumes "distinct (map field_ID fs)"
  shows "field_map fs k = Some f \<longleftrightarrow> f \<in> set fs \<and> field_ID f = k"
  using field_map_in [OF assms] field_map_fold by (fastforce simp: field_map_def)

lemma validate_each_None:
  "validate_each uuid_String m vals = None \<longleftrightarrow>
     (\<forall>(k, val) \<in> set vals. \<exists>f. m k = Some f \<and> value_fits f val)"
  by (induction vals) (auto simp: validateValue_None [symmetric] split: option.splits)

lemma require_each_None:
  "require_each fs vals = None \<longleftrightarrow> (\<forall>f \<in> set fs. field_Required f \<longrightarrow> field_ID f \<in> fst ` set vals)"
  by (induction fs) (auto simp: map_of_eq_None_iff)

lemma GetByEntityType_run:
  "\<not> next_fault w \<Longrightarrow> FieldRepo_GetByEntityType coll t w =
     (Inr (map field_entity (order_by_asc fields_order_index (sort_key (\<lambda>f. coll (fields_name f))
        (filter (\<lambda>f. fields_entity_type f = t) (fields_tab (store w)))))), use_fault w)"
  by (simp add: FieldRepo_GetByEntityType_def bindE_def mapErr_def sql_run sqlc_GetFieldsByEntityType_def)

lemma field_entity_simps [simp]: "field_ID (field_entity r) = fields_id r"
  by (simp add: field_entity_def)

lemma distinct_map_order_by_asc:
  "distinct (map key rows) \<Longrightarrow> distinct (map key (order_by_asc k rows))"
  by (auto simp: order_by_asc_def distinct_map intro: inj_on_subset) (metis inj_onD option.distinct(1))

lemma distinct_map_sort_key: "distinct (map key rows) \<Longrightarrow> distinct (map key (sort_key k rows))"
  by (simp add: distinct_map)

lemma distinct_map_filter: "distinct (map key rows) \<Longrightarrow> distinct (map key (filter P rows))"
  by (simp add: distinct_map inj_on_def)

text \<open>C25 The validator accepts exactly the sets of values in which every value belongs to a field of the
  entity type and fits its type (a 64-bit number, true or false, one of the options, at most 500
  bytes), and every required field has a value; the order of the map does not matter.\<close>

theorem ValidateValues_iff:
  assumes "distinct (map fields_id (fields_tab (store w)))" and "\<not> next_fault w"
  shows "fst (FieldValidator_ValidateValues uuid_String coll t vals w) = Inr () \<longleftrightarrow>
     (\<forall>(k, val) \<in> set vals. \<exists>r \<in> set (fields_tab (store w)).
        fields_entity_type r = t \<and> fields_id r = k \<and> value_fits (field_entity r) val) \<and>
     (\<forall>r \<in> set (fields_tab (store w)). fields_entity_type r = t \<and> fields_required r = Some True \<longrightarrow>
        fields_id r \<in> fst ` set vals)"
proof -
  define fs where "fs = map field_entity (order_by_asc fields_order_index (sort_key (\<lambda>f. coll (fields_name f))
        (filter (\<lambda>f. fields_entity_type f = t) (fields_tab (store w)))))"
  have ids: "field_ID \<circ> field_entity = fields_id" by (simp add: fun_eq_iff)
  have "distinct (map field_ID fs)"
    unfolding fs_def map_map ids
    by (intro distinct_map_order_by_asc distinct_map_sort_key distinct_map_filter assms)
  note in_map = field_map_Some [OF this]
  have set_fs: "set fs = field_entity ` {r \<in> set (fields_tab (store w)). fields_entity_type r = t}"
    by (simp add: fs_def)
  have req: "field_Required (field_entity r) \<longleftrightarrow> fields_required r = Some True" for r
    by (simp add: field_entity_def boolPtrToBool_def split: option.split)
  have "fst (FieldValidator_ValidateValues uuid_String coll t vals w) = Inr () \<longleftrightarrow>
     validate_each uuid_String (field_map fs) vals = None \<and> require_each fs vals = None"
    by (simp add: FieldValidator_ValidateValues_def bindE_def GetByEntityType_run [OF assms(2)] fs_def
        split: option.splits)
  also have "\<dots> \<longleftrightarrow> (\<forall>(k, val) \<in> set vals. \<exists>f \<in> set fs. field_ID f = k \<and> value_fits f val) \<and>
      (\<forall>f \<in> set fs. field_Required f \<longrightarrow> field_ID f \<in> fst ` set vals)"
    by (simp add: validate_each_None require_each_None in_map Bex_def conj_assoc)
  also have "\<dots> \<longleftrightarrow> (\<forall>(k, val) \<in> set vals. \<exists>r \<in> set (fields_tab (store w)).
        fields_entity_type r = t \<and> fields_id r = k \<and> value_fits (field_entity r) val) \<and>
     (\<forall>r \<in> set (fields_tab (store w)). fields_entity_type r = t \<and> fields_required r = Some True \<longrightarrow>
        fields_id r \<in> fst ` set vals)"
    by (auto simp: set_fs req)
  finally show ?thesis .
qed

text \<open>A database with a required number and an optional choice for users.\<close>

definition demo_fields :: db where
  "demo_fields = empty_db\<lparr>fields_tab :=
     [\<lparr>fields_id = 1, fields_name = ''age'', fields_field_type = ''number'', fields_entity_type = ''user'',
       fields_required = Some True, fields_options = None, fields_order_index = None,
       fields_created_at = Some 5\<rparr>,
      \<lparr>fields_id = 2, fields_name = ''size'', fields_field_type = ''select'', fields_entity_type = ''user'',
       fields_required = Some False, fields_options = Some [''S'', ''M''], fields_order_index = Some 1,
       fields_created_at = Some 6\<rparr>]\<rparr>"

lemma ValidateValues_iff_witness:
  "fst (FieldValidator_ValidateValues (\<lambda>_. '''') (map of_char) ''user'' [(2, ''M''), (1, ''-42'')] (world_of demo_fields)) = Inr ()
   \<and> fst (FieldValidator_ValidateValues (\<lambda>_. '''') (map of_char) ''user'' [(2, ''M'')] (world_of demo_fields)) \<noteq> Inr ()"
proof -
  have hyp: "distinct (map fields_id (fields_tab (store (world_of demo_fields))))" "\<not> next_fault (world_of demo_fields)"
    by code_simp+
  have "Atoi ''-42'' = Some (-42)" by code_simp
  then show ?thesis
    by (simp add: ValidateValues_iff [OF hyp])
      (simp add: world_of_def demo_fields_def value_fits_def field_entity_def optionsFromBytes_def)
qed

section \<open>Replacing the values of an entity\<close>

text \<open>A failing call has deleted the old values.\<close>

lemma SetValues_bad_id_loses:
  assumes "\<not> next_fault w" "uuid_Parse k = None"
  shows "\<exists>e w'. FieldValueRepo_SetValues uuid_Parse entityID ((k, val) # vals) w = (Inl e, w') \<and>
    field_values (store w') = del_where (\<lambda>v. field_values_entity_id v = entityID) (field_values (store w))"
  using assms by (simp add: FieldValueRepo_SetValues_def bindE_def mapErr_def sql_run
      sqlc_DeleteFieldValuesByEntityID_def)

end
