(* ===== verification/CTF_Lift.thy ===== *)
theory CTF_Lift
  imports CTF_World
begin

text \<open>
  Components with memory of their own (an in-process cache, a queue of mails, a blob store): a
  computation on the pair of the component's object and the world. \<open>inWorld\<close> and \<open>inObj\<close>
  run a computation on one half.
\<close>

type_synonym ('o, 'a) obj_op = "('o \<times> world, goerr, 'a) sem"

definition inWorld :: "'a op \<Rightarrow> ('o, 'a) obj_op" where
  "inWorld m s = (case s of (ob, w) \<Rightarrow> case m w of (r, w') \<Rightarrow> (r, (ob, w')))"

definition inObj :: "('o, goerr, 'a) sem \<Rightarrow> ('o, 'a) obj_op" where
  "inObj m s = (case s of (ob, w) \<Rightarrow> case m ob of (r, ob') \<Rightarrow> (r, (ob', w)))"

abbreviation getObj :: "('o, 'o) obj_op" where
  "getObj \<equiv> asksE fst"

definition setObj :: "('o \<Rightarrow> 'o) \<Rightarrow> ('o, unit) obj_op" where
  "setObj f = modifyE (\<lambda>(ob, w). (f ob, w))"

lemma inWorld_iff: "inWorld m (ob, w) = (r, (ob', w')) \<longleftrightarrow> m w = (r, w') \<and> ob' = ob"
  by (auto simp: inWorld_def split: prod.splits)

lemma inWorld_run: "m w = (r, w') \<Longrightarrow> inWorld m (ob, w) = (r, (ob, w'))"
  by (simp add: inWorld_def)

lemma inObj_iff: "inObj m (ob, w) = (r, (ob', w')) \<longleftrightarrow> m ob = (r, ob') \<and> w' = w"
  by (auto simp: inObj_def split: prod.splits)

lemma setObj_apply [simp]: "setObj f (ob, w) = (Inr (), (f ob, w))"
  by (simp add: setObj_def)

lemma keeps_inWorld: "(\<And>ob. keeps (\<lambda>w. I (ob, w)) m) \<Longrightarrow> keeps I (inWorld m)"
  by (rule keepsI) (auto simp: inWorld_def split: prod.splits dest: keepsD)

lemma keeps_inObj: "(\<And>w. keeps (\<lambda>ob. I (ob, w)) m) \<Longrightarrow> keeps I (inObj m)"
  by (rule keepsI) (auto simp: inObj_def split: prod.splits dest: keepsD)

end
