(* ===== verification/CTF_Settings.thy ===== *)
theory CTF_Settings
  imports CTF_Lift CTF_Competition CTF_Tags CTF_Strings CTF_Strconv "HOL-Library.AList"
begin

text \<open>
  Application settings (\<open>app_settings.sql.go\<close>, \<open>AppSettingsRepo\<close>, \<open>SettingsUseCase\<close>
  with its redis cache) and dynamic configuration (\<open>configs.sql.go\<close>, \<open>ConfigRepo\<close>,
  \<open>DynamicConfigUseCase\<close> with its cache in memory). A locked section of the latter is one step.
\<close>

section \<open>Application settings\<close>

definition sqlc_GetAppSettings :: "app_settings_row query" where
  "sqlc_GetAppSettings = select_one (\<lambda>d. filter (\<lambda>s. app_settings_id s = 1) (app_settings d))"

definition sqlc_UpdateAppSettings ::
  "string \<Rightarrow> bool \<Rightarrow> string \<Rightarrow> string \<Rightarrow> bool \<Rightarrow> string \<Rightarrow> string \<Rightarrow> int \<Rightarrow> int \<Rightarrow> int \<Rightarrow> int \<Rightarrow> string \<Rightarrow> bool \<Rightarrow>
   time \<Rightarrow> unit query" where
  "sqlc_UpdateAppSettings app_name verify_emails frontend_url cors_origins resend_enabled
     resend_from_email resend_from_name verify_ttl_hours reset_ttl_hours submit_limit_per_user
     submit_limit_duration_min scoreboard_visible registration_open updated_at d =
     (if list_ex (\<lambda>s. app_settings_id s = 1) (app_settings d) \<and>
         scoreboard_visible \<notin> {ScoreboardVisiblePublic, ScoreboardVisibleHidden, ScoreboardVisibleAdminsOnly}
      then (Inl CheckViolation, d)
      else (Inr (), d\<lparr>app_settings := upd_where (\<lambda>s. app_settings_id s = 1) (\<lambda>s. s\<lparr>app_settings_app_name := app_name,
         app_settings_verify_emails := verify_emails, app_settings_frontend_url := frontend_url,
         app_settings_cors_origins := cors_origins, app_settings_resend_enabled := resend_enabled,
         app_settings_resend_from_email := resend_from_email,
         app_settings_resend_from_name := resend_from_name,
         app_settings_verify_ttl_hours := verify_ttl_hours,
         app_settings_reset_ttl_hours := reset_ttl_hours,
         app_settings_submit_limit_per_user := submit_limit_per_user,
         app_settings_submit_limit_duration_min := submit_limit_duration_min,
         app_settings_scoreboard_visible := scoreboard_visible,
         app_settings_registration_open := registration_open,
         app_settings_updated_at := updated_at\<rparr>) (app_settings d)\<rparr>))"

definition toEntityAppSettings :: "app_settings_row \<Rightarrow> app_settings" where
  "toEntityAppSettings s = \<lparr>set_ID = app_settings_id s, set_AppName = app_settings_app_name s,
     set_VerifyEmails = app_settings_verify_emails s, set_FrontendURL = app_settings_frontend_url s,
     set_CORSOrigins = app_settings_cors_origins s, set_ResendEnabled = app_settings_resend_enabled s,
     set_ResendFromEmail = app_settings_resend_from_email s,
     set_ResendFromName = app_settings_resend_from_name s,
     set_VerifyTTLHours = app_settings_verify_ttl_hours s,
     set_ResetTTLHours = app_settings_reset_ttl_hours s,
     set_SubmitLimitPerUser = app_settings_submit_limit_per_user s,
     set_SubmitLimitDurationMin = app_settings_submit_limit_duration_min s,
     set_ScoreboardVisible = app_settings_scoreboard_visible s,
     set_RegistrationOpen = app_settings_registration_open s,
     set_UpdatedAt = app_settings_updated_at s\<rparr>"

definition AppSettingsRepo_Get :: "app_settings op" where
  "AppSettingsRepo_Get =
     bindE (mapErr (no_rows_as ErrAppSettingsNotFound ''AppSettingsRepo - Get'') (sql sqlc_GetAppSettings))
       (\<lambda>s. returnE (toEntityAppSettings s))"

definition AppSettingsRepo_Update :: "app_settings \<Rightarrow> unit op" where
  "AppSettingsRepo_Update s =
     bindE (mapErr (wrap ''AppSettingsRepo - Update VerifyTTLHours'') (liftE (intToInt32Safe (set_VerifyTTLHours s)))) (\<lambda>verifyTtl.
     bindE (mapErr (wrap ''AppSettingsRepo - Update ResetTTLHours'') (liftE (intToInt32Safe (set_ResetTTLHours s)))) (\<lambda>resetTtl.
     bindE (mapErr (wrap ''AppSettingsRepo - Update SubmitLimitPerUser'') (liftE (intToInt32Safe (set_SubmitLimitPerUser s)))) (\<lambda>submitLimit.
     bindE (mapErr (wrap ''AppSettingsRepo - Update SubmitLimitDurationMin'') (liftE (intToInt32Safe (set_SubmitLimitDurationMin s)))) (\<lambda>submitDuration.
     bindE nowE (\<lambda>now.
     mapErr (wrap ''AppSettingsRepo - Update'')
       (sql (sqlc_UpdateAppSettings (set_AppName s) (set_VerifyEmails s) (set_FrontendURL s)
          (set_CORSOrigins s) (set_ResendEnabled s) (set_ResendFromEmail s) (set_ResendFromName s)
          verifyTtl resetTtl submitLimit submitDuration (set_ScoreboardVisible s)
          (set_RegistrationOpen s) now)))))))"

definition Settings_Get :: "app_settings op" where
  "Settings_Get =
     bindE (redis_Get KeyAppSettings) (\<lambda>val.
       case val of
         Some (CAppSettings s) \<Rightarrow> returnE s
       | _ \<Rightarrow>
           mapErr (wrap ''SettingsUseCase - Get'')
             (bindE AppSettingsRepo_Get (\<lambda>s.
              bindE (redis_Set KeyAppSettings (CAppSettings s) (300 * second)) (\<lambda>_. returnE s))))"

definition Settings_validate :: "app_settings \<Rightarrow> goerr option" where
  "Settings_validate s =
     (if set_SubmitLimitPerUser s < 1
      then Some (Plain ''SettingsUseCase - Update: submit_limit_per_user must be >= 1'')
      else if set_SubmitLimitDurationMin s < 1
      then Some (Plain ''SettingsUseCase - Update: submit_limit_duration_min must be >= 1'')
      else if set_VerifyTTLHours s < 1 \<or> 168 < set_VerifyTTLHours s
      then Some (Plain ''SettingsUseCase - Update: verify_ttl_hours must be between 1 and 168'')
      else if set_ResetTTLHours s < 1 \<or> 168 < set_ResetTTLHours s
      then Some (Plain ''SettingsUseCase - Update: reset_ttl_hours must be between 1 and 168'')
      else if set_ScoreboardVisible s \<noteq> ScoreboardVisiblePublic \<and>
              set_ScoreboardVisible s \<noteq> ScoreboardVisibleHidden \<and>
              set_ScoreboardVisible s \<noteq> ScoreboardVisibleAdminsOnly
      then Some (Plain ''SettingsUseCase - Update: scoreboard_visible must be public, hidden, or admins_only'')
      else None)"

definition Settings_Update :: "app_settings \<Rightarrow> uuid \<Rightarrow> string \<Rightarrow> unit op" where
  "Settings_Update s actorID clientIP =
     (case Settings_validate s of Some e \<Rightarrow> throwE e | None \<Rightarrow>
      bindE (mapErr (wrap ''SettingsUseCase - Update'') (AppSettingsRepo_Update s)) (\<lambda>_.
      bindE (redis_Del [KeyAppSettings]) (\<lambda>_.
      mapErr (wrap ''SettingsUseCase - Update - Create audit'')
        (AuditLogRepo_Create (Some actorID) AuditActionUpdate AuditEntityAppSettings ''settings''
           clientIP [(''message'', JStr ''app settings updated'')]))))"

section \<open>Configuration entries\<close>

definition sqlc_DeleteConfig :: "string \<Rightarrow> unit query" where
  "sqlc_DeleteConfig key = modifyE (\<lambda>d. d\<lparr>configs := del_where (\<lambda>c. configs_key c = key) (configs d)\<rparr>)"

definition sqlc_GetAllConfigs :: "collation \<Rightarrow> configs_row list query" where
  "sqlc_GetAllConfigs coll = select_all (\<lambda>d. sort_key (\<lambda>c. coll (configs_key c)) (configs d))"

definition sqlc_GetConfigByKey :: "string \<Rightarrow> configs_row query" where
  "sqlc_GetConfigByKey key = select_one (\<lambda>d. filter (\<lambda>c. configs_key c = key) (configs d))"

text \<open>\<open>now\<close> is the time of the statement, which the server sets.\<close>

definition sqlc_UpsertConfig :: "time \<Rightarrow> string \<Rightarrow> string \<Rightarrow> string \<Rightarrow> string option \<Rightarrow> unit query" where
  "sqlc_UpsertConfig now key val value_type description d =
     (if value_type \<notin> {ConfigTypeString, ConfigTypeInt, ConfigTypeBool, ConfigTypeJSON}
      then (Inl CheckViolation, d)
      else if list_ex (\<lambda>c. configs_key c = key) (configs d)
      then (Inr (), d\<lparr>configs := upd_where (\<lambda>c. configs_key c = key) (\<lambda>c. c\<lparr>configs_value := val,
              configs_value_type := value_type, configs_description := description,
              configs_updated_at := Some now\<rparr>) (configs d)\<rparr>)
      else (Inr (), d\<lparr>configs := configs d @ [\<lparr>configs_key = key, configs_value = val,
              configs_value_type = value_type, configs_description = description,
              configs_updated_at = Some now\<rparr>]\<rparr>))"

definition configRowToEntity :: "configs_row \<Rightarrow> config" where
  "configRowToEntity row = \<lparr>config_Key = configs_key row, config_Value = configs_value row,
     config_ValueType = configs_value_type row, config_Description = ptrStrToStr (configs_description row),
     config_UpdatedAt = ptrTimeToTime (configs_updated_at row)\<rparr>"

definition ConfigRepo_GetAll :: "collation \<Rightarrow> config list op" where
  "ConfigRepo_GetAll coll =
     bindE (mapErr (wrap ''ConfigRepo - GetAll'') (sql (sqlc_GetAllConfigs coll)))
       (\<lambda>rows. returnE (map configRowToEntity rows))"

definition ConfigRepo_GetByKey :: "string \<Rightarrow> config op" where
  "ConfigRepo_GetByKey key =
     bindE (mapErr (no_rows_as ErrConfigNotFound ''ConfigRepo - GetByKey'') (sql (sqlc_GetConfigByKey key)))
       (\<lambda>row. returnE (configRowToEntity row))"

definition ConfigRepo_Upsert :: "config \<Rightarrow> unit op" where
  "ConfigRepo_Upsert cfg =
     bindE nowE (\<lambda>now.
     mapErr (wrap ''ConfigRepo - Upsert'')
       (sql (sqlc_UpsertConfig now (config_Key cfg) (config_Value cfg) (config_ValueType cfg)
          (strPtrOrNil (config_Description cfg)))))"

definition ConfigRepo_Delete :: "string \<Rightarrow> unit op" where
  "ConfigRepo_Delete key = sql (sqlc_DeleteConfig key)"

section \<open>DynamicConfigUseCase\<close>

text \<open>The cache is the list of the entries of the map; the load time 0 is the zero time.\<close>

record dyn_config =
  dc_cache :: "(string \<times> config) list"
  dc_lastLoad :: time

type_synonym 'a dyn_op = "(dyn_config, 'a) obj_op"

definition NewDynamicConfigUseCase :: dyn_config where
  "NewDynamicConfigUseCase = \<lparr>dc_cache = [], dc_lastLoad = 0\<rparr>"

abbreviation configCacheTTL :: time where
  "configCacheTTL \<equiv> 30 * second"

definition Dyn_invalidate :: "unit dyn_op" where
  "Dyn_invalidate = setObj (\<lambda>dc. dc\<lparr>dc_lastLoad := 0\<rparr>)"

text \<open>The part of \<open>loadAll\<close> under the lock: the cache is replaced by what was read before.\<close>

definition Dyn_install :: "config list \<Rightarrow> unit dyn_op" where
  "Dyn_install cfgs =
     bindE (inWorld nowE) (\<lambda>now.
     setObj (\<lambda>_. \<lparr>dc_cache = foldl (\<lambda>m cfg. AList.update (config_Key cfg) cfg m) [] cfgs, dc_lastLoad = now\<rparr>))"

definition Dyn_loadAll :: "collation \<Rightarrow> unit dyn_op" where
  "Dyn_loadAll coll = bindE (inWorld (ConfigRepo_GetAll coll)) Dyn_install"

definition Dyn_Get :: "collation \<Rightarrow> string \<Rightarrow> config dyn_op" where
  "Dyn_Get coll key =
     bindE (inWorld nowE) (\<lambda>now. bindE getObj (\<lambda>dc.
     let cacheValid = (now - dc_lastLoad dc < configCacheTTL) in
     case (if cacheValid then map_of (dc_cache dc) key else None) of
       Some cfg \<Rightarrow> returnE cfg
     | None \<Rightarrow>
         bindE (if \<not> cacheValid then Dyn_loadAll coll else returnE ()) (\<lambda>_. bindE getObj (\<lambda>dc.
         case map_of (dc_cache dc) key of
           Some cfg \<Rightarrow> returnE cfg
         | None \<Rightarrow>
             bindE (inWorld (ConfigRepo_GetByKey key)) (\<lambda>cfg.
             bindE (setObj (\<lambda>dc. dc\<lparr>dc_cache := AList.update key cfg (dc_cache dc)\<rparr>)) (\<lambda>_.
             returnE cfg))))))"

text \<open>The order of a map's entries is left open: \<open>iter\<close> rearranges them.\<close>

definition Dyn_GetAll ::
  "((string \<times> config) list \<Rightarrow> (string \<times> config) list) \<Rightarrow> collation \<Rightarrow> config list dyn_op" where
  "Dyn_GetAll iter coll =
     bindE (inWorld nowE) (\<lambda>now. bindE getObj (\<lambda>dc.
     if now - dc_lastLoad dc < configCacheTTL then returnE (map snd (iter (dc_cache dc)))
     else bindE (Dyn_loadAll coll) (\<lambda>_. bindE getObj (\<lambda>dc. returnE (map snd (iter (dc_cache dc)))))))"

definition validateValueType :: "string \<Rightarrow> string \<Rightarrow> goerr option" where
  "validateValueType valueType val =
     (if valueType = ConfigTypeInt then
        (case Atoi val of
           None \<Rightarrow> Some (Plain ''DynamicConfigUseCase - validateValueType: value must be a valid integer for type int'')
         | Some _ \<Rightarrow> None)
      else if valueType = ConfigTypeBool then
        (if val \<noteq> ''true'' \<and> val \<noteq> ''false''
         then Some (Plain ''DynamicConfigUseCase - validateValueType: value must be true or false for type bool'')
         else None)
      else if valueType = ConfigTypeString \<or> valueType = ConfigTypeJSON then None
      else Some (Plain (''DynamicConfigUseCase - validateValueType: invalid value_type: '' @ valueType)))"

definition Dyn_Set :: "string \<Rightarrow> string \<Rightarrow> string \<Rightarrow> string \<Rightarrow> uuid \<Rightarrow> string \<Rightarrow> unit dyn_op" where
  "Dyn_Set key val description valueType actorID clientIP =
     (let key = TrimSpace key in
      bindE (failIf (key = '''') (Plain ''DynamicConfigUseCase - Set: config key is required'')) (\<lambda>_.
      case validateValueType valueType val of Some e \<Rightarrow> throwE e | None \<Rightarrow>
      bindE (inWorld (mapErr (wrap ''DynamicConfigUseCase - Set'')
        (ConfigRepo_Upsert \<lparr>config_Key = key, config_Value = val, config_ValueType = valueType,
           config_Description = description, config_UpdatedAt = 0\<rparr>))) (\<lambda>_.
      bindE Dyn_invalidate (\<lambda>_.
      inWorld (mapErr (wrap ''DynamicConfigUseCase - Set - Create audit'')
        (AuditLogRepo_Create (Some actorID) AuditActionUpdate ''config'' key clientIP
           [(''message'', JStr ''config updated''), (''key'', JStr key)]))))))"

definition Dyn_Delete :: "string \<Rightarrow> uuid \<Rightarrow> string \<Rightarrow> unit dyn_op" where
  "Dyn_Delete key actorID clientIP =
     (let key = TrimSpace key in
      bindE (failIf (key = '''') (Plain ''DynamicConfigUseCase - Delete: config key is required'')) (\<lambda>_.
      bindE (inWorld (ConfigRepo_GetByKey key)) (\<lambda>_.
      bindE (inWorld (mapErr (wrap ''DynamicConfigUseCase - Delete'') (ConfigRepo_Delete key))) (\<lambda>_.
      bindE Dyn_invalidate (\<lambda>_.
      inWorld (mapErr (wrap ''DynamicConfigUseCase - Delete - Create audit'')
        (AuditLogRepo_Create (Some actorID) AuditActionDelete ''config'' key clientIP
           [(''message'', JStr ''config deleted''), (''key'', JStr key)])))))))"

definition Dyn_GetString :: "collation \<Rightarrow> string \<Rightarrow> string \<Rightarrow> string dyn_op" where
  "Dyn_GetString coll key defaultVal =
     bindE (tryE (Dyn_Get coll key)) (\<lambda>r. returnE (case r of Inl _ \<Rightarrow> defaultVal | Inr cfg \<Rightarrow> config_Value cfg))"

definition Dyn_GetInt :: "collation \<Rightarrow> string \<Rightarrow> int \<Rightarrow> int dyn_op" where
  "Dyn_GetInt coll key defaultVal =
     bindE (tryE (Dyn_Get coll key)) (\<lambda>r. returnE (case r of
         Inl _ \<Rightarrow> defaultVal
       | Inr cfg \<Rightarrow> (case Atoi (config_Value cfg) of None \<Rightarrow> defaultVal | Some v \<Rightarrow> v)))"

definition Dyn_GetBool :: "collation \<Rightarrow> string \<Rightarrow> bool \<Rightarrow> bool dyn_op" where
  "Dyn_GetBool coll key defaultVal =
     bindE (tryE (Dyn_Get coll key)) (\<lambda>r. returnE (case r of Inl _ \<Rightarrow> defaultVal | Inr cfg \<Rightarrow> config_Value cfg = ''true''))"

end
