(* ===== verification/CTF_SettingsProps.thy ===== *)
theory CTF_SettingsProps
  imports CTF_Settings CTF_Demo
begin

text \<open>
  The cache of \<open>DynamicConfigUseCase\<close>: over every sequence of its requests a read answers what the
  database holds, whatever fails; but a load whose two halves surround a change keeps the old value
  for the life of the cache.
\<close>

section \<open>Clock and tables under the calls used\<close>

text \<open>\<open>I t d\<close> is an invariant of the clock and the database that time does not end.\<close>

definition timed :: "(time \<Rightarrow> db \<Rightarrow> bool) \<Rightarrow> bool" where
  "timed I \<longleftrightarrow> (\<forall>t t' d. I t d \<longrightarrow> t \<le> t' \<longrightarrow> I t' d)"

abbreviation timed_keeps :: "(time \<Rightarrow> db \<Rightarrow> bool) \<Rightarrow> 'a op \<Rightarrow> bool" where
  "timed_keeps I m \<equiv> keeps (\<lambda>w. I (clock w) (store w)) m"

lemma timed_keeps_nowE: "timed I \<Longrightarrow> timed_keeps I nowE"
  by (rule keepsI) (auto simp: nowE_def timed_def split: list.splits)

lemma timed_keeps_uuid_New: "timed_keeps I uuid_New"
  by (rule keepsI) (auto simp: uuid_New_def)

lemma timed_keeps_sql:
  assumes "\<And>t. keeps (I t) q" shows "timed_keeps I (sql q)"
proof (rule keepsI)
  fix w r w' assume "I (clock w) (store w)" "sql q w = (r, w')"
  then show "I (clock w') (store w')"
    using keepsD [OF assms, of "clock w" "store w"] by (cases r) (auto simp: sql_Inr_iff sql_Inl_iff)
qed

lemmas timed_rules = keeps_bindE keeps_mapErr keeps_returnE keeps_throwE timed_keeps_sql timed_keeps_uuid_New
  timed_keeps_nowE

section \<open>The invariant of the cache\<close>

definition config_in :: "db \<Rightarrow> string \<Rightarrow> config \<Rightarrow> bool" where
  "config_in d k cfg \<longleftrightarrow> (\<exists>r \<in> set (configs d). configs_key r = k \<and> cfg = configRowToEntity r)"

definition dyn_inv :: "dyn_config \<times> world \<Rightarrow> bool" where
  "dyn_inv s = (case s of (dc, w) \<Rightarrow>
     configCacheTTL \<le> clock w \<and>
     (dc_lastLoad dc = 0 \<or> (\<forall>k cfg. map_of (dc_cache dc) k = Some cfg \<longrightarrow> config_in (store w) k cfg)))"

lemma install_map:
  "map_of (foldl (\<lambda>m cfg. AList.update (config_Key cfg) cfg m) m0 cfgs) k = Some c \<Longrightarrow>
   map_of m0 k = Some c \<or> c \<in> set cfgs \<and> config_Key c = k"
proof (induction cfgs arbitrary: m0)
  case (Cons d cfgs)
  from Cons.IH [of "AList.update (config_Key d) d m0"] Cons.prems show ?case
    by (auto simp: update_conv' split: if_splits)
qed simp

lemma configRow_key [simp]: "config_Key (configRowToEntity r) = configs_key r"
  by (simp add: configRowToEntity_def)

lemma ConfigRepo_GetAll_iff:
  "ConfigRepo_GetAll coll w = (Inr cfgs, w') \<longleftrightarrow> \<not> next_fault w \<and> w' = use_fault w \<and>
     cfgs = map configRowToEntity (sort_key (\<lambda>c. coll (configs_key c)) (configs (store w)))"
  by (auto simp: ConfigRepo_GetAll_def bindE_Inr_iff sql_Inr_iff sqlc_GetAllConfigs_def)

lemma ConfigRepo_GetByKey_Inr:
  "ConfigRepo_GetByKey key w = (Inr cfg, w') \<Longrightarrow> config_in (store w) key cfg \<and> w' = use_fault w"
  by (auto simp: ConfigRepo_GetByKey_def bindE_Inr_iff sql_Inr_iff sqlc_GetConfigByKey_def
      select_one_Inr_iff config_in_def filter_eq_Cons_iff)

lemma ConfigRepo_GetByKey_Inl:
  "ConfigRepo_GetByKey key w = (Inl e, w') \<Longrightarrow> w' = use_fault w \<and>
     (e = Sentinel ErrConfigNotFound \<longrightarrow> (\<forall>cfg. \<not> config_in (store w) key cfg))"
  by (auto simp: ConfigRepo_GetByKey_def bindE_Inl_iff mapErr_Inl_iff sql_Inl_iff sqlc_GetConfigByKey_def
      select_one_Inl_iff config_in_def no_rows_as_def filter_empty_conv split: if_splits)

lemma dyn_inv_now:
  "inWorld nowE (dc, w) = (Inr now, s) \<Longrightarrow> dyn_inv (dc, w) \<Longrightarrow>
   \<exists>w1. s = (dc, w1) \<and> now = clock w \<and> store w1 = store w \<and> clock w \<le> clock w1 \<and> dyn_inv (dc, w1)"
  by (cases s) (auto simp: inWorld_iff nowE_def dyn_inv_def split: list.splits)

lemma inWorld_nowE_not_Inl [simp]: "inWorld nowE s \<noteq> (Inl e, s')"
  by (cases s; cases s') (auto simp: inWorld_iff)

text \<open>A load that succeeds leaves a cache that agrees with the database.\<close>

lemma loadAll_inv:
  assumes "dyn_inv (dc, w)" and "Dyn_loadAll coll (dc, w) = (r, (dc', w'))"
  shows "dyn_inv (dc', w') \<and> store w' = store w \<and>
    (r = Inr () \<longrightarrow> (\<forall>k cfg. map_of (dc_cache dc') k = Some cfg \<longrightarrow> config_in (store w) k cfg)) \<and>
    (\<forall>e. r = Inl e \<longrightarrow> e \<noteq> Sentinel ErrConfigNotFound)"
proof (cases "next_fault w")
  case True
  then show ?thesis using assms
    by (auto simp: Dyn_loadAll_def ConfigRepo_GetAll_def bindE_def mapErr_def inWorld_def sql_run dyn_inv_def)
next
  case False
  let ?cfgs = "map configRowToEntity (sort_key (\<lambda>c. coll (configs_key c)) (configs (store w)))"
  have "Dyn_loadAll coll (dc, w) = Dyn_install ?cfgs (dc, use_fault w)"
    using False by (simp add: Dyn_loadAll_def bindE_def inWorld_def ConfigRepo_GetAll_iff [THEN iffD2])
  with assms(2) have "r = Inr ()"
    and dc': "dc_cache dc' = foldl (\<lambda>m cfg. AList.update (config_Key cfg) cfg m) [] ?cfgs"
    and w': "store w' = store w" "clock w \<le> clock w'"
    by (auto simp: Dyn_install_def bindE_def inWorld_def nowE_def split: list.splits)
  have "config_in (store w) k cfg" if "map_of (dc_cache dc') k = Some cfg" for k cfg
    using install_map [of "[]" ?cfgs k cfg] that unfolding dc' by (auto simp: config_in_def)
  with \<open>r = Inr ()\<close> w' assms(1) show ?thesis by (auto simp: dyn_inv_def)
qed

lemma Dyn_Get_inv:
  assumes inv: "dyn_inv (dc, w)" and run: "Dyn_Get coll key (dc, w) = (r, (dc', w'))"
  shows "dyn_inv (dc', w') \<and> store w' = store w \<and>
    (case r of Inr cfg \<Rightarrow> config_in (store w) key cfg
     | Inl e \<Rightarrow> e = Sentinel ErrConfigNotFound \<longrightarrow> (\<forall>cfg. \<not> config_in (store w) key cfg))"
proof -
  obtain now s1 where now: "inWorld nowE (dc, w) = (Inr now, s1)"
    by (simp add: inWorld_def nowE_def)
  from dyn_inv_now [OF now inv] obtain w1 where s1: "s1 = (dc, w1)" and "now = clock w"
    and w1: "store w1 = store w" "clock w \<le> clock w1" "dyn_inv (dc, w1)" by blast
  define valid where "valid = (now - dc_lastLoad dc < configCacheTTL)"
  have loaded: "valid \<Longrightarrow> map_of (dc_cache dc) k = Some cfg \<Longrightarrow> config_in (store w) k cfg" for k cfg
    using inv \<open>now = clock w\<close> by (auto simp: valid_def dyn_inv_def)
  have "Dyn_Get coll key (dc, w) = (case (if valid then map_of (dc_cache dc) key else None) of
       Some cfg \<Rightarrow> returnE cfg
     | None \<Rightarrow>
         bindE (if \<not> valid then Dyn_loadAll coll else returnE ()) (\<lambda>_. bindE getObj (\<lambda>dc.
         case map_of (dc_cache dc) key of
           Some cfg \<Rightarrow> returnE cfg
         | None \<Rightarrow>
             bindE (inWorld (ConfigRepo_GetByKey key)) (\<lambda>cfg.
             bindE (setObj (\<lambda>dc. dc\<lparr>dc_cache := AList.update key cfg (dc_cache dc)\<rparr>)) (\<lambda>_.
             returnE cfg))))) (dc, w1)"
    using now
    by (simp add: Dyn_Get_def bindE_def [where m = "inWorld nowE"] bindE_def [where m = getObj] s1 Let_def valid_def)
  note run' = this [symmetric, unfolded run]
  show ?thesis
  proof (cases "if valid then map_of (dc_cache dc) key else None")
    case (Some cfg)
    then show ?thesis using run' loaded w1 by (auto split: if_splits)
  next
    case None
    obtain r2 dc2 w2 where load: "(if \<not> valid then Dyn_loadAll coll else returnE ()) (dc, w1) = (r2, (dc2, w2))"
      using prod_cases3 by blast
    have inv2: "dyn_inv (dc2, w2) \<and> store w2 = store w \<and>
        (r2 = Inr () \<longrightarrow> (\<forall>k cfg. map_of (dc_cache dc2) k = Some cfg \<longrightarrow> config_in (store w) k cfg)) \<and>
        (\<forall>e. r2 = Inl e \<longrightarrow> e \<noteq> Sentinel ErrConfigNotFound)"
    proof (cases valid)
      case True
      then show ?thesis using load loaded w1 by auto
    next
      case False
      then show ?thesis using load loadAll_inv [OF w1(3), of coll r2 dc2 w2] w1(1) by simp
    qed
    show ?thesis
    proof (cases r2)
      case (Inl e)
      then show ?thesis using run' None load inv2 by (auto simp: bindE_def)
    next
      case (Inr u)
      show ?thesis
      proof (cases "map_of (dc_cache dc2) key")
        case (Some cfg)
        then show ?thesis using run' None load inv2 Inr by (auto simp: bindE_def)
      next
        case miss: None
        obtain r3 w3 where get: "ConfigRepo_GetByKey key w2 = (r3, w3)" by force
        show ?thesis
        proof (cases r3)
          case (Inl e)
          with ConfigRepo_GetByKey_Inl [of key w2 e w3] get run' None load inv2 Inr miss show ?thesis
            by (auto simp: bindE_def inWorld_def dyn_inv_def)
        next
          case cfg: (Inr cfg)
          with ConfigRepo_GetByKey_Inr [of key w2 cfg w3] get run' None load inv2 Inr miss show ?thesis
            by (auto simp: bindE_def inWorld_def dyn_inv_def update_conv' split: if_splits)
        qed
      qed
    qed
  qed
qed

section \<open>Requests\<close>

datatype dyn_cmd =
    CmdGet string
  | CmdGetAll
  | CmdSet string string string string uuid string
  | CmdDelete string uuid string

fun Dyn_exec :: "((string \<times> config) list \<Rightarrow> (string \<times> config) list) \<Rightarrow> collation \<Rightarrow> dyn_cmd \<Rightarrow>
    dyn_config \<times> world \<Rightarrow> dyn_config \<times> world" where
  "Dyn_exec iter coll (CmdGet key) s = snd (Dyn_Get coll key s)"
| "Dyn_exec iter coll CmdGetAll s = snd (Dyn_GetAll iter coll s)"
| "Dyn_exec iter coll (CmdSet key val descr ty actor ip) s = snd (Dyn_Set key val descr ty actor ip s)"
| "Dyn_exec iter coll (CmdDelete key actor ip) s = snd (Dyn_Delete key actor ip s)"

text \<open>
  The states that a server reaches which starts at a time after the thirtieth second of the year 1
  on a database whose keys are unique.
\<close>

inductive dyn_reach :: "((string \<times> config) list \<Rightarrow> (string \<times> config) list) \<Rightarrow> collation \<Rightarrow>
    dyn_config \<times> world \<Rightarrow> bool" for iter coll where
  dyn_start: "configCacheTTL \<le> clock w \<Longrightarrow> distinct (map configs_key (configs (store w))) \<Longrightarrow>
     dyn_reach iter coll (NewDynamicConfigUseCase, w)"
| dyn_step: "dyn_reach iter coll s \<Longrightarrow> dyn_reach iter coll (Dyn_exec iter coll c s)"

lemma late_keeps_audit: "timed_keeps (\<lambda>t d. configCacheTTL \<le> t) (AuditLogRepo_Create u a et ei ip det)"
  unfolding AuditLogRepo_Create_def
  by (intro timed_rules) (auto simp: timed_def intro!: keepsI)

lemma late_keeps_Upsert: "timed_keeps (\<lambda>t d. configCacheTTL \<le> t) (ConfigRepo_Upsert cfg)"
  unfolding ConfigRepo_Upsert_def
  by (intro timed_rules) (auto simp: timed_def intro!: keepsI)

lemma Upsert_Inl_store: "ConfigRepo_Upsert cfg w = (Inl e, w') \<Longrightarrow> store w' = store w"
  by (auto simp: ConfigRepo_Upsert_def bindE_Inl_iff mapErr_Inl_iff dest!: sql_Inl_store nowE_store)

lemma dyn_inv_audit:
  assumes "dyn_inv (dc\<lparr>dc_lastLoad := 0\<rparr>, w)"
  shows "dyn_inv (snd (inWorld (mapErr h (AuditLogRepo_Create u a et ei ip det)) (dc\<lparr>dc_lastLoad := 0\<rparr>, w)))"
proof -
  obtain r w' where "mapErr h (AuditLogRepo_Create u a et ei ip det) w = (r, w')" by force
  with keepsD [OF keeps_mapErr [OF late_keeps_audit], of w] assms show ?thesis
    by (auto simp: inWorld_def dyn_inv_def)
qed

lemma dyn_inv_Set:
  assumes "dyn_inv s" shows "dyn_inv (snd (Dyn_Set key val descr ty actor ip s))"
proof (cases "TrimSpace key = '''' \<or> validateValueType ty val \<noteq> None")
  case True
  then show ?thesis using assms by (auto simp: Dyn_Set_def Let_def bindE_def failIf_apply split: option.split)
next
  case False
  obtain dc w where s: "s = (dc, w)" by force
  let ?cfg = "\<lparr>config_Key = TrimSpace key, config_Value = val, config_ValueType = ty,
           config_Description = descr, config_UpdatedAt = 0\<rparr>"
  obtain r w1 where up: "ConfigRepo_Upsert ?cfg w = (r, w1)" by force
  have late: "configCacheTTL \<le> clock w1"
    using keepsD [OF late_keeps_Upsert _ up] assms by (simp add: dyn_inv_def s)
  show ?thesis
  proof (cases r)
    case (Inl e)
    then show ?thesis using False up late assms Upsert_Inl_store [of ?cfg w e w1]
      by (auto simp: Dyn_Set_def Let_def bindE_def failIf_apply inWorld_def mapErr_def s dyn_inv_def)
  next
    case (Inr u)
    have "dyn_inv (dc\<lparr>dc_lastLoad := 0\<rparr>, w1)" using late by (simp add: dyn_inv_def)
    from dyn_inv_audit [OF this] show ?thesis using False up Inr
      by (auto simp: Dyn_Set_def Let_def bindE_def failIf_apply inWorld_def mapErr_def s Dyn_invalidate_def
          split: prod.splits)
  qed
qed

lemma dyn_inv_Delete:
  assumes "dyn_inv s" shows "dyn_inv (snd (Dyn_Delete key actor ip s))"
proof (cases "TrimSpace key = ''''")
  case True
  then show ?thesis using assms by (auto simp: Dyn_Delete_def Let_def bindE_def failIf_apply)
next
  case False
  obtain dc w where s: "s = (dc, w)" by force
  obtain r w1 where get: "ConfigRepo_GetByKey (TrimSpace key) w = (r, w1)" by force
  then have w1: "w1 = use_fault w"
    by (cases r) (auto dest: ConfigRepo_GetByKey_Inr ConfigRepo_GetByKey_Inl)
  obtain r2 w2 where del: "ConfigRepo_Delete (TrimSpace key) w1 = (r2, w2)" by force
  have w2: "clock w2 = clock w" "\<And>e. r2 = Inl e \<Longrightarrow> store w2 = store w"
    using del by (auto simp: ConfigRepo_Delete_def w1 sql_run sqlc_DeleteConfig_def split: if_splits)
  have "dyn_inv (dc\<lparr>dc_lastLoad := 0\<rparr>, w2)" using assms w2 by (simp add: dyn_inv_def s)
  from dyn_inv_audit [OF this] show ?thesis using False get del assms w1 w2
    by (cases r; cases r2) (auto simp: Dyn_Delete_def Let_def bindE_def failIf_apply inWorld_def mapErr_def s
        Dyn_invalidate_def dyn_inv_def split: prod.splits)
qed

lemma dyn_inv_GetAll:
  assumes "dyn_inv s" shows "dyn_inv (snd (Dyn_GetAll iter coll s))"
proof -
  obtain dc w where s: "s = (dc, w)" by force
  obtain now s1 where now: "inWorld nowE (dc, w) = (Inr now, s1)" by (simp add: inWorld_def nowE_def)
  from dyn_inv_now [OF now] assms obtain w1 where s1: "s1 = (dc, w1)" and w1: "dyn_inv (dc, w1)"
    by (auto simp: s)
  obtain r dc2 w2 where "Dyn_loadAll coll (dc, w1) = (r, (dc2, w2))" using prod_cases3 by blast
  with loadAll_inv [OF w1] now w1 show ?thesis
    by (cases r) (auto simp: Dyn_GetAll_def s s1 bindE_def)
qed

lemma dyn_reach_inv: "dyn_reach iter coll s \<Longrightarrow> dyn_inv s"
proof (induction rule: dyn_reach.induct)
  case (dyn_start w)
  then show ?case by (simp add: dyn_inv_def NewDynamicConfigUseCase_def)
next
  case (dyn_step s c)
  show ?case
  proof (cases c)
    case (CmdGet key)
    obtain dc w where s: "s = (dc, w)" by force
    obtain r dc' w' where "Dyn_Get coll key s = (r, (dc', w'))" using prod_cases3 by blast
    with Dyn_Get_inv [of dc w coll key] dyn_step.IH s show ?thesis by (simp add: CmdGet)
  qed (simp_all add: dyn_step.IH dyn_inv_GetAll dyn_inv_Set dyn_inv_Delete)
qed

text \<open>C28 Over every sequence of reads and changes of the dynamic configuration, whatever fails, a read
  answers an entry that the database holds under the key at that moment, and reports that there is
  none only when there is none; it changes no table.\<close>

theorem Dyn_Get_current:
  assumes "dyn_reach iter coll (dc, w)" and "Dyn_Get coll key (dc, w) = (r, (dc', w'))"
  shows "store w' = store w \<and>
    (case r of Inr cfg \<Rightarrow> config_in (store w) key cfg
     | Inl e \<Rightarrow> e = Sentinel ErrConfigNotFound \<longrightarrow> (\<forall>cfg. \<not> config_in (store w) key cfg))"
  using Dyn_Get_inv [OF dyn_reach_inv [OF assms(1)] assms(2)] by blast

section \<open>Writing and reading\<close>

lemma keys_keep_Upsert:
  "keeps (\<lambda>d. distinct (map configs_key (configs d))) (sqlc_UpsertConfig now k v ty descr)"
  by (rule keepsI) (auto simp: sqlc_UpsertConfig_def list_ex_iff map_upd_where_key split: if_splits)

lemma keys_keep_audit [intro]:
  "db_keeps (\<lambda>d. distinct (map configs_key (configs d))) (AuditLogRepo_Create u a et ei ip det)"
  unfolding AuditLogRepo_Create_def sqlc_CreateAuditLog_def
  by (intro valid_rules keepsI) (auto simp: audit_logs_insert_def split: if_splits)

lemma keys_inWorld:
  assumes "db_keeps (\<lambda>d. distinct (map configs_key (configs d))) m"
  shows "keeps (\<lambda>(dc, w). distinct (map configs_key (configs (store w)))) (inWorld m)"
  by (rule keeps_inWorld) (simp add: assms)

lemma keys_setObj: "keeps (\<lambda>(dc, w). distinct (map configs_key (configs (store w)))) (setObj f)"
  unfolding setObj_def by (rule keeps_modifyE) auto

lemma keys_loadAll: "keeps (\<lambda>(dc, w). distinct (map configs_key (configs (store w)))) (Dyn_loadAll coll)"
  unfolding Dyn_loadAll_def Dyn_install_def ConfigRepo_GetAll_def sqlc_GetAllConfigs_def
  by (intro valid_rules keys_inWorld keys_setObj)

lemma keys_reads:
  "keeps (\<lambda>(dc, w). distinct (map configs_key (configs (store w)))) (Dyn_Get coll key)"
  "keeps (\<lambda>(dc, w). distinct (map configs_key (configs (store w)))) (Dyn_GetAll iter coll)"
  unfolding Dyn_Get_def Dyn_GetAll_def Let_def ConfigRepo_GetByKey_def sqlc_GetConfigByKey_def
  by (intro valid_rules keys_inWorld keys_setObj keys_loadAll)+

lemma keys_Set:
  "keeps (\<lambda>(dc, w). distinct (map configs_key (configs (store w)))) (Dyn_Set key val descr ty actor ip)"
  unfolding Dyn_Set_def Let_def ConfigRepo_Upsert_def Dyn_invalidate_def
  by (intro valid_rules keys_inWorld keys_setObj keys_keep_Upsert keys_keep_audit)

lemma keys_Delete:
  "keeps (\<lambda>(dc, w). distinct (map configs_key (configs (store w)))) (Dyn_Delete key actor ip)"
  unfolding Dyn_Delete_def Let_def ConfigRepo_GetByKey_def ConfigRepo_Delete_def Dyn_invalidate_def
    sqlc_GetConfigByKey_def sqlc_DeleteConfig_def
  by (intro valid_rules keys_inWorld keys_setObj keys_keep_audit keeps_modifyE) (simp add: distinct_del_where)

lemma dyn_reach_keys:
  "dyn_reach iter coll s \<Longrightarrow> distinct (map configs_key (configs (store (snd s))))"
proof (induction rule: dyn_reach.induct)
  case (dyn_step s c)
  have s: "(\<lambda>(dc :: dyn_config, w). distinct (map configs_key (configs (store w)))) s"
    using dyn_step.IH by (cases s) simp
  have "(\<lambda>(dc :: dyn_config, w). distinct (map configs_key (configs (store w)))) (Dyn_exec iter coll c s)"
    by (cases c) (simp_all only: Dyn_exec.simps keeps_snd [OF keys_reads(1) s] keeps_snd [OF keys_reads(2) s]
        keeps_snd [OF keys_Set s] keeps_snd [OF keys_Delete s])
  then show ?case by (simp add: case_prod_unfold)
qed simp

lemma audit_configs:
  "AuditLogRepo_Create u a et ei ip det w = (r, w') \<Longrightarrow> configs (store w') = configs (store w)"
proof -
  have "db_keeps (\<lambda>d. configs d = X) (AuditLogRepo_Create u a et ei ip det)" for X
    unfolding AuditLogRepo_Create_def sqlc_CreateAuditLog_def
    by (intro valid_rules keepsI) (simp add: audit_logs_insert_def split: if_splits, blast?)
  from keepsD [OF this] show "AuditLogRepo_Create u a et ei ip det w = (r, w') \<Longrightarrow> configs (store w') = configs (store w)"
    by blast
qed

lemma sqlc_Upsert_Inr:
  assumes "sqlc_UpsertConfig now k v ty descr d = (Inr (), d')"
  shows "\<exists>r \<in> set (configs d'). configs_key r = k \<and> configs_value r = v \<and> configs_value_type r = ty"
proof (cases "list_ex (\<lambda>c. configs_key c = k) (configs d)")
  case True
  then obtain c where "c \<in> set (configs d)" "configs_key c = k" by (auto simp: list_ex_iff)
  then have "c\<lparr>configs_value := v, configs_value_type := ty, configs_description := descr,
      configs_updated_at := Some now\<rparr> \<in> set (configs d')"
    using assms True by (auto simp: sqlc_UpsertConfig_def in_upd_where split: if_splits)
  with \<open>configs_key c = k\<close> show ?thesis by (intro bexI) auto
next
  case False
  then show ?thesis using assms by (auto simp: sqlc_UpsertConfig_def split: if_splits)
qed

lemma Upsert_Inr:
  assumes "ConfigRepo_Upsert cfg w = (Inr (), w')"
  shows "\<exists>r \<in> set (configs (store w')). configs_key r = config_Key cfg \<and> configs_value r = config_Value cfg \<and>
    configs_value_type r = config_ValueType cfg"
proof -
  from assms obtain now w1 where "sql (sqlc_UpsertConfig now (config_Key cfg) (config_Value cfg)
      (config_ValueType cfg) (strPtrOrNil (config_Description cfg))) w1 = (Inr (), w')"
    unfolding ConfigRepo_Upsert_def bindE_Inr_iff mapErr_Inr_iff by blast
  then obtain d where d: "sqlc_UpsertConfig now (config_Key cfg) (config_Value cfg)
      (config_ValueType cfg) (strPtrOrNil (config_Description cfg)) (store w1) = (Inr (), d)" "store w' = d"
    by (auto simp: sql_Inr_iff)
  from sqlc_Upsert_Inr [OF d(1)] d(2) show ?thesis by simp
qed

lemma Dyn_Set_Inr:
  assumes "Dyn_Set key val descr ty actor ip (dc, w) = (Inr (), (dc', w'))"
  shows "dc_lastLoad dc' = 0" "dc_cache dc' = dc_cache dc"
    "\<exists>r \<in> set (configs (store w')). configs_key r = TrimSpace key \<and> configs_value r = val \<and> configs_value_type r = ty"
proof -
  let ?cfg = "\<lparr>config_Key = TrimSpace key, config_Value = val, config_ValueType = ty,
           config_Description = descr, config_UpdatedAt = 0\<rparr>"
  have valid: "validateValueType ty val = None"
    using assms by (cases "validateValueType ty val") (auto simp: Dyn_Set_def Let_def bindE_Inr_iff)
  with assms obtain w1 r where up: "ConfigRepo_Upsert ?cfg w = (Inr (), w1)"
    and dc': "dc' = dc\<lparr>dc_lastLoad := 0\<rparr>"
    and aud: "AuditLogRepo_Create (Some actor) AuditActionUpdate ''config'' (TrimSpace key) ip
           [(''message'', JStr ''config updated''), (''key'', JStr (TrimSpace key))] w1 = (r, w')"
    by (auto simp: Dyn_Set_def Let_def bindE_Inr_iff inWorld_iff Dyn_invalidate_def)
  show "dc_lastLoad dc' = 0" "dc_cache dc' = dc_cache dc" by (simp_all add: dc')
  show "\<exists>r \<in> set (configs (store w')). configs_key r = TrimSpace key \<and> configs_value r = val \<and> configs_value_type r = ty"
    using Upsert_Inr [OF up] audit_configs [OF aud] by simp
qed

text \<open>After a successful change of a configuration entry the next successful read of its key answers
  the new value and type.\<close>

theorem Dyn_Set_Get:
  assumes "dyn_reach iter coll s" and "Dyn_Set key val descr ty actor ip s = (Inr (), s1)"
    and "Dyn_Get coll (TrimSpace key) s1 = (Inr cfg, s2)"
  shows "config_Key cfg = TrimSpace key \<and> config_Value cfg = val \<and> config_ValueType cfg = ty"
proof -
  obtain dc w dc1 w1 dc2 w2 where s: "s = (dc, w)" "s1 = (dc1, w1)" "s2 = (dc2, w2)"
    using prod.exhaust by metis
  have reach: "dyn_reach iter coll s1"
    using dyn_step [OF assms(1), of "CmdSet key val descr ty actor ip"] assms(2) by simp
  with assms(3) have "config_in (store w1) (TrimSpace key) cfg"
    using Dyn_Get_inv [OF dyn_reach_inv [OF reach [unfolded s]] assms(3) [unfolded s]] by simp
  then obtain r where r: "r \<in> set (configs (store w1))" "configs_key r = TrimSpace key" "cfg = configRowToEntity r"
    by (auto simp: config_in_def)
  from Dyn_Set_Inr(3) [of key val descr ty actor ip dc w dc1 w1] assms(2) obtain r'
    where r': "r' \<in> set (configs (store w1))" "configs_key r' = TrimSpace key" "configs_value r' = val"
      "configs_value_type r' = ty" by (auto simp: s)
  have "r = r'"
    using distinct_keys_eq [where key = configs_key, OF _ r(1) r'(1)] dyn_reach_keys [OF reach] r(2) r'(2) by (simp add: s)
  then show ?thesis using r r' by (simp add: configRowToEntity_def)
qed

section \<open>A load that overlaps a change\<close>

lemma install_keeps_key:
  "config_Key cfg = key \<Longrightarrow> map_of m0 key = Some cfg \<Longrightarrow> key \<notin> config_Key ` set cfgs \<Longrightarrow>
   map_of (foldl (\<lambda>m cfg. AList.update (config_Key cfg) cfg m) m0 cfgs) key = Some cfg"
  by (induction cfgs arbitrary: m0) (auto simp: update_conv')

lemma install_finds:
  "distinct (map config_Key cfgs) \<Longrightarrow> cfg \<in> set cfgs \<Longrightarrow>
   map_of (foldl (\<lambda>m cfg. AList.update (config_Key cfg) cfg m) m0 cfgs) (config_Key cfg) = Some cfg"
proof (induction cfgs arbitrary: m0)
  case (Cons d cfgs)
  show ?case
  proof (cases "cfg = d")
    case True
    then show ?thesis
      using Cons.prems install_keeps_key [of d "config_Key d" "AList.update (config_Key d) d m0" cfgs]
      by (simp add: update_conv')
  next
    case False
    then show ?thesis using Cons by auto
  qed
qed simp

text \<open>A load reads the table before it takes the lock: when another request changes an entry between
  the two, the load stores the old value after the invalidation and marks the cache as fresh, and every
  read in the next 30 seconds answers the old value although the database holds the new one.\<close>

theorem Dyn_load_overlaps_Set:
  assumes "distinct (map configs_key (configs (store w)))"
    and "ConfigRepo_GetAll coll w = (Inr cfgs, w1)"
    and "old \<in> set cfgs" "config_Key old = TrimSpace key"
    and "Dyn_Set key val descr ty actor ip (dc, w1) = (Inr (), (dc2, w2))"
    and "Dyn_install cfgs (dc2, w2) = (Inr (), (dc3, w3))"
    and "clock w3 - clock w2 < configCacheTTL"
  shows "fst (Dyn_Get coll (TrimSpace key) (dc3, w3)) = Inr old \<and>
    (\<exists>r \<in> set (configs (store w3)). configs_key r = TrimSpace key \<and> configs_value r = val)"
proof -
  have "distinct (map config_Key cfgs)"
  proof -
    have "config_Key \<circ> configRowToEntity = configs_key" by (simp add: fun_eq_iff)
    then have "map config_Key cfgs = map configs_key (sort_key (\<lambda>c. coll (configs_key c)) (configs (store w)))"
      using assms(2) by (simp add: ConfigRepo_GetAll_iff)
    with assms(1) show ?thesis by (simp add: distinct_map)
  qed
  from install_finds [OF this assms(3), of "[]"] assms(6)
  have cached: "map_of (dc_cache dc3) (TrimSpace key) = Some old" and "dc_lastLoad dc3 = clock w2"
    and w3: "store w3 = store w2"
    by (auto simp: Dyn_install_def bindE_def inWorld_def nowE_def assms(4) split: list.splits)
  with assms(7) have "fst (Dyn_Get coll (TrimSpace key) (dc3, w3)) = Inr old"
    by (simp add: Dyn_Get_def bindE_def inWorld_def nowE_def)
  with Dyn_Set_Inr(3) [OF assms(5)] w3 show ?thesis by auto
qed

section \<open>Witnesses\<close>

definition demo_motd :: world where
  "demo_motd = (world_of (demo_db\<lparr>configs := [\<lparr>configs_key = ''motd'', configs_value = ''hello'',
     configs_value_type = ''string'', configs_description = None, configs_updated_at = Some 9\<rparr>]\<rparr>))
     \<lparr>clock := 40000000, ticks := [1, 2, 3]\<rparr>"

definition demo_dyn :: "dyn_config \<times> world" where
  "demo_dyn = (NewDynamicConfigUseCase, demo_motd)"

definition demo_motd_set :: "(goerr + unit) \<times> dyn_config \<times> world" where
  "demo_motd_set = Dyn_Set '' motd '' ''bye'' '''' ''string'' 2 ''::1'' demo_dyn"

lemma demo_dyn_reach: "dyn_reach id (\<lambda>_. []) demo_dyn"
  unfolding demo_dyn_def by (rule dyn_start) (simp_all add: demo_motd_def world_of_def)

lemma Dyn_Get_current_witness:
  "\<exists>cfg. fst (Dyn_Get (\<lambda>_. []) ''motd'' demo_dyn) = Inr cfg \<and> config_in (store demo_motd) ''motd'' cfg"
proof -
  obtain r dc w where run: "Dyn_Get (\<lambda>_. []) ''motd'' (NewDynamicConfigUseCase, demo_motd) = (r, (dc, w))"
    using prod_cases3 by blast
  have "fst (Dyn_Get (\<lambda>_. []) ''motd'' (NewDynamicConfigUseCase, demo_motd)) =
      Inr \<lparr>config_Key = ''motd'', config_Value = ''hello'', config_ValueType = ''string'',
           config_Description = '''', config_UpdatedAt = 9\<rparr>"
    by code_simp
  with Dyn_Get_current [OF demo_dyn_reach [unfolded demo_dyn_def] run] run show ?thesis
    by (simp add: demo_dyn_def)
qed

lemma demo_motd_set_ok: "fst demo_motd_set = Inr ()"
  by code_simp

lemma Dyn_Set_Get_witness:
  "\<exists>cfg. fst (Dyn_Get (\<lambda>_. []) (TrimSpace '' motd '') (snd demo_motd_set)) = Inr cfg \<and> config_Value cfg = ''bye''"
proof -
  obtain s1 where s1: "Dyn_Set '' motd '' ''bye'' '''' ''string'' 2 ''::1'' demo_dyn = (Inr (), s1)"
    using demo_motd_set_ok by (cases demo_motd_set) (auto simp: demo_motd_set_def)
  have "isl (fst (Dyn_Get (\<lambda>_. []) (TrimSpace '' motd '') (snd demo_motd_set))) = False" by code_simp
  then obtain cfg where "fst (Dyn_Get (\<lambda>_. []) (TrimSpace '' motd '') s1) = Inr cfg"
    using s1 by (cases "fst (Dyn_Get (\<lambda>_. []) (TrimSpace '' motd '') s1)") (simp_all add: demo_motd_set_def)
  then obtain s2 where get: "Dyn_Get (\<lambda>_. []) (TrimSpace '' motd '') s1 = (Inr cfg, s2)" by (metis prod.collapse)
  from Dyn_Set_Get [OF demo_dyn_reach s1 get] get s1 show ?thesis by (simp add: demo_motd_set_def)
qed

lemma Dyn_load_overlaps_Set_witness:
  "\<exists>cfgs w1 dc2 w2 dc3 w3 old.
     ConfigRepo_GetAll (\<lambda>_. []) demo_motd = (Inr cfgs, w1) \<and>
     Dyn_Set ''motd'' ''bye'' '''' ''string'' 2 ''::1'' (NewDynamicConfigUseCase, w1) = (Inr (), (dc2, w2)) \<and>
     Dyn_install cfgs (dc2, w2) = (Inr (), (dc3, w3)) \<and> config_Value old = ''hello'' \<and>
     fst (Dyn_Get (\<lambda>_. []) (TrimSpace ''motd'') (dc3, w3)) = Inr old"
proof -
  let ?old = "\<lparr>config_Key = ''motd'', config_Value = ''hello'', config_ValueType = ''string'',
           config_Description = '''', config_UpdatedAt = 9\<rparr>"
  have all: "ConfigRepo_GetAll (\<lambda>_. []) demo_motd = (Inr [?old], use_fault demo_motd)"
    by (simp add: ConfigRepo_GetAll_iff demo_motd_def world_of_def next_fault_def configRowToEntity_def)
  have keys: "distinct (map configs_key (configs (store demo_motd)))"
    by (simp add: demo_motd_def world_of_def)
  let ?set = "Dyn_Set ''motd'' ''bye'' '''' ''string'' 2 ''::1'' (NewDynamicConfigUseCase, use_fault demo_motd)"
  have "fst ?set = Inr ()" by code_simp
  then obtain dc2 w2 where set: "?set = (Inr (), (dc2, w2))" by (metis prod.collapse)
  obtain dc3 w3 where inst: "Dyn_install [?old] (dc2, w2) = (Inr (), (dc3, w3))"
    by (simp add: Dyn_install_def bindE_def inWorld_def nowE_def)
  have t: "clock (snd (snd (Dyn_install [?old] (snd ?set)))) - clock (snd (snd ?set)) < configCacheTTL"
    by code_simp
  have late: "clock w3 - clock w2 < configCacheTTL" using t by (simp add: set inst)
  have key: "config_Key ?old = TrimSpace ''motd''" by code_simp
  from Dyn_load_overlaps_Set [OF keys all _ key set inst late] all set inst show ?thesis
    by (intro exI conjI) (auto simp del: One_nat_def)
qed

end
