(* ===== verification/CTF_Mailer.thy ===== *)
theory CTF_Mailer
  imports CTF_Errors "HOL-Library.Multiset"
begin

text \<open>
  \<open>pkg/mailer/async.go\<close>: a bounded queue of mails and the workers that hand them to the
  delegate. Each method is split where another goroutine may run: \<open>Send\<close> between the test of
  the flag and the send on the channel, a worker between taking a message and handing it over, \<open>Stop\<close>
  between raising the flag and closing \<open>quit\<close>. The machine \<open>mail_apply\<close> performs one such
  part; an interleaving is a list of events. The buffer has room for at least one message.
\<close>

record message =
  msg_To :: string
  msg_Subject :: string
  msg_Body :: string
  msg_IsHTML :: bool

text \<open>Where a worker is: in the outer \<open>select\<close>, in \<open>send\<close>, in the draining loop, gone.\<close>

datatype worker =
    WSelect
  | WSend message
  | WDrain
  | WDrainSend message
  | WDone

text \<open>
  \<open>am_pending\<close> are the calls of \<open>Send\<close> that have passed the test, \<open>am_accepted\<close> the messages
  for which \<open>Send\<close> returned nil and \<open>am_delivered\<close> those handed to the delegate.
\<close>

record async_mailer =
  am_msgChan :: "message list"
  am_bufferSize :: nat
  am_stopped :: bool
  am_quit :: bool
  am_workers :: "worker list"
  am_pending :: "message list"
  am_accepted :: "message list"
  am_delivered :: "message list"

definition NewAsyncMailer :: "nat \<Rightarrow> async_mailer" where
  "NewAsyncMailer bufferSize = \<lparr>am_msgChan = [], am_bufferSize = bufferSize, am_stopped = False,
     am_quit = False, am_workers = [], am_pending = [], am_accepted = [], am_delivered = []\<rparr>"

definition AsyncMailer_Start :: "nat \<Rightarrow> async_mailer \<Rightarrow> async_mailer" where
  "AsyncMailer_Start workers m = m\<lparr>am_workers := am_workers m @ replicate workers WSelect\<rparr>"

section \<open>Send\<close>

definition ErrMailerStopped :: goerr where
  "ErrMailerStopped = Plain ''mailer stopped''"

definition Send_test :: "(async_mailer, goerr, unit) sem" where
  "Send_test m = (if am_stopped m then Inl ErrMailerStopped else Inr (), m)"

definition Send_push :: "message \<Rightarrow> (async_mailer, goerr, unit) sem" where
  "Send_push msg m =
     (if length (am_msgChan m) < am_bufferSize m
      then (Inr (), m\<lparr>am_msgChan := am_msgChan m @ [msg], am_accepted := am_accepted m @ [msg]\<rparr>)
      else (Inl (Plain ''mailer queue is full''), m))"

definition AsyncMailer_Send :: "message \<Rightarrow> (async_mailer, goerr, unit) sem" where
  "AsyncMailer_Send msg = bindE Send_test (\<lambda>_. Send_push msg)"

section \<open>The machine\<close>

datatype mail_event =
    ETest message
  | EPush nat
  | ETake nat
  | EHandOver nat
  | EQuit nat
  | EExit nat
  | EStop
  | ECloseQuit

fun drop_nth :: "nat \<Rightarrow> 'a list \<Rightarrow> 'a list" where
  "drop_nth n xs = take n xs @ drop (Suc n) xs"

definition set_worker :: "nat \<Rightarrow> worker \<Rightarrow> async_mailer \<Rightarrow> async_mailer" where
  "set_worker i wk m = m\<lparr>am_workers := (am_workers m)[i := wk]\<rparr>"

text \<open>A worker receives: in the outer loop, or in the draining loop.\<close>

definition worker_take :: "nat \<Rightarrow> async_mailer \<Rightarrow> async_mailer option" where
  "worker_take i m =
     (if length (am_workers m) \<le> i then None
      else case am_msgChan m of
        [] \<Rightarrow> None
      | msg # rest \<Rightarrow> (case am_workers m ! i of
            WSelect \<Rightarrow> Some (set_worker i (WSend msg) (m\<lparr>am_msgChan := rest\<rparr>))
          | WDrain \<Rightarrow> Some (set_worker i (WDrainSend msg) (m\<lparr>am_msgChan := rest\<rparr>))
          | _ \<Rightarrow> None))"

text \<open>\<open>send\<close>: an error of the delegate is logged.\<close>

definition worker_send :: "nat \<Rightarrow> async_mailer \<Rightarrow> async_mailer option" where
  "worker_send i m =
     (if length (am_workers m) \<le> i then None
      else case am_workers m ! i of
          WSend msg \<Rightarrow> Some (set_worker i WSelect (m\<lparr>am_delivered := am_delivered m @ [msg]\<rparr>))
        | WDrainSend msg \<Rightarrow> Some (set_worker i WDrain (m\<lparr>am_delivered := am_delivered m @ [msg]\<rparr>))
        | _ \<Rightarrow> None)"

definition worker_quit :: "nat \<Rightarrow> async_mailer \<Rightarrow> async_mailer option" where
  "worker_quit i m =
     (if i < length (am_workers m) \<and> am_workers m ! i = WSelect \<and> am_quit m
      then Some (set_worker i WDrain m) else None)"

definition worker_exit :: "nat \<Rightarrow> async_mailer \<Rightarrow> async_mailer option" where
  "worker_exit i m =
     (if i < length (am_workers m) \<and> am_workers m ! i = WDrain \<and> am_msgChan m = []
      then Some (set_worker i WDone m) else None)"

definition Stop_flag :: "async_mailer \<Rightarrow> async_mailer" where
  "Stop_flag m = m\<lparr>am_stopped := True\<rparr>"

definition Stop_close :: "async_mailer \<Rightarrow> async_mailer option" where
  "Stop_close m = (if am_stopped m \<and> \<not> am_quit m then Some (m\<lparr>am_quit := True\<rparr>) else None)"

text \<open>\<open>Stop\<close> returns when every worker is gone.\<close>

definition Stop_returns :: "async_mailer \<Rightarrow> bool" where
  "Stop_returns m \<longleftrightarrow> am_quit m \<and> list_all (\<lambda>wk. wk = WDone) (am_workers m)"

fun mail_apply :: "mail_event \<Rightarrow> async_mailer \<Rightarrow> async_mailer option" where
  "mail_apply (ETest msg) m =
     (case Send_test m of (Inl e, m') \<Rightarrow> Some m' | (Inr _, m') \<Rightarrow> Some (m'\<lparr>am_pending := am_pending m' @ [msg]\<rparr>))"
| "mail_apply (EPush n) m =
     (if n < length (am_pending m)
      then Some (snd (Send_push (am_pending m ! n) (m\<lparr>am_pending := drop_nth n (am_pending m)\<rparr>)))
      else None)"
| "mail_apply (ETake i) m = worker_take i m"
| "mail_apply (EHandOver i) m = worker_send i m"
| "mail_apply (EQuit i) m = worker_quit i m"
| "mail_apply (EExit i) m = worker_exit i m"
| "mail_apply EStop m = Some (Stop_flag m)"
| "mail_apply ECloseQuit m = Stop_close m"

fun mail_run :: "mail_event list \<Rightarrow> async_mailer \<Rightarrow> async_mailer option" where
  "mail_run [] m = Some m"
| "mail_run (e # es) m = (case mail_apply e m of None \<Rightarrow> None | Some m' \<Rightarrow> mail_run es m')"

section \<open>Messages in the machine\<close>

fun in_hand :: "worker \<Rightarrow> message multiset" where
  "in_hand (WSend msg) = {#msg#}"
| "in_hand (WDrainSend msg) = {#msg#}"
| "in_hand _ = {#}"

definition in_hands :: "async_mailer \<Rightarrow> message multiset" where
  "in_hands m = (\<Sum>wk \<in># mset (am_workers m). in_hand wk)"

fun running :: "worker \<Rightarrow> bool" where
  "running WSelect = True"
| "running (WSend msg) = True"
| "running _ = False"

text \<open>Every accepted message is in the queue, in the hands of a worker, or delivered, once.\<close>

definition mail_inv :: "async_mailer \<Rightarrow> bool" where
  "mail_inv m \<longleftrightarrow>
     mset (am_accepted m) = mset (am_msgChan m) + in_hands m + mset (am_delivered m) \<and>
     length (am_msgChan m) \<le> am_bufferSize m \<and>
     (am_quit m \<longrightarrow> am_stopped m) \<and>
     (\<forall>wk \<in> set (am_workers m). \<not> running wk \<longrightarrow> am_quit m)"

lemma sum_hands_update:
  "i < length ws \<Longrightarrow> (\<Sum>x \<in># mset (ws[i := wk]). f x) + f (ws ! i) = (\<Sum>x \<in># mset ws. f x) + (f wk :: 'a :: comm_monoid_add)"
  by (induction ws arbitrary: i) (auto simp: nth_Cons' ac_simps list_update_code split: nat.split)

lemma in_hands_update:
  "i < length (am_workers m) \<Longrightarrow>
   in_hands (set_worker i wk m) + in_hand (am_workers m ! i) = in_hands m + in_hand wk"
  by (simp add: in_hands_def set_worker_def sum_hands_update)

end
