(* ===== verification/CTF_MailerProps.thy ===== *)
theory CTF_MailerProps
  imports CTF_Mailer
begin

text \<open>
  The mailer over all interleavings: no accepted message is lost or sent twice, \<open>Stop\<close> returns, and
  what was accepted has then been sent, unless a \<open>Send\<close> was between its test and the channel.
\<close>

section \<open>The invariant\<close>

lemma set_worker_simps [simp]:
  "am_msgChan (set_worker i wk m) = am_msgChan m" "am_accepted (set_worker i wk m) = am_accepted m"
  "am_delivered (set_worker i wk m) = am_delivered m" "am_bufferSize (set_worker i wk m) = am_bufferSize m"
  "am_quit (set_worker i wk m) = am_quit m" "am_stopped (set_worker i wk m) = am_stopped m"
  "am_pending (set_worker i wk m) = am_pending m"
  "am_workers (set_worker i wk m) = (am_workers m)[i := wk]"
  by (simp_all add: set_worker_def)

lemma in_hands_cong [simp]:
  "in_hands (m\<lparr>am_msgChan := c\<rparr>) = in_hands m" "in_hands (m\<lparr>am_delivered := dl\<rparr>) = in_hands m"
  "in_hands (m\<lparr>am_accepted := a\<rparr>) = in_hands m" "in_hands (m\<lparr>am_pending := p\<rparr>) = in_hands m"
  "in_hands (m\<lparr>am_stopped := s\<rparr>) = in_hands m" "in_hands (m\<lparr>am_quit := q\<rparr>) = in_hands m"
  by (simp_all add: in_hands_def)

lemma worker_take_inv:
  assumes "mail_inv m" "worker_take i m = Some m'" shows "mail_inv m'"
proof -
  from assms(2) have i: "i < length (am_workers m)" by (auto simp: worker_take_def split: if_splits)
  from assms(2) i obtain msg rest where chan: "am_msgChan m = msg # rest"
    by (auto simp: worker_take_def split: list.splits)
  define m1 where "m1 = m\<lparr>am_msgChan := rest\<rparr>"
  have i1: "i < length (am_workers m1)" "am_workers m1 = am_workers m" using i by (simp_all add: m1_def)
  have quit: "am_workers m ! i = WDrain \<Longrightarrow> am_quit m"
    using assms(1) nth_mem [OF i] by (force simp: mail_inv_def)
  show ?thesis
  proof (cases "am_workers m ! i")
    case WSelect
    then have m': "m' = set_worker i (WSend msg) m1" using assms(2) i chan by (simp add: worker_take_def m1_def)
    show ?thesis using assms(1) in_hands_update [OF i1(1), of "WSend msg"] WSelect i1(2) chan
      unfolding m' mail_inv_def by (auto simp: m1_def dest!: subsetD [OF set_update_subset_insert])
  next
    case WDrain
    then have m': "m' = set_worker i (WDrainSend msg) m1" using assms(2) i chan by (simp add: worker_take_def m1_def)
    show ?thesis using assms(1) in_hands_update [OF i1(1), of "WDrainSend msg"] WDrain quit i1(2) chan
      unfolding m' mail_inv_def by (auto simp: m1_def dest!: subsetD [OF set_update_subset_insert])
  qed (use assms(2) i chan in \<open>auto simp: worker_take_def\<close>)
qed

lemma worker_send_inv:
  assumes "mail_inv m" "worker_send i m = Some m'" shows "mail_inv m'"
proof -
  from assms(2) have i: "i < length (am_workers m)" by (auto simp: worker_send_def split: if_splits)
  have quit: "am_workers m ! i = WDrainSend msg \<Longrightarrow> am_quit m" for msg
    using assms(1) nth_mem [OF i] by (force simp: mail_inv_def)
  show ?thesis
  proof (cases "am_workers m ! i")
    case (WSend msg)
    define m1 where "m1 = m\<lparr>am_delivered := am_delivered m @ [msg]\<rparr>"
    have i1: "i < length (am_workers m1)" "am_workers m1 = am_workers m" using i by (simp_all add: m1_def)
    have m': "m' = set_worker i WSelect m1" using assms(2) i WSend by (simp add: worker_send_def m1_def)
    show ?thesis using assms(1) in_hands_update [OF i1(1), of WSelect] WSend i1(2)
      unfolding m' mail_inv_def by (auto simp: m1_def dest!: subsetD [OF set_update_subset_insert])
  next
    case (WDrainSend msg)
    define m1 where "m1 = m\<lparr>am_delivered := am_delivered m @ [msg]\<rparr>"
    have i1: "i < length (am_workers m1)" "am_workers m1 = am_workers m" using i by (simp_all add: m1_def)
    have m': "m' = set_worker i WDrain m1" using assms(2) i WDrainSend by (simp add: worker_send_def m1_def)
    show ?thesis using assms(1) in_hands_update [OF i1(1), of WDrain] WDrainSend quit i1(2)
      unfolding m' mail_inv_def by (auto simp: m1_def dest!: subsetD [OF set_update_subset_insert])
  qed (use assms(2) i in \<open>auto simp: worker_send_def\<close>)
qed

lemma worker_leave_inv:
  "mail_inv m \<Longrightarrow> worker_quit i m = Some m' \<Longrightarrow> mail_inv m'"
  "mail_inv m \<Longrightarrow> worker_exit i m = Some m' \<Longrightarrow> mail_inv m'"
proof -
  assume inv: "mail_inv m"
  show "mail_inv m'" if q: "worker_quit i m = Some m'"
  proof -
    from q have i: "i < length (am_workers m)" "am_workers m ! i = WSelect" "am_quit m" "m' = set_worker i WDrain m"
      by (auto simp: worker_quit_def split: if_splits)
    show ?thesis using inv in_hands_update [OF i(1), of WDrain] i
      unfolding mail_inv_def by (auto dest!: subsetD [OF set_update_subset_insert])
  qed
  show "mail_inv m'" if q: "worker_exit i m = Some m'"
  proof -
    from q have i: "i < length (am_workers m)" "am_workers m ! i = WDrain" "m' = set_worker i WDone m"
      by (auto simp: worker_exit_def split: if_splits)
    have "am_quit m" using inv nth_mem [OF i(1)] i(2) by (force simp: mail_inv_def)
    then show ?thesis using inv in_hands_update [OF i(1), of WDone] i
      unfolding mail_inv_def by (auto dest!: subsetD [OF set_update_subset_insert])
  qed
qed

lemma mail_apply_inv:
  assumes inv: "mail_inv m" and step: "mail_apply e m = Some m'" shows "mail_inv m'"
proof (cases e)
  case (ETest msg)
  with step have "m' = m \<or> m' = m\<lparr>am_pending := am_pending m @ [msg]\<rparr>"
    by (auto simp: Send_test_def split: if_splits)
  with inv show ?thesis by (auto simp: mail_inv_def)
next
  case (EPush n)
  then obtain msg p where "m' = snd (Send_push msg (m\<lparr>am_pending := p\<rparr>))"
    using step by (auto split: if_splits)
  with inv show ?thesis by (simp add: mail_inv_def Send_push_def)
next
  case ECloseQuit
  with inv step show ?thesis by (auto simp: mail_inv_def Stop_close_def split: if_splits)
next
  case EStop
  with inv step show ?thesis by (auto simp: mail_inv_def Stop_flag_def)
next
  case (ETake i)
  with step show ?thesis by (auto intro: worker_take_inv [OF inv])
next
  case (EHandOver i)
  with step show ?thesis by (auto intro: worker_send_inv [OF inv])
next
  case (EQuit i)
  with step show ?thesis by (auto intro: worker_leave_inv(1) [OF inv])
next
  case (EExit i)
  with step show ?thesis by (auto intro: worker_leave_inv(2) [OF inv])
qed

lemma mail_run_inv: "mail_inv m \<Longrightarrow> mail_run es m = Some m' \<Longrightarrow> mail_inv m'"
  by (induction es arbitrary: m) (auto split: option.splits dest: mail_apply_inv)

lemma mail_start_inv: "mail_inv (AsyncMailer_Start k (NewAsyncMailer b))"
  by (auto simp: mail_inv_def AsyncMailer_Start_def NewAsyncMailer_def in_hands_def
      split: worker.splits dest!: in_set_replicate [THEN iffD1])

lemma mail_run_append:
  "mail_run (es @ fs) m = (case mail_run es m of None \<Rightarrow> None | Some m' \<Rightarrow> mail_run fs m')"
  by (induction es arbitrary: m) (auto split: option.splits)

text \<open>C26 Whatever the interleaving of senders, workers and \<open>Stop\<close>, the messages for which \<open>Send\<close>
  returned nil are exactly those in the queue, in the hands of a worker, or handed to the delegate, each
  as often as it was accepted, and the queue never exceeds the buffer.\<close>

theorem mailer_conserves:
  assumes "mail_run es (AsyncMailer_Start k (NewAsyncMailer b)) = Some m"
  shows "mset (am_accepted m) = mset (am_msgChan m) + in_hands m + mset (am_delivered m) \<and>
    length (am_msgChan m) \<le> b"
proof -
  have "am_bufferSize m' = am_bufferSize m0" if "mail_apply e m0 = Some m'" for e m0 m'
    using that by (cases e) (auto simp: Send_test_def Send_push_def worker_take_def worker_send_def
        worker_quit_def worker_exit_def Stop_flag_def Stop_close_def split: if_splits list.splits worker.splits)
  then have "mail_run es m0 = Some m \<Longrightarrow> am_bufferSize m = am_bufferSize m0" for es m0
    by (induction es arbitrary: m0) (fastforce split: option.splits)+
  with mail_run_inv [OF mail_start_inv assms] assms show ?thesis
    by (fastforce simp: mail_inv_def AsyncMailer_Start_def NewAsyncMailer_def)
qed

section \<open>Stop returns\<close>

fun worker_event :: "mail_event \<Rightarrow> bool" where
  "worker_event (ETake i) = True"
| "worker_event (EHandOver i) = True"
| "worker_event (EQuit i) = True"
| "worker_event (EExit i) = True"
| "worker_event _ = False"

text \<open>The steps a worker has left when it only drains and leaves.\<close>

fun worker_steps :: "worker \<Rightarrow> nat" where
  "worker_steps (WSend msg) = 3"
| "worker_steps WSelect = 2"
| "worker_steps (WDrainSend msg) = 2"
| "worker_steps WDrain = 1"
| "worker_steps WDone = 0"

definition steps_left :: "async_mailer \<Rightarrow> nat" where
  "steps_left m = 2 * length (am_msgChan m) + (\<Sum>wk \<in># mset (am_workers m). worker_steps wk)"

lemma steps_update:
  "i < length (am_workers m) \<Longrightarrow>
   steps_left (set_worker i wk m) + worker_steps (am_workers m ! i) = steps_left m + worker_steps wk"
  using sum_hands_update [of i "am_workers m" worker_steps wk] by (simp add: steps_left_def)

lemma worker_event_steps:
  assumes "worker_event e" "mail_apply e m = Some m'"
  shows "steps_left m = Suc (steps_left m') \<and> (am_quit m \<longrightarrow> am_quit m')"
proof (cases e)
  case (ETake i)
  then have i: "i < length (am_workers m)" and "am_msgChan m \<noteq> []"
    using assms by (auto simp: worker_take_def split: if_splits list.splits)
  then obtain msg rest where chan: "am_msgChan m = msg # rest" by (meson neq_Nil_conv)
  have st: "steps_left (m\<lparr>am_msgChan := rest\<rparr>) + 2 = steps_left m" by (simp add: steps_left_def chan)
  have i': "i < length (am_workers (m\<lparr>am_msgChan := rest\<rparr>))" using i by simp
  show ?thesis
    using ETake assms(2) i chan st steps_update [OF i', of "WSend msg"] steps_update [OF i', of "WDrainSend msg"]
    by (cases "am_workers m ! i") (auto simp: worker_take_def)
next
  case (EHandOver i)
  then have i: "i < length (am_workers m)" using assms by (auto simp: worker_send_def split: if_splits)
  have st: "steps_left (m\<lparr>am_delivered := dl\<rparr>) = steps_left m" for dl by (simp add: steps_left_def)
  have up: "steps_left (set_worker i wk (m\<lparr>am_delivered := dl\<rparr>)) + worker_steps (am_workers m ! i)
      = steps_left m + worker_steps wk" for wk dl
    using steps_update [of i "m\<lparr>am_delivered := dl\<rparr>" wk] i by (simp add: st)
  show ?thesis using EHandOver assms(2) i up [of WSelect] up [of WDrain]
    by (cases "am_workers m ! i") (auto simp: worker_send_def)
next
  case (EQuit i)
  then show ?thesis using assms(2) steps_update [of i m WDrain]
    by (auto simp: worker_quit_def split: if_splits)
next
  case (EExit i)
  then show ?thesis using assms(2) steps_update [of i m WDone]
    by (auto simp: worker_exit_def split: if_splits)
qed (use assms(1) in simp_all)

lemma worker_run_steps:
  "list_all worker_event es \<Longrightarrow> mail_run es m = Some m' \<Longrightarrow>
   steps_left m = length es + steps_left m' \<and> (am_quit m \<longrightarrow> am_quit m')"
proof (induction es arbitrary: m)
  case (Cons e es)
  then obtain m1 where "mail_apply e m = Some m1" "mail_run es m1 = Some m'" by (auto split: option.splits)
  with Cons worker_event_steps [of e m m1] show ?case by fastforce
qed simp

lemma stuck_returns:
  assumes "am_quit m" "\<forall>e. worker_event e \<longrightarrow> mail_apply e m = None"
  shows "Stop_returns m"
proof -
  have "wk = WDone" if "wk \<in> set (am_workers m)" for wk
  proof -
    from that obtain i where i: "i < length (am_workers m)" "am_workers m ! i = wk" by (auto simp: in_set_conv_nth)
    note stuck = assms(2) [rule_format]
    have "worker_take i m = None" "worker_send i m = None" "worker_quit i m = None" "worker_exit i m = None"
      using stuck [of "ETake i"] stuck [of "EHandOver i"] stuck [of "EQuit i"] stuck [of "EExit i"] by simp_all
    with i assms(1) show ?thesis
      by (cases wk; cases "am_msgChan m") (auto simp: worker_take_def worker_send_def worker_quit_def worker_exit_def)
  qed
  then show ?thesis using assms(1) by (simp add: Stop_returns_def list_all_iff)
qed

lemma gone_stuck:
  assumes "\<forall>wk \<in> set (am_workers m). wk = WDone"
  shows "worker_take i m = None" "worker_send i m = None" "worker_quit i m = None" "worker_exit i m = None"
proof -
  have "i < length (am_workers m) \<Longrightarrow> am_workers m ! i = WDone" using assms nth_mem by blast
  then show "worker_take i m = None" "worker_send i m = None" "worker_quit i m = None" "worker_exit i m = None"
    by (auto simp: worker_take_def worker_send_def worker_quit_def worker_exit_def split: list.split)
qed

text \<open>Once \<open>quit\<close> is closed the workers cannot run forever: every run of theirs takes exactly as
  many steps as the queue and their positions allow, and when they can no longer move every worker is
  gone and \<open>Stop\<close> returns.\<close>

theorem mailer_stop_returns:
  assumes "am_quit m" "list_all worker_event es" "mail_run es m = Some m'"
  shows "length es \<le> steps_left m \<and>
    ((\<exists>e. worker_event e \<and> mail_apply e m' \<noteq> None) \<or> Stop_returns m')"
proof -
  have "am_quit m'" and "length es \<le> steps_left m" using worker_run_steps [OF assms(2,3)] assms(1) by auto
  with stuck_returns [of m'] show ?thesis by blast
qed

section \<open>What has been sent when Stop returns\<close>

definition drained :: "async_mailer \<Rightarrow> bool" where
  "drained m \<longleftrightarrow> am_stopped m \<and> am_pending m = [] \<and> (WDone \<in> set (am_workers m) \<longrightarrow> am_msgChan m = [])"

lemma drained_apply:
  assumes "drained m" "mail_apply e m = Some m'" shows "drained m'"
proof (cases e)
  case (EExit i)
  then show ?thesis using assms by (auto simp: worker_exit_def drained_def split: if_splits)
next
  case (ETake i)
  then show ?thesis using assms
    by (auto simp: worker_take_def drained_def split: if_splits list.splits worker.splits
        dest!: subsetD [OF set_update_subset_insert])
next
  case (EHandOver i)
  then show ?thesis using assms
    by (auto simp: worker_send_def drained_def split: if_splits worker.splits
        dest!: subsetD [OF set_update_subset_insert])
next
  case (EQuit i)
  then show ?thesis using assms
    by (auto simp: worker_quit_def drained_def split: if_splits dest!: subsetD [OF set_update_subset_insert])
qed (use assms in \<open>auto simp: drained_def Send_test_def Stop_flag_def Stop_close_def split: if_splits\<close>)

lemma drained_run: "drained m \<Longrightarrow> mail_run es m = Some m' \<Longrightarrow> drained m'"
  by (induction es arbitrary: m) (auto split: option.splits dest: drained_apply)

text \<open>C27 When no \<open>Send\<close> is between its test and the channel at the moment \<open>Stop\<close> raises the
  flag, then by the time \<open>Stop\<close> returns every message that was ever accepted has been handed to the
  delegate, exactly as often as it was accepted.\<close>

theorem mailer_stop_delivers:
  assumes "mail_run es (AsyncMailer_Start k (NewAsyncMailer b)) = Some m" and "0 < k"
    and "am_pending m = []" and "\<not> am_stopped m"
    and "mail_run (EStop # fs) m = Some m'" and "Stop_returns m'"
  shows "mset (am_delivered m') = mset (am_accepted m')"
proof -
  have inv: "mail_inv m" by (rule mail_run_inv [OF mail_start_inv assms(1)])
  then have "WDone \<notin> set (am_workers m)" using assms(4) by (fastforce simp: mail_inv_def)
  then have "drained (Stop_flag m)" using assms(3) by (simp add: drained_def Stop_flag_def)
  moreover have run: "mail_run fs (Stop_flag m) = Some m'" using assms(5) by simp
  ultimately have dr: "drained m'" by (rule drained_run)
  have workers: "length (am_workers m2) = length (am_workers m1)" if "mail_apply e m1 = Some m2" for e m1 m2
    using that by (cases e) (auto simp: Send_test_def Send_push_def worker_take_def worker_send_def
        worker_quit_def worker_exit_def Stop_flag_def Stop_close_def split: if_splits list.splits worker.splits)
  have "mail_run gs m1 = Some m2 \<Longrightarrow> length (am_workers m2) = length (am_workers m1)" for gs m1 m2
    by (induction gs arbitrary: m1) (auto split: option.splits dest: workers)
  from this [OF assms(1)] this [OF run] have "am_workers m' \<noteq> []"
    using assms(2) by (auto simp: AsyncMailer_Start_def NewAsyncMailer_def Stop_flag_def)
  moreover have gone: "\<forall>wk \<in> set (am_workers m'). wk = WDone"
    using assms(6) by (simp add: Stop_returns_def list_all_iff)
  ultimately have "WDone \<in> set (am_workers m')" by (cases "am_workers m'") auto
  with dr have "am_msgChan m' = []" by (simp add: drained_def)
  moreover have "in_hands m' = {#}"
    unfolding in_hands_def using gone by (intro sum_mset.neutral) auto
  moreover have "mail_inv m'"
    by (rule mail_run_inv [OF _ assms(5)]) (rule inv)
  ultimately show ?thesis by (simp add: mail_inv_def)
qed

text \<open>A \<open>Send\<close> that has passed its test when \<open>Stop\<close> runs through can still put its message
  on the channel: it reports success, \<open>Stop\<close> has returned, and the message is never sent.\<close>

theorem mailer_late_send_lost:
  assumes "0 < b"
  shows "\<exists>m. mail_run [ETest msg, EStop, ECloseQuit, EQuit 0, EExit 0, EPush 0]
               (AsyncMailer_Start 1 (NewAsyncMailer b)) = Some m \<and>
     Stop_returns m \<and> am_accepted m = [msg] \<and>
     (\<forall>es m'. mail_run es m = Some m' \<longrightarrow> am_delivered m' = [])"
proof -
  let ?m = "\<lparr>am_msgChan = [msg], am_bufferSize = b, am_stopped = True, am_quit = True,
     am_workers = [WDone], am_pending = [], am_accepted = [msg], am_delivered = []\<rparr>"
  have run: "mail_run [ETest msg, EStop, ECloseQuit, EQuit 0, EExit 0, EPush 0]
               (AsyncMailer_Start 1 (NewAsyncMailer b)) = Some ?m"
    using assms by (simp add: AsyncMailer_Start_def NewAsyncMailer_def Send_test_def Stop_flag_def Stop_close_def
        worker_quit_def worker_exit_def set_worker_def Send_push_def)
  have stays: "mail_run es ?m = Some m' \<Longrightarrow> m' = ?m" for es m'
  proof (induction es)
    case (Cons e es)
    have "mail_apply e ?m = None \<or> mail_apply e ?m = Some ?m"
      by (cases e) (simp_all add: Send_test_def Stop_flag_def Stop_close_def gone_stuck)
    with Cons show ?case by auto
  qed simp
  have "am_delivered m' = []" if "mail_run es ?m = Some m'" for es m'
    unfolding stays [OF that] by simp
  moreover have "Stop_returns ?m" "am_accepted ?m = [msg]" by (simp_all add: Stop_returns_def)
  ultimately show ?thesis using run by blast
qed

section \<open>Witnesses\<close>

definition demo_mail :: message where
  "demo_mail = \<lparr>msg_To = ''a@ctf.io'', msg_Subject = ''hi'', msg_Body = ''x'', msg_IsHTML = True\<rparr>"

definition demo_mailer :: async_mailer where
  "demo_mailer = the (mail_run [ETest demo_mail, EPush 0] (AsyncMailer_Start 1 (NewAsyncMailer 2)))"

definition demo_stopped :: async_mailer where
  "demo_stopped = the (mail_run [EStop, ECloseQuit, EQuit 0, ETake 0, EHandOver 0, EExit 0] demo_mailer)"

lemma demo_mailer_run: "mail_run [ETest demo_mail, EPush 0] (AsyncMailer_Start 1 (NewAsyncMailer 2)) = Some demo_mailer"
  unfolding demo_mailer_def by code_simp

lemma demo_stopped_run: "mail_run [EStop, ECloseQuit, EQuit 0, ETake 0, EHandOver 0, EExit 0] demo_mailer = Some demo_stopped"
  unfolding demo_stopped_def by code_simp

lemma mailer_conserves_witness:
  "mset (am_accepted demo_mailer) = mset (am_msgChan demo_mailer) + in_hands demo_mailer + mset (am_delivered demo_mailer)
   \<and> am_accepted demo_mailer = [demo_mail]"
proof -
  have "am_accepted demo_mailer = [demo_mail]" unfolding demo_mailer_def by code_simp
  with mailer_conserves [OF demo_mailer_run] show ?thesis by blast
qed

lemma mailer_stop_returns_witness:
  "\<exists>m m'. am_quit m \<and> mail_run [EQuit 0, ETake 0] m = Some m' \<and> 2 \<le> steps_left m \<and>
     ((\<exists>e. worker_event e \<and> mail_apply e m' \<noteq> None) \<or> Stop_returns m')"
proof -
  let ?m = "the (mail_run [EStop, ECloseQuit] demo_mailer)"
  have q: "am_quit ?m" and run: "mail_run [EQuit 0, ETake 0] ?m = Some (the (mail_run [EQuit 0, ETake 0] ?m))"
    by code_simp+
  have "list_all worker_event [EQuit 0, ETake 0]" by simp
  from mailer_stop_returns [OF q this run] q run show ?thesis
    by (intro exI [of _ ?m] exI [of _ "the (mail_run [EQuit 0, ETake 0] ?m)"]) simp
qed

lemma mailer_stop_delivers_witness: "mset (am_delivered demo_stopped) = mset (am_accepted demo_stopped)"
proof -
  have hyps: "am_pending demo_mailer = []" "\<not> am_stopped demo_mailer" "Stop_returns demo_stopped" by code_simp+
  show ?thesis
    by (rule mailer_stop_delivers [OF demo_mailer_run _ hyps(1,2) demo_stopped_run hyps(3)]) simp
qed

lemma mailer_late_send_lost_witness:
  "\<exists>m. mail_run [ETest demo_mail, EStop, ECloseQuit, EQuit 0, EExit 0, EPush 0]
               (AsyncMailer_Start 1 (NewAsyncMailer 2)) = Some m \<and>
     Stop_returns m \<and> am_accepted m = [demo_mail] \<and>
     (\<forall>es m'. mail_run es m = Some m' \<longrightarrow> am_delivered m' = [])"
  by (rule mailer_late_send_lost) simp

end
