(* ===== verification/CTF_Jwt.thy ===== *)
theory CTF_Jwt
  imports CTF_Cache
begin

text \<open>
  \<open>pkg/jwt/jwt.go\<close>. Signing and parsing belong to the library \<open>golang-jwt\<close>: they are the
  fields of \<open>jwt_lib\<close>. A numeric date is a number of seconds since 1970. The text of a UUID and its
  parser are parameters.
\<close>

abbreviation TokenTypeAccess :: string where
  "TokenTypeAccess \<equiv> ''access''"

abbreviation TokenTypeRefresh :: string where
  "TokenTypeRefresh \<equiv> ''refresh''"

abbreviation AccessMethod :: string where
  "AccessMethod \<equiv> ''HS256''"

abbreviation RefreshMethod :: string where
  "RefreshMethod \<equiv> ''HS256''"

record custom_claims =
  cl_UserID :: string
  cl_Email :: string
  cl_FullName :: string
  cl_Role :: string
  cl_TokenType :: string
  cl_ExpiresAt :: int
  cl_IssuedAt :: int
  cl_NotBefore :: int
  cl_Issuer :: string

record token_pair =
  tp_AccessToken :: string
  tp_RefreshToken :: string
  tp_AccessExpiresAt :: int
  tp_RefreshExpiresAt :: int

text \<open>The signing method a token names: one of the HMAC family or another.\<close>

datatype jwt_method = HMAC string | OtherMethod string

text \<open>
  \<open>lib_sign method secret claims\<close>; \<open>lib_parse\<close> gets the time, the token and the callback that
  chooses the key, and answers the claims and whether the token is valid.
\<close>

record jwt_lib =
  lib_sign :: "string \<Rightarrow> string \<Rightarrow> custom_claims \<Rightarrow> goerr + string"
  lib_parse :: "int \<Rightarrow> string \<Rightarrow> (jwt_method \<Rightarrow> goerr + string) \<Rightarrow> goerr + (custom_claims \<times> bool)"

record jwt_service =
  js_lib :: jwt_lib
  js_uuid_String :: "uuid \<Rightarrow> string"
  js_uuid_Parse :: "string \<Rightarrow> uuid option"
  js_accessSecret :: string
  js_refreshSecret :: string
  js_accessTTL :: time
  js_refreshTTL :: time

definition NewJWTService ::
  "jwt_lib \<Rightarrow> (uuid \<Rightarrow> string) \<Rightarrow> (string \<Rightarrow> uuid option) \<Rightarrow> string \<Rightarrow> string \<Rightarrow> time \<Rightarrow> time \<Rightarrow> jwt_service" where
  "NewJWTService lib uuid_String uuid_Parse accessSecret refreshSecret accessTTL refreshTTL =
     \<lparr>js_lib = lib, js_uuid_String = uuid_String, js_uuid_Parse = uuid_Parse, js_accessSecret = accessSecret,
      js_refreshSecret = refreshSecret, js_accessTTL = accessTTL, js_refreshTTL = refreshTTL\<rparr>"

text \<open>\<open>t.Unix()\<close>: whole seconds since 1970, where times count microseconds since the year 1.\<close>

definition Unix :: "time \<Rightarrow> int" where
  "Unix t = (t - 62135596800000000) div second"

definition jwt_claims :: "jwt_service \<Rightarrow> string \<Rightarrow> time \<Rightarrow> time \<Rightarrow> uuid \<Rightarrow> string \<Rightarrow> string \<Rightarrow> string \<Rightarrow> custom_claims" where
  "jwt_claims j tokenType now expiry userID email name role =
     \<lparr>cl_UserID = js_uuid_String j userID, cl_Email = email, cl_FullName = name, cl_Role = role,
      cl_TokenType = tokenType, cl_ExpiresAt = Unix expiry, cl_IssuedAt = Unix now,
      cl_NotBefore = Unix now, cl_Issuer = ''skypost-delivery-orchestrator''\<rparr>"

definition GenerateTokenPair :: "jwt_service \<Rightarrow> uuid \<Rightarrow> string \<Rightarrow> string \<Rightarrow> string \<Rightarrow> token_pair op" where
  "GenerateTokenPair j userID email name role =
     bindE nowE (\<lambda>now.
     let accessExpiry = now + js_accessTTL j; refreshExpiry = now + js_refreshTTL j in
     bindE (mapErr (wrap ''failed to generate access token'')
       (liftE (lib_sign (js_lib j) AccessMethod (js_accessSecret j)
          (jwt_claims j TokenTypeAccess now accessExpiry userID email name role)))) (\<lambda>accessToken.
     bindE (mapErr (wrap ''failed to generate refresh token'')
       (liftE (lib_sign (js_lib j) RefreshMethod (js_refreshSecret j)
          (jwt_claims j TokenTypeRefresh now refreshExpiry userID email name role)))) (\<lambda>refreshToken.
     returnE \<lparr>tp_AccessToken = accessToken, tp_RefreshToken = refreshToken,
       tp_AccessExpiresAt = Unix accessExpiry, tp_RefreshExpiresAt = Unix refreshExpiry\<rparr>)))"

text \<open>The callback accepts the HMAC methods only.\<close>

definition hmac_key :: "string \<Rightarrow> jwt_method \<Rightarrow> goerr + string" where
  "hmac_key secret m = (case m of HMAC _ \<Rightarrow> Inr secret
     | OtherMethod a \<Rightarrow> Inl (Plain (''unexpected signing method: '' @ a)))"

definition ValidateAccessToken :: "jwt_service \<Rightarrow> string \<Rightarrow> custom_claims op" where
  "ValidateAccessToken j tokenString =
     bindE nowE (\<lambda>now.
     bindE (mapErr (wrap ''failed to validate access token'')
       (liftE (lib_parse (js_lib j) (Unix now) tokenString (hmac_key (js_accessSecret j))))) (\<lambda>(claims, valid).
     bindE (failIf (\<not> valid) (Plain ''invalid token'')) (\<lambda>_.
     bindE (failIf (cl_TokenType claims \<noteq> TokenTypeAccess) (Plain ''invalid token type'')) (\<lambda>_.
     returnE claims))))"

definition ValidateRefreshToken :: "jwt_service \<Rightarrow> string \<Rightarrow> custom_claims op" where
  "ValidateRefreshToken j tokenString =
     bindE nowE (\<lambda>now.
     bindE (mapErr (wrap ''failed to validate refresh token'')
       (liftE (lib_parse (js_lib j) (Unix now) tokenString (hmac_key (js_refreshSecret j))))) (\<lambda>(claims, valid).
     bindE (failIf (\<not> valid) (Plain ''invalid refresh token'')) (\<lambda>_.
     bindE (failIf (cl_TokenType claims \<noteq> TokenTypeRefresh) (Plain ''invalid token type'')) (\<lambda>_.
     returnE claims))))"

definition RefreshTokens :: "jwt_service \<Rightarrow> string \<Rightarrow> token_pair op" where
  "RefreshTokens j refreshTokenString =
     bindE (mapErr (wrap ''failed to validate refresh token'') (ValidateRefreshToken j refreshTokenString)) (\<lambda>claims.
     case js_uuid_Parse j (cl_UserID claims) of
       None \<Rightarrow> throwE (wrap ''invalid user ID in token claims'' (Plain ''invalid UUID''))
     | Some userID \<Rightarrow> GenerateTokenPair j userID (cl_Email claims) (cl_FullName claims) (cl_Role claims))"

section \<open>What the library promises\<close>

text \<open>
  A token that parses was signed with the key the callback gives for its method and is inside its
  validity; a token signed so and inside its validity parses; the claims can be read off a token.
\<close>

definition jwt_lib_ok :: "jwt_lib \<Rightarrow> bool" where
  "jwt_lib_ok lib \<longleftrightarrow>
     (\<forall>now tok kf c v. lib_parse lib now tok kf = Inr (c, v) \<longrightarrow>
        v \<and> cl_NotBefore c \<le> now \<and> now < cl_ExpiresAt c \<and>
        (\<exists>h k. kf (HMAC h) = Inr k \<and> lib_sign lib h k c = Inr tok)) \<and>
     (\<forall>now tok kf c h k. lib_sign lib h k c = Inr tok \<longrightarrow> kf (HMAC h) = Inr k \<longrightarrow>
        cl_NotBefore c \<le> now \<longrightarrow> now < cl_ExpiresAt c \<longrightarrow> lib_parse lib now tok kf = Inr (c, True)) \<and>
     (\<forall>h k c h' k' c' tok. lib_sign lib h k c = Inr tok \<longrightarrow> lib_sign lib h' k' c' = Inr tok \<longrightarrow> c = c')"

lemma lib_parse_sound:
  "jwt_lib_ok lib \<Longrightarrow> lib_parse lib now tok kf = Inr (c, v) \<Longrightarrow>
   v \<and> cl_NotBefore c \<le> now \<and> now < cl_ExpiresAt c \<and> (\<exists>h k. kf (HMAC h) = Inr k \<and> lib_sign lib h k c = Inr tok)"
  unfolding jwt_lib_ok_def by blast

lemma lib_parse_complete:
  "jwt_lib_ok lib \<Longrightarrow> lib_sign lib h k c = Inr tok \<Longrightarrow> kf (HMAC h) = Inr k \<Longrightarrow>
   cl_NotBefore c \<le> now \<Longrightarrow> now < cl_ExpiresAt c \<Longrightarrow> lib_parse lib now tok kf = Inr (c, True)"
  unfolding jwt_lib_ok_def by blast

lemma lib_sign_inj:
  "jwt_lib_ok lib \<Longrightarrow> lib_sign lib h k c = Inr tok \<Longrightarrow> lib_sign lib h' k' c' = Inr tok \<Longrightarrow> c = c'"
  unfolding jwt_lib_ok_def by blast

end
