(* ===== verification/CTF_Accounts.thy ===== *)
theory CTF_Accounts
  imports CTF_ScoreRepo CTF_Lift CTF_Fields CTF_Jwt CTF_Mailer "HOL-Library.AList"
begin

text \<open>
  Accounts: verification tokens and API tokens (\<open>verification_tokens.sql.go\<close>, \<open>api_tokens.sql.go\<close>
  and their repositories), \<open>EmailUseCase\<close>, \<open>UserUseCase\<close> and \<open>APITokenUseCase\<close>. The
  mailer's queue and the source of randomness are the object \<open>services\<close> beside the world. SHA-256,
  bcrypt, the HTML templates and the token library are parameters.
\<close>

section \<open>Verification tokens\<close>

text \<open>\<open>now\<close> is the default of \<open>created_at\<close>, the time of the statement.\<close>

definition sqlc_CreateVerificationToken :: "time \<Rightarrow> uuid \<Rightarrow> uuid \<Rightarrow> string \<Rightarrow> string \<Rightarrow> time \<Rightarrow> unit query" where
  "sqlc_CreateVerificationToken now ID user_id token ty expires_at d =
     (if ty \<notin> {TokenTypeEmailVerification, TokenTypePasswordReset} then (Inl CheckViolation, d)
      else if list_ex (\<lambda>t. verification_tokens_id t = ID \<or> verification_tokens_token t = token) (verification_tokens d)
      then (Inl UniqueViolation, d)
      else if \<not> user_exists user_id d then (Inl ForeignKeyViolation, d)
      else (Inr (), d\<lparr>verification_tokens := verification_tokens d @
        [\<lparr>verification_tokens_id = ID, verification_tokens_user_id = user_id, verification_tokens_token = token,
          verification_tokens_type = ty, verification_tokens_expires_at = expires_at,
          verification_tokens_used_at = None, verification_tokens_created_at = Some now\<rparr>]\<rparr>))"

definition sqlc_DeleteExpiredVerificationTokens :: "time \<Rightarrow> unit query" where
  "sqlc_DeleteExpiredVerificationTokens expires_at = modifyE (\<lambda>d. d\<lparr>verification_tokens :=
     del_where (\<lambda>t. verification_tokens_expires_at t < expires_at) (verification_tokens d)\<rparr>)"

definition sqlc_DeleteVerificationTokensByUserAndType :: "uuid \<Rightarrow> string \<Rightarrow> unit query" where
  "sqlc_DeleteVerificationTokensByUserAndType user_id ty = modifyE (\<lambda>d. d\<lparr>verification_tokens :=
     del_where (\<lambda>t. verification_tokens_user_id t = user_id \<and> verification_tokens_type t = ty) (verification_tokens d)\<rparr>)"

definition sqlc_GetVerificationTokenByToken :: "string \<Rightarrow> verification_tokens_row query" where
  "sqlc_GetVerificationTokenByToken token =
     select_one (\<lambda>d. filter (\<lambda>t. verification_tokens_token t = token) (verification_tokens d))"

definition sqlc_MarkVerificationTokenUsed :: "time \<Rightarrow> uuid \<Rightarrow> unit query" where
  "sqlc_MarkVerificationTokenUsed now ID = modifyE (\<lambda>d. d\<lparr>verification_tokens :=
     upd_where (\<lambda>t. verification_tokens_id t = ID) (\<lambda>t. t\<lparr>verification_tokens_used_at := Some now\<rparr>) (verification_tokens d)\<rparr>)"

definition toEntityVerificationToken :: "verification_tokens_row \<Rightarrow> verification_token" where
  "toEntityVerificationToken t = \<lparr>vtoken_ID = verification_tokens_id t,
     vtoken_UserID = verification_tokens_user_id t, vtoken_Token = verification_tokens_token t,
     vtoken_Type = verification_tokens_type t, vtoken_ExpiresAt = verification_tokens_expires_at t,
     vtoken_UsedAt = verification_tokens_used_at t,
     vtoken_CreatedAt = ptrTimeToTime (verification_tokens_created_at t)\<rparr>"

definition VerificationTokenRepo_Create :: "verification_token \<Rightarrow> verification_token op" where
  "VerificationTokenRepo_Create t =
     bindE (id_or_new (vtoken_ID t)) (\<lambda>ID. bindE nowE (\<lambda>now.
     bindE (mapErr (wrap ''VerificationTokenRepo - Create'')
       (sql (sqlc_CreateVerificationToken now ID (vtoken_UserID t) (vtoken_Token t) (vtoken_Type t) (vtoken_ExpiresAt t)))) (\<lambda>_.
     returnE (t\<lparr>vtoken_ID := ID\<rparr>))))"

definition VerificationTokenRepo_GetByToken :: "string \<Rightarrow> verification_token op" where
  "VerificationTokenRepo_GetByToken token =
     bindE (mapErr (no_rows_as ErrTokenNotFound ''VerificationTokenRepo - GetByToken'')
       (sql (sqlc_GetVerificationTokenByToken token))) (\<lambda>t. returnE (toEntityVerificationToken t))"

definition VerificationTokenRepo_MarkUsed :: "uuid \<Rightarrow> unit op" where
  "VerificationTokenRepo_MarkUsed ID =
     bindE nowE (\<lambda>now. mapErr (wrap ''VerificationTokenRepo - MarkUsed'') (sql (sqlc_MarkVerificationTokenUsed now ID)))"

definition VerificationTokenRepo_DeleteExpired :: "unit op" where
  "VerificationTokenRepo_DeleteExpired =
     bindE nowE (\<lambda>now. mapErr (wrap ''VerificationTokenRepo - DeleteExpired'')
       (sql (sqlc_DeleteExpiredVerificationTokens now)))"

definition VerificationTokenRepo_DeleteByUserAndType :: "uuid \<Rightarrow> string \<Rightarrow> unit op" where
  "VerificationTokenRepo_DeleteByUserAndType userID tokenType =
     mapErr (wrap ''VerificationTokenRepo - DeleteByUserAndType'')
       (sql (sqlc_DeleteVerificationTokensByUserAndType userID tokenType))"

definition VerificationToken_IsExpired :: "verification_token \<Rightarrow> bool op" where
  "VerificationToken_IsExpired t = bindE nowE (\<lambda>now. returnE (vtoken_ExpiresAt t < now))"

definition VerificationToken_IsUsed :: "verification_token \<Rightarrow> bool" where
  "VerificationToken_IsUsed t = (vtoken_UsedAt t \<noteq> None)"

section \<open>API tokens\<close>

definition sqlc_CreateAPIToken :: "api_tokens_row \<Rightarrow> unit query" where
  "sqlc_CreateAPIToken r d =
     (if list_ex (\<lambda>t. api_tokens_id t = api_tokens_id r \<or> api_tokens_token_hash t = api_tokens_token_hash r) (api_tokens d)
      then (Inl UniqueViolation, d)
      else if \<not> user_exists (api_tokens_user_id r) d then (Inl ForeignKeyViolation, d)
      else (Inr (), d\<lparr>api_tokens := api_tokens d @ [r]\<rparr>))"

definition sqlc_DeleteAPIToken :: "uuid \<Rightarrow> uuid \<Rightarrow> unit query" where
  "sqlc_DeleteAPIToken ID user_id = modifyE (\<lambda>d. d\<lparr>api_tokens :=
     del_where (\<lambda>t. api_tokens_id t = ID \<and> api_tokens_user_id t = user_id) (api_tokens d)\<rparr>)"

definition sqlc_GetAPITokenByHash :: "string \<Rightarrow> api_tokens_row query" where
  "sqlc_GetAPITokenByHash token_hash =
     select_one (\<lambda>d. filter (\<lambda>t. api_tokens_token_hash t = token_hash) (api_tokens d))"

definition sqlc_GetAPITokensByUserID :: "uuid \<Rightarrow> api_tokens_row list query" where
  "sqlc_GetAPITokensByUserID user_id = select_all (\<lambda>d.
     order_by_desc api_tokens_created_at (filter (\<lambda>t. api_tokens_user_id t = user_id) (api_tokens d)))"

definition sqlc_UpdateAPITokenLastUsed :: "uuid \<Rightarrow> time option \<Rightarrow> unit query" where
  "sqlc_UpdateAPITokenLastUsed ID last_used_at = modifyE (\<lambda>d. d\<lparr>api_tokens :=
     upd_where (\<lambda>t. api_tokens_id t = ID) (\<lambda>t. t\<lparr>api_tokens_last_used_at := last_used_at\<rparr>) (api_tokens d)\<rparr>)"

definition api_token_entity :: "api_tokens_row \<Rightarrow> api_token" where
  "api_token_entity t = \<lparr>token_ID = api_tokens_id t, token_UserID = api_tokens_user_id t,
     token_TokenHash = api_tokens_token_hash t, token_Description = ptrStrToStr (api_tokens_description t),
     token_ExpiresAt = api_tokens_expires_at t, token_LastUsedAt = api_tokens_last_used_at t,
     token_CreatedAt = ptrTimeToTime (api_tokens_created_at t)\<rparr>"

definition APITokenRepo_Create :: "api_token \<Rightarrow> api_token op" where
  "APITokenRepo_Create t =
     bindE (id_or_new (token_ID t)) (\<lambda>ID. bindE (time_or_now (token_CreatedAt t)) (\<lambda>createdAt.
     bindE (sql (sqlc_CreateAPIToken \<lparr>api_tokens_id = ID, api_tokens_user_id = token_UserID t,
        api_tokens_token_hash = token_TokenHash t, api_tokens_description = strPtrOrNil (token_Description t),
        api_tokens_expires_at = (case token_ExpiresAt t of None \<Rightarrow> None | Some e \<Rightarrow> if e = 0 then None else Some e),
        api_tokens_last_used_at = None, api_tokens_created_at = Some createdAt\<rparr>)) (\<lambda>_.
     returnE (t\<lparr>token_ID := ID, token_CreatedAt := createdAt\<rparr>))))"

definition APITokenRepo_GetByUserID :: "uuid \<Rightarrow> api_token list op" where
  "APITokenRepo_GetByUserID userID =
     bindE (sql (sqlc_GetAPITokensByUserID userID)) (\<lambda>rows. returnE (map api_token_entity rows))"

text \<open>An unknown hash is no error: nil.\<close>

definition APITokenRepo_GetByTokenHash :: "string \<Rightarrow> api_token option op" where
  "APITokenRepo_GetByTokenHash tokenHash =
     bindE (errE (sql (sqlc_GetAPITokenByHash tokenHash))) (\<lambda>r. case r of
         Inl e \<Rightarrow> if isNoRows e then returnE None else throwE e
       | Inr row \<Rightarrow> returnE (Some (api_token_entity row)))"

definition APITokenRepo_Delete :: "uuid \<Rightarrow> uuid \<Rightarrow> unit op" where
  "APITokenRepo_Delete ID userID = sql (sqlc_DeleteAPIToken ID userID)"

definition APITokenRepo_UpdateLastUsedAt :: "uuid \<Rightarrow> time \<Rightarrow> unit op" where
  "APITokenRepo_UpdateLastUsedAt ID moment = sql (sqlc_UpdateAPITokenLastUsed ID (Some moment))"

section \<open>Services: mails and randomness\<close>

record services =
  sv_mailer :: async_mailer
  sv_rng :: "nat \<Rightarrow> string"
  sv_rng_pos :: nat

type_synonym 'a sv_op = "(services, 'a) obj_op"

text \<open>\<open>rand.Read\<close>: the next string of bytes of the source.\<close>

definition rand_Read :: "(services, goerr, string) sem" where
  "rand_Read s = (Inr (sv_rng s (sv_rng_pos s)), s\<lparr>sv_rng_pos := Suc (sv_rng_pos s)\<rparr>)"

definition mailer_Send :: "message \<Rightarrow> (services, goerr, unit) sem" where
  "mailer_Send msg s = (case AsyncMailer_Send msg (sv_mailer s) of (r, m) \<Rightarrow> (r, s\<lparr>sv_mailer := m\<rparr>))"

definition hex_digit :: "nat \<Rightarrow> char" where
  "hex_digit n = (if n < 10 then char_of (48 + n) else char_of (87 + n))"

definition hex_EncodeToString :: "string \<Rightarrow> string" where
  "hex_EncodeToString bytes = concat (map (\<lambda>c. [hex_digit (of_char c div 16), hex_digit (of_char c mod 16)]) bytes)"

definition generateToken :: "string sv_op" where
  "generateToken = bindE (inObj rand_Read) (\<lambda>bytes. returnE (hex_EncodeToString bytes))"

text \<open>
  The functions of other packages: the hexadecimal SHA-256 digest, bcrypt (which draws a salt, fails on
  long passwords, and compares), the two rendered templates, UUIDs as text, and the collation.
\<close>

record account_ext =
  ax_sha256 :: "string \<Rightarrow> string"
  ax_bcrypt_Generate :: "string \<Rightarrow> string \<Rightarrow> goerr + string"
  ax_bcrypt_Compare :: "string \<Rightarrow> string \<Rightarrow> bool"
  ax_RenderVerification :: "string \<Rightarrow> string \<Rightarrow> string \<Rightarrow> goerr + string"
  ax_RenderPasswordReset :: "string \<Rightarrow> string \<Rightarrow> string \<Rightarrow> goerr + string"
  ax_uuid_Parse :: "string \<Rightarrow> uuid option"
  ax_uuid_String :: "uuid \<Rightarrow> string"
  ax_collation :: collation

definition hashToken :: "account_ext \<Rightarrow> string \<Rightarrow> string" where
  "hashToken ax token = ax_sha256 ax token"

definition bcrypt_Generate :: "account_ext \<Rightarrow> string \<Rightarrow> string sv_op" where
  "bcrypt_Generate ax password =
     bindE (inObj rand_Read) (\<lambda>salt. liftE (ax_bcrypt_Generate ax salt password))"

section \<open>EmailUseCase\<close>

record email_uc =
  eu_ext :: account_ext
  eu_VerifyTTL :: time
  eu_ResetTTL :: time
  eu_FrontendURL :: string
  eu_Enabled :: bool

definition Email_IsEnabled :: "email_uc \<Rightarrow> bool" where
  "Email_IsEnabled uc = eu_Enabled uc"

definition Email_SendVerificationEmail :: "email_uc \<Rightarrow> user \<Rightarrow> unit sv_op" where
  "Email_SendVerificationEmail uc u =
     (if \<not> eu_Enabled uc then returnE ()
      else
        bindE (inWorld (mapErr (wrap ''EmailUseCase - SendVerificationEmail - DeleteByUserAndType'')
          (VerificationTokenRepo_DeleteByUserAndType (user_ID u) TokenTypeEmailVerification))) (\<lambda>_.
        bindE (mapErr (wrap ''EmailUseCase - SendVerificationEmail - generateToken'') generateToken) (\<lambda>token.
        bindE (inWorld nowE) (\<lambda>now.
        bindE (inWorld (mapErr (wrap ''EmailUseCase - SendVerificationEmail - Create'')
          (VerificationTokenRepo_Create \<lparr>vtoken_ID = 0, vtoken_UserID = user_ID u,
             vtoken_Token = hashToken (eu_ext uc) token, vtoken_Type = TokenTypeEmailVerification,
             vtoken_ExpiresAt = now + eu_VerifyTTL uc, vtoken_UsedAt = None, vtoken_CreatedAt = 0\<rparr>))) (\<lambda>_.
        let verifyURL = eu_FrontendURL uc @ ''/verify-email?token='' @ token in
        bindE (mapErr (wrap ''EmailUseCase - SendVerificationEmail - RenderVerificationEmail'')
          (liftE (ax_RenderVerification (eu_ext uc) (user_Username u) verifyURL ''CTFBoard''))) (\<lambda>body.
        mapErr (wrap ''EmailUseCase - SendVerificationEmail - Send'')
          (inObj (mailer_Send \<lparr>msg_To = user_Email u, msg_Subject = ''Verify your email - CTFBoard'',
             msg_Body = body, msg_IsHTML = True\<rparr>))))))))"

text \<open>The token that a request names, checked for its type, its expiry and its use.\<close>

definition email_token :: "email_uc \<Rightarrow> string \<Rightarrow> string \<Rightarrow> string \<Rightarrow> verification_token op" where
  "email_token uc label tokenType tokenStr =
     bindE (mapErr (\<lambda>e. if is_sentinel e ErrTokenNotFound then Sentinel ErrTokenNotFound
                         else wrap (''EmailUseCase - '' @ label @ '' - GetByToken'') e)
       (VerificationTokenRepo_GetByToken (hashToken (eu_ext uc) tokenStr))) (\<lambda>token.
     bindE (failIf (vtoken_Type token \<noteq> tokenType) (Sentinel ErrTokenNotFound)) (\<lambda>_.
     bindE (VerificationToken_IsExpired token) (\<lambda>expired.
     bindE (failIf expired (Sentinel ErrTokenExpired)) (\<lambda>_.
     bindE (failIf (VerificationToken_IsUsed token) (Sentinel ErrTokenAlreadyUsed)) (\<lambda>_.
     returnE token)))))"

definition Email_VerifyEmail :: "email_uc \<Rightarrow> string \<Rightarrow> unit op" where
  "Email_VerifyEmail uc tokenStr =
     bindE (email_token uc ''VerifyEmail'' TokenTypeEmailVerification tokenStr) (\<lambda>token.
     bindE (mapErr (wrap ''EmailUseCase - VerifyEmail - SetVerified'') (UserRepo_SetVerified (vtoken_UserID token))) (\<lambda>_.
     mapErr (wrap ''EmailUseCase - VerifyEmail - DeleteByUserAndType'')
       (VerificationTokenRepo_DeleteByUserAndType (vtoken_UserID token) TokenTypeEmailVerification)))"

definition Email_SendPasswordResetEmail :: "email_uc \<Rightarrow> string \<Rightarrow> unit sv_op" where
  "Email_SendPasswordResetEmail uc email =
     (if \<not> eu_Enabled uc then returnE ()
      else
        bindE (inWorld (errE (UserRepo_GetByEmail email))) (\<lambda>r. case r of
          Inl e \<Rightarrow> if is_sentinel e ErrUserNotFound then returnE ()
                    else throwE (wrap ''EmailUseCase - SendPasswordResetEmail - GetByEmail'' e)
        | Inr u \<Rightarrow>
        bindE (inWorld (mapErr (wrap ''EmailUseCase - SendPasswordResetEmail - DeleteByUserAndType'')
          (VerificationTokenRepo_DeleteByUserAndType (user_ID u) TokenTypePasswordReset))) (\<lambda>_.
        bindE (mapErr (wrap ''EmailUseCase - SendPasswordResetEmail - generateToken'') generateToken) (\<lambda>token.
        bindE (inWorld nowE) (\<lambda>now.
        bindE (inWorld (mapErr (wrap ''EmailUseCase - SendPasswordResetEmail - Create'')
          (VerificationTokenRepo_Create \<lparr>vtoken_ID = 0, vtoken_UserID = user_ID u,
             vtoken_Token = hashToken (eu_ext uc) token, vtoken_Type = TokenTypePasswordReset,
             vtoken_ExpiresAt = now + eu_ResetTTL uc, vtoken_UsedAt = None, vtoken_CreatedAt = 0\<rparr>))) (\<lambda>_.
        let resetURL = eu_FrontendURL uc @ ''/reset-password?token='' @ token in
        bindE (mapErr (wrap ''EmailUseCase - SendPasswordResetEmail - RenderPasswordResetEmail'')
          (liftE (ax_RenderPasswordReset (eu_ext uc) (user_Username u) resetURL ''CTFBoard''))) (\<lambda>body.
        mapErr (wrap ''EmailUseCase - SendPasswordResetEmail - Send'')
          (inObj (mailer_Send \<lparr>msg_To = user_Email u, msg_Subject = ''Reset your password - CTFBoard'',
             msg_Body = body, msg_IsHTML = True\<rparr>)))))))))"

definition Email_ResetPassword :: "email_uc \<Rightarrow> string \<Rightarrow> string \<Rightarrow> unit sv_op" where
  "Email_ResetPassword uc tokenStr newPassword =
     bindE (inWorld (email_token uc ''ResetPassword'' TokenTypePasswordReset tokenStr)) (\<lambda>token.
     bindE (mapErr (wrap ''EmailUseCase - ResetPassword - GenerateFromPassword'')
       (bcrypt_Generate (eu_ext uc) newPassword)) (\<lambda>passwordHash.
     bindE (inWorld (mapErr (wrap ''EmailUseCase - ResetPassword - UpdatePassword'')
       (UserRepo_UpdatePassword (vtoken_UserID token) passwordHash))) (\<lambda>_.
     inWorld (mapErr (wrap ''EmailUseCase - ResetPassword - DeleteByUserAndType'')
       (VerificationTokenRepo_DeleteByUserAndType (vtoken_UserID token) TokenTypePasswordReset)))))"

definition Email_ResendVerification :: "email_uc \<Rightarrow> uuid \<Rightarrow> unit sv_op" where
  "Email_ResendVerification uc userID =
     bindE (inWorld (mapErr (wrap ''EmailUseCase - ResendVerification - GetByID'') (UserRepo_GetByID userID))) (\<lambda>u.
     if user_IsVerified u then returnE () else Email_SendVerificationEmail uc u)"

section \<open>UserUseCase\<close>

record user_uc =
  uu_ext :: account_ext
  uu_JWTService :: jwt_service
  uu_FieldValidator :: bool
  uu_FieldValueRepo :: bool

text \<open>The map from identifiers: a later entry with the same identifier replaces the earlier.\<close>

fun parse_fields :: "(string \<Rightarrow> uuid option) \<Rightarrow> (string \<times> string) list \<Rightarrow> (uuid \<times> string) list \<Rightarrow> goerr + (uuid \<times> string) list" where
  "parse_fields uuid_Parse [] acc = Inr acc"
| "parse_fields uuid_Parse ((k, v) # rest) acc =
     (case uuid_Parse k of
        None \<Rightarrow> Inl (Wrapf (''invalid field ID '' @ k @ '': '') (Plain ''invalid UUID'') '''')
      | Some ID \<Rightarrow> parse_fields uuid_Parse rest (AList.update ID v acc))"

definition registerValidateCustomFields :: "user_uc \<Rightarrow> (string \<times> string) list \<Rightarrow> unit op" where
  "registerValidateCustomFields uc customFields =
     (if length customFields = 0 \<or> \<not> uu_FieldValidator uc then returnE ()
      else
        bindE (liftE (parse_fields (ax_uuid_Parse (uu_ext uc)) customFields [])) (\<lambda>fieldValues.
        mapErr (\<lambda>_. Plain ''custom fields validation'')
          (FieldValidator_ValidateValues (ax_uuid_String (uu_ext uc)) (ax_collation (uu_ext uc)) EntityTypeUser fieldValues)))"

definition registerCheckUsernameAvailable :: "string \<Rightarrow> unit op" where
  "registerCheckUsernameAvailable username =
     bindE (errE (UserRepo_GetByUsername username)) (\<lambda>r. case r of
         Inr _ \<Rightarrow> throwE (Wrapf '''' (Sentinel ErrUserAlreadyExists) '': username'')
       | Inl e \<Rightarrow> failIf (\<not> is_sentinel e ErrUserNotFound) (wrap ''UserUseCase - Register - GetByUsername'' e))"

definition registerCheckEmailAvailable :: "string \<Rightarrow> unit op" where
  "registerCheckEmailAvailable email =
     bindE (errE (UserRepo_GetByEmail email)) (\<lambda>r. case r of
         Inr _ \<Rightarrow> throwE (Wrapf '''' (Sentinel ErrUserAlreadyExists) '': email'')
       | Inl e \<Rightarrow> failIf (\<not> is_sentinel e ErrUserNotFound) (wrap ''UserUseCase - Register - GetByEmail'' e))"

definition registerSetCustomFields :: "user_uc \<Rightarrow> uuid \<Rightarrow> (string \<times> string) list \<Rightarrow> unit op" where
  "registerSetCustomFields uc userID customFields =
     (if length customFields = 0 \<or> \<not> uu_FieldValueRepo uc then returnE ()
      else mapErr (\<lambda>_. Plain ''save custom fields'')
             (FieldValueRepo_SetValues (ax_uuid_Parse (uu_ext uc)) userID customFields))"

definition User_Register :: "user_uc \<Rightarrow> string \<Rightarrow> string \<Rightarrow> string \<Rightarrow> (string \<times> string) list \<Rightarrow> user sv_op" where
  "User_Register uc username email password customFields =
     bindE (inWorld (registerValidateCustomFields uc customFields)) (\<lambda>_.
     bindE (inWorld (registerCheckUsernameAvailable username)) (\<lambda>_.
     bindE (inWorld (registerCheckEmailAvailable email)) (\<lambda>_.
     bindE (mapErr (wrap ''UserUseCase - Register - GenerateFromPassword'') (bcrypt_Generate (uu_ext uc) password)) (\<lambda>passwordHash.
     bindE (inWorld (mapErr (wrap ''UserUseCase - Register - Transaction'')
       (run_transaction (CreateUserTx \<lparr>user_ID = 0, user_TeamID = None, user_Username = username,
          user_Email = email, user_PasswordHash = passwordHash, user_Role = RoleUser, user_IsVerified = False,
          user_VerifiedAt = None, user_CreatedAt = 0\<rparr>)))) (\<lambda>u.
     bindE (inWorld (registerSetCustomFields uc (user_ID u) customFields)) (\<lambda>_.
     returnE u))))))"

definition User_Login :: "user_uc \<Rightarrow> string \<Rightarrow> string \<Rightarrow> token_pair op" where
  "User_Login uc email password =
     bindE (mapErr (\<lambda>e. if is_sentinel e ErrUserNotFound then Sentinel ErrInvalidCredentials
                         else wrap ''UserUseCase - Login - GetByEmail'' e) (UserRepo_GetByEmail email)) (\<lambda>u.
     bindE (failIf (\<not> ax_bcrypt_Compare (uu_ext uc) (user_PasswordHash u) password) (Sentinel ErrInvalidCredentials)) (\<lambda>_.
     mapErr (wrap ''UserUseCase - Login - GenerateTokenPair'')
       (GenerateTokenPair (uu_JWTService uc) (user_ID u) (user_Email u) (user_Username u) (user_Role u))))"

definition User_GetByID :: "uuid \<Rightarrow> user op" where
  "User_GetByID ID = mapErr (wrap ''UserUseCase - GetByID'') (UserRepo_GetByID ID)"

record user_profile =
  profile_User :: user
  profile_Solves :: "solve list"

definition User_GetProfile :: "uuid \<Rightarrow> user_profile op" where
  "User_GetProfile userID =
     bindE (mapErr (wrap ''UserUseCase - GetProfile - GetByID'') (UserRepo_GetByID userID)) (\<lambda>u.
     let u = u\<lparr>user_PasswordHash := ''''\<rparr> in
     bindE (mapErr (wrap ''UserUseCase - GetProfile - GetByUserID'') (SolveRepo_GetByUserID userID)) (\<lambda>ss.
     returnE \<lparr>profile_User = u, profile_Solves = ss\<rparr>))"

section \<open>APITokenUseCase\<close>

definition APIToken_List :: "uuid \<Rightarrow> api_token list op" where
  "APIToken_List userID = APITokenRepo_GetByUserID userID"

definition APIToken_Create ::
  "account_ext \<Rightarrow> uuid \<Rightarrow> string \<Rightarrow> time option \<Rightarrow> (string \<times> api_token) sv_op" where
  "APIToken_Create ax userID description expiresAt =
     bindE (mapErr (wrap ''APITokenUseCase - Create - rand'') (inObj rand_Read)) (\<lambda>b.
     let plaintext = hex_EncodeToString b; tokenHash = ax_sha256 ax plaintext in
     bindE (inWorld nowE) (\<lambda>now.
     bindE (inWorld (mapErr (wrap ''APITokenUseCase - Create'')
       (APITokenRepo_Create \<lparr>token_ID = 0, token_UserID = userID, token_TokenHash = tokenHash,
          token_Description = description, token_ExpiresAt = expiresAt, token_LastUsedAt = None,
          token_CreatedAt = now\<rparr>))) (\<lambda>token.
     returnE (plaintext, token))))"

definition APIToken_Delete :: "uuid \<Rightarrow> uuid \<Rightarrow> unit op" where
  "APIToken_Delete ID userID = APITokenRepo_Delete ID userID"

definition APIToken_GetByTokenHash :: "string \<Rightarrow> api_token option op" where
  "APIToken_GetByTokenHash tokenHash = APITokenRepo_GetByTokenHash tokenHash"

definition APIToken_UpdateLastUsedAt :: "uuid \<Rightarrow> unit op" where
  "APIToken_UpdateLastUsedAt ID = bindE nowE (\<lambda>now. APITokenRepo_UpdateLastUsedAt ID now)"

definition APIToken_ValidateToken :: "api_token option \<Rightarrow> bool op" where
  "APIToken_ValidateToken t =
     (case t of None \<Rightarrow> returnE False
      | Some tok \<Rightarrow> (case token_ExpiresAt tok of None \<Rightarrow> returnE True
          | Some e \<Rightarrow> bindE nowE (\<lambda>now. returnE (\<not> e < now))))"

end
