(* ===== verification/CTF_JwtDemo.thy ===== *)
theory CTF_JwtDemo
  imports CTF_Jwt
begin

text \<open>
  A concrete token library for the examples: a token is the quoted list of its method, its key and its
  claims. It meets \<open>jwt_lib_ok\<close>, so the promises are consistent and signing can be total.
\<close>

fun quote_strings :: "string list \<Rightarrow> string" where
  "quote_strings [] = ''''"
| "quote_strings (s # ss) = concat (map (\<lambda>c. [CHR ''x'', c]) s) @ ''.'' @ quote_strings ss"

fun unquote_strings :: "string \<Rightarrow> string \<Rightarrow> string list option" where
  "unquote_strings acc [] = (if acc = '''' then Some [] else None)"
| "unquote_strings acc [c] = (if c = CHR ''.'' then Some [acc] else None)"
| "unquote_strings acc (c # d # s) =
     (if c = CHR ''.'' then map_option ((#) acc) (unquote_strings '''' (d # s))
      else if c = CHR ''x'' then unquote_strings (acc @ [d]) s else None)"

lemma unquote_dot [simp]: "unquote_strings acc (CHR ''.'' # s) = map_option ((#) acc) (unquote_strings '''' s)"
  by (cases s) auto

lemma unquote_quoted:
  "unquote_strings acc (concat (map (\<lambda>c. [CHR ''x'', c]) s) @ r) = unquote_strings (acc @ s) r"
  by (induction s arbitrary: acc) auto

lemma unquote_quote [simp]: "unquote_strings '''' (quote_strings ss) = Some ss"
  by (induction ss) (simp_all add: unquote_quoted)

fun nat_text :: "nat \<Rightarrow> string" where
  "nat_text n = (if n = 0 then '''' else (if even n then CHR ''0'' else CHR ''1'') # nat_text (n div 2))"

fun text_nat :: "string \<Rightarrow> nat" where
  "text_nat [] = 0"
| "text_nat (c # s) = (if c = CHR ''1'' then 1 else 0) + 2 * text_nat s"

lemma text_nat_text [simp]: "text_nat (nat_text n) = n"
  by (induction n rule: nat_text.induct) (subst nat_text.simps, auto simp del: nat_text.simps)

declare nat_text.simps [simp del]

definition int_text :: "int \<Rightarrow> string" where
  "int_text i = (if i < 0 then CHR ''-'' else CHR ''+'') # nat_text (nat \<bar>i\<bar>)"

definition text_int :: "string \<Rightarrow> int" where
  "text_int s = (if take 1 s = ''-'' then - int (text_nat (tl s)) else int (text_nat (tl s)))"

lemma text_int_text [simp]: "text_int (int_text i) = i"
  by (simp add: text_int_def int_text_def)

definition claims_text :: "string \<Rightarrow> string \<Rightarrow> custom_claims \<Rightarrow> string" where
  "claims_text h k c = quote_strings [h, k, cl_UserID c, cl_Email c, cl_FullName c, cl_Role c, cl_TokenType c,
     int_text (cl_ExpiresAt c), int_text (cl_IssuedAt c), int_text (cl_NotBefore c), cl_Issuer c]"

definition text_claims :: "string \<Rightarrow> (string \<times> string \<times> custom_claims) option" where
  "text_claims tok = (case unquote_strings '''' tok of
       Some [h, k, u, e, f, r, t, ex, ia, nb, iss] \<Rightarrow> Some (h, k, \<lparr>cl_UserID = u, cl_Email = e, cl_FullName = f,
         cl_Role = r, cl_TokenType = t, cl_ExpiresAt = text_int ex, cl_IssuedAt = text_int ia,
         cl_NotBefore = text_int nb, cl_Issuer = iss\<rparr>)
     | _ \<Rightarrow> None)"

lemma text_claims_text [simp]: "text_claims (claims_text h k c) = Some (h, k, c)"
  by (simp add: text_claims_def claims_text_def del: quote_strings.simps)

lemma claims_text_eq [simp]: "claims_text h k c = claims_text h' k' c' \<longleftrightarrow> h = h' \<and> k = k' \<and> c = c'"
  by (metis text_claims_text option.inject prod.inject)

definition demo_parse :: "int \<Rightarrow> string \<Rightarrow> (jwt_method \<Rightarrow> goerr + string) \<Rightarrow> goerr + (custom_claims \<times> bool)" where
  "demo_parse now tok kf = (case text_claims tok of
       None \<Rightarrow> Inl (Plain ''token is malformed'')
     | Some (h, k, c) \<Rightarrow>
         if claims_text h k c = tok \<and> kf (HMAC h) = Inr k \<and> cl_NotBefore c \<le> now \<and> now < cl_ExpiresAt c
         then Inr (c, True) else Inl (Plain ''token is invalid''))"

definition demo_jwt_lib :: jwt_lib where
  "demo_jwt_lib = \<lparr>lib_sign = \<lambda>h k c. Inr (claims_text h k c), lib_parse = demo_parse\<rparr>"

lemma demo_jwt_lib_ok: "jwt_lib_ok demo_jwt_lib"
  unfolding jwt_lib_ok_def demo_jwt_lib_def
  by (auto simp: demo_parse_def split: option.splits if_splits)

end
