(* ===== verification/CTF_AccountProps.thy ===== *)
theory CTF_AccountProps
  imports CTF_Accounts CTF_Demo CTF_JwtDemo
begin

text \<open>
  Tokens and passwords: a pair of tokens authenticates the user it was made for and neither token passes
  for the other; a reset token works once; a registered user can log in.
\<close>

section \<open>Token pairs\<close>

lemma GenerateTokenPair_Inr:
  assumes "GenerateTokenPair j userID email name role w = (Inr pair, w')"
  shows "lib_sign (js_lib j) AccessMethod (js_accessSecret j)
      (jwt_claims j TokenTypeAccess (clock w) (clock w + js_accessTTL j) userID email name role) = Inr (tp_AccessToken pair)"
    and "lib_sign (js_lib j) RefreshMethod (js_refreshSecret j)
      (jwt_claims j TokenTypeRefresh (clock w) (clock w + js_refreshTTL j) userID email name role) = Inr (tp_RefreshToken pair)"
    and "store w' = store w"
  using assms by (auto simp: GenerateTokenPair_def bindE_Inr_iff nowE_Inr_iff Let_def liftE_Inr_iff)

lemma Validate_run:
  "ValidateAccessToken j tok w =
     ((case lib_parse (js_lib j) (Unix (clock w)) tok (hmac_key (js_accessSecret j)) of
        Inl e \<Rightarrow> Inl (wrap ''failed to validate access token'' e)
      | Inr (c, v) \<Rightarrow> if \<not> v then Inl (Plain ''invalid token'')
                     else if cl_TokenType c \<noteq> TokenTypeAccess then Inl (Plain ''invalid token type'') else Inr c),
      snd (nowE w))"
  "ValidateRefreshToken j tok w =
     ((case lib_parse (js_lib j) (Unix (clock w)) tok (hmac_key (js_refreshSecret j)) of
        Inl e \<Rightarrow> Inl (wrap ''failed to validate refresh token'' e)
      | Inr (c, v) \<Rightarrow> if \<not> v then Inl (Plain ''invalid refresh token'')
                     else if cl_TokenType c \<noteq> TokenTypeRefresh then Inl (Plain ''invalid token type'') else Inr c),
      snd (nowE w))"
  by (auto simp: ValidateAccessToken_def ValidateRefreshToken_def bindE_def nowE_def mapErr_def failIf_apply
      split: sum.splits prod.splits)

lemma jwt_claims_simps [simp]:
  "cl_TokenType (jwt_claims j ty now ex u em nm r) = ty" "cl_NotBefore (jwt_claims j ty now ex u em nm r) = Unix now"
  "cl_ExpiresAt (jwt_claims j ty now ex u em nm r) = Unix ex" "cl_UserID (jwt_claims j ty now ex u em nm r) = js_uuid_String j u"
  "cl_Role (jwt_claims j ty now ex u em nm r) = r" "cl_Email (jwt_claims j ty now ex u em nm r) = em"
  "cl_FullName (jwt_claims j ty now ex u em nm r) = nm"
  by (simp_all add: jwt_claims_def)

lemma access_token_accepted:
  assumes "jwt_lib_ok (js_lib j)" and "GenerateTokenPair j userID email name role w = (Inr pair, w')"
    and "Unix (clock w) \<le> Unix (clock w2)" "Unix (clock w2) < Unix (clock w + js_accessTTL j)"
  shows "\<exists>c. fst (ValidateAccessToken j (tp_AccessToken pair) w2) = Inr c \<and>
            cl_UserID c = js_uuid_String j userID \<and> cl_Role c = role"
proof -
  have "lib_parse (js_lib j) (Unix (clock w2)) (tp_AccessToken pair) (hmac_key (js_accessSecret j)) =
      Inr (jwt_claims j TokenTypeAccess (clock w) (clock w + js_accessTTL j) userID email name role, True)"
    by (rule lib_parse_complete [OF assms(1) GenerateTokenPair_Inr(1) [OF assms(2)]])
      (use assms(3,4) in \<open>simp_all add: hmac_key_def\<close>)
  then show ?thesis by (simp add: Validate_run)
qed

text \<open>A token that parses carries the claims it was signed with.\<close>

lemma parsed_claims:
  assumes "jwt_lib_ok lib" "lib_sign lib h k c = Inr tok" "lib_parse lib now tok kf = Inr (c', v)"
  shows "c' = c"
proof -
  from lib_parse_sound [OF assms(1,3)] obtain h' k' where "lib_sign lib h' k' c' = Inr tok" by blast
  from lib_sign_inj [OF assms(1) this assms(2)] show ?thesis .
qed

lemma tokens_not_swapped:
  assumes "jwt_lib_ok (js_lib j)" and "GenerateTokenPair j userID email name role w = (Inr pair, w')"
  shows "fst (ValidateRefreshToken j (tp_AccessToken pair) w2) \<noteq> Inr c"
    and "fst (ValidateAccessToken j (tp_RefreshToken pair) w2) \<noteq> Inr c"
  by (auto simp: Validate_run split: sum.splits prod.splits if_splits
      dest!: parsed_claims [OF assms(1) GenerateTokenPair_Inr(1) [OF assms(2)]]
        parsed_claims [OF assms(1) GenerateTokenPair_Inr(2) [OF assms(2)]])

text \<open>C24 From the second in which a pair of tokens is made until its access token expires the access
  token validates with the identifier and role of the user; neither token ever passes for the other,
  even when both secrets are the same.\<close>

theorem token_pair_validates:
  assumes "jwt_lib_ok (js_lib j)" and "GenerateTokenPair j userID email name role w = (Inr pair, w')"
  shows "(Unix (clock w) \<le> Unix (clock w2) \<and> Unix (clock w2) < Unix (clock w + js_accessTTL j) \<longrightarrow>
       (\<exists>c. fst (ValidateAccessToken j (tp_AccessToken pair) w2) = Inr c \<and>
            cl_UserID c = js_uuid_String j userID \<and> cl_Role c = role)) \<and>
     (\<forall>c. fst (ValidateRefreshToken j (tp_AccessToken pair) w2) \<noteq> Inr c) \<and>
     (\<forall>c. fst (ValidateAccessToken j (tp_RefreshToken pair) w2) \<noteq> Inr c)"
  using access_token_accepted [OF assms] tokens_not_swapped [OF assms] by blast

section \<open>Password reset\<close>

lemma toEntityVerificationToken_simps [simp]:
  "vtoken_UserID (toEntityVerificationToken r) = verification_tokens_user_id r"
  "vtoken_Type (toEntityVerificationToken r) = verification_tokens_type r"
  "vtoken_ExpiresAt (toEntityVerificationToken r) = verification_tokens_expires_at r"
  "vtoken_UsedAt (toEntityVerificationToken r) = verification_tokens_used_at r"
  by (simp_all add: toEntityVerificationToken_def)

lemma email_token_Inr:
  assumes "email_token uc label ty tok w = (Inr t, w')"
  obtains r where "r \<in> set (verification_tokens (store w))" "t = toEntityVerificationToken r"
    "verification_tokens_token r = hashToken (eu_ext uc) tok" "verification_tokens_type r = ty"
    "clock w \<le> verification_tokens_expires_at r" "verification_tokens_used_at r = None" "store w' = store w"
proof -
  from assms obtain r rs where row: "filter (\<lambda>t. verification_tokens_token t = hashToken (eu_ext uc) tok)
      (verification_tokens (store w)) = r # rs" and t: "t = toEntityVerificationToken r"
    and ty: "verification_tokens_type r = ty" and fresh: "clock w \<le> verification_tokens_expires_at r"
    "verification_tokens_used_at r = None" "store w' = store w"
    by (auto simp: email_token_def bindE_Inr_iff VerificationTokenRepo_GetByToken_def sql_Inr_iff
        sqlc_GetVerificationTokenByToken_def select_one_Inr_iff VerificationToken_IsExpired_def nowE_Inr_iff
        VerificationToken_IsUsed_def)
  from row have "r \<in> set (verification_tokens (store w))" "verification_tokens_token r = hashToken (eu_ext uc) tok"
    by (auto simp: filter_eq_Cons_iff)
  with t ty fresh show thesis by (intro that) auto
qed

lemma email_token_missing:
  assumes "\<not> next_fault w" "\<forall>r \<in> set (verification_tokens (store w)).
      verification_tokens_token r = hashToken (eu_ext uc) tok \<longrightarrow> verification_tokens_type r \<noteq> ty"
  shows "fst (email_token uc label ty tok w) = Inl (Sentinel ErrTokenNotFound)"
proof (cases "filter (\<lambda>t. verification_tokens_token t = hashToken (eu_ext uc) tok) (verification_tokens (store w))")
  case Nil
  then show ?thesis using assms(1)
    by (simp add: email_token_def bindE_def mapErr_def VerificationTokenRepo_GetByToken_def sql_run
        sqlc_GetVerificationTokenByToken_def select_one_def no_rows_as_def)
next
  case (Cons r rs)
  then have "r \<in> set (verification_tokens (store w))" "verification_tokens_token r = hashToken (eu_ext uc) tok"
    by (auto simp: filter_eq_Cons_iff)
  with assms(2) have "verification_tokens_type r \<noteq> ty" by blast
  then show ?thesis using assms(1) Cons
    by (simp add: email_token_def bindE_def mapErr_def VerificationTokenRepo_GetByToken_def sql_run
        sqlc_GetVerificationTokenByToken_def select_one_def failIf_apply)
qed

text \<open>The database after a reset: the user of the token has the new hash and no reset token.\<close>

definition reset_db :: "db \<Rightarrow> uuid \<Rightarrow> string \<Rightarrow> db" where
  "reset_db d u pw_hash = d\<lparr>users := upd_where (\<lambda>r. users_id r = u) (\<lambda>r. r\<lparr>users_password_hash := pw_hash\<rparr>) (users d),
     verification_tokens := del_where (\<lambda>t. verification_tokens_user_id t = u \<and>
        verification_tokens_type t = TokenTypePasswordReset) (verification_tokens d)\<rparr>"

text \<open>C23 A password reset that succeeds was asked with the text of an unused reset token that had not
  expired; it gives its user, and nobody else, the hash of the new password, removes every reset token
  of the user and changes nothing else; asking again with the same text finds no token.\<close>

theorem ResetPassword_once:
  assumes "Email_ResetPassword uc tok pw (sv, w) = (Inr (), (sv', w'))"
    and "distinct (map verification_tokens_token (verification_tokens (store w)))"
  shows "(\<exists>r pw_hash. r \<in> set (verification_tokens (store w)) \<and>
      verification_tokens_token r = hashToken (eu_ext uc) tok \<and>
      verification_tokens_type r = TokenTypePasswordReset \<and> verification_tokens_used_at r = None \<and>
      clock w \<le> verification_tokens_expires_at r \<and>
      ax_bcrypt_Generate (eu_ext uc) (sv_rng sv (sv_rng_pos sv)) pw = Inr pw_hash \<and>
      store w' = reset_db (store w) (verification_tokens_user_id r) pw_hash) \<and>
    (\<not> next_fault w' \<longrightarrow> fst (Email_ResetPassword uc tok pw2 (sv', w')) = Inl (Sentinel ErrTokenNotFound))"
proof -
  from assms(1) obtain t w1 pw_hash sv1 w2 where
    tok: "email_token uc ''ResetPassword'' TokenTypePasswordReset tok w = (Inr t, w1)" and
    gen: "bcrypt_Generate (eu_ext uc) pw (sv, w1) = (Inr pw_hash, (sv1, w1))" and
    upd: "UserRepo_UpdatePassword (vtoken_UserID t) pw_hash w1 = (Inr (), w2)" and
    del: "VerificationTokenRepo_DeleteByUserAndType (vtoken_UserID t) TokenTypePasswordReset w2 = (Inr (), w')"
    by (auto simp: Email_ResetPassword_def bindE_Inr_iff inWorld_iff bcrypt_Generate_def inObj_iff liftE_Inr_iff)
  obtain r where r: "r \<in> set (verification_tokens (store w))" "t = toEntityVerificationToken r"
    "verification_tokens_token r = hashToken (eu_ext uc) tok" "verification_tokens_type r = TokenTypePasswordReset"
    "clock w \<le> verification_tokens_expires_at r" "verification_tokens_used_at r = None" "store w1 = store w"
    by (rule email_token_Inr [OF tok])
  have h: "ax_bcrypt_Generate (eu_ext uc) (sv_rng sv (sv_rng_pos sv)) pw = Inr pw_hash"
    using gen by (auto simp: bcrypt_Generate_def bindE_Inr_iff rand_Read_def inObj_def liftE_Inr_iff)
  have st: "store w' = reset_db (store w) (verification_tokens_user_id r) pw_hash"
    using upd del r(2,7) by (auto simp: UserRepo_UpdatePassword_def VerificationTokenRepo_DeleteByUserAndType_def
        sql_Inr_iff sqlc_UpdatePassword_def sqlc_DeleteVerificationTokensByUserAndType_def reset_db_def)
  have "\<forall>r' \<in> set (verification_tokens (store w')).
      verification_tokens_token r' = hashToken (eu_ext uc) tok \<longrightarrow> verification_tokens_type r' \<noteq> TokenTypePasswordReset"
  proof (intro ballI impI)
    fix r' assume r': "r' \<in> set (verification_tokens (store w'))" "verification_tokens_token r' = hashToken (eu_ext uc) tok"
    then have "r' \<in> set (verification_tokens (store w))" by (simp add: st reset_db_def)
    then have "r' = r"
      using distinct_keys_eq [where key = verification_tokens_token, OF assms(2) _ r(1)] r(3) r'(2) by simp
    with r' r(4) show "verification_tokens_type r' \<noteq> TokenTypePasswordReset" by (simp add: st reset_db_def)
  qed
  from email_token_missing [OF _ this, where label = "''ResetPassword''"]
  have "\<not> next_fault w' \<longrightarrow> fst (Email_ResetPassword uc tok pw2 (sv', w')) = Inl (Sentinel ErrTokenNotFound)"
    by (cases "email_token uc ''ResetPassword'' TokenTypePasswordReset tok w'")
      (auto simp: Email_ResetPassword_def bindE_def inWorld_def)
  with r h st show ?thesis by blast
qed

section \<open>Registration and login\<close>

lemma quiet_registration:
  "db_keeps (\<lambda>d. d = X) (registerValidateCustomFields uc cf)"
  "db_keeps (\<lambda>d. d = X) (registerCheckUsernameAvailable username)"
  "db_keeps (\<lambda>d. d = X) (registerCheckEmailAvailable email)"
  unfolding registerValidateCustomFields_def registerCheckUsernameAvailable_def registerCheckEmailAvailable_def
    FieldValidator_ValidateValues_def FieldRepo_GetByEntityType_def sqlc_GetFieldsByEntityType_def
    UserRepo_GetByUsername_def UserRepo_GetByEmail_def sqlc_GetUserByUsername_def sqlc_GetUserByEmail_def
  by (intro valid_rules)+

lemma SetCustomFields_users: "db_keeps (\<lambda>d. users d = X) (registerSetCustomFields uc u cf)"
  unfolding registerSetCustomFields_def FieldValueRepo_SetValues_def sqlc_DeleteFieldValuesByEntityID_def
  by (intro valid_rules keeps_modifyE keepsI)
    (auto simp: sqlc_UpsertFieldValue_def split: if_splits)

lemma keeps_value: "db_keeps (\<lambda>d. d = store w) m \<Longrightarrow> m w = (r, w') \<Longrightarrow> store w' = store w"
  by (drule keepsD [where s = w]) auto

lemma Register_users:
  assumes "User_Register uc username email password cf (sv, w) = (Inr u, (sv', w'))"
  obtains pw_hash row where "ax_bcrypt_Generate (uu_ext uc) (sv_rng sv (sv_rng_pos sv)) password = Inr pw_hash"
    "users (store w') = users (store w) @ [row]" "users_id row = user_ID u" "users_username row = username"
    "users_email row = email" "users_password_hash row = pw_hash" "users_role row = Some RoleUser"
    "users_is_verified row = Some False" "users_team_id row = None"
    "\<forall>v \<in> set (users (store w)). users_email v \<noteq> email \<and> users_username v \<noteq> username \<and> users_id v \<noteq> user_ID u"
proof -
  let ?u = "\<lambda>h. \<lparr>user_ID = 0, user_TeamID = None, user_Username = username,
          user_Email = email, user_PasswordHash = h, user_Role = RoleUser, user_IsVerified = False,
          user_VerifiedAt = None, user_CreatedAt = 0\<rparr>"
  from assms obtain w1 w2 w3 pw_hash sv1 w5 where
    v: "registerValidateCustomFields uc cf w = (Inr (), w1)" and
    n: "registerCheckUsernameAvailable username w1 = (Inr (), w2)" and
    e: "registerCheckEmailAvailable email w2 = (Inr (), w3)" and
    g: "bcrypt_Generate (uu_ext uc) password (sv, w3) = (Inr pw_hash, (sv1, w3))" and
    t: "run_transaction (CreateUserTx (?u pw_hash)) w3 = (Inr u, w5)" and
    c: "registerSetCustomFields uc (user_ID u) cf w5 = (Inr (), w')"
    by (auto simp: User_Register_def bindE_Inr_iff inWorld_iff bcrypt_Generate_def inObj_iff liftE_Inr_iff)
  have w3: "store w3 = store w"
    using keeps_value [OF quiet_registration(1) v] keeps_value [OF quiet_registration(2) n]
      keeps_value [OF quiet_registration(3) e] by simp
  have h: "ax_bcrypt_Generate (uu_ext uc) (sv_rng sv (sv_rng_pos sv)) password = Inr pw_hash"
    using g by (auto simp: bcrypt_Generate_def bindE_Inr_iff rand_Read_def inObj_def liftE_Inr_iff)
  obtain wa wb where tx: "CreateUserTx (?u pw_hash) wa = (Inr u, wb)" "store wa = store w3" "store w5 = store wb"
    using run_transaction_Inr [OF t] by metis
  then obtain now ID where ins: "users_insert \<lparr>users_id = ID, users_team_id = None, users_username = username,
       users_email = email, users_password_hash = pw_hash, users_role = Some RoleUser,
       users_is_verified = Some False, users_verified_at = None, users_created_at = Some now\<rparr> (store wa) =
       (Inr (user_ID u), store wb)"
    by (auto simp: CreateUserTx_def bindE_Inr_iff nowE_Inr_iff uuid_New_Inr_iff sql_tx_Inr_iff sql_Inr_iff
        sqlc_CreateUserReturningID_def)
  have us: "users (store w') = users (store w5)"
    using keepsD [OF SetCustomFields_users _ c] by blast
  from ins have row: "ID = user_ID u" "users (store wb) = users (store wa) @ [\<lparr>users_id = ID, users_team_id = None, users_username = username,
       users_email = email, users_password_hash = pw_hash, users_role = Some RoleUser,
       users_is_verified = Some False, users_verified_at = None, users_created_at = Some now\<rparr>]"
    "\<forall>v \<in> set (users (store wa)). users_email v \<noteq> email \<and> users_username v \<noteq> username \<and> users_id v \<noteq> ID"
    by (auto simp: users_insert_def list_ex_iff split: if_splits dest!: sym [where t = "store wb"])
  show thesis
    using that [of pw_hash "\<lparr>users_id = ID, users_team_id = None, users_username = username,
       users_email = email, users_password_hash = pw_hash, users_role = Some RoleUser,
       users_is_verified = Some False, users_verified_at = None, users_created_at = Some now\<rparr>"] h row us tx w3
    by simp
qed

text \<open>C22 A user who has registered logs in with the same address and password, and the access token
  obtained authenticates that user, with the role of an ordinary user, until it expires; with a password
  that does not match the stored hash the answer is that the credentials are invalid.\<close>

theorem Register_Login:
  assumes "User_Register uc username email password cf (sv, w) = (Inr u, (sv', w'))"
    and "\<forall>salt p h. ax_bcrypt_Generate (uu_ext uc) salt p = Inr h \<longrightarrow> ax_bcrypt_Compare (uu_ext uc) h p"
    and "jwt_lib_ok (js_lib (uu_JWTService uc))"
    and "\<forall>h k c. \<exists>tok. lib_sign (js_lib (uu_JWTService uc)) h k c = Inr tok"
    and "\<not> next_fault w'"
  shows "(\<exists>pair w2. User_Login uc email password w' = (Inr pair, w2) \<and>
      (\<forall>w3. Unix (clock w') \<le> Unix (clock w3) \<and>
            Unix (clock w3) < Unix (clock w' + js_accessTTL (uu_JWTService uc)) \<longrightarrow>
         (\<exists>c. fst (ValidateAccessToken (uu_JWTService uc) (tp_AccessToken pair) w3) = Inr c \<and>
              cl_UserID c = js_uuid_String (uu_JWTService uc) (user_ID u) \<and> cl_Role c = RoleUser))) \<and>
    (\<forall>pw. (\<exists>r \<in> set (users (store w')). users_email r = email \<and>
               \<not> ax_bcrypt_Compare (uu_ext uc) (users_password_hash r) pw) \<longrightarrow>
       fst (User_Login uc email pw w') = Inl (Sentinel ErrInvalidCredentials))"
proof -
  let ?j = "uu_JWTService uc"
  obtain pw_hash row where h: "ax_bcrypt_Generate (uu_ext uc) (sv_rng sv (sv_rng_pos sv)) password = Inr pw_hash"
    and us: "users (store w') = users (store w) @ [row]" and row: "users_id row = user_ID u"
    "users_username row = username" "users_email row = email" "users_password_hash row = pw_hash"
    "users_role row = Some RoleUser"
    and new: "\<forall>v \<in> set (users (store w)). users_email v \<noteq> email \<and> users_username v \<noteq> username \<and> users_id v \<noteq> user_ID u"
    by (rule Register_users [OF assms(1)])
  have "filter (\<lambda>u. users_email u = email) (users (store w)) = []"
    using new by (auto simp: filter_empty_conv)
  then have get: "UserRepo_GetByEmail email w' = (Inr (toEntityUser row), use_fault w')"
    using assms(5) us row
    by (simp add: UserRepo_GetByEmail_def bindE_def mapErr_def sql_run sqlc_GetUserByEmail_def select_one_def)
  have login: "User_Login uc email pw w' =
      (if ax_bcrypt_Compare (uu_ext uc) pw_hash pw
       then mapErr (wrap ''UserUseCase - Login - GenerateTokenPair'')
              (GenerateTokenPair ?j (user_ID u) email username RoleUser) (use_fault w')
       else (Inl (Sentinel ErrInvalidCredentials), use_fault w'))" for pw
    using row by (simp add: User_Login_def bindE_def mapErr_def get failIf_apply toEntityUser_def)
  obtain ta tr where "lib_sign (js_lib ?j) AccessMethod (js_accessSecret ?j) (jwt_claims ?j TokenTypeAccess
        (clock w') (clock w' + js_accessTTL ?j) (user_ID u) email username RoleUser) = Inr ta"
    "lib_sign (js_lib ?j) RefreshMethod (js_refreshSecret ?j) (jwt_claims ?j TokenTypeRefresh
        (clock w') (clock w' + js_refreshTTL ?j) (user_ID u) email username RoleUser) = Inr tr"
    using assms(4) by blast
  then obtain pair w2 where pair: "GenerateTokenPair ?j (user_ID u) email username RoleUser (use_fault w') = (Inr pair, w2)"
    by (simp add: GenerateTokenPair_def bindE_def nowE_def mapErr_def Let_def)
  have good: "User_Login uc email password w' = (Inr pair, w2)"
    using login [of password] assms(2) h pair by auto
  from access_token_accepted [OF assms(3) pair] have "\<forall>w3. Unix (clock w') \<le> Unix (clock w3) \<and>
            Unix (clock w3) < Unix (clock w' + js_accessTTL ?j) \<longrightarrow>
         (\<exists>c. fst (ValidateAccessToken ?j (tp_AccessToken pair) w3) = Inr c \<and>
              cl_UserID c = js_uuid_String ?j (user_ID u) \<and> cl_Role c = RoleUser)"
    by simp
  moreover have "fst (User_Login uc email pw w') = Inl (Sentinel ErrInvalidCredentials)"
    if "\<exists>r \<in> set (users (store w')). users_email r = email \<and> \<not> ax_bcrypt_Compare (uu_ext uc) (users_password_hash r) pw" for pw
    using that us row new login [of pw] by auto
  ultimately show ?thesis using good by blast
qed

section \<open>At a concrete board\<close>

definition demo_jwt :: jwt_service where
  "demo_jwt = \<lparr>js_lib = demo_jwt_lib, js_uuid_String = \<lambda>u. quote_strings [nat_text u],
     js_uuid_Parse = \<lambda>s. case unquote_strings '''' s of Some [t] \<Rightarrow> Some (text_nat t) | _ \<Rightarrow> None,
     js_accessSecret = ''s1'', js_refreshSecret = ''s2'', js_accessTTL = 3600000000, js_refreshTTL = 86400000000\<rparr>"

definition demo_ext :: account_ext where
  "demo_ext = \<lparr>ax_sha256 = \<lambda>s. ''sha:'' @ s, ax_bcrypt_Generate = \<lambda>salt p. Inr (quote_strings [salt, p]),
     ax_bcrypt_Compare = \<lambda>h p. (case unquote_strings '''' h of Some [_, q] \<Rightarrow> p = q | _ \<Rightarrow> False),
     ax_RenderVerification = \<lambda>u l a. Inr l, ax_RenderPasswordReset = \<lambda>u l a. Inr l,
     ax_uuid_Parse = js_uuid_Parse demo_jwt, ax_uuid_String = js_uuid_String demo_jwt,
     ax_collation = (\<lambda>s. [])\<rparr>"

definition demo_services :: services where
  "demo_services = \<lparr>sv_mailer = NewAsyncMailer 4, sv_rng = \<lambda>n. if n = 0 then ''A'' else ''B'', sv_rng_pos = 0\<rparr>"

definition demo_email_uc :: email_uc where
  "demo_email_uc = \<lparr>eu_ext = demo_ext, eu_VerifyTTL = 86400000000, eu_ResetTTL = 3600000000,
     eu_FrontendURL = ''https://ctf'', eu_Enabled = True\<rparr>"

definition demo_user_uc :: user_uc where
  "demo_user_uc = \<lparr>uu_ext = demo_ext, uu_JWTService = demo_jwt, uu_FieldValidator = True, uu_FieldValueRepo = True\<rparr>"

text \<open>Bob has asked for a reset: the database keeps the digest of the text in his mail.\<close>

definition demo_reset_world :: world where
  "demo_reset_world = world_of (demo_db\<lparr>verification_tokens := [\<lparr>verification_tokens_id = 71,
     verification_tokens_user_id = 2, verification_tokens_token = ''sha:abc'',
     verification_tokens_type = ''password_reset'', verification_tokens_expires_at = 900,
     verification_tokens_used_at = None, verification_tokens_created_at = Some 0\<rparr>]\<rparr>)"

lemma demo_jwt_ok: "jwt_lib_ok (js_lib demo_jwt)"
  by (simp add: demo_jwt_def demo_jwt_lib_ok)

theorem token_pair_validates_witness:
  "case GenerateTokenPair demo_jwt 2 ''bob@ctf.io'' ''bob'' ''user'' demo_world of
     (Inr pair, _) \<Rightarrow>
       (\<exists>c. fst (ValidateAccessToken demo_jwt (tp_AccessToken pair) demo_world) = Inr c \<and> cl_Role c = ''user'') \<and>
       (\<forall>c. fst (ValidateRefreshToken demo_jwt (tp_AccessToken pair) demo_world) \<noteq> Inr c)
   | _ \<Rightarrow> False"
proof -
  obtain pair w' where g: "GenerateTokenPair demo_jwt 2 ''bob@ctf.io'' ''bob'' ''user'' demo_world = (Inr pair, w')"
    by (simp add: GenerateTokenPair_def bindE_def nowE_def mapErr_def Let_def demo_jwt_def demo_jwt_lib_def)
  have "Unix (clock demo_world) < Unix (clock demo_world + js_accessTTL demo_jwt)"
    by (simp add: Unix_def demo_world_def world_of_def demo_jwt_def)
  with token_pair_validates [OF demo_jwt_ok g, of demo_world] g show ?thesis by auto
qed

theorem ResetPassword_once_witness:
  "case Email_ResetPassword demo_email_uc ''abc'' ''new'' (demo_services, demo_reset_world) of
     (r, (sv', w')) \<Rightarrow> r = Inr () \<and>
       store w' = reset_db (store demo_reset_world) 2 (quote_strings [''A'', ''new'']) \<and>
       fst (Email_ResetPassword demo_email_uc ''abc'' ''x'' (sv', w')) = Inl (Sentinel ErrTokenNotFound)"
proof -
  let ?run = "Email_ResetPassword demo_email_uc ''abc'' ''new'' (demo_services, demo_reset_world)"
  have "fst ?run = Inr ()" "\<not> next_fault (snd (snd ?run))" by code_simp+
  then obtain sv' w' where run: "?run = (Inr (), (sv', w'))" and calm: "\<not> next_fault w'"
    by (metis prod.collapse)
  from ResetPassword_once [OF run, of "''x''"] calm show ?thesis
    unfolding run by (auto simp: demo_reset_world_def demo_services_def world_of_def demo_email_uc_def demo_ext_def)
qed


theorem Register_Login_witness:
  "case User_Register demo_user_uc ''eve'' ''eve@ctf.io'' ''pw'' [] (demo_services, demo_world) of
     (r, (_, w')) \<Rightarrow> (\<exists>u pair w2. r = Inr u \<and> User_Login demo_user_uc ''eve@ctf.io'' ''pw'' w' = (Inr pair, w2) \<and>
        (\<exists>c. fst (ValidateAccessToken demo_jwt (tp_AccessToken pair) w') = Inr c \<and> cl_Role c = ''user'')) \<and>
       fst (User_Login demo_user_uc ''eve@ctf.io'' ''guess'' w') = Inl (Sentinel ErrInvalidCredentials)"
proof -
  let ?run = "User_Register demo_user_uc ''eve'' ''eve@ctf.io'' ''pw'' [] (demo_services, demo_world)"
  have "isl (fst ?run) = False" "\<not> next_fault (snd (snd ?run))" "clock (snd (snd ?run)) = 1" by code_simp+
  then obtain u sv' w' where run: "?run = (Inr u, (sv', w'))" and calm: "\<not> next_fault w'" and c: "clock w' = 1"
    by (cases "fst ?run") (auto simp: prod_eq_iff)
  have j: "uu_JWTService demo_user_uc = demo_jwt" by (simp add: demo_user_uc_def)
  have bcrypt: "\<forall>salt p h. ax_bcrypt_Generate (uu_ext demo_user_uc) salt p = Inr h \<longrightarrow> ax_bcrypt_Compare (uu_ext demo_user_uc) h p"
    by (auto simp: demo_user_uc_def demo_ext_def simp del: quote_strings.simps)
  have total: "\<forall>h k c. \<exists>tok. lib_sign (js_lib (uu_JWTService demo_user_uc)) h k c = Inr tok"
    by (simp add: j demo_jwt_def demo_jwt_lib_def)
  have ok: "jwt_lib_ok (js_lib (uu_JWTService demo_user_uc))" by (simp add: j demo_jwt_ok)
  note both = Register_Login [OF run bcrypt ok total calm]
  have now: "Unix (clock w') < Unix (clock w' + js_accessTTL demo_jwt)"
    by (simp add: Unix_def c demo_jwt_def)
  from both obtain pair w2 where login: "User_Login demo_user_uc ''eve@ctf.io'' ''pw'' w' = (Inr pair, w2)"
    and "\<exists>c. fst (ValidateAccessToken demo_jwt (tp_AccessToken pair) w') = Inr c \<and> cl_Role c = ''user''"
    using now by (auto simp: j)
  moreover have "\<exists>r \<in> set (users (store w')). users_email r = ''eve@ctf.io'' \<and>
      \<not> ax_bcrypt_Compare (uu_ext demo_user_uc) (users_password_hash r) ''guess''"
  proof -
    have "list_ex (\<lambda>r. users_email r = ''eve@ctf.io'' \<and>
      \<not> ax_bcrypt_Compare (uu_ext demo_user_uc) (users_password_hash r) ''guess'') (users (store (snd (snd ?run))))"
      by code_simp
    then show ?thesis by (simp add: run list_ex_iff)
  qed
  ultimately show ?thesis using both unfolding run by auto
qed

end
