(* ===== verification/CTF_Paging.thy ===== *)
theory CTF_Paging
  imports CTF_ScoreRepo
begin

text \<open>
  Pages of a list: \<open>LIMIT\<close> and \<open>OFFSET\<close>, the products of Go's 64-bit \<open>int\<close>, and the
  joins the paged queries use.
\<close>

text \<open>Go's \<open>int\<close> has 64 bits: products wrap around.\<close>

definition wrap64 :: "int \<Rightarrow> int" where
  "wrap64 i = (i + 2 ^ 63) mod 2 ^ 64 - 2 ^ 63"

lemma wrap64_id: "- (2 ^ 63) \<le> i \<Longrightarrow> i < 2 ^ 63 \<Longrightarrow> wrap64 i = i"
  by (simp add: wrap64_def)

text \<open>The server refuses a negative limit or offset.\<close>

definition select_page :: "int \<Rightarrow> int \<Rightarrow> (db \<Rightarrow> 'r list) \<Rightarrow> 'r list query" where
  "select_page row_limit row_offset f d =
     (if row_limit < 0 \<or> row_offset < 0 then (Inl Failure, d) else (Inr (take (nat row_limit) (drop (nat row_offset) (f d))), d))"

lemma keeps_select_page [valid_rules]: "keeps J (select_page row_limit row_offset f)"
  by (rule keepsI) (auto simp: select_page_def split: if_splits)

text \<open>\<open>JOIN\<close> with the row a key refers to, and \<open>LEFT JOIN\<close>.\<close>

definition join_row :: "('r \<Rightarrow> 's option) \<Rightarrow> 'r list \<Rightarrow> ('r \<times> 's) list" where
  "join_row f rows = List.map_filter (\<lambda>r. map_option (Pair r) (f r)) rows"

lemma join_row_total: "(\<And>r. r \<in> set rows \<Longrightarrow> f r \<noteq> None) \<Longrightarrow> join_row f rows = map (\<lambda>r. (r, the (f r))) rows"
  unfolding join_row_def List.map_filter_def by (induction rows) force+

definition user_by_id :: "db \<Rightarrow> uuid \<Rightarrow> users_row option" where
  "user_by_id d u = find (\<lambda>r. users_id r = u) (users d)"

definition challenge_by_id :: "db \<Rightarrow> uuid \<Rightarrow> challenges_row option" where
  "challenge_by_id d c = find (\<lambda>r. challenges_id r = c) (challenges d)"

definition team_by_id :: "db \<Rightarrow> uuid option \<Rightarrow> teams_row option" where
  "team_by_id d t = (case t of None \<Rightarrow> None | Some t \<Rightarrow> find (\<lambda>r. teams_id r = t) (teams d))"

definition coalesce_name :: "teams_row option \<Rightarrow> string" where
  "coalesce_name t = (case t of None \<Rightarrow> '''' | Some r \<Rightarrow> teams_name r)"

text \<open>What the methods of the use cases do to the page and its size, and the offset they compute.\<close>

definition page_window :: "int \<Rightarrow> int \<Rightarrow> int \<times> int" where
  "page_window page perPage =
     (let page = (if page < 1 then 1 else page);
          perPage = (if perPage < 1 \<or> 100 < perPage then 20 else perPage)
      in (perPage, wrap64 ((page - 1) * perPage)))"

section \<open>Pages tile the list\<close>

definition page_of :: "nat \<Rightarrow> nat \<Rightarrow> 'a list \<Rightarrow> 'a list" where
  "page_of p n xs = take n (drop ((p - 1) * n) xs)"

lemma pages_tile: "concat (map (\<lambda>p. page_of p n xs) [1..<Suc k]) = take (k * n) xs"
proof (induction k)
  case (Suc k)
  have "concat (map (\<lambda>p. page_of p n xs) [1..<Suc (Suc k)]) =
      concat (map (\<lambda>p. page_of p n xs) [1..<Suc k]) @ page_of (Suc k) n xs" by simp
  also have "\<dots> = take (k * n) xs @ take n (drop (k * n) xs)" unfolding Suc by (simp add: page_of_def)
  also have "\<dots> = take (Suc k * n) xs" by (simp add: take_add [symmetric] add.commute)
  finally show ?case .
qed simp

lemma page_window_inside:
  assumes "1 \<le> p" "1 \<le> n" "n \<le> 100" "int p * int n < 2 ^ 31"
  shows "page_window (int p) (int n) = (int n, int ((p - 1) * n)) \<and> int ((p - 1) * n) < 2 ^ 31"
proof -
  have eq: "(int p - 1) * int n = int ((p - 1) * n)" using assms(1) by (simp add: of_nat_diff)
  have "(p - 1) * n \<le> p * n" by (rule mult_le_mono1) simp
  then have "int ((p - 1) * n) \<le> int p * int n" by (simp only: of_nat_mult [symmetric] of_nat_le_iff)
  with assms(4) have lt: "int ((p - 1) * n) < 2 ^ 31" by linarith
  moreover have "0 \<le> int ((p - 1) * n)" by (rule of_nat_0_le_iff)
  moreover have "(2 :: int) ^ 31 \<le> 2 ^ 63" "- (2 ^ 63) \<le> (0 :: int)" by simp_all
  ultimately have "wrap64 (int ((p - 1) * n)) = int ((p - 1) * n)" by (intro wrap64_id) linarith+
  moreover have "\<not> int p < 1" "\<not> (int n < 1 \<or> 100 < int n)" using assms(1-3) by auto
  ultimately show ?thesis using lt by (simp only: page_window_def Let_def if_False eq prod.inject simp_thms)
qed

end
