(* ===== verification/CTF_Submissions.thy ===== *)
theory CTF_Submissions
  imports CTF_Paging CTF_Content "HOL-Library.Multiset"
begin

text \<open>
  The log of flag submissions: \<open>submissions.sql.go\<close>, \<open>SubmissionRepo\<close> and
  \<open>SubmissionUseCase\<close>.
\<close>

section \<open>Queries\<close>

definition submissions_by_challenge :: "uuid \<Rightarrow> db \<Rightarrow> submissions_row list" where
  "submissions_by_challenge c d = filter (\<lambda>s. submissions_challenge_id s = c) (submissions d)"

definition sqlc_CountAllSubmissions :: "int query" where
  "sqlc_CountAllSubmissions = asksE (\<lambda>d. int (length (submissions d)))"

definition sqlc_CountFailedSubmissionsByIP :: "string option \<Rightarrow> time option \<Rightarrow> int query" where
  "sqlc_CountFailedSubmissionsByIP ip created_at = asksE (\<lambda>d. int (length (filter (\<lambda>s.
     ip \<noteq> None \<and> submissions_ip s = ip \<and> \<not> submissions_is_correct s \<and>
     (case (submissions_created_at s, created_at) of (Some t, Some since) \<Rightarrow> since < t | _ \<Rightarrow> False))
     (submissions d))))"

definition sqlc_CountSubmissionsByChallenge :: "uuid \<Rightarrow> int query" where
  "sqlc_CountSubmissionsByChallenge challenge_id = asksE (\<lambda>d. int (length (submissions_by_challenge challenge_id d)))"

definition sqlc_CountSubmissionsByTeam :: "uuid option \<Rightarrow> int query" where
  "sqlc_CountSubmissionsByTeam team_id = asksE (\<lambda>d. int (length (filter (\<lambda>s.
     team_id \<noteq> None \<and> submissions_team_id s = team_id) (submissions d))))"

definition sqlc_CountSubmissionsByUser :: "uuid \<Rightarrow> int query" where
  "sqlc_CountSubmissionsByUser user_id = asksE (\<lambda>d. int (length (filter (\<lambda>s.
     submissions_user_id s = user_id) (submissions d))))"

definition sqlc_CreateSubmission :: "submissions_row \<Rightarrow> unit query" where
  "sqlc_CreateSubmission r d =
     (if list_ex (\<lambda>s. submissions_id s = submissions_id r) (submissions d) then (Inl UniqueViolation, d)
      else if \<not> user_exists (submissions_user_id r) d \<or> \<not> challenge_exists (submissions_challenge_id r) d \<or>
        (case submissions_team_id r of None \<Rightarrow> False | Some t \<Rightarrow> \<not> team_exists t d)
      then (Inl ForeignKeyViolation, d)
      else (Inr (), d\<lparr>submissions := submissions d @ [r]\<rparr>))"

text \<open>
  The queries order by the time alone, and so leave open in which order they return rows of equal time; it may change
  from one query to the next. The parameter \<open>scan\<close> is the order in which one query meets the rows:
  rows of equal time keep it.
\<close>

type_synonym scan = "submissions_row list \<Rightarrow> submissions_row list"

definition scan_ok :: "scan \<Rightarrow> bool" where
  "scan_ok scan \<longleftrightarrow> (\<forall>rows. mset (scan rows) = mset rows)"

definition sqlc_GetAllSubmissions ::
  "scan \<Rightarrow> int \<Rightarrow> int \<Rightarrow> (((submissions_row \<times> users_row) \<times> challenges_row) \<times> string) list query" where
  "sqlc_GetAllSubmissions scan row_limit row_offset = select_page row_limit row_offset (\<lambda>d.
     map (\<lambda>r. (r, coalesce_name (team_by_id d (submissions_team_id (fst (fst r))))))
       (join_row (\<lambda>(s, _). challenge_by_id d (submissions_challenge_id s))
          (join_row (\<lambda>s. user_by_id d (submissions_user_id s))
             (order_by_desc submissions_created_at (scan (submissions d))))))"

definition sqlc_GetSubmissionStats :: "uuid \<Rightarrow> (int \<times> int \<times> int) query" where
  "sqlc_GetSubmissionStats challenge_id = asksE (\<lambda>d. let rows = submissions_by_challenge challenge_id d in
     (int (length rows), int (length (filter submissions_is_correct rows)),
      int (length (filter (\<lambda>s. \<not> submissions_is_correct s) rows))))"

definition sqlc_GetSubmissionsByChallenge ::
  "scan \<Rightarrow> uuid \<Rightarrow> int \<Rightarrow> int \<Rightarrow> ((submissions_row \<times> users_row) \<times> string) list query" where
  "sqlc_GetSubmissionsByChallenge scan challenge_id row_limit row_offset = select_page row_limit row_offset (\<lambda>d.
     map (\<lambda>r. (r, coalesce_name (team_by_id d (submissions_team_id (fst r)))))
       (join_row (\<lambda>s. user_by_id d (submissions_user_id s))
          (order_by_desc submissions_created_at (scan (submissions_by_challenge challenge_id d)))))"

definition sqlc_GetSubmissionsByTeam ::
  "scan \<Rightarrow> uuid option \<Rightarrow> int \<Rightarrow> int \<Rightarrow> ((submissions_row \<times> users_row) \<times> challenges_row) list query" where
  "sqlc_GetSubmissionsByTeam scan team_id row_limit row_offset = select_page row_limit row_offset (\<lambda>d.
     join_row (\<lambda>(s, _). challenge_by_id d (submissions_challenge_id s))
       (join_row (\<lambda>s. user_by_id d (submissions_user_id s))
          (order_by_desc submissions_created_at
             (scan (filter (\<lambda>s. team_id \<noteq> None \<and> submissions_team_id s = team_id) (submissions d))))))"

definition sqlc_GetSubmissionsByUser ::
  "scan \<Rightarrow> uuid \<Rightarrow> int \<Rightarrow> int \<Rightarrow> (submissions_row \<times> challenges_row) list query" where
  "sqlc_GetSubmissionsByUser scan user_id row_limit row_offset = select_page row_limit row_offset (\<lambda>d.
     join_row (\<lambda>s. challenge_by_id d (submissions_challenge_id s))
       (order_by_desc submissions_created_at (scan (filter (\<lambda>s. submissions_user_id s = user_id) (submissions d)))))"

section \<open>SubmissionRepo\<close>

text \<open>Each reading method builds the submission from the row in the same way.\<close>

definition submission_entity :: "submissions_row \<Rightarrow> submission" where
  "submission_entity r = \<lparr>sub_ID = submissions_id r, sub_UserID = submissions_user_id r,
     sub_TeamID = submissions_team_id r, sub_ChallengeID = submissions_challenge_id r,
     sub_SubmittedFlag = submissions_submitted_flag r, sub_IsCorrect = submissions_is_correct r,
     sub_IP = ptrStrToStr (submissions_ip r), sub_CreatedAt = ptrTimeToTime (submissions_created_at r)\<rparr>"

definition SubmissionRepo_Create :: "submission \<Rightarrow> submission op" where
  "SubmissionRepo_Create sub =
     bindE (id_or_new (sub_ID sub)) (\<lambda>ID.
     bindE (time_or_now (sub_CreatedAt sub)) (\<lambda>createdAt.
     bindE (sql (sqlc_CreateSubmission \<lparr>submissions_id = ID, submissions_user_id = sub_UserID sub,
        submissions_team_id = sub_TeamID sub, submissions_challenge_id = sub_ChallengeID sub,
        submissions_submitted_flag = sub_SubmittedFlag sub, submissions_is_correct = sub_IsCorrect sub,
        submissions_ip = strPtrOrNil (sub_IP sub), submissions_created_at = Some createdAt\<rparr>)) (\<lambda>_.
     returnE (sub\<lparr>sub_ID := ID, sub_CreatedAt := createdAt\<rparr>))))"

definition SubmissionRepo_GetByChallenge :: "scan \<Rightarrow> uuid \<Rightarrow> int \<Rightarrow> int \<Rightarrow> submission_with_details list op" where
  "SubmissionRepo_GetByChallenge scan challengeID row_limit row_offset =
     bindE (int32E ''SubmissionRepo - GetByChallenge limit'' row_limit) (\<lambda>limit32.
     bindE (int32E ''SubmissionRepo - GetByChallenge offset'' row_offset) (\<lambda>offset32.
     bindE (sql (sqlc_GetSubmissionsByChallenge scan challengeID limit32 offset32)) (\<lambda>rows.
     returnE (map (\<lambda>((s, u), teamName). \<lparr>subd_Submission = submission_entity s, subd_Username = users_username u,
       subd_TeamName = teamName, subd_ChallengeTitle = '''', subd_ChallengeCategory = ''''\<rparr>) rows))))"

definition SubmissionRepo_GetByUser :: "scan \<Rightarrow> uuid \<Rightarrow> int \<Rightarrow> int \<Rightarrow> submission_with_details list op" where
  "SubmissionRepo_GetByUser scan userID row_limit row_offset =
     bindE (int32E ''SubmissionRepo - GetByUser limit'' row_limit) (\<lambda>limit32.
     bindE (int32E ''SubmissionRepo - GetByUser offset'' row_offset) (\<lambda>offset32.
     bindE (sql (sqlc_GetSubmissionsByUser scan userID limit32 offset32)) (\<lambda>rows.
     returnE (map (\<lambda>(s, c). \<lparr>subd_Submission = submission_entity s, subd_Username = '''',
       subd_TeamName = '''', subd_ChallengeTitle = challenges_title c,
       subd_ChallengeCategory = ptrStrToStr (challenges_category c)\<rparr>) rows))))"

definition SubmissionRepo_GetByTeam :: "scan \<Rightarrow> uuid \<Rightarrow> int \<Rightarrow> int \<Rightarrow> submission_with_details list op" where
  "SubmissionRepo_GetByTeam scan teamID row_limit row_offset =
     bindE (int32E ''SubmissionRepo - GetByTeam limit'' row_limit) (\<lambda>limit32.
     bindE (int32E ''SubmissionRepo - GetByTeam offset'' row_offset) (\<lambda>offset32.
     bindE (sql (sqlc_GetSubmissionsByTeam scan (Some teamID) limit32 offset32)) (\<lambda>rows.
     returnE (map (\<lambda>((s, u), c). \<lparr>subd_Submission = submission_entity s, subd_Username = users_username u,
       subd_TeamName = '''', subd_ChallengeTitle = challenges_title c,
       subd_ChallengeCategory = ptrStrToStr (challenges_category c)\<rparr>) rows))))"

definition SubmissionRepo_GetAll :: "scan \<Rightarrow> int \<Rightarrow> int \<Rightarrow> submission_with_details list op" where
  "SubmissionRepo_GetAll scan row_limit row_offset =
     bindE (int32E ''SubmissionRepo - GetAll limit'' row_limit) (\<lambda>limit32.
     bindE (int32E ''SubmissionRepo - GetAll offset'' row_offset) (\<lambda>offset32.
     bindE (sql (sqlc_GetAllSubmissions scan limit32 offset32)) (\<lambda>rows.
     returnE (map (\<lambda>(((s, u), c), teamName). \<lparr>subd_Submission = submission_entity s, subd_Username = users_username u,
       subd_TeamName = teamName, subd_ChallengeTitle = challenges_title c,
       subd_ChallengeCategory = ptrStrToStr (challenges_category c)\<rparr>) rows))))"

definition SubmissionRepo_CountByChallenge :: "uuid \<Rightarrow> int op" where
  "SubmissionRepo_CountByChallenge challengeID = sql (sqlc_CountSubmissionsByChallenge challengeID)"

definition SubmissionRepo_CountByUser :: "uuid \<Rightarrow> int op" where
  "SubmissionRepo_CountByUser userID = sql (sqlc_CountSubmissionsByUser userID)"

definition SubmissionRepo_CountByTeam :: "uuid \<Rightarrow> int op" where
  "SubmissionRepo_CountByTeam teamID = sql (sqlc_CountSubmissionsByTeam (Some teamID))"

definition SubmissionRepo_CountAll :: "int op" where
  "SubmissionRepo_CountAll = sql sqlc_CountAllSubmissions"

definition SubmissionRepo_CountFailedByIP :: "string \<Rightarrow> time \<Rightarrow> int op" where
  "SubmissionRepo_CountFailedByIP ip since = sql (sqlc_CountFailedSubmissionsByIP (Some ip) (Some since))"

definition SubmissionRepo_GetStats :: "uuid \<Rightarrow> submission_stats op" where
  "SubmissionRepo_GetStats challengeID =
     bindE (sql (sqlc_GetSubmissionStats challengeID)) (\<lambda>(total, correct, incorrect).
     returnE \<lparr>substats_Total = total, substats_Correct = correct, substats_Incorrect = incorrect\<rparr>)"

section \<open>SubmissionUseCase\<close>

definition Submission_LogSubmission :: "submission \<Rightarrow> submission op" where
  "Submission_LogSubmission sub =
     mapErr (wrap ''SubmissionUseCase - LogSubmission'') (SubmissionRepo_Create sub)"

text \<open>A page and the number of all rows.\<close>

definition page_and_count ::
  "string \<Rightarrow> int \<Rightarrow> int \<Rightarrow> (int \<Rightarrow> int \<Rightarrow> 'a list op) \<Rightarrow> int op \<Rightarrow> ('a list \<times> int) op" where
  "page_and_count label page perPage list_op count_op =
     (case page_window page perPage of (perPage, row_offset) \<Rightarrow>
      bindE (mapErr (wrap label) (list_op perPage row_offset)) (\<lambda>items.
      bindE (mapErr (wrap (label @ '' count'')) count_op) (\<lambda>total.
      returnE (items, total))))"

definition Submission_GetByChallenge :: "scan \<Rightarrow> uuid \<Rightarrow> int \<Rightarrow> int \<Rightarrow> (submission_with_details list \<times> int) op" where
  "Submission_GetByChallenge scan challengeID page perPage =
     page_and_count ''SubmissionUseCase - GetByChallenge'' page perPage
       (SubmissionRepo_GetByChallenge scan challengeID) (SubmissionRepo_CountByChallenge challengeID)"

definition Submission_GetByUser :: "scan \<Rightarrow> uuid \<Rightarrow> int \<Rightarrow> int \<Rightarrow> (submission_with_details list \<times> int) op" where
  "Submission_GetByUser scan userID page perPage =
     page_and_count ''SubmissionUseCase - GetByUser'' page perPage
       (SubmissionRepo_GetByUser scan userID) (SubmissionRepo_CountByUser userID)"

definition Submission_GetByTeam :: "scan \<Rightarrow> uuid \<Rightarrow> int \<Rightarrow> int \<Rightarrow> (submission_with_details list \<times> int) op" where
  "Submission_GetByTeam scan teamID page perPage =
     page_and_count ''SubmissionUseCase - GetByTeam'' page perPage
       (SubmissionRepo_GetByTeam scan teamID) (SubmissionRepo_CountByTeam teamID)"

definition Submission_GetAll :: "scan \<Rightarrow> int \<Rightarrow> int \<Rightarrow> (submission_with_details list \<times> int) op" where
  "Submission_GetAll scan page perPage =
     page_and_count ''SubmissionUseCase - GetAll'' page perPage (SubmissionRepo_GetAll scan) SubmissionRepo_CountAll"

definition Submission_GetStats :: "uuid \<Rightarrow> submission_stats op" where
  "Submission_GetStats challengeID =
     mapErr (wrap ''SubmissionUseCase - GetStats'') (SubmissionRepo_GetStats challengeID)"

end
