(* ===== verification/CTF_SubmissionProps.thy ===== *)
theory CTF_SubmissionProps
  imports CTF_Submissions CTF_Calm CTF_Demo
begin

text \<open>
  What the paged listings of the log of submissions show: all of it, newest first, where no two times agree; where two
  agree, pages may repeat and skip rows.
\<close>

definition submissions_listed :: "db \<Rightarrow> submissions_row list" where
  "submissions_listed d = order_by_desc submissions_created_at (submissions d)"

definition submission_refs_ok :: "db \<Rightarrow> bool" where
  "submission_refs_ok d = list_all (\<lambda>s. user_by_id d (submissions_user_id s) \<noteq> None \<and>
     challenge_by_id d (submissions_challenge_id s) \<noteq> None) (submissions d)"

text \<open>Where no two rows have the same time, the order in which a query meets them does not show.\<close>

lemma order_by_desc_scan:
  assumes "distinct (map key rows)" "mset rows' = mset rows"
  shows "order_by_desc key rows' = order_by_desc key rows"
proof -
  have inj: "inj_on key (set rows)" and rows: "distinct rows" using assms(1) by (simp_all add: distinct_map)
  have set: "set rows' = set rows" using assms(2) by (metis set_mset_mset)
  have null: "filter (\<lambda>r. key r = None) rows = [] \<or> (\<exists>r. filter (\<lambda>r. key r = None) rows = [r])" (is "?A = [] \<or> _")
  proof (cases ?A rule: remdups_adj.cases)
    case (3 r r' zs)
    then have "distinct (r # r' # zs)" "r \<in> set ?A" "r' \<in> set ?A" using rows by (metis distinct_filter, simp_all)
    with inj show ?thesis by (auto simp: inj_on_def)
  qed auto
  have short: "xs = ys" if "mset xs = mset ys" "ys = [] \<or> (\<exists>r. ys = [r])" for xs ys :: "'a list"
    using that by auto
  have n: "mset (filter (\<lambda>r. key r = None) rows') = mset (filter (\<lambda>r. key r = None) rows)"
    using assms(2) by (simp add: mset_filter)
  have "filter (\<lambda>r. key r = None) rows' = filter (\<lambda>r. key r = None) rows"
    by (rule short [OF n null])
  moreover have "sort_key (\<lambda>r. - the (key r)) (filter (\<lambda>r. key r \<noteq> None) rows') =
      sort_key (\<lambda>r. - the (key r)) (filter (\<lambda>r. key r \<noteq> None) rows)"
  proof (rule sort_key_inj_key_eq)
    show "mset (filter (\<lambda>r. key r \<noteq> None) rows') = mset (sort_key (\<lambda>r. - the (key r)) (filter (\<lambda>r. key r \<noteq> None) rows))"
      using assms(2) by (simp add: mset_filter)
    show "inj_on (\<lambda>r. - the (key r)) (set (filter (\<lambda>r. key r \<noteq> None) rows'))"
    proof (rule inj_onI)
      fix x y assume *: "x \<in> set (filter (\<lambda>r. key r \<noteq> None) rows')" "y \<in> set (filter (\<lambda>r. key r \<noteq> None) rows')"
        "- the (key x) = - the (key y)"
      then have "key x = key y" by (cases "key x"; cases "key y") auto
      with * inj set show "x = y" by (auto dest: inj_onD)
    qed
  qed simp
  ultimately show ?thesis by (simp add: order_by_desc_def)
qed

lemma SubmissionRepo_GetAll_calm:
  assumes "faults w = []" "submission_refs_ok (store w)" "int n < 2 ^ 31" "int m < 2 ^ 31"
    and "scan_ok scan" "distinct (map submissions_created_at (submissions (store w)))"
  shows "\<exists>items. SubmissionRepo_GetAll scan (int n) (int m) w = (Inr items, w) \<and>
    map subd_Submission items = map submission_entity (take n (drop m (submissions_listed (store w))))"
proof -
  let ?L = "submissions_listed (store w)"
  have scan: "order_by_desc submissions_created_at (scan (submissions (store w))) = ?L"
    unfolding submissions_listed_def by (rule order_by_desc_scan [OF assms(6)]) (use assms(5) in \<open>simp add: scan_ok_def\<close>)
  have set: "set ?L = set (submissions (store w))" by (auto simp: submissions_listed_def order_by_desc_def)
  let ?u = "\<lambda>s. user_by_id (store w) (submissions_user_id s)" and ?c = "\<lambda>s. challenge_by_id (store w) (submissions_challenge_id s)"
  have refs: "?u s \<noteq> None" "?c s \<noteq> None" if "s \<in> set ?L" for s
    using assms(2) that set by (auto simp: submission_refs_ok_def list_all_iff)
  have "join_row (\<lambda>(s, _). ?c s) (join_row ?u ?L) = map (\<lambda>s. ((s, the (?u s)), the (?c s))) ?L"
    using refs by (subst join_row_total, force simp: join_row_total)+ (simp add: join_row_total)
  then have rows: "map (\<lambda>r. (r, coalesce_name (team_by_id (store w) (submissions_team_id (fst (fst r))))))
      (join_row (\<lambda>(s, _). ?c s) (join_row ?u ?L)) =
    map (\<lambda>s. (((s, the (?u s)), the (?c s)), coalesce_name (team_by_id (store w) (submissions_team_id s)))) ?L"
    (is "?J = map ?g ?L") by simp
  have "sqlc_GetAllSubmissions scan (int n) (int m) (store w) = (Inr (take n (drop m (map ?g ?L))), store w)"
    using rows by (simp add: sqlc_GetAllSubmissions_def select_page_def scan)
  then have "sql (sqlc_GetAllSubmissions scan (int n) (int m)) w = (Inr (take n (drop m (map ?g ?L))), w)"
    using assms(1) by (simp add: sql_calm)
  with assms(1,3,4) show ?thesis
    by (auto simp: SubmissionRepo_GetAll_def bindE_def int32E_def intToInt32Safe_def mapErr_def take_map drop_map o_def)
qed

text \<open>C29 While the log of submissions does not change and no two of its rows have the same time, its first k pages, of
  n rows each, list exactly the k * n newest submissions, each once and in the order of their time, in whatever order
  each query meets the rows; and every page tells how many submissions there are.\<close>

theorem submission_pages:
  assumes "faults w = []" "submission_refs_ok (store w)" "1 \<le> n" "n \<le> 100" "int k * int n < 2 ^ 31"
    and "\<forall>p. scan_ok (scan p)" "distinct (map submissions_created_at (submissions (store w)))"
  shows "concat (map (\<lambda>p. case fst (Submission_GetAll (scan p) (int p) (int n) w) of
       Inl _ \<Rightarrow> [] | Inr (items, amount) \<Rightarrow> map subd_Submission items) [1..<Suc k]) =
     take (k * n) (map submission_entity (submissions_listed (store w))) \<and>
   (\<forall>p \<in> {1..k}. \<exists>items. Submission_GetAll (scan p) (int p) (int n) w = (Inr (items, int (length (submissions (store w)))), w))"
proof -
  let ?E = "map submission_entity (submissions_listed (store w))"
  have page: "\<exists>items. Submission_GetAll (scan p) (int p) (int n) w = (Inr (items, int (length (submissions (store w)))), w) \<and>
      map subd_Submission items = page_of p n ?E" if p: "p \<in> {1..k}" for p
  proof -
    have "int p * int n \<le> int k * int n" using p by (intro mult_right_mono) auto
    with assms(5) have lt: "int p * int n < 2 ^ 31" by linarith
    from page_window_inside [of p n] p assms(3,4) lt
    have win: "page_window (int p) (int n) = (int n, int ((p - 1) * n))" "int ((p - 1) * n) < 2 ^ 31" by auto
    have n: "int n < 2 ^ 31" using assms(4) by simp
    from SubmissionRepo_GetAll_calm [OF assms(1,2) n win(2), of "scan p"] assms(6,7) obtain items where
      "SubmissionRepo_GetAll (scan p) (int n) (int ((p - 1) * n)) w = (Inr items, w)"
      "map subd_Submission items = map submission_entity (take n (drop ((p - 1) * n) (submissions_listed (store w))))" by blast
    moreover have "SubmissionRepo_CountAll w = (Inr (int (length (submissions (store w)))), w)"
      using assms(1) by (simp add: SubmissionRepo_CountAll_def sqlc_CountAllSubmissions_def sql_calm asksE_def)
    ultimately show ?thesis
      by (auto simp: Submission_GetAll_def page_and_count_def win(1) bindE_def mapErr_def page_of_def take_map drop_map)
  qed
  have pages: "map (\<lambda>p. case fst (Submission_GetAll (scan p) (int p) (int n) w) of
       Inl _ \<Rightarrow> [] | Inr (items, amount) \<Rightarrow> map subd_Submission items) [1..<Suc k] = map (\<lambda>p. page_of p n ?E) [1..<Suc k]"
    using page by (intro map_cong) fastforce+
  show ?thesis
  proof (intro conjI ballI)
    fix p assume "p \<in> {1..k}"
    from page [OF this] show "\<exists>items. Submission_GetAll (scan p) (int p) (int n) w = (Inr (items, int (length (submissions (store w)))), w)"
      by blast
  qed (simp only: pages pages_tile)
qed

section \<open>At a concrete log\<close>

definition demo_submission :: "uuid \<Rightarrow> time \<Rightarrow> submissions_row" where
  "demo_submission s t = \<lparr>submissions_id = s, submissions_user_id = 4, submissions_team_id = Some 12,
     submissions_challenge_id = 31, submissions_submitted_flag = ''guess'', submissions_is_correct = False,
     submissions_ip = None, submissions_created_at = Some t\<rparr>"

definition demo_log_world :: world where
  "demo_log_world = world_of (demo_db\<lparr>submissions := [demo_submission 101 3, demo_submission 102 9, demo_submission 103 6]\<rparr>)"

text \<open>Every other query meets the rows backwards.\<close>

definition demo_scan :: "nat \<Rightarrow> scan" where
  "demo_scan p = (if even p then rev else (\<lambda>rows. rows))"

lemma demo_scan_ok: "\<forall>p. scan_ok (demo_scan p)"
  by (simp add: demo_scan_def scan_ok_def)

theorem submission_pages_witness:
  "map sub_ID (concat (map (\<lambda>p. case fst (Submission_GetAll (demo_scan p) (int p) (int 2) demo_log_world) of
       Inl _ \<Rightarrow> [] | Inr (items, amount) \<Rightarrow> map subd_Submission items) [1..<Suc 2])) = [102, 103, 101]"
proof -
  have "submission_refs_ok (store demo_log_world)" by code_simp
  moreover have "faults demo_log_world = []" by (simp add: demo_log_world_def world_of_def)
  moreover have ids: "map submissions_id (submissions_listed (store demo_log_world)) = [102, 103, 101]" by code_simp
  moreover have "distinct (map submissions_created_at (submissions (store demo_log_world)))" by code_simp
  ultimately have "concat (map (\<lambda>p. case fst (Submission_GetAll (demo_scan p) (int p) (int 2) demo_log_world) of
       Inl _ \<Rightarrow> [] | Inr (items, amount) \<Rightarrow> map subd_Submission items) [1..<Suc 2]) =
     take (2 * 2) (map submission_entity (submissions_listed (store demo_log_world)))"
    using submission_pages [of demo_log_world 2 2 demo_scan] demo_scan_ok by simp
  then have "map sub_ID (concat (map (\<lambda>p. case fst (Submission_GetAll (demo_scan p) (int p) (int 2) demo_log_world) of
       Inl _ \<Rightarrow> [] | Inr (items, amount) \<Rightarrow> map subd_Submission items) [1..<Suc 2])) =
     take 4 (map submissions_id (submissions_listed (store demo_log_world)))"
    by (simp only:) (simp add: take_map submission_entity_def o_def)
  then show ?thesis by (simp only: ids) simp
qed

section \<open>Equal times\<close>

text \<open>Two submissions of the same time: page 1 and page 2, of one row each, can list the same one, and the other
  is on no page.\<close>

definition demo_tied_world :: world where
  "demo_tied_world = world_of (demo_db\<lparr>submissions := [demo_submission 101 5, demo_submission 102 5]\<rparr>)"

theorem tied_pages_repeat:
  "(\<forall>p. scan_ok (demo_scan p)) \<and> submission_refs_ok (store demo_tied_world) \<and>
   map (\<lambda>p. case fst (Submission_GetAll (demo_scan p) (int p) 1 demo_tied_world) of
     Inl _ \<Rightarrow> [] | Inr (items, amount) \<Rightarrow> map (sub_ID \<circ> subd_Submission) items) [1, 2] = [[101], [101]]"
proof (intro conjI)
  show "submission_refs_ok (store demo_tied_world)" by code_simp
  show "map (\<lambda>p. case fst (Submission_GetAll (demo_scan p) (int p) 1 demo_tied_world) of
     Inl _ \<Rightarrow> [] | Inr (items, amount) \<Rightarrow> map (sub_ID \<circ> subd_Submission) items) [1, 2] = [[101], [101]]" by code_simp
qed (rule demo_scan_ok)

end
