(* ===== verification/CTF_Http.thy ===== *)
theory CTF_Http
  imports CTF_Accounts CTF_Competition CTF_Submissions CTF_Challenges CTF_TeamOps CTF_Hints CTF_Scoreboard
begin

text \<open>
  The HTTP layer (\<open>internal/controller/restapi\<close>, \<open>pkg/httputil\<close>): a handler is a computation
  that either answers a value or stops with an error reply; the middleware of
  \<open>restapi/middleware\<close> wraps handlers, the table of \<open>v1/router.go\<close> gives every route its
  middleware. Outside the model are the JSON of bodies and replies, the matching of paths by chi and the
  rate limiter's library, which is a parameter.
\<close>

section \<open>Requests, replies and errors\<close>

record request =
  rq_Authorization :: string
  rq_XRealIP :: string
  rq_RemoteAddr :: string
  cx_UserID :: "string option"
  cx_Role :: "string option"
  cx_User :: "user option"

text \<open>What ends a handler early: an error reply, or a panic.\<close>

datatype http_stop = Refuse error_response | Panicked

type_synonym ('s, 'a) rest = "('s, http_stop, 'a) sem"
type_synonym ('s, 'a) handler = "request \<Rightarrow> ('s, 'a) rest"

definition RenderErrorWithCode :: "nat \<Rightarrow> string \<Rightarrow> string \<Rightarrow> http_stop" where
  "RenderErrorWithCode status msg code = Refuse \<lparr>resp_status = status, resp_error = msg, resp_code = code\<rparr>"

definition RenderError :: "nat \<Rightarrow> string \<Rightarrow> http_stop" where
  "RenderError status msg = RenderErrorWithCode status msg ''''"

definition RenderInvalidID :: http_stop where
  "RenderInvalidID = RenderErrorWithCode 400 ''invalid ID format'' ''INVALID_ID''"

text \<open>\<open>if h.OnError(...) { return }\<close> after a call.\<close>

definition OnError :: "('s, goerr, 'a) sem \<Rightarrow> ('s, 'a) rest" where
  "OnError m s = (case m s of
       (Inl e, s') \<Rightarrow> (Inl (if e = GoPanic then Panicked else Refuse (handle_error e)), s')
     | (Inr x, s') \<Rightarrow> (Inr x, s'))"

definition GetClientIP :: "(string \<Rightarrow> string option) \<Rightarrow> request \<Rightarrow> string" where
  "GetClientIP splitHostPort r =
     (if rq_XRealIP r \<noteq> '''' then rq_XRealIP r
      else case splitHostPort (rq_RemoteAddr r) of None \<Rightarrow> rq_RemoteAddr r | Some ip \<Rightarrow> ip)"

definition ParseUUID :: "(string \<Rightarrow> uuid option) \<Rightarrow> string \<Rightarrow> ('s, uuid) rest" where
  "ParseUUID uuid_Parse ID =
     (if ID = '''' then throwE RenderInvalidID
      else case uuid_Parse ID of None \<Rightarrow> throwE RenderInvalidID | Some u \<Rightarrow> returnE u)"

definition RequireUser :: "request \<Rightarrow> ('s, user) rest" where
  "RequireUser r = (case cx_User r of
       None \<Rightarrow> throwE (Refuse (handle_error (Sentinel ErrNotAuthenticated)))
     | Some u \<Rightarrow> returnE u)"

text \<open>What \<open>json.Decode\<close> and the validator make of the body: a value, or one of two texts of errors.\<close>

datatype 'a body = Undecodable | Invalid string | Body 'a

fun DecodeAndValidate :: "'a body \<Rightarrow> ('s, 'a) rest" where
  "DecodeAndValidate Undecodable = throwE (RenderErrorWithCode 400 ''invalid JSON format'' ''INVALID_JSON'')"
| "DecodeAndValidate (Invalid e) = throwE (RenderErrorWithCode 400 e ''VALIDATION_ERROR'')"
| "DecodeAndValidate (Body x) = returnE x"

section \<open>The server\<close>

text \<open>
  \<open>srv_limiter prefix limit key\<close> is one call of the limiter's library: whether the limit is reached.
\<close>

record server =
  srv_jwt :: jwt_service
  srv_ext :: account_ext
  srv_apiTokens :: bool
  srv_limiter :: "string \<Rightarrow> int \<Rightarrow> string \<Rightarrow> bool op"
  srv_SplitHostPort :: "string \<Rightarrow> string option"
  srv_verifyEmails :: bool
  srv_submitLimit :: int
  srv_chal :: challenge_uc
  srv_hints :: hint_uc
  srv_solves :: solve_uc
  srv_teams :: team_uc
  srv_awards :: "scoreboard_cache option"
  srv_users :: user_uc
  srv_email :: email_uc

abbreviation srv_uuid_Parse :: "server \<Rightarrow> string \<Rightarrow> uuid option" where
  "srv_uuid_Parse srv \<equiv> ax_uuid_Parse (srv_ext srv)"

section \<open>Middleware\<close>

definition authBearer :: "server \<Rightarrow> request \<Rightarrow> string \<Rightarrow> request option op" where
  "authBearer srv r token =
     bindE (errE (ValidateAccessToken (srv_jwt srv) token)) (\<lambda>x. case x of
         Inl _ \<Rightarrow> returnE None
       | Inr claims \<Rightarrow> returnE (Some (r\<lparr>cx_UserID := Some (cl_UserID claims), cx_Role := Some (cl_Role claims)\<rparr>)))"

definition authAPIToken :: "server \<Rightarrow> request \<Rightarrow> string \<Rightarrow> request option op" where
  "authAPIToken srv r plaintext =
     (if \<not> srv_apiTokens srv then returnE None
      else let plaintext = TrimSpace plaintext in
        if plaintext = '''' then returnE None
        else
          bindE (errE (APIToken_GetByTokenHash (ax_sha256 (srv_ext srv) plaintext))) (\<lambda>t. case t of
            Inl _ \<Rightarrow> returnE None
          | Inr None \<Rightarrow> returnE None
          | Inr (Some token) \<Rightarrow>
          bindE (APIToken_ValidateToken (Some token)) (\<lambda>valid.
          if \<not> valid then returnE None
          else
          bindE (errE (User_GetByID (token_UserID token))) (\<lambda>u. case u of
            Inl _ \<Rightarrow> returnE None
          | Inr u \<Rightarrow>
          bindE (errE (APIToken_UpdateLastUsedAt (token_ID token))) (\<lambda>_.
          returnE (Some (r\<lparr>cx_UserID := Some (ax_uuid_String (srv_ext srv) (user_ID u)),
            cx_Role := Some (user_Role u)\<rparr>)))))))"

text \<open>\<open>strings.SplitN(h, " ", 2)\<close>: cut at the first space.\<close>

definition split_header :: "string \<Rightarrow> (string \<times> string) option" where
  "split_header h = (case dropWhile (\<lambda>c. c \<noteq> CHR '' '') h of
       [] \<Rightarrow> None | _ # rest \<Rightarrow> Some (takeWhile (\<lambda>c. c \<noteq> CHR '' '') h, rest))"

definition Auth :: "server \<Rightarrow> (world, 'a) handler \<Rightarrow> (world, 'a) handler" where
  "Auth srv next r =
     (if rq_Authorization r = '''' then throwE (RenderError 401 ''authorization header required'')
      else case split_header (rq_Authorization r) of
        None \<Rightarrow> throwE (RenderError 401 ''invalid authorization header format'')
      | Some (scheme, credentials) \<Rightarrow>
          if scheme \<noteq> ''Bearer'' \<and> scheme \<noteq> ''Token''
          then throwE (RenderError 401 ''invalid authorization header format'')
          else
            bindE (OnError (if scheme = ''Bearer'' then authBearer srv r credentials
                            else authAPIToken srv r credentials)) (\<lambda>ctx. case ctx of
                None \<Rightarrow> throwE (RenderError 401 ''invalid token'')
              | Some r' \<Rightarrow> next r'))"

definition Admin :: "(world, 'a) handler \<Rightarrow> (world, 'a) handler" where
  "Admin next r =
     (if cx_Role r \<noteq> Some RoleAdmin then throwE (RenderError 403 ''admin access required'') else next r)"

definition GetUserID :: "request \<Rightarrow> string" where
  "GetUserID r = (case cx_UserID r of None \<Rightarrow> '''' | Some u \<Rightarrow> u)"

definition GetUserRole :: "request \<Rightarrow> string" where
  "GetUserRole r = (case cx_Role r of None \<Rightarrow> '''' | Some role \<Rightarrow> role)"

definition InjectUser :: "server \<Rightarrow> (world, 'a) handler \<Rightarrow> (world, 'a) handler" where
  "InjectUser srv next r =
     (if GetUserID r = '''' then next r
      else case srv_uuid_Parse srv (GetUserID r) of
        None \<Rightarrow> throwE (RenderError 400 ''invalid user ID'')
      | Some u \<Rightarrow>
          bindE (OnError (errE (User_GetByID u))) (\<lambda>x. case x of
              Inl _ \<Rightarrow> throwE (RenderError 401 ''user not found'')
            | Inr user \<Rightarrow> next (r\<lparr>cx_User := Some user\<rparr>)))"

definition RequireVerified :: "bool \<Rightarrow> (world, 'a) handler \<Rightarrow> (world, 'a) handler" where
  "RequireVerified verifyEmails next r =
     (if \<not> verifyEmails then next r
      else case cx_User r of
        None \<Rightarrow> throwE (RenderError 401 ''unauthorized'')
      | Some user \<Rightarrow>
          if user_Role user = RoleAdmin then next r
          else if \<not> user_IsVerified user
          then throwE (RenderErrorWithCode 403 (error_msg (Sentinel ErrEmailNotVerified)) ''email_verification_required'')
          else next r)"

definition RequireTeam :: "(world, 'a) handler \<Rightarrow> (world, 'a) handler" where
  "RequireTeam next r =
     (case cx_User r of
        None \<Rightarrow> throwE (RenderError 401 ''unauthorized'')
      | Some user \<Rightarrow>
          if user_Role user = RoleAdmin then next r
          else if user_TeamID user = None
          then throwE (RenderErrorWithCode 403 (error_msg (Sentinel ErrNoTeamSelected)) ''no_team_selected'')
          else next r)"

definition inactive_message :: "string \<Rightarrow> string" where
  "inactive_message status =
     (if status = CompetitionStatusNotStarted then ''competition has not started yet''
      else if status = CompetitionStatusEnded then ''competition has ended''
      else if status = CompetitionStatusPaused then ''competition is paused''
      else ''submissions are not allowed at this time'')"

text \<open>The clock is read once by the test and, when it fails, again for the message.\<close>

definition CompetitionActive :: "(world, 'a) handler \<Rightarrow> (world, 'a) handler" where
  "CompetitionActive next r =
     bindE (OnError (errE CompetitionUseCase_Get)) (\<lambda>x. case x of
         Inl _ \<Rightarrow> throwE (RenderError 500 ''failed to get competition status'')
       | Inr c \<Rightarrow>
     bindE (OnError nowE) (\<lambda>now.
       if \<not> Competition_IsSubmissionAllowed now c then
         bindE (OnError nowE) (\<lambda>now. throwE (RenderError 403 (inactive_message (Competition_GetStatus now c))))
       else next r))"

definition CompetitionEnded :: "(world, 'a) handler \<Rightarrow> (world, 'a) handler" where
  "CompetitionEnded next r =
     bindE (OnError (errE CompetitionUseCase_Get)) (\<lambda>x. case x of
         Inl _ \<Rightarrow> throwE (RenderError 500 ''failed to get competition status'')
       | Inr c \<Rightarrow>
     bindE (OnError nowE) (\<lambda>now.
       if Competition_GetStatus now c \<noteq> CompetitionStatusEnded
       then throwE (RenderError 403 ''comments available only after competition has ended'')
       else next r))"

text \<open>The library answers 429 itself when the limit is reached and panics on an error of its store.\<close>

definition RateLimit :: "server \<Rightarrow> string \<Rightarrow> int \<Rightarrow> (request \<Rightarrow> string) \<Rightarrow> (world, 'a) handler \<Rightarrow> (world, 'a) handler" where
  "RateLimit srv keyPrefix maxRequests keyFunc next r =
     bindE (OnError (srv_limiter srv (''limiter:'' @ keyPrefix) maxRequests (keyFunc r))) (\<lambda>reached.
       if reached then throwE (RenderError 429 ''Limit exceeded'') else next r)"

datatype middleware =
    MAuth | MInjectUser | MAdmin | MCompetitionActive | MCompetitionEnded | MRequireVerified | MRequireTeam
  | MLimitIP string int | MLimitUser string int

text \<open>Without a user the key of the limit for users is empty.\<close>

fun run_middleware :: "server \<Rightarrow> middleware \<Rightarrow> (world, 'a) handler \<Rightarrow> (world, 'a) handler" where
  "run_middleware srv MAuth = Auth srv"
| "run_middleware srv MInjectUser = InjectUser srv"
| "run_middleware srv MAdmin = Admin"
| "run_middleware srv MCompetitionActive = CompetitionActive"
| "run_middleware srv MCompetitionEnded = CompetitionEnded"
| "run_middleware srv MRequireVerified = RequireVerified (srv_verifyEmails srv)"
| "run_middleware srv MRequireTeam = RequireTeam"
| "run_middleware srv (MLimitIP pfx n) = RateLimit srv pfx n (GetClientIP (srv_SplitHostPort srv))"
| "run_middleware srv (MLimitUser pfx n) = RateLimit srv pfx n
     (\<lambda>r. case cx_User r of None \<Rightarrow> '''' | Some u \<Rightarrow> ax_uuid_String (srv_ext srv) (user_ID u))"

definition serve :: "server \<Rightarrow> middleware list \<Rightarrow> (world, 'a) handler \<Rightarrow> (world, 'a) handler" where
  "serve srv mws h = foldr (run_middleware srv) mws h"

end
