(* ===== verification/CTF_Requests.thy ===== *)
theory CTF_Requests
  imports CTF_Http
begin

text \<open>
  The bodies of requests (the structs of the OpenAPI types, a pointer as an option) and what
  \<open>v1/request\<close> makes of them.
\<close>

definition or_else :: "'a option \<Rightarrow> 'a \<Rightarrow> 'a" where
  "or_else x d = (case x of None \<Rightarrow> d | Some v \<Rightarrow> v)"

record create_challenge_request =
  ccr_Category :: string
  ccr_Decay :: "int option"
  ccr_Description :: string
  ccr_Flag :: string
  ccr_FlagFormatRegex :: "string option"
  ccr_InitialValue :: "int option"
  ccr_IsCaseInsensitive :: "bool option"
  ccr_IsHidden :: "bool option"
  ccr_IsRegex :: "bool option"
  ccr_MinValue :: "int option"
  ccr_Points :: int
  ccr_TagIds :: "string list option"
  ccr_Title :: string

record update_challenge_request =
  ucr_Category :: string
  ucr_Decay :: "int option"
  ucr_Description :: string
  ucr_Flag :: "string option"
  ucr_FlagFormatRegex :: "string option"
  ucr_InitialValue :: "int option"
  ucr_IsCaseInsensitive :: "bool option"
  ucr_IsHidden :: "bool option"
  ucr_IsRegex :: "bool option"
  ucr_MinValue :: "int option"
  ucr_Points :: int
  ucr_TagIds :: "string list option"
  ucr_Title :: string

record update_competition_request =
  upc_AllowTeamSwitch :: "bool option"
  upc_EndTime :: "time option"
  upc_FlagRegex :: "string option"
  upc_FreezeTime :: "time option"
  upc_IsPaused :: "bool option"
  upc_IsPublic :: "bool option"
  upc_Mode :: "string option"
  upc_Name :: string
  upc_StartTime :: "time option"

record hint_request =
  hreq_Content :: string
  hreq_Cost :: "int option"
  hreq_OrderIndex :: "int option"

record update_app_settings_request =
  usr_AppName :: string
  usr_CorsOrigins :: string
  usr_FrontendURL :: string
  usr_RegistrationOpen :: "bool option"
  usr_ResendEnabled :: "bool option"
  usr_ResendFromEmail :: string
  usr_ResendFromName :: string
  usr_ResetTTLHours :: "int option"
  usr_ScoreboardVisible :: "string option"
  usr_SubmitLimitDurationMin :: "int option"
  usr_SubmitLimitPerUser :: "int option"
  usr_VerifyEmails :: "bool option"
  usr_VerifyTTLHours :: "int option"

record create_team_request =
  ctr_ConfirmReset :: "bool option"
  ctr_Name :: string

record join_team_request =
  jtr_ConfirmReset :: "bool option"
  jtr_InviteToken :: string

record create_award_request =
  car_Description :: string
  car_TeamID :: string
  car_Value :: int

record register_request =
  rr_CustomFields :: "(string \<times> string) list option"
  rr_Email :: "string option"
  rr_Password :: "string option"
  rr_Username :: "string option"

record login_request =
  lr_Email :: "string option"
  lr_Password :: string

record create_api_token_request =
  catr_Description :: "string option"
  catr_ExpiresAt :: "time option"

record reset_password_request =
  rpr_NewPassword :: "string option"
  rpr_Token :: string

text \<open>Tag identifiers that do not parse are dropped.\<close>

definition parse_tag_ids :: "(string \<Rightarrow> uuid option) \<Rightarrow> string list option \<Rightarrow> uuid list" where
  "parse_tag_ids uuid_Parse ids = (case ids of None \<Rightarrow> [] | Some ss \<Rightarrow> List.map_filter uuid_Parse ss)"

text \<open>The parameters that follow title, description and category.\<close>

type_synonym challenge_params =
  "int \<times> int \<times> int \<times> int \<times> string \<times> bool \<times> bool \<times> bool \<times> string option \<times> uuid list"

definition CreateChallengeRequestToParams :: "(string \<Rightarrow> uuid option) \<Rightarrow> create_challenge_request \<Rightarrow> challenge_params" where
  "CreateChallengeRequestToParams uuid_Parse q =
     (ccr_Points q, or_else (ccr_InitialValue q) 500, or_else (ccr_MinValue q) 100, or_else (ccr_Decay q) 20,
      ccr_Flag q, or_else (ccr_IsHidden q) False, or_else (ccr_IsRegex q) False,
      or_else (ccr_IsCaseInsensitive q) False, ccr_FlagFormatRegex q, parse_tag_ids uuid_Parse (ccr_TagIds q))"

definition UpdateChallengeRequestToParams :: "(string \<Rightarrow> uuid option) \<Rightarrow> update_challenge_request \<Rightarrow> challenge_params" where
  "UpdateChallengeRequestToParams uuid_Parse q =
     (ucr_Points q, or_else (ucr_InitialValue q) 500, or_else (ucr_MinValue q) 100, or_else (ucr_Decay q) 20,
      or_else (ucr_Flag q) '''', or_else (ucr_IsHidden q) False, or_else (ucr_IsRegex q) False,
      or_else (ucr_IsCaseInsensitive q) False, ucr_FlagFormatRegex q, parse_tag_ids uuid_Parse (ucr_TagIds q))"

text \<open>The struct literal leaves the team sizes and the times of creation and update at zero.\<close>

definition UpdateCompetitionRequestToEntity :: "update_competition_request \<Rightarrow> int \<Rightarrow> competition" where
  "UpdateCompetitionRequestToEntity q ID =
     \<lparr>comp_ID = ID, comp_Name = upc_Name q, comp_StartTime = upc_StartTime q, comp_EndTime = upc_EndTime q,
      comp_FreezeTime = upc_FreezeTime q, comp_IsPaused = or_else (upc_IsPaused q) False,
      comp_IsPublic = or_else (upc_IsPublic q) False, comp_FlagRegex = upc_FlagRegex q,
      comp_Mode = or_else (upc_Mode q) '''', comp_AllowTeamSwitch = or_else (upc_AllowTeamSwitch q) False,
      comp_MinTeamSize = 0, comp_MaxTeamSize = 0, comp_CreatedAt = 0, comp_UpdatedAt = 0\<rparr>"

definition SetConfigRequestToValueType :: "string option \<Rightarrow> string" where
  "SetConfigRequestToValueType v = (case v of None \<Rightarrow> ConfigTypeString
     | Some t \<Rightarrow> if t = ''int'' then ConfigTypeInt else if t = ''bool'' then ConfigTypeBool
                 else if t = ''json'' then ConfigTypeJSON else ConfigTypeString)"

definition CreateHintRequestToParams :: "hint_request \<Rightarrow> string \<times> int \<times> int" where
  "CreateHintRequestToParams q = (hreq_Content q, or_else (hreq_Cost q) 0, or_else (hreq_OrderIndex q) 0)"

definition UpdateHintRequestToParams :: "hint_request \<Rightarrow> string \<times> int \<times> int" where
  "UpdateHintRequestToParams q = (hreq_Content q, or_else (hreq_Cost q) 0, or_else (hreq_OrderIndex q) 0)"

definition UpdateAppSettingsRequestToEntity :: "update_app_settings_request \<Rightarrow> int \<Rightarrow> app_settings" where
  "UpdateAppSettingsRequestToEntity q ID =
     \<lparr>set_ID = ID, set_AppName = usr_AppName q, set_VerifyEmails = or_else (usr_VerifyEmails q) False,
      set_FrontendURL = usr_FrontendURL q, set_CORSOrigins = usr_CorsOrigins q,
      set_ResendEnabled = or_else (usr_ResendEnabled q) False,
      set_ResendFromEmail = usr_ResendFromEmail q, set_ResendFromName = usr_ResendFromName q,
      set_VerifyTTLHours = or_else (usr_VerifyTTLHours q) 24, set_ResetTTLHours = or_else (usr_ResetTTLHours q) 24,
      set_SubmitLimitPerUser = or_else (usr_SubmitLimitPerUser q) 10,
      set_SubmitLimitDurationMin = or_else (usr_SubmitLimitDurationMin q) 5,
      set_ScoreboardVisible = or_else (usr_ScoreboardVisible q) ''public'',
      set_RegistrationOpen = or_else (usr_RegistrationOpen q) False, set_UpdatedAt = 0\<rparr>"

definition CreateTeamRequestToParams :: "create_team_request \<Rightarrow> string \<times> bool" where
  "CreateTeamRequestToParams q = (ctr_Name q, or_else (ctr_ConfirmReset q) False)"

definition JoinTeamRequestToParams :: "join_team_request \<Rightarrow> string \<times> bool" where
  "JoinTeamRequestToParams q = (jtr_InviteToken q, or_else (jtr_ConfirmReset q) False)"

definition CreateAwardRequestToParams :: "(string \<Rightarrow> uuid option) \<Rightarrow> create_award_request \<Rightarrow> uuid option \<times> int \<times> string" where
  "CreateAwardRequestToParams uuid_Parse q = (uuid_Parse (car_TeamID q), car_Value q, car_Description q)"

definition LoginRequestCredentials :: "login_request \<Rightarrow> string \<times> string" where
  "LoginRequestCredentials q = (or_else (lr_Email q) '''', lr_Password q)"

definition RegisterRequestCredentials :: "register_request \<Rightarrow> string \<times> string \<times> string \<times> (string \<times> string) list" where
  "RegisterRequestCredentials q = (or_else (rr_Username q) '''', or_else (rr_Email q) '''',
     or_else (rr_Password q) '''', or_else (rr_CustomFields q) [])"

definition CreateAPITokenParams :: "create_api_token_request \<Rightarrow> string \<times> time option" where
  "CreateAPITokenParams q = (or_else (catr_Description q) '''', catr_ExpiresAt q)"

definition ResetPasswordRequestParams :: "reset_password_request \<Rightarrow> string \<times> string" where
  "ResetPasswordRequestParams q = (rpr_Token q, or_else (rpr_NewPassword q) '''')"

end
