(* ===== verification/CTF_Router.thy ===== *)
theory CTF_Router
  imports CTF_Http
begin

text \<open>
  The routing table of \<open>v1/router.go\<close>: every route with its method, its pattern, the middleware in
  front of it, outermost first, and the name of its handler. The middleware a group or a \<open>With\<close> adds
  follows the one of the enclosing group. The limiter's window is a parameter of the limiter.
\<close>

record route =
  rt_method :: string
  rt_path :: string
  rt_chain :: "middleware list"
  rt_handler :: string

definition route :: "string \<Rightarrow> string \<Rightarrow> middleware list \<Rightarrow> string \<Rightarrow> route" where
  "route m p mws h = \<lparr>rt_method = m, rt_path = p, rt_chain = mws, rt_handler = h\<rparr>"

text \<open>\<open>Use\<close> on a group: in front of each of its routes.\<close>

definition group_use :: "middleware list \<Rightarrow> route list \<Rightarrow> route list" where
  "group_use mws rs = map (\<lambda>r. r\<lparr>rt_chain := mws @ rt_chain r\<rparr>) rs"

definition setupPublicRoutes :: "route list" where
  "setupPublicRoutes = [
      route ''POST'' ''/auth/login'' [] ''PostAuthLogin'',
      route ''POST'' ''/auth/register'' [] ''PostAuthRegister'',
      route ''GET'' ''/auth/verify-email'' [] ''GetAuthVerifyEmail'',
      route ''POST'' ''/auth/forgot-password'' [] ''PostAuthForgotPassword'',
      route ''POST'' ''/auth/reset-password'' [] ''PostAuthResetPassword'',
      route ''GET'' ''/competition/status'' [] ''GetCompetitionStatus'',
      route ''GET'' ''/scoreboard'' [MLimitIP ''scoreboard:ip'' 30] ''GetScoreboard'',
      route ''GET'' ''/challenges/{ID}/first-blood'' [] ''GetChallengesIDFirstBlood'',
      route ''GET'' ''/users/{ID}'' [] ''GetUsersID'',
      route ''GET'' ''/tags'' [] ''GetTags'',
      route ''GET'' ''/fields'' [] ''GetFields'',
      route ''GET'' ''/brackets'' [] ''GetBrackets'',
      route ''GET'' ''/ratings'' [] ''GetRatings'',
      route ''GET'' ''/ratings/team/{ID}'' [] ''GetRatingsTeamID'',
      route ''GET'' ''/pages'' [] ''GetPages'',
      route ''GET'' ''/pages/{slug}'' [] ''GetPagesSlug'',
      route ''GET'' ''/notifications'' [] ''GetNotifications'',
      route ''GET'' ''/statistics/general'' [] ''GetStatisticsGeneral'',
      route ''GET'' ''/statistics/challenges'' [] ''GetStatisticsChallenges'',
      route ''GET'' ''/statistics/challenges/{id}'' [] ''GetStatisticsChallengesId'',
      route ''GET'' ''/statistics/scoreboard'' [] ''GetStatisticsScoreboard'',
      route ''GET'' ''/scoreboard/graph'' [] ''GetScoreboardGraph'',
      route ''GET'' ''/ws'' [] ''GetWs'',
      route ''GET'' ''/files/download/*'' [] ''Download'']"

definition setupAuthOnlyRoutes :: "route list" where
  "setupAuthOnlyRoutes = group_use [MAuth] [
      route ''POST'' ''/auth/resend-verification'' [] ''PostAuthResendVerification'']"

definition setupTeamRoutes :: "route list" where
  "setupTeamRoutes = [
      route ''GET'' ''/teams/my'' [] ''GetTeamsMy'',
      route ''GET'' ''/teams/{ID}'' [] ''GetTeamsID'',
      route ''POST'' ''/teams/leave'' [] ''PostTeamsLeave'',
      route ''DELETE'' ''/teams/me'' [] ''DeleteTeamsMe'',
      route ''DELETE'' ''/teams/members/{ID}'' [] ''DeleteTeamsMembersID'',
      route ''POST'' ''/teams/transfer-captain'' [] ''PostTeamsTransferCaptain'',
      route ''POST'' ''/teams'' [MRequireVerified] ''PostTeams'',
      route ''POST'' ''/teams/join'' [MRequireVerified] ''PostTeamsJoin'',
      route ''POST'' ''/teams/solo'' [MRequireVerified] ''PostTeamsSolo'']"

definition setupChallengeRoutes :: "int \<Rightarrow> route list" where
  "setupChallengeRoutes submitLimit = [
      route ''GET'' ''/challenges'' [] ''GetChallenges'',
      route ''GET'' ''/challenges/{challengeID}/files'' [] ''GetChallengesChallengeIDFiles'',
      route ''GET'' ''/challenges/{challengeID}/hints'' [] ''GetChallengesChallengeIDHints'',
      route ''GET'' ''/challenges/{challengeID}/comments'' [MCompetitionEnded] ''GetChallengesChallengeIDComments'',
      route ''POST'' ''/challenges/{challengeID}/comments'' [MCompetitionEnded] ''PostChallengesChallengeIDComments'',
      route ''DELETE'' ''/comments/{ID}'' [MCompetitionEnded] ''DeleteCommentsID'',
      route ''POST'' ''/challenges/{ID}/submit'' [MCompetitionActive, MRequireVerified, MRequireTeam,
       MLimitIP ''submit:ip'' (submitLimit * 3), MLimitUser ''submit:user'' submitLimit] ''PostChallengesIDSubmit'',
      route ''POST'' ''/challenges/{challengeID}/hints/{hintID}/unlock'' [MRequireVerified, MRequireTeam] ''PostChallengesChallengeIDHintsHintIDUnlock'']"

definition setupAdminRoutes :: "route list" where
  "setupAdminRoutes = group_use [MAdmin] [
      route ''GET'' ''/admin/competition'' [] ''GetAdminCompetition'',
      route ''PUT'' ''/admin/competition'' [] ''PutAdminCompetition'',
      route ''GET'' ''/admin/settings'' [] ''GetAdminSettings'',
      route ''PUT'' ''/admin/settings'' [] ''PutAdminSettings'',
      route ''GET'' ''/admin/configs'' [] ''GetAdminConfigs'',
      route ''GET'' ''/admin/configs/{key}'' [] ''GetAdminConfigsKey'',
      route ''PUT'' ''/admin/configs/{key}'' [] ''PutAdminConfigsKey'',
      route ''DELETE'' ''/admin/configs/{key}'' [] ''DeleteAdminConfigsKey'',
      route ''POST'' ''/admin/challenges'' [] ''PostAdminChallenges'',
      route ''PUT'' ''/admin/challenges/{ID}'' [] ''PutAdminChallengesID'',
      route ''DELETE'' ''/admin/challenges/{ID}'' [] ''DeleteAdminChallengesID'',
      route ''POST'' ''/admin/challenges/{challengeID}/files'' [] ''PostAdminChallengesChallengeIDFiles'',
      route ''POST'' ''/admin/challenges/{challengeID}/hints'' [] ''PostAdminChallengesChallengeIDHints'',
      route ''PUT'' ''/admin/hints/{ID}'' [] ''PutAdminHintsID'',
      route ''DELETE'' ''/admin/hints/{ID}'' [] ''DeleteAdminHintsID'',
      route ''DELETE'' ''/admin/files/{ID}'' [] ''DeleteAdminFilesID'',
      route ''POST'' ''/admin/awards'' [] ''PostAdminAwards'',
      route ''GET'' ''/admin/awards/team/{teamID}'' [] ''GetAdminAwardsTeamTeamID'',
      route ''POST'' ''/admin/teams/{ID}/ban'' [] ''PostAdminTeamsIDBan'',
      route ''DELETE'' ''/admin/teams/{ID}/ban'' [] ''DeleteAdminTeamsIDBan'',
      route ''PATCH'' ''/admin/teams/{ID}/hidden'' [] ''PatchAdminTeamsIDHidden'',
      route ''PATCH'' ''/admin/teams/{ID}/bracket'' [] ''PatchAdminTeamsIDBracket'',
      route ''POST'' ''/admin/brackets'' [] ''PostAdminBrackets'',
      route ''GET'' ''/admin/brackets/{ID}'' [] ''GetAdminBracketsID'',
      route ''PUT'' ''/admin/brackets/{ID}'' [] ''PutAdminBracketsID'',
      route ''DELETE'' ''/admin/brackets/{ID}'' [] ''DeleteAdminBracketsID'',
      route ''GET'' ''/admin/ctf-events'' [] ''GetAdminCtfEvents'',
      route ''POST'' ''/admin/ctf-events'' [] ''PostAdminCtfEvents'',
      route ''POST'' ''/admin/ctf-events/{ID}/finalize'' [] ''PostAdminCtfEventsIDFinalize'',
      route ''POST'' ''/admin/tags'' [] ''PostAdminTags'',
      route ''PUT'' ''/admin/tags/{ID}'' [] ''PutAdminTagsID'',
      route ''DELETE'' ''/admin/tags/{ID}'' [] ''DeleteAdminTagsID'',
      route ''POST'' ''/admin/fields'' [] ''PostAdminFields'',
      route ''PUT'' ''/admin/fields/{ID}'' [] ''PutAdminFieldsID'',
      route ''DELETE'' ''/admin/fields/{ID}'' [] ''DeleteAdminFieldsID'',
      route ''GET'' ''/admin/pages'' [] ''GetAdminPages'',
      route ''POST'' ''/admin/pages'' [] ''PostAdminPages'',
      route ''GET'' ''/admin/pages/{ID}'' [] ''GetAdminPagesID'',
      route ''PUT'' ''/admin/pages/{ID}'' [] ''PutAdminPagesID'',
      route ''DELETE'' ''/admin/pages/{ID}'' [] ''DeleteAdminPagesID'',
      route ''POST'' ''/admin/notifications'' [] ''PostAdminNotifications'',
      route ''POST'' ''/admin/notifications/user/{userID}'' [] ''PostAdminNotificationsUserUserID'',
      route ''PUT'' ''/admin/notifications/{ID}'' [] ''PutAdminNotificationsID'',
      route ''DELETE'' ''/admin/notifications/{ID}'' [] ''DeleteAdminNotificationsID'',
      route ''GET'' ''/admin/submissions'' [] ''GetAdminSubmissions'',
      route ''GET'' ''/admin/submissions/challenge/{challengeID}'' [] ''GetAdminSubmissionsChallengeChallengeID'',
      route ''GET'' ''/admin/submissions/challenge/{challengeID}/stats'' [] ''GetAdminSubmissionsChallengeChallengeIDStats'',
      route ''GET'' ''/admin/submissions/user/{userID}'' [] ''GetAdminSubmissionsUserUserID'',
      route ''GET'' ''/admin/submissions/team/{teamID}'' [] ''GetAdminSubmissionsTeamTeamID'',
      route ''GET'' ''/admin/export'' [] ''GetAdminExport'',
      route ''GET'' ''/admin/export/zip'' [] ''GetAdminExportZip'',
      route ''POST'' ''/admin/import'' [] ''PostAdminImport'']"

definition setupProtectedRoutes :: "int \<Rightarrow> route list" where
  "setupProtectedRoutes submitLimit = group_use [MAuth, MInjectUser] ([
      route ''GET'' ''/auth/me'' [] ''GetAuthMe'',
      route ''GET'' ''/user/notifications'' [] ''GetUserNotifications'',
      route ''PATCH'' ''/user/notifications/{ID}/read'' [] ''PatchUserNotificationsIDRead'',
      route ''GET'' ''/user/tokens'' [] ''GetUserTokens'',
      route ''POST'' ''/user/tokens'' [] ''PostUserTokens'',
      route ''DELETE'' ''/user/tokens/{ID}'' [] ''DeleteUserTokensID'',
      route ''GET'' ''/files/{ID}/download'' [] ''GetFilesIDDownload''] @
     setupTeamRoutes @ setupChallengeRoutes submitLimit @ setupAdminRoutes)"

definition NewRouter :: "int \<Rightarrow> route list" where
  "NewRouter submitLimit = setupPublicRoutes @ setupAuthOnlyRoutes @ setupProtectedRoutes submitLimit"

end
