(* ===== verification/CTF_Rest.thy ===== *)
theory CTF_Rest
  imports CTF_Requests CTF_Router CTF_Settings
begin

text \<open>
  The controllers of \<open>restapi/v1\<close>. A handler answers the status and the value that the functions of
  \<open>v1/response\<close> turn into JSON; these are outside the model, except that reading the fields of a nil
  pointer panics.
\<close>

section \<open>Replies\<close>

definition RenderOK :: "'a \<Rightarrow> ('s, nat \<times> 'a) rest" where
  "RenderOK x = returnE (200, x)"

definition RenderCreated :: "'a \<Rightarrow> ('s, nat \<times> 'a) rest" where
  "RenderCreated x = returnE (201, x)"

definition RenderNoContent :: "('s, nat \<times> unit) rest" where
  "RenderNoContent = returnE (204, ())"

text \<open>\<open>FromPage(p)\<close> and \<open>FromField(f)\<close> read the fields of the pointer they get.\<close>

definition deref :: "'a option \<Rightarrow> ('s, 'a) rest" where
  "deref p = (case p of None \<Rightarrow> throwE Panicked | Some x \<Rightarrow> returnE x)"

text \<open>\<open>if err := m; err != nil\<close>: the error is a value, a panic goes on.\<close>

definition catchE :: "('s, goerr, 'a) sem \<Rightarrow> ('s, goerr, goerr + 'a) sem" where
  "catchE m s = (case m s of (Inl GoPanic, s') \<Rightarrow> (Inl GoPanic, s') | (r, s') \<Rightarrow> (Inr r, s'))"

definition ParseAuthUserID :: "server \<Rightarrow> request \<Rightarrow> ('s, uuid) rest" where
  "ParseAuthUserID srv r =
     (if GetUserID r = '''' then throwE (RenderErrorWithCode 401 ''not authenticated'' ''UNAUTHORIZED'')
      else case srv_uuid_Parse srv (GetUserID r) of
        None \<Rightarrow> throwE (RenderErrorWithCode 400 ''invalid user ID format'' ''INVALID_USER_ID'')
      | Some u \<Rightarrow> returnE u)"

abbreviation srv_IP :: "server \<Rightarrow> request \<Rightarrow> string" where
  "srv_IP srv \<equiv> GetClientIP (srv_SplitHostPort srv)"

abbreviation srv_ParseUUID :: "server \<Rightarrow> string \<Rightarrow> ('s, uuid) rest" where
  "srv_ParseUUID srv \<equiv> ParseUUID (srv_uuid_Parse srv)"

abbreviation srv_coll :: "server \<Rightarrow> collation" where
  "srv_coll srv \<equiv> ax_collation (srv_ext srv)"

section \<open>Challenges\<close>

definition GetChallenges :: "server \<Rightarrow> string option \<Rightarrow> (world, nat \<times> challenge_with_tags list) handler" where
  "GetChallenges srv tag r =
     bindE (RequireUser r) (\<lambda>u.
     let tagID = (case tag of None \<Rightarrow> None | Some t \<Rightarrow> if t = '''' then None else srv_uuid_Parse srv t) in
     bindE (OnError (Challenge_GetAll (srv_chal srv) (user_TeamID u) tagID)) RenderOK)"

text \<open>The attempt is logged whatever the verdict; a failure to log is itself only logged.\<close>

definition PostChallengesIDSubmit :: "server \<Rightarrow> string \<Rightarrow> string body \<Rightarrow> (world, nat \<times> string) handler" where
  "PostChallengesIDSubmit srv ID body r =
     bindE (srv_ParseUUID srv ID) (\<lambda>c.
     bindE (DecodeAndValidate body) (\<lambda>flag.
     bindE (RequireUser r) (\<lambda>u.
     bindE (OnError (Challenge_SubmitFlag (srv_chal srv) c flag (user_ID u) (user_TeamID u))) (\<lambda>(valid, err).
     bindE (OnError nowE) (\<lambda>now.
     bindE (OnError (errE (Submission_LogSubmission \<lparr>sub_ID = 0, sub_UserID = user_ID u, sub_TeamID = user_TeamID u,
        sub_ChallengeID = c, sub_SubmittedFlag = flag, sub_IsCorrect = valid, sub_IP = srv_IP srv r,
        sub_CreatedAt = now\<rparr>))) (\<lambda>_.
     bindE (case err of None \<Rightarrow> returnE () | Some e \<Rightarrow> throwE (Refuse (handle_error e))) (\<lambda>_.
     bindE (failIf (\<not> valid) (RenderError 400 ''invalid flag'')) (\<lambda>_.
     RenderOK ''flag accepted''))))))))"

definition PostAdminChallenges :: "server \<Rightarrow> create_challenge_request body \<Rightarrow> (world, nat \<times> challenge) handler" where
  "PostAdminChallenges srv body r =
     bindE (DecodeAndValidate body) (\<lambda>q.
     case CreateChallengeRequestToParams (srv_uuid_Parse srv) q of
       (points, initialValue, minValue, decay, flag, isHidden, isRegex, isCI, fmt, tagIDs) \<Rightarrow>
     bindE (OnError (Challenge_Create (srv_chal srv) (ccr_Title q) (ccr_Description q) (ccr_Category q)
       points initialValue minValue decay flag isHidden isRegex isCI fmt tagIDs)) RenderCreated)"

definition DeleteAdminChallengesID :: "server \<Rightarrow> string \<Rightarrow> (world, nat \<times> unit) handler" where
  "DeleteAdminChallengesID srv ID r =
     bindE (srv_ParseUUID srv ID) (\<lambda>c.
     bindE (RequireUser r) (\<lambda>u.
     bindE (OnError (Challenge_Delete (srv_chal srv) c (user_ID u) (srv_IP srv r))) (\<lambda>_. RenderNoContent)))"

definition PutAdminChallengesID :: "server \<Rightarrow> string \<Rightarrow> update_challenge_request body \<Rightarrow> (world, nat \<times> challenge) handler" where
  "PutAdminChallengesID srv ID body r =
     bindE (srv_ParseUUID srv ID) (\<lambda>c.
     bindE (DecodeAndValidate body) (\<lambda>q.
     case UpdateChallengeRequestToParams (srv_uuid_Parse srv) q of
       (points, initialValue, minValue, decay, flag, isHidden, isRegex, isCI, fmt, tagIDs) \<Rightarrow>
     bindE (OnError (Challenge_Update (srv_chal srv) c (ucr_Title q) (ucr_Description q) (ucr_Category q)
       points initialValue minValue decay flag isHidden isRegex isCI fmt tagIDs)) RenderOK))"

section \<open>Hints and comments\<close>

definition GetChallengesChallengeIDHints :: "server \<Rightarrow> string \<Rightarrow> (world, nat \<times> hint_with_unlock list) handler" where
  "GetChallengesChallengeIDHints srv challengeID r =
     bindE (srv_ParseUUID srv challengeID) (\<lambda>c.
     bindE (RequireUser r) (\<lambda>u.
     bindE (OnError (Hint_GetByChallengeID c (user_TeamID u))) RenderOK))"

definition PostChallengesChallengeIDHintsHintIDUnlock :: "server \<Rightarrow> string \<Rightarrow> string \<Rightarrow> (world, nat \<times> hint) handler" where
  "PostChallengesChallengeIDHintsHintIDUnlock srv challengeID hintID r =
     bindE (srv_ParseUUID srv hintID) (\<lambda>h.
     bindE (RequireUser r) (\<lambda>u.
     case user_TeamID u of
       None \<Rightarrow> throwE (RenderError 400 ''user must be in a team'')
     | Some t \<Rightarrow> bindE (OnError (Hint_UnlockHint (srv_hints srv) t h)) RenderOK))"

definition PostAdminChallengesChallengeIDHints :: "server \<Rightarrow> string \<Rightarrow> hint_request body \<Rightarrow> (world, nat \<times> hint) handler" where
  "PostAdminChallengesChallengeIDHints srv challengeID body r =
     bindE (srv_ParseUUID srv challengeID) (\<lambda>c.
     bindE (DecodeAndValidate body) (\<lambda>q.
     case CreateHintRequestToParams q of (content, cost, orderIndex) \<Rightarrow>
     bindE (OnError (Hint_Create c content cost orderIndex)) RenderCreated))"

definition PutAdminHintsID :: "server \<Rightarrow> string \<Rightarrow> hint_request body \<Rightarrow> (world, nat \<times> hint) handler" where
  "PutAdminHintsID srv ID body r =
     bindE (srv_ParseUUID srv ID) (\<lambda>h.
     bindE (DecodeAndValidate body) (\<lambda>q.
     case UpdateHintRequestToParams q of (content, cost, orderIndex) \<Rightarrow>
     bindE (OnError (Hint_Update h content cost orderIndex)) RenderOK))"

definition DeleteAdminHintsID :: "server \<Rightarrow> string \<Rightarrow> (world, nat \<times> unit) handler" where
  "DeleteAdminHintsID srv ID r =
     bindE (srv_ParseUUID srv ID) (\<lambda>h. bindE (OnError (Hint_Delete h)) (\<lambda>_. RenderNoContent))"

definition GetChallengesChallengeIDComments :: "server \<Rightarrow> string \<Rightarrow> (world, nat \<times> comment list) handler" where
  "GetChallengesChallengeIDComments srv challengeID r =
     bindE (srv_ParseUUID srv challengeID) (\<lambda>c. bindE (OnError (Comment_GetByChallengeID c)) RenderOK)"

definition PostChallengesChallengeIDComments :: "server \<Rightarrow> string \<Rightarrow> string body \<Rightarrow> (world, nat \<times> comment) handler" where
  "PostChallengesChallengeIDComments srv challengeID body r =
     bindE (RequireUser r) (\<lambda>u.
     bindE (srv_ParseUUID srv challengeID) (\<lambda>c.
     bindE (DecodeAndValidate body) (\<lambda>content.
     bindE (OnError (Comment_Create (user_ID u) c content)) RenderCreated)))"

definition DeleteCommentsID :: "server \<Rightarrow> string \<Rightarrow> (world, nat \<times> unit) handler" where
  "DeleteCommentsID srv ID r =
     bindE (RequireUser r) (\<lambda>u.
     bindE (srv_ParseUUID srv ID) (\<lambda>c.
     bindE (OnError (Comment_Delete c (user_ID u))) (\<lambda>_. RenderNoContent)))"

section \<open>Teams and awards\<close>

text \<open>A team, or the request for a confirmation.\<close>

definition PostTeams ::
  "server \<Rightarrow> create_team_request body \<Rightarrow> (world, nat \<times> (confirm_reason \<times> affected_data option + team option)) handler" where
  "PostTeams srv body r =
     bindE (DecodeAndValidate body) (\<lambda>q.
     bindE (RequireUser r) (\<lambda>u.
     case CreateTeamRequestToParams q of (name, confirmReset) \<Rightarrow>
     if confirmReset then
       bindE (OnError (Team_ConfirmCreate name (user_ID u) False)) (\<lambda>t. RenderCreated (Inr (Some t)))
     else
       bindE (OnError (Team_TryCreate name (user_ID u) False)) (\<lambda>result.
       if res_RequiresConfirm result
       then RenderOK (Inl (res_ConfirmationReason result, res_AffectedData result))
       else RenderCreated (Inr (res_Team result)))))"

definition PostTeamsJoin :: "server \<Rightarrow> join_team_request body \<Rightarrow> (world, nat \<times> team) handler" where
  "PostTeamsJoin srv body r =
     bindE (DecodeAndValidate body) (\<lambda>q.
     bindE (RequireUser r) (\<lambda>u.
     case JoinTeamRequestToParams q of (inviteToken, confirmReset) \<Rightarrow>
     bindE (srv_ParseUUID srv inviteToken) (\<lambda>token.
     bindE (OnError (Team_Join (srv_teams srv) token (user_ID u) confirmReset)) RenderOK)))"

definition PostTeamsLeave :: "server \<Rightarrow> (world, nat \<times> string) handler" where
  "PostTeamsLeave srv r =
     bindE (RequireUser r) (\<lambda>u.
     bindE (OnError (Team_Leave (user_ID u))) (\<lambda>_. RenderOK ''Successfully left the team''))"

definition DeleteTeamsMe :: "server \<Rightarrow> (world, nat \<times> string) handler" where
  "DeleteTeamsMe srv r =
     bindE (RequireUser r) (\<lambda>u.
     bindE (OnError (Team_DisbandTeam (user_ID u))) (\<lambda>_. RenderOK ''Team disbanded successfully''))"

definition DeleteTeamsMembersID :: "server \<Rightarrow> string \<Rightarrow> (world, nat \<times> string) handler" where
  "DeleteTeamsMembersID srv ID r =
     bindE (RequireUser r) (\<lambda>u.
     bindE (srv_ParseUUID srv ID) (\<lambda>target.
     bindE (OnError (Team_KickMember (user_ID u) target)) (\<lambda>_. RenderOK ''Member kicked successfully'')))"

definition GetTeamsMy :: "server \<Rightarrow> (world, nat \<times> team \<times> user list) handler" where
  "GetTeamsMy srv r =
     bindE (RequireUser r) (\<lambda>u.
     bindE (OnError (errE (Team_GetMyTeam (user_ID u)))) (\<lambda>x. case x of
         Inl e \<Rightarrow> throwE (if is_sentinel e ErrTeamNotFound then RenderError 404 ''user is not in a team''
                         else Refuse (handle_error e))
       | Inr (t, ms) \<Rightarrow> RenderOK (t, ms)))"

definition PostTeamsSolo :: "server \<Rightarrow> create_team_request body \<Rightarrow> (world, nat \<times> team) handler" where
  "PostTeamsSolo srv body r =
     bindE (RequireUser r) (\<lambda>u.
     bindE (DecodeAndValidate body) (\<lambda>q.
     case CreateTeamRequestToParams q of (_, confirmReset) \<Rightarrow>
     bindE (OnError (Team_CreateSoloTeam (user_ID u) confirmReset)) RenderCreated))"

definition PostTeamsTransferCaptain :: "server \<Rightarrow> string body \<Rightarrow> (world, nat \<times> string) handler" where
  "PostTeamsTransferCaptain srv body r =
     bindE (DecodeAndValidate body) (\<lambda>newCaptainID.
     bindE (RequireUser r) (\<lambda>u.
     bindE (srv_ParseUUID srv newCaptainID) (\<lambda>c.
     bindE (OnError (Team_TransferCaptain (user_ID u) c)) (\<lambda>_.
     RenderOK ''Captainship transferred successfully''))))"

definition GetTeamsID :: "server \<Rightarrow> string \<Rightarrow> (world, nat \<times> team) handler" where
  "GetTeamsID srv ID r = bindE (srv_ParseUUID srv ID) (\<lambda>t. bindE (OnError (Team_GetByID t)) RenderOK)"

definition PostAdminTeamsIDBan :: "server \<Rightarrow> string \<Rightarrow> string body \<Rightarrow> (world, nat \<times> string) handler" where
  "PostAdminTeamsIDBan srv ID body r =
     bindE (srv_ParseUUID srv ID) (\<lambda>t.
     bindE (DecodeAndValidate body) (\<lambda>reason.
     bindE (OnError (Team_BanTeam (srv_teams srv) t reason)) (\<lambda>_. RenderOK ''team banned'')))"

definition DeleteAdminTeamsIDBan :: "server \<Rightarrow> string \<Rightarrow> (world, nat \<times> string) handler" where
  "DeleteAdminTeamsIDBan srv ID r =
     bindE (srv_ParseUUID srv ID) (\<lambda>t.
     bindE (OnError (Team_UnbanTeam (srv_teams srv) t)) (\<lambda>_. RenderOK ''team unbanned''))"

definition PatchAdminTeamsIDHidden :: "server \<Rightarrow> string \<Rightarrow> bool option body \<Rightarrow> (world, nat \<times> bool) handler" where
  "PatchAdminTeamsIDHidden srv ID body r =
     bindE (srv_ParseUUID srv ID) (\<lambda>t.
     bindE (DecodeAndValidate body) (\<lambda>h.
     bindE (OnError (Team_SetHidden (srv_teams srv) t (or_else h False))) (\<lambda>_. RenderOK (or_else h False))))"

definition PatchAdminTeamsIDBracket :: "server \<Rightarrow> string \<Rightarrow> uuid option body \<Rightarrow> (world, nat \<times> team) handler" where
  "PatchAdminTeamsIDBracket srv ID body r =
     bindE (srv_ParseUUID srv ID) (\<lambda>t.
     bindE (DecodeAndValidate body) (\<lambda>bracketID.
     bindE (OnError (Team_SetBracket (srv_teams srv) t bracketID)) (\<lambda>_.
     bindE (OnError (Team_GetByID t)) RenderOK)))"

definition PostAdminAwards :: "server \<Rightarrow> create_award_request body \<Rightarrow> (world, nat \<times> award) handler" where
  "PostAdminAwards srv body r =
     bindE (DecodeAndValidate body) (\<lambda>q.
     case CreateAwardRequestToParams (srv_uuid_Parse srv) q of (teamID, v, description) \<Rightarrow>
     case teamID of None \<Rightarrow> throwE (RenderError 400 ''invalid team ID'')
     | Some t \<Rightarrow>
     bindE (RequireUser r) (\<lambda>u.
     bindE (OnError (Award_Create (srv_awards srv) t v description (user_ID u))) RenderCreated))"

definition GetAdminAwardsTeamTeamID :: "server \<Rightarrow> string \<Rightarrow> (world, nat \<times> award list) handler" where
  "GetAdminAwardsTeamTeamID srv teamID r =
     bindE (srv_ParseUUID srv teamID) (\<lambda>t. bindE (OnError (Award_GetByTeamID t)) RenderOK)"

end
