(* ===== verification/CTF_RestAdmin.thy ===== *)
theory CTF_RestAdmin
  imports CTF_Rest
begin

text \<open>
  The remaining controllers: brackets, tags, pages, fields, settings, configuration, competition,
  scoreboard, accounts and the submission log.
\<close>

section \<open>Brackets, tags, pages and fields\<close>

record bracket_request =
  breq_Description :: "string option"
  breq_IsDefault :: "bool option"
  breq_Name :: string

record tag_request =
  treq_Color :: "string option"
  treq_Name :: string

record page_request =
  preq_Content :: "string option"
  preq_IsDraft :: "bool option"
  preq_OrderIndex :: "int option"
  preq_Slug :: string
  preq_Title :: string

record create_field_request =
  cfr_EntityType :: string
  cfr_FieldType :: string
  cfr_Name :: string
  cfr_Options :: "string list option"
  cfr_OrderIndex :: "int option"
  cfr_Required :: "bool option"

record update_field_request =
  ufr_FieldType :: string
  ufr_Name :: string
  ufr_Options :: "string list option"
  ufr_OrderIndex :: "int option"
  ufr_Required :: "bool option"

definition GetBrackets :: "server \<Rightarrow> (world, nat \<times> bracket list) handler" where
  "GetBrackets srv r = bindE (OnError (Bracket_GetAll (srv_coll srv))) RenderOK"

definition PostAdminBrackets :: "server \<Rightarrow> bracket_request body \<Rightarrow> (world, nat \<times> bracket) handler" where
  "PostAdminBrackets srv body r =
     bindE (DecodeAndValidate body) (\<lambda>q.
     bindE (OnError (Bracket_Create (breq_Name q) (or_else (breq_Description q) '''') (or_else (breq_IsDefault q) False)))
       RenderCreated)"

definition GetAdminBracketsID :: "server \<Rightarrow> string \<Rightarrow> (world, nat \<times> bracket) handler" where
  "GetAdminBracketsID srv ID r = bindE (srv_ParseUUID srv ID) (\<lambda>b. bindE (OnError (Bracket_GetByID b)) RenderOK)"

definition PutAdminBracketsID :: "server \<Rightarrow> string \<Rightarrow> bracket_request body \<Rightarrow> (world, nat \<times> bracket) handler" where
  "PutAdminBracketsID srv ID body r =
     bindE (srv_ParseUUID srv ID) (\<lambda>b.
     bindE (DecodeAndValidate body) (\<lambda>q.
     bindE (OnError (Bracket_Update b (breq_Name q) (or_else (breq_Description q) '''') (or_else (breq_IsDefault q) False)))
       RenderOK))"

definition DeleteAdminBracketsID :: "server \<Rightarrow> string \<Rightarrow> (world, nat \<times> unit) handler" where
  "DeleteAdminBracketsID srv ID r =
     bindE (srv_ParseUUID srv ID) (\<lambda>b. bindE (OnError (Bracket_Delete b)) (\<lambda>_. RenderNoContent))"

definition GetTags :: "server \<Rightarrow> (world, nat \<times> tag list) handler" where
  "GetTags srv r = bindE (OnError (TagUseCase_GetAll (srv_coll srv))) RenderOK"

definition PostAdminTags :: "server \<Rightarrow> tag_request body \<Rightarrow> (world, nat \<times> tag) handler" where
  "PostAdminTags srv body r =
     bindE (DecodeAndValidate body) (\<lambda>q.
     bindE (OnError (TagUseCase_Create (treq_Name q) (or_else (treq_Color q) ''''))) RenderCreated)"

definition PutAdminTagsID :: "server \<Rightarrow> string \<Rightarrow> tag_request body \<Rightarrow> (world, nat \<times> tag) handler" where
  "PutAdminTagsID srv ID body r =
     bindE (srv_ParseUUID srv ID) (\<lambda>t.
     bindE (DecodeAndValidate body) (\<lambda>q.
     bindE (OnError (TagUseCase_Update t (treq_Name q) (or_else (treq_Color q) ''''))) RenderOK))"

definition DeleteAdminTagsID :: "server \<Rightarrow> string \<Rightarrow> (world, nat \<times> unit) handler" where
  "DeleteAdminTagsID srv ID r =
     bindE (srv_ParseUUID srv ID) (\<lambda>t. bindE (OnError (TagUseCase_Delete t)) (\<lambda>_. RenderNoContent))"

definition GetPages :: "server \<Rightarrow> (world, nat \<times> page_list_item list) handler" where
  "GetPages srv r = bindE (OnError Page_GetPublishedList) RenderOK"

definition GetPagesSlug :: "server \<Rightarrow> string \<Rightarrow> (world, nat \<times> page) handler" where
  "GetPagesSlug srv slug r = bindE (OnError (Page_GetBySlug slug)) RenderOK"

definition GetAdminPages :: "server \<Rightarrow> (world, nat \<times> page list) handler" where
  "GetAdminPages srv r = bindE (OnError Page_GetAllList) RenderOK"

definition PostAdminPages :: "server \<Rightarrow> page_request body \<Rightarrow> (world, nat \<times> page) handler" where
  "PostAdminPages srv body r =
     bindE (DecodeAndValidate body) (\<lambda>q.
     bindE (OnError (Page_Create (preq_Title q) (preq_Slug q) (or_else (preq_Content q) '''')
       (or_else (preq_IsDraft q) True) (or_else (preq_OrderIndex q) 0))) RenderCreated)"

definition GetAdminPagesID :: "server \<Rightarrow> string \<Rightarrow> (world, nat \<times> page) handler" where
  "GetAdminPagesID srv ID r = bindE (srv_ParseUUID srv ID) (\<lambda>p. bindE (OnError (Page_GetByID p)) RenderOK)"

text \<open>The use case answers nil for a blank title or slug, and the reply reads its fields.\<close>

definition PutAdminPagesID :: "server \<Rightarrow> string \<Rightarrow> page_request body \<Rightarrow> (world, nat \<times> page) handler" where
  "PutAdminPagesID srv ID body r =
     bindE (srv_ParseUUID srv ID) (\<lambda>p.
     bindE (DecodeAndValidate body) (\<lambda>q.
     bindE (OnError (Page_Update p (preq_Title q) (preq_Slug q) (or_else (preq_Content q) '''')
       (or_else (preq_IsDraft q) False) (or_else (preq_OrderIndex q) 0))) (\<lambda>page.
     bindE (deref page) RenderOK)))"

definition DeleteAdminPagesID :: "server \<Rightarrow> string \<Rightarrow> (world, nat \<times> unit) handler" where
  "DeleteAdminPagesID srv ID r =
     bindE (srv_ParseUUID srv ID) (\<lambda>p. bindE (OnError (Page_Delete p)) (\<lambda>_. RenderNoContent))"

definition GetFields :: "server \<Rightarrow> string \<Rightarrow> (world, nat \<times> field list) handler" where
  "GetFields srv param r =
     bindE (OnError (Field_GetByEntityType (srv_coll srv) (if param = ''team'' then EntityTypeTeam else EntityTypeUser)))
       RenderOK"

definition PostAdminFields :: "server \<Rightarrow> create_field_request body \<Rightarrow> (world, nat \<times> field) handler" where
  "PostAdminFields srv body r =
     bindE (DecodeAndValidate body) (\<lambda>q.
     bindE (OnError (Field_Create (cfr_Name q) (cfr_FieldType q) (cfr_EntityType q) (or_else (cfr_Required q) False)
       (or_else (cfr_Options q) []) (or_else (cfr_OrderIndex q) 0))) RenderCreated)"

definition PutAdminFieldsID :: "server \<Rightarrow> string \<Rightarrow> update_field_request body \<Rightarrow> (world, nat \<times> field) handler" where
  "PutAdminFieldsID srv ID body r =
     bindE (srv_ParseUUID srv ID) (\<lambda>f.
     bindE (DecodeAndValidate body) (\<lambda>q.
     bindE (OnError (Field_Update f (ufr_Name q) (ufr_FieldType q) (or_else (ufr_Required q) False)
       (or_else (ufr_Options q) []) (or_else (ufr_OrderIndex q) 0))) (\<lambda>field.
     bindE (deref field) RenderOK)))"

definition DeleteAdminFieldsID :: "server \<Rightarrow> string \<Rightarrow> (world, nat \<times> unit) handler" where
  "DeleteAdminFieldsID srv ID r =
     bindE (srv_ParseUUID srv ID) (\<lambda>f. bindE (OnError (Field_Delete f)) (\<lambda>_. RenderNoContent))"

section \<open>Settings, configuration, competition and scoreboard\<close>

definition GetAdminSettings :: "server \<Rightarrow> (world, nat \<times> app_settings) handler" where
  "GetAdminSettings srv r = bindE (OnError Settings_Get) RenderOK"

definition PutAdminSettings :: "server \<Rightarrow> update_app_settings_request body \<Rightarrow> (world, nat \<times> string) handler" where
  "PutAdminSettings srv body r =
     bindE (DecodeAndValidate body) (\<lambda>q.
     bindE (RequireUser r) (\<lambda>u.
     bindE (OnError (Settings_Update (UpdateAppSettingsRequestToEntity q 1) (user_ID u) (srv_IP srv r))) (\<lambda>_.
     RenderOK ''settings updated'')))"

text \<open>The handlers of the dynamic configuration work on its cache and the world.\<close>

definition GetAdminConfigs ::
  "server \<Rightarrow> ((string \<times> config) list \<Rightarrow> (string \<times> config) list) \<Rightarrow> (dyn_config \<times> world, nat \<times> config list) handler" where
  "GetAdminConfigs srv iter r = bindE (OnError (Dyn_GetAll iter (srv_coll srv))) RenderOK"

definition GetAdminConfigsKey :: "server \<Rightarrow> string \<Rightarrow> (dyn_config \<times> world, nat \<times> config) handler" where
  "GetAdminConfigsKey srv key r = bindE (OnError (Dyn_Get (srv_coll srv) key)) RenderOK"

record set_config_request =
  scr_Description :: "string option"
  scr_Value :: string
  scr_ValueType :: "string option"

definition PutAdminConfigsKey ::
  "server \<Rightarrow> string \<Rightarrow> set_config_request body \<Rightarrow> (dyn_config \<times> world, nat \<times> string) handler" where
  "PutAdminConfigsKey srv key body r =
     bindE (DecodeAndValidate body) (\<lambda>q.
     bindE (RequireUser r) (\<lambda>u.
     bindE (OnError (Dyn_Set key (scr_Value q) (or_else (scr_Description q) '''')
       (SetConfigRequestToValueType (scr_ValueType q)) (user_ID u) (srv_IP srv r))) (\<lambda>_.
     RenderOK ''config updated'')))"

definition DeleteAdminConfigsKey :: "server \<Rightarrow> string \<Rightarrow> (dyn_config \<times> world, nat \<times> unit) handler" where
  "DeleteAdminConfigsKey srv key r =
     bindE (RequireUser r) (\<lambda>u.
     bindE (OnError (Dyn_Delete key (user_ID u) (srv_IP srv r))) (\<lambda>_. RenderNoContent))"

definition GetCompetitionStatus :: "server \<Rightarrow> (world, nat \<times> competition) handler" where
  "GetCompetitionStatus srv r = bindE (OnError CompetitionUseCase_Get) RenderOK"

definition GetAdminCompetition :: "server \<Rightarrow> (world, nat \<times> competition) handler" where
  "GetAdminCompetition srv r = bindE (OnError CompetitionUseCase_Get) RenderOK"

definition validateCompetitionTimes :: "time option \<Rightarrow> time option \<Rightarrow> time option \<Rightarrow> string" where
  "validateCompetitionTimes startTime endTime freezeTime =
     (if (case (endTime, startTime) of (Some e, Some s) \<Rightarrow> e < s | _ \<Rightarrow> False) then ''end_time must be after start_time''
      else if (case (freezeTime, endTime) of (Some f, Some e) \<Rightarrow> e < f | _ \<Rightarrow> False) then ''freeze_time must be before end_time''
      else if (case (freezeTime, startTime) of (Some f, Some s) \<Rightarrow> f < s | _ \<Rightarrow> False) then ''freeze_time must be after start_time''
      else '''')"

definition PutAdminCompetition :: "server \<Rightarrow> update_competition_request body \<Rightarrow> (world, nat \<times> string) handler" where
  "PutAdminCompetition srv body r =
     bindE (DecodeAndValidate body) (\<lambda>q.
     bindE (failIf (upc_Name q = '''') (RenderError 400 ''name is required'')) (\<lambda>_.
     let err = validateCompetitionTimes (upc_StartTime q) (upc_EndTime q) (upc_FreezeTime q) in
     bindE (failIf (err \<noteq> '''') (RenderError 400 err)) (\<lambda>_.
     bindE (RequireUser r) (\<lambda>u.
     bindE (OnError (CompetitionUseCase_Update (UpdateCompetitionRequestToEntity q 1) (user_ID u) (srv_IP srv r))) (\<lambda>_.
     RenderOK ''competition updated'')))))"

definition GetScoreboard :: "server \<Rightarrow> uuid option \<Rightarrow> (world, nat \<times> scoreboard_entry list) handler" where
  "GetScoreboard srv bracketID r = bindE (OnError (SolveUseCase_GetScoreboard (srv_solves srv) bracketID)) RenderOK"

definition GetChallengesIDFirstBlood :: "server \<Rightarrow> string \<Rightarrow> (world, nat \<times> first_blood_entry) handler" where
  "GetChallengesIDFirstBlood srv ID r =
     bindE (srv_ParseUUID srv ID) (\<lambda>c. bindE (OnError (SolveUseCase_GetFirstBlood c)) RenderOK)"

section \<open>Accounts\<close>

definition PostAuthLogin :: "server \<Rightarrow> login_request body \<Rightarrow> (world, nat \<times> token_pair) handler" where
  "PostAuthLogin srv body r =
     bindE (DecodeAndValidate body) (\<lambda>q.
     case LoginRequestCredentials q of (email, password) \<Rightarrow>
     bindE (OnError (User_Login (srv_users srv) email password)) RenderOK)"

definition PostAuthRegister :: "server \<Rightarrow> register_request body \<Rightarrow> (services \<times> world, nat \<times> user) handler" where
  "PostAuthRegister srv body r =
     bindE (DecodeAndValidate body) (\<lambda>q.
     case RegisterRequestCredentials q of (username, email, password, customFields) \<Rightarrow>
     bindE (OnError (User_Register (srv_users srv) username email password customFields)) (\<lambda>u.
     bindE (OnError (catchE (Email_SendVerificationEmail (srv_email srv) u))) (\<lambda>_.
     RenderCreated u)))"

definition GetAuthMe :: "server \<Rightarrow> (world, nat \<times> user) handler" where
  "GetAuthMe srv r = bindE (RequireUser r) RenderOK"

definition GetUsersID :: "server \<Rightarrow> string \<Rightarrow> (world, nat \<times> user_profile) handler" where
  "GetUsersID srv ID r = bindE (srv_ParseUUID srv ID) (\<lambda>u. bindE (OnError (User_GetProfile u)) RenderOK)"

text \<open>The replies of the two handlers that consume a token.\<close>

definition token_error :: "goerr \<Rightarrow> http_stop" where
  "token_error e =
     (if is_sentinel e ErrTokenNotFound then RenderError 404 ''invalid token''
      else if is_sentinel e ErrTokenExpired then RenderError 410 ''token expired''
      else if is_sentinel e ErrTokenAlreadyUsed then RenderError 409 ''token already used''
      else RenderError 500 ''internal server error'')"

definition GetAuthVerifyEmail :: "server \<Rightarrow> string \<Rightarrow> (world, nat \<times> string) handler" where
  "GetAuthVerifyEmail srv token r =
     bindE (failIf (token = '''') (RenderError 400 ''token is required'')) (\<lambda>_.
     bindE (OnError (errE (Email_VerifyEmail (srv_email srv) token))) (\<lambda>x. case x of
         Inl e \<Rightarrow> throwE (token_error e)
       | Inr _ \<Rightarrow> RenderOK ''email verified successfully''))"

definition CheckRateLimit :: "server \<Rightarrow> string \<Rightarrow> string \<Rightarrow> int \<Rightarrow> bool op" where
  "CheckRateLimit srv keyPrefix keySuffix maxRequests =
     bindE (srv_limiter srv (''limiter:'' @ keyPrefix) maxRequests keySuffix) (\<lambda>reached. returnE (\<not> reached))"

text \<open>The limit in front of a handler: ten requests a day.\<close>

definition limited :: "server \<Rightarrow> string \<Rightarrow> string \<Rightarrow> (services \<times> world, 'a) rest \<Rightarrow> (services \<times> world, 'a) rest" where
  "limited srv keyPrefix keySuffix m =
     bindE (OnError (inWorld (errE (CheckRateLimit srv keyPrefix keySuffix 10)))) (\<lambda>x. case x of
         Inl _ \<Rightarrow> throwE (RenderError 500 ''rate limit check failed'')
       | Inr allowed \<Rightarrow> bindE (failIf (\<not> allowed) (RenderError 429 ''too many requests'')) (\<lambda>_. m))"

definition PostAuthForgotPassword :: "server \<Rightarrow> string option body \<Rightarrow> (services \<times> world, nat \<times> string) handler" where
  "PostAuthForgotPassword srv body r =
     limited srv ''forgot'' (srv_IP srv r)
       (bindE (DecodeAndValidate body) (\<lambda>email.
        bindE (OnError (catchE (Email_SendPasswordResetEmail (srv_email srv) (or_else email '''')))) (\<lambda>_.
        RenderOK ''if an account exists with this email, a password reset link has been sent'')))"

definition PostAuthResetPassword :: "server \<Rightarrow> reset_password_request body \<Rightarrow> (services \<times> world, nat \<times> string) handler" where
  "PostAuthResetPassword srv body r =
     bindE (DecodeAndValidate body) (\<lambda>q.
     case ResetPasswordRequestParams q of (token, newPassword) \<Rightarrow>
     bindE (OnError (catchE (Email_ResetPassword (srv_email srv) token newPassword))) (\<lambda>x. case x of
         Inl e \<Rightarrow> throwE (token_error e)
       | Inr _ \<Rightarrow> RenderOK ''password reset successfully''))"

definition PostAuthResendVerification :: "server \<Rightarrow> (services \<times> world, nat \<times> string) handler" where
  "PostAuthResendVerification srv r =
     bindE (ParseAuthUserID srv r) (\<lambda>u.
     limited srv ''resend'' (ax_uuid_String (srv_ext srv) u)
       (bindE (OnError (catchE (Email_ResendVerification (srv_email srv) u))) (\<lambda>x. case x of
          Inl _ \<Rightarrow> throwE (RenderError 500 ''failed to resend verification email'')
        | Inr _ \<Rightarrow> RenderOK ''verification email sent'')))"

definition GetUserTokens :: "server \<Rightarrow> (world, nat \<times> api_token list) handler" where
  "GetUserTokens srv r = bindE (ParseAuthUserID srv r) (\<lambda>u. bindE (OnError (APIToken_List u)) RenderOK)"

definition PostUserTokens :: "server \<Rightarrow> create_api_token_request body \<Rightarrow> (services \<times> world, nat \<times> string \<times> api_token) handler" where
  "PostUserTokens srv body r =
     bindE (ParseAuthUserID srv r) (\<lambda>u.
     bindE (DecodeAndValidate body) (\<lambda>q.
     case CreateAPITokenParams q of (description, expiresAt) \<Rightarrow>
     bindE (OnError (APIToken_Create (srv_ext srv) u description expiresAt)) RenderCreated))"

definition DeleteUserTokensID :: "server \<Rightarrow> string \<Rightarrow> (world, nat \<times> unit) handler" where
  "DeleteUserTokensID srv ID r =
     bindE (ParseAuthUserID srv r) (\<lambda>u.
     bindE (srv_ParseUUID srv ID) (\<lambda>t.
     bindE (OnError (APIToken_Delete t u)) (\<lambda>_. RenderNoContent)))"

section \<open>The submission log\<close>

definition getPagePerPage :: "int option \<Rightarrow> int option \<Rightarrow> int \<times> int" where
  "getPagePerPage page perPage =
     ((case page of Some p \<Rightarrow> if 0 < p then p else 1 | None \<Rightarrow> 1),
      (case perPage of Some n \<Rightarrow> if 0 < n \<and> n \<le> 100 then n else 20 | None \<Rightarrow> 20))"

definition GetAdminSubmissions ::
  "server \<Rightarrow> scan \<Rightarrow> int option \<Rightarrow> int option \<Rightarrow> (world, nat \<times> (submission_with_details list \<times> int) \<times> int \<times> int) handler" where
  "GetAdminSubmissions srv scan page perPage r =
     (case getPagePerPage page perPage of (p, n) \<Rightarrow>
      bindE (OnError (Submission_GetAll scan p n)) (\<lambda>x. RenderOK (x, p, n)))"

definition GetAdminSubmissionsChallengeChallengeID ::
  "server \<Rightarrow> scan \<Rightarrow> string \<Rightarrow> int option \<Rightarrow> int option \<Rightarrow> (world, nat \<times> (submission_with_details list \<times> int) \<times> int \<times> int) handler" where
  "GetAdminSubmissionsChallengeChallengeID srv scan challengeID page perPage r =
     bindE (srv_ParseUUID srv challengeID) (\<lambda>c.
     case getPagePerPage page perPage of (p, n) \<Rightarrow>
     bindE (OnError (Submission_GetByChallenge scan c p n)) (\<lambda>x. RenderOK (x, p, n)))"

definition GetAdminSubmissionsChallengeChallengeIDStats :: "server \<Rightarrow> string \<Rightarrow> (world, nat \<times> submission_stats) handler" where
  "GetAdminSubmissionsChallengeChallengeIDStats srv challengeID r =
     bindE (srv_ParseUUID srv challengeID) (\<lambda>c. bindE (OnError (Submission_GetStats c)) RenderOK)"

definition GetAdminSubmissionsUserUserID ::
  "server \<Rightarrow> scan \<Rightarrow> string \<Rightarrow> int option \<Rightarrow> int option \<Rightarrow> (world, nat \<times> (submission_with_details list \<times> int) \<times> int \<times> int) handler" where
  "GetAdminSubmissionsUserUserID srv scan userID page perPage r =
     bindE (srv_ParseUUID srv userID) (\<lambda>u.
     case getPagePerPage page perPage of (p, n) \<Rightarrow>
     bindE (OnError (Submission_GetByUser scan u p n)) (\<lambda>x. RenderOK (x, p, n)))"

definition GetAdminSubmissionsTeamTeamID ::
  "server \<Rightarrow> scan \<Rightarrow> string \<Rightarrow> int option \<Rightarrow> int option \<Rightarrow> (world, nat \<times> (submission_with_details list \<times> int) \<times> int \<times> int) handler" where
  "GetAdminSubmissionsTeamTeamID srv scan teamID page perPage r =
     bindE (srv_ParseUUID srv teamID) (\<lambda>t.
     case getPagePerPage page perPage of (p, n) \<Rightarrow>
     bindE (OnError (Submission_GetByTeam scan t p n)) (\<lambda>x. RenderOK (x, p, n)))"

end
