(* ===== verification/CTF_RestProps.thy ===== *)
theory CTF_RestProps
  imports CTF_RestAdmin CTF_SubmitProps CTF_AccountProps CTF_HintProps
begin

text \<open>
  What the routes promise: the routes of administration answer administrators only, the submission route
  runs all its checks and logs what it decides; and two replies that go wrong.
\<close>

section \<open>Running a handler\<close>

lemma serve_simps [simp]:
  "serve srv [] h = h" "serve srv (m # ms) h = run_middleware srv m (serve srv ms h)"
  by (simp_all add: serve_def)

lemma OnError_Inr_iff: "OnError m s = (Inr x, s') \<longleftrightarrow> m s = (Inr x, s')"
  by (auto simp: OnError_def split: prod.splits sum.splits)

lemma OnError_Inl: "OnError m s = (Inl e, s') \<Longrightarrow> \<exists>e'. m s = (Inl e', s')"
  by (auto simp: OnError_def split: prod.splits sum.splits if_splits)

lemma keeps_OnError [valid_rules]: "keeps I m \<Longrightarrow> keeps I (OnError m)"
  by (rule keepsI) (auto simp: OnError_def split: prod.splits sum.splits if_splits dest: keepsD)

text \<open>Only the time an API token was last used may differ: no token comes, goes or changes otherwise.\<close>

definition token_itself :: "api_tokens_row \<Rightarrow> api_tokens_row" where
  "token_itself t = t\<lparr>api_tokens_last_used_at := None\<rparr>"

definition same_but_tokens :: "db \<Rightarrow> db \<Rightarrow> bool" where
  "same_but_tokens d d' \<longleftrightarrow> d' = d\<lparr>api_tokens := api_tokens d'\<rparr> \<and>
     map token_itself (api_tokens d') = map token_itself (api_tokens d)"

lemma same_but_tokens_refl [simp]: "same_but_tokens d d"
  by (simp add: same_but_tokens_def)

lemma same_but_tokens_used:
  assumes "same_but_tokens d s"
  shows "same_but_tokens d (s\<lparr>api_tokens := upd_where P (\<lambda>t. t\<lparr>api_tokens_last_used_at := v\<rparr>) (api_tokens s)\<rparr>)"
proof -
  have "map token_itself (upd_where P (\<lambda>t. t\<lparr>api_tokens_last_used_at := v\<rparr>) ts) = map token_itself ts" for ts
    by (simp add: upd_where_def token_itself_def)
  moreover obtain T where "s = d\<lparr>api_tokens := T\<rparr>" "map token_itself T = map token_itself (api_tokens d)"
    using assms unfolding same_but_tokens_def by blast
  ultimately show ?thesis by (simp add: same_but_tokens_def)
qed

lemma same_but_tokens_tables:
  assumes "same_but_tokens d d'"
  shows "users d' = users d" "teams d' = teams d" "challenges d' = challenges d" "solves d' = solves d"
    "competition d' = competition d" "submissions d' = submissions d" "hint_unlocks d' = hint_unlocks d" "awards d' = awards d"
proof -
  obtain T where "d' = d\<lparr>api_tokens := T\<rparr>" using assms unfolding same_but_tokens_def by blast
  then show "users d' = users d" "teams d' = teams d" "challenges d' = challenges d" "solves d' = solves d"
    "competition d' = competition d" "submissions d' = submissions d" "hint_unlocks d' = hint_unlocks d" "awards d' = awards d"
    by simp_all
qed

section \<open>Readings of the clock\<close>

text \<open>What the \<open>k\<close>-th reading of the clock after this moment shows, counted from 0.\<close>

definition clock_at :: "nat \<Rightarrow> world \<Rightarrow> time" where
  "clock_at k w = clock w + sum_list (map int (take k (ticks w)))"

text \<open>From one world to the other the clock was read at most \<open>n\<close> times, and redis was not written.\<close>

definition passed :: "nat \<Rightarrow> world \<Rightarrow> world \<Rightarrow> bool" where
  "passed n w w' \<longleftrightarrow> redis w' = redis w \<and> (\<exists>k \<le> n. ticks w' = drop k (ticks w) \<and> clock w' = clock_at k w)"

definition reads_clock :: "nat \<Rightarrow> (world, 'e, 'a) sem \<Rightarrow> bool" where
  "reads_clock n m \<longleftrightarrow> (\<forall>w r w'. m w = (r, w') \<longrightarrow> passed n w w')"

lemma reads_clockI: "(\<And>w r w'. m w = (r, w') \<Longrightarrow> passed n w w') \<Longrightarrow> reads_clock n m"
  by (simp add: reads_clock_def)

lemma reads_clockD: "reads_clock n m \<Longrightarrow> m w = (r, w') \<Longrightarrow> passed n w w'"
  by (simp add: reads_clock_def)

lemma passed_refl [simp]: "passed n w w"
  by (auto simp: passed_def clock_at_def)

lemma passed_same: "redis w' = redis w \<Longrightarrow> ticks w' = ticks w \<Longrightarrow> clock w' = clock w \<Longrightarrow> passed n w w'"
  by (auto simp: passed_def clock_at_def intro!: exI [of _ 0])

lemma passed_trans:
  assumes "passed a w w1" "passed b w1 w2" "a + b \<le> n" shows "passed n w w2"
proof -
  from assms(1) obtain j where j: "redis w1 = redis w" "j \<le> a" "ticks w1 = drop j (ticks w)" "clock w1 = clock_at j w"
    by (auto simp: passed_def)
  from assms(2) obtain k where k: "redis w2 = redis w1" "k \<le> b" "ticks w2 = drop k (ticks w1)" "clock w2 = clock_at k w1"
    by (auto simp: passed_def)
  have "clock w2 = clock_at (j + k) w" using j k by (simp add: clock_at_def take_add)
  moreover have "ticks w2 = drop (j + k) (ticks w)" using j k by (simp add: add.commute)
  ultimately show ?thesis
    using j(1,2) k(1,2) assms(3) unfolding passed_def by (metis add_le_mono le_trans)
qed

lemma reads_none:
  "reads_clock n (returnE x)" "reads_clock n (throwE e)" "reads_clock n (liftE r)" "reads_clock n (failIf c e)"
  by (rule reads_clockI, auto simp: failIf_def split: if_splits)+

lemma reads_sql: "reads_clock n (sql q)"
  by (rule reads_clockI) (auto simp: sql_run intro: passed_same split: prod.splits sum.splits if_splits)

lemma reads_nowE: "reads_clock (Suc n) nowE"
proof (rule reads_clockI)
  fix w r w' assume "nowE w = (r, w')"
  then show "passed (Suc n) w w'"
    by (cases "ticks w") (auto simp: nowE_def passed_def clock_at_def intro!: exI [of _ "Suc 0"])
qed

lemma reads_wrapped:
  "reads_clock n m \<Longrightarrow> reads_clock n (mapErr h m)" "reads_clock n p \<Longrightarrow> reads_clock n (errE p)"
  by (auto simp: reads_clock_def mapErr_def errE_def split: prod.splits sum.splits goerr.splits)

lemma reads_bindE:
  assumes "reads_clock a m" "\<And>x. reads_clock b (f x)" "a + b \<le> n"
  shows "reads_clock n (bindE m f)"
proof (rule reads_clockI)
  fix w r w' assume run: "bindE m f w = (r, w')"
  obtain y w1 where y: "m w = (y, w1)" by (cases "m w") blast
  have p: "passed a w w1" using reads_clockD [OF assms(1) y] .
  show "passed n w w'"
  proof (cases y)
    case (Inl e)
    with run y p assms(3) show ?thesis by (auto simp: bindE_def intro: passed_trans [of a w w1 0])
  next
    case (Inr x)
    with run y have "f x w1 = (r, w')" by (simp add: bindE_def)
    from passed_trans [OF p reads_clockD [OF assms(2) this] assms(3)] show ?thesis .
  qed
qed

lemmas reads_then = reads_bindE [where a = 0 and n = n and b = n for n, simplified]
lemmas reads_now_then = reads_bindE [where a = "Suc 0" and n = "Suc n" and b = n for n, simplified]

lemma reads_lookup: "reads_clock n (UserRepo_GetByID u)" "reads_clock n (APITokenRepo_GetByTokenHash h)"
  unfolding UserRepo_GetByID_def APITokenRepo_GetByTokenHash_def
  by (intro reads_then reads_none reads_wrapped reads_sql; auto intro: reads_none reads_wrapped reads_sql split: option.splits sum.splits)+

section \<open>Authentication\<close>

text \<open>The request that goes on carries the identity and role of an access token that validates now, or of
  the user of an API token that is known and has not expired.\<close>

definition authenticated :: "server \<Rightarrow> request \<Rightarrow> world \<Rightarrow> request \<Rightarrow> bool" where
  "authenticated srv r w r' \<longleftrightarrow>
     (\<exists>tok c. split_header (rq_Authorization r) = Some (''Bearer'', tok) \<and>
        fst (ValidateAccessToken (srv_jwt srv) tok w) = Inr c \<and>
        r' = r\<lparr>cx_UserID := Some (cl_UserID c), cx_Role := Some (cl_Role c)\<rparr>) \<or>
     (\<exists>tok t u. split_header (rq_Authorization r) = Some (''Token'', tok) \<and> srv_apiTokens srv \<and>
        t \<in> set (api_tokens (store w)) \<and> api_tokens_token_hash t = ax_sha256 (srv_ext srv) (TrimSpace tok) \<and>
        (case api_tokens_expires_at t of None \<Rightarrow> True | Some e \<Rightarrow> clock w \<le> e) \<and>
        user_row (store w) (api_tokens_user_id t) = Some u \<and>
        r' = r\<lparr>cx_UserID := Some (ax_uuid_String (srv_ext srv) (users_id u)), cx_Role := Some (user_Role (toEntityUser u))\<rparr>)"

lemma keeps_tokens_update [valid_rules]:
  "db_keeps (same_but_tokens d) (APITokenRepo_UpdateLastUsedAt ID t)"
  unfolding APITokenRepo_UpdateLastUsedAt_def sqlc_UpdateAPITokenLastUsed_def
  by (intro valid_rules keeps_modifyE) (erule same_but_tokens_used)

lemma keeps_auth [valid_rules]:
  "db_keeps (same_but_tokens d) (authBearer srv r tok)" "db_keeps (same_but_tokens d) (authAPIToken srv r tok)"
  unfolding authBearer_def authAPIToken_def ValidateAccessToken_def APIToken_GetByTokenHash_def
    APITokenRepo_GetByTokenHash_def sqlc_GetAPITokenByHash_def APIToken_ValidateToken_def User_GetByID_def
    UserRepo_GetByID_def sqlc_GetUserByID_def APIToken_UpdateLastUsedAt_def Let_def
  by (intro valid_rules)+

text \<open>An access token is checked at one reading of the clock; an API token's expiry and its use take one each.\<close>

lemma reads_auth: "reads_clock 2 (authBearer srv r tok)" "reads_clock 2 (authAPIToken srv r tok)"
proof -
  have "reads_clock 1 (ValidateAccessToken (srv_jwt srv) tok)"
    unfolding ValidateAccessToken_def One_nat_def
    by (rule reads_now_then, rule reads_nowE, rule reads_then, intro reads_wrapped reads_none)
      (auto intro!: reads_then reads_none)
  then show "reads_clock 2 (authBearer srv r tok)"
    unfolding authBearer_def
    by (rule reads_bindE [where b = 1, OF reads_wrapped(2)]) (auto intro: reads_none split: sum.splits)
  have valid: "reads_clock (Suc 0) (APIToken_ValidateToken t)" for t
    unfolding APIToken_ValidateToken_def
    by (auto intro: reads_none reads_now_then reads_nowE split: option.splits)
  have used: "reads_clock (Suc 0) (errE (APIToken_UpdateLastUsedAt i))" for i
    unfolding APIToken_UpdateLastUsedAt_def APITokenRepo_UpdateLastUsedAt_def
    by (intro reads_wrapped reads_now_then reads_nowE reads_sql)
  have user: "reads_clock (Suc 0) (bindE (errE (User_GetByID (token_UserID token))) (\<lambda>u. case u of
            Inl _ \<Rightarrow> returnE None
          | Inr u \<Rightarrow>
          bindE (errE (APIToken_UpdateLastUsedAt (token_ID token))) (\<lambda>_.
          returnE (Some (r\<lparr>cx_UserID := Some (ax_uuid_String (srv_ext srv) (user_ID u)),
            cx_Role := Some (user_Role u)\<rparr>)))))" for token
    unfolding User_GetByID_def
    by (rule reads_then, intro reads_wrapped reads_lookup)
      (auto intro!: reads_none reads_now_then used split: sum.splits)
  have token: "reads_clock 2 (bindE (APIToken_ValidateToken (Some token)) (\<lambda>valid.
          if \<not> valid then returnE None
          else
          bindE (errE (User_GetByID (token_UserID token))) (\<lambda>u. case u of
            Inl _ \<Rightarrow> returnE None
          | Inr u \<Rightarrow>
          bindE (errE (APIToken_UpdateLastUsedAt (token_ID token))) (\<lambda>_.
          returnE (Some (r\<lparr>cx_UserID := Some (ax_uuid_String (srv_ext srv) (user_ID u)),
            cx_Role := Some (user_Role u)\<rparr>))))))" for token
    by (rule reads_bindE [where a = "Suc 0" and b = "Suc 0", OF valid]) (auto intro: reads_none user)
  show "reads_clock 2 (authAPIToken srv r tok)"
    unfolding authAPIToken_def APIToken_GetByTokenHash_def Let_def
    by (auto intro!: reads_none reads_then reads_wrapped reads_lookup token split: sum.splits option.splits)
qed

lemma bindE_errE_Inr:
  "bindE (errE m) f w = (Inr r, w') \<longleftrightarrow>
     (\<exists>x w1. m w = (Inr x, w1) \<and> f (Inr x) w1 = (Inr r, w')) \<or>
     (\<exists>e w1. m w = (Inl e, w1) \<and> e \<noteq> GoPanic \<and> f (Inl e) w1 = (Inr r, w'))"
  by (cases "m w"; cases "fst (m w)") (auto simp: bindE_def errE_def split: goerr.splits)

lemma case_Some_Inr:
  "(case t of None \<Rightarrow> returnE None | Some x \<Rightarrow> f x) w = (Inr (Some r), w') \<longleftrightarrow> (\<exists>x. t = Some x \<and> f x w = (Inr (Some r), w'))"
  by (cases t) auto

lemma authBearer_Some:
  assumes "authBearer srv r tok w = (Inr (Some r'), w')"
  obtains c where "fst (ValidateAccessToken (srv_jwt srv) tok w) = Inr c"
    "r' = r\<lparr>cx_UserID := Some (cl_UserID c), cx_Role := Some (cl_Role c)\<rparr>"
  using assms by (auto simp: authBearer_def bindE_errE_Inr)

lemma GetByTokenHash_Some:
  assumes "APITokenRepo_GetByTokenHash h w = (Inr (Some t), w')"
  obtains row where "row \<in> set (api_tokens (store w))" "api_tokens_token_hash row = h" "t = api_token_entity row"
    "store w' = store w" "clock w' = clock w"
proof -
  from assms obtain x rs where "filter (\<lambda>t. api_tokens_token_hash t = h) (api_tokens (store w)) = x # rs"
    "t = api_token_entity x" "w' = use_fault w\<lparr>store := store w\<rparr>"
    by (auto simp: APITokenRepo_GetByTokenHash_def bindE_errE_Inr sql_Inr_iff
        sqlc_GetAPITokenByHash_def select_one_Inr_iff split: if_split_asm)
  then show thesis by (intro that [of x]) (auto simp: filter_eq_Cons_iff)
qed

lemma ValidateToken_True:
  assumes "APIToken_ValidateToken (Some (api_token_entity row)) w = (Inr True, w')"
  shows "case api_tokens_expires_at row of None \<Rightarrow> True | Some e \<Rightarrow> clock w \<le> e" "store w' = store w"
  using assms by (auto simp: APIToken_ValidateToken_def api_token_entity_def bindE_Inr_iff nowE_Inr_iff split: option.splits)

lemma authAPIToken_Some:
  assumes "authAPIToken srv r tok w = (Inr (Some r'), w')"
  obtains t u where "srv_apiTokens srv" "t \<in> set (api_tokens (store w))"
    "api_tokens_token_hash t = ax_sha256 (srv_ext srv) (TrimSpace tok)"
    "case api_tokens_expires_at t of None \<Rightarrow> True | Some e \<Rightarrow> clock w \<le> e"
    "user_row (store w) (api_tokens_user_id t) = Some u"
    "r' = r\<lparr>cx_UserID := Some (ax_uuid_String (srv_ext srv) (users_id u)), cx_Role := Some (user_Role (toEntityUser u))\<rparr>"
proof -
  from assms obtain t w1 w2 u w3 where api: "srv_apiTokens srv"
    and g: "APITokenRepo_GetByTokenHash (ax_sha256 (srv_ext srv) (TrimSpace tok)) w = (Inr (Some t), w1)"
    and v: "APIToken_ValidateToken (Some t) w1 = (Inr True, w2)"
    and u: "UserRepo_GetByID (token_UserID t) w2 = (Inr u, w3)"
    and r': "r' = r\<lparr>cx_UserID := Some (ax_uuid_String (srv_ext srv) (user_ID u)), cx_Role := Some (user_Role u)\<rparr>"
    by (auto simp: authAPIToken_def Let_def bindE_errE_Inr case_Some_Inr APIToken_GetByTokenHash_def
        bindE_Inr_iff [where m = "APIToken_ValidateToken t" for t]
        User_GetByID_def split: if_split_asm)
  obtain row where row: "row \<in> set (api_tokens (store w))"
    "api_tokens_token_hash row = ax_sha256 (srv_ext srv) (TrimSpace tok)" "t = api_token_entity row"
    "store w1 = store w" "clock w1 = clock w"
    by (rule GetByTokenHash_Some [OF g])
  from ValidateToken_True [of row w1 w2] v row have v': "case api_tokens_expires_at row of None \<Rightarrow> True | Some e \<Rightarrow> clock w \<le> e"
    "store w2 = store w" by (auto split: option.splits)
  from UserRepo_GetByID_Inr [OF u] obtain ur where "user_row (store w) (api_tokens_user_id row) = Some ur" "u = toEntityUser ur"
    using row v' by (auto simp: api_token_entity_def)
  with row v' api r' show thesis
    by (intro that [of row ur]) (auto simp: toEntityUser_def)
qed

lemma Auth_cases:
  assumes "Auth srv next r w = (x, w')"
  obtains r' w1 where "authenticated srv r w r'" "same_but_tokens (store w) (store w1)" "next r' w1 = (x, w')" "passed 2 w w1"
  | e where "x = Inl e" "same_but_tokens (store w) (store w')"
proof (cases "rq_Authorization r = '''' \<or> split_header (rq_Authorization r) = None")
  case True
  with assms that(2) show thesis by (auto simp: Auth_def split: option.splits if_splits)
next
  case False
  then obtain scheme tok where h: "split_header (rq_Authorization r) = Some (scheme, tok)" "rq_Authorization r \<noteq> ''''" by auto
  show thesis
  proof (cases "scheme \<noteq> ''Bearer'' \<and> scheme \<noteq> ''Token''")
    case True
    with assms h that(2) show thesis by (auto simp: Auth_def)
  next
    case False
    define m where "m = (if scheme = ''Bearer'' then authBearer srv r tok else authAPIToken srv r tok)"
    obtain y w1 where m: "m w = (y, w1)" by (cases "m w") blast
    have "db_keeps (same_but_tokens (store w)) m" unfolding m_def by (intro valid_rules)
    from keepsD [OF this _ m] have same: "same_but_tokens (store w) (store w1)" by simp
    have "reads_clock 2 m" by (simp add: m_def reads_auth)
    with m have reads: "passed 2 w w1" by (simp add: reads_clock_def)
    have run: "bindE (OnError m) (\<lambda>ctx. case ctx of None \<Rightarrow> throwE (RenderError 401 ''invalid token'') | Some r' \<Rightarrow> next r') w = (x, w')"
      using assms h False unfolding Auth_def m_def by (simp split: if_splits)
    show thesis
    proof (cases "\<exists>r'. y = Inr (Some r')")
      case True
      then obtain r' where y: "y = Inr (Some r')" by blast
      have "authenticated srv r w r'"
      proof (cases "scheme = ''Bearer''")
        case True
        with m y show ?thesis using h unfolding m_def authenticated_def by (auto elim!: authBearer_Some)
      next
        case F: False
        with m y have "authAPIToken srv r tok w = (Inr (Some r'), w1)" unfolding m_def by simp
        then show ?thesis using h F False unfolding authenticated_def by (elim authAPIToken_Some) blast
      qed
      with same reads run m y that(1) show thesis by (simp add: bindE_def OnError_def)
    next
      case None: False
      with run m same that(2) show thesis
        by (auto simp: bindE_def OnError_def split: sum.splits option.splits)
    qed
  qed
qed


section \<open>The checks in front of a handler\<close>

lemma InjectUser_Inr:
  assumes "InjectUser srv next r w = (Inr x, w')"
  obtains "GetUserID r = ''''" "next r w = (Inr x, w')"
  | u row w1 where "srv_uuid_Parse srv (GetUserID r) = Some u" "user_row (store w) u = Some row" "store w1 = store w" "passed 0 w w1"
      "next (r\<lparr>cx_User := Some (toEntityUser row)\<rparr>) w1 = (Inr x, w')"
proof (cases "GetUserID r = ''''")
  case True
  with assms that(1) show thesis by (simp add: InjectUser_def)
next
  case False
  with assms obtain u where u: "srv_uuid_Parse srv (GetUserID r) = Some u"
    by (auto simp: InjectUser_def split: option.splits)
  obtain y w1 where y: "UserRepo_GetByID u w = (y, w1)" by (cases "UserRepo_GetByID u w") blast
  with assms False u obtain user where user: "y = Inr user" "next (r\<lparr>cx_User := Some user\<rparr>) w1 = (Inr x, w')"
    by (cases y) (auto simp: InjectUser_def bindE_def OnError_def errE_def User_GetByID_def mapErr_def
        split: goerr.splits if_splits)
  from UserRepo_GetByID_Inr [of u w user w1] y user u that(2) reads_clockD [OF reads_lookup(1) y] show thesis by auto
qed

lemma RequireVerified_Inr:
  assumes "RequireVerified v next r w = (Inr x, w')"
  shows "next r w = (Inr x, w')"
    "v \<Longrightarrow> \<exists>u. cx_User r = Some u \<and> (user_Role u = RoleAdmin \<or> user_IsVerified u)"
  using assms by (auto simp: RequireVerified_def split: option.splits if_splits)

lemma RequireTeam_Inr:
  assumes "RequireTeam next r w = (Inr x, w')"
  shows "next r w = (Inr x, w')" "\<exists>u. cx_User r = Some u \<and> (user_Role u = RoleAdmin \<or> user_TeamID u \<noteq> None)"
  using assms by (auto simp: RequireTeam_def split: option.splits if_splits)

lemma Admin_cases:
  "Admin next r w = (x, w') \<Longrightarrow>
     cx_Role r = Some RoleAdmin \<and> next r w = (x, w') \<or> (\<exists>e. x = Inl e) \<and> w' = w"
  by (auto simp: Admin_def split: if_splits)

text \<open>The competition is the copy in the cache, if it has not expired, or the row of the database.\<close>

definition known_competition :: "world \<Rightarrow> competition \<Rightarrow> bool" where
  "known_competition w c \<longleftrightarrow> redis_lookup w KeyCompetition = Some (CCompetition c) \<or>
     (\<exists>row. find (\<lambda>c. competition_id c = 1) (competition (store w)) = Some row \<and> c = toEntityCompetition row)"

lemma find_filter_Cons: "filter P xs = y # ys \<Longrightarrow> find P xs = Some y"
  by (induction xs) (auto split: if_splits)

text \<open>The competition took submissions when the request was checked: at one of its first three readings of
  the clock, and going by the competition as it was known when the request came.\<close>

definition taking_submissions :: "world \<Rightarrow> bool" where
  "taking_submissions w \<longleftrightarrow> (\<exists>k \<le> 2. \<exists>cm. known_competition (w\<lparr>clock := clock_at k w\<rparr>) cm \<and>
     Competition_IsSubmissionAllowed (clock_at k w) cm)"

lemma taking_submissionsI:
  assumes "passed 2 w w1" "competition (store w1) = competition (store w)"
    "known_competition w1 cm" "Competition_IsSubmissionAllowed (clock w1) cm"
  shows "taking_submissions w"
proof -
  from assms(1) obtain k where k: "k \<le> 2" "redis w1 = redis w" "clock w1 = clock_at k w" by (auto simp: passed_def)
  with assms(2,3) have "known_competition (w\<lparr>clock := clock_at k w\<rparr>) cm"
    by (auto simp: known_competition_def redis_lookup_def split: option.splits if_splits)
  with k assms(4) show ?thesis by (auto simp: taking_submissions_def)
qed

lemma CompetitionUseCase_Get_Inr:
  assumes "CompetitionUseCase_Get w = (Inr c, w')"
  shows "known_competition w c" "store w' = store w" "clock w' = clock w"
proof -
  have r: "redis_Get KeyCompetition w = (Inr (if next_fault w then None else redis_lookup w KeyCompetition), use_fault w)"
    by (simp add: redis_Get_def)
  have load: "store w' = store w \<and> clock w' = clock w \<and> (\<exists>row. find (\<lambda>c. competition_id c = 1) (competition (store w)) = Some row \<and> c = toEntityCompetition row)"
    if "mapErr h (bindE CompetitionRepo_Get (\<lambda>comp. bindE (redis_Set k (v comp) ttl) (\<lambda>_. returnE comp))) w1 = (Inr c, w')"
      "store w1 = store w" "clock w1 = clock w" for h k v ttl w1
    using that by (auto simp: bindE_Inr_iff CompetitionRepo_Get_def sql_Inr_iff sqlc_GetCompetition_def
        select_one_Inr_iff redis_Set_def split: if_splits dest: find_filter_Cons)
  show "known_competition w c" "store w' = store w" "clock w' = clock w"
    using assms load [of _ _ _ _ "use_fault w"] unfolding CompetitionUseCase_Get_def bindE_def [of "redis_Get KeyCompetition"] r
    by (auto simp: known_competition_def split: option.splits cached.splits if_splits)
qed

lemma CompetitionActive_Inr:
  assumes "CompetitionActive next r w = (Inr x, w')"
  obtains c w1 where "known_competition w c" "Competition_IsSubmissionAllowed (clock w) c" "store w1 = store w"
    "next r w1 = (Inr x, w')"
proof -
  obtain y w1 where y: "CompetitionUseCase_Get w = (y, w1)" by (cases "CompetitionUseCase_Get w") blast
  with assms obtain c where c: "y = Inr c" "Competition_IsSubmissionAllowed (clock w1) c" "next r (snd (nowE w1)) = (Inr x, w')"
    by (cases y) (auto simp: CompetitionActive_def bindE_def OnError_def errE_def nowE_def
        split: goerr.splits if_splits)
  with CompetitionUseCase_Get_Inr [of w c w1] y show thesis
    by (intro that [of c "snd (nowE w1)"]) (auto simp: nowE_def)
qed

text \<open>The limiter's library does not write to the database.\<close>

definition limiter_ok :: "server \<Rightarrow> bool" where
  "limiter_ok srv \<longleftrightarrow> (\<forall>p n k w x w'. srv_limiter srv p n k w = (x, w') \<longrightarrow> store w' = store w)"

lemma RateLimit_Inr:
  assumes "RateLimit srv p n k next r w = (Inr x, w')" "limiter_ok srv"
  obtains w1 where "store w1 = store w" "next r w1 = (Inr x, w')"
  using assms by (auto simp: RateLimit_def bindE_Inr_iff OnError_Inr_iff limiter_ok_def split: if_splits) blast


lemma InjectUser_cases:
  assumes "InjectUser srv next r w = (x, w')"
  obtains r' w1 where "cx_Role r' = cx_Role r" "store w1 = store w" "next r' w1 = (x, w')"
  | e where "x = Inl e" "store w' = store w"
proof (cases "GetUserID r = '''' \<or> srv_uuid_Parse srv (GetUserID r) = None")
  case True
  with assms that show thesis by (auto simp: InjectUser_def split: option.splits if_splits)
next
  case False
  then obtain u where u: "srv_uuid_Parse srv (GetUserID r) = Some u" "GetUserID r \<noteq> ''''" by auto
  obtain y w1 where y: "User_GetByID u w = (y, w1)" by (cases "User_GetByID u w") blast
  have "db_keeps (\<lambda>d. d = store w) (User_GetByID u)"
    unfolding User_GetByID_def UserRepo_GetByID_def sqlc_GetUserByID_def by (intro valid_rules)
  from keepsD [OF this _ y] have s: "store w1 = store w" by simp
  show thesis
  proof (cases y)
    case (Inl e)
    with assms u y s that(2) show thesis
      by (cases e) (auto simp: InjectUser_def bindE_def OnError_def errE_def split: if_splits)
  next
    case (Inr user)
    with assms u y s that(1) [of "r\<lparr>cx_User := Some user\<rparr>" w1] show thesis
      by (simp add: InjectUser_def bindE_def OnError_def errE_def)
  qed
qed

section \<open>Administration\<close>

lemmas router_defs = NewRouter_def setupPublicRoutes_def setupAuthOnlyRoutes_def setupProtectedRoutes_def
  setupTeamRoutes_def setupChallengeRoutes_def setupAdminRoutes_def group_use_def route_def

definition chain_is :: "(route \<Rightarrow> bool) \<Rightarrow> middleware list \<Rightarrow> route list \<Rightarrow> bool" where
  "chain_is P mws rs = list_all (\<lambda>rt. P rt \<longrightarrow> rt_chain rt = mws) rs"

lemma chain_isD: "chain_is P mws rs \<Longrightarrow> rt \<in> set rs \<Longrightarrow> P rt \<Longrightarrow> rt_chain rt = mws"
  by (simp add: chain_is_def list_all_iff)

lemma admin_chain:
  "chain_is (\<lambda>rt. take 7 (rt_path rt) = ''/admin/'') [MAuth, MInjectUser, MAdmin] (NewRouter n)"
  by code_simp

lemma submit_chain:
  "chain_is (\<lambda>rt. rt_handler rt = ''PostChallengesIDSubmit'')
     [MAuth, MInjectUser, MCompetitionActive, MRequireVerified, MRequireTeam,
      MLimitIP ''submit:ip'' (n * 3), MLimitUser ''submit:user'' n] (NewRouter n)"
  by code_simp

text \<open>C6 Every route under /admin/ runs its handler only for a request that authenticates as an
  administrator, by an access token or an API token that is valid at that moment; every other request is
  refused, and leaves every row of every table as it was but for the time an API token was last used.\<close>

theorem admin_routes_guarded:
  assumes "rt \<in> set (NewRouter n)" "take 7 (rt_path rt) = ''/admin/''"
    and "serve srv (rt_chain rt) h r w = (x, w')"
  shows "(\<exists>r' r'' w1. authenticated srv r w r' \<and> cx_Role r' = Some RoleAdmin \<and> cx_Role r'' = Some RoleAdmin \<and>
      same_but_tokens (store w) (store w1) \<and> h r'' w1 = (x, w')) \<or>
    (\<exists>e. x = Inl e) \<and> same_but_tokens (store w) (store w')"
proof -
  have "Auth srv (InjectUser srv (Admin h)) r w = (x, w')"
    using assms(3) chain_isD [OF admin_chain assms(1,2)] by simp
  then show ?thesis
  proof (cases rule: Auth_cases)
    case (1 r' w1)
    from 1(3) show ?thesis
    proof (cases rule: InjectUser_cases)
      case (1 r'' w2)
      from Admin_cases [OF 1(3)] show ?thesis
        using \<open>authenticated srv r w r'\<close> \<open>same_but_tokens (store w) (store w1)\<close> 1 by auto
    qed (use 1 in auto)
  qed auto
qed


section \<open>Submission\<close>

text \<open>A handler is inert for a property of the database when refusing keeps the property.\<close>

definition inert :: "(db \<Rightarrow> bool) \<Rightarrow> (world, 'a) handler \<Rightarrow> bool" where
  "inert P h \<longleftrightarrow> (\<forall>r w e w'. P (store w) \<longrightarrow> h r w = (Inl e, w') \<longrightarrow> P (store w'))"

lemma inertI: "(\<And>r w e w'. P (store w) \<Longrightarrow> h r w = (Inl e, w') \<Longrightarrow> P (store w')) \<Longrightarrow> inert P h"
  by (auto simp: inert_def)

lemma inertD: "inert P h \<Longrightarrow> P (store w) \<Longrightarrow> h r w = (Inl e, w') \<Longrightarrow> P (store w')"
  by (auto simp: inert_def)

lemma bind_inert:
  assumes "keeps (\<lambda>w. P (store w)) m" "\<And>y w e w'. P (store w) \<Longrightarrow> f y w = (Inl e, w') \<Longrightarrow> P (store w')"
    "bindE m f w = (Inl e, w')" "P (store w)"
  shows "P (store w')"
  using assms(2-4) keepsD [OF assms(1,4)] by (auto simp: bindE_Inl_iff)

lemma keeps_case_cached [valid_rules]:
  "(\<And>c. keeps I (f c)) \<Longrightarrow> keeps I g \<Longrightarrow>
     keeps I (case val of Some (CCompetition c) \<Rightarrow> f c | _ \<Rightarrow> g)"
  by (auto split: option.splits cached.splits)

lemma keeps_competition_Get [valid_rules]: "db_keeps P CompetitionUseCase_Get"
  unfolding CompetitionUseCase_Get_def CompetitionRepo_Get_def sqlc_GetCompetition_def by (intro valid_rules)

lemma inert_middleware:
  assumes h: "inert P h" and P: "\<And>d d'. same_but_tokens d d' \<Longrightarrow> P d \<Longrightarrow> P d'" and l: "limiter_ok srv"
  shows "inert P (run_middleware srv m h)"
proof (rule inertI)
  fix r w e w' assume p: "P (store w)" and run: "run_middleware srv m h r w = (Inl e, w')"
  have comp: "keeps (\<lambda>w. P (store w)) (OnError (errE CompetitionUseCase_Get))"
    by (intro valid_rules)+
  have rate: "P (store w')" if "RateLimit srv a b k h r w = (Inl e, w')" for a b k
  proof (rule bind_inert [where P = P, OF _ _ that [unfolded RateLimit_def] p])
    show "keeps (\<lambda>w. P (store w)) (OnError (srv_limiter srv (''limiter:'' @ a) b (k r)))"
      using l by (intro valid_rules keepsI) (auto simp: limiter_ok_def)
  qed (auto split: if_splits dest: inertD [OF h])
  show "P (store w')"
  proof (cases m)
    case MAuth
    with run have "Auth srv h r w = (Inl e, w')" by simp
    then show ?thesis by (cases rule: Auth_cases) (use P p h in \<open>auto dest: inertD\<close>)
  next
    case MInjectUser
    with run have "InjectUser srv h r w = (Inl e, w')" by simp
    then show ?thesis by (cases rule: InjectUser_cases) (use p inertD [OF h] in \<open>auto, metis\<close>)
  next
    case MAdmin
    with run p show ?thesis by (auto dest!: Admin_cases dest: inertD [OF h])
  next
    case MCompetitionActive
    with run have "CompetitionActive h r w = (Inl e, w')" by simp
    then show ?thesis unfolding CompetitionActive_def
    proof (rule bind_inert [where P = P, OF comp, rotated])
      fix y w e w'
      assume "P (store w)" "(case y of Inl _ \<Rightarrow> throwE (RenderError 500 ''failed to get competition status'')
          | Inr c \<Rightarrow> bindE (OnError nowE) (\<lambda>now. if \<not> Competition_IsSubmissionAllowed now c
              then bindE (OnError nowE) (\<lambda>now. throwE (RenderError 403 (inactive_message (Competition_GetStatus now c))))
              else h r)) w = (Inl e, w')"
      then show "P (store w')"
        by (auto simp: bindE_def OnError_def nowE_def split: sum.splits if_splits dest!: inertD [OF h, rotated])
    qed (rule p)
  next
    case MCompetitionEnded
    with run have "CompetitionEnded h r w = (Inl e, w')" by simp
    then show ?thesis unfolding CompetitionEnded_def
    proof (rule bind_inert [where P = P, OF comp, rotated])
      fix y w e w'
      assume "P (store w)" "(case y of Inl _ \<Rightarrow> throwE (RenderError 500 ''failed to get competition status'')
          | Inr c \<Rightarrow> bindE (OnError nowE) (\<lambda>now. if Competition_GetStatus now c \<noteq> CompetitionStatusEnded
              then throwE (RenderError 403 ''comments available only after competition has ended'')
              else h r)) w = (Inl e, w')"
      then show "P (store w')"
        by (auto simp: bindE_def OnError_def nowE_def split: sum.splits if_splits dest!: inertD [OF h, rotated])
    qed (rule p)
  next
    case MRequireVerified
    with run p show ?thesis by (auto simp: RequireVerified_def split: option.splits if_splits dest: inertD [OF h])
  next
    case MRequireTeam
    with run p show ?thesis by (auto simp: RequireTeam_def split: option.splits if_splits dest: inertD [OF h])
  qed (use run rate in \<open>auto\<close>)
qed

lemma inert_serve:
  assumes "inert P h" "\<And>d d'. same_but_tokens d d' \<Longrightarrow> P d \<Longrightarrow> P d'" "limiter_ok srv"
  shows "inert P (serve srv mws h)"
  by (induction mws) (simp_all add: assms inert_middleware)


text \<open>What a submission may not touch unless it is accepted.\<close>

definition contest_tables :: "db \<Rightarrow> users_row list \<times> teams_row list \<times> challenges_row list \<times> solves_row list \<times> awards_row list" where
  "contest_tables d = (users d, teams d, challenges d, solves d, awards d)"

lemma contest_tokens: "same_but_tokens d d' \<Longrightarrow> contest_tables d' = contest_tables d"
  by (simp add: contest_tables_def same_but_tokens_tables)

lemma log_keeps: "db_keeps (\<lambda>d. contest_tables d = X) (Submission_LogSubmission sub)"
  unfolding Submission_LogSubmission_def SubmissionRepo_Create_def id_or_new_def time_or_now_def
  by (intro valid_rules keepsI [of "\<lambda>d. contest_tables d = X" "sqlc_CreateSubmission r" for r])
    (auto simp: sqlc_CreateSubmission_def contest_tables_def split: if_splits)

lemma errE_case_Inl:
  assumes "bindE (errE m) (\<lambda>r. case r of Inl e \<Rightarrow> returnE (g e) | Inr x \<Rightarrow> f x) w = (Inl e, w')"
    "\<And>y w1. m w = (y, w1) \<Longrightarrow> store w1 = store w"
    "\<And>x w1. f x w1 = (Inl e, w') \<Longrightarrow> store w' = store w1"
  shows "store w' = store w"
proof -
  obtain y w1 where y: "m w = (y, w1)" by (cases "m w") blast
  have w1: "store w1 = store w" by (rule assms(2) [OF y])
  show ?thesis
  proof (cases y)
    case (Inl e')
    with assms(1) y w1 show ?thesis by (cases e') (simp_all add: bindE_def errE_def)
  next
    case (Inr x)
    with assms(1) y have "f x w1 = (Inl e, w')" by (simp add: bindE_def errE_def)
    then show ?thesis using w1 assms(3) by simp
  qed
qed

lemma NotifySolve_no_Inl: "submitNotifySolve uc t ch b w \<noteq> (Inl e, w')"
  by (auto simp: submitNotifySolve_def NotifySolve_def bindE_def nowE_def Let_def split: if_splits)

lemma submit_tail_Inl:
  assumes "bindE (submitCheckFlag uc flag ch) (\<lambda>ok.
     if \<not> ok then returnE (False, None)
     else
     bindE (errE (submitRecordSolve u t c)) (\<lambda>r. case r of
         Inl e \<Rightarrow> returnE (is_sentinel e ErrAlreadySolved, Some e)
       | Inr (solved, solveCount) \<Rightarrow>
     bindE (invalidate_cache uc) (\<lambda>_.
     bindE (submitNotifySolve uc t solved (solveCount = 1)) (\<lambda>_.
     returnE (True, None))))) w = (Inl e, w')"
  shows "store w' = store w"
proof -
  from assms consider "submitCheckFlag uc flag ch w = (Inl e, w')"
    | w1 where "submitCheckFlag uc flag ch w = (Inr True, w1)" "submitRecordSolve u t c w1 = (Inl GoPanic, w')"
  proof (cases "submitCheckFlag uc flag ch w")
    case c: (Pair y w1)
    show thesis
    proof (cases "y = Inr True")
      case True
      obtain z w2 where "submitRecordSolve u t c w1 = (z, w2)" by (cases "submitRecordSolve u t c w1") blast
      with assms c True that(2) show thesis
        by (cases z) (auto simp: bindE_Inl_iff errE_Inl_iff errE_def NotifySolve_no_Inl
            split: prod.splits goerr.splits if_splits dest: invalidate_cache_run)
    next
      case False
      with assms c that(1) show thesis by (cases y) (auto simp: bindE_def)
    qed
  qed
  then show ?thesis
    by cases (auto simp: submitRecordSolve_def dest!: submitCheckFlag_run run_transaction_Inl_store)
qed

lemma SubmitFlag_Inl:
  assumes "Challenge_SubmitFlag uc c flag u tm w = (Inl e, w')"
  shows "store w' = store w"
proof (cases tm)
  case None
  with assms show ?thesis by (simp add: Challenge_SubmitFlag_def)
next
  case (Some t)
  show ?thesis
    using assms unfolding Challenge_SubmitFlag_def Some option.case Let_def
    by - ((erule errE_case_Inl, (auto dest: submit_read_run)[1])+, erule submit_tail_Inl)
qed

lemma SubmitFlag_tables:
  assumes "Challenge_SubmitFlag uc c flag u tm w = (x, w')" "chal_keys (store w)" "\<And>y. x = Inr y \<Longrightarrow> y \<noteq> (True, None)"
  shows "store w' = store w"
proof (cases x)
  case (Inl e)
  with assms(1) show ?thesis by (simp add: SubmitFlag_Inl)
next
  case (Inr y)
  obtain ok err where y: "y = (ok, err)" by (cases y)
  show ?thesis
    by (rule SubmitFlag_Inr [OF assms(1) [unfolded Inr y] assms(2)]) (use assms(3) [OF Inr] y in auto)
qed

text \<open>The handler: a refusal leaves the tables of the contest alone; the other answer is that the flag was
  accepted, and then exactly this solve was recorded.\<close>

lemma LogSubmission_run:
  assumes "OnError (errE (Submission_LogSubmission sub)) w = (y, w')"
  shows "\<exists>z. y = Inr z" "contest_tables (store w') = contest_tables (store w)"
proof -
  have quiet: "quiet (Submission_LogSubmission sub)"
    unfolding Submission_LogSubmission_def SubmissionRepo_Create_def id_or_new_def time_or_now_def
    by (intro quiet_rules) simp_all
  obtain z w1 where z: "Submission_LogSubmission sub w = (z, w1)" by (cases "Submission_LogSubmission sub w") blast
  with quietD [OF quiet, of w] have "errE (Submission_LogSubmission sub) w = (Inr z, w1)" by (intro errE_run) auto
  with assms keepsD [OF log_keeps _ z] show "\<exists>z. y = Inr z" "contest_tables (store w') = contest_tables (store w)"
    by (auto simp: OnError_def)
qed

lemma OnError_run: "m w = (y, w1) \<Longrightarrow> \<exists>z. OnError m w = (z, w1) \<and> (\<forall>v. z = Inr v \<longleftrightarrow> y = Inr v)"
  by (cases y) (auto simp: OnError_def)

lemma post_submit_cases:
  assumes run: "PostChallengesIDSubmit srv ID body r w = (x, w')" and keys: "chal_keys (store w)"
  obtains e where "x = Inl e" "contest_tables (store w') = contest_tables (store w)"
  | c flag u t s where "x = Inr (200, ''flag accepted'')" "srv_uuid_Parse srv ID = Some c" "body = Body flag"
      "cx_User r = Some u" "user_TeamID u = Some t" "solve_of (store w) t c = None"
      "solves_user_id s = user_ID u" "solves_team_id s = t" "solves_challenge_id s = c"
      "contest_tables (store w') = contest_tables (solved_db c s (store w))"
proof (cases "\<exists>c flag u. ParseUUID (srv_uuid_Parse srv) ID w = (Inr c, w) \<and> body = Body flag \<and> cx_User r = Some u")
  case False
  have "\<exists>e. x = Inl e \<and> w' = w"
    using run False unfolding PostChallengesIDSubmit_def
    by (cases body; cases "cx_User r"; cases "srv_uuid_Parse srv ID"; cases "ID = ''''")
      (auto simp: bindE_def ParseUUID_def RequireUser_def)
  with that(1) show thesis by auto
next
  case True
  then obtain c flag u where pre: "ParseUUID (srv_uuid_Parse srv) ID w = (Inr c, w)" "body = Body flag" "cx_User r = Some u" by blast
  then have ID: "srv_uuid_Parse srv ID = Some c" by (auto simp: ParseUUID_def split: if_splits option.splits)
  let ?m = "Challenge_SubmitFlag (srv_chal srv) c flag (user_ID u) (user_TeamID u)"
  obtain y w1 where y: "?m w = (y, w1)" by (cases "?m w") blast
  define rest where "rest = (\<lambda>(valid, err).
     bindE (OnError nowE) (\<lambda>now.
     bindE (OnError (errE (Submission_LogSubmission \<lparr>sub_ID = 0, sub_UserID = user_ID u, sub_TeamID = user_TeamID u,
        sub_ChallengeID = c, sub_SubmittedFlag = flag, sub_IsCorrect = valid, sub_IP = srv_IP srv r,
        sub_CreatedAt = now\<rparr>))) (\<lambda>_.
     bindE (case err of None \<Rightarrow> returnE () | Some e \<Rightarrow> throwE (Refuse (handle_error e))) (\<lambda>_.
     bindE (failIf (\<not> valid) (RenderError 400 ''invalid flag'')) (\<lambda>_.
     RenderOK ''flag accepted'')))))"
  have run': "bindE (OnError ?m) rest w = (x, w')"
    using run pre unfolding PostChallengesIDSubmit_def rest_def
    by (simp add: bindE_def RequireUser_def)
  have tail: "contest_tables (store w') = contest_tables (store w1) \<and>
      (if (valid, err) = (True, None) then x = Inr (200, ''flag accepted'') else \<exists>e. x = Inl e)"
    if "rest (valid, err) w1 = (x, w')" for valid err
  proof -
    obtain w2 where now: "OnError nowE w1 = (Inr (clock w1), w2)" "store w2 = store w1"
      by (auto simp: OnError_def nowE_def)
    define log where "log = OnError (errE (Submission_LogSubmission \<lparr>sub_ID = 0, sub_UserID = user_ID u,
        sub_TeamID = user_TeamID u, sub_ChallengeID = c, sub_SubmittedFlag = flag, sub_IsCorrect = valid,
        sub_IP = srv_IP srv r, sub_CreatedAt = clock w1\<rparr>))"
    obtain z w3 where z: "log w2 = (z, w3)" by (cases "log w2") blast
    from LogSubmission_run [OF z [unfolded log_def]] obtain v where
      v: "z = Inr v" "contest_tables (store w3) = contest_tables (store w1)" using now by auto
    from that now have "bindE log (\<lambda>_.
       bindE (case err of None \<Rightarrow> returnE () | Some e \<Rightarrow> throwE (Refuse (handle_error e))) (\<lambda>_.
       bindE (failIf (\<not> valid) (RenderError 400 ''invalid flag'')) (\<lambda>_. RenderOK ''flag accepted''))) w2 = (x, w')"
      by (simp add: rest_def log_def bindE_def)
    with z v show ?thesis by (cases err) (auto simp: bindE_def failIf_def RenderOK_def)
  qed
  show thesis
  proof (cases "y = Inr (True, None)")
    case False
    with y keys have "store w1 = store w" by (intro SubmitFlag_tables) auto
    then show thesis
      using run' y tail False that(1) by (cases y) (fastforce simp: bindE_def OnError_def split: if_splits)+
  next
    case True
    obtain t s where "user_TeamID u = Some t" "solve_of (store w) t c = None" "store w1 = solved_db c s (store w)"
      "solves_user_id s = user_ID u" "solves_team_id s = t" "solves_challenge_id s = c"
      by (rule SubmitFlag_Inr [OF y [unfolded True] keys]) auto
    with run' y True tail [of True None] that(2) ID pre show thesis by (simp add: bindE_def OnError_def)
  qed
qed

lemma inert_submit: "inert (\<lambda>d. chal_keys d \<and> contest_tables d = X) (PostChallengesIDSubmit srv ID body)"
proof (rule inertI)
  fix r w e w' assume p: "chal_keys (store w) \<and> contest_tables (store w) = X"
    and run: "PostChallengesIDSubmit srv ID body r w = (Inl e, w')"
  show "chal_keys (store w') \<and> contest_tables (store w') = X"
    by (rule post_submit_cases [OF run]) (use p in \<open>auto simp: contest_tables_def chal_keys_def\<close>)
qed

lemma contest_solved:
  assumes "same_but_tokens d d'" shows "contest_tables (solved_db c s d') = contest_tables (solved_db c s d)"
  using same_but_tokens_tables [OF assms] by (simp add: contest_tables_def solved_db_def)

text \<open>A submission that reached its handler passed every check of its route.\<close>

lemma submit_chain_Inr:
  assumes rt: "rt \<in> set (NewRouter n)" "rt_handler rt = ''PostChallengesIDSubmit''"
    and run: "serve srv (rt_chain rt) h r w = (Inr y, w')" and w: "limiter_ok srv" "cx_User r = None"
  obtains r1 uid row w4 where "authenticated srv r w r1" "srv_uuid_Parse srv (GetUserID r1) = Some uid"
    "user_row (store w) uid = Some row" "taking_submissions w"
    "srv_verifyEmails srv \<longrightarrow> user_Role (toEntityUser row) = RoleAdmin \<or> user_IsVerified (toEntityUser row)"
    "same_but_tokens (store w) (store w4)" "h (r1\<lparr>cx_User := Some (toEntityUser row)\<rparr>) w4 = (Inr y, w')"
proof -
  let ?h = h
  from run chain_isD [OF submit_chain rt]
  have "Auth srv (InjectUser srv (CompetitionActive (RequireVerified (srv_verifyEmails srv) (RequireTeam
      (run_middleware srv (MLimitIP ''submit:ip'' (n * 3)) (run_middleware srv (MLimitUser ''submit:user'' n) ?h)))))) r w
      = (Inr y, w')" by simp
  then obtain r1 w1 where auth: "authenticated srv r w r1" and s1: "same_but_tokens (store w) (store w1)"
    and p1: "passed 2 w w1" and n1: "InjectUser srv (CompetitionActive (RequireVerified (srv_verifyEmails srv) (RequireTeam
      (run_middleware srv (MLimitIP ''submit:ip'' (n * 3)) (run_middleware srv (MLimitUser ''submit:user'' n) ?h))))) r1 w1
      = (Inr y, w')" by (rule Auth_cases) auto
  have none: "cx_User r1 = None" using auth w(2) by (auto simp: authenticated_def)
  obtain uid row w2 where uid: "srv_uuid_Parse srv (GetUserID r1) = Some uid" "user_row (store w1) uid = Some row"
    and s2: "store w2 = store w1" and p2: "passed 0 w1 w2"
    and n2: "CompetitionActive (RequireVerified (srv_verifyEmails srv) (RequireTeam
      (run_middleware srv (MLimitIP ''submit:ip'' (n * 3)) (run_middleware srv (MLimitUser ''submit:user'' n) ?h))))
      (r1\<lparr>cx_User := Some (toEntityUser row)\<rparr>) w2 = (Inr y, w')"
    using n1
  proof (cases rule: InjectUser_Inr)
    case 1
    then show thesis using none by (elim CompetitionActive_Inr) (auto dest!: RequireVerified_Inr(1) RequireTeam_Inr(2))
  qed
  let ?r2 = "r1\<lparr>cx_User := Some (toEntityUser row)\<rparr>"
  obtain cm w3 where cm: "known_competition w2 cm" "Competition_IsSubmissionAllowed (clock w2) cm" "store w3 = store w2"
    and n3: "RequireVerified (srv_verifyEmails srv) (RequireTeam
      (run_middleware srv (MLimitIP ''submit:ip'' (n * 3)) (run_middleware srv (MLimitUser ''submit:user'' n) ?h)))
      ?r2 w3 = (Inr y, w')"
    using n2 by (rule CompetitionActive_Inr)
  from RequireVerified_Inr [OF n3]
  have n4: "RequireTeam (run_middleware srv (MLimitIP ''submit:ip'' (n * 3))
      (run_middleware srv (MLimitUser ''submit:user'' n) ?h)) ?r2 w3 = (Inr y, w')"
    and v: "srv_verifyEmails srv \<longrightarrow> user_Role (toEntityUser row) = RoleAdmin \<or> user_IsVerified (toEntityUser row)" by auto
  obtain w4 where s4: "store w4 = store w3" and n5: "?h ?r2 w4 = (Inr y, w')"
    using RequireTeam_Inr(1) [OF n4] unfolding run_middleware.simps
    by (elim RateLimit_Inr [OF _ w(1)]) simp
  have same: "same_but_tokens (store w) (store w4)" "store w4 = store w1" using s1 s2 cm s4 by simp_all
  have "user_row (store w) uid = Some row" using uid same_but_tokens_tables [OF s1] by (simp add: user_row_def)
  moreover have "taking_submissions w"
    using taking_submissionsI [OF passed_trans [OF p1 p2] _ cm(1,2)] s2 same_but_tokens_tables(5) [OF s1] by simp
  ultimately show thesis using that [OF auth uid(1)] v same(1) n5 by blast
qed

text \<open>C5 The submission route answers that a flag was accepted only if the request is authenticated as an
  existing user who is in a team and, where verified e-mails are asked for, is verified or an administrator; if the
  competition, as its live copy in the cache or its row in the database had it when the request came, took submissions at
  one of the request's first three readings of the clock; and for a challenge the team had not solved. Then exactly this
  solve is recorded. In every other case it refuses, and users, teams, challenges, solves and awards stay as they were.
  The chain of checks is the one the router gives this route.\<close>

theorem submit_route:
  assumes rt: "rt \<in> set (NewRouter n)" "rt_handler rt = ''PostChallengesIDSubmit''"
    and run: "serve srv (rt_chain rt) (PostChallengesIDSubmit srv ID body) r w = (x, w')"
    and w: "chal_keys (store w)" "limiter_ok srv" "cx_User r = None"
  shows "(\<exists>e. x = Inl e) \<and> contest_tables (store w') = contest_tables (store w) \<or>
    x = Inr (200, ''flag accepted'') \<and>
    taking_submissions w \<and>
    (\<exists>r' uid row t c flag s. authenticated srv r w r' \<and> srv_uuid_Parse srv (GetUserID r') = Some uid \<and>
       user_row (store w) uid = Some row \<and> users_team_id row = Some t \<and>
       (srv_verifyEmails srv \<longrightarrow> user_Role (toEntityUser row) = RoleAdmin \<or> user_IsVerified (toEntityUser row)) \<and>
       srv_uuid_Parse srv ID = Some c \<and> body = Body flag \<and> solve_of (store w) t c = None \<and>
       solves_user_id s = users_id row \<and> solves_team_id s = t \<and> solves_challenge_id s = c \<and>
       contest_tables (store w') = contest_tables (solved_db c s (store w)))"
proof (cases x)
  case (Inl e)
  have P: "chal_keys d' \<and> contest_tables d' = X" if "same_but_tokens d d'" "chal_keys d \<and> contest_tables d = X" for d d' X
    using that contest_tokens [OF that(1)] by (auto simp: chal_keys_def same_but_tokens_tables)
  from inertD [OF inert_serve [OF inert_submit P w(2)] _ run [unfolded Inl]] w(1) Inl
  show ?thesis by auto
next
  case (Inr y)
  obtain r1 uid row w4 where auth: "authenticated srv r w r1" "srv_uuid_Parse srv (GetUserID r1) = Some uid"
      "user_row (store w) uid = Some row"
    and cm: "taking_submissions w"
    and v: "srv_verifyEmails srv \<longrightarrow> user_Role (toEntityUser row) = RoleAdmin \<or> user_IsVerified (toEntityUser row)"
    and same: "same_but_tokens (store w) (store w4)"
    and n5: "PostChallengesIDSubmit srv ID body (r1\<lparr>cx_User := Some (toEntityUser row)\<rparr>) w4 = (Inr y, w')"
    by (rule submit_chain_Inr [OF rt run [unfolded Inr] w(2,3)])
  from w(1) same have keys: "chal_keys (store w4)" by (simp add: chal_keys_def same_but_tokens_tables)
  show ?thesis
  proof (rule post_submit_cases [OF n5 keys], goal_cases)
    case (2 c flag u t s)
    have "solve_of (store w) t c = None" using 2 same_but_tokens_tables [OF same] by (simp add: solve_of_def)
    moreover have "users_team_id row = Some t" "solves_user_id s = users_id row" using 2 by (auto simp: toEntityUser_def)
    moreover have "contest_tables (store w') = contest_tables (solved_db c s (store w))"
      using 2 contest_solved [OF same] by simp
    ultimately show ?case using Inr 2 auth v cm by blast
  qed simp
qed


section \<open>At a concrete server\<close>

text \<open>Dave of team 12 and the administrator Root hold API tokens; the limiter never limits.\<close>

definition demo_api_token :: "uuid \<Rightarrow> uuid \<Rightarrow> string \<Rightarrow> api_tokens_row" where
  "demo_api_token k u h = \<lparr>api_tokens_id = k, api_tokens_user_id = u, api_tokens_token_hash = ''sha:'' @ h,
     api_tokens_description = None, api_tokens_expires_at = None, api_tokens_last_used_at = None,
     api_tokens_created_at = Some 0\<rparr>"

definition demo_http_world :: world where
  "demo_http_world = world_of (demo_db\<lparr>
     users := users demo_db @ [(demo_user 5 ''root'' None)\<lparr>users_role := Some RoleAdmin\<rparr>],
     challenges := map (\<lambda>c. c\<lparr>challenges_decay := 0\<rparr>) (challenges demo_db),
     api_tokens := [demo_api_token 81 4 ''dave'', demo_api_token 82 5 ''root'']\<rparr>)"

definition demo_server :: server where
  "demo_server = \<lparr>srv_jwt = demo_jwt, srv_ext = demo_ext, srv_apiTokens = True,
     srv_limiter = (\<lambda>_ _ _. returnE False), srv_SplitHostPort = (\<lambda>_. None), srv_verifyEmails = True,
     srv_submitLimit = 10, srv_chal = demo_chal_uc, srv_hints = demo_hint_uc,
     srv_solves = \<lparr>su_uuid = (\<lambda>_. ''id''), su_scoreboardCache = None, su_broadcaster = False\<rparr>,
     srv_teams = demo_uc, srv_awards = None, srv_users = demo_user_uc, srv_email = demo_email_uc\<rparr>"

definition demo_request :: "string \<Rightarrow> request" where
  "demo_request auth = \<lparr>rq_Authorization = auth, rq_XRealIP = '''', rq_RemoteAddr = ''10.0.0.1:5'',
     cx_UserID = None, cx_Role = None, cx_User = None\<rparr>"

definition demo_submit_chain :: "middleware list" where
  "demo_submit_chain = [MAuth, MInjectUser, MCompetitionActive, MRequireVerified, MRequireTeam,
      MLimitIP ''submit:ip'' 30, MLimitUser ''submit:user'' 10]"

text \<open>The accepted answer, for a challenge of a fixed score.\<close>

lemma demo_submit_fst:
  "fst (serve demo_server demo_submit_chain
     (PostChallengesIDSubmit demo_server (ax_uuid_String demo_ext 31) (Body '' 1 ''))
     (demo_request ''Token dave'') demo_http_world) = Inr (200, ''flag accepted'')"
  by code_simp

lemma demo_limiter_ok: "limiter_ok demo_server"
  by (simp add: limiter_ok_def demo_server_def)

lemma demo_http_keys: "chal_keys (store demo_http_world)"
  by (simp add: chal_keys_def demo_http_world_def world_of_def demo_db_def empty_db_def demo_challenge_def)

lemma demo_submit_in: "route ''POST'' ''/challenges/{ID}/submit'' demo_submit_chain ''PostChallengesIDSubmit'' \<in> set (NewRouter 10)"
  by code_simp

theorem submit_route_witness:
  "\<exists>w' s. serve demo_server demo_submit_chain (PostChallengesIDSubmit demo_server (ax_uuid_String demo_ext 31) (Body '' 1 ''))
      (demo_request ''Token dave'') demo_http_world = (Inr (200, ''flag accepted''), w') \<and>
    solves_challenge_id s = 31 \<and> contest_tables (store w') = contest_tables (solved_db 31 s (store demo_http_world))"
proof -
  let ?m = "serve demo_server demo_submit_chain (PostChallengesIDSubmit demo_server (ax_uuid_String demo_ext 31) (Body '' 1 ''))
      (demo_request ''Token dave'') demo_http_world"
  obtain w' where run: "?m = (Inr (200, ''flag accepted''), w')"
    using demo_submit_fst by (metis prod.collapse)
  have chain: "rt_chain (route ''POST'' ''/challenges/{ID}/submit'' demo_submit_chain ''PostChallengesIDSubmit'') = demo_submit_chain"
    "rt_handler (route ''POST'' ''/challenges/{ID}/submit'' demo_submit_chain ''PostChallengesIDSubmit'') = ''PostChallengesIDSubmit''"
    by (simp_all add: route_def)
  from run have run': "serve demo_server (rt_chain (route ''POST'' ''/challenges/{ID}/submit'' demo_submit_chain ''PostChallengesIDSubmit''))
      (PostChallengesIDSubmit demo_server (ax_uuid_String demo_ext 31) (Body '' 1 '')) (demo_request ''Token dave'') demo_http_world =
      (Inr (200, ''flag accepted''), w')" unfolding chain(1) .
  have id: "srv_uuid_Parse demo_server (ax_uuid_String demo_ext 31) = Some 31" by code_simp
  from submit_route [OF demo_submit_in chain(2) run' demo_http_keys demo_limiter_ok] id run
  show ?thesis by (fastforce simp: demo_request_def)
qed

theorem admin_routes_guarded_witness:
  "\<exists>r w1. fst (serve demo_server [MAuth, MInjectUser, MAdmin] (\<lambda>r w. (Inr (cx_Role r), w))
     (demo_request ''Token root'') demo_http_world) = Inr (Some RoleAdmin) \<and>
   authenticated demo_server (demo_request ''Token root'') demo_http_world r \<and> cx_Role r = Some RoleAdmin"
proof -
  let ?rt = "route ''PUT'' ''/admin/pages/{ID}'' [MAuth, MInjectUser, MAdmin] ''PutAdminPagesID''"
  let ?m = "serve demo_server [MAuth, MInjectUser, MAdmin] (\<lambda>r w. (Inr (cx_Role r), w)) (demo_request ''Token root'') demo_http_world"
  have rt: "?rt \<in> set (NewRouter 10)" "take 7 (rt_path ?rt) = ''/admin/''" by code_simp+
  have fst: "fst ?m = Inr (Some RoleAdmin)" by code_simp
  then obtain w' where "serve demo_server (rt_chain ?rt) (\<lambda>r w. (Inr (cx_Role r), w)) (demo_request ''Token root'')
      demo_http_world = (Inr (Some RoleAdmin), w')" by (metis prod.collapse route_def route.select_convs(3))
  from admin_routes_guarded [OF rt this] fst show ?thesis by auto
qed

section \<open>Two replies that go wrong\<close>

text \<open>An update of a page whose title is blank, on a page that exists, is not refused: the use case returns
  no page and no error, and the handler dereferences the page that is not there.\<close>

theorem blank_title_panics:
  assumes "ax_uuid_Parse (srv_ext srv) ID = Some p" "ID \<noteq> ''''" "TrimSpace (preq_Title q) = ''''"
    and "PageRepo_GetByID p w = (Inr page, w')"
  shows "PutAdminPagesID srv ID (Body q) r w = (Inl Panicked, w')"
  using assms by (simp add: PutAdminPagesID_def ParseUUID_def bindE_def OnError_def Page_Update_def mapErr_def deref_def)

lemma audit_keeps_competition: "db_keeps (\<lambda>d. competition d = X) (AuditLogRepo_Create u a e i ip m)"
  unfolding AuditLogRepo_Create_def
  by (intro valid_rules keepsI [of "\<lambda>d. competition d = X" "sqlc_CreateAuditLog a b c d e f g h" for a b c d e f g h])
    (auto simp: sqlc_CreateAuditLog_def audit_logs_insert_def split: if_splits)

text \<open>An accepted update of the competition that names no mode stores the empty mode and team sizes of
  zero, whatever they were; and no team can be created after it.\<close>

theorem competition_update_resets:
  assumes "PutAdminCompetition srv (Body q) r w = (Inr x, w')" "upc_Mode q = None"
  shows "(\<forall>c \<in> set (competition (store w')). competition_id c = 1 \<longrightarrow> competition_mode c = Some '''' \<and>
      competition_min_team_size c = Some 0 \<and> competition_max_team_size c = Some 0) \<and>
    (\<forall>name u solo confirm t v. Team_Create name u solo confirm w' \<noteq> (Inr t, v))"
proof -
  have 1: "\<forall>c \<in> set (competition (store w')). competition_id c = 1 \<longrightarrow> competition_mode c = Some '''' \<and>
      competition_min_team_size c = Some 0 \<and> competition_max_team_size c = Some 0"
  proof -
    from assms(1) obtain u ip w1 w2 w3 y where u: "CompetitionRepo_Update (UpdateCompetitionRequestToEntity q 1) w1 = (Inr (), w2)"
      and a: "AuditLogRepo_Create (Some u) AuditActionUpdate AuditEntityCompetition ''settings'' ip
          [(''message'', JStr ''competition settings updated'')] w3 = (y, w')" and s: "store w3 = store w2"
      by (auto simp: PutAdminCompetition_def Let_def bindE_Inr_iff OnError_Inr_iff CompetitionUseCase_Update_def redis_Del_def RenderOK_def)
    have "competition (store w') = competition (store w2)"
      using keepsD [OF audit_keeps_competition [of "competition (store w2)"] _ a] s by simp
    with u assms(2) show ?thesis
      by (auto simp: CompetitionRepo_Update_def UpdateCompetitionRequestToEntity_def bindE_Inr_iff sql_Inr_iff
        sqlc_UpdateCompetition_def upd_where_def or_else_def intToInt32Safe_def)
  qed
  have "Guard_RequireTeamSwitchAndTeamsMode w' \<noteq> (Inr c, v)" for c v
    using 1 by (auto simp: Guard_RequireTeamSwitch_def Guard_RequireTeamSwitchAndTeamsMode_def bindE_Inr_iff
      toEntityCompetition_def ptrStrToStr_def CompetitionMode_AllowsTeams_def filter_eq_Cons_iff
      dest!: CompetitionRepo_Get_Inr)
  with 1 show ?thesis by (auto simp: Team_Create_def bindE_Inr_iff)
qed

definition demo_page_request :: page_request where
  "demo_page_request = \<lparr>preq_Content = None, preq_IsDraft = None, preq_OrderIndex = None, preq_Slug = ''rules'', preq_Title = '' ''\<rparr>"

definition demo_page_world :: world where
  "demo_page_world = world_of (demo_db\<lparr>pages := [\<lparr>pages_id = 91, pages_title = ''Rules'', pages_slug = ''rules'',
     pages_content = '''', pages_is_draft = Some False, pages_order_index = Some 0, pages_created_at = Some 0, pages_updated_at = Some 0\<rparr>]\<rparr>)"

theorem blank_title_panics_witness:
  "\<exists>w'. PutAdminPagesID demo_server (ax_uuid_String demo_ext 91) (Body demo_page_request) (demo_request '''') demo_page_world =
     (Inl Panicked, w')"
proof -
  have "ax_uuid_Parse (srv_ext demo_server) (ax_uuid_String demo_ext 91) = Some 91" "ax_uuid_String demo_ext 91 \<noteq> ''''"
    "TrimSpace (preq_Title demo_page_request) = ''''" by code_simp+
  moreover have "\<not> isl (fst (PageRepo_GetByID 91 demo_page_world))" by code_simp
  then obtain page w' where "PageRepo_GetByID 91 demo_page_world = (Inr page, w')"
    by (cases "PageRepo_GetByID 91 demo_page_world"; cases "fst (PageRepo_GetByID 91 demo_page_world)") auto
  ultimately show ?thesis using blank_title_panics [of demo_server "ax_uuid_String demo_ext 91" 91] by blast
qed

definition demo_competition_request :: update_competition_request where
  "demo_competition_request = \<lparr>upc_AllowTeamSwitch = Some True, upc_EndTime = None, upc_FlagRegex = None,
     upc_FreezeTime = None, upc_IsPaused = None, upc_IsPublic = None, upc_Mode = None, upc_Name = ''demo'',
     upc_StartTime = None\<rparr>"

theorem competition_update_resets_witness:
  "\<exists>w'. PutAdminCompetition demo_server (Body demo_competition_request)
      ((demo_request '''')\<lparr>cx_User := Some (toEntityUser (demo_user 5 ''root'' None))\<rparr>) demo_http_world =
      (Inr (200, ''competition updated''), w') \<and> (\<forall>name u solo confirm t v. Team_Create name u solo confirm w' \<noteq> (Inr t, v))"
proof -
  have "fst (PutAdminCompetition demo_server (Body demo_competition_request)
      ((demo_request '''')\<lparr>cx_User := Some (toEntityUser (demo_user 5 ''root'' None))\<rparr>) demo_http_world) =
      Inr (200, ''competition updated'')" by code_simp
  then obtain w' where run: "PutAdminCompetition demo_server (Body demo_competition_request)
      ((demo_request '''')\<lparr>cx_User := Some (toEntityUser (demo_user 5 ''root'' None))\<rparr>) demo_http_world =
      (Inr (200, ''competition updated''), w')" by (metis prod.collapse)
  from competition_update_resets [OF run] run show ?thesis by (auto simp: demo_competition_request_def)
qed

end
