(* ===== verification/CTF_Notifications.thy ===== *)
theory CTF_Notifications
  imports CTF_Content CTF_Paging
begin

text \<open>
  Notifications, global and personal: \<open>notifications.sql.go\<close>, \<open>NotificationRepo\<close> and
  \<open>NotificationUseCase\<close>.
\<close>

section \<open>Queries\<close>

definition sqlc_CountUnreadUserNotifications :: "uuid \<Rightarrow> int query" where
  "sqlc_CountUnreadUserNotifications user_id = asksE (\<lambda>d. int (length (filter (\<lambda>n.
     user_notifications_user_id n = user_id \<and> user_notifications_is_read n = Some False) (user_notifications d))))"

text \<open>The type of a global notification is checked by a constraint.\<close>

definition sqlc_CreateNotification :: "notifications_row \<Rightarrow> notifications_row query" where
  "sqlc_CreateNotification r d =
     (if (case notifications_type r of None \<Rightarrow> False
          | Some t \<Rightarrow> t \<notin> {NotificationInfo, NotificationWarning, NotificationSuccess, NotificationError})
      then (Inl CheckViolation, d)
      else if list_ex (\<lambda>n. notifications_id n = notifications_id r) (notifications d) then (Inl UniqueViolation, d)
      else (Inr r, d\<lparr>notifications := notifications d @ [r]\<rparr>))"

definition sqlc_CreateUserNotification :: "user_notifications_row \<Rightarrow> user_notifications_row query" where
  "sqlc_CreateUserNotification r d =
     (if user_notifications_notification_id r = None \<and>
         (user_notifications_title r = None \<or> user_notifications_content r = None)
      then (Inl CheckViolation, d)
      else if list_ex (\<lambda>n. user_notifications_id n = user_notifications_id r) (user_notifications d)
      then (Inl UniqueViolation, d)
      else if \<not> user_exists (user_notifications_user_id r) d \<or>
         (case user_notifications_notification_id r of None \<Rightarrow> False
          | Some k \<Rightarrow> \<not> list_ex (\<lambda>n. notifications_id n = k) (notifications d))
      then (Inl ForeignKeyViolation, d)
      else (Inr r, d\<lparr>user_notifications := user_notifications d @ [r]\<rparr>))"

text \<open>Deleting a global notification deletes the personal ones that refer to it.\<close>

definition sqlc_DeleteNotification :: "uuid \<Rightarrow> unit query" where
  "sqlc_DeleteNotification ID = modifyE (\<lambda>d.
     d\<lparr>notifications := del_where (\<lambda>n. notifications_id n = ID) (notifications d),
       user_notifications := (if list_ex (\<lambda>n. notifications_id n = ID) (notifications d)
         then del_where (\<lambda>n. user_notifications_notification_id n = Some ID) (user_notifications d)
         else user_notifications d)\<rparr>)"

definition sqlc_DeleteUserNotification :: "uuid \<Rightarrow> uuid \<Rightarrow> unit query" where
  "sqlc_DeleteUserNotification ID user_id = modifyE (\<lambda>d. d\<lparr>user_notifications := del_where (\<lambda>n.
     user_notifications_id n = ID \<and> user_notifications_user_id n = user_id) (user_notifications d)\<rparr>)"

definition sqlc_GetAllNotifications :: "int \<Rightarrow> int \<Rightarrow> notifications_row list query" where
  "sqlc_GetAllNotifications row_limit row_offset = select_page row_limit row_offset (\<lambda>d.
     order_by_desc (map_option of_bool \<circ> notifications_is_pinned)
       (order_by_desc notifications_created_at
          (filter (\<lambda>n. notifications_is_global n = Some True) (notifications d))))"

definition sqlc_GetNotificationByID :: "uuid \<Rightarrow> notifications_row query" where
  "sqlc_GetNotificationByID ID = select_one (\<lambda>d. filter (\<lambda>n. notifications_id n = ID) (notifications d))"

definition sqlc_GetUserNotifications :: "uuid \<Rightarrow> int \<Rightarrow> int \<Rightarrow> user_notifications_row list query" where
  "sqlc_GetUserNotifications user_id row_limit row_offset = select_page row_limit row_offset (\<lambda>d.
     order_by_desc user_notifications_created_at
       (filter (\<lambda>n. user_notifications_user_id n = user_id) (user_notifications d)))"

definition sqlc_MarkUserNotificationAsRead :: "uuid \<Rightarrow> uuid \<Rightarrow> unit query" where
  "sqlc_MarkUserNotificationAsRead ID user_id = modifyE (\<lambda>d. d\<lparr>user_notifications := upd_where (\<lambda>n.
     user_notifications_id n = ID \<and> user_notifications_user_id n = user_id)
     (\<lambda>n. n\<lparr>user_notifications_is_read := Some True\<rparr>) (user_notifications d)\<rparr>)"

definition sqlc_UpdateNotification :: "uuid \<Rightarrow> string \<Rightarrow> string \<Rightarrow> string option \<Rightarrow> bool option \<Rightarrow> unit query" where
  "sqlc_UpdateNotification ID title content typ is_pinned d =
     (if list_ex (\<lambda>n. notifications_id n = ID) (notifications d) \<and>
         (case typ of None \<Rightarrow> False
          | Some t \<Rightarrow> t \<notin> {NotificationInfo, NotificationWarning, NotificationSuccess, NotificationError})
      then (Inl CheckViolation, d)
      else (Inr (), d\<lparr>notifications := upd_where (\<lambda>n. notifications_id n = ID)
         (\<lambda>n. n\<lparr>notifications_title := title, notifications_content := content, notifications_type := typ,
            notifications_is_pinned := is_pinned\<rparr>) (notifications d)\<rparr>))"

section \<open>NotificationRepo\<close>

text \<open>The two methods that read global notifications build the entity in the same way.\<close>

definition notification_entity :: "notifications_row \<Rightarrow> notification" where
  "notification_entity r = \<lparr>notif_ID = notifications_id r, notif_Title = notifications_title r,
     notif_Content = notifications_content r, notif_Type = ptrStrToStr (notifications_type r),
     notif_IsPinned = boolPtrToBool (notifications_is_pinned r),
     notif_IsGlobal = boolPtrToBool (notifications_is_global r),
     notif_CreatedAt = ptrTimeToTime (notifications_created_at r)\<rparr>"

definition user_notification_entity :: "user_notifications_row \<Rightarrow> user_notification" where
  "user_notification_entity r = \<lparr>unotif_ID = user_notifications_id r, unotif_UserID = user_notifications_user_id r,
     unotif_NotificationID = user_notifications_notification_id r,
     unotif_Title = ptrStrToStr (user_notifications_title r), unotif_Content = ptrStrToStr (user_notifications_content r),
     unotif_Type = ptrStrToStr (user_notifications_type r), unotif_IsRead = boolPtrToBool (user_notifications_is_read r),
     unotif_CreatedAt = ptrTimeToTime (user_notifications_created_at r)\<rparr>"

definition NotificationRepo_Create :: "notification \<Rightarrow> notification op" where
  "NotificationRepo_Create notif =
     bindE (id_or_new (notif_ID notif)) (\<lambda>ID.
     bindE (time_or_now (notif_CreatedAt notif)) (\<lambda>createdAt.
     bindE (mapErr (wrap ''NotificationRepo - Create'') (sql (sqlc_CreateNotification
       \<lparr>notifications_id = ID, notifications_title = notif_Title notif, notifications_content = notif_Content notif,
        notifications_type = Some (notif_Type notif), notifications_is_pinned = Some (notif_IsPinned notif),
        notifications_is_global = Some (notif_IsGlobal notif), notifications_created_at = Some createdAt\<rparr>))) (\<lambda>row.
     returnE (notif\<lparr>notif_ID := ID, notif_CreatedAt := ptrTimeToTime (notifications_created_at row)\<rparr>))))"

definition NotificationRepo_GetByID :: "uuid \<Rightarrow> notification op" where
  "NotificationRepo_GetByID ID =
     bindE (mapErr (no_rows_as ErrNotificationNotFound ''NotificationRepo - GetByID'') (sql (sqlc_GetNotificationByID ID)))
       (\<lambda>row. returnE (notification_entity row))"

definition NotificationRepo_GetAll :: "int \<Rightarrow> int \<Rightarrow> notification list op" where
  "NotificationRepo_GetAll row_limit row_offset =
     bindE (int32E ''NotificationRepo - GetAll limit'' row_limit) (\<lambda>limit32.
     bindE (int32E ''NotificationRepo - GetAll offset'' row_offset) (\<lambda>offset32.
     bindE (mapErr (wrap ''NotificationRepo - GetAll'') (sql (sqlc_GetAllNotifications limit32 offset32))) (\<lambda>rows.
     returnE (map notification_entity rows))))"

definition NotificationRepo_Update :: "notification \<Rightarrow> unit op" where
  "NotificationRepo_Update notif = sql (sqlc_UpdateNotification (notif_ID notif) (notif_Title notif)
     (notif_Content notif) (Some (notif_Type notif)) (Some (notif_IsPinned notif)))"

definition NotificationRepo_Delete :: "uuid \<Rightarrow> unit op" where
  "NotificationRepo_Delete ID = sql (sqlc_DeleteNotification ID)"

definition NotificationRepo_CreateUserNotification :: "user_notification \<Rightarrow> user_notification op" where
  "NotificationRepo_CreateUserNotification n =
     bindE (id_or_new (unotif_ID n)) (\<lambda>ID.
     bindE (time_or_now (unotif_CreatedAt n)) (\<lambda>createdAt.
     bindE (mapErr (wrap ''NotificationRepo - CreateUserNotification'') (sql (sqlc_CreateUserNotification
       \<lparr>user_notifications_id = ID, user_notifications_user_id = unotif_UserID n,
        user_notifications_notification_id = unotif_NotificationID n,
        user_notifications_title = strPtrOrNil (unotif_Title n), user_notifications_content = strPtrOrNil (unotif_Content n),
        user_notifications_type = Some (unotif_Type n), user_notifications_is_read = Some (unotif_IsRead n),
        user_notifications_created_at = Some createdAt\<rparr>))) (\<lambda>row.
     returnE (n\<lparr>unotif_ID := ID, unotif_CreatedAt := ptrTimeToTime (user_notifications_created_at row)\<rparr>))))"

definition NotificationRepo_GetUserNotifications :: "uuid \<Rightarrow> int \<Rightarrow> int \<Rightarrow> user_notification list op" where
  "NotificationRepo_GetUserNotifications userID row_limit row_offset =
     bindE (int32E ''NotificationRepo - GetUserNotifications limit'' row_limit) (\<lambda>limit32.
     bindE (int32E ''NotificationRepo - GetUserNotifications offset'' row_offset) (\<lambda>offset32.
     bindE (mapErr (wrap ''NotificationRepo - GetUserNotifications'')
       (sql (sqlc_GetUserNotifications userID limit32 offset32))) (\<lambda>rows.
     returnE (map user_notification_entity rows))))"

definition NotificationRepo_MarkAsRead :: "uuid \<Rightarrow> uuid \<Rightarrow> unit op" where
  "NotificationRepo_MarkAsRead ID userID = sql (sqlc_MarkUserNotificationAsRead ID userID)"

definition NotificationRepo_CountUnread :: "uuid \<Rightarrow> int op" where
  "NotificationRepo_CountUnread userID =
     mapErr (wrap ''NotificationRepo - CountUnread'') (sql (sqlc_CountUnreadUserNotifications userID))"

definition NotificationRepo_DeleteUserNotification :: "uuid \<Rightarrow> uuid \<Rightarrow> unit op" where
  "NotificationRepo_DeleteUserNotification ID userID = sql (sqlc_DeleteUserNotification ID userID)"

section \<open>NotificationUseCase\<close>

definition Notification_CreateGlobal :: "string \<Rightarrow> string \<Rightarrow> string \<Rightarrow> bool \<Rightarrow> notification op" where
  "Notification_CreateGlobal title content notifType isPinned =
     bindE (failIf (title = '''' \<or> content = '''')
       (Plain ''NotificationUseCase - CreateGlobal: title and content are required'')) (\<lambda>_.
     bindE uuid_New (\<lambda>ID.
     bindE nowE (\<lambda>now.
     mapErr (wrap ''NotificationUseCase - CreateGlobal'') (NotificationRepo_Create
       \<lparr>notif_ID = ID, notif_Title = title, notif_Content = content, notif_Type = notifType,
        notif_IsPinned = isPinned, notif_IsGlobal = True, notif_CreatedAt = now\<rparr>))))"

definition Notification_CreatePersonal :: "uuid \<Rightarrow> string \<Rightarrow> string \<Rightarrow> string \<Rightarrow> user_notification op" where
  "Notification_CreatePersonal userID title content notifType =
     bindE (failIf (title = '''' \<or> content = '''')
       (Plain ''NotificationUseCase - CreatePersonal: title and content are required'')) (\<lambda>_.
     bindE uuid_New (\<lambda>ID.
     bindE nowE (\<lambda>now.
     mapErr (wrap ''NotificationUseCase - CreatePersonal'') (NotificationRepo_CreateUserNotification
       \<lparr>unotif_ID = ID, unotif_UserID = userID, unotif_NotificationID = None, unotif_Title = title,
        unotif_Content = content, unotif_Type = notifType, unotif_IsRead = False, unotif_CreatedAt = now\<rparr>))))"

definition Notification_GetGlobal :: "int \<Rightarrow> int \<Rightarrow> notification list op" where
  "Notification_GetGlobal page perPage =
     (case page_window page perPage of (perPage, row_offset) \<Rightarrow>
      mapErr (wrap ''NotificationUseCase - GetGlobal'') (NotificationRepo_GetAll perPage row_offset))"

definition Notification_GetUserNotifications :: "uuid \<Rightarrow> int \<Rightarrow> int \<Rightarrow> user_notification list op" where
  "Notification_GetUserNotifications userID page perPage =
     (case page_window page perPage of (perPage, row_offset) \<Rightarrow>
      mapErr (wrap ''NotificationUseCase - GetUserNotifications'')
        (NotificationRepo_GetUserNotifications userID perPage row_offset))"

definition Notification_MarkAsRead :: "uuid \<Rightarrow> uuid \<Rightarrow> unit op" where
  "Notification_MarkAsRead ID userID =
     mapErr (wrap ''NotificationUseCase - MarkAsRead'') (NotificationRepo_MarkAsRead ID userID)"

definition Notification_CountUnread :: "uuid \<Rightarrow> int op" where
  "Notification_CountUnread userID =
     mapErr (wrap ''NotificationUseCase - CountUnread'') (NotificationRepo_CountUnread userID)"

definition Notification_Update :: "uuid \<Rightarrow> string \<Rightarrow> string \<Rightarrow> string \<Rightarrow> bool \<Rightarrow> notification op" where
  "Notification_Update ID title content notifType isPinned =
     bindE (mapErr (wrap ''NotificationUseCase - Update - GetByID'') (NotificationRepo_GetByID ID)) (\<lambda>notif.
     let notif = notif\<lparr>notif_Title := title, notif_Content := content, notif_Type := notifType,
                    notif_IsPinned := isPinned\<rparr> in
     bindE (mapErr (wrap ''NotificationUseCase - Update'') (NotificationRepo_Update notif)) (\<lambda>_. returnE notif))"

definition Notification_Delete :: "uuid \<Rightarrow> unit op" where
  "Notification_Delete ID = mapErr (wrap ''NotificationUseCase - Delete'') (NotificationRepo_Delete ID)"

end
