(* ===== verification/CTF_NotificationProps.thy ===== *)
theory CTF_NotificationProps
  imports CTF_Notifications CTF_Demo
begin

text \<open>
  What creating and reading a personal notification does to the notifications its user has not read.
\<close>

section \<open>The life of a personal notification\<close>

text \<open>The unread notifications of a user, as the count sees them.\<close>

definition unread :: "db \<Rightarrow> uuid \<Rightarrow> uuid list" where
  "unread d u = map user_notifications_id (filter (\<lambda>n. user_notifications_user_id n = u \<and>
     user_notifications_is_read n = Some False) (user_notifications d))"

lemma CreatePersonal_Inr:
  assumes "Notification_CreatePersonal u title content typ w = (Inr n, w')"
  obtains r where "store w' = (store w)\<lparr>user_notifications := user_notifications (store w) @ [r]\<rparr>"
    "user_notifications_id r = unotif_ID n" "user_notifications_user_id r = u" "user_notifications_is_read r = Some False"
    "unotif_ID n \<notin> user_notifications_id ` set (user_notifications (store w))"
proof -
  from assms obtain ID t w1 where repo: "NotificationRepo_CreateUserNotification
       \<lparr>unotif_ID = ID, unotif_UserID = u, unotif_NotificationID = None, unotif_Title = title,
        unotif_Content = content, unotif_Type = typ, unotif_IsRead = False, unotif_CreatedAt = t\<rparr> w1 = (Inr n, w')"
    and w1: "store w1 = store w"
    by (auto simp: Notification_CreatePersonal_def bindE_Inr_iff failIf_def uuid_New_def nowE_def split: if_splits)
  from repo obtain ID' t' row w2 where q: "sql (sqlc_CreateUserNotification
       \<lparr>user_notifications_id = ID', user_notifications_user_id = u, user_notifications_notification_id = None,
        user_notifications_title = strPtrOrNil title, user_notifications_content = strPtrOrNil content,
        user_notifications_type = Some typ, user_notifications_is_read = Some False,
        user_notifications_created_at = Some t'\<rparr>) w2 = (Inr row, w')"
    and w2: "store w2 = store w1" and n: "unotif_ID n = ID'"
    by (auto simp: NotificationRepo_CreateUserNotification_def bindE_Inr_iff id_or_new_def time_or_now_def uuid_New_def
      nowE_def split: if_splits)
  from q w1 w2 n show thesis
    by (intro that) (auto simp: sql_Inr_iff sqlc_CreateUserNotification_def list_ex_iff split: if_splits)
qed

lemma MarkAsRead_Inr:
  "Notification_MarkAsRead k v w = (Inr x, w') \<Longrightarrow> store w' = (store w)\<lparr>user_notifications := upd_where (\<lambda>n.
     user_notifications_id n = k \<and> user_notifications_user_id n = v)
     (\<lambda>n. n\<lparr>user_notifications_is_read := Some True\<rparr>) (user_notifications (store w))\<rparr>"
  by (auto simp: Notification_MarkAsRead_def NotificationRepo_MarkAsRead_def sql_Inr_iff sqlc_MarkUserNotificationAsRead_def)

lemma unread_upd:
  "unread (d\<lparr>user_notifications := upd_where (\<lambda>n. user_notifications_id n = k \<and> user_notifications_user_id n = v)
     (\<lambda>n. n\<lparr>user_notifications_is_read := Some True\<rparr>) (user_notifications d)\<rparr>) u =
   (if v = u then filter (\<lambda>i. i \<noteq> k) (unread d u) else unread d u)"
proof -
  have "map user_notifications_id (filter (\<lambda>n. user_notifications_user_id n = u \<and> user_notifications_is_read n = Some False)
      (upd_where (\<lambda>n. user_notifications_id n = k \<and> user_notifications_user_id n = v)
        (\<lambda>n. n\<lparr>user_notifications_is_read := Some True\<rparr>) ns)) =
    (let is = map user_notifications_id (filter (\<lambda>n. user_notifications_user_id n = u \<and>
       user_notifications_is_read n = Some False) ns) in if v = u then filter (\<lambda>i. i \<noteq> k) is else is)" for ns
    by (induction ns) (auto simp: upd_where_def Let_def)
  from this [of "user_notifications d"] show ?thesis by (cases "v = u") (simp_all add: unread_def Let_def)
qed

text \<open>A personal notification is unread until its own user marks it as read: creating one adds it to what the
  user has not read and the count counts it; marking it in the name of another user changes nothing, and
  marking it in the name of its user restores what was unread before.\<close>

theorem personal_notification_read:
  assumes "Notification_CreatePersonal u title content typ w = (Inr n, w1)"
    and "Notification_MarkAsRead (unotif_ID n) v w1 = (Inr x, w2)"
  shows "unread (store w1) u = unread (store w) u @ [unotif_ID n] \<and>
    unread (store w2) u = (if v = u then unread (store w) u else unread (store w1) u) \<and>
    (\<forall>m w3. Notification_CountUnread u w1 = (Inr m, w3) \<longrightarrow> m = int (length (unread (store w) u)) + 1)"
proof -
  obtain r where r: "store w1 = (store w)\<lparr>user_notifications := user_notifications (store w) @ [r]\<rparr>"
    "user_notifications_id r = unotif_ID n" "user_notifications_user_id r = u" "user_notifications_is_read r = Some False"
    "unotif_ID n \<notin> user_notifications_id ` set (user_notifications (store w))"
    by (rule CreatePersonal_Inr [OF assms(1)])
  have 1: "unread (store w1) u = unread (store w) u @ [unotif_ID n]" using r by (simp add: unread_def)
  have "unotif_ID n \<notin> set (unread (store w) u)" using r(5) by (auto simp: unread_def)
  then have "filter (\<lambda>i. i \<noteq> unotif_ID n) (unread (store w) u) = unread (store w) u" by (intro filter_True) auto
  then have 2: "unread (store w2) u = (if v = u then unread (store w) u else unread (store w1) u)"
    unfolding MarkAsRead_Inr [OF assms(2)] unread_upd by (simp add: 1)
  have "m = int (length (unread (store w1) u))" if "Notification_CountUnread u w1 = (Inr m, w3)" for m w3
    using that by (auto simp: Notification_CountUnread_def NotificationRepo_CountUnread_def sql_Inr_iff
      sqlc_CountUnreadUserNotifications_def asksE_def unread_def)
  with 1 2 show ?thesis by auto
qed

theorem personal_notification_read_witness:
  "\<exists>n w1 w2. Notification_CreatePersonal 2 ''hello'' ''world'' NotificationInfo demo_world = (Inr n, w1) \<and>
     Notification_MarkAsRead (unotif_ID n) 3 w1 = (Inr (), w2) \<and> unread (store w2) 2 = [unotif_ID n]"
proof -
  let ?m = "Notification_CreatePersonal 2 ''hello'' ''world'' NotificationInfo demo_world"
  have "map_sum (\<lambda>_. ()) (\<lambda>_. ()) (fst ?m) = Inr () \<and>
      (case fst ?m of Inl _ \<Rightarrow> False | Inr n \<Rightarrow> fst (Notification_MarkAsRead (unotif_ID n) 3 (snd ?m)) = Inr ())" by code_simp
  then obtain n w1 w2 where run: "?m = (Inr n, w1)" "Notification_MarkAsRead (unotif_ID n) 3 w1 = (Inr (), w2)"
    by (cases ?m; cases "fst ?m"; cases "Notification_MarkAsRead (unotif_ID (projr (fst ?m))) 3 (snd ?m)") auto
  moreover have "unread (store demo_world) 2 = []" by code_simp
  ultimately show ?thesis using personal_notification_read [OF run] by auto
qed

end
