(* ===== verification/CTF_Ratings.thy ===== *)
theory CTF_Ratings
  imports CTF_Scoreboard CTF_Content CTF_Paging CTF_Float
begin

text \<open>
  Ratings of teams over several events: \<open>ratings.sql.go\<close>, \<open>RatingRepo\<close> and \<open>RatingUseCase\<close>. The columns
  for weights and points are decimals: what the database keeps of a \<open>float64\<close> in a column of a
  precision and a scale, or that it does not fit, is the parameter \<open>numeric\<close>.
\<close>

type_synonym numeric = "nat \<Rightarrow> nat \<Rightarrow> rat \<Rightarrow> rat option"

section \<open>Queries\<close>

definition rated :: "db \<Rightarrow> (global_ratings_row \<times> teams_row) list" where
  "rated d = join_row (\<lambda>g. team_by_id d (Some (global_ratings_team_id g))) (global_ratings d)"

definition sqlc_CountGlobalRatings :: "int query" where
  "sqlc_CountGlobalRatings = asksE (\<lambda>d. int (length (filter (\<lambda>(g, t). board_visible t) (rated d))))"

definition sqlc_CreateCTFEvent :: "numeric \<Rightarrow> ctf_events_row \<Rightarrow> ctf_events_row query" where
  "sqlc_CreateCTFEvent numeric r d =
     (case numeric 3 2 (ctf_events_weight r) of None \<Rightarrow> (Inl OutOfRange, d)
      | Some weight \<Rightarrow>
          if list_ex (\<lambda>e. ctf_events_id e = ctf_events_id r) (ctf_events d) then (Inl UniqueViolation, d)
          else let r = r\<lparr>ctf_events_weight := weight\<rparr>
               in (Inr (r\<lparr>ctf_events_weight := rnd64 weight\<rparr>), d\<lparr>ctf_events := ctf_events d @ [r]\<rparr>))"

definition sqlc_CreateTeamRating :: "numeric \<Rightarrow> team_ratings_row \<Rightarrow> unit query" where
  "sqlc_CreateTeamRating numeric r d =
     (case numeric 10 2 (team_ratings_rating_points r) of None \<Rightarrow> (Inl OutOfRange, d)
      | Some points \<Rightarrow>
          if list_ex (\<lambda>q. team_ratings_id q = team_ratings_id r \<or> team_ratings_team_id q = team_ratings_team_id r \<and>
               team_ratings_ctf_event_id q = team_ratings_ctf_event_id r) (team_ratings d)
          then (Inl UniqueViolation, d)
          else if \<not> team_exists (team_ratings_team_id r) d \<or>
            \<not> list_ex (\<lambda>e. ctf_events_id e = team_ratings_ctf_event_id r) (ctf_events d)
          then (Inl ForeignKeyViolation, d)
          else (Inr (), d\<lparr>team_ratings := team_ratings d @ [r\<lparr>team_ratings_rating_points := points\<rparr>]\<rparr>))"

definition sqlc_GetAllCTFEvents :: "ctf_events_row list query" where
  "sqlc_GetAllCTFEvents = select_all (\<lambda>d.
     map (\<lambda>e. e\<lparr>ctf_events_weight := rnd64 (ctf_events_weight e)\<rparr>)
       (sort_key (\<lambda>e. - ctf_events_start_time e) (ctf_events d)))"

definition sqlc_GetCTFEventByID :: "uuid \<Rightarrow> ctf_events_row query" where
  "sqlc_GetCTFEventByID ID = select_one (\<lambda>d.
     map (\<lambda>e. e\<lparr>ctf_events_weight := rnd64 (ctf_events_weight e)\<rparr>)
       (filter (\<lambda>e. ctf_events_id e = ID) (ctf_events d)))"

text \<open>The columns of the row of a rating, the points read as a \<open>float64\<close>.\<close>

definition rated_columns :: "global_ratings_row \<times> teams_row \<Rightarrow> global_ratings_row \<times> string" where
  "rated_columns = (\<lambda>(g, t). (g\<lparr>global_ratings_total_points := rnd64 (global_ratings_total_points g)\<rparr>, teams_name t))"

definition sqlc_GetGlobalRatingByTeamID :: "uuid \<Rightarrow> (global_ratings_row \<times> string) query" where
  "sqlc_GetGlobalRatingByTeamID team_id = select_one (\<lambda>d.
     map rated_columns (filter (\<lambda>(g, t). global_ratings_team_id g = team_id) (rated d)))"

definition sqlc_GetGlobalRatings :: "int \<Rightarrow> int \<Rightarrow> (global_ratings_row \<times> string) list query" where
  "sqlc_GetGlobalRatings row_limit row_offset = select_page row_limit row_offset (\<lambda>d.
     map rated_columns (sort_key (\<lambda>(g, t). - global_ratings_total_points g)
       (order_by_desc (\<lambda>(g, t). global_ratings_last_updated g) (filter (\<lambda>(g, t). board_visible t) (rated d)))))"

definition sqlc_GetTeamRatingsByTeamID :: "uuid \<Rightarrow> team_ratings_row list query" where
  "sqlc_GetTeamRatingsByTeamID team_id = select_all (\<lambda>d.
     map (\<lambda>r. r\<lparr>team_ratings_rating_points := rnd64 (team_ratings_rating_points r)\<rparr>)
       (order_by_desc team_ratings_created_at (filter (\<lambda>r. team_ratings_team_id r = team_id) (team_ratings d))))"

definition sqlc_UpsertGlobalRating :: "numeric \<Rightarrow> global_ratings_row \<Rightarrow> unit query" where
  "sqlc_UpsertGlobalRating numeric r d =
     (case numeric 12 2 (global_ratings_total_points r) of None \<Rightarrow> (Inl OutOfRange, d)
      | Some points \<Rightarrow>
          let r = r\<lparr>global_ratings_total_points := points\<rparr>; mine = (\<lambda>g. global_ratings_team_id g = global_ratings_team_id r) in
          if list_ex mine (global_ratings d)
          then (Inr (), d\<lparr>global_ratings := upd_where mine (\<lambda>_. r) (global_ratings d)\<rparr>)
          else if \<not> team_exists (global_ratings_team_id r) d then (Inl ForeignKeyViolation, d)
          else (Inr (), d\<lparr>global_ratings := global_ratings d @ [r]\<rparr>))"

section \<open>RatingRepo\<close>

definition ctfEventRowToEntity :: "ctf_events_row \<Rightarrow> ctf_event" where
  "ctfEventRowToEntity r = \<lparr>event_ID = ctf_events_id r, event_Name = ctf_events_name r,
     event_StartTime = ctf_events_start_time r, event_EndTime = ctf_events_end_time r,
     event_Weight = ctf_events_weight r,
     event_CreatedAt = (case ctf_events_created_at r of None \<Rightarrow> 0 | Some t \<Rightarrow> t)\<rparr>"

definition teamRatingRowToEntity :: "team_ratings_row \<Rightarrow> team_rating" where
  "teamRatingRowToEntity r = \<lparr>trating_ID = team_ratings_id r, trating_TeamID = team_ratings_team_id r,
     trating_CTFEventID = team_ratings_ctf_event_id r, trating_Rank = team_ratings_rank r,
     trating_Score = team_ratings_score r, trating_RatingPoints = team_ratings_rating_points r,
     trating_CreatedAt = (case team_ratings_created_at r of None \<Rightarrow> 0 | Some t \<Rightarrow> t)\<rparr>"

definition globalRatingRowToEntity :: "global_ratings_row \<times> string \<Rightarrow> global_rating" where
  "globalRatingRowToEntity = (\<lambda>(r, name). \<lparr>grating_TeamID = global_ratings_team_id r, grating_TeamName = name,
     grating_TotalPoints = global_ratings_total_points r, grating_EventsCount = global_ratings_events_count r,
     grating_BestRank = global_ratings_best_rank r,
     grating_LastUpdated = (case global_ratings_last_updated r of None \<Rightarrow> 0 | Some t \<Rightarrow> t)\<rparr>)"

definition globalRatingByTeamIDRowToEntity :: "global_ratings_row \<times> string \<Rightarrow> global_rating" where
  "globalRatingByTeamIDRowToEntity = (\<lambda>(r, name). \<lparr>grating_TeamID = global_ratings_team_id r, grating_TeamName = name,
     grating_TotalPoints = global_ratings_total_points r, grating_EventsCount = global_ratings_events_count r,
     grating_BestRank = global_ratings_best_rank r,
     grating_LastUpdated = (case global_ratings_last_updated r of None \<Rightarrow> 0 | Some t \<Rightarrow> t)\<rparr>)"

definition RatingRepo_CreateCTFEvent :: "numeric \<Rightarrow> ctf_event \<Rightarrow> ctf_event op" where
  "RatingRepo_CreateCTFEvent numeric event =
     bindE (id_or_new (event_ID event)) (\<lambda>ID.
     bindE (time_or_now (event_CreatedAt event)) (\<lambda>createdAt.
     bindE (mapErr (wrap ''RatingRepo - CreateCTFEvent'') (sql (sqlc_CreateCTFEvent numeric
       \<lparr>ctf_events_id = ID, ctf_events_name = event_Name event, ctf_events_start_time = event_StartTime event,
        ctf_events_end_time = event_EndTime event, ctf_events_weight = event_Weight event,
        ctf_events_created_at = Some createdAt\<rparr>))) (\<lambda>_.
     returnE (event\<lparr>event_ID := ID, event_CreatedAt := createdAt\<rparr>))))"

definition RatingRepo_GetCTFEventByID :: "uuid \<Rightarrow> ctf_event op" where
  "RatingRepo_GetCTFEventByID ID =
     bindE (mapErr (no_rows_as ErrCTFEventNotFound ''RatingRepo - GetCTFEventByID'') (sql (sqlc_GetCTFEventByID ID)))
       (\<lambda>row. returnE (ctfEventRowToEntity row))"

definition RatingRepo_GetAllCTFEvents :: "ctf_event list op" where
  "RatingRepo_GetAllCTFEvents =
     bindE (mapErr (wrap ''RatingRepo - GetAllCTFEvents'') (sql sqlc_GetAllCTFEvents))
       (\<lambda>rows. returnE (map ctfEventRowToEntity rows))"

definition RatingRepo_CreateTeamRating :: "numeric \<Rightarrow> team_rating \<Rightarrow> unit op" where
  "RatingRepo_CreateTeamRating numeric tr =
     bindE (id_or_new (trating_ID tr)) (\<lambda>ID.
     bindE (time_or_now (trating_CreatedAt tr)) (\<lambda>createdAt.
     bindE (int32E ''RatingRepo - CreateTeamRating Rank'' (trating_Rank tr)) (\<lambda>rank32.
     bindE (int32E ''RatingRepo - CreateTeamRating Score'' (trating_Score tr)) (\<lambda>score32.
     sql (sqlc_CreateTeamRating numeric \<lparr>team_ratings_id = ID, team_ratings_team_id = trating_TeamID tr,
       team_ratings_ctf_event_id = trating_CTFEventID tr, team_ratings_rank = rank32, team_ratings_score = score32,
       team_ratings_rating_points = trating_RatingPoints tr, team_ratings_created_at = Some createdAt\<rparr>)))))"

definition RatingRepo_GetTeamRatingsByTeamID :: "uuid \<Rightarrow> team_rating list op" where
  "RatingRepo_GetTeamRatingsByTeamID teamID =
     bindE (mapErr (wrap ''RatingRepo - GetTeamRatingsByTeamID'') (sql (sqlc_GetTeamRatingsByTeamID teamID)))
       (\<lambda>rows. returnE (map teamRatingRowToEntity rows))"

definition RatingRepo_UpsertGlobalRating :: "numeric \<Rightarrow> global_rating \<Rightarrow> unit op" where
  "RatingRepo_UpsertGlobalRating numeric gr =
     bindE (case grating_BestRank gr of None \<Rightarrow> returnE None
        | Some r \<Rightarrow> bindE (int32E ''RatingRepo - UpsertGlobalRating BestRank'' r) (\<lambda>v. returnE (Some v))) (\<lambda>bestRank.
     bindE (int32E ''RatingRepo - UpsertGlobalRating EventsCount'' (grating_EventsCount gr)) (\<lambda>eventsCount32.
     sql (sqlc_UpsertGlobalRating numeric \<lparr>global_ratings_team_id = grating_TeamID gr,
       global_ratings_total_points = grating_TotalPoints gr, global_ratings_events_count = eventsCount32,
       global_ratings_best_rank = bestRank, global_ratings_last_updated = Some (grating_LastUpdated gr)\<rparr>)))"

definition RatingRepo_GetGlobalRatings :: "int \<Rightarrow> int \<Rightarrow> global_rating list op" where
  "RatingRepo_GetGlobalRatings row_limit row_offset =
     bindE (int32E ''RatingRepo - GetGlobalRatings limit'' row_limit) (\<lambda>limit32.
     bindE (int32E ''RatingRepo - GetGlobalRatings offset'' row_offset) (\<lambda>offset32.
     bindE (mapErr (wrap ''RatingRepo - GetGlobalRatings'') (sql (sqlc_GetGlobalRatings limit32 offset32))) (\<lambda>rows.
     returnE (map globalRatingRowToEntity rows))))"

definition RatingRepo_CountGlobalRatings :: "int op" where
  "RatingRepo_CountGlobalRatings = sql sqlc_CountGlobalRatings"

definition RatingRepo_GetGlobalRatingByTeamID :: "uuid \<Rightarrow> global_rating op" where
  "RatingRepo_GetGlobalRatingByTeamID teamID =
     bindE (mapErr (no_rows_as ErrGlobalRatingNotFound ''RatingRepo - GetGlobalRatingByTeamID'')
       (sql (sqlc_GetGlobalRatingByTeamID teamID)))
       (\<lambda>row. returnE (globalRatingByTeamIDRowToEntity row))"

section \<open>RatingUseCase\<close>

definition CalculateRatingPoints :: "int \<Rightarrow> int \<Rightarrow> rat \<Rightarrow> rat" where
  "CalculateRatingPoints rank totalTeams weight =
     (if rank \<le> 0 \<or> totalTeams \<le> 0 then 0
      else
        let basePoints = rnd64 (rnd64 (rnd64 (of_int (totalTeams - rank + 1)) / rnd64 (of_int totalTeams)) * 100)
        in rnd64 (basePoints * weight))"

definition Rating_GetGlobalRatings :: "int \<Rightarrow> int \<Rightarrow> (global_rating list \<times> int) op" where
  "Rating_GetGlobalRatings page perPage =
     (let perPage = (if perPage \<le> 0 then 20 else perPage);
          perPage = (if 100 < perPage then 100 else perPage);
          row_offset = wrap64 ((page - 1) * perPage);
          row_offset = (if row_offset < 0 then 0 else row_offset)
      in
      bindE (mapErr (wrap ''RatingUseCase - GetGlobalRatings'') (RatingRepo_GetGlobalRatings perPage row_offset)) (\<lambda>items.
      bindE (mapErr (wrap ''RatingUseCase - GetGlobalRatings count'') RatingRepo_CountGlobalRatings) (\<lambda>total.
      returnE (items, total))))"

definition Rating_GetTeamRating :: "uuid \<Rightarrow> (global_rating \<times> team_rating list) op" where
  "Rating_GetTeamRating teamID =
     bindE (mapErr (\<lambda>e. if is_sentinel e ErrGlobalRatingNotFound then e else wrap ''RatingUseCase - GetTeamRating'' e)
       (RatingRepo_GetGlobalRatingByTeamID teamID)) (\<lambda>global.
     bindE (mapErr (wrap ''RatingUseCase - GetTeamRating team ratings'') (RatingRepo_GetTeamRatingsByTeamID teamID)) (\<lambda>ratings.
     returnE (global, ratings)))"

definition Rating_GetCTFEvents :: "ctf_event list op" where
  "Rating_GetCTFEvents = mapErr (wrap ''RatingUseCase - GetCTFEvents'') RatingRepo_GetAllCTFEvents"

definition Rating_CreateCTFEvent :: "numeric \<Rightarrow> string \<Rightarrow> time \<Rightarrow> time \<Rightarrow> rat \<Rightarrow> ctf_event op" where
  "Rating_CreateCTFEvent numeric name startTime endTime weight =
     bindE (failIf (name = '''') (Plain ''RatingUseCase - CreateCTFEvent: name is required'')) (\<lambda>_.
     bindE (failIf (endTime < startTime) (Plain ''RatingUseCase - CreateCTFEvent: end_time must be after start_time'')) (\<lambda>_.
     let weight = (if weight \<le> 0 then 1 else weight) in
     bindE uuid_New (\<lambda>ID.
     mapErr (wrap ''RatingUseCase - CreateCTFEvent'') (RatingRepo_CreateCTFEvent numeric
       \<lparr>event_ID = ID, event_Name = name, event_StartTime = startTime, event_EndTime = endTime,
        event_Weight = weight, event_CreatedAt = 0\<rparr>))))"

text \<open>The sum of the points in the order of the rows, and the least rank.\<close>

definition rating_sum :: "team_rating list \<Rightarrow> rat" where
  "rating_sum ratings = foldl (\<lambda>t r. rnd64 (t + trating_RatingPoints r)) 0 ratings"

definition best_rank :: "team_rating list \<Rightarrow> int option" where
  "best_rank ratings = foldl (\<lambda>b r. case b of None \<Rightarrow> Some (trating_Rank r)
     | Some k \<Rightarrow> if trating_Rank r < k then Some (trating_Rank r) else Some k) None ratings"

definition Rating_recalculateGlobalRatings :: "numeric \<Rightarrow> unit op" where
  "Rating_recalculateGlobalRatings numeric =
     bindE (mapErr (wrap ''RatingUseCase - recalculateGlobalRatings get teams'') TeamRepo_GetAll) (\<lambda>teams.
     forE teams (\<lambda>team.
       bindE (mapErr (wrap ''RatingUseCase - recalculateGlobalRatings get team ratings'')
         (RatingRepo_GetTeamRatingsByTeamID (team_ID team))) (\<lambda>ratings.
       bindE nowE (\<lambda>now.
       mapErr (wrap ''RatingUseCase - recalculateGlobalRatings upsert'') (RatingRepo_UpsertGlobalRating numeric
         \<lparr>grating_TeamID = team_ID team, grating_TeamName = team_Name team, grating_TotalPoints = rating_sum ratings,
          grating_EventsCount = int (length ratings), grating_BestRank = best_rank ratings,
          grating_LastUpdated = now\<rparr>)))))"

definition Rating_FinalizeCTFEvent :: "numeric \<Rightarrow> uuid \<Rightarrow> unit op" where
  "Rating_FinalizeCTFEvent numeric eventID =
     bindE (mapErr (\<lambda>e. if is_sentinel e ErrCTFEventNotFound then e
         else wrap ''RatingUseCase - FinalizeCTFEvent get event'' e)
       (RatingRepo_GetCTFEventByID eventID)) (\<lambda>event.
     bindE (mapErr (wrap ''RatingUseCase - FinalizeCTFEvent get scoreboard'') SolveRepo_GetScoreboard) (\<lambda>scoreboard.
     let totalTeams = int (length scoreboard) in
     bindE (forE (enumerate 0 scoreboard) (\<lambda>(rank, entry).
       mapErr (wrap ''RatingUseCase - FinalizeCTFEvent create team rating'') (RatingRepo_CreateTeamRating numeric
         \<lparr>trating_ID = 0, trating_TeamID = sb_TeamID entry, trating_CTFEventID = eventID, trating_Rank = int rank + 1,
          trating_Score = sb_Points entry,
          trating_RatingPoints = CalculateRatingPoints (int rank + 1) totalTeams (event_Weight event),
          trating_CreatedAt = 0\<rparr>))) (\<lambda>_.
     Rating_recalculateGlobalRatings numeric)))"

end
