(* ===== verification/CTF_RatingProps.thy ===== *)
theory CTF_RatingProps
  imports CTF_Ratings CTF_ScoreFacts CTF_Demo
begin

text \<open>
  What finalizing an event records: a rating for every row of the scoreboard in its order, and for every team
  the number of its events and its best rank; and that an event some of whose ratings are recorded cannot
  be finalized any more.
\<close>

section \<open>Loops\<close>

section \<open>The best rank\<close>

lemma best_rank_spec:
  "best_rank rs = (if rs = [] then None else Some (Min (trating_Rank ` set rs)))"
proof (induction rs rule: rev_induct)
  case (snoc r rs)
  have "best_rank (rs @ [r]) = (case best_rank rs of None \<Rightarrow> Some (trating_Rank r)
      | Some k \<Rightarrow> if trating_Rank r < k then Some (trating_Rank r) else Some k)"
    by (simp add: best_rank_def)
  then show ?case unfolding snoc by (cases "rs = []") (simp_all add: min_def del: Min_gr_iff Min_ge_iff)
qed (simp add: best_rank_def)

section \<open>The ratings of an event\<close>

text \<open>What identifies a rating: the team, the event, the rank and the score.\<close>

definition rating_key :: "team_ratings_row \<Rightarrow> uuid \<times> uuid \<times> int \<times> int" where
  "rating_key r = (team_ratings_team_id r, team_ratings_ctf_event_id r, team_ratings_rank r, team_ratings_score r)"

definition rated_in :: "uuid \<Rightarrow> db \<Rightarrow> uuid set" where
  "rated_in e d = team_ratings_team_id ` {r \<in> set (team_ratings d). team_ratings_ctf_event_id r = e}"

lemma CreateTeamRating_Inr:
  assumes "RatingRepo_CreateTeamRating numeric tr w = (Inr x, w')"
  obtains r where "store w' = (store w)\<lparr>team_ratings := team_ratings (store w) @ [r]\<rparr>"
    "rating_key r = (trating_TeamID tr, trating_CTFEventID tr, trating_Rank tr, trating_Score tr)"
    "trating_TeamID tr \<notin> rated_in (trating_CTFEventID tr) (store w)"
proof -
  from assms obtain ID t w1 where q: "sql (sqlc_CreateTeamRating numeric \<lparr>team_ratings_id = ID,
       team_ratings_team_id = trating_TeamID tr, team_ratings_ctf_event_id = trating_CTFEventID tr,
       team_ratings_rank = trating_Rank tr, team_ratings_score = trating_Score tr,
       team_ratings_rating_points = trating_RatingPoints tr, team_ratings_created_at = Some t\<rparr>) w1 = (Inr (), w')"
    and w1: "store w1 = store w"
    by (auto simp: RatingRepo_CreateTeamRating_def bindE_Inr_iff id_or_new_def time_or_now_def uuid_New_def nowE_def
      split: if_splits)
  from q obtain points where "numeric 10 2 (trating_RatingPoints tr) = Some points"
    by (auto simp: sql_Inr_iff sqlc_CreateTeamRating_def split: option.splits)
  with q w1 show thesis
    by (intro that [of "\<lparr>team_ratings_id = ID, team_ratings_team_id = trating_TeamID tr,
        team_ratings_ctf_event_id = trating_CTFEventID tr, team_ratings_rank = trating_Rank tr,
        team_ratings_score = trating_Score tr, team_ratings_rating_points = points,
        team_ratings_created_at = Some t\<rparr>"])
      (auto simp: sql_Inr_iff sqlc_CreateTeamRating_def rating_key_def rated_in_def list_ex_iff split: if_splits)
qed

text \<open>The loop of \<open>FinalizeCTFEvent\<close> over the rest of a scoreboard.\<close>

definition rating_loop :: "numeric \<Rightarrow> uuid \<Rightarrow> rat \<Rightarrow> int \<Rightarrow> (nat \<times> scoreboard_entry) list \<Rightarrow> unit op" where
  "rating_loop numeric e weight n entries = forE entries (\<lambda>(rank, entry).
     mapErr (wrap ''RatingUseCase - FinalizeCTFEvent create team rating'') (RatingRepo_CreateTeamRating numeric
       \<lparr>trating_ID = 0, trating_TeamID = sb_TeamID entry, trating_CTFEventID = e, trating_Rank = int rank + 1,
        trating_Score = sb_Points entry, trating_RatingPoints = CalculateRatingPoints (int rank + 1) n weight,
        trating_CreatedAt = 0\<rparr>))"

lemma rating_loop_Inr:
  assumes "rating_loop numeric e weight n entries w = (Inr x, w')"
  shows "\<exists>rs. store w' = (store w)\<lparr>team_ratings := team_ratings (store w) @ rs\<rparr> \<and>
    map rating_key rs = map (\<lambda>(i, b). (sb_TeamID b, e, int i + 1, sb_Points b)) entries \<and>
    sb_TeamID ` snd ` set entries \<inter> rated_in e (store w) = {}"
  using assms
proof (induction entries arbitrary: w)
  case Nil
  then show ?case by (auto simp: rating_loop_def intro: exI [of _ "[]"])
next
  case (Cons ib entries)
  obtain i b where ib: "ib = (i, b)" by (cases ib)
  from Cons.prems ib obtain w1 where step: "RatingRepo_CreateTeamRating numeric
       \<lparr>trating_ID = 0, trating_TeamID = sb_TeamID b, trating_CTFEventID = e, trating_Rank = int i + 1,
        trating_Score = sb_Points b, trating_RatingPoints = CalculateRatingPoints (int i + 1) n weight,
        trating_CreatedAt = 0\<rparr> w = (Inr (), w1)"
    and rest: "rating_loop numeric e weight n entries w1 = (Inr x, w')"
    by (auto simp: rating_loop_def bindE_Inr_iff)
  obtain r where r: "store w1 = (store w)\<lparr>team_ratings := team_ratings (store w) @ [r]\<rparr>"
    "rating_key r = (sb_TeamID b, e, int i + 1, sb_Points b)" "sb_TeamID b \<notin> rated_in e (store w)"
    using CreateTeamRating_Inr [OF step] by (metis team_rating.select_convs(2,3,4,5))
  from Cons.IH [OF rest] obtain rs where rs: "store w' = (store w1)\<lparr>team_ratings := team_ratings (store w1) @ rs\<rparr>"
    "map rating_key rs = map (\<lambda>(i, b). (sb_TeamID b, e, int i + 1, sb_Points b)) entries"
    "sb_TeamID ` snd ` set entries \<inter> rated_in e (store w1) = {}" by blast
  have "rated_in e (store w) \<subseteq> rated_in e (store w1)" using r(1) by (auto simp: rated_in_def)
  with r rs ib show ?case by (intro exI [of _ "r # rs"]) auto
qed

section \<open>The global ratings\<close>

text \<open>The rating of a team that its ratings per event give: their number and the best rank.\<close>

definition ranks_of :: "db \<Rightarrow> uuid \<Rightarrow> int list" where
  "ranks_of d t = map team_ratings_rank (filter (\<lambda>r. team_ratings_team_id r = t) (team_ratings d))"

definition rated_globally :: "db \<Rightarrow> uuid \<Rightarrow> bool" where
  "rated_globally d t \<longleftrightarrow> (\<exists>g \<in> set (global_ratings d). global_ratings_team_id g = t \<and>
     global_ratings_events_count g = int (length (ranks_of d t)) \<and>
     global_ratings_best_rank g = (if ranks_of d t = [] then None else Some (Min (set (ranks_of d t)))))"

lemma order_by_desc_facts: "length (order_by_desc f xs) = length xs" "set (order_by_desc f xs) = set xs"
proof -
  show "set (order_by_desc f xs) = set xs" by (auto simp: order_by_desc_def)
  have "length (filter (\<lambda>r. f r = None) xs) + length (filter (\<lambda>r. \<not> f r = None) xs) = length xs"
    by (rule sum_length_filter_compl)
  then show "length (order_by_desc f xs) = length xs" by (simp add: order_by_desc_def)
qed

lemma GetTeamRatings_Inr:
  assumes "RatingRepo_GetTeamRatingsByTeamID t w = (Inr rs, w')"
  shows "store w' = store w \<and> length rs = length (ranks_of (store w) t) \<and>
    best_rank rs = (if ranks_of (store w) t = [] then None else Some (Min (set (ranks_of (store w) t))))"
proof -
  let ?mine = "filter (\<lambda>r. team_ratings_team_id r = t) (team_ratings (store w))"
  let ?sorted = "order_by_desc team_ratings_created_at ?mine"
  from assms have rs: "rs = map (\<lambda>r. teamRatingRowToEntity (r\<lparr>team_ratings_rating_points := rnd64 (team_ratings_rating_points r)\<rparr>)) ?sorted"
    "store w' = store w"
    by (auto simp: RatingRepo_GetTeamRatingsByTeamID_def bindE_Inr_iff sql_Inr_iff sqlc_GetTeamRatingsByTeamID_def
      select_all_def asksE_def o_def)
  have "trating_Rank ` set rs = set (ranks_of (store w) t)" "length rs = length (ranks_of (store w) t)"
    unfolding rs(1) by (auto simp: ranks_of_def order_by_desc_facts teamRatingRowToEntity_def image_iff)
  then show ?thesis using rs(2) by (auto simp: best_rank_spec)
qed

lemma UpsertGlobalRating_Inr:
  assumes "RatingRepo_UpsertGlobalRating numeric gr w = (Inr x, w')"
  obtains g G where "store w' = (store w)\<lparr>global_ratings := G\<rparr>" "g \<in> set G"
    "global_ratings_team_id g = grating_TeamID gr" "global_ratings_events_count g = grating_EventsCount gr"
    "global_ratings_best_rank g = grating_BestRank gr"
    "\<And>h. h \<in> set (global_ratings (store w)) \<Longrightarrow> global_ratings_team_id h \<noteq> grating_TeamID gr \<Longrightarrow> h \<in> set G"
proof -
  let ?row = "\<lambda>p. \<lparr>global_ratings_team_id = grating_TeamID gr, global_ratings_total_points = p,
       global_ratings_events_count = grating_EventsCount gr, global_ratings_best_rank = grating_BestRank gr,
       global_ratings_last_updated = Some (grating_LastUpdated gr)\<rparr>"
  from assms have "sql (sqlc_UpsertGlobalRating numeric (?row (grating_TotalPoints gr))) w = (Inr (), w')"
    by (auto simp: RatingRepo_UpsertGlobalRating_def bindE_Inr_iff split: option.splits)
  then obtain p where st: "store w' = (store w)\<lparr>global_ratings :=
      (if list_ex (\<lambda>g. global_ratings_team_id g = grating_TeamID gr) (global_ratings (store w))
       then upd_where (\<lambda>g. global_ratings_team_id g = grating_TeamID gr) (\<lambda>_. ?row p) (global_ratings (store w))
       else global_ratings (store w) @ [?row p])\<rparr>"
    by (auto simp: sql_Inr_iff sqlc_UpsertGlobalRating_def Let_def split: option.splits if_splits)
  have G: "?row p \<in> set (if list_ex (\<lambda>g. global_ratings_team_id g = t) G
       then upd_where (\<lambda>g. global_ratings_team_id g = t) (\<lambda>_. ?row p) G else G @ [?row p])"
    "h \<in> set G \<Longrightarrow> global_ratings_team_id h \<noteq> t \<Longrightarrow> h \<in> set (if list_ex (\<lambda>g. global_ratings_team_id g = t) G
       then upd_where (\<lambda>g. global_ratings_team_id g = t) (\<lambda>_. ?row p) G else G @ [?row p])" for G h t
    by (auto simp: list_ex_iff upd_where_def intro: rev_image_eqI)
  show thesis
    by (rule that [where g = "?row p", OF st G(1)], simp, simp, simp, erule G(2), assumption)
qed

definition recalculate_loop :: "numeric \<Rightarrow> team list \<Rightarrow> unit op" where
  "recalculate_loop numeric ts = forE ts (\<lambda>team.
       bindE (mapErr (wrap ''RatingUseCase - recalculateGlobalRatings get team ratings'')
         (RatingRepo_GetTeamRatingsByTeamID (team_ID team))) (\<lambda>ratings.
       bindE nowE (\<lambda>now.
       mapErr (wrap ''RatingUseCase - recalculateGlobalRatings upsert'') (RatingRepo_UpsertGlobalRating numeric
         \<lparr>grating_TeamID = team_ID team, grating_TeamName = team_Name team, grating_TotalPoints = rating_sum ratings,
          grating_EventsCount = int (length ratings), grating_BestRank = best_rank ratings,
          grating_LastUpdated = now\<rparr>))))"

lemma recalculate_loop_Inr:
  assumes "recalculate_loop numeric ts w = (Inr x, w')" "\<And>t. t \<in> S \<Longrightarrow> rated_globally (store w) t"
  shows "(\<exists>G. store w' = (store w)\<lparr>global_ratings := G\<rparr>) \<and> (\<forall>t \<in> S \<union> team_ID ` set ts. rated_globally (store w') t)"
  using assms
proof (induction ts arbitrary: w S)
  case Nil
  then show ?case by (auto simp: recalculate_loop_def intro!: exI [of _ "global_ratings (store w')"])
next
  case (Cons team ts)
  from Cons.prems(1) obtain rs w1 w2 now w3 where r: "RatingRepo_GetTeamRatingsByTeamID (team_ID team) w = (Inr rs, w1)"
    and now: "nowE w1 = (Inr now, w2)"
    and u: "RatingRepo_UpsertGlobalRating numeric \<lparr>grating_TeamID = team_ID team, grating_TeamName = team_Name team,
       grating_TotalPoints = rating_sum rs, grating_EventsCount = int (length rs), grating_BestRank = best_rank rs,
       grating_LastUpdated = now\<rparr> w2 = (Inr (), w3)"
    and rest: "recalculate_loop numeric ts w3 = (Inr x, w')"
    by (auto simp: recalculate_loop_def bindE_Inr_iff)
  note rs = GetTeamRatings_Inr [OF r]
  have s2: "store w2 = store w" using rs nowE_store [OF now] by simp
  from u obtain g G where G: "store w3 = (store w2)\<lparr>global_ratings := G\<rparr>" "g \<in> set G"
    "global_ratings_team_id g = team_ID team" "global_ratings_events_count g = int (length rs)"
    "global_ratings_best_rank g = best_rank rs"
    "\<And>h. h \<in> set (global_ratings (store w2)) \<Longrightarrow> global_ratings_team_id h \<noteq> team_ID team \<Longrightarrow> h \<in> set G"
    by (rule UpsertGlobalRating_Inr) auto
  have same: "ranks_of (store w3) t = ranks_of (store w) t" for t using G(1) s2 by (simp add: ranks_of_def)
  have here: "rated_globally (store w3) (team_ID team)"
    unfolding rated_globally_def same using G rs by (intro bexI [of _ g]) auto
  have "rated_globally (store w3) t" if t: "t \<in> S \<union> {team_ID team}" for t
  proof (cases "t = team_ID team")
    case True with here show ?thesis by simp
  next
    case False
    with t Cons.prems(2) have "rated_globally (store w) t" by auto
    with G(1,6) s2 False show ?thesis unfolding rated_globally_def same by fastforce
  qed
  from Cons.IH [OF rest this] G(1) s2 show ?case by auto
qed

text \<open>What a successful \<open>FinalizeCTFEvent\<close> did.\<close>

lemma Finalize_Inr:
  assumes "Rating_FinalizeCTFEvent numeric e w = (Inr x, w')"
  obtains board w1 w2 rs where "sqlc_GetScoreboard (store w) = (Inr board, store w)"
    "store w1 = (store w)\<lparr>team_ratings := team_ratings (store w) @ rs\<rparr>"
    "map rating_key rs = map (\<lambda>(i, b). (fst b, e, int i + 1, fst (snd (snd b)))) (enumerate 0 board)"
    "fst ` set board \<inter> rated_in e (store w) = {}"
    "Rating_recalculateGlobalRatings numeric w1 = (Inr x, w')"
proof -
  from assms obtain ev v1 board v2 v3 where ev: "RatingRepo_GetCTFEventByID e w = (Inr ev, v1)"
    and b: "SolveRepo_GetScoreboard v1 = (Inr board, v2)"
    and l: "rating_loop numeric e (event_Weight ev) (int (length board)) (enumerate 0 board) v2 = (Inr (), v3)"
    and r: "Rating_recalculateGlobalRatings numeric v3 = (Inr x, w')"
    by (auto simp: Rating_FinalizeCTFEvent_def bindE_Inr_iff Let_def rating_loop_def)
  have s1: "store v1 = store w" using ev
    by (auto simp: RatingRepo_GetCTFEventByID_def bindE_Inr_iff sql_Inr_iff sqlc_GetCTFEventByID_def select_one_Inr_iff)
  from b s1 obtain rows where rows: "board = map toScoreboardEntry rows" "sqlc_GetScoreboard (store w) = (Inr rows, store w)"
    "store v2 = store w"
    by (auto simp: SolveRepo_GetScoreboard_def bindE_Inr_iff sql_Inr_iff sqlc_GetScoreboard_def board_query_def split: if_splits)
  from rating_loop_Inr [OF l] rows obtain rs where rs: "store v3 = (store w)\<lparr>team_ratings := team_ratings (store w) @ rs\<rparr>"
    "map rating_key rs = map (\<lambda>(i, b). (sb_TeamID b, e, int i + 1, sb_Points b)) (enumerate 0 (map toScoreboardEntry rows))"
    "sb_TeamID ` snd ` set (enumerate 0 (map toScoreboardEntry rows)) \<inter> rated_in e (store w) = {}" by auto
  have "map (\<lambda>(i, b). (sb_TeamID b, e, int i + 1, sb_Points b)) (enumerate 0 (map toScoreboardEntry rows)) =
      map (\<lambda>(i, b). (fst b, e, int i + 1, fst (snd (snd b)))) (enumerate 0 rows)"
    by (simp add: enumerate_eq_zip zip_map2 toScoreboardEntry_def split_def)
  moreover have "snd ` set (enumerate 0 (map toScoreboardEntry rows)) = toScoreboardEntry ` set rows"
    by (metis list.set_map map_snd_enumerate)
  ultimately show thesis
    using rs rows r by (intro that [of rows v3 rs]) (simp_all add: image_image toScoreboardEntry_def split_def)
qed

text \<open>A successful \<open>FinalizeCTFEvent\<close> adds one rating for every row of the scoreboard, in its order: the team, the
  event, the position and the score; and afterwards every team that is not deleted has a global rating with
  the number of its ratings and its best rank over all events.\<close>

theorem finalize_records:
  assumes "Rating_FinalizeCTFEvent numeric e w = (Inr x, w')"
  shows "\<exists>board rs. sqlc_GetScoreboard (store w) = (Inr board, store w) \<and>
    team_ratings (store w') = team_ratings (store w) @ rs \<and>
    map rating_key rs = map (\<lambda>(i, t, _, points, _). (t, e, int i + 1, points)) (enumerate 0 board) \<and>
    (\<forall>t \<in> set (teams (store w)). teams_deleted_at t = None \<longrightarrow> rated_globally (store w') (teams_id t))"
proof -
  obtain board w1 rs where board: "sqlc_GetScoreboard (store w) = (Inr board, store w)"
    and w1: "store w1 = (store w)\<lparr>team_ratings := team_ratings (store w) @ rs\<rparr>"
    and rs: "map rating_key rs = map (\<lambda>(i, b). (fst b, e, int i + 1, fst (snd (snd b)))) (enumerate 0 board)"
    and r: "Rating_recalculateGlobalRatings numeric w1 = (Inr x, w')"
    by (rule Finalize_Inr [OF assms])
  from r obtain ts w2 where ts: "TeamRepo_GetAll w1 = (Inr ts, w2)" and loop: "recalculate_loop numeric ts w2 = (Inr x, w')"
    by (auto simp: Rating_recalculateGlobalRatings_def recalculate_loop_def bindE_Inr_iff)
  from ts w1 have rows: "ts = map toEntityTeamFromRow (order_by_asc teams_created_at (filter live (teams (store w))))" "store w2 = store w1"
    by (auto simp: TeamRepo_GetAll_def bindE_Inr_iff sql_Inr_iff sqlc_GetAllTeams_def select_all_def asksE_def)
  have ids: "team_ID ` set ts = teams_id ` {t \<in> set (teams (store w)). teams_deleted_at t = None}" "store w2 = store w1"
    unfolding rows by (simp_all add: image_image toEntityTeamFromRow_def)
  from recalculate_loop_Inr [OF loop, of "{}"] ids w1 obtain G where
    "store w' = (store w)\<lparr>team_ratings := team_ratings (store w) @ rs, global_ratings := G\<rparr>"
    "\<forall>t \<in> team_ID ` set ts. rated_globally (store w') t" by auto
  with board rs ids(1) show ?thesis by (intro exI [of _ board] exI [of _ rs]) (auto simp: split_def)
qed

text \<open>The ratings of an event are not recorded in one transaction: once a rating of a team on the scoreboard is
  there, as a run that failed on the way leaves it, every further attempt to finalize the event fails.\<close>

theorem finalize_again_fails:
  assumes "sqlc_GetScoreboard (store w) = (Inr board, d)" "t \<in> fst ` set board" "t \<in> rated_in e (store w)"
  shows "\<exists>err w'. Rating_FinalizeCTFEvent numeric e w = (Inl err, w')"
proof (cases "Rating_FinalizeCTFEvent numeric e w")
  case (Pair y w')
  show ?thesis
  proof (cases y)
    case (Inr x)
    obtain board' where "sqlc_GetScoreboard (store w) = (Inr board', store w)" "fst ` set board' \<inter> rated_in e (store w) = {}"
      by (rule Finalize_Inr [OF Pair [unfolded Inr]], rule that)
    with assms show ?thesis by auto
  qed (use Pair in auto)
qed

section \<open>At a concrete event\<close>

text \<open>Whole numbers of up to 53 bits need no rounding; this evaluates quickly.\<close>

lemma rnd64_code [code]:
  "rnd64 x = (case quotient_of x of (n, m) \<Rightarrow> if m = 1 \<and> \<bar>n\<bar> < 2 ^ 53 then x
     else if x < 0 then - rnd_pos (- x) else rnd_pos x)"
proof -
  have "rnd64 x = x" if "quotient_of x = (n, 1)" "\<bar>n\<bar> < 2 ^ 53" for n
    using quotient_of_div [OF that(1)] rnd64_exact [OF that(2)] by simp
  moreover have "quotient_of 0 = (0, 1)" by simp
  ultimately show ?thesis by (auto simp: rnd64_def split: prod.split)
qed

text \<open>Team 12 is hidden; the weight and the points fit their columns and are kept as they are.\<close>

definition demo_numeric :: numeric where
  "demo_numeric p s x = Some x"

definition demo_event_world :: world where
  "demo_event_world = world_of (demo_db\<lparr>
     teams := map (\<lambda>t. if teams_id t = 12 then t\<lparr>teams_is_hidden := Some True\<rparr> else t) (teams demo_db),
     ctf_events := [\<lparr>ctf_events_id = 111, ctf_events_name = [],
     ctf_events_start_time = 0, ctf_events_end_time = 9, ctf_events_weight = 1, ctf_events_created_at = Some 0\<rparr>]\<rparr>)"

theorem finalize_records_witness:
  "\<exists>w'. Rating_FinalizeCTFEvent demo_numeric 111 demo_event_world = (Inr (), w') \<and>
     length (team_ratings (store w')) = 1 \<and> rated_globally (store w') 12"
proof -
  have "fst (Rating_FinalizeCTFEvent demo_numeric 111 demo_event_world) = Inr ()" by code_simp
  then obtain w' where run: "Rating_FinalizeCTFEvent demo_numeric 111 demo_event_world = (Inr (), w')" by (metis prod.collapse)
  from finalize_records [OF run] obtain board rs where r: "sqlc_GetScoreboard (store demo_event_world) = (Inr board, store demo_event_world)"
    "team_ratings (store w') = team_ratings (store demo_event_world) @ rs"
    "map rating_key rs = map (\<lambda>(i, t, _, points, _). (t, 111, int i + 1, points)) (enumerate 0 board)"
    "\<forall>t \<in> set (teams (store demo_event_world)). teams_deleted_at t = None \<longrightarrow> rated_globally (store w') (teams_id t)" by blast
  have "team_ratings (store demo_event_world) = []"
    "map_sum (\<lambda>_. ()) length (fst (sqlc_GetScoreboard (store demo_event_world))) = Inr 1"
    "list_ex (\<lambda>t. teams_id t = 12 \<and> teams_deleted_at t = None) (teams (store demo_event_world))" by code_simp+
  moreover have "length rs = length board" using arg_cong [OF r(3), of length] by simp
  ultimately show ?thesis using run r by (auto simp: list_ex_iff)
qed

text \<open>The rating of team 11 is recorded, then the next call fails.\<close>

theorem finalize_again_fails_witness:
  "\<exists>err w1 err' w2. Rating_FinalizeCTFEvent demo_numeric 111
       (demo_event_world\<lparr>faults := [False, False, False, True]\<rparr>) = (Inl err, w1) \<and> faults w1 = [] \<and>
     Rating_FinalizeCTFEvent demo_numeric 111 w1 = (Inl err', w2)"
proof -
  let ?m = "Rating_FinalizeCTFEvent demo_numeric 111 (demo_event_world\<lparr>faults := [False, False, False, True]\<rparr>)"
  have run: "map_sum (\<lambda>_. ()) id (fst ?m) = Inl () \<and> faults (snd ?m) = [] \<and>
      map (\<lambda>r. (team_ratings_team_id r, team_ratings_ctf_event_id r)) (team_ratings (store (snd ?m))) = [(11, 111)] \<and>
      map_sum (\<lambda>_. ()) (map fst) (fst (sqlc_GetScoreboard (store (snd ?m)))) = Inr [11]" by code_simp
  obtain y w1 where m: "?m = (y, w1)" by (cases ?m)
  from run m obtain err where y: "y = Inl err" by (cases y) auto
  from run m obtain board where b: "fst (sqlc_GetScoreboard (store w1)) = Inr board" "map fst board = [11]"
    by (cases "fst (sqlc_GetScoreboard (store w1))") auto
  from b(2) have t: "11 \<in> fst ` set board" by (metis list.set_intros(1) list.set_map)
  from run m obtain r where "team_ratings (store w1) = [r]" "team_ratings_team_id r = 11" "team_ratings_ctf_event_id r = 111"
    by (auto simp: map_eq_Cons_conv)
  then have "11 \<in> rated_in 111 (store w1)" by (auto simp: rated_in_def)
  moreover have "sqlc_GetScoreboard (store w1) = (Inr board, snd (sqlc_GetScoreboard (store w1)))"
    using b(1) by (metis prod.collapse)
  ultimately obtain err' w2 where "Rating_FinalizeCTFEvent demo_numeric 111 w1 = (Inl err', w2)"
    using finalize_again_fails [OF _ t] by blast
  moreover have "faults w1 = []" using run m by simp
  ultimately show ?thesis using m y by blast
qed

end
