(* ===== verification/CTF_Statistics.thy ===== *)
theory CTF_Statistics
  imports CTF_Scoreboard CTF_Paging CTF_Float CTF_Strconv
begin

text \<open>
  Statistics: \<open>statistics.sql.go\<close>, \<open>StatisticsRepository\<close>, \<open>StatisticsUseCase\<close> with its cache, and the graph
  of the scoreboard.
\<close>

section \<open>Queries\<close>

definition sqlc_CountChallenges :: "int query" where
  "sqlc_CountChallenges = asksE (\<lambda>d. int (length (challenges d)))"

definition sqlc_CountSolves :: "int query" where
  "sqlc_CountSolves = asksE (\<lambda>d. int (length (solves d)))"

definition sqlc_CountTeams :: "int query" where
  "sqlc_CountTeams = asksE (\<lambda>d. int (length (filter live (teams d))))"

definition sqlc_CountUsers :: "int query" where
  "sqlc_CountUsers = asksE (\<lambda>d. int (length (users d)))"

definition sqlc_GetChallengeDetailChallenge :: "uuid \<Rightarrow> (challenges_row \<times> int) query" where
  "sqlc_GetChallengeDetailChallenge ID = select_one (\<lambda>d.
     map (\<lambda>c. (c, int (length (filter board_visible (teams d))))) (filter (\<lambda>c. challenges_id c = ID) (challenges d)))"

definition sqlc_GetChallengeDetailSolves :: "uuid \<Rightarrow> (uuid \<times> string \<times> time option) list query" where
  "sqlc_GetChallengeDetailSolves challenge_id = select_all (\<lambda>d.
     map (\<lambda>(s, t). (solves_team_id s, teams_name t, solves_solved_at s))
       (order_by_asc (\<lambda>(s, t). solves_solved_at s)
          (filter (\<lambda>(s, t). board_visible t)
             (join_row (\<lambda>s. team_by_id d (Some (solves_team_id s)))
                (filter (\<lambda>s. solves_challenge_id s = challenge_id) (solves d))))))"

definition sqlc_GetChallengeStats :: "challenges_row list query" where
  "sqlc_GetChallengeStats = select_all (\<lambda>d. sort_key (\<lambda>c. - challenges_solve_count c) (challenges d))"

text \<open>
  The history of the scoreboard. The common table \<open>top_teams\<close> joins a team with its solves and with its awards
  at once, so that each solve is summed once per award and each award once per solve.
\<close>

definition left_join :: "('r \<Rightarrow> 's list) \<Rightarrow> 'r list \<Rightarrow> ('r \<times> 's option) list" where
  "left_join f rows = concat (map (\<lambda>r. if f r = [] then [(r, None)] else map (\<lambda>s. (r, Some s)) (f r)) rows)"

definition team_product :: "db \<Rightarrow> teams_row \<Rightarrow> ((challenges_row option) \<times> awards_row option) list" where
  "team_product d t =
     map (\<lambda>(((_, s), c), a). (c, a))
       (left_join (\<lambda>_. filter (\<lambda>a. awards_team_id a = teams_id t) (awards d))
          (map (\<lambda>(t, s). ((t, s), case s of None \<Rightarrow> None | Some s \<Rightarrow> challenge_by_id d (solves_challenge_id s)))
             (left_join (\<lambda>_. filter (\<lambda>s. solves_team_id s = teams_id t) (solves d)) [t])))"

definition history_weight :: "db \<Rightarrow> teams_row \<Rightarrow> int" where
  "history_weight d t =
     sum_some (map (\<lambda>(c, a). Option.bind c challenges_points) (team_product d t)) +
     sum_some (map (\<lambda>(c, a). map_option awards_value a) (team_product d t))"

definition top_teams :: "db \<Rightarrow> nat \<Rightarrow> teams_row list" where
  "top_teams d n = take n (sort_key (\<lambda>t. - history_weight d t) (filter live (teams d)))"

text \<open>The events of a team, in the order of their time; the running sum takes events of one time together.\<close>

definition team_events :: "db \<Rightarrow> uuid \<Rightarrow> (time option \<times> int option) list" where
  "team_events d t = order_by_asc fst
     (map (\<lambda>(s, c). (solves_solved_at s, challenges_points c))
        (filter (\<lambda>(s, c). solves_team_id s = t) (solve_join d)) @
      map (\<lambda>a. (awards_created_at a, Some (awards_value a))) (filter (\<lambda>a. awards_team_id a = t) (awards d)))"

definition time_le :: "time option \<Rightarrow> time option \<Rightarrow> bool" where
  "time_le a b = (case b of None \<Rightarrow> True | Some y \<Rightarrow> (case a of None \<Rightarrow> False | Some x \<Rightarrow> x \<le> y))"

definition running_sum :: "(time option \<times> int option) list \<Rightarrow> time option \<Rightarrow> int option" where
  "running_sum evs now =
     (let deltas = List.map_filter snd (filter (\<lambda>e. time_le (fst e) now) evs)
      in if deltas = [] then None else Some (sum_list deltas))"

text \<open>A sum over nothing but absent points cannot be read into an \<open>int32\<close>, nor one that has more bits.\<close>

definition sqlc_GetScoreboardHistory :: "int \<Rightarrow> (uuid \<times> string \<times> int \<times> time option) list query" where
  "sqlc_GetScoreboardHistory row_limit d =
     (if row_limit < 0 then (Inl Failure, d)
      else
        let rows = concat (map (\<lambda>t. map (\<lambda>e. (teams_id t, teams_name t, running_sum (team_events d (teams_id t)) (fst e), fst e))
                     (team_events d (teams_id t))) (sort_key teams_id (top_teams d (nat row_limit))))
        in if list_all (\<lambda>(_, _, p, _). case p of None \<Rightarrow> False | Some p \<Rightarrow> int4_ok p) rows
           then (Inr (map (\<lambda>(t, name, p, tm). (t, name, the p, tm)) rows), d)
           else (Inl OutOfRange, d))"

section \<open>StatisticsRepository\<close>

definition StatisticsRepository_GetGeneralStats :: "general_stats op" where
  "StatisticsRepository_GetGeneralStats =
     bindE (mapErr (wrap ''StatisticsRepository - GetGeneralStats - CountUsers'') (sql sqlc_CountUsers)) (\<lambda>us.
     bindE (mapErr (wrap ''StatisticsRepository - GetGeneralStats - CountTeams'') (sql sqlc_CountTeams)) (\<lambda>ts.
     bindE (mapErr (wrap ''StatisticsRepository - GetGeneralStats - CountChallenges'') (sql sqlc_CountChallenges)) (\<lambda>cs.
     bindE (mapErr (wrap ''StatisticsRepository - GetGeneralStats - CountSolves'') (sql sqlc_CountSolves)) (\<lambda>ss.
     returnE \<lparr>gstats_UserCount = us, gstats_TeamCount = ts, gstats_ChallengeCount = cs, gstats_SolveCount = ss\<rparr>))))"

definition StatisticsRepository_GetChallengeStats :: "challenge_stats list op" where
  "StatisticsRepository_GetChallengeStats =
     bindE (mapErr (wrap ''StatisticsRepository - GetChallengeStats'') (sql sqlc_GetChallengeStats)) (\<lambda>rows.
     returnE (map (\<lambda>c. \<lparr>cstats_ID = challenges_id c, cstats_Title = challenges_title c,
       cstats_Category = ptrStrToStr (challenges_category c), cstats_Points = int32PtrToInt (challenges_points c),
       cstats_SolveCount = challenges_solve_count c\<rparr>) rows))"

text \<open>A challenge that does not exist is no statistics and no error.\<close>

definition StatisticsRepository_GetChallengeDetailStats :: "uuid \<Rightarrow> challenge_detail_stats option op" where
  "StatisticsRepository_GetChallengeDetailStats challengeID =
     bindE (errE (sql (sqlc_GetChallengeDetailChallenge challengeID))) (\<lambda>r. case r of
       Inl e \<Rightarrow> if isNoRows e then returnE None
                else throwE (wrap ''StatisticsRepository - GetChallengeDetailStats - Challenge'' e)
     | Inr (c, totalTeams) \<Rightarrow>
     let percentageSolved = (if 0 < totalTeams
           then rnd64 (rnd64 (rnd64 (of_int (challenges_solve_count c)) / rnd64 (of_int totalTeams)) * 100) else 0) in
     bindE (mapErr (wrap ''StatisticsRepository - GetChallengeDetailStats - Solves'')
       (sql (sqlc_GetChallengeDetailSolves challengeID))) (\<lambda>rows.
     let entries = map (\<lambda>(t, name, solvedAt). \<lparr>csolve_TeamID = t, csolve_TeamName = name,
           csolve_SolvedAt = ptrTimeToTime solvedAt\<rparr>) rows in
     returnE (Some \<lparr>cdetail_ID = challenges_id c, cdetail_Title = challenges_title c,
       cdetail_Category = ptrStrToStr (challenges_category c), cdetail_Points = int32PtrToInt (challenges_points c),
       cdetail_SolveCount = challenges_solve_count c, cdetail_TotalTeams = totalTeams,
       cdetail_PercentageSolved = percentageSolved,
       cdetail_FirstBlood = (case entries of [] \<Rightarrow> None | e # _ \<Rightarrow> Some e), cdetail_Solves = entries\<rparr>)))"

definition StatisticsRepository_GetScoreboardHistory :: "int \<Rightarrow> scoreboard_history_entry list op" where
  "StatisticsRepository_GetScoreboardHistory row_limit =
     bindE (int32E ''StatisticsRepository - GetScoreboardHistory limit'' row_limit) (\<lambda>limit32.
     bindE (mapErr (wrap ''StatisticsRepository - GetScoreboardHistory'') (sql (sqlc_GetScoreboardHistory limit32))) (\<lambda>rows.
     returnE (map (\<lambda>(t, name, points, tm). \<lparr>shist_TeamID = t, shist_TeamName = name, shist_Points = points,
       shist_Timestamp = ptrTimeToTime tm\<rparr>) rows)))"

section \<open>The graph\<close>

text \<open>
  The loop keeps, per team, its timeline so far; \<open>order\<close> is the order in which Go then walks the map.
\<close>

definition add_point :: "scoreboard_history_entry \<Rightarrow> team_timeline list \<Rightarrow> team_timeline list" where
  "add_point h m =
     (let point = \<lparr>point_Timestamp = shist_Timestamp h, point_Score = shist_Points h\<rparr>;
          mine = (\<lambda>tl. timeline_TeamID tl = shist_TeamID h) in
      if list_ex mine m then upd_where mine (\<lambda>tl. tl\<lparr>timeline_Timeline := timeline_Timeline tl @ [point]\<rparr>) m
      else m @ [\<lparr>timeline_TeamID = shist_TeamID h, timeline_TeamName = shist_TeamName h, timeline_Timeline = [point]\<rparr>])"

fun graph_loop :: "scoreboard_history_entry list \<Rightarrow> time \<times> time \<times> team_timeline list \<Rightarrow> time \<times> time \<times> team_timeline list" where
  "graph_loop [] s = s"
| "graph_loop (h # hs) (minTime, maxTime, m) =
     graph_loop hs (if shist_Timestamp h < minTime then shist_Timestamp h else minTime,
                    if maxTime < shist_Timestamp h then shist_Timestamp h else maxTime, add_point h m)"

definition buildScoreboardGraph ::
  "(team_timeline list \<Rightarrow> team_timeline list) \<Rightarrow> scoreboard_history_entry list \<Rightarrow> scoreboard_graph" where
  "buildScoreboardGraph order history =
     (case history of
        [] \<Rightarrow> \<lparr>graph_Range = \<lparr>range_Start = 0, range_End = 0\<rparr>, graph_Teams = []\<rparr>
      | h # hs \<Rightarrow>
          (case graph_loop hs (shist_Timestamp h, shist_Timestamp h, add_point h []) of (minTime, maxTime, m) \<Rightarrow>
           \<lparr>graph_Range = \<lparr>range_Start = minTime, range_End = maxTime\<rparr>, graph_Teams = order m\<rparr>))"

section \<open>StatisticsUseCase\<close>

text \<open>The parser of identifiers and the order in which Go walks a map are parameters.\<close>

record stats_uc =
  xu_uuid_Parse :: "string \<Rightarrow> uuid option"
  xu_order :: "team_timeline list \<Rightarrow> team_timeline list"

fun dec_general :: "cached \<Rightarrow> general_stats option" where
  "dec_general (CGeneralStats s) = Some s"
| "dec_general _ = None"

fun dec_challenges :: "cached \<Rightarrow> challenge_stats list option" where
  "dec_challenges (CChallengeStats s) = Some s"
| "dec_challenges _ = None"

fun dec_detail :: "cached \<Rightarrow> challenge_detail_stats option option" where
  "dec_detail (CDetailStats s) = Some s"
| "dec_detail _ = None"

fun dec_history :: "cached \<Rightarrow> scoreboard_history_entry list option" where
  "dec_history (CHistory s) = Some s"
| "dec_history _ = None"

fun dec_graph :: "cached \<Rightarrow> scoreboard_graph option" where
  "dec_graph (CGraph s) = Some s"
| "dec_graph _ = None"

definition Stats_GetGeneralStats :: "general_stats op" where
  "Stats_GetGeneralStats = GetOrLoad CGeneralStats dec_general ''stats:general'' (300 * second)
     (mapErr (wrap ''StatisticsUseCase - GetGeneralStats'') StatisticsRepository_GetGeneralStats)"

definition Stats_GetChallengeStats :: "challenge_stats list op" where
  "Stats_GetChallengeStats = GetOrLoad CChallengeStats dec_challenges ''stats:challenges'' (300 * second)
     (mapErr (wrap ''StatisticsUseCase - GetChallengeStats'') StatisticsRepository_GetChallengeStats)"

definition Stats_GetChallengeDetailStats :: "stats_uc \<Rightarrow> string \<Rightarrow> challenge_detail_stats option op" where
  "Stats_GetChallengeDetailStats uc challengeID =
     GetOrLoad CDetailStats dec_detail (''stats:challenge:'' @ challengeID) (60 * second)
       (case xu_uuid_Parse uc challengeID of
          None \<Rightarrow> throwE (wrap ''StatisticsUseCase - GetChallengeDetailStats: invalid id'' (Plain ''invalid UUID''))
        | Some ID \<Rightarrow> mapErr (wrap ''StatisticsUseCase - GetChallengeDetailStats'')
            (StatisticsRepository_GetChallengeDetailStats ID))"

definition Stats_GetScoreboardHistory :: "stats_uc \<Rightarrow> int \<Rightarrow> scoreboard_history_entry list op" where
  "Stats_GetScoreboardHistory uc row_limit =
     (let row_limit = (if row_limit < 1 then 10 else if 50 < row_limit then 50 else row_limit) in
      GetOrLoad CHistory dec_history (''stats:history:'' @ Itoa row_limit) (30 * second)
        (mapErr (wrap ''StatisticsUseCase - GetScoreboardHistory'') (StatisticsRepository_GetScoreboardHistory row_limit)))"

definition Stats_GetScoreboardGraph :: "stats_uc \<Rightarrow> int \<Rightarrow> scoreboard_graph op" where
  "Stats_GetScoreboardGraph uc topN =
     (let topN = (if topN < 1 then 10 else if 50 < topN then 50 else topN) in
      GetOrLoad CGraph dec_graph (''stats:graph:'' @ Itoa topN) (30 * second)
        (bindE (mapErr (wrap ''StatisticsUseCase - GetScoreboardGraph'') (StatisticsRepository_GetScoreboardHistory topN)) (\<lambda>history.
         returnE (buildScoreboardGraph (xu_order uc) history))))"

end
