(* ===== verification/CTF_StatisticsProps.thy ===== *)
theory CTF_StatisticsProps
  imports CTF_Statistics CTF_ScoreFacts CTF_Demo "HOL-Library.Multiset"
begin

text \<open>
  The graph of the scoreboard is its history, cut by team; the history of a team ends at the score of the
  team; and the choice of the leading teams counts awards once per solve.
\<close>

section \<open>The graph\<close>

text \<open>The timelines as a function of the history read so far.\<close>

definition point_of :: "scoreboard_history_entry \<Rightarrow> score_point" where
  "point_of h = \<lparr>point_Timestamp = shist_Timestamp h, point_Score = shist_Points h\<rparr>"

definition timelines_ok :: "scoreboard_history_entry list \<Rightarrow> team_timeline list \<Rightarrow> bool" where
  "timelines_ok hs m \<longleftrightarrow> distinct (map timeline_TeamID m) \<and> timeline_TeamID ` set m = shist_TeamID ` set hs \<and>
     (\<forall>tl \<in> set m. timeline_Timeline tl = map point_of (filter (\<lambda>h. shist_TeamID h = timeline_TeamID tl) hs))"

lemma timelines_ok_add:
  assumes "timelines_ok hs m" shows "timelines_ok (hs @ [h]) (add_point h m)"
proof (cases "list_ex (\<lambda>tl. timeline_TeamID tl = shist_TeamID h) m")
  case True
  let ?f = "\<lambda>tl. if timeline_TeamID tl = shist_TeamID h then tl\<lparr>timeline_Timeline := timeline_Timeline tl @ [point_of h]\<rparr> else tl"
  have m: "add_point h m = map ?f m" using True by (simp add: add_point_def Let_def upd_where_def point_of_def)
  have f_id: "timeline_TeamID (?f tl) = timeline_TeamID tl" for tl by simp
  have ids: "map timeline_TeamID (map ?f m) = map timeline_TeamID m"
    unfolding map_map by (rule map_cong [OF refl]) (simp only: comp_apply f_id)
  have set_ids: "timeline_TeamID ` set (map ?f m) = timeline_TeamID ` set m"
    using arg_cong [OF ids, of set] by (simp only: set_map)
  have here: "shist_TeamID h \<in> timeline_TeamID ` set m"
    using True unfolding list_ex_iff by (metis imageI)
  have "timeline_Timeline (?f tl) = map point_of (filter (\<lambda>g. shist_TeamID g = timeline_TeamID (?f tl)) (hs @ [h]))"
    if "tl \<in> set m" for tl
  proof (cases "timeline_TeamID tl = shist_TeamID h")
    case True with assms that show ?thesis unfolding timelines_ok_def by simp
  next
    case False with assms that show ?thesis unfolding timelines_ok_def by simp
  qed
  then have tls: "\<forall>tl \<in> set (map ?f m). timeline_Timeline tl =
      map point_of (filter (\<lambda>g. shist_TeamID g = timeline_TeamID tl) (hs @ [h]))"
    by (simp only: set_map ball_simps) (rule ballI)
  have "timeline_TeamID ` set m = shist_TeamID ` set (hs @ [h])"
    using assms here unfolding timelines_ok_def by auto
  then show ?thesis
    using assms ids set_ids tls unfolding timelines_ok_def m by (simp only: simp_thms)
next
  case False
  let ?new = "\<lparr>timeline_TeamID = shist_TeamID h, timeline_TeamName = shist_TeamName h, timeline_Timeline = [point_of h]\<rparr>"
  have m: "add_point h m = m @ [?new]" using False by (simp add: add_point_def Let_def point_of_def)
  have new: "shist_TeamID h \<notin> timeline_TeamID ` set m" using False by (auto simp: list_ex_iff)
  with assms have "filter (\<lambda>g. shist_TeamID g = shist_TeamID h) hs = []"
    unfolding timelines_ok_def filter_empty_conv by (metis imageI)
  with assms new show ?thesis unfolding timelines_ok_def m by auto
qed

lemma graph_loop_spec:
  assumes "timelines_ok pre m" "pre \<noteq> []" "lo = Min (shist_Timestamp ` set pre)" "hi = Max (shist_Timestamp ` set pre)"
  shows "case graph_loop hs (lo, hi, m) of (lo', hi', m') \<Rightarrow> timelines_ok (pre @ hs) m' \<and>
    lo' = Min (shist_Timestamp ` set (pre @ hs)) \<and> hi' = Max (shist_Timestamp ` set (pre @ hs))"
  using assms
proof (induction hs arbitrary: pre lo hi m)
  case (Cons h hs)
  have "(if shist_Timestamp h < lo then shist_Timestamp h else lo) = Min (shist_Timestamp ` set (pre @ [h]))"
    "(if hi < shist_Timestamp h then shist_Timestamp h else hi) = Max (shist_Timestamp ` set (pre @ [h]))"
    using Cons.prems(2-4) by (simp_all add: min_def max_def del: Min_gr_iff Min_ge_iff Max_less_iff Max_le_iff)
  from Cons.IH [OF timelines_ok_add [OF Cons.prems(1)] _ this] show ?case by simp
qed simp

text \<open>C39 The graph shows every team of the history exactly once, with its points in the order of the history, over
  the range from the first to the last of its times, in whatever order Go walks the map of the teams.\<close>

theorem graph_partitions:
  assumes "\<forall>m. mset (order m) = mset m"
  shows "distinct (map timeline_TeamID (graph_Teams (buildScoreboardGraph order history))) \<and>
    timeline_TeamID ` set (graph_Teams (buildScoreboardGraph order history)) = shist_TeamID ` set history \<and>
    (\<forall>tl \<in> set (graph_Teams (buildScoreboardGraph order history)).
       timeline_Timeline tl = map point_of (filter (\<lambda>h. shist_TeamID h = timeline_TeamID tl) history)) \<and>
    (history \<noteq> [] \<longrightarrow>
       range_Start (graph_Range (buildScoreboardGraph order history)) = Min (shist_Timestamp ` set history) \<and>
       range_End (graph_Range (buildScoreboardGraph order history)) = Max (shist_Timestamp ` set history))"
proof (cases history)
  case Nil
  then show ?thesis by (simp add: buildScoreboardGraph_def)
next
  case (Cons h hs)
  obtain lo hi m where loop: "graph_loop hs (shist_Timestamp h, shist_Timestamp h, add_point h []) = (lo, hi, m)"
    by (cases "graph_loop hs (shist_Timestamp h, shist_Timestamp h, add_point h [])") blast
  have "timelines_ok [] []" by (simp add: timelines_ok_def)
  then have one: "timelines_ok [h] (add_point h [])" using timelines_ok_add [of "[]" "[]" h] by (simp only: append_Nil)
  have "shist_Timestamp h = Min (shist_Timestamp ` set [h])" "shist_Timestamp h = Max (shist_Timestamp ` set [h])"
    by simp_all
  from graph_loop_spec [OF one not_Cons_self2 this, of hs]
  have spec: "timelines_ok history m" "lo = Min (shist_Timestamp ` set history)" "hi = Max (shist_Timestamp ` set history)"
    unfolding loop Cons by (simp_all only: prod.case append_Cons append_Nil)
  have "mset (order m) = mset m" using assms by blast
  then have order: "set (order m) = set m" "distinct (map timeline_TeamID (order m)) = distinct (map timeline_TeamID m)"
    using mset_eq_setD [of "order m" m] mset_eq_imp_distinct_iff [of "map timeline_TeamID (order m)" "map timeline_TeamID m"]
    by (simp_all only: mset_map)
  have "buildScoreboardGraph order history = \<lparr>graph_Range = \<lparr>range_Start = lo, range_End = hi\<rparr>, graph_Teams = order m\<rparr>"
    using Cons loop by (simp add: buildScoreboardGraph_def)
  with spec order show ?thesis unfolding timelines_ok_def by (simp only: scoreboard_graph.simps time_range.simps simp_thms) blast
qed

definition demo_history :: "scoreboard_history_entry list" where
  "demo_history = [\<lparr>shist_TeamID = 11, shist_TeamName = ''alpha'', shist_Points = 500, shist_Timestamp = 7\<rparr>,
     \<lparr>shist_TeamID = 12, shist_TeamName = ''delta'', shist_Points = 70, shist_Timestamp = 9\<rparr>,
     \<lparr>shist_TeamID = 11, shist_TeamName = ''alpha'', shist_Points = 400, shist_Timestamp = 12\<rparr>]"

lemma demo_graph: "map timeline_TeamID (graph_Teams (buildScoreboardGraph rev demo_history)) = [12, 11] \<and>
    range_Start (graph_Range (buildScoreboardGraph rev demo_history)) = 7 \<and>
    range_End (graph_Range (buildScoreboardGraph rev demo_history)) = 12"
  by code_simp

theorem graph_partitions_witness:
  "distinct (map timeline_TeamID (graph_Teams (buildScoreboardGraph rev demo_history))) \<and>
   map timeline_TeamID (graph_Teams (buildScoreboardGraph rev demo_history)) = [12, 11] \<and>
   range_End (graph_Range (buildScoreboardGraph rev demo_history)) = 12"
  using graph_partitions [of rev demo_history] demo_graph by simp

section \<open>The history of a team\<close>

lemma mset_order_by_asc: "mset (order_by_asc key rows) = mset rows"
  using multiset_partition [of "mset rows" "\<lambda>r. key r \<noteq> None"]
  by (simp add: order_by_asc_def)

lemma order_by_asc_last:
  assumes "e \<in> set (order_by_asc fst rows)"
  shows "time_le (fst e) (fst (last (order_by_asc fst rows)))"
proof (cases "filter (\<lambda>r. fst r = None) rows = []")
  case True
  define ys where "ys = sort_key (\<lambda>r. the (fst r)) (filter (\<lambda>r. fst r \<noteq> None) rows)"
  have evs: "order_by_asc fst rows = ys" using True by (simp add: order_by_asc_def ys_def)
  have sorted: "sorted (map (\<lambda>r. the (fst r)) ys)" by (simp add: ys_def)
  obtain i where i: "i < length ys" "e = ys ! i" using assms unfolding evs by (metis in_set_conv_nth)
  then have last: "last ys = ys ! (length ys - 1)" by (cases "ys = []") (simp_all add: last_conv_nth)
  have "the (fst (ys ! i)) \<le> the (fst (ys ! (length ys - 1)))"
    using sorted_nth_mono [OF sorted, of i "length ys - 1"] i by simp
  moreover have "fst (ys ! i) \<noteq> None" "fst (ys ! (length ys - 1)) \<noteq> None"
    using nth_mem [of i ys] nth_mem [of "length ys - 1" ys] i by (auto simp: ys_def)
  ultimately show ?thesis unfolding evs last time_le_def i by auto
next
  case False
  then have "fst (last (order_by_asc fst rows)) = None"
    using last_in_set [OF False] by (simp add: order_by_asc_def)
  then show ?thesis by (simp add: time_le_def)
qed

lemma running_sum_last:
  assumes "running_sum (order_by_asc fst evs) (fst (last (order_by_asc fst evs))) = Some p"
  shows "p = sum_some (map snd evs)"
proof -
  let ?s = "order_by_asc fst evs"
  have all: "filter (\<lambda>e. time_le (fst e) (fst (last ?s))) ?s = ?s"
    unfolding filter_id_conv using order_by_asc_last by blast
  have deltas: "sum_list (List.map_filter snd xs) = sum_some (map snd xs)" for xs :: "(time option \<times> int option) list"
    by (induction xs) (auto simp: sum_some_def List.map_filter_simps split: option.splits)
  have "sum_some (map snd ?s) = sum_some (map snd evs)"
    unfolding sum_some_def map_map by (simp flip: sum_mset_sum_list add: mset_order_by_asc)
  with assms show ?thesis unfolding running_sum_def all Let_def deltas by (simp split: if_splits)
qed

lemma team_events_score: "running_sum (team_events d t) (fst (last (team_events d t))) = Some p \<Longrightarrow> p = team_score d t"
  unfolding team_events_def
  by (drule running_sum_last) (simp add: team_score_def team_solve_points_def team_award_points_def sum_some_append
    case_prod_unfold comp_def sum_some_def)

text \<open>The rows of one team are the block of that team.\<close>

lemma filter_blocks:
  assumes "distinct (map f ts)"
  shows "filter (\<lambda>r. fst r = t) (concat (map (\<lambda>x. map (\<lambda>e. (f x, g x e)) (h x)) ts)) =
    (case find (\<lambda>x. f x = t) ts of None \<Rightarrow> [] | Some x \<Rightarrow> map (\<lambda>e. (f x, g x e)) (h x))"
  using assms
proof (induction ts)
  case (Cons x xs)
  have block: "filter (\<lambda>r. fst r = t) (map (\<lambda>e. (f x, g x e)) (h x)) =
      (if f x = t then map (\<lambda>e. (f x, g x e)) (h x) else [])"
    by (auto simp: filter_map comp_def filter_empty_conv)
  have "find (\<lambda>x. f x = t) xs = None" if "f x = t"
    unfolding find_None_iff using Cons.prems that by (auto simp: image_iff)
  with Cons block show ?case by simp
qed simp

text \<open>Whatever team the history of the scoreboard shows, its last entry is the score of the team; the score is
  taken over all its solves and awards, hidden and banned teams included.\<close>

lemma history_last:
  assumes "sqlc_GetScoreboardHistory n d = (Inr rows, d')" "distinct (map teams_id (teams d))"
    "filter (\<lambda>r. fst r = t) rows \<noteq> []"
  shows "fst (snd (snd (last (filter (\<lambda>r. fst r = t) rows)))) = team_score d t"
proof -
  let ?g = "\<lambda>x e. (teams_name x, running_sum (team_events d (teams_id x)) (fst e), fst e)"
  let ?ts = "sort_key teams_id (top_teams d (nat n))"
  let ?f = "\<lambda>r :: uuid \<times> string \<times> int option \<times> time option. case r of (t, name, p, tm) \<Rightarrow> (t, name, the p, tm)"
  define raw where "raw = concat (map (\<lambda>x. map (\<lambda>e. (teams_id x, ?g x e)) (team_events d (teams_id x))) ?ts)"
  have rows: "rows = map ?f raw" and known: "\<forall>(_, _, p, _) \<in> set raw. p \<noteq> None"
    using assms(1) by (auto simp: sqlc_GetScoreboardHistory_def raw_def[symmetric] Let_def list_all_iff split: if_splits option.splits)
  have "mset (map teams_id (sort_key (\<lambda>t. - history_weight d t) (filter live (teams d)))) =
      mset (map teams_id (filter live (teams d)))" by simp
  then have "distinct (map teams_id (sort_key (\<lambda>t. - history_weight d t) (filter live (teams d))))"
    using mset_eq_imp_distinct_iff distinct_map_filter [OF assms(2)] by blast
  then have "distinct (map teams_id (top_teams d (nat n)))" by (simp add: top_teams_def distinct_take flip: take_map)
  then have dist: "distinct (map teams_id ?ts)"
    using mset_eq_imp_distinct_iff [of "map teams_id ?ts" "map teams_id (top_teams d (nat n))"] by simp
  have mine: "filter (\<lambda>r. fst r = t) rows = map ?f (filter (\<lambda>r. fst r = t) raw)"
    by (simp add: rows filter_map comp_def case_prod_unfold)
  have block: "filter (\<lambda>r. fst r = t) raw = (case find (\<lambda>x. teams_id x = t) ?ts of None \<Rightarrow> []
      | Some x \<Rightarrow> map (\<lambda>e. (teams_id x, ?g x e)) (team_events d (teams_id x)))"
    unfolding raw_def by (rule filter_blocks [OF dist])
  have "find (\<lambda>x. teams_id x = t) ?ts \<noteq> None"
  proof
    assume "find (\<lambda>x. teams_id x = t) ?ts = None"
    with block have "filter (\<lambda>r. fst r = t) raw = []" by (simp only: option.case)
    with assms(3) show False unfolding mine by simp
  qed
  then obtain x where find: "find (\<lambda>x. teams_id x = t) ?ts = Some x" by blast
  then have "teams_id x = t" by (auto dest: find_SomeD)
  with block find have x: "teams_id x = t"
    "filter (\<lambda>r. fst r = t) raw = map (\<lambda>e. (teams_id x, ?g x e)) (team_events d (teams_id x))"
    by (simp_all only: option.case)
  have ne: "team_events d t \<noteq> []" using assms(3) unfolding mine x(2) x(1) by simp
  have "(t, ?g x (last (team_events d t))) \<in> set (filter (\<lambda>r. fst r = t) raw)"
    unfolding x(2) x(1) using last_in_set [OF ne] by auto
  with known obtain p where p: "running_sum (team_events d t) (fst (last (team_events d t))) = Some p" by (auto simp: x(1))
  from team_events_score [OF p] show ?thesis unfolding mine x(2) x(1) by (simp add: last_map ne p)
qed

lemma history_last_demo:
  "sqlc_GetScoreboardHistory 5 demo_db = (Inr [(11, ''alpha'', 500, Some 7), (12, ''delta'', 70, Some 9)], demo_db) \<and>
    team_score demo_db 11 = 500"
  by code_simp

text \<open>A team with one award outranks, in the choice of the teams of the graph, a team of a higher score: its
  award counts once per solve.\<close>

definition fanout_db :: db where
  "fanout_db = demo_db\<lparr>
     challenges := [(demo_challenge 31 ''one'' ''h'' False None 1)\<lparr>challenges_points := Some 100\<rparr>,
       (demo_challenge 32 ''two'' ''h'' False None 1)\<lparr>challenges_points := Some 100\<rparr>,
       (demo_challenge 33 ''three'' ''h'' False None 1)\<lparr>challenges_points := Some 50\<rparr>,
       (demo_challenge 34 ''four'' ''h'' False None 1)\<lparr>challenges_points := Some 50\<rparr>],
     solves := map (\<lambda>(i, u, t, c). \<lparr>solves_id = i, solves_user_id = u, solves_team_id = t, solves_challenge_id = c,
       solves_solved_at = Some 7\<rparr>) [(51, 2, 11, 31), (52, 2, 11, 32), (53, 4, 12, 33), (54, 4, 12, 34)],
     awards := [\<lparr>awards_id = 61, awards_team_id = 12, awards_value = 60, awards_description = ''style'',
       awards_created_by = Some 1, awards_created_at = Some 9\<rparr>]\<rparr>"

text \<open>The choice of the leading teams multiplies: a team of 160 points is drawn instead of the leader of 200.\<close>

theorem history_overlooks_leader:
  "team_score fanout_db 11 = 200 \<and> team_score fanout_db 12 = 160 \<and> map teams_id (top_teams fanout_db 1) = [12]"
  by code_simp

end
