(* ===== verification/CTF_Storage.thy ===== *)
theory CTF_Storage
  imports CTF_Lift
begin

text \<open>
  Where the contents of files are kept: the interface \<open>storage.Provider\<close> and \<open>FilesystemProvider\<close>, with what it
  takes from Go's \<open>path/filepath\<close> and from \<open>os.Root\<close>. There are no symbolic links below the root. \<open>S3Provider\<close> is
  written over the client of the service, a parameter.
\<close>

section \<open>Paths\<close>

fun split_slash :: "string \<Rightarrow> string list" where
  "split_slash [] = [[]]"
| "split_slash (c # cs) = (if c = CHR ''/'' then [] # split_slash cs
     else case split_slash cs of [] \<Rightarrow> [[c]] | p # ps \<Rightarrow> (c # p) # ps)"

fun join_slash :: "string list \<Rightarrow> string" where
  "join_slash [] = []"
| "join_slash [p] = p"
| "join_slash (p # q # ps) = p @ ''/'' @ join_slash (q # ps)"

fun clean_parts :: "bool \<Rightarrow> string list \<Rightarrow> string list \<Rightarrow> string list" where
  "clean_parts rooted out [] = out"
| "clean_parts rooted out (p # ps) =
     (if p = [] \<or> p = ''.'' then clean_parts rooted out ps
      else if p = ''..'' then
        (if out \<noteq> [] \<and> last out \<noteq> ''..'' then clean_parts rooted (butlast out) ps
         else if rooted then clean_parts rooted out ps
         else clean_parts rooted (out @ [p]) ps)
      else clean_parts rooted (out @ [p]) ps)"

definition filepath_Clean :: "string \<Rightarrow> string" where
  "filepath_Clean path =
     (let rooted = (path \<noteq> [] \<and> hd path = CHR ''/'');
          ps = clean_parts rooted [] (split_slash path)
      in if rooted then ''/'' @ join_slash ps else if ps = [] then ''.'' else join_slash ps)"

definition filepath_Base :: "string \<Rightarrow> string" where
  "filepath_Base path =
     (if path = [] then ''.''
      else let p = rev (dropWhile (\<lambda>c. c = CHR ''/'') (rev path))
        in if p = [] then ''/'' else last (split_slash p))"

definition filepath_Dir :: "string \<Rightarrow> string" where
  "filepath_Dir path = filepath_Clean (rev (dropWhile (\<lambda>c. c \<noteq> CHR ''/'') (rev path)))"

definition filepath_Join :: "string list \<Rightarrow> string" where
  "filepath_Join elems =
     (case dropWhile (\<lambda>e. e = []) elems of [] \<Rightarrow> [] | es \<Rightarrow> filepath_Clean (join_slash es))"

section \<open>A directory tree\<close>

text \<open>
  Directories and files below the root, by the components of their paths; \<open>fs_short\<close> is how many bytes a write that
  fails leaves behind.
\<close>

record filesystem =
  fs_dirs :: "string list list"
  fs_files :: "(string list \<times> string) list"
  fs_short :: nat

type_synonym 'a fs_op = "(filesystem, 'a) obj_op"

definition is_dir :: "filesystem \<Rightarrow> string list \<Rightarrow> bool" where
  "is_dir fs p \<longleftrightarrow> p = [] \<or> p \<in> set (fs_dirs fs)"

definition is_file :: "filesystem \<Rightarrow> string list \<Rightarrow> bool" where
  "is_file fs p \<longleftrightarrow> map_of (fs_files fs) p \<noteq> None"

datatype os_error = NotExist | OtherError

text \<open>The path of a name below the root; every directory on the way has to be there.\<close>

fun walk :: "filesystem \<Rightarrow> string list \<Rightarrow> string list \<Rightarrow> os_error + string list" where
  "walk fs cur [] = Inr cur"
| "walk fs cur (p # ps) =
     (if p = ''..'' then (if cur = [] then Inl OtherError else walk fs (butlast cur) ps)
      else if ps = [] then Inr (cur @ [p])
      else if is_dir fs (cur @ [p]) then walk fs (cur @ [p]) ps
      else Inl (if is_file fs (cur @ [p]) then OtherError else NotExist))"

definition root_path :: "filesystem \<Rightarrow> string \<Rightarrow> os_error + string list" where
  "root_path fs name =
     (if name = [] \<or> hd name = CHR ''/'' then Inl OtherError
      else walk fs [] (filter (\<lambda>p. p \<noteq> [] \<and> p \<noteq> ''.'') (split_slash name)))"

definition ends_with_slash :: "string \<Rightarrow> bool" where
  "ends_with_slash name \<longleftrightarrow> name \<noteq> [] \<and> last name = CHR ''/''"

text \<open>A reader is what it yields and the error it then ends in, if any; a directory can be opened but not read.\<close>

type_synonym reader = "string \<times> goerr option"

definition root_Open :: "string \<Rightarrow> filesystem \<Rightarrow> os_error + reader" where
  "root_Open name fs =
     (case root_path fs name of Inl e \<Rightarrow> Inl e
      | Inr p \<Rightarrow>
         if is_dir fs p then Inr ([], Some (Plain ''is a directory''))
         else case map_of (fs_files fs) p of None \<Rightarrow> Inl NotExist
            | Some content \<Rightarrow> if ends_with_slash name then Inl OtherError else Inr (content, None))"

text \<open>\<open>Create\<close> truncates a file that is there; the result is the path to write to.\<close>

definition root_Create :: "string \<Rightarrow> filesystem \<Rightarrow> (os_error + string list) \<times> filesystem" where
  "root_Create name fs =
     (case root_path fs name of Inl e \<Rightarrow> (Inl e, fs)
      | Inr p \<Rightarrow> if is_dir fs p \<or> ends_with_slash name then (Inl OtherError, fs)
          else (Inr p, fs\<lparr>fs_files := (p, []) # filter (\<lambda>(q, _). q \<noteq> p) (fs_files fs)\<rparr>))"

fun mkdirs :: "string list \<Rightarrow> string list \<Rightarrow> filesystem \<Rightarrow> (os_error + unit) \<times> filesystem" where
  "mkdirs cur [] fs = (Inr (), fs)"
| "mkdirs cur (p # ps) fs =
     (if p = ''..'' \<or> is_file fs (cur @ [p]) then (Inl OtherError, fs)
      else mkdirs (cur @ [p]) ps (if is_dir fs (cur @ [p]) then fs else fs\<lparr>fs_dirs := (cur @ [p]) # fs_dirs fs\<rparr>))"

definition root_MkdirAll :: "string \<Rightarrow> filesystem \<Rightarrow> (os_error + unit) \<times> filesystem" where
  "root_MkdirAll name fs =
     (if name = [] \<or> hd name = CHR ''/'' then (Inl OtherError, fs)
      else mkdirs [] (filter (\<lambda>p. p \<noteq> [] \<and> p \<noteq> ''.'') (split_slash name)) fs)"

text \<open>\<open>Remove\<close> takes a file or an empty directory.\<close>

definition root_Remove :: "string \<Rightarrow> filesystem \<Rightarrow> (os_error + unit) \<times> filesystem" where
  "root_Remove name fs =
     (case root_path fs name of Inl e \<Rightarrow> (Inl e, fs)
      | Inr p \<Rightarrow>
         if p = [] then (Inl OtherError, fs)
         else if is_file fs p then (if ends_with_slash name then (Inl OtherError, fs)
              else (Inr (), fs\<lparr>fs_files := filter (\<lambda>(q, _). q \<noteq> p) (fs_files fs)\<rparr>))
         else if is_dir fs p then
           (if list_ex (\<lambda>q. q \<noteq> [] \<and> butlast q = p) (fs_dirs fs @ map fst (fs_files fs)) then (Inl OtherError, fs)
            else (Inr (), fs\<lparr>fs_dirs := filter (\<lambda>q. q \<noteq> p) (fs_dirs fs)\<rparr>))
         else (Inl NotExist, fs))"

section \<open>The interface\<close>

record 'ob provider =
  pv_Upload :: "string \<Rightarrow> reader \<Rightarrow> int \<Rightarrow> string \<Rightarrow> ('ob, unit) obj_op"
  pv_Download :: "string \<Rightarrow> ('ob, reader) obj_op"
  pv_Delete :: "string \<Rightarrow> ('ob, unit) obj_op"
  pv_GetPresignedURL :: "string \<Rightarrow> time \<Rightarrow> ('ob, string) obj_op"

section \<open>FilesystemProvider\<close>

text \<open>A call of the operating system, which may also fail as the script of the world says.\<close>

definition os_error_of :: "os_error \<Rightarrow> goerr" where
  "os_error_of e = Plain (case e of NotExist \<Rightarrow> ''no such file or directory'' | OtherError \<Rightarrow> ''operation not permitted'')"

definition os_fault :: "unit fs_op" where
  "os_fault = inWorld (mapErr (\<lambda>_. Plain ''input/output error'') driver)"

definition os_call :: "string \<Rightarrow> (filesystem \<Rightarrow> (os_error + 'a) \<times> filesystem) \<Rightarrow> 'a fs_op" where
  "os_call msg f = mapErr (wrap msg) (bindE os_fault (\<lambda>_.
     inObj (\<lambda>fs. case f fs of (Inl e, fs') \<Rightarrow> (Inl (os_error_of e), fs') | (Inr x, fs') \<Rightarrow> (Inr x, fs'))))"

text \<open>\<open>io.Copy\<close> into a file that was just created.\<close>

definition write_all :: "string list \<Rightarrow> string \<Rightarrow> filesystem \<Rightarrow> filesystem" where
  "write_all p content fs = fs\<lparr>fs_files := map (\<lambda>(q, c). (q, if q = p then content else c)) (fs_files fs)\<rparr>"

definition copy_to :: "string list \<Rightarrow> reader \<Rightarrow> unit fs_op" where
  "copy_to p r = bindE (tryE os_fault) (\<lambda>res. case res of
       Inl e \<Rightarrow> bindE (setObj (\<lambda>fs. write_all p (take (fs_short fs) (fst r)) fs)) (\<lambda>_. throwE e)
     | Inr _ \<Rightarrow> bindE (setObj (write_all p (fst r))) (\<lambda>_. case snd r of None \<Rightarrow> returnE () | Some e \<Rightarrow> throwE e))"

definition FilesystemProvider_Upload :: "string \<Rightarrow> reader \<Rightarrow> int \<Rightarrow> string \<Rightarrow> unit fs_op" where
  "FilesystemProvider_Upload path reader fsize contentType =
     (let dir = filepath_Dir path in
      bindE (if dir \<noteq> ''.'' \<and> dir \<noteq> ''/'' then os_call ''failed to create directory'' (root_MkdirAll dir) else returnE ()) (\<lambda>_.
      bindE (os_call ''failed to create file'' (root_Create path)) (\<lambda>f.
      mapErr (wrap ''failed to write file'') (copy_to f reader))))"

definition FilesystemProvider_Download :: "string \<Rightarrow> reader fs_op" where
  "FilesystemProvider_Download path =
     bindE (mapErr (wrap ''failed to open file'') os_fault) (\<lambda>_.
     bindE getObj (\<lambda>fs. case root_Open path fs of
         Inl NotExist \<Rightarrow> throwE (Plain (''file not found: '' @ path))
       | Inl e \<Rightarrow> throwE (wrap ''failed to open file'' (os_error_of e))
       | Inr r \<Rightarrow> returnE r))"

definition FilesystemProvider_Delete :: "string \<Rightarrow> unit fs_op" where
  "FilesystemProvider_Delete path =
     bindE (os_call ''failed to delete file'' (root_Remove path)) (\<lambda>_.
     let dir = filepath_Dir path in
     if dir \<noteq> ''.'' \<and> dir \<noteq> ''/'' then os_call ''failed to remove dir'' (root_Remove dir) else returnE ())"

definition FilesystemProvider_GetPresignedURL :: "string \<Rightarrow> time \<Rightarrow> string fs_op" where
  "FilesystemProvider_GetPresignedURL path expiry = returnE (''/api/v1/files/download/'' @ path)"

definition FilesystemProvider :: "filesystem provider" where
  "FilesystemProvider = \<lparr>pv_Upload = FilesystemProvider_Upload, pv_Download = FilesystemProvider_Download,
     pv_Delete = FilesystemProvider_Delete, pv_GetPresignedURL = FilesystemProvider_GetPresignedURL\<rparr>"

text \<open>Names that the code makes: the hash of the instant and the name, cut to 16 digits, and the last part of the name.\<close>

definition GenerateStoragePath :: "(string \<Rightarrow> string) \<Rightarrow> (time \<Rightarrow> string) \<Rightarrow> string \<Rightarrow> string op" where
  "GenerateStoragePath sha256 nanos filename =
     (let safeName = filepath_Base filename in
      bindE nowE (\<lambda>now.
      returnE (filepath_Join [take 16 (sha256 (nanos now @ ''-'' @ safeName)), safeName])))"

section \<open>S3Provider\<close>

text \<open>
  The client of the service is a parameter: its calls on the buckets, which may fail. A presigned address is its scheme, its
  host and what follows; reading and writing addresses is \<open>net/url\<close>.
\<close>

record url =
  url_Scheme :: string
  url_Host :: string
  url_Rest :: string

record 'ob s3_client =
  s3_BucketExists :: "string \<Rightarrow> ('ob, bool) obj_op"
  s3_MakeBucket :: "string \<Rightarrow> ('ob, unit) obj_op"
  s3_PutObject :: "string \<Rightarrow> string \<Rightarrow> reader \<Rightarrow> int \<Rightarrow> string \<Rightarrow> ('ob, unit) obj_op"
  s3_GetObject :: "string \<Rightarrow> string \<Rightarrow> ('ob, reader) obj_op"
  s3_Stat :: "string \<Rightarrow> string \<Rightarrow> ('ob, unit) obj_op"
  s3_RemoveObject :: "string \<Rightarrow> string \<Rightarrow> ('ob, unit) obj_op"
  s3_PresignedGetObject :: "string \<Rightarrow> string \<Rightarrow> time \<Rightarrow> ('ob, url) obj_op"
  s3_url_Parse :: "string \<Rightarrow> goerr + url"
  s3_url_String :: "url \<Rightarrow> string"

record 'ob s3_provider =
  sp_client :: "'ob s3_client"
  sp_bucket :: string
  sp_publicEndpoint :: string

definition NewS3Provider ::
  "(string \<Rightarrow> string \<Rightarrow> string \<Rightarrow> bool \<Rightarrow> goerr + 'ob s3_client) \<Rightarrow> string \<Rightarrow> string \<Rightarrow> string \<Rightarrow> string \<Rightarrow> string \<Rightarrow> bool \<Rightarrow>
   goerr + 'ob s3_provider" where
  "NewS3Provider minio_New endpoint publicEndpoint accessKey secretKey bucket useSSL =
     (if accessKey = '''' \<or> secretKey = '''' then Inl (Plain ''S3 credentials (accessKey, secretKey) are required'')
      else case minio_New endpoint accessKey secretKey useSSL of
          Inl e \<Rightarrow> Inl (wrap ''failed to create minio client'' e)
        | Inr client \<Rightarrow> Inr \<lparr>sp_client = client, sp_bucket = bucket, sp_publicEndpoint = publicEndpoint\<rparr>)"

definition S3Provider_EnsureBucket :: "'ob s3_provider \<Rightarrow> ('ob, unit) obj_op" where
  "S3Provider_EnsureBucket p =
     bindE (mapErr (wrap ''failed to check bucket existence'') (s3_BucketExists (sp_client p) (sp_bucket p))) (\<lambda>exists.
     if \<not> exists then mapErr (wrap ''failed to create bucket'') (s3_MakeBucket (sp_client p) (sp_bucket p)) else returnE ())"

definition S3Provider_Upload :: "'ob s3_provider \<Rightarrow> string \<Rightarrow> reader \<Rightarrow> int \<Rightarrow> string \<Rightarrow> ('ob, unit) obj_op" where
  "S3Provider_Upload p path r fsize contentType =
     mapErr (wrap ''failed to upload to S3'') (s3_PutObject (sp_client p) (sp_bucket p) path r fsize contentType)"

text \<open>\<open>GetObject\<close> asks for nothing yet; \<open>Stat\<close> tells whether the object is there.\<close>

definition S3Provider_Download :: "'ob s3_provider \<Rightarrow> string \<Rightarrow> ('ob, reader) obj_op" where
  "S3Provider_Download p path =
     bindE (mapErr (wrap ''failed to get object from S3'') (s3_GetObject (sp_client p) (sp_bucket p) path)) (\<lambda>obj.
     bindE (mapErr (wrap ''file not found in S3'') (s3_Stat (sp_client p) (sp_bucket p) path)) (\<lambda>_.
     returnE obj))"

definition S3Provider_Delete :: "'ob s3_provider \<Rightarrow> string \<Rightarrow> ('ob, unit) obj_op" where
  "S3Provider_Delete p path =
     mapErr (wrap ''failed to delete from S3'') (s3_RemoveObject (sp_client p) (sp_bucket p) path)"

definition S3Provider_GetPresignedURL :: "'ob s3_provider \<Rightarrow> string \<Rightarrow> time \<Rightarrow> ('ob, string) obj_op" where
  "S3Provider_GetPresignedURL p path expiry =
     bindE (mapErr (wrap ''failed to generate presigned URL'')
       (s3_PresignedGetObject (sp_client p) (sp_bucket p) path expiry)) (\<lambda>u.
     if sp_publicEndpoint p \<noteq> '''' then
       bindE (mapErr (wrap ''failed to parse public endpoint'') (liftE (s3_url_Parse (sp_client p) (sp_publicEndpoint p)))) (\<lambda>pub.
       returnE (s3_url_String (sp_client p) (u\<lparr>url_Scheme := url_Scheme pub, url_Host := url_Host pub\<rparr>)))
     else returnE (s3_url_String (sp_client p) u))"

definition S3Provider :: "'ob s3_provider \<Rightarrow> 'ob provider" where
  "S3Provider p = \<lparr>pv_Upload = S3Provider_Upload p, pv_Download = S3Provider_Download p,
     pv_Delete = S3Provider_Delete p, pv_GetPresignedURL = S3Provider_GetPresignedURL p\<rparr>"

end
