(* ===== verification/CTF_Files.thy ===== *)
theory CTF_Files
  imports CTF_Storage CTF_Content
begin

text \<open>
  Files of challenges: \<open>files.sql.go\<close>, \<open>FileRepository\<close> and \<open>FileUseCase\<close>, over any storage provider.
\<close>

section \<open>Queries\<close>

definition sqlc_CreateFile :: "files_row \<Rightarrow> unit query" where
  "sqlc_CreateFile r d =
     (if files_type r \<notin> {FileTypeChallenge, FileTypeWriteup} then (Inl CheckViolation, d)
      else if list_ex (\<lambda>f. files_id f = files_id r) (files d) then (Inl UniqueViolation, d)
      else if \<not> challenge_exists (files_challenge_id r) d then (Inl ForeignKeyViolation, d)
      else (Inr (), d\<lparr>files := files d @ [r]\<rparr>))"

definition sqlc_DeleteFile :: "uuid \<Rightarrow> uuid query" where
  "sqlc_DeleteFile ID d =
     (if list_ex (\<lambda>f. files_id f = ID) (files d)
      then (Inr ID, d\<lparr>files := del_where (\<lambda>f. files_id f = ID) (files d)\<rparr>) else (Inl NoRows, d))"

definition sqlc_GetAllFiles :: "files_row list query" where
  "sqlc_GetAllFiles = select_all (\<lambda>d. sort_key (\<lambda>f. - files_created_at f) (files d))"

definition sqlc_GetFileByID :: "uuid \<Rightarrow> files_row query" where
  "sqlc_GetFileByID ID = select_one (\<lambda>d. filter (\<lambda>f. files_id f = ID) (files d))"

definition sqlc_GetFilesByChallengeIDAndType :: "uuid \<Rightarrow> string \<Rightarrow> files_row list query" where
  "sqlc_GetFilesByChallengeIDAndType challenge_id typ = select_all (\<lambda>d.
     sort_key (\<lambda>f. - files_created_at f)
       (filter (\<lambda>f. files_challenge_id f = challenge_id \<and> files_type f = typ) (files d)))"

section \<open>FileRepository\<close>

definition toEntityFile :: "files_row \<Rightarrow> file_info" where
  "toEntityFile f = \<lparr>file_ID = files_id f, file_Type = files_type f, file_ChallengeID = files_challenge_id f,
     file_Location = files_location f, file_Filename = files_filename f, file_Size = files_size f,
     file_SHA256 = files_sha256 f, file_CreatedAt = files_created_at f\<rparr>"

definition FileRepository_Create :: "file_info \<Rightarrow> file_info op" where
  "FileRepository_Create f =
     bindE (id_or_new (file_ID f)) (\<lambda>ID.
     bindE (time_or_now (file_CreatedAt f)) (\<lambda>createdAt.
     bindE (mapErr (wrap ''FileRepository - Create'') (sql (sqlc_CreateFile
       \<lparr>files_id = ID, files_type = file_Type f, files_challenge_id = file_ChallengeID f,
        files_location = file_Location f, files_filename = file_Filename f, files_size = file_Size f,
        files_sha256 = file_SHA256 f, files_created_at = createdAt\<rparr>))) (\<lambda>_.
     returnE (f\<lparr>file_ID := ID, file_CreatedAt := createdAt\<rparr>))))"

definition FileRepository_GetByID :: "uuid \<Rightarrow> file_info op" where
  "FileRepository_GetByID ID =
     bindE (mapErr (no_rows_as ErrFileNotFound ''FileRepository - GetByID'') (sql (sqlc_GetFileByID ID)))
       (\<lambda>f. returnE (toEntityFile f))"

definition FileRepository_GetByChallengeID :: "uuid \<Rightarrow> string \<Rightarrow> file_info list op" where
  "FileRepository_GetByChallengeID challengeID fileType =
     bindE (mapErr (wrap ''FileRepository - GetByChallengeID'')
       (sql (sqlc_GetFilesByChallengeIDAndType challengeID fileType)))
       (\<lambda>rows. returnE (map toEntityFile rows))"

definition FileRepository_GetAll :: "file_info list op" where
  "FileRepository_GetAll =
     bindE (mapErr (wrap ''FileRepository - GetAll'') (sql sqlc_GetAllFiles)) (\<lambda>rows. returnE (map toEntityFile rows))"

definition FileRepository_Delete :: "uuid \<Rightarrow> unit op" where
  "FileRepository_Delete ID =
     bindE (mapErr (no_rows_as ErrFileNotFound ''FileRepository - Delete'') (sql (sqlc_DeleteFile ID)))
       (\<lambda>_. returnE ())"

section \<open>FileUseCase\<close>

text \<open>The digest, the decimal nanoseconds of an instant and the life of a link come with the use case.\<close>

record 'ob file_uc =
  fu_storage :: "'ob provider"
  fu_expiry :: time
  fu_sha256 :: "string \<Rightarrow> string"
  fu_nanos :: "time \<Rightarrow> string"

text \<open>A step on the temporary file of an upload; the operating system may refuse it.\<close>

definition temp_call :: "string \<Rightarrow> ('ob, unit) obj_op" where
  "temp_call msg = inWorld (mapErr (\<lambda>_. wrap msg (Plain ''input/output error'')) driver)"

definition File_Upload ::
  "'ob file_uc \<Rightarrow> uuid \<Rightarrow> string \<Rightarrow> string \<Rightarrow> reader \<Rightarrow> int \<Rightarrow> string \<Rightarrow> ('ob, file_info) obj_op" where
  "File_Upload uc challengeID fileType filename reader fsize contentType =
     bindE (temp_call ''FileUseCase - Upload - CreateTemp'') (\<lambda>_.
     bindE (temp_call ''FileUseCase - Upload - Copy'') (\<lambda>_.
     bindE (case snd reader of None \<Rightarrow> returnE () | Some e \<Rightarrow> throwE (wrap ''FileUseCase - Upload - Copy'' e)) (\<lambda>_.
     bindE (temp_call ''FileUseCase - Upload - Seek'') (\<lambda>_.
     let sha256Hash = fu_sha256 uc (fst reader) in
     bindE (inWorld (GenerateStoragePath (fu_sha256 uc) (fu_nanos uc) filename)) (\<lambda>storagePath.
     bindE (mapErr (wrap ''FileUseCase - Upload - Storage'')
       (pv_Upload (fu_storage uc) storagePath (fst reader, None) fsize contentType)) (\<lambda>_.
     bindE (inWorld nowE) (\<lambda>now.
     let f = \<lparr>file_ID = 0, file_Type = fileType, file_ChallengeID = challengeID, file_Location = storagePath,
           file_Filename = filename, file_Size = fsize, file_SHA256 = sha256Hash, file_CreatedAt = now\<rparr> in
     bindE (tryE (inWorld (FileRepository_Create f))) (\<lambda>r. case r of
         Inr created \<Rightarrow> returnE created
       | Inl err \<Rightarrow> bindE (tryE (pv_Delete (fu_storage uc) storagePath)) (\<lambda>del. case del of
             Inl delErr \<Rightarrow> throwE (Wrapf2 ''FileUseCase - Upload - Create: '' err '', cleanup delete: '' delErr)
           | Inr _ \<Rightarrow> throwE (wrap ''FileUseCase - Upload - Create'' err))))))))))"

definition File_Download :: "'ob file_uc \<Rightarrow> string \<Rightarrow> ('ob, reader) obj_op" where
  "File_Download uc path = pv_Download (fu_storage uc) path"

definition File_GetDownloadURL :: "'ob file_uc \<Rightarrow> uuid \<Rightarrow> ('ob, string) obj_op" where
  "File_GetDownloadURL uc fileID =
     bindE (mapErr (wrap ''FileUseCase - GetDownloadURL - GetByID'') (inWorld (FileRepository_GetByID fileID))) (\<lambda>f.
     mapErr (wrap ''FileUseCase - GetDownloadURL - Presign'')
       (pv_GetPresignedURL (fu_storage uc) (file_Location f) (fu_expiry uc)))"

definition File_GetByChallengeID :: "uuid \<Rightarrow> string \<Rightarrow> file_info list op" where
  "File_GetByChallengeID challengeID fileType =
     mapErr (wrap ''FileUseCase - GetByChallengeID'') (FileRepository_GetByChallengeID challengeID fileType)"

definition File_Delete :: "'ob file_uc \<Rightarrow> uuid \<Rightarrow> ('ob, unit) obj_op" where
  "File_Delete uc fileID =
     bindE (mapErr (wrap ''FileUseCase - Delete - GetByID'') (inWorld (FileRepository_GetByID fileID))) (\<lambda>f.
     bindE (mapErr (wrap ''FileUseCase - Delete - Storage'') (pv_Delete (fu_storage uc) (file_Location f))) (\<lambda>_.
     mapErr (wrap ''FileUseCase - Delete - Delete'') (inWorld (FileRepository_Delete fileID))))"

end
