(* ===== verification/CTF_FileProps.thy ===== *)
theory CTF_FileProps
  imports CTF_Files CTF_ScoreFacts CTF_Demo
begin

text \<open>
  What a storage provider promises (\<open>blob_store\<close>), that the file system keeps it for the paths the code makes, and
  what follows for uploads and deletions.
\<close>

section \<open>The contract of a provider\<close>

locale blob_store =
  fixes pv :: "'ob provider"
    and blob :: "'ob \<Rightarrow> string \<Rightarrow> string option"
    and good :: "string \<Rightarrow> bool"
    and okay :: "'ob \<Rightarrow> bool"
  assumes upload: "okay ob \<Longrightarrow> good p \<Longrightarrow> pv_Upload pv p (c, None) n t (ob, w) = (r, (ob', w')) \<Longrightarrow>
      okay ob' \<and> store w' = store w \<and> (\<forall>q. good q \<and> q \<noteq> p \<longrightarrow> blob ob' q = blob ob q) \<and>
      (case r of Inr _ \<Rightarrow> blob ob' p = Some c | Inl _ \<Rightarrow> True)"
    and delete: "okay ob \<Longrightarrow> good p \<Longrightarrow> pv_Delete pv p (ob, w) = (r, (ob', w')) \<Longrightarrow>
      okay ob' \<and> store w' = store w \<and> (\<forall>q. good q \<and> q \<noteq> p \<longrightarrow> blob ob' q = blob ob q) \<and>
      (case r of Inr _ \<Rightarrow> blob ob' p = None | Inl _ \<Rightarrow> blob ob' p = blob ob p \<or> blob ob' p = None)"
    and download: "okay ob \<Longrightarrow> good p \<Longrightarrow> blob ob p = Some c \<Longrightarrow> faults w = [] \<Longrightarrow>
      fst (pv_Download pv p (ob, w)) = Inr (c, None)"
begin

lemma cleanup:
  assumes "okay ob" "good p" "pv_Delete pv p (ob, w) = (r, (ob', w'))"
  shows "okay ob'" "store w' = store w" "good q \<Longrightarrow> q \<noteq> p \<Longrightarrow> blob ob' q = blob ob q"
  using delete [OF assms] by auto

end

text \<open>A provider that reports the deletion of what is not there.\<close>

locale strict_store = blob_store +
  assumes delete_missing: "okay ob \<Longrightarrow> good p \<Longrightarrow> blob ob p = None \<Longrightarrow> pv_Delete pv p (ob, w) = (r, (ob', w')) \<Longrightarrow>
      ob' = ob \<and> isl r"

section \<open>The file system keeps it\<close>

definition simple_name :: "string \<Rightarrow> bool" where
  "simple_name s \<longleftrightarrow> s \<noteq> [] \<and> CHR ''/'' \<notin> set s \<and> s \<noteq> ''.'' \<and> s \<noteq> ''..''"

definition good_path :: "string \<Rightarrow> bool" where
  "good_path p \<longleftrightarrow> (\<exists>h n. simple_name h \<and> simple_name n \<and> p = h @ ''/'' @ n)"

definition fs_blob :: "filesystem \<Rightarrow> string \<Rightarrow> string option" where
  "fs_blob fs p = map_of (fs_files fs) (split_slash p)"

definition fs_okay :: "filesystem \<Rightarrow> bool" where
  "fs_okay fs \<longleftrightarrow> (\<forall>p \<in> fst ` set (fs_files fs). p \<noteq> [] \<and> is_dir fs (butlast p) \<and> \<not> is_dir fs p) \<and>
     (\<forall>d \<in> set (fs_dirs fs). length d = 1)"

lemma split_slash_plain: "CHR ''/'' \<notin> set s \<Longrightarrow> split_slash s = [s]"
  by (induction s) auto

lemma split_slash_append: "CHR ''/'' \<notin> set h \<Longrightarrow> split_slash (h @ CHR ''/'' # s) = h # split_slash s"
  by (induction h) auto

lemma split_good:
  assumes "simple_name h" "simple_name n"
  shows "split_slash (h @ CHR ''/'' # n) = [h, n]" "filepath_Dir (h @ CHR ''/'' # n) = h"
    "hd (h @ CHR ''/'' # n) \<noteq> CHR ''/''" "\<not> ends_with_slash (h @ CHR ''/'' # n)" "h \<noteq> ''.''" "h \<noteq> ''/''"
    "split_slash h = [h]" "split_slash (h @ ''/'') = [h, []]" "hd h \<noteq> CHR ''/''" "\<not> ends_with_slash h"
proof -
  have h: "CHR ''/'' \<notin> set h" "CHR ''/'' \<notin> set n" "h \<noteq> []" "n \<noteq> []" using assms by (auto simp: simple_name_def)
  show "split_slash (h @ CHR ''/'' # n) = [h, n]" using h by (simp add: split_slash_append split_slash_plain)
  show "split_slash (h @ ''/'') = [h, []]" using split_slash_append [of h "[]"] h by simp
  have "dropWhile (\<lambda>c. c \<noteq> CHR ''/'') (rev (h @ CHR ''/'' # n)) = CHR ''/'' # rev h"
    using h(2) dropWhile_append2 [of "rev n" "\<lambda>c. c \<noteq> CHR ''/''" "CHR ''/'' # rev h"] by (auto simp: in_set_conv_decomp)
  then show "filepath_Dir (h @ CHR ''/'' # n) = h"
    using h \<open>split_slash (h @ ''/'') = [h, []]\<close> assms(1)
    by (cases h) (auto simp: filepath_Dir_def filepath_Clean_def simple_name_def)
  show "split_slash h = [h]" using h by (simp add: split_slash_plain)
  show "hd (h @ CHR ''/'' # n) \<noteq> CHR ''/''" "hd h \<noteq> CHR ''/''" using h by (cases h; auto)+
  show "\<not> ends_with_slash (h @ CHR ''/'' # n)" "\<not> ends_with_slash h" using h last_in_set [of h] last_in_set [of n] unfolding ends_with_slash_def by (auto simp del: last_in_set)
qed (use assms in \<open>auto simp: simple_name_def\<close>)

lemma root_path_good:
  assumes "simple_name h" "simple_name n"
  shows "root_path fs (h @ CHR ''/'' # n) =
      (if is_dir fs [h] then Inr [h, n] else Inl (if is_file fs [h] then OtherError else NotExist))"
    "root_path fs h = Inr [h]"
  using split_good [OF assms] assms by (auto simp: root_path_def simple_name_def)

text \<open>The three operations on a path the code makes.\<close>

lemma os_fault_store: "os_fault (fs, w) = (r, (fs', w')) \<Longrightarrow> fs' = fs \<and> store w' = store w"
  by (auto simp: os_fault_def inWorld_def driver_def use_fault_def mapErr_def split: prod.splits sum.splits if_splits)

lemma os_call_cases:
  assumes "os_call msg f (fs, w) = (r, (fs', w'))"
  shows "store w' = store w \<and> ((isl r \<and> fs' = fs) \<or> (\<exists>e. f fs = (Inl e, fs') \<and> isl r) \<or> (\<exists>x. f fs = (Inr x, fs') \<and> r = Inr x))"
proof -
  obtain r0 fs0 w0 where 0: "os_fault (fs, w) = (r0, (fs0, w0))" by (metis prod_cases3)
  note st = os_fault_store [OF 0]
  obtain y fsy where f: "f fs = (y, fsy)" by (cases "f fs")
  show ?thesis
    using assms 0 st f by (cases r0; cases y) (auto simp: os_call_def mapErr_def bindE_def inObj_def)
qed

lemma fs_okay_iff: "fs_okay fs \<longleftrightarrow> (\<forall>p. is_file fs p \<longrightarrow> p \<noteq> [] \<and> is_dir fs (butlast p) \<and> \<not> is_dir fs p) \<and>
    (\<forall>d \<in> set (fs_dirs fs). length d = 1)"
  unfolding fs_okay_def is_file_def map_of_eq_None_iff by blast

lemma is_file_dirs [simp]: "is_file (fs\<lparr>fs_dirs := x\<rparr>) p = is_file fs p"
  by (simp add: is_file_def)

lemma is_dir_files [simp]: "is_dir (fs\<lparr>fs_files := x\<rparr>) p = is_dir fs p"
  by (simp add: is_dir_def)

lemma is_dir_insert: "is_dir (fs\<lparr>fs_dirs := x # fs_dirs fs\<rparr>) p \<longleftrightarrow> p = x \<or> is_dir fs p"
  by (auto simp: is_dir_def)

lemma fs_okay_mkdir:
  assumes "fs_okay fs" "\<not> is_file fs [h]"
  shows "fs_okay (fs\<lparr>fs_dirs := [h] # fs_dirs fs\<rparr>)"
  using assms by (auto simp: fs_okay_iff is_dir_insert)

lemma root_MkdirAll_good:
  assumes "simple_name h" "fs_okay fs" "root_MkdirAll h fs = (r, fs')"
  shows "fs_okay fs' \<and> fs_files fs' = fs_files fs \<and> (r = Inr () \<longrightarrow> is_dir fs' [h])"
  using assms split_good(7,9) [OF assms(1,1)] fs_okay_mkdir [OF assms(2), of h]
  by (auto simp: root_MkdirAll_def simple_name_def is_dir_insert split: if_splits)

lemma map_of_filter_key: "map_of (filter (\<lambda>(q, _). q \<noteq> p) xs) r = (if r = p then None else map_of xs r)"
  by (induction xs) auto

lemma is_file_create:
  "is_file (fs\<lparr>fs_files := (x, c) # filter (\<lambda>(q, _). q \<noteq> x) (fs_files fs)\<rparr>) p \<longleftrightarrow> p = x \<or> is_file fs p"
  by (simp add: is_file_def map_of_filter_key)

lemma is_file_remove:
  "is_file (fs\<lparr>fs_files := filter (\<lambda>(q, _). q \<noteq> x) (fs_files fs)\<rparr>) p \<longleftrightarrow> p \<noteq> x \<and> is_file fs p"
  by (simp add: is_file_def map_of_filter_key)

lemma root_Create_good:
  assumes "simple_name h" "simple_name n" "fs_okay fs" "root_Create (h @ CHR ''/'' # n) fs = (r, fs')"
  shows "fs_okay fs' \<and> (\<forall>q. q \<noteq> [h, n] \<longrightarrow> map_of (fs_files fs') q = map_of (fs_files fs) q) \<and>
    (case r of Inr p \<Rightarrow> p = [h, n] \<and> is_file fs' p | Inl _ \<Rightarrow> fs' = fs)"
  using assms(3,4) split_good(4) [OF assms(1,2)] unfolding root_Create_def root_path_good [OF assms(1,2)] fs_okay_iff
  by (auto simp: is_file_create map_of_filter_key split: if_splits)

lemma write_all_files: "map_of (fs_files (write_all p c fs)) q =
    (if q = p \<and> is_file fs p then Some c else map_of (fs_files fs) q)"
proof -
  have "map_of (map (\<lambda>(q, d). (q, if q = p then c else d)) xs) q =
      (if q = p \<and> map_of xs p \<noteq> None then Some c else map_of xs q)" for xs
    by (induction xs) auto
  then show ?thesis by (simp add: write_all_def is_file_def)
qed

lemma write_all_okay: "fs_okay (write_all p c fs) = fs_okay fs"
proof -
  have "is_file (write_all p c fs) q = is_file fs q" for q by (simp add: is_file_def write_all_files)
  moreover have "is_dir (write_all p c fs) q = is_dir fs q" for q by (simp add: is_dir_def write_all_def)
  ultimately show ?thesis by (simp add: fs_okay_iff write_all_def)
qed

lemma copy_to_good:
  assumes "copy_to p (c, None) (fs, w) = (r, (fs', w'))"
  shows "store w' = store w \<and> (\<exists>d. fs' = write_all p d fs \<and> (r = Inr () \<longrightarrow> d = c))"
proof -
  obtain r0 fs0 w0 where 0: "os_fault (fs, w) = (r0, (fs0, w0))" by (metis prod_cases3)
  note st = os_fault_store [OF 0]
  show ?thesis using assms 0 st by (cases r0) (auto simp: copy_to_def bindE_def tryE_def)
qed

lemma FilesystemProvider_Upload_good:
  assumes okay: "fs_okay fs" and names: "simple_name h" "simple_name n"
    and run: "FilesystemProvider_Upload (h @ CHR ''/'' # n) (c, None) k t (fs, w) = (r, (fs', w'))"
  shows "fs_okay fs' \<and> store w' = store w \<and>
    (\<forall>q. q \<noteq> [h, n] \<longrightarrow> map_of (fs_files fs') q = map_of (fs_files fs) q) \<and>
    (r = Inr () \<longrightarrow> map_of (fs_files fs') [h, n] = Some c)"
proof -
  obtain r1 fs1 w1 where 1: "os_call ''failed to create directory'' (root_MkdirAll h) (fs, w) = (r1, (fs1, w1))"
    by (metis prod_cases3)
  from os_call_cases [OF 1] root_MkdirAll_good [OF names(1) okay]
  have okay1: "fs_okay fs1 \<and> fs_files fs1 = fs_files fs" "store w1 = store w" using okay by (metis, metis)
  note run = run [unfolded FilesystemProvider_Upload_def Let_def split_good(2) [OF names]]
  show ?thesis
  proof (cases r1)
    case (Inl e)
    with run 1 okay1 split_good(5,6) [OF names] show ?thesis by (auto simp: bindE_run_Inl)
  next
    case (Inr u)
    obtain r2 fs2 w2 where 2: "os_call ''failed to create file'' (root_Create (h @ CHR ''/'' # n)) (fs1, w1) = (r2, (fs2, w2))"
      by (metis prod_cases3)
    have okay2: "fs_okay fs2" "store w2 = store w1" "\<forall>q. q \<noteq> [h, n] \<longrightarrow> map_of (fs_files fs2) q = map_of (fs_files fs1) q"
      and r2: "\<And>p. r2 = Inr p \<Longrightarrow> p = [h, n] \<and> is_file fs2 p"
      using os_call_cases [OF 2] root_Create_good [OF names conjunct1 [OF okay1(1)]] okay1 by (auto split: sum.splits)
    show ?thesis
    proof (cases r2)
      case Inl2: (Inl e)
      with run Inr 1 2 okay1 okay2 split_good(5,6) [OF names] show ?thesis by (auto simp: bindE_def)
    next
      case Inr2: (Inr p)
      obtain r3 fs3 w3 where 3: "copy_to p (c, None) (fs2, w2) = (r3, (fs3, w3))" by (metis prod_cases3)
      from copy_to_good [OF 3] obtain d where d: "fs3 = write_all p d fs2" "r3 = Inr () \<longrightarrow> d = c" "store w3 = store w2" by blast
      have "mapErr (wrap ''failed to write file'') (copy_to p (c, None)) (fs2, w2) = (r, (fs', w'))"
        using run 1 2 split_good(5,6) [OF names] unfolding Inr Inr2 by (simp add: bindE_run_Inr)
      with 3 have "r3 = Inr () \<longleftrightarrow> r = Inr ()" "fs' = fs3" "w' = w3" by (auto simp: mapErr_def split: sum.splits)
      with d okay1 okay2 r2 [OF Inr2] show ?thesis by (auto simp: write_all_okay write_all_files)
    qed
  qed
qed

lemma root_Remove_okay:
  assumes "fs_okay fs" "root_Remove p fs = (r, fs')"
  shows "fs_okay fs'"
proof -
  consider "fs' = fs" | q where "fs' = fs\<lparr>fs_files := filter (\<lambda>(x, _). x \<noteq> q) (fs_files fs)\<rparr>"
    | q where "fs' = fs\<lparr>fs_dirs := filter (\<lambda>x. x \<noteq> q) (fs_dirs fs)\<rparr>"
        "\<not> list_ex (\<lambda>x. x \<noteq> [] \<and> butlast x = q) (fs_dirs fs @ map fst (fs_files fs))"
    using assms(2) by (auto simp: root_Remove_def split: sum.splits if_splits)
  then show ?thesis
  proof cases
    case 1
    with assms show ?thesis by simp
  next
    case 2
    with assms(1) show ?thesis by (auto simp: fs_okay_iff is_file_remove)
  next
    case (3 q)
    have "butlast x \<noteq> q" if "x \<noteq> []" "is_file fs x" for x
      using 3(2) that by (auto simp: list_ex_iff is_file_def map_of_eq_None_iff)
    with assms(1) 3(1) show ?thesis by (auto simp: fs_okay_iff is_dir_def)
  qed
qed

text \<open>Removing the file of a path, and then its directory.\<close>

lemma root_Remove_file:
  assumes "simple_name h" "simple_name n" "fs_okay fs" "root_Remove (h @ CHR ''/'' # n) fs = (r, fs')"
  shows "(\<forall>q. q \<noteq> [h, n] \<longrightarrow> map_of (fs_files fs') q = map_of (fs_files fs) q) \<and> (isl r \<longrightarrow> fs' = fs) \<and>
    (r = Inr () \<longrightarrow> \<not> is_file fs' [h, n] \<and> \<not> is_file fs [h])"
  using assms(3,4) split_good(4) [OF assms(1,2)] unfolding root_Remove_def root_path_good [OF assms(1,2)]
  by (auto simp: map_of_filter_key is_file_remove fs_okay_iff split: if_splits)

lemma root_Remove_dir:
  assumes "simple_name h" "\<not> is_file fs [h]" "root_Remove h fs = (r, fs')"
  shows "fs_files fs' = fs_files fs"
  using assms(2,3) unfolding root_Remove_def root_path_good(2) [OF assms(1,1)]
  by (auto split: if_splits)

lemma FilesystemProvider_Delete_good:
  assumes okay: "fs_okay fs" and names: "simple_name h" "simple_name n"
    and run: "FilesystemProvider_Delete (h @ CHR ''/'' # n) (fs, w) = (r, (fs', w'))"
  shows "fs_okay fs' \<and> store w' = store w \<and>
    (\<forall>q. q \<noteq> [h, n] \<longrightarrow> map_of (fs_files fs') q = map_of (fs_files fs) q) \<and>
    (r = Inr () \<longrightarrow> \<not> is_file fs' [h, n]) \<and> (fs' = fs \<or> \<not> is_file fs' [h, n])"
proof -
  obtain r1 fs1 w1 where 1: "os_call ''failed to delete file'' (root_Remove (h @ CHR ''/'' # n)) (fs, w) = (r1, (fs1, w1))"
    by (metis prod_cases3)
  note c1 = os_call_cases [OF 1]
  note run = run [unfolded FilesystemProvider_Delete_def Let_def split_good(2) [OF names]]
  show ?thesis
  proof (cases r1)
    case (Inl e)
    with c1 root_Remove_file [OF names okay] have "fs1 = fs" by auto
    with Inl c1 run 1 okay show ?thesis by (auto simp: bindE_run_Inl)
  next
    case (Inr u)
    with c1 have step: "root_Remove (h @ CHR ''/'' # n) fs = (Inr (), fs1)" "store w1 = store w" by auto
    note rm = root_Remove_file [OF names okay step(1)] root_Remove_okay [OF okay step(1)]
    from rm split_good(1) [OF names] have no: "\<not> is_file fs1 [h, n]" "\<not> is_file fs1 [h]" by (auto simp: is_file_def)
    obtain r2 fs2 w2 where 2: "os_call ''failed to remove dir'' (root_Remove h) (fs1, w1) = (r2, (fs2, w2))"
      by (metis prod_cases3)
    have okay2: "fs_okay fs2 \<and> fs_files fs2 = fs_files fs1 \<and> store w2 = store w1"
      using os_call_cases [OF 2] root_Remove_okay [OF rm(2)] root_Remove_dir [OF names(1) no(2)] rm(2) by metis
    have "r = r2" "fs' = fs2" "w' = w2" using run Inr 1 2 split_good(5,6) [OF names] by (simp_all add: bindE_def)
    with okay2 rm no step show ?thesis by (simp add: is_file_def)
  qed
qed

lemma FilesystemProvider_Delete_missing:
  assumes "fs_okay fs" "simple_name h" "simple_name n" "\<not> is_file fs [h, n]"
    "FilesystemProvider_Delete (h @ CHR ''/'' # n) (fs, w) = (r, (fs', w'))"
  shows "fs' = fs \<and> isl r"
proof -
  have "[h, n] \<notin> set (fs_dirs fs)" using assms(1) by (fastforce simp: fs_okay_iff)
  then have none: "\<exists>e. root_Remove (h @ CHR ''/'' # n) fs = (Inl e, fs)"
    using assms(4) unfolding root_Remove_def root_path_good [OF assms(2,3)] by (simp add: is_dir_def)
  obtain r1 fs1 w1 where 1: "os_call ''failed to delete file'' (root_Remove (h @ CHR ''/'' # n)) (fs, w) = (r1, (fs1, w1))"
    by (metis prod_cases3)
  from os_call_cases [OF 1] none obtain e where "r1 = Inl e" "fs1 = fs" by (auto simp: isl_def)
  with 1 assms(5) show ?thesis by (auto simp: FilesystemProvider_Delete_def bindE_run_Inl)
qed

lemma FilesystemProvider_Download_good:
  assumes "fs_okay fs" "simple_name h" "simple_name n" "map_of (fs_files fs) [h, n] = Some c" "faults w = []"
  shows "fst (FilesystemProvider_Download (h @ CHR ''/'' # n) (fs, w)) = Inr (c, None)"
proof -
  have "is_dir fs [h]" "\<not> is_dir fs [h, n]" using assms(1,4) by (auto simp: fs_okay_iff is_file_def)
  then have "root_Open (h @ CHR ''/'' # n) fs = Inr (c, None)"
    using assms(4) split_good(4) [OF assms(2,3)] unfolding root_Open_def root_path_good [OF assms(2,3)] by simp
  with assms(5) show ?thesis
    by (simp add: FilesystemProvider_Download_def os_fault_def inWorld_def driver_def next_fault_def bindE_def mapErr_def)
qed

interpretation disk: strict_store FilesystemProvider fs_blob good_path fs_okay
proof unfold_locales
  fix fs p c n t w r fs' w'
  assume "fs_okay fs" "good_path p" and run: "pv_Upload FilesystemProvider p (c, None) n t (fs, w) = (r, (fs', w'))"
  then obtain h m where names: "simple_name h" "simple_name m" "p = h @ CHR ''/'' # m" by (auto simp: good_path_def)
  have "q \<noteq> p \<Longrightarrow> good_path q \<Longrightarrow> split_slash q \<noteq> [h, m]" for q
    using names by (auto simp: good_path_def split_good)
  with FilesystemProvider_Upload_good [OF \<open>fs_okay fs\<close> names(1,2), of c n t w r fs' w'] run names split_good(1) [OF names(1,2)]
  show "fs_okay fs' \<and> store w' = store w \<and> (\<forall>q. good_path q \<and> q \<noteq> p \<longrightarrow> fs_blob fs' q = fs_blob fs q) \<and>
      (case r of Inl _ \<Rightarrow> True | Inr _ \<Rightarrow> fs_blob fs' p = Some c)"
    by (auto simp: FilesystemProvider_def fs_blob_def split: sum.splits)
next
  fix fs p w r fs' w'
  assume "fs_okay fs" "good_path p" and run: "pv_Delete FilesystemProvider p (fs, w) = (r, (fs', w'))"
  then obtain h m where names: "simple_name h" "simple_name m" "p = h @ CHR ''/'' # m" by (auto simp: good_path_def)
  have other: "q \<noteq> p \<Longrightarrow> good_path q \<Longrightarrow> split_slash q \<noteq> [h, m]" for q
    using names by (auto simp: good_path_def split_good)
  note del = FilesystemProvider_Delete_good [OF \<open>fs_okay fs\<close> names(1,2), of w r fs' w']
  show "fs_okay fs' \<and> store w' = store w \<and> (\<forall>q. good_path q \<and> q \<noteq> p \<longrightarrow> fs_blob fs' q = fs_blob fs q) \<and>
      (case r of Inl _ \<Rightarrow> fs_blob fs' p = fs_blob fs p \<or> fs_blob fs' p = None | Inr _ \<Rightarrow> fs_blob fs' p = None)"
    using del run names other split_good(1) [OF names(1,2)]
    by (auto simp: FilesystemProvider_def fs_blob_def is_file_def split: sum.splits)
  show "fs' = fs \<and> isl r" if "fs_blob fs p = None"
    using FilesystemProvider_Delete_missing [OF \<open>fs_okay fs\<close> names(1,2), of w r fs' w'] run names that
      split_good(1) [OF names(1,2)]
    by (simp add: FilesystemProvider_def fs_blob_def is_file_def)
next
  fix fs :: filesystem and p c and w :: world
  assume "fs_okay fs" "good_path p" "fs_blob fs p = Some c" "faults w = []"
  then show "fst (pv_Download FilesystemProvider p (fs, w)) = Inr (c, None)"
    using FilesystemProvider_Download_good by (auto simp: good_path_def fs_blob_def FilesystemProvider_def split_good)
qed

section \<open>Uploads\<close>

lemma filepath_Join_simple:
  assumes "simple_name h" "simple_name n"
  shows "filepath_Join [h, n] = h @ CHR ''/'' # n"
proof -
  have "clean_parts False [] [h, n] = [h, n]" using assms by (auto simp: simple_name_def)
  with assms split_good(1,3) [OF assms] show ?thesis
    by (auto simp: filepath_Join_def filepath_Clean_def simple_name_def Let_def)
qed

lemma FileRepository_Create_Inr:
  assumes "FileRepository_Create f w = (Inr g, w')"
  obtains row where "store w' = (store w)\<lparr>files := files (store w) @ [row]\<rparr>" "toEntityFile row = g"
    "g = f\<lparr>file_ID := files_id row, file_CreatedAt := files_created_at row\<rparr>"
proof -
  have keep: "store (snd (id_or_new i w)) = store w" "store (snd (time_or_now j w)) = store w" for i j w
    by (simp_all add: id_or_new_def time_or_now_def uuid_New_def nowE_def)
  from assms [unfolded FileRepository_Create_def bindE_Inr_iff mapErr_Inr_iff returnE_apply prod.inject sum.inject] obtain ID w0 t w1 u where
    run: "id_or_new (file_ID f) w = (Inr ID, w0)" "time_or_now (file_CreatedAt f) w0 = (Inr t, w1)" and
    q: "sql (sqlc_CreateFile \<lparr>files_id = ID, files_type = file_Type f,
        files_challenge_id = file_ChallengeID f, files_location = file_Location f, files_filename = file_Filename f,
        files_size = file_Size f, files_sha256 = file_SHA256 f, files_created_at = t\<rparr>) w1 = (Inr u, w')"
    "f\<lparr>file_ID := ID, file_CreatedAt := t\<rparr> = g" by blast
  have w1: "store w1 = store w" using keep(1) [of "file_ID f" w] keep(2) [of "file_CreatedAt f" w0] run by simp
  let ?row = "\<lparr>files_id = ID, files_type = file_Type f,
        files_challenge_id = file_ChallengeID f, files_location = file_Location f, files_filename = file_Filename f,
        files_size = file_Size f, files_sha256 = file_SHA256 f, files_created_at = t\<rparr>"
  from q(1) w1 have "store w' = (store w)\<lparr>files := files (store w) @ [?row]\<rparr>"
    by (auto simp: sql_Inr_iff sqlc_CreateFile_def split: if_splits)
  with q(2) show thesis by (intro that [of ?row]) (auto simp: toEntityFile_def)
qed

lemma FileRepository_Create_Inl: "FileRepository_Create f w = (Inl e, w') \<Longrightarrow> store w' = store w"
  by (auto simp: FileRepository_Create_def bindE_Inl_iff mapErr_Inl_iff id_or_new_def time_or_now_def uuid_New_def nowE_def
      dest!: sql_Inl_store split: if_splits)

lemma temp_call_store: "temp_call msg (ob, w) = (r, (ob', w')) \<Longrightarrow> ob' = ob \<and> store w' = store w"
  by (auto simp: temp_call_def inWorld_def driver_def use_fault_def mapErr_def split: prod.splits sum.splits if_splits)

text \<open>What an upload does once the path is chosen, and what it did before.\<close>

definition upload_at :: "'ob file_uc \<Rightarrow> uuid \<Rightarrow> string \<Rightarrow> string \<Rightarrow> string \<Rightarrow> int \<Rightarrow> string \<Rightarrow> string \<Rightarrow> ('ob, file_info) obj_op" where
  "upload_at uc cid typ name c n ct path =
     bindE (mapErr (wrap ''FileUseCase - Upload - Storage'') (pv_Upload (fu_storage uc) path (c, None) n ct)) (\<lambda>_.
     bindE (inWorld nowE) (\<lambda>now.
     bindE (tryE (inWorld (FileRepository_Create \<lparr>file_ID = 0, file_Type = typ, file_ChallengeID = cid, file_Location = path,
           file_Filename = name, file_Size = n, file_SHA256 = fu_sha256 uc c, file_CreatedAt = now\<rparr>))) (\<lambda>r. case r of
         Inr created \<Rightarrow> returnE created
       | Inl err \<Rightarrow> bindE (tryE (pv_Delete (fu_storage uc) path)) (\<lambda>del. case del of
             Inl delErr \<Rightarrow> throwE (Wrapf2 ''FileUseCase - Upload - Create: '' err '', cleanup delete: '' delErr)
           | Inr _ \<Rightarrow> throwE (wrap ''FileUseCase - Upload - Create'' err)))))"

definition storage_path :: "'ob file_uc \<Rightarrow> string \<Rightarrow> time \<Rightarrow> string" where
  "storage_path uc name t = filepath_Join [take 16 (fu_sha256 uc (fu_nanos uc t @ ''-'' @ filepath_Base name)), filepath_Base name]"

lemma File_Upload_cases:
  assumes "File_Upload uc cid typ name rd n ct (ob, w) = (r, (ob', w'))"
  shows "(isl r \<and> ob' = ob \<and> store w' = store w) \<or>
    (\<exists>t w1. store w1 = store w \<and> upload_at uc cid typ name (fst rd) n ct (storage_path uc name t) (ob, w1) = (r, (ob', w')))"
proof -
  have head: "(isl r \<and> ob' = ob \<and> store w' = store w) \<or> (\<exists>w1. store w1 = store w \<and> k (ob, w1) = (r, (ob', w')))"
    if "bindE (temp_call msg) (\<lambda>_. k) (ob, w) = (r, (ob', w'))" for msg and k :: "('a, file_info) obj_op" and w
  proof -
    obtain r1 ob1 w1 where 1: "temp_call msg (ob, w) = (r1, (ob1, w1))" by (metis prod_cases3)
    from temp_call_store [OF 1] that 1 show ?thesis by (cases r1) (auto simp: bindE_def)
  qed
  let ?k3 = "bindE (inWorld (GenerateStoragePath (fu_sha256 uc) (fu_nanos uc) name)) (upload_at uc cid typ name (fst rd) n ct)"
  let ?k2 = "bindE (case snd rd of None \<Rightarrow> returnE () | Some e \<Rightarrow> throwE (wrap ''FileUseCase - Upload - Copy'' e))
     (\<lambda>_. bindE (temp_call ''FileUseCase - Upload - Seek'') (\<lambda>_. ?k3))"
  have k3: "\<exists>t w2. store w2 = store w1 \<and> upload_at uc cid typ name (fst rd) n ct (storage_path uc name t) (ob, w2) = (r, (ob', w'))"
    if "?k3 (ob, w1) = (r, (ob', w'))" for w1
    using that by (auto simp: GenerateStoragePath_def inWorld_def bindE_def nowE_def Let_def storage_path_def
        intro!: exI [of _ "clock w1"] exI [of _ "snd (nowE w1)"])
  have k2: "(isl r \<and> ob' = ob \<and> store w' = store w1) \<or> (\<exists>w2. store w2 = store w1 \<and> ?k3 (ob, w2) = (r, (ob', w')))"
    if "?k2 (ob, w1) = (r, (ob', w'))" for w1
    using that head [of "''FileUseCase - Upload - Seek''" ?k3 w1] by (cases "snd rd") auto
  have "bindE (temp_call ''FileUseCase - Upload - CreateTemp'') (\<lambda>_. bindE (temp_call ''FileUseCase - Upload - Copy'') (\<lambda>_. ?k2)) (ob, w)
      = (r, (ob', w'))"
    using assms unfolding File_Upload_def upload_at_def Let_def .
  from head [OF this] show ?thesis
  proof (elim disjE exE conjE)
    fix w1 assume 1: "store w1 = store w" "bindE (temp_call ''FileUseCase - Upload - Copy'') (\<lambda>_. ?k2) (ob, w1) = (r, (ob', w'))"
    from head [OF 1(2)] show ?thesis
    proof (elim disjE exE conjE)
      fix w2 assume 2: "store w2 = store w1" "?k2 (ob, w2) = (r, (ob', w'))"
      from k2 [OF 2(2)] show ?thesis
      proof (elim disjE exE conjE)
        fix w3 assume 3: "store w3 = store w2" "?k3 (ob, w3) = (r, (ob', w'))"
        from k3 [OF 3(2)] 1(1) 2(1) 3(1) show ?thesis by auto
      qed (use 1(1) 2(1) in auto)
    qed (use 1(1) in auto)
  qed blast
qed

context blob_store
begin

lemma upload_effect:
  assumes okay: "okay ob" and paths: "\<And>t. good (storage_path uc name t)"
    and uc: "fu_storage uc = pv" and run: "File_Upload uc cid typ name rd n ct (ob, w) = (r, (ob', w'))"
  shows "okay ob' \<and> (case r of Inl _ \<Rightarrow> store w' = store w
    | Inr f \<Rightarrow> good (file_Location f) \<and> blob ob' (file_Location f) = Some (fst rd) \<and> file_SHA256 f = fu_sha256 uc (fst rd) \<and>
        file_ChallengeID f = cid \<and> file_Type f = typ \<and> file_Filename f = name \<and> file_Size f = n \<and>
        (\<forall>q. good q \<and> q \<noteq> file_Location f \<longrightarrow> blob ob' q = blob ob q) \<and>
        (\<exists>row. store w' = (store w)\<lparr>files := files (store w) @ [row]\<rparr> \<and> toEntityFile row = f))"
  using File_Upload_cases [OF run]
proof (elim disjE exE conjE)
  assume "isl r" "ob' = ob" "store w' = store w"
  with okay show ?thesis by (auto simp: isl_def)
next
  fix t w1
  let ?p = "storage_path uc name t"
  assume w1: "store w1 = store w" and tail: "upload_at uc cid typ name (fst rd) n ct ?p (ob, w1) = (r, (ob', w'))"
  obtain r2 ob2 w2 where 2: "pv_Upload pv ?p (fst rd, None) n ct (ob, w1) = (r2, (ob2, w2))" by (metis prod_cases3)
  note up = upload [OF okay paths 2]
  show ?thesis
  proof (cases r2)
    case (Inl e)
    with tail 2 up w1 show ?thesis by (auto simp: upload_at_def uc bindE_def mapErr_def)
  next
    case (Inr u)
    let ?f = "\<lparr>file_ID = 0, file_Type = typ, file_ChallengeID = cid, file_Location = ?p,
           file_Filename = name, file_Size = n, file_SHA256 = fu_sha256 uc (fst rd), file_CreatedAt = clock w2\<rparr>"
    obtain r3 w3 where 3: "FileRepository_Create ?f (snd (nowE w2)) = (r3, w3)" by (metis surj_pair)
    have here: "upload_at uc cid typ name (fst rd) n ct ?p (ob, w1) = (case r3 of
         Inl err \<Rightarrow> (case pv_Delete pv ?p (ob2, w3) of
             (Inl delErr, s') \<Rightarrow> (Inl (Wrapf2 ''FileUseCase - Upload - Create: '' err '', cleanup delete: '' delErr), s')
           | (Inr _, s') \<Rightarrow> (Inl (wrap ''FileUseCase - Upload - Create'' err), s'))
       | Inr created \<Rightarrow> (Inr created, (ob2, w3)))"
      using 2 3 Inr by (cases r3) (simp_all add: upload_at_def uc bindE_def mapErr_def inWorld_def tryE_def nowE_def
          split: prod.splits sum.splits)
    have now: "store (snd (nowE w2)) = store w2" by (simp add: nowE_def)
    show ?thesis
    proof (cases r3)
      case Inl3: (Inl e)
      obtain r4 ob4 w4 where 4: "pv_Delete pv ?p (ob2, w3) = (r4, (ob4, w4))" by (metis prod_cases3)
      from tail here 4 Inl3 have "isl r" "ob' = ob4" "w' = w4" by (auto split: sum.splits)
      with delete [OF conjunct1 [OF up] paths 4] up w1 now FileRepository_Create_Inl [OF 3 [unfolded Inl3]]
      show ?thesis by (auto simp: isl_def)
    next
      case Inr3: (Inr f)
      with tail here have r: "r = Inr f" "ob' = ob2" "w' = w3" by simp_all
      from FileRepository_Create_Inr [OF 3 [unfolded Inr3]] obtain row where
        "store w3 = (store w)\<lparr>files := files (store w) @ [row]\<rparr>" "toEntityFile row = f"
        "f = ?f\<lparr>file_ID := files_id row, file_CreatedAt := files_created_at row\<rparr>"
        using up w1 now by metis
      with up paths [of t] Inr show ?thesis unfolding r by auto
    qed
  qed
qed

end

text \<open>C33 What was uploaded is what is downloaded: a successful upload records one row with the digest of the content, its
  location then yields exactly the content, and no other file is touched; an upload that fails records nothing.\<close>

theorem Upload_Download:
  assumes okay: "fs_okay fs" and digest: "\<forall>s. simple_name (take 16 (fu_sha256 uc s))" "simple_name (filepath_Base name)"
    and uc: "fu_storage uc = FilesystemProvider"
    and run: "File_Upload uc cid typ name rd n ct (fs, w) = (r, (fs', w'))"
  shows "case r of Inl _ \<Rightarrow> store w' = store w
    | Inr f \<Rightarrow> (\<exists>row. store w' = (store w)\<lparr>files := files (store w) @ [row]\<rparr> \<and> toEntityFile row = f) \<and>
        file_SHA256 f = fu_sha256 uc (fst rd) \<and> file_ChallengeID f = cid \<and> file_Type f = typ \<and> file_Filename f = name \<and>
        (\<forall>w2. faults w2 = [] \<longrightarrow> fst (File_Download uc (file_Location f) (fs', w2)) = Inr (fst rd, None)) \<and>
        (\<forall>q. good_path q \<and> q \<noteq> file_Location f \<longrightarrow> fs_blob fs' q = fs_blob fs q)"
proof -
  have "good_path (storage_path uc name t)" for t
    using digest by (auto simp: good_path_def storage_path_def filepath_Join_simple)
  from disk.upload_effect [OF okay this uc run] show ?thesis
    by (cases r) (auto simp: File_Download_def uc disk.download)
qed

definition demo_files :: "filesystem file_uc" where
  "demo_files = \<lparr>fu_storage = FilesystemProvider, fu_expiry = 60, fu_sha256 = \<lambda>_. ''0123456789abcdef0123'',
     fu_nanos = \<lambda>_. ''17''\<rparr>"

definition demo_disk :: filesystem where
  "demo_disk = \<lparr>fs_dirs = [], fs_files = [], fs_short = 0\<rparr>"

definition demo_uploaded :: "(goerr + file_info) \<times> filesystem \<times> world" where
  "demo_uploaded = File_Upload demo_files 31 FileTypeChallenge ''a.zip'' (''PK'', None) 2 ''application/zip'' (demo_disk, demo_world)"

lemma demo_uploaded_run:
  "map_sum (\<lambda>_. ()) file_Location (fst demo_uploaded) = Inr ''0123456789abcdef/a.zip''"
  "length (files (store (snd (snd demo_uploaded)))) = 1"
  by code_simp+

lemma demo_files_ok: "fs_okay demo_disk" "simple_name (take 16 (fu_sha256 demo_files s))" "simple_name (filepath_Base ''a.zip'')"
  "fu_storage demo_files = FilesystemProvider"
  by (simp_all add: fs_okay_def demo_disk_def simple_name_def demo_files_def) code_simp

theorem Upload_Download_witness:
  "\<exists>f. fst demo_uploaded = Inr f \<and> file_Location f = ''0123456789abcdef/a.zip'' \<and>
    fst (File_Download demo_files (file_Location f) (fst (snd demo_uploaded), demo_world)) = Inr (''PK'', None)"
proof -
  obtain r fs' w' where run: "demo_uploaded = (r, (fs', w'))" by (metis prod_cases3)
  note up = Upload_Download [OF demo_files_ok(1) allI [OF demo_files_ok(2)] demo_files_ok(3,4) run [unfolded demo_uploaded_def]]
  have "faults demo_world = []" by (simp add: demo_world_def world_of_def)
  with up demo_uploaded_run(1) show ?thesis unfolding run by (cases r) auto
qed

section \<open>Deletions\<close>

lemma FileRepository_GetByID_cases:
  assumes "FileRepository_GetByID k w = (r, w')" "filter (\<lambda>f. files_id f = k) (files (store w)) = [row]"
  shows "store w' = store w \<and> (\<forall>f. r = Inr f \<longrightarrow> f = toEntityFile row)"
  using assms by (cases r) (auto simp: FileRepository_GetByID_def bindE_Inr_iff bindE_Inl_iff mapErr_Inl_iff sql_Inr_iff
      sqlc_GetFileByID_def select_one_def dest!: sql_Inl_store)

lemma FileRepository_Delete_cases:
  assumes "FileRepository_Delete k w = (r, w')"
  shows "store w' = (case r of Inl _ \<Rightarrow> store w | Inr _ \<Rightarrow> (store w)\<lparr>files := del_where (\<lambda>f. files_id f = k) (files (store w))\<rparr>)"
  using assms by (cases r) (auto simp: FileRepository_Delete_def bindE_Inr_iff bindE_Inl_iff mapErr_Inl_iff sql_Inr_iff
      sqlc_DeleteFile_def dest!: sql_Inl_store split: if_splits)

context blob_store
begin

lemma delete_effect:
  assumes okay: "okay ob" and good: "good (files_location row)" and uc: "fu_storage uc = pv"
    and row: "filter (\<lambda>f. files_id f = k) (files (store w)) = [row]" and run: "File_Delete uc k (ob, w) = (r, (ob', w'))"
  shows "okay ob' \<and> (case r of Inl _ \<Rightarrow> store w' = store w
    | Inr _ \<Rightarrow> store w' = (store w)\<lparr>files := del_where (\<lambda>f. files_id f = k) (files (store w))\<rparr> \<and> blob ob' (files_location row) = None)"
proof -
  obtain r1 w1 where 1: "FileRepository_GetByID k w = (r1, w1)" by (metis surj_pair)
  note get = FileRepository_GetByID_cases [OF 1 row]
  show ?thesis
  proof (cases r1)
    case (Inl e)
    with 1 get run okay show ?thesis by (auto simp: File_Delete_def inWorld_def bindE_def mapErr_def)
  next
    case (Inr f)
    with get have f: "file_Location f = files_location row" by (simp add: toEntityFile_def)
    obtain r2 ob2 w2 where 2: "pv_Delete pv (files_location row) (ob, w1) = (r2, (ob2, w2))" by (metis prod_cases3)
    note del = delete [OF okay good 2]
    obtain r3 w3 where 3: "FileRepository_Delete k w2 = (r3, w3)" by (metis surj_pair)
    show ?thesis using run 1 2 3 f del get FileRepository_Delete_cases [OF 3] Inr
      by (cases r2; cases r3) (auto simp: File_Delete_def uc inWorld_def bindE_def mapErr_def)
  qed
qed

end

context strict_store
begin

lemma delete_stuck:
  assumes okay: "okay ob" and good: "good (files_location row)" and uc: "fu_storage uc = pv"
    and row: "filter (\<lambda>f. files_id f = k) (files (store w)) = [row]" and gone: "blob ob (files_location row) = None"
  shows "\<exists>e w'. File_Delete uc k (ob, w) = (Inl e, (ob, w')) \<and> store w' = store w"
proof -
  obtain r1 w1 where 1: "FileRepository_GetByID k w = (r1, w1)" by (metis surj_pair)
  from FileRepository_GetByID_cases [OF 1 row]
  have w1: "store w1 = store w" and f: "r1 = Inr f \<Longrightarrow> file_Location f = files_location row" for f
    by (auto simp: toEntityFile_def)
  show ?thesis
  proof (cases r1)
    case (Inl e)
    with 1 w1 show ?thesis by (simp add: File_Delete_def inWorld_def bindE_def mapErr_def)
  next
    case (Inr x)
    obtain r2 ob2 w2 where 2: "pv_Delete pv (files_location row) (ob, w1) = (r2, (ob2, w2))" by (metis prod_cases3)
    from delete_missing [OF okay good gone 2] obtain e where "r2 = Inl e" "ob2 = ob" by (auto simp: isl_def)
    with 1 2 Inr f [OF Inr] w1 conjunct1 [OF conjunct2 [OF delete [OF okay good 2]]] show ?thesis
      by (simp add: File_Delete_def uc inWorld_def bindE_def mapErr_def)
  qed
qed

end

text \<open>\<open>Delete\<close> removes the content before the row: when the row then cannot be removed, every later \<open>Delete\<close> of the file
  fails because there is no content to remove, and the file stays listed for ever.\<close>

theorem Delete_never_completes:
  assumes "fs_okay fs" "fu_storage uc = FilesystemProvider" "good_path (files_location row)"
    "filter (\<lambda>f. files_id f = k) (files (store w)) = [row]"
    and "File_Delete uc k (fs, w) = (Inl e, (fs', w'))" "fs_blob fs' (files_location row) = None"
    and "store w2 = store w'"
  shows "store w' = store w \<and> (\<exists>e2 w3. File_Delete uc k (fs', w2) = (Inl e2, (fs', w3)) \<and> row \<in> set (files (store w3)))"
proof -
  have first: "store w' = store w \<and> fs_okay fs'"
    using disk.delete_effect [OF assms(1,3,2,4,5)] by simp
  moreover have "row \<in> set (files (store w))" using arg_cong [OF assms(4), of set] by auto
  ultimately show ?thesis using disk.delete_stuck [of fs' row uc k w2] assms first by auto
qed

definition demo_row :: files_row where
  "demo_row = \<lparr>files_id = 71, files_type = FileTypeChallenge, files_challenge_id = 31,
     files_location = ''0123456789abcdef/a.zip'', files_filename = ''a.zip'', files_size = 2,
     files_sha256 = ''0123456789abcdef0123'', files_created_at = 1\<rparr>"

definition demo_full :: filesystem where
  "demo_full = \<lparr>fs_dirs = [[''0123456789abcdef'']], fs_files = [([''0123456789abcdef'', ''a.zip''], ''PK'')], fs_short = 0\<rparr>"

text \<open>The database is lost between the third and the fourth call of the deletion.\<close>

definition demo_broken :: "(goerr + unit) \<times> filesystem \<times> world" where
  "demo_broken = File_Delete demo_files 71 (demo_full,
     demo_world\<lparr>store := demo_db\<lparr>files := [demo_row]\<rparr>, faults := [False, False, False, True]\<rparr>)"

lemma demo_broken_run: "isl (fst demo_broken)" "fs_files (fst (snd demo_broken)) = []"
    "files (store (snd (snd demo_broken))) = [demo_row]" "faults (snd (snd demo_broken)) = []"
  by code_simp+

theorem Delete_never_completes_witness:
  "isl (fst demo_broken) \<and> faults (snd (snd demo_broken)) = [] \<and> isl (fst (File_Delete demo_files 71 (snd demo_broken)))"
proof -
  let ?w = "demo_world\<lparr>store := demo_db\<lparr>files := [demo_row]\<rparr>, faults := [False, False, False, True]\<rparr>"
  obtain r fs' w' where run: "File_Delete demo_files 71 (demo_full, ?w) = (r, (fs', w'))" by (metis prod_cases3)
  then have b: "demo_broken = (r, (fs', w'))" by (simp add: demo_broken_def)
  from demo_broken_run [unfolded b] obtain e where e: "r = Inl e" "fs_files fs' = []" by (auto simp: isl_def)
  have "fs_okay demo_full" by code_simp
  moreover have "good_path (files_location demo_row)"
    unfolding good_path_def by (rule exI [of _ "''0123456789abcdef''"], rule exI [of _ "''a.zip''"]) code_simp
  moreover have "filter (\<lambda>f. files_id f = 71) (files (store ?w)) = [demo_row]" by (simp add: demo_row_def)
  moreover have "fs_blob fs' (files_location demo_row) = None" using e by (simp add: fs_blob_def)
  ultimately have "\<exists>e2 w3. File_Delete demo_files 71 (fs', w') = (Inl e2, (fs', w3)) \<and> demo_row \<in> set (files (store w3))"
    using Delete_never_completes [OF _ demo_files_ok(4) _ _ run [unfolded e(1)], of demo_row w'] by blast
  with demo_broken_run show ?thesis unfolding b by auto
qed

section \<open>A bucket keeps it\<close>

text \<open>
  What the service promises of one bucket, under every name: an object that was put is there as it was put, a call on one
  object leaves the others alone, and nothing of it touches the database. A call
  that fails may have had its effect.
\<close>

definition s3_ok :: "'ob s3_client \<Rightarrow> string \<Rightarrow> ('ob \<Rightarrow> string \<Rightarrow> string option) \<Rightarrow> bool" where
  "s3_ok client bucket obj \<longleftrightarrow>
     (\<forall>p c n t ob w r ob' w'. s3_PutObject client bucket p (c, None) n t (ob, w) = (r, (ob', w')) \<longrightarrow>
        store w' = store w \<and> (\<forall>q. q \<noteq> p \<longrightarrow> obj ob' q = obj ob q) \<and> (\<not> isl r \<longrightarrow> obj ob' p = Some c)) \<and>
     (\<forall>p ob w r ob' w'. s3_RemoveObject client bucket p (ob, w) = (r, (ob', w')) \<longrightarrow>
        store w' = store w \<and> (\<forall>q. q \<noteq> p \<longrightarrow> obj ob' q = obj ob q) \<and>
        (if isl r then obj ob' p = obj ob p \<or> obj ob' p = None else obj ob' p = None)) \<and>
     (\<forall>p c ob w. obj ob p = Some c \<and> faults w = [] \<longrightarrow>
        (\<exists>ob' w'. s3_GetObject client bucket p (ob, w) = (Inr (c, None), (ob', w')) \<and> \<not> isl (fst (s3_Stat client bucket p (ob', w')))))"

lemma s3_put:
  assumes "s3_ok client bucket obj" "s3_PutObject client bucket p (c, None) n t (ob, w) = (r, (ob', w'))"
  shows "store w' = store w" "q \<noteq> p \<Longrightarrow> obj ob' q = obj ob q" "\<not> isl r \<Longrightarrow> obj ob' p = Some c"
  using assms unfolding s3_ok_def by metis+

lemma s3_remove:
  assumes "s3_ok client bucket obj" "s3_RemoveObject client bucket p (ob, w) = (r, (ob', w'))"
  shows "store w' = store w" "q \<noteq> p \<Longrightarrow> obj ob' q = obj ob q" "isl r \<Longrightarrow> obj ob' p = obj ob p \<or> obj ob' p = None"
    "\<not> isl r \<Longrightarrow> obj ob' p = None"
  using assms unfolding s3_ok_def by metis+

text \<open>So the provider over a bucket meets the contract of files and backups.\<close>

lemma S3_blob_store:
  assumes "s3_ok (sp_client p) (sp_bucket p) obj"
  shows "blob_store (S3Provider p) obj (\<lambda>_. True) (\<lambda>_. True)"
proof
  fix ob q c n t w r ob' w'
  assume "pv_Upload (S3Provider p) q (c, None) n t (ob, w) = (r, (ob', w'))"
  then obtain r0 where "s3_PutObject (sp_client p) (sp_bucket p) q (c, None) n t (ob, w) = (r0, (ob', w'))" "isl r0 = isl r"
    by (auto simp: S3Provider_def S3Provider_Upload_def mapErr_def split: prod.splits sum.splits)
  with s3_put [OF assms this(1)] show "True \<and> store w' = store w \<and> (\<forall>x. True \<and> x \<noteq> q \<longrightarrow> obj ob' x = obj ob x) \<and>
      (case r of Inr _ \<Rightarrow> obj ob' q = Some c | Inl _ \<Rightarrow> True)"
    by (cases r) auto
next
  fix ob q w r ob' w'
  assume "pv_Delete (S3Provider p) q (ob, w) = (r, (ob', w'))"
  then obtain r0 where "s3_RemoveObject (sp_client p) (sp_bucket p) q (ob, w) = (r0, (ob', w'))" "isl r0 = isl r"
    by (auto simp: S3Provider_def S3Provider_Delete_def mapErr_def split: prod.splits sum.splits)
  with s3_remove [OF assms this(1)] show "True \<and> store w' = store w \<and> (\<forall>x. True \<and> x \<noteq> q \<longrightarrow> obj ob' x = obj ob x) \<and>
      (case r of Inr _ \<Rightarrow> obj ob' q = None | Inl _ \<Rightarrow> obj ob' q = obj ob q \<or> obj ob' q = None)"
    by (cases r) auto
next
  fix ob q c and w :: world
  assume "obj ob q = Some c" "faults w = []"
  with assms obtain ob' w' where "s3_GetObject (sp_client p) (sp_bucket p) q (ob, w) = (Inr (c, None), (ob', w'))"
    "\<not> isl (fst (s3_Stat (sp_client p) (sp_bucket p) q (ob', w')))" unfolding s3_ok_def by metis
  then show "fst (pv_Download (S3Provider p) q (ob, w)) = Inr (c, None)"
    by (auto simp: S3Provider_def S3Provider_Download_def mapErr_def bindE_def returnE_def isl_def split: prod.splits sum.splits)
qed

text \<open>Upload followed by download over a bucket, for any name, whatever fails on the way.\<close>

lemma S3_Upload_Download:
  assumes s3: "s3_ok (sp_client p) (sp_bucket p) obj" and uc: "fu_storage uc = S3Provider p"
    and run: "File_Upload uc cid typ name rd n ct (ob, w) = (r, (ob', w'))"
  shows "case r of Inl _ \<Rightarrow> store w' = store w
    | Inr f \<Rightarrow> file_SHA256 f = fu_sha256 uc (fst rd) \<and> length (files (store w')) = Suc (length (files (store w))) \<and>
        (\<forall>w2. faults w2 = [] \<longrightarrow> fst (File_Download uc (file_Location f) (ob', w2)) = Inr (fst rd, None)) \<and>
        (\<forall>q. q \<noteq> file_Location f \<longrightarrow> obj ob' q = obj ob q)"
proof -
  note store = S3_blob_store [OF s3]
  from blob_store.upload_effect [OF store TrueI TrueI uc run] show ?thesis
    by (cases r) (auto simp: File_Download_def uc blob_store.download [OF store])
qed

text \<open>A service that never fails keeps what \<open>s3_ok\<close> asks for.\<close>

definition demo_s3 :: "(string \<Rightarrow> string option) s3_client" where
  "demo_s3 = \<lparr>s3_BucketExists = (\<lambda>_. returnE True), s3_MakeBucket = (\<lambda>_. returnE ()),
     s3_PutObject = (\<lambda>_ p r _ _. setObj (\<lambda>m. m(p \<mapsto> fst r))),
     s3_GetObject = (\<lambda>_ p. bindE getObj (\<lambda>m. returnE (case m p of None \<Rightarrow> '''' | Some c \<Rightarrow> c, None))),
     s3_Stat = (\<lambda>_ p. bindE getObj (\<lambda>m. if m p = None then throwE (Plain ''no such key'') else returnE ())),
     s3_RemoveObject = (\<lambda>_ p. setObj (\<lambda>m. m(p := None))),
     s3_PresignedGetObject = (\<lambda>_ p _. returnE \<lparr>url_Scheme = ''http'', url_Host = ''s3'', url_Rest = p\<rparr>),
     s3_url_Parse = (\<lambda>_. Inl (Plain ''url'')), s3_url_String = (\<lambda>u. url_Scheme u @ ''://'' @ url_Host u @ ''/'' @ url_Rest u)\<rparr>"

lemma demo_s3_ok: "s3_ok demo_s3 bucket (\<lambda>m. m)"
  by (auto simp: s3_ok_def demo_s3_def bindE_def asksE_def returnE_def)

end
