(* ===== verification/CTF_Backup.thy ===== *)
theory CTF_Backup
  imports CTF_Files CTF_ScoreRepo CTF_Competition "HOL-Library.AList"
begin

text \<open>
  Backup: the structs of \<open>entity/backup.go\<close>, the statements of \<open>BackupRepo\<close>, and \<open>BackupUseCase\<close> with its export to
  and import from an archive. An archive is its list of entries; \<open>json\<close> encodes and decodes the data. The parts of an
  export, which the code reads concurrently, are read one after the other; the uploads of an import run in an order that is a
  parameter. A client that goes away while an archive is written is not modelled.
\<close>

section \<open>Data\<close>

record challenge_export =
  cexp_Challenge :: challenge
  cexp_Hints :: "hint list"

record team_export =
  texp_Team :: team
  texp_MemberIDs :: "uuid list"

record user_export =
  uexp_ID :: uuid
  uexp_Username :: string
  uexp_Email :: string
  uexp_Role :: string
  uexp_TeamID :: "uuid option"

record backup_data =
  bd_Version :: string
  bd_ExportedAt :: time
  bd_Competition :: "competition option"
  bd_Challenges :: "challenge_export list"
  bd_Teams :: "team_export list"
  bd_Users :: "user_export list"
  bd_Awards :: "award list"
  bd_Solves :: "solve list"
  bd_Files :: "file_info list"

abbreviation BackupVersion :: string where
  "BackupVersion \<equiv> ''1.0''"

abbreviation ConflictModeOverwrite :: string where
  "ConflictModeOverwrite \<equiv> ''overwrite''"

abbreviation ConflictModeSkip :: string where
  "ConflictModeSkip \<equiv> ''skip''"

record export_options =
  eo_IncludeUsers :: bool
  eo_IncludeTeams :: bool
  eo_IncludeSolves :: bool
  eo_IncludeAwards :: bool
  eo_IncludeFiles :: bool

record import_options =
  io_EraseExisting :: bool
  io_ConflictMode :: string
  io_ValidateFiles :: bool

record import_result =
  ir_Success :: bool
  ir_Errors :: "string list"
  ir_SkippedCount :: int

section \<open>Statements of BackupRepo\<close>

text \<open>Deleting users deletes or clears what refers to them, the teams they lead included.\<close>

definition delete_users_cascade :: "uuid set \<Rightarrow> db \<Rightarrow> db" where
  "delete_users_cascade ids d =
     (let d = delete_teams_cascade (teams_id ` {t \<in> set (teams d). teams_captain_id t \<in> ids}) d;
          gone = (\<lambda>u. case u of None \<Rightarrow> False | Some i \<Rightarrow> i \<in> ids) in
      d\<lparr>users := del_where (\<lambda>u. users_id u \<in> ids) (users d),
        solves := del_where (\<lambda>s. solves_user_id s \<in> ids) (solves d),
        verification_tokens := del_where (\<lambda>t. verification_tokens_user_id t \<in> ids) (verification_tokens d),
        awards := upd_where (\<lambda>a. gone (awards_created_by a)) (\<lambda>a. a\<lparr>awards_created_by := None\<rparr>) (awards d),
        team_audit_log := del_where (\<lambda>l. team_audit_log_user_id l \<in> ids) (team_audit_log d),
        audit_logs := upd_where (\<lambda>l. gone (audit_logs_user_id l)) (\<lambda>l. l\<lparr>audit_logs_user_id := None\<rparr>) (audit_logs d),
        submissions := del_where (\<lambda>s. submissions_user_id s \<in> ids) (submissions d),
        user_notifications := del_where (\<lambda>n. user_notifications_user_id n \<in> ids) (user_notifications d),
        api_tokens := del_where (\<lambda>t. api_tokens_user_id t \<in> ids) (api_tokens d),
        comments := del_where (\<lambda>c. comments_user_id c \<in> ids) (comments d)\<rparr>)"

definition delete_all :: "string \<Rightarrow> unit query" where
  "delete_all table = modifyE (\<lambda>d.
     if table = ''solves'' then d\<lparr>solves := []\<rparr>
     else if table = ''awards'' then d\<lparr>awards := []\<rparr>
     else if table = ''hint_unlocks'' then d\<lparr>hint_unlocks := []\<rparr>
     else if table = ''files'' then d\<lparr>files := []\<rparr>
     else if table = ''hints'' then delete_hints_cascade (\<lambda>_. True) d
     else if table = ''challenges'' then fold delete_challenge_cascade (map challenges_id (challenges d)) d
     else if table = ''users'' then delete_users_cascade (users_id ` set (users d)) d
     else if table = ''teams'' then delete_teams_cascade (teams_id ` set (teams d)) d
     else d)"

definition backupEraseTables :: "string list" where
  "backupEraseTables = [''solves'', ''awards'', ''hint_unlocks'', ''files'', ''hints'', ''challenges'', ''users'', ''teams'']"

definition update_competition :: "competition \<Rightarrow> unit query" where
  "update_competition cmp = modifyE (\<lambda>d. d\<lparr>competition := upd_where (\<lambda>c. competition_id c = 1)
     (\<lambda>c. c\<lparr>competition_name := comp_Name cmp, competition_start_time := comp_StartTime cmp,
        competition_end_time := comp_EndTime cmp, competition_freeze_time := comp_FreezeTime cmp,
        competition_is_paused := Some (comp_IsPaused cmp), competition_mode := Some (comp_Mode cmp)\<rparr>) (competition d)\<rparr>)"

text \<open>\<open>INSERT .. ON CONFLICT (id)\<close>: an argument that does not fit its column is refused by the driver.\<close>

definition upsert_challenge :: "challenge \<Rightarrow> unit query" where
  "upsert_challenge ch d =
     (if \<not> list_all int4_ok [chal_Points ch, chal_InitialValue ch, chal_MinValue ch, chal_Decay ch, chal_SolveCount ch]
      then (Inl OutOfRange, d)
      else
        let set_columns = (\<lambda>c. c\<lparr>challenges_title := chal_Title ch, challenges_description := chal_Description ch,
              challenges_category := Some (chal_Category ch), challenges_flag_hash := chal_FlagHash ch,
              challenges_points := Some (chal_Points ch), challenges_initial_value := chal_InitialValue ch,
              challenges_min_value := chal_MinValue ch, challenges_decay := chal_Decay ch,
              challenges_solve_count := chal_SolveCount ch, challenges_is_hidden := Some (chal_IsHidden ch),
              challenges_is_regex := Some (chal_IsRegex ch),
              challenges_is_case_insensitive := Some (chal_IsCaseInsensitive ch),
              challenges_flag_regex := Some (chal_FlagRegex ch)\<rparr>);
            fresh = \<lparr>challenges_id = chal_ID ch, challenges_title = [], challenges_description = [],
              challenges_category = None, challenges_points = Some 0, challenges_flag_hash = [],
              challenges_is_hidden = Some False, challenges_initial_value = 500, challenges_min_value = 100,
              challenges_decay = 20, challenges_solve_count = 0, challenges_is_regex = Some False,
              challenges_is_case_insensitive = Some False, challenges_flag_regex = None,
              challenges_flag_format_regex = None\<rparr>
        in if challenge_exists (chal_ID ch) d
           then (Inr (), d\<lparr>challenges := upd_where (\<lambda>c. challenges_id c = chal_ID ch) set_columns (challenges d)\<rparr>)
           else (Inr (), d\<lparr>challenges := challenges d @ [set_columns fresh]\<rparr>))"

definition upsert_hint :: "hint \<Rightarrow> unit query" where
  "upsert_hint h d =
     (if \<not> list_all int4_ok [hint_Cost h, hint_OrderIndex h] then (Inl OutOfRange, d)
      else if list_ex (\<lambda>x. hints_id x = hint_ID h) (hints d)
      then (Inr (), d\<lparr>hints := upd_where (\<lambda>x. hints_id x = hint_ID h)
              (\<lambda>x. x\<lparr>hints_content := hint_Content h, hints_cost := hint_Cost h, hints_order_index := hint_OrderIndex h\<rparr>)
              (hints d)\<rparr>)
      else sqlc_CreateHint \<lparr>hints_id = hint_ID h, hints_challenge_id = hint_ChallengeID h, hints_content = hint_Content h,
              hints_cost = hint_Cost h, hints_order_index = hint_OrderIndex h\<rparr> d)"

definition upsert_team :: "bool \<Rightarrow> team \<Rightarrow> unit query" where
  "upsert_team skip t d =
     (if list_ex (\<lambda>x. teams_id x = team_ID t) (teams d)
      then if skip then (Inr (), d)
        else if list_ex (\<lambda>x. teams_id x \<noteq> team_ID t \<and> teams_name x = team_Name t) (teams d) then (Inl UniqueViolation, d)
        else if \<not> user_exists (team_CaptainID t) d then (Inl ForeignKeyViolation, d)
        else (Inr (), d\<lparr>teams := upd_where (\<lambda>x. teams_id x = team_ID t)
               (\<lambda>x. x\<lparr>teams_name := team_Name t, teams_captain_id := team_CaptainID t,
                  teams_invite_token := team_InviteToken t, teams_is_solo := Some (team_IsSolo t),
                  teams_is_banned := Some (team_IsBanned t), teams_banned_reason := team_BannedReason t,
                  teams_is_hidden := Some (team_IsHidden t)\<rparr>) (teams d)\<rparr>)
      else bindE (teams_insert \<lparr>teams_id = team_ID t, teams_name = team_Name t, teams_invite_token = team_InviteToken t,
             teams_captain_id = team_CaptainID t, teams_bracket_id = None, teams_created_at = Some (team_CreatedAt t),
             teams_deleted_at = None, teams_is_solo = Some (team_IsSolo t), teams_is_auto_created = Some False,
             teams_is_banned = Some (team_IsBanned t), teams_banned_at = None,
             teams_banned_reason = team_BannedReason t, teams_is_hidden = Some (team_IsHidden t)\<rparr>) (\<lambda>_. returnE ()) d)"

definition backupUserRestoredPasswordHash :: string where
  "backupUserRestoredPasswordHash = ''__RESTORED__''"

text \<open>\<open>now\<close> is the time of the statement, which the server sets.\<close>

definition upsert_user :: "time \<Rightarrow> bool \<Rightarrow> user_export \<Rightarrow> unit query" where
  "upsert_user now skip u d =
     (let no_team = (case uexp_TeamID u of None \<Rightarrow> False | Some t \<Rightarrow> \<not> team_exists t d) in
      if user_exists (uexp_ID u) d
      then if skip then (Inr (), d)
        else if list_ex (\<lambda>x. users_id x \<noteq> uexp_ID u \<and> (users_username x = uexp_Username u \<or> users_email x = uexp_Email u))
                  (users d) then (Inl UniqueViolation, d)
        else if no_team then (Inl ForeignKeyViolation, d)
        else (Inr (), d\<lparr>users := upd_where (\<lambda>x. users_id x = uexp_ID u)
               (\<lambda>x. x\<lparr>users_username := uexp_Username u, users_email := uexp_Email u, users_role := Some (uexp_Role u),
                  users_team_id := uexp_TeamID u\<rparr>) (users d)\<rparr>)
      else if list_ex (\<lambda>x. users_username x = uexp_Username u \<or> users_email x = uexp_Email u) (users d)
      then (Inl UniqueViolation, d)
      else if no_team then (Inl ForeignKeyViolation, d)
      else (Inr (), d\<lparr>users := users d @ [\<lparr>users_id = uexp_ID u, users_team_id = uexp_TeamID u,
             users_username = uexp_Username u, users_email = uexp_Email u,
             users_password_hash = backupUserRestoredPasswordHash, users_role = Some (uexp_Role u),
             users_is_verified = Some False, users_verified_at = None, users_created_at = Some now\<rparr>]\<rparr>))"

definition upsert_award :: "award \<Rightarrow> unit query" where
  "upsert_award a d =
     (if \<not> int4_ok (award_Value a) then (Inl OutOfRange, d)
      else if list_ex (\<lambda>x. awards_id x = award_ID a) (awards d)
      then (Inr (), d\<lparr>awards := upd_where (\<lambda>x. awards_id x = award_ID a)
              (\<lambda>x. x\<lparr>awards_value := award_Value a, awards_description := award_Description a\<rparr>) (awards d)\<rparr>)
      else sqlc_CreateAward \<lparr>awards_id = award_ID a, awards_team_id = award_TeamID a, awards_value = award_Value a,
              awards_description = award_Description a, awards_created_by = award_CreatedBy a,
              awards_created_at = Some (award_CreatedAt a)\<rparr> d)"

definition insert_solve :: "solve \<Rightarrow> unit query" where
  "insert_solve s d =
     (if list_ex (\<lambda>x. solves_id x = solve_ID s) (solves d) then (Inr (), d)
      else sqlc_CreateSolve \<lparr>solves_id = solve_ID s, solves_user_id = solve_UserID s, solves_team_id = solve_TeamID s,
              solves_challenge_id = solve_ChallengeID s, solves_solved_at = Some (solve_SolvedAt s)\<rparr> d)"

definition upsert_file :: "file_info \<Rightarrow> unit query" where
  "upsert_file f d =
     (if file_Type f \<notin> {FileTypeChallenge, FileTypeWriteup} then (Inl CheckViolation, d)
      else if list_ex (\<lambda>x. files_id x = file_ID f) (files d)
      then (Inr (), d\<lparr>files := upd_where (\<lambda>x. files_id x = file_ID f)
              (\<lambda>x. x\<lparr>files_type := file_Type f, files_location := file_Location f, files_filename := file_Filename f,
                 files_size := file_Size f, files_sha256 := file_SHA256 f\<rparr>) (files d)\<rparr>)
      else sqlc_CreateFile \<lparr>files_id = file_ID f, files_type = file_Type f, files_challenge_id = file_ChallengeID f,
              files_location = file_Location f, files_filename = file_Filename f, files_size = file_Size f,
              files_sha256 = file_SHA256 f, files_created_at = file_CreatedAt f\<rparr> d)"

section \<open>BackupRepo\<close>

text \<open>The messages name the row by its UUID, which is left out here.\<close>

definition BackupRepo_EraseAllTablesTx :: "unit op" where
  "BackupRepo_EraseAllTablesTx = forE backupEraseTables (\<lambda>table.
     mapErr (wrap (''BackupRepo - EraseAllTablesTx - delete '' @ table)) (sql_tx (delete_all table)))"

definition BackupRepo_ImportCompetitionTx :: "competition option \<Rightarrow> unit op" where
  "BackupRepo_ImportCompetitionTx cmp = (case cmp of None \<Rightarrow> returnE ()
     | Some c \<Rightarrow> mapErr (wrap ''BackupRepo - ImportCompetitionTx'') (sql_tx (update_competition c)))"

definition BackupRepo_ImportChallengesTx :: "backup_data \<Rightarrow> unit op" where
  "BackupRepo_ImportChallengesTx data = forE (bd_Challenges data) (\<lambda>ch.
     bindE (mapErr (wrap ''BackupRepo - ImportChallengesTx - challenge'') (sql_tx (upsert_challenge (cexp_Challenge ch)))) (\<lambda>_.
     forE (cexp_Hints ch) (\<lambda>h. mapErr (wrap ''BackupRepo - ImportChallengesTx - hint'') (sql_tx (upsert_hint h)))))"

definition BackupRepo_ImportTeamsTx :: "backup_data \<Rightarrow> import_options \<Rightarrow> unit op" where
  "BackupRepo_ImportTeamsTx data opts = forE (bd_Teams data) (\<lambda>t.
     mapErr (wrap ''BackupRepo - ImportTeamsTx - team'')
       (sql_tx (upsert_team (io_ConflictMode opts = ConflictModeSkip) (texp_Team t))))"

definition BackupRepo_ImportUsersTx :: "backup_data \<Rightarrow> import_options \<Rightarrow> unit op" where
  "BackupRepo_ImportUsersTx data opts = forE (bd_Users data) (\<lambda>u.
     bindE nowE (\<lambda>now. mapErr (wrap ''BackupRepo - ImportUsersTx - user'')
       (sql_tx (upsert_user now (io_ConflictMode opts = ConflictModeSkip) u))))"

definition BackupRepo_ImportAwardsTx :: "backup_data \<Rightarrow> unit op" where
  "BackupRepo_ImportAwardsTx data = forE (bd_Awards data) (\<lambda>a.
     mapErr (wrap ''BackupRepo - ImportAwardsTx - award'') (sql_tx (upsert_award a)))"

definition BackupRepo_ImportSolvesTx :: "backup_data \<Rightarrow> unit op" where
  "BackupRepo_ImportSolvesTx data = forE (bd_Solves data) (\<lambda>s.
     mapErr (wrap ''BackupRepo - ImportSolvesTx - solve'') (sql_tx (insert_solve s)))"

definition BackupRepo_ImportFileMetadataTx :: "backup_data \<Rightarrow> unit op" where
  "BackupRepo_ImportFileMetadataTx data = forE (bd_Files data) (\<lambda>f.
     mapErr (wrap ''BackupRepo - ImportFileMetadataTx - file'') (sql_tx (upsert_file f)))"

section \<open>Export\<close>

fun mapE :: "('a \<Rightarrow> 'b op) \<Rightarrow> 'a list \<Rightarrow> 'b list op" where
  "mapE f [] = returnE []"
| "mapE f (x # xs) = bindE (f x) (\<lambda>y. bindE (mapE f xs) (\<lambda>ys. returnE (y # ys)))"

definition fetchChallengesWithHints :: "challenge_export list op" where
  "fetchChallengesWithHints =
     bindE (mapErr (wrap ''BackupUseCase - fetchChallengesWithHints - GetAll'') (ChallengeRepo_GetAll None None)) (\<lambda>cs.
     mapE (\<lambda>cws. bindE (mapErr (wrap ''BackupUseCase - fetchChallengesWithHints - GetByChallengeID'')
         (HintRepo_GetByChallengeID (chal_ID (cws_Challenge cws)))) (\<lambda>hs.
       returnE \<lparr>cexp_Challenge = cws_Challenge cws, cexp_Hints = hs\<rparr>)) cs)"

definition fetchTeamsWithMembers :: "team_export list op" where
  "fetchTeamsWithMembers =
     bindE (mapErr (wrap ''BackupUseCase - fetchTeamsWithMembers - GetAll'') TeamRepo_GetAll) (\<lambda>ts.
     mapE (\<lambda>t. bindE (mapErr (wrap ''BackupUseCase - fetchTeamsWithMembers - GetByTeamID'') (UserRepo_GetByTeamID (team_ID t)))
       (\<lambda>members. returnE \<lparr>texp_Team = t, texp_MemberIDs = map user_ID members\<rparr>)) ts)"

definition fetchUsers :: "user_export list op" where
  "fetchUsers = bindE (mapErr (wrap ''BackupUseCase - fetchUsers - GetAll'') UserRepo_GetAll) (\<lambda>us.
     returnE (map (\<lambda>u. \<lparr>uexp_ID = user_ID u, uexp_Username = user_Username u, uexp_Email = user_Email u,
       uexp_Role = user_Role u, uexp_TeamID = user_TeamID u\<rparr>) us))"

definition fetchAwards :: "award list op" where
  "fetchAwards = mapErr (wrap ''BackupUseCase - fetchAwards - GetAll'') AwardRepo_GetAll"

definition fetchSolves :: "solve list op" where
  "fetchSolves = mapErr (wrap ''BackupUseCase - fetchSolves - GetAll'') SolveRepo_GetAll"

definition fetchFiles :: "file_info list op" where
  "fetchFiles = mapErr (wrap ''BackupUseCase - fetchFiles - GetAll'') FileRepository_GetAll"

definition export_part :: "bool \<Rightarrow> string \<Rightarrow> 'a list op \<Rightarrow> 'a list op" where
  "export_part included name m =
     (if included then mapErr (wrap (''BackupUseCase - Export - '' @ name)) m else returnE [])"

definition Backup_Export :: "export_options \<Rightarrow> backup_data op" where
  "Backup_Export opts =
     bindE nowE (\<lambda>now.
     bindE (mapErr (wrap ''BackupUseCase - Export - Get'') CompetitionRepo_Get) (\<lambda>comp.
     bindE (mapErr (wrap ''BackupUseCase - Export - fetchChallengesWithHints'') fetchChallengesWithHints) (\<lambda>cs.
     bindE (export_part (eo_IncludeTeams opts) ''fetchTeamsWithMembers'' fetchTeamsWithMembers) (\<lambda>ts.
     bindE (export_part (eo_IncludeUsers opts) ''fetchUsers'' fetchUsers) (\<lambda>us.
     bindE (export_part (eo_IncludeAwards opts) ''fetchAwards'' fetchAwards) (\<lambda>as.
     bindE (export_part (eo_IncludeSolves opts) ''fetchSolves'' fetchSolves) (\<lambda>ss.
     bindE (export_part (eo_IncludeFiles opts) ''fetchFiles'' fetchFiles) (\<lambda>fs.
     returnE \<lparr>bd_Version = BackupVersion, bd_ExportedAt = now, bd_Competition = Some comp, bd_Challenges = cs,
       bd_Teams = ts, bd_Users = us, bd_Awards = as, bd_Solves = ss, bd_Files = fs\<rparr>))))))))"

section \<open>Archives\<close>

text \<open>An entry of an archive: its name, what opening it gives, and its size as the archive states it.\<close>

record zip_file =
  zf_Name :: string
  zf_Open :: "goerr + reader"
  zf_UncompressedSize64 :: nat

type_synonym import_task = "zip_file \<times> file_info"

record 'ob backup_uc =
  bu_storage :: "'ob provider"
  bu_sha256 :: "string \<Rightarrow> string"
  bu_uuid_String :: "uuid \<Rightarrow> string"
  bu_RFC3339 :: "time \<Rightarrow> string"
  bu_json_Encode :: "backup_data \<Rightarrow> string"
  bu_json_Decode :: "string \<Rightarrow> goerr + backup_data"
  bu_order :: "import_task list \<Rightarrow> import_task list"

definition zip_entry :: "string \<Rightarrow> string \<Rightarrow> zip_file" where
  "zip_entry name content = \<lparr>zf_Name = name, zf_Open = Inr (content, None), zf_UncompressedSize64 = length content\<rparr>"

definition file_entry_name :: "'ob backup_uc \<Rightarrow> file_info \<Rightarrow> string" where
  "file_entry_name uc f = ''files/challenge-'' @ bu_uuid_String uc (file_ChallengeID f) @ ''/'' @ file_Filename f"

definition writeBackupJSON :: "'ob backup_uc \<Rightarrow> backup_data \<Rightarrow> zip_file list" where
  "writeBackupJSON uc data =
     [zip_entry ''backup.json'' (bu_json_Encode uc data),
      zip_entry ''README.md'' (''# CTFBoard Backup'' @ [CHR 0x0A, CHR 0x0A] @ ''Backup created: '' @
        bu_RFC3339 uc (bd_ExportedAt data) @ [CHR 0x0A] @ ''Version: '' @ bd_Version data @ [CHR 0x0A])]"

text \<open>The entry of a file is created before its content is fetched: it stays, empty, when the content cannot be had.\<close>

fun streamFilesToZip :: "'ob backup_uc \<Rightarrow> file_info list \<Rightarrow> ('ob, zip_file list \<times> nat) obj_op" where
  "streamFilesToZip uc [] = returnE ([], 0)"
| "streamFilesToZip uc (f # fs) =
     bindE (tryE (pv_Download (bu_storage uc) (file_Location f))) (\<lambda>r.
     let (content, bad) = (case r of Inl _ \<Rightarrow> ([], True) | Inr rc \<Rightarrow> (fst rc, snd rc \<noteq> None)) in
     bindE (streamFilesToZip uc fs) (\<lambda>(rest, skipped).
     returnE (zip_entry (file_entry_name uc f) content # rest, if bad then Suc skipped else skipped)))"

definition exportZIPWorker :: "'ob backup_uc \<Rightarrow> export_options \<Rightarrow> ('ob, zip_file list) obj_op" where
  "exportZIPWorker uc opts =
     bindE (inWorld (Backup_Export opts)) (\<lambda>data.
     if eo_IncludeFiles opts \<and> bd_Files data \<noteq> []
     then bindE (streamFilesToZip uc (bd_Files data)) (\<lambda>(entries, skipped). returnE (writeBackupJSON uc data @ entries))
     else returnE (writeBackupJSON uc data))"

text \<open>The reader is handed out before anything is read; it yields the archive or the error of the worker.\<close>

definition Backup_ExportZIP :: "'ob backup_uc \<Rightarrow> export_options \<Rightarrow> ('ob, goerr + zip_file list) obj_op" where
  "Backup_ExportZIP uc opts = tryE (exportZIPWorker uc opts)"

section \<open>Import\<close>

definition zipSizeToInt64 :: "nat \<Rightarrow> int" where
  "zipSizeToInt64 u = (if 2 ^ 63 - 1 < u then 2 ^ 63 - 1 else int u)"

fun importZIPReadBackup :: "'ob backup_uc \<Rightarrow> zip_file list \<Rightarrow> goerr + backup_data" where
  "importZIPReadBackup uc [] = Inl (Plain ''BackupUseCase - ImportZIP: backup.json not found in zip'')"
| "importZIPReadBackup uc (f # fs) =
     (if zf_Name f \<noteq> ''backup.json'' then importZIPReadBackup uc fs
      else case zf_Open f of Inl e \<Rightarrow> Inl (wrap ''BackupUseCase - ImportZIP - open backup.json'' e)
         | Inr (content, _) \<Rightarrow> (case bu_json_Decode uc content of
               Inl e \<Rightarrow> Inl (wrap ''BackupUseCase - ImportZIP - decode backup.json'' e)
             | Inr data \<Rightarrow> Inr data))"

definition importZIPValidateVersion :: "backup_data \<Rightarrow> goerr + unit" where
  "importZIPValidateVersion data =
     (if bd_Version data \<noteq> BackupVersion
      then Inl (Plain (''BackupUseCase - ImportZIP: unsupported backup version '' @ bd_Version data @ '' (expected '' @
        BackupVersion @ '')''))
      else Inr ())"

definition importZIPRunTxImports :: "backup_data \<Rightarrow> import_options \<Rightarrow> unit op" where
  "importZIPRunTxImports data opts =
     bindE (mapErr (wrap ''BackupUseCase - ImportZIP - ImportCompetitionTx'') (BackupRepo_ImportCompetitionTx (bd_Competition data))) (\<lambda>_.
     bindE (mapErr (wrap ''BackupUseCase - ImportZIP - ImportChallengesTx'') (BackupRepo_ImportChallengesTx data)) (\<lambda>_.
     bindE (mapErr (wrap ''BackupUseCase - ImportZIP - ImportTeamsTx'') (BackupRepo_ImportTeamsTx data opts)) (\<lambda>_.
     bindE (mapErr (wrap ''BackupUseCase - ImportZIP - ImportUsersTx'') (BackupRepo_ImportUsersTx data opts)) (\<lambda>_.
     bindE (mapErr (wrap ''BackupUseCase - ImportZIP - ImportAwardsTx'') (BackupRepo_ImportAwardsTx data)) (\<lambda>_.
     bindE (mapErr (wrap ''BackupUseCase - ImportZIP - ImportSolvesTx'') (BackupRepo_ImportSolvesTx data)) (\<lambda>_.
     mapErr (wrap ''BackupUseCase - ImportZIP - ImportFileMetadataTx'') (BackupRepo_ImportFileMetadataTx data)))))))"

definition importZIPRunTx :: "backup_data \<Rightarrow> import_options \<Rightarrow> unit op" where
  "importZIPRunTx data opts = run_transaction
     (bindE (if io_EraseExisting opts
             then mapErr (wrap ''BackupUseCase - ImportZIP - EraseAllTablesTx'') BackupRepo_EraseAllTablesTx else returnE ()) (\<lambda>_.
      importZIPRunTxImports data opts))"

definition importFilesBuildFileMap :: "'ob backup_uc \<Rightarrow> file_info list \<Rightarrow> (string \<times> file_info) list" where
  "importFilesBuildFileMap uc fs = fold (\<lambda>f m. AList.update (file_entry_name uc f) f m) fs []"

definition importFilesBuildTasks :: "zip_file list \<Rightarrow> (string \<times> file_info) list \<Rightarrow> import_task list" where
  "importFilesBuildTasks zr m = List.map_filter (\<lambda>zf. map_option (\<lambda>f. (zf, f)) (map_of m (zf_Name zf))) zr"

text \<open>The answer is the message of an error, empty when there is none.\<close>

definition importFileUploadWithHash ::
  "'ob backup_uc \<Rightarrow> string \<Rightarrow> reader \<Rightarrow> int \<Rightarrow> file_info \<Rightarrow> ('ob, string) obj_op" where
  "importFileUploadWithHash uc name rc fsize f =
     bindE (tryE (pv_Upload (bu_storage uc) (file_Location f) rc fsize ''application/octet-stream'')) (\<lambda>r. case r of
       Inl e \<Rightarrow> returnE (''upload '' @ name @ '': '' @ error_msg e)
     | Inr _ \<Rightarrow>
        let hashStr = bu_sha256 uc (fst rc) in
        if hashStr \<noteq> file_SHA256 f
        then bindE (tryE (pv_Delete (bu_storage uc) (file_Location f))) (\<lambda>_.
             returnE (''sha256 mismatch for '' @ name @ '': expected '' @ file_SHA256 f @ '', got '' @ hashStr))
        else returnE [])"

definition importFileUploadOne :: "'ob backup_uc \<Rightarrow> import_options \<Rightarrow> import_task \<Rightarrow> ('ob, string) obj_op" where
  "importFileUploadOne uc opts t = (case t of (zf, f) \<Rightarrow>
     case zf_Open zf of Inl e \<Rightarrow> returnE (''open '' @ zf_Name zf @ '': '' @ error_msg e)
     | Inr rc \<Rightarrow>
        let fsize = zipSizeToInt64 (zf_UncompressedSize64 zf) in
        if io_ValidateFiles opts then importFileUploadWithHash uc (zf_Name zf) rc fsize f
        else bindE (tryE (pv_Upload (bu_storage uc) (file_Location f) rc fsize ''application/octet-stream'')) (\<lambda>r. case r of
            Inl e \<Rightarrow> returnE (''upload '' @ zf_Name zf @ '': '' @ error_msg e)
          | Inr _ \<Rightarrow> returnE []))"

fun run_tasks :: "'ob backup_uc \<Rightarrow> import_options \<Rightarrow> import_task list \<Rightarrow> ('ob, string list) obj_op" where
  "run_tasks uc opts [] = returnE []"
| "run_tasks uc opts (t # ts) =
     bindE (importFileUploadOne uc opts t) (\<lambda>msg.
     bindE (run_tasks uc opts ts) (\<lambda>msgs.
     returnE (if msg \<noteq> [] then msg # msgs else msgs)))"

definition importFilesToStorage ::
  "'ob backup_uc \<Rightarrow> zip_file list \<Rightarrow> file_info list \<Rightarrow> import_options \<Rightarrow> ('ob, string list) obj_op" where
  "importFilesToStorage uc zr fs opts =
     run_tasks uc opts (bu_order uc (importFilesBuildTasks zr (importFilesBuildFileMap uc fs)))"

text \<open>\<open>zr\<close> is what reading the archive gave.\<close>

definition Backup_ImportZIP ::
  "'ob backup_uc \<Rightarrow> goerr + zip_file list \<Rightarrow> import_options \<Rightarrow> ('ob, import_result) obj_op" where
  "Backup_ImportZIP uc zr opts =
     bindE (mapErr (wrap ''BackupUseCase - ImportZIP - NewReader'') (liftE zr)) (\<lambda>zr.
     bindE (liftE (importZIPReadBackup uc zr)) (\<lambda>data.
     bindE (liftE (importZIPValidateVersion data)) (\<lambda>_.
     bindE (inWorld (importZIPRunTx data opts)) (\<lambda>_.
     bindE (if bd_Files data \<noteq> [] then importFilesToStorage uc zr (bd_Files data) opts else returnE []) (\<lambda>fileErrors.
     returnE \<lparr>ir_Success = True, ir_Errors = fileErrors, ir_SkippedCount = int (length fileErrors)\<rparr>)))))"

end
