(* ===== verification/CTF_BackupProps.thy ===== *)
theory CTF_BackupProps
  imports CTF_Backup CTF_FileProps
begin

text \<open>
  What an import does as a whole: it is all or nothing; with the erasure it cannot restore a backup that has a team; and
  what it restores of the challenges.
\<close>

section \<open>Erasing\<close>

lemma challenges_fold_delete:
  "challenges (fold delete_challenge_cascade ids d) = filter (\<lambda>c. challenges_id c \<notin> set ids) (challenges d)"
  by (induction ids arbitrary: d) (auto simp: delete_challenge_cascade_def delete_hints_cascade_def Let_def del_where_def
      intro!: filter_cong)

lemma users_fold_delete: "users (fold delete_challenge_cascade ids d) = users d"
  by (induction ids arbitrary: d) (simp_all add: delete_challenge_cascade_def delete_hints_cascade_def Let_def)

lemma sql_tx_query: "sql_tx q w = (Inr x, w') \<Longrightarrow> \<exists>d. q (store w) = (Inr x, d) \<and> store w' = d"
  by (auto simp: sql_tx_Inr_iff sql_Inr_iff)

lemma erase_run:
  assumes "forE ts (\<lambda>t. mapErr (g t) (sql_tx (delete_all t))) w = (Inr u, w')"
  shows "store w' = fold (\<lambda>t d. snd (delete_all t d)) ts (store w)"
  using assms
proof (induction ts arbitrary: w)
  case (Cons t ts)
  from Cons.prems obtain w1 where 1: "sql_tx (delete_all t) w = (Inr (), w1)"
    "forE ts (\<lambda>t. mapErr (g t) (sql_tx (delete_all t))) w1 = (Inr u, w')"
    unfolding forE_Inr_Cons mapErr_Inr_iff by blast
  from sql_tx_query [OF 1(1)] have "store w1 = snd (delete_all t (store w))" by (metis snd_conv)
  with Cons.IH [OF 1(2)] show ?case by (simp only: fold_simps)
qed simp

lemma EraseAllTablesTx_Inr:
  assumes "BackupRepo_EraseAllTablesTx w = (Inr u, w')"
  shows "users (store w') = [] \<and> teams (store w') = [] \<and> challenges (store w') = []"
proof -
  have "users (delete_users_cascade (users_id ` set (users d)) d) = []" for d
    by (auto simp: delete_users_cascade_def delete_teams_cascade_def Let_def del_where_def filter_empty_conv set_upd_where)
  moreover have "challenges (delete_users_cascade X d) = challenges d" for X d
    by (simp add: delete_users_cascade_def delete_teams_cascade_def Let_def)
  moreover have "teams (delete_teams_cascade (teams_id ` set (teams d)) d) = []"
    "challenges (delete_teams_cascade X d) = challenges d"
    "users d = [] \<Longrightarrow> users (delete_teams_cascade X d) = []" for X d
    by (auto simp: delete_teams_cascade_def del_where_def filter_empty_conv)
  ultimately show ?thesis
    using erase_run [OF assms [unfolded BackupRepo_EraseAllTablesTx_def]]
    by (simp add: backupEraseTables_def delete_all_def challenges_fold_delete)
qed

section \<open>An import is all or nothing\<close>

lemma importZIPRunTx_Inl: "importZIPRunTx data opts w = (Inl e, w') \<Longrightarrow> store w' = store w"
  unfolding importZIPRunTx_def by (rule run_transaction_Inl_store)

text \<open>Computations that never report an error.\<close>

definition returns :: "('s, 'e, 'a) sem \<Rightarrow> bool" where
  "returns m \<longleftrightarrow> (\<forall>s. \<exists>x s'. m s = (Inr x, s'))"

lemma returns_returnE: "returns (returnE x)" and returns_tryE: "returns (tryE m)"
  by (simp_all add: returns_def tryE_def split: prod.splits)

lemma returns_bindE: "returns m \<Longrightarrow> (\<And>x. returns (f x)) \<Longrightarrow> returns (bindE m f)"
  unfolding returns_def bindE_Inr_iff by metis

lemma returns_case_sum: "(\<And>x. returns (g x)) \<Longrightarrow> (\<And>x. returns (h x)) \<Longrightarrow> returns (case r of Inl x \<Rightarrow> g x | Inr x \<Rightarrow> h x)"
  by (cases r) simp_all

lemma returns_not_Inl: "returns m \<Longrightarrow> m s \<noteq> (Inl e, s')"
  unfolding returns_def by (metis Inl_Inr_False prod.inject)

lemmas returns_rules = returns_returnE returns_tryE returns_bindE returns_case_sum

text \<open>Once the database part is done, no failure of the storage makes the import fail.\<close>

lemma importFileUploadOne_returns: "returns (importFileUploadOne uc opts t)"
  unfolding importFileUploadOne_def importFileUploadWithHash_def Let_def
  by (cases t) (simp split: sum.split, intro allI impI conjI returns_rules)

lemma run_tasks_returns: "returns (run_tasks uc opts ts)"
  by (induction ts) (simp_all only: run_tasks.simps returns_rules importFileUploadOne_returns)

lemma ImportZIP_Inl:
  assumes "Backup_ImportZIP uc zr opts (ob, w) = (Inl e, (ob', w'))"
  shows "ob' = ob \<and> store w' = store w"
proof -
  have files: "(if bd_Files data \<noteq> [] then importFilesToStorage uc z (bd_Files data) opts else returnE []) s \<noteq> (Inl x, s')"
    for data z s x s'
    unfolding importFilesToStorage_def by (simp add: returns_not_Inl [OF run_tasks_returns])
  from assms show ?thesis
    unfolding Backup_ImportZIP_def bindE_Inl_iff mapErr_Inl_iff inWorld_iff
    by (auto simp: files inWorld_iff bindE_Inl_iff dest!: importZIPRunTx_Inl)
qed

section \<open>Teams cannot be restored\<close>

lemma keeps_upserts:
  "keeps (\<lambda>d. users d = X \<and> teams d = Y) (update_competition c)"
  "keeps (\<lambda>d. users d = X \<and> teams d = Y) (upsert_challenge ch)"
  "keeps (\<lambda>d. users d = X \<and> teams d = Y) (upsert_hint h)"
  by (rule keepsI, auto simp: update_competition_def upsert_challenge_def upsert_hint_def sqlc_CreateHint_def Let_def
      split: if_splits)+

lemma keeps_roster_imports:
  "db_keeps (\<lambda>d. users d = X \<and> teams d = Y) (BackupRepo_ImportCompetitionTx c)"
  "db_keeps (\<lambda>d. users d = X \<and> teams d = Y) (BackupRepo_ImportChallengesTx data)"
  unfolding BackupRepo_ImportCompetitionTx_def BackupRepo_ImportChallengesTx_def
  by (intro valid_rules keeps_upserts)+

lemma upsert_team_needs_captain:
  "upsert_team skip t d = (Inr u, d') \<Longrightarrow> teams d = [] \<Longrightarrow> users d \<noteq> []"
  by (auto simp: upsert_team_def teams_insert_def bindE_Inr_iff user_exists_def split: if_splits)

lemma importZIPRunTx_teams:
  assumes "importZIPRunTx data opts w = (Inr u, w')" "io_EraseExisting opts"
  shows "bd_Teams data = []"
proof (rule ccontr)
  assume "bd_Teams data \<noteq> []"
  then obtain t ts where ts: "bd_Teams data = t # ts" by (cases "bd_Teams data") auto
  from assms(1) obtain w1 w2 where "bindE (if io_EraseExisting opts then mapErr (wrap ''BackupUseCase - ImportZIP - EraseAllTablesTx'')
      BackupRepo_EraseAllTablesTx else returnE ()) (\<lambda>_. importZIPRunTxImports data opts) w1 = (Inr u, w2)"
    unfolding importZIPRunTx_def by (rule run_transaction_Inr)
  then obtain w3 w4 w5 w6 where run: "BackupRepo_EraseAllTablesTx w1 = (Inr (), w3)"
    "BackupRepo_ImportCompetitionTx (bd_Competition data) w3 = (Inr (), w4)"
    "BackupRepo_ImportChallengesTx data w4 = (Inr (), w5)" "BackupRepo_ImportTeamsTx data opts w5 = (Inr (), w6)"
    using assms(2) by (auto simp: importZIPRunTxImports_def bindE_Inr_iff)
  have "users (store w5) = [] \<and> teams (store w5) = []"
    using EraseAllTablesTx_Inr [OF run(1)] keepsD [OF keeps_roster_imports(1) _ run(2), of "[]" "[]"]
      keepsD [OF keeps_roster_imports(2) _ run(3), of "[]" "[]"] by simp
  moreover obtain w7 where 7: "sql_tx (upsert_team (io_ConflictMode opts = ConflictModeSkip) (texp_Team t)) w5 = (Inr (), w7)"
    using run(4) unfolding BackupRepo_ImportTeamsTx_def ts forE_Inr_Cons mapErr_Inr_iff by blast
  ultimately show False using sql_tx_query [OF 7] upsert_team_needs_captain by blast
qed

lemma ImportZIP_erase_needs_no_teams:
  assumes "io_EraseExisting opts" "importZIPReadBackup uc zr = Inr data" "bd_Teams data \<noteq> []"
  shows "\<exists>e w'. Backup_ImportZIP uc (Inr zr) opts (ob, w) = (Inl e, (ob, w')) \<and> store w' = store w"
proof -
  obtain r ob' w' where run: "Backup_ImportZIP uc (Inr zr) opts (ob, w) = (r, (ob', w'))" by (metis prod_cases3)
  have "\<exists>e. r = Inl e"
  proof (rule ccontr)
    assume "\<nexists>e. r = Inl e"
    then obtain x where "r = Inr x" by (cases r) auto
    with run assms(2) obtain w1 where "importZIPRunTx data opts w = (Inr (), w1)"
      by (auto simp: Backup_ImportZIP_def bindE_Inr_iff inWorld_def liftE_Inr_iff split: prod.splits)
    from importZIPRunTx_teams [OF this assms(1)] assms(3) show False by simp
  qed
  with run ImportZIP_Inl [of uc "Inr zr" opts ob w] show ?thesis by auto
qed

section \<open>What an export holds\<close>

lemma mapE_Inr:
  assumes "mapE f xs w = (Inr ys, w')" "\<And>x y w w'. f x w = (Inr y, w') \<Longrightarrow> g y = h x \<and> store w' = store w"
  shows "map g ys = map h xs \<and> store w' = store w"
  using assms(1)
proof (induction xs arbitrary: ys w)
  case (Cons x xs)
  from Cons.prems obtain y w1 ys' where "f x w = (Inr y, w1)" "mapE f xs w1 = (Inr ys', w')" "ys = y # ys'"
    by (auto simp: bindE_Inr_iff)
  with Cons.IH assms(2) show ?case by simp
qed simp

lemma concat_if: "concat (map (\<lambda>c. if P c then [(c, 0 :: int)] else []) xs) = map (\<lambda>c. (c, 0)) (filter P xs)"
  by (induction xs) auto

lemma ChallengeRepo_GetAll_read:
  "ChallengeRepo_GetAll None None w = (Inr cs, w') \<Longrightarrow> store w' = store w \<and>
     map cws_Challenge cs = map toEntityChallengeFromRow (filter (\<lambda>c. challenges_is_hidden c = Some False) (challenges (store w)))"
  by (auto simp: ChallengeRepo_GetAll_def ChallengeRepo_listAllChallenges_def bindE_Inr_iff sql_Inr_iff sqlc_ListChallenges_def
      concat_if)

lemma TeamRepo_GetAll_read:
  "TeamRepo_GetAll w = (Inr ts, w') \<Longrightarrow> store w' = store w \<and> (ts = [] \<longleftrightarrow> filter live (teams (store w)) = [])"
proof -
  have "order_by_asc f xs = [] \<longleftrightarrow> xs = []" for f :: "teams_row \<Rightarrow> time option" and xs
    by (metis set_empty2 set_order_by_asc)
  then show "TeamRepo_GetAll w = (Inr ts, w') \<Longrightarrow> ?thesis"
    by (auto simp: TeamRepo_GetAll_def bindE_Inr_iff sql_Inr_iff sqlc_GetAllTeams_def)
qed

lemma reads_store:
  "HintRepo_GetByChallengeID c w = (Inr hs, w') \<Longrightarrow> store w' = store w"
  "UserRepo_GetByTeamID t w = (Inr us, w') \<Longrightarrow> store w' = store w"
  by (auto simp: HintRepo_GetByChallengeID_def UserRepo_GetByTeamID_def bindE_Inr_iff sql_Inr_iff sqlc_GetHintsByChallengeID_def
      sqlc_ListUsersByTeamID_def)

lemma fetchChallengesWithHints_Inr:
  assumes "fetchChallengesWithHints w = (Inr cs, w')"
  shows "store w' = store w \<and> map cexp_Challenge cs =
    map toEntityChallengeFromRow (filter (\<lambda>c. challenges_is_hidden c = Some False) (challenges (store w)))"
proof -
  from assms obtain all w1 where 1: "ChallengeRepo_GetAll None None w = (Inr all, w1)"
    "mapE (\<lambda>cws. bindE (mapErr (wrap ''BackupUseCase - fetchChallengesWithHints - GetByChallengeID'')
         (HintRepo_GetByChallengeID (chal_ID (cws_Challenge cws)))) (\<lambda>hs.
       returnE \<lparr>cexp_Challenge = cws_Challenge cws, cexp_Hints = hs\<rparr>)) all w1 = (Inr cs, w')"
    unfolding fetchChallengesWithHints_def bindE_Inr_iff mapErr_Inr_iff by blast
  have "map cexp_Challenge cs = map cws_Challenge all \<and> store w' = store w1"
  proof (rule mapE_Inr [OF 1(2)])
    fix x y v v'
    assume "bindE (mapErr (wrap ''BackupUseCase - fetchChallengesWithHints - GetByChallengeID'')
         (HintRepo_GetByChallengeID (chal_ID (cws_Challenge x)))) (\<lambda>hs.
       returnE \<lparr>cexp_Challenge = cws_Challenge x, cexp_Hints = hs\<rparr>) v = (Inr y, v')"
    then show "cexp_Challenge y = cws_Challenge x \<and> store v' = store v"
      unfolding bindE_Inr_iff mapErr_Inr_iff by (auto dest: reads_store(1))
  qed
  with ChallengeRepo_GetAll_read [OF 1(1)] show ?thesis by simp
qed

lemma fetchTeamsWithMembers_Inr:
  assumes "fetchTeamsWithMembers w = (Inr ts, w')"
  shows "store w' = store w \<and> (ts = [] \<longleftrightarrow> filter live (teams (store w)) = [])"
proof -
  from assms obtain all w1 where 1: "TeamRepo_GetAll w = (Inr all, w1)"
    "mapE (\<lambda>t. bindE (mapErr (wrap ''BackupUseCase - fetchTeamsWithMembers - GetByTeamID'') (UserRepo_GetByTeamID (team_ID t)))
       (\<lambda>members. returnE \<lparr>texp_Team = t, texp_MemberIDs = map user_ID members\<rparr>)) all w1 = (Inr ts, w')"
    unfolding fetchTeamsWithMembers_def bindE_Inr_iff mapErr_Inr_iff by blast
  have "map texp_Team ts = map (\<lambda>t. t) all \<and> store w' = store w1"
  proof (rule mapE_Inr [OF 1(2)])
    fix x y v v'
    assume "bindE (mapErr (wrap ''BackupUseCase - fetchTeamsWithMembers - GetByTeamID'') (UserRepo_GetByTeamID (team_ID x)))
       (\<lambda>members. returnE \<lparr>texp_Team = x, texp_MemberIDs = map user_ID members\<rparr>) v = (Inr y, v')"
    then show "texp_Team y = x \<and> store v' = store v"
      unfolding bindE_Inr_iff mapErr_Inr_iff by (auto dest: reads_store(2))
  qed
  with TeamRepo_GetAll_read [OF 1(1)] show ?thesis by auto
qed

lemma export_reads:
  "export_part b name m w = (Inr xs, w') \<Longrightarrow> (\<And>w ys w'. m w = (Inr ys, w') \<Longrightarrow> store w' = store w) \<Longrightarrow> store w' = store w"
  "fetchUsers w = (Inr us, w') \<Longrightarrow> store w' = store w" "fetchAwards w = (Inr as, w') \<Longrightarrow> store w' = store w"
  "fetchSolves w = (Inr ss, w') \<Longrightarrow> store w' = store w" "fetchFiles w = (Inr fs, w') \<Longrightarrow> store w' = store w"
  "CompetitionRepo_Get w = (Inr c, w') \<Longrightarrow> store w' = store w"
  by (auto simp: export_part_def fetchUsers_def fetchAwards_def fetchSolves_def fetchFiles_def UserRepo_GetAll_def AwardRepo_GetAll_def
      SolveRepo_GetAll_def FileRepository_GetAll_def CompetitionRepo_Get_def sqlc_GetAllUsers_def sqlc_GetAllAwards_def
      sqlc_GetAllSolves_def sqlc_GetAllFiles_def sqlc_GetCompetition_def select_one_Inr_iff bindE_Inr_iff sql_Inr_iff split: if_splits)

lemma Backup_Export_Inr:
  assumes "Backup_Export opts w = (Inr data, w')"
  shows "store w' = store w \<and> bd_Version data = BackupVersion \<and>
    map cexp_Challenge (bd_Challenges data) =
      map toEntityChallengeFromRow (filter (\<lambda>c. challenges_is_hidden c = Some False) (challenges (store w))) \<and>
    (eo_IncludeTeams opts \<longrightarrow> (bd_Teams data = [] \<longleftrightarrow> filter live (teams (store w)) = []))"
proof -
  from assms obtain now w1 comp w2 cs w3 ts w4 us w5 as w6 ss w7 fs where
    1: "nowE w = (Inr now, w1)" "CompetitionRepo_Get w1 = (Inr comp, w2)" "fetchChallengesWithHints w2 = (Inr cs, w3)" and
    2: "export_part (eo_IncludeTeams opts) ''fetchTeamsWithMembers'' fetchTeamsWithMembers w3 = (Inr ts, w4)"
      "export_part (eo_IncludeUsers opts) ''fetchUsers'' fetchUsers w4 = (Inr us, w5)"
      "export_part (eo_IncludeAwards opts) ''fetchAwards'' fetchAwards w5 = (Inr as, w6)"
      "export_part (eo_IncludeSolves opts) ''fetchSolves'' fetchSolves w6 = (Inr ss, w7)"
      "export_part (eo_IncludeFiles opts) ''fetchFiles'' fetchFiles w7 = (Inr fs, w')" and
    3: "data = \<lparr>bd_Version = BackupVersion, bd_ExportedAt = now, bd_Competition = Some comp, bd_Challenges = cs,
       bd_Teams = ts, bd_Users = us, bd_Awards = as, bd_Solves = ss, bd_Files = fs\<rparr>"
    unfolding Backup_Export_def bindE_Inr_iff mapErr_Inr_iff returnE_apply prod.inject sum.inject by blast
  have "store w3 = store w" "map cexp_Challenge cs = map toEntityChallengeFromRow
      (filter (\<lambda>c. challenges_is_hidden c = Some False) (challenges (store w)))"
    using nowE_store [OF 1(1)] export_reads(6) [OF 1(2)] fetchChallengesWithHints_Inr [OF 1(3)] by simp_all
  moreover have "store w4 = store w3" "eo_IncludeTeams opts \<longrightarrow> (ts = [] \<longleftrightarrow> filter live (teams (store w3)) = [])"
    using 2(1) fetchTeamsWithMembers_Inr [of w3 ts w4] by (auto simp: export_part_def split: if_splits)
  moreover have "store w' = store w4"
    using export_reads(1) [OF 2(2) export_reads(2)] export_reads(1) [OF 2(3) export_reads(3)]
      export_reads(1) [OF 2(4) export_reads(4)] export_reads(1) [OF 2(5) export_reads(5)] by simp
  ultimately show ?thesis by (simp add: 3)
qed

section \<open>What an import restores\<close>

lemma upsert_challenge_fresh:
  assumes "upsert_challenge ch d = (Inr u, d')" "chal_ID ch \<notin> challenges_id ` set (challenges d)"
  obtains r where "challenges d' = challenges d @ [r]" "toEntityChallengeFromRow r = ch\<lparr>chal_FlagFormatRegex := None\<rparr>"
    "challenges_id r = chal_ID ch"
  using assms
  by (auto simp: upsert_challenge_def challenge_exists_def Let_def toEntityChallengeFromRow_def split: if_splits)

lemma keeps_challenges_upserts:
  "keeps (\<lambda>d. challenges d = X) (upsert_hint h)" "keeps (\<lambda>d. challenges d = X) (update_competition c)"
  "keeps (\<lambda>d. challenges d = X) (upsert_team skip t)" "keeps (\<lambda>d. challenges d = X) (upsert_user now skip v)"
  "keeps (\<lambda>d. challenges d = X) (upsert_award a)" "keeps (\<lambda>d. challenges d = X) (insert_solve s)"
  "keeps (\<lambda>d. challenges d = X) (upsert_file f)"
  by (rule keepsI, auto simp: update_competition_def upsert_hint_def sqlc_CreateHint_def Let_def upsert_team_def teams_insert_def
      bindE_def upsert_user_def upsert_award_def sqlc_CreateAward_def insert_solve_def sqlc_CreateSolve_def upsert_file_def
      sqlc_CreateFile_def split: if_splits prod.splits sum.splits)+

lemma keeps_challenges_imports:
  "db_keeps (\<lambda>d. challenges d = X) (BackupRepo_ImportCompetitionTx c)" "db_keeps (\<lambda>d. challenges d = X) (BackupRepo_ImportTeamsTx data opts)"
  "db_keeps (\<lambda>d. challenges d = X) (BackupRepo_ImportUsersTx data opts)" "db_keeps (\<lambda>d. challenges d = X) (BackupRepo_ImportAwardsTx data)"
  "db_keeps (\<lambda>d. challenges d = X) (BackupRepo_ImportSolvesTx data)" "db_keeps (\<lambda>d. challenges d = X) (BackupRepo_ImportFileMetadataTx data)"
  unfolding BackupRepo_ImportCompetitionTx_def BackupRepo_ImportTeamsTx_def BackupRepo_ImportUsersTx_def
    BackupRepo_ImportAwardsTx_def BackupRepo_ImportSolvesTx_def BackupRepo_ImportFileMetadataTx_def
  by (intro valid_rules keeps_challenges_upserts)+

lemma import_challenges_Inr:
  assumes "forE chs (\<lambda>ch. bindE (mapErr f (sql_tx (upsert_challenge (cexp_Challenge ch)))) (\<lambda>_.
      forE (cexp_Hints ch) (\<lambda>h. mapErr g (sql_tx (upsert_hint h))))) w = (Inr u, w')"
    "distinct (map (\<lambda>ch. chal_ID (cexp_Challenge ch)) chs)"
    "\<forall>ch \<in> set chs. chal_ID (cexp_Challenge ch) \<notin> challenges_id ` set (challenges (store w))"
  shows "map toEntityChallengeFromRow (challenges (store w')) = map toEntityChallengeFromRow (challenges (store w)) @
    map (\<lambda>ch. (cexp_Challenge ch)\<lparr>chal_FlagFormatRegex := None\<rparr>) chs"
  using assms
proof (induction chs arbitrary: w)
  case (Cons ch chs)
  let ?k = "\<lambda>ch. bindE (mapErr f (sql_tx (upsert_challenge (cexp_Challenge ch)))) (\<lambda>_.
      forE (cexp_Hints ch) (\<lambda>h. mapErr g (sql_tx (upsert_hint h))))"
  from Cons.prems(1) obtain v w1 w2 where 1: "sql_tx (upsert_challenge (cexp_Challenge ch)) w = (Inr v, w1)"
    "forE (cexp_Hints ch) (\<lambda>h. mapErr g (sql_tx (upsert_hint h))) w1 = (Inr (), w2)" "forE chs ?k w2 = (Inr u, w')"
    unfolding forE_Inr_Cons bindE_Inr_iff mapErr_Inr_iff by blast
  from sql_tx_query [OF 1(1)] have q: "upsert_challenge (cexp_Challenge ch) (store w) = (Inr v, store w1)" by blast
  obtain r where r: "challenges (store w1) = challenges (store w) @ [r]"
    "toEntityChallengeFromRow r = (cexp_Challenge ch)\<lparr>chal_FlagFormatRegex := None\<rparr>" "challenges_id r = chal_ID (cexp_Challenge ch)"
    using upsert_challenge_fresh [OF q] Cons.prems(3) by auto
  have "db_keeps (\<lambda>d. challenges d = challenges (store w1)) (forE (cexp_Hints ch) (\<lambda>h. mapErr g (sql_tx (upsert_hint h))))"
    by (intro valid_rules keeps_challenges_upserts)
  from keepsD [OF this _ 1(2)] have w2: "challenges (store w2) = challenges (store w) @ [r]" using r by simp
  have "\<forall>c \<in> set chs. chal_ID (cexp_Challenge c) \<notin> challenges_id ` set (challenges (store w2))"
    using Cons.prems(2,3) r(3) w2 by (auto simp: image_iff)
  with Cons.IH [OF 1(3)] Cons.prems(2) w2 r(2) show ?case by simp
qed simp

lemma importZIPRunTx_challenges:
  assumes "importZIPRunTx data opts w = (Inr u, w')" "io_EraseExisting opts"
    "distinct (map (\<lambda>ch. chal_ID (cexp_Challenge ch)) (bd_Challenges data))"
  shows "map toEntityChallengeFromRow (challenges (store w')) =
    map (\<lambda>ch. (cexp_Challenge ch)\<lparr>chal_FlagFormatRegex := None\<rparr>) (bd_Challenges data)"
proof -
  from assms(1) obtain w1 w2 where 1: "bindE (if io_EraseExisting opts then mapErr (wrap ''BackupUseCase - ImportZIP - EraseAllTablesTx'')
      BackupRepo_EraseAllTablesTx else returnE ()) (\<lambda>_. importZIPRunTxImports data opts) w1 = (Inr u, w2)" "store w' = store w2"
    unfolding importZIPRunTx_def by (rule run_transaction_Inr)
  from 1(1) assms(2) obtain a3 w3 a4 w4 a5 w5 a6 w6 a7 w7 a8 w8 a9 w9 where run: "BackupRepo_EraseAllTablesTx w1 = (Inr a3, w3)"
    "BackupRepo_ImportCompetitionTx (bd_Competition data) w3 = (Inr a4, w4)"
    "BackupRepo_ImportChallengesTx data w4 = (Inr a5, w5)" "BackupRepo_ImportTeamsTx data opts w5 = (Inr a6, w6)"
    "BackupRepo_ImportUsersTx data opts w6 = (Inr a7, w7)" "BackupRepo_ImportAwardsTx data w7 = (Inr a8, w8)"
    "BackupRepo_ImportSolvesTx data w8 = (Inr a9, w9)" "BackupRepo_ImportFileMetadataTx data w9 = (Inr u, w2)"
    unfolding importZIPRunTxImports_def bindE_Inr_iff mapErr_Inr_iff by (auto split: if_splits)
  have "challenges (store w4) = []"
    using EraseAllTablesTx_Inr [OF run(1)] keepsD [OF keeps_challenges_imports(1) _ run(2), of "[]"] by simp
  then have "map toEntityChallengeFromRow (challenges (store w5)) =
      map (\<lambda>ch. (cexp_Challenge ch)\<lparr>chal_FlagFormatRegex := None\<rparr>) (bd_Challenges data)"
    using import_challenges_Inr [OF run(3) [unfolded BackupRepo_ImportChallengesTx_def] assms(3)] by simp
  moreover have "challenges (store w2) = challenges (store w5)"
    using keepsD [OF keeps_challenges_imports(2) _ run(4), of "challenges (store w5)"]
      keepsD [OF keeps_challenges_imports(3) _ run(5), of "challenges (store w5)"]
      keepsD [OF keeps_challenges_imports(4) _ run(6), of "challenges (store w5)"]
      keepsD [OF keeps_challenges_imports(5) _ run(7), of "challenges (store w5)"]
      keepsD [OF keeps_challenges_imports(6) _ run(8), of "challenges (store w5)"] by simp
  ultimately show ?thesis by (simp add: 1(2))
qed

text \<open>C35 What a backup brings back of the challenges: after an export and an import that erases first there are exactly the
  challenges that were visible, each as it was but for its flag format, which is lost; the hidden ones are gone.\<close>

theorem Export_Import_challenges:
  assumes "Backup_Export eo w = (Inr data, w1)" "distinct (map challenges_id (challenges (store w)))"
    and "importZIPRunTx data opts w2 = (Inr u, w3)" "io_EraseExisting opts"
  shows "map toEntityChallengeFromRow (challenges (store w3)) =
    map (\<lambda>c. (toEntityChallengeFromRow c)\<lparr>chal_FlagFormatRegex := None\<rparr>)
      (filter (\<lambda>c. challenges_is_hidden c = Some False) (challenges (store w)))"
proof -
  let ?vis = "filter (\<lambda>c. challenges_is_hidden c = Some False) (challenges (store w))"
  have data: "map cexp_Challenge (bd_Challenges data) = map toEntityChallengeFromRow ?vis"
    using Backup_Export_Inr [OF assms(1)] by simp
  have "map (\<lambda>ch. chal_ID (cexp_Challenge ch)) (bd_Challenges data) = map challenges_id ?vis"
    using arg_cong [OF data, of "map chal_ID"] by (simp add: comp_def toEntityChallengeFromRow_def)
  moreover have "distinct (map challenges_id ?vis)" using assms(2) by (rule distinct_map_filter)
  ultimately have "distinct (map (\<lambda>ch. chal_ID (cexp_Challenge ch)) (bd_Challenges data))" by simp
  from importZIPRunTx_challenges [OF assms(3,4) this] show ?thesis
    using arg_cong [OF data, of "map (\<lambda>c. c\<lparr>chal_FlagFormatRegex := None\<rparr>)"] by (simp add: comp_def)
qed

text \<open>The challenges and the competition of the demonstration, exported and imported again.\<close>

definition demo_export :: "export_options" where
  "demo_export = \<lparr>eo_IncludeUsers = False, eo_IncludeTeams = False, eo_IncludeSolves = False, eo_IncludeAwards = False,
     eo_IncludeFiles = False\<rparr>"

definition demo_import :: "import_options" where
  "demo_import = \<lparr>io_EraseExisting = True, io_ConflictMode = ConflictModeOverwrite, io_ValidateFiles = False\<rparr>"

definition demo_data :: backup_data where
  "demo_data = (case fst (Backup_Export demo_export demo_world) of Inr data \<Rightarrow> data | Inl _ \<Rightarrow> undefined)"

lemma demo_data_run: "fst (Backup_Export demo_export demo_world) = Inr demo_data"
  "fst (importZIPRunTx demo_data demo_import demo_world) = Inr ()"
  "map (\<lambda>c. chal_ID (cexp_Challenge c)) (bd_Challenges demo_data) = [31, 33]"
  by code_simp+

theorem Export_Import_challenges_witness:
  "map chal_ID (map toEntityChallengeFromRow (challenges (store (snd (importZIPRunTx demo_data demo_import demo_world))))) = [31, 33]
   \<and> map challenges_id (challenges (store demo_world)) = [31, 32, 33]"
proof -
  obtain w1 where e: "Backup_Export demo_export demo_world = (Inr demo_data, w1)" using demo_data_run(1) by (metis surj_pair fst_conv)
  obtain w3 where i: "importZIPRunTx demo_data demo_import demo_world = (Inr (), w3)" using demo_data_run(2) by (metis surj_pair fst_conv)
  have ids: "map challenges_id (challenges (store demo_world)) = [31, 32, 33]" by code_simp
  have vis: "map challenges_id (filter (\<lambda>c. challenges_is_hidden c = Some False) (challenges (store demo_world))) = [31, 33]" by code_simp
  have "io_EraseExisting demo_import" by (simp add: demo_import_def)
  from Export_Import_challenges [OF e _ i this] ids vis show ?thesis
    by (simp add: i comp_def toEntityChallengeFromRow_def)
qed

text \<open>C34 An import that reports an error, at whatever point, has changed neither the database nor the stored files.\<close>

theorem ImportZIP_all_or_nothing:
  assumes "Backup_ImportZIP uc zr opts (ob, w) = (Inl e, (ob', w'))"
  shows "ob' = ob \<and> store w' = store w"
  using assms by (rule ImportZIP_Inl)

text \<open>The archive that the export makes.\<close>

lemma ExportZIP_reads:
  assumes "Backup_ExportZIP uc eo (ob, w) = (Inr (Inr zr), s1)"
    and "\<And>data w1. Backup_Export eo w = (Inr data, w1) \<Longrightarrow> bu_json_Decode uc (bu_json_Encode uc data) = Inr data"
  obtains data w1 where "Backup_Export eo w = (Inr data, w1)" "importZIPReadBackup uc zr = Inr data"
proof -
  from assms(1) have "exportZIPWorker uc eo (ob, w) = (Inr zr, s1)" by (simp add: Backup_ExportZIP_def)
  then obtain data w1 rest where 1: "Backup_Export eo w = (Inr data, w1)" "zr = writeBackupJSON uc data @ rest"
    unfolding exportZIPWorker_def bindE_Inr_iff inWorld_def by (auto simp: bindE_Inr_iff split: prod.splits if_splits)
  with assms(2) have "importZIPReadBackup uc zr = Inr data" by (simp add: writeBackupJSON_def zip_entry_def)
  with 1 that show thesis by blast
qed

text \<open>The server cannot restore its own archives: the export of a board with a team, imported with the erasure of what is
  there, always fails, on every database, because the teams are inserted before the users that lead them.\<close>

theorem own_archive_not_restorable:
  assumes export: "Backup_ExportZIP uc eo (ob, w) = (Inr (Inr zr), s1)" "eo_IncludeTeams eo"
    and json: "\<forall>data w1. Backup_Export eo w = (Inr data, w1) \<longrightarrow> bu_json_Decode uc (bu_json_Encode uc data) = Inr data"
    and team: "filter live (teams (store w)) \<noteq> []" and erase: "io_EraseExisting opts"
  shows "\<exists>e w'. Backup_ImportZIP uc (Inr zr) opts (ob2, w2) = (Inl e, (ob2, w')) \<and> store w' = store w2"
proof -
  obtain data w1 where data: "Backup_Export eo w = (Inr data, w1)" "importZIPReadBackup uc zr = Inr data"
    using ExportZIP_reads [OF export(1)] json by blast
  have "bd_Teams data \<noteq> []" using Backup_Export_Inr [OF data(1)] export(2) team by blast
  from ImportZIP_erase_needs_no_teams [OF erase data(2) this] show ?thesis .
qed

definition demo_export_zip :: "export_options" where
  "demo_export_zip = \<lparr>eo_IncludeUsers = False, eo_IncludeTeams = True, eo_IncludeSolves = False, eo_IncludeAwards = True,
     eo_IncludeFiles = True\<rparr>"

definition demo_backup :: "filesystem backup_uc" where
  "demo_backup = \<lparr>bu_storage = FilesystemProvider, bu_sha256 = \<lambda>s. s, bu_uuid_String = \<lambda>_. ''id'', bu_RFC3339 = \<lambda>_. ''now'',
     bu_json_Encode = \<lambda>_. ''json'', bu_json_Decode = \<lambda>_. (case fst (Backup_Export demo_export_zip demo_world) of
        Inr data \<Rightarrow> Inr data | Inl e \<Rightarrow> Inl e), bu_order = \<lambda>ts. ts\<rparr>"

lemma demo_zip: "map_sum (\<lambda>_. ()) (map_sum (\<lambda>_. ()) (map zf_Name)) (fst (Backup_ExportZIP demo_backup demo_export_zip (demo_disk, demo_world))) =
    Inr (Inr [''backup.json'', ''README.md''])"
  by code_simp

theorem own_archive_not_restorable_witness:
  "\<exists>zr e. fst (Backup_ExportZIP demo_backup demo_export_zip (demo_disk, demo_world)) = Inr (Inr zr) \<and>
    fst (Backup_ImportZIP demo_backup (Inr zr) demo_import (demo_disk, demo_world)) = Inl e"
proof -
  obtain r s1 where r: "Backup_ExportZIP demo_backup demo_export_zip (demo_disk, demo_world) = (r, s1)" by (metis surj_pair)
  from demo_zip [unfolded r] obtain zr where "r = Inr (Inr zr)" by (cases r; cases "projr r") auto
  with r have z: "Backup_ExportZIP demo_backup demo_export_zip (demo_disk, demo_world) = (Inr (Inr zr), s1)" by simp
  have "bu_json_Decode demo_backup (bu_json_Encode demo_backup data) = Inr data"
    if "Backup_Export demo_export_zip demo_world = (Inr data, w1)" for data w1
    using that by (simp add: demo_backup_def)
  moreover have "filter live (teams (store demo_world)) \<noteq> []" by code_simp
  ultimately show ?thesis
    using own_archive_not_restorable [OF z _ _ _ _, of demo_import demo_disk demo_world] z
    by (auto simp: demo_export_zip_def demo_import_def)
qed

text \<open>The same archive: the database is erased before the first team fails, and all of it is back.\<close>

lemma demo_import_fails: "map_sum (\<lambda>_. ()) (\<lambda>_. ()) (fst (Backup_ImportZIP demo_backup (Inr [zip_entry ''backup.json'' ''json'']) demo_import
    (demo_disk, demo_world))) = Inl ()"
  by code_simp

theorem ImportZIP_all_or_nothing_witness:
  "store (snd (snd (Backup_ImportZIP demo_backup (Inr [zip_entry ''backup.json'' ''json'']) demo_import (demo_disk, demo_world)))) =
    store demo_world \<and> teams (store demo_world) \<noteq> []"
proof -
  obtain r ob' w' where r: "Backup_ImportZIP demo_backup (Inr [zip_entry ''backup.json'' ''json'']) demo_import (demo_disk, demo_world) =
      (r, (ob', w'))" by (metis prod_cases3)
  from demo_import_fails [unfolded r] obtain e where "r = Inl e" by (cases r) auto
  from ImportZIP_all_or_nothing [OF r [unfolded this]] have "store w' = store demo_world" ..
  moreover have "teams (store demo_world) \<noteq> []" by code_simp
  ultimately show ?thesis by (simp add: r)
qed

end
