(* ===== verification/CTF_RestMore.thy ===== *)
theory CTF_RestMore
  imports CTF_RestAdmin CTF_Notifications CTF_Ratings CTF_Statistics CTF_Backup
begin

text \<open>
  The controllers of notifications, ratings, statistics, files and backups. Those of files and backups work on the pair of
  the storage and the world; a multipart form is what parsing it gave.
\<close>

section \<open>Notifications\<close>

record notification_request =
  nreq_Content :: string
  nreq_IsPinned :: "bool option"
  nreq_Title :: string
  nreq_Type :: "string option"

record user_notification_request =
  unreq_Content :: string
  unreq_Title :: string
  unreq_Type :: "string option"

definition or_default :: "'a option \<Rightarrow> 'a \<Rightarrow> 'a" where
  "or_default p x = (case p of None \<Rightarrow> x | Some y \<Rightarrow> y)"

definition GetNotifications :: "server \<Rightarrow> int option \<Rightarrow> int option \<Rightarrow> (world, nat \<times> notification list) handler" where
  "GetNotifications srv page perPage r =
     bindE (OnError (Notification_GetGlobal (or_default page 1) (or_default perPage 20))) RenderOK"

definition GetUserNotifications :: "server \<Rightarrow> int option \<Rightarrow> int option \<Rightarrow> (world, nat \<times> user_notification list) handler" where
  "GetUserNotifications srv page perPage r =
     bindE (RequireUser r) (\<lambda>u.
     bindE (OnError (Notification_GetUserNotifications (user_ID u) (or_default page 1) (or_default perPage 20))) RenderOK)"

definition PatchUserNotificationsIDRead :: "server \<Rightarrow> string \<Rightarrow> (world, nat \<times> string) handler" where
  "PatchUserNotificationsIDRead srv ID r =
     bindE (RequireUser r) (\<lambda>u.
     bindE (srv_ParseUUID srv ID) (\<lambda>n.
     bindE (OnError (Notification_MarkAsRead n (user_ID u))) (\<lambda>_. RenderOK ''marked as read'')))"

definition PostAdminNotifications :: "server \<Rightarrow> notification_request body \<Rightarrow> (world, nat \<times> notification) handler" where
  "PostAdminNotifications srv body r =
     bindE (DecodeAndValidate body) (\<lambda>q.
     bindE (OnError (Notification_CreateGlobal (nreq_Title q) (nreq_Content q)
       (or_default (nreq_Type q) NotificationInfo) (or_default (nreq_IsPinned q) False))) RenderCreated)"

definition PostAdminNotificationsUserUserID ::
  "server \<Rightarrow> string \<Rightarrow> user_notification_request body \<Rightarrow> (world, nat \<times> user_notification) handler" where
  "PostAdminNotificationsUserUserID srv userID body r =
     bindE (srv_ParseUUID srv userID) (\<lambda>u.
     bindE (DecodeAndValidate body) (\<lambda>q.
     bindE (OnError (Notification_CreatePersonal u (unreq_Title q) (unreq_Content q)
       (or_default (unreq_Type q) NotificationInfo))) RenderCreated))"

definition PutAdminNotificationsID :: "server \<Rightarrow> string \<Rightarrow> notification_request body \<Rightarrow> (world, nat \<times> notification) handler" where
  "PutAdminNotificationsID srv ID body r =
     bindE (srv_ParseUUID srv ID) (\<lambda>n.
     bindE (DecodeAndValidate body) (\<lambda>q.
     bindE (OnError (Notification_Update n (nreq_Title q) (nreq_Content q)
       (or_default (nreq_Type q) NotificationInfo) (or_default (nreq_IsPinned q) False))) RenderOK))"

definition DeleteAdminNotificationsID :: "server \<Rightarrow> string \<Rightarrow> (world, nat \<times> unit) handler" where
  "DeleteAdminNotificationsID srv ID r =
     bindE (srv_ParseUUID srv ID) (\<lambda>n. bindE (OnError (Notification_Delete n)) (\<lambda>_. RenderNoContent))"

section \<open>Ratings\<close>

record ctf_event_request =
  ereq_EndTime :: time
  ereq_Name :: string
  ereq_StartTime :: time
  ereq_Weight :: "rat option"

definition getPagePerPageRatings :: "int option \<Rightarrow> int option \<Rightarrow> int \<times> int" where
  "getPagePerPageRatings page perPage =
     (let p = (case page of Some n \<Rightarrow> if 0 < n then n else 1 | None \<Rightarrow> 1);
          pp = (case perPage of Some n \<Rightarrow> if 0 < n then n else 20 | None \<Rightarrow> 20)
      in (p, if 100 < pp then 100 else pp))"

definition GetRatings :: "server \<Rightarrow> int option \<Rightarrow> int option \<Rightarrow> (world, nat \<times> global_rating list \<times> int) handler" where
  "GetRatings srv page perPage r =
     (case getPagePerPageRatings page perPage of (p, pp) \<Rightarrow> bindE (OnError (Rating_GetGlobalRatings p pp)) RenderOK)"

definition GetRatingsTeamID :: "server \<Rightarrow> string \<Rightarrow> (world, nat \<times> global_rating \<times> team_rating list) handler" where
  "GetRatingsTeamID srv ID r =
     bindE (srv_ParseUUID srv ID) (\<lambda>t. bindE (OnError (Rating_GetTeamRating t)) RenderOK)"

definition GetAdminCtfEvents :: "server \<Rightarrow> (world, nat \<times> ctf_event list) handler" where
  "GetAdminCtfEvents srv r = bindE (OnError Rating_GetCTFEvents) RenderOK"

definition PostAdminCtfEvents :: "server \<Rightarrow> numeric \<Rightarrow> ctf_event_request body \<Rightarrow> (world, nat \<times> ctf_event) handler" where
  "PostAdminCtfEvents srv numeric body r =
     bindE (DecodeAndValidate body) (\<lambda>q.
     bindE (OnError (Rating_CreateCTFEvent numeric (ereq_Name q) (ereq_StartTime q) (ereq_EndTime q)
       (or_default (ereq_Weight q) 1))) RenderCreated)"

definition PostAdminCtfEventsIDFinalize :: "server \<Rightarrow> numeric \<Rightarrow> string \<Rightarrow> (world, nat \<times> unit) handler" where
  "PostAdminCtfEventsIDFinalize srv numeric ID r =
     bindE (srv_ParseUUID srv ID) (\<lambda>e. bindE (OnError (Rating_FinalizeCTFEvent numeric e)) (\<lambda>_. RenderNoContent))"

section \<open>Statistics\<close>

definition defaultScoreboardHistoryLimit :: int where "defaultScoreboardHistoryLimit = 10"

definition maxScoreboardHistoryLimit :: int where "maxScoreboardHistoryLimit = 100"

definition GetStatisticsGeneral :: "server \<Rightarrow> (world, nat \<times> general_stats) handler" where
  "GetStatisticsGeneral srv r = bindE (OnError Stats_GetGeneralStats) RenderOK"

definition GetStatisticsChallenges :: "server \<Rightarrow> (world, nat \<times> challenge_stats list) handler" where
  "GetStatisticsChallenges srv r = bindE (OnError Stats_GetChallengeStats) RenderOK"

definition GetStatisticsChallengesId :: "server \<Rightarrow> stats_uc \<Rightarrow> uuid \<Rightarrow> (world, nat \<times> challenge_detail_stats) handler" where
  "GetStatisticsChallengesId srv stats ID r =
     bindE (OnError (Stats_GetChallengeDetailStats stats (ax_uuid_String (srv_ext srv) ID))) (\<lambda>s. case s of
       None \<Rightarrow> throwE (Refuse (handle_error (Sentinel ErrChallengeNotFound)))
     | Some s \<Rightarrow> RenderOK s)"

definition GetStatisticsScoreboard :: "server \<Rightarrow> stats_uc \<Rightarrow> string \<Rightarrow> (world, nat \<times> scoreboard_history_entry list) handler" where
  "GetStatisticsScoreboard srv stats q r =
     (let lim = (if q = '''' then defaultScoreboardHistoryLimit else case Atoi q of
           Some n \<Rightarrow> if 0 < n then (if maxScoreboardHistoryLimit < n then maxScoreboardHistoryLimit else n)
                     else defaultScoreboardHistoryLimit
         | None \<Rightarrow> defaultScoreboardHistoryLimit)
      in bindE (OnError (Stats_GetScoreboardHistory stats lim)) RenderOK)"

definition GetScoreboardGraph :: "server \<Rightarrow> stats_uc \<Rightarrow> int option \<Rightarrow> (world, nat \<times> scoreboard_graph) handler" where
  "GetScoreboardGraph srv stats topParam r =
     (let topN = (case topParam of
           Some n \<Rightarrow> if 0 < n then (if maxScoreboardHistoryLimit < n then maxScoreboardHistoryLimit else n)
                     else defaultScoreboardHistoryLimit
         | None \<Rightarrow> defaultScoreboardHistoryLimit)
      in bindE (OnError (Stats_GetScoreboardGraph stats topN)) RenderOK)"

section \<open>Files\<close>

text \<open>The file of a form: its name, size, content type and content; with it the other values that the code reads.\<close>

datatype 'f form = BadForm | NoFile | Form 'f

record upload_form =
  uf_Filename :: string
  uf_Size :: int
  uf_ContentType :: string
  uf_File :: reader
  uf_type :: string

definition PostAdminChallengesChallengeIDFiles ::
  "server \<Rightarrow> 'ob file_uc \<Rightarrow> string \<Rightarrow> upload_form form \<Rightarrow> ('ob \<times> world, nat \<times> file_info) handler" where
  "PostAdminChallengesChallengeIDFiles srv uc challengeID form r =
     bindE (srv_ParseUUID srv challengeID) (\<lambda>c.
     case form of
       BadForm \<Rightarrow> throwE (RenderError 400 ''failed to parse form'')
     | NoFile \<Rightarrow> throwE (RenderError 400 ''file is required'')
     | Form f \<Rightarrow>
        let fileType = (if uf_type f = ''writeup'' then FileTypeWriteup else FileTypeChallenge);
            contentType = (if uf_ContentType f = '''' then ''application/octet-stream'' else uf_ContentType f)
        in bindE (OnError (File_Upload uc c fileType (uf_Filename f) (uf_File f) (uf_Size f) contentType)) RenderCreated)"

text \<open>A file that is not there is answered with a text of its own.\<close>

definition file_error :: "goerr \<Rightarrow> http_stop" where
  "file_error e = (if e = GoPanic then Panicked
     else if is_sentinel e ErrFileNotFound then RenderError 404 ''file not found'' else Refuse (handle_error e))"

definition on_file_error :: "('s, goerr, 'a) sem \<Rightarrow> ('s, 'a) rest" where
  "on_file_error m s = (case m s of (Inl e, s') \<Rightarrow> (Inl (file_error e), s') | (Inr x, s') \<Rightarrow> (Inr x, s'))"

definition DeleteAdminFilesID :: "server \<Rightarrow> 'ob file_uc \<Rightarrow> string \<Rightarrow> ('ob \<times> world, nat \<times> unit) handler" where
  "DeleteAdminFilesID srv uc ID r =
     bindE (srv_ParseUUID srv ID) (\<lambda>f. bindE (on_file_error (File_Delete uc f)) (\<lambda>_. RenderNoContent))"

definition GetFilesIDDownload :: "server \<Rightarrow> 'ob file_uc \<Rightarrow> string \<Rightarrow> ('ob \<times> world, nat \<times> string) handler" where
  "GetFilesIDDownload srv uc ID r =
     bindE (srv_ParseUUID srv ID) (\<lambda>f. bindE (on_file_error (File_GetDownloadURL uc f)) RenderOK)"

definition GetChallengesChallengeIDFiles :: "server \<Rightarrow> string \<Rightarrow> string option \<Rightarrow> (world, nat \<times> file_info list) handler" where
  "GetChallengesChallengeIDFiles srv challengeID typ r =
     bindE (srv_ParseUUID srv challengeID) (\<lambda>c.
     bindE (OnError (File_GetByChallengeID c (if typ = Some ''writeup'' then FileTypeWriteup else FileTypeChallenge))) RenderOK)"

text \<open>The reply is what the reader yields; if it ends in an error, the reply has been started.\<close>

definition Download :: "'ob file_uc \<Rightarrow> string \<Rightarrow> ('ob \<times> world, nat \<times> reader) handler" where
  "Download uc path r =
     (if path = '''' then throwE (RenderError 400 ''path is required'')
      else bindE (OnError (File_Download uc path)) RenderOK)"

section \<open>Backups\<close>

record export_params =
  xp_IncludeUsers :: "bool option"
  xp_IncludeTeams :: "bool option"
  xp_IncludeSolves :: "bool option"
  xp_IncludeAwards :: "bool option"

definition GetAdminExport :: "export_params \<Rightarrow> (world, nat \<times> backup_data) handler" where
  "GetAdminExport params r =
     (let opts = \<lparr>eo_IncludeUsers = or_default (xp_IncludeUsers params) False,
            eo_IncludeTeams = or_default (xp_IncludeTeams params) True,
            eo_IncludeSolves = or_default (xp_IncludeSolves params) False,
            eo_IncludeAwards = or_default (xp_IncludeAwards params) True, eo_IncludeFiles = False\<rparr>
      in bindE (OnError (Backup_Export opts)) RenderOK)"

text \<open>The archive is read while it is sent: an export that fails is a reply of status 200 without an archive.\<close>

definition GetAdminExportZip :: "'ob backup_uc \<Rightarrow> bool option \<Rightarrow> ('ob \<times> world, nat \<times> (goerr + zip_file list)) handler" where
  "GetAdminExportZip uc includeFiles r =
     (let opts = \<lparr>eo_IncludeUsers = False, eo_IncludeTeams = True, eo_IncludeSolves = False, eo_IncludeAwards = True,
            eo_IncludeFiles = or_default includeFiles True\<rparr>
      in bindE (OnError (Backup_ExportZIP uc opts)) RenderOK)"

record import_form =
  if_File :: reader
  if_erase_existing :: string
  if_validate_files :: string
  if_conflict_mode :: string

text \<open>\<open>unzip\<close> is \<open>zip.NewReader\<close> on the bytes of the file.\<close>

definition PostAdminImport ::
  "'ob backup_uc \<Rightarrow> (string \<Rightarrow> goerr + zip_file list) \<Rightarrow> import_form form \<Rightarrow> ('ob \<times> world, nat \<times> import_result) handler" where
  "PostAdminImport uc unzip form r =
     (case form of
        BadForm \<Rightarrow> throwE (RenderError 400 ''failed to parse form'')
      | NoFile \<Rightarrow> throwE (RenderError 400 ''file is required'')
      | Form f \<Rightarrow>
         bindE (failIf (snd (if_File f) \<noteq> None) (RenderError 400 ''failed to read file'')) (\<lambda>_.
         let opts = \<lparr>io_EraseExisting = (if_erase_existing f = ''true''),
               io_ConflictMode = (if if_conflict_mode f = '''' then ConflictModeOverwrite else if_conflict_mode f),
               io_ValidateFiles = (if_validate_files f = ''true'')\<rparr>
         in bindE (OnError (Backup_ImportZIP uc (unzip (fst (if_File f))) opts)) RenderOK))"

end
