(* ===== verification/CTF_RestMoreProps.thy ===== *)
theory CTF_RestMoreProps
  imports CTF_RestMore CTF_RestProps CTF_StatisticsProps
begin

text \<open>
  Two public replies that tell more than they should: the history of the scoreboard during a freeze, and the statistics of the
  challenges.
\<close>

definition uncached :: "world \<Rightarrow> bool" where
  "uncached w \<longleftrightarrow> (\<forall>key. redis_lookup w key = None)"

lemma GetOrLoad_uncached:
  assumes "GetOrLoad enc dec key ttl m w = (Inr x, w')" "uncached w"
  obtains w2 where "m (use_fault w) = (Inr x, w2)"
  using GetOrLoad_Inr [OF assms(1)] assms(2) by (auto simp: uncached_def)

lemma Repo_GetScoreboardHistory_Inr:
  assumes "StatisticsRepository_GetScoreboardHistory n w = (Inr hs, w')"
  obtains rows where "sqlc_GetScoreboardHistory n (store w) = (Inr rows, store w')"
    "hs = map (\<lambda>(t, name, points, tm). \<lparr>shist_TeamID = t, shist_TeamName = name, shist_Points = points,
       shist_Timestamp = ptrTimeToTime tm\<rparr>) rows"
  using assms unfolding StatisticsRepository_GetScoreboardHistory_def bindE_Inr_iff int32E_Inr mapErr_Inr_iff sql_Inr_iff
  by auto

lemma history_entries_last:
  fixes rows :: "(uuid \<times> string \<times> int \<times> time option) list"
  defines "hs \<equiv> map (\<lambda>(t, name, points, tm). \<lparr>shist_TeamID = t, shist_TeamName = name, shist_Points = points,
       shist_Timestamp = ptrTimeToTime tm\<rparr>) rows"
  assumes "filter (\<lambda>h. shist_TeamID h = t) hs \<noteq> []"
  shows "filter (\<lambda>r. fst r = t) rows \<noteq> []"
    "shist_Points (last (filter (\<lambda>h. shist_TeamID h = t) hs)) = fst (snd (snd (last (filter (\<lambda>r. fst r = t) rows))))"
proof -
  have f: "filter (\<lambda>h. shist_TeamID h = t) hs = map (\<lambda>(t, name, points, tm). \<lparr>shist_TeamID = t, shist_TeamName = name,
      shist_Points = points, shist_Timestamp = ptrTimeToTime tm\<rparr>) (filter (\<lambda>r. fst r = t) rows)"
    by (simp add: hs_def filter_map comp_def case_prod_unfold)
  with assms(2) show ne: "filter (\<lambda>r. fst r = t) rows \<noteq> []" by auto
  show "shist_Points (last (filter (\<lambda>h. shist_TeamID h = t) hs)) = fst (snd (snd (last (filter (\<lambda>r. fst r = t) rows))))"
    unfolding f last_map [OF ne] by (simp add: case_prod_unfold)
qed

text \<open>The freeze of the scoreboard does not reach the statistics: \<open>GET /statistics/scoreboard\<close>, which is open to everybody, ends
  for every team it shows at the score of the team as it is now, whether or not the competition is frozen.\<close>

theorem statistics_ignore_freeze:
  assumes "GetStatisticsScoreboard srv stats q r w = (Inr (s, rows), w')" "uncached w"
    "distinct (map teams_id (teams (store w)))" "filter (\<lambda>h. shist_TeamID h = t) rows \<noteq> []"
  shows "shist_Points (last (filter (\<lambda>h. shist_TeamID h = t) rows)) = team_score (store w) t \<and>
    route ''GET'' ''/statistics/scoreboard'' [] ''GetStatisticsScoreboard'' \<in> set (NewRouter n)"
proof -
  from assms(1) obtain lim w1 where "Stats_GetScoreboardHistory stats lim w = (Inr rows, w1)"
    by (auto simp: GetStatisticsScoreboard_def bindE_Inr_iff OnError_Inr_iff RenderOK_def Let_def)
  then obtain k key w2 where "StatisticsRepository_GetScoreboardHistory k (use_fault w) = (Inr rows, w2)"
    unfolding Stats_GetScoreboardHistory_def Let_def by (auto elim!: GetOrLoad_uncached [OF _ assms(2)])
  then obtain raw d where raw: "sqlc_GetScoreboardHistory k (store w) = (Inr raw, d)"
    "rows = map (\<lambda>(t, name, points, tm). \<lparr>shist_TeamID = t, shist_TeamName = name, shist_Points = points,
       shist_Timestamp = ptrTimeToTime tm\<rparr>) raw"
    by (rule Repo_GetScoreboardHistory_Inr) simp
  have "shist_Points (last (filter (\<lambda>h. shist_TeamID h = t) rows)) = team_score (store w) t"
    using history_entries_last [of t raw] assms(4) history_last [OF raw(1) assms(3), of t] unfolding raw(2) by simp
  moreover have "route ''GET'' ''/statistics/scoreboard'' [] ''GetStatisticsScoreboard'' \<in> set (NewRouter n)"
    unfolding NewRouter_def setupPublicRoutes_def by simp
  ultimately show ?thesis ..
qed

text \<open>The demonstration, seen after its freeze; the only solve came after it too.\<close>

definition demo_frozen_world :: world where
  "demo_frozen_world = (demo_world\<lparr>clock := 70000000, store := demo_db\<lparr>
     solves := [\<lparr>solves_id = 51, solves_user_id = 2, solves_team_id = 11, solves_challenge_id = 31,
       solves_solved_at = Some 60000000\<rparr>]\<rparr>\<rparr>)"

definition demo_stats :: stats_uc where
  "demo_stats = \<lparr>xu_uuid_Parse = \<lambda>_. None, xu_order = \<lambda>ts. ts\<rparr>"

lemma demo_frozen_board:
  "map_sum (\<lambda>_. ()) (map (\<lambda>e. (sb_TeamID e, sb_Points e)))
     (fst (SolveUseCase_GetScoreboard \<lparr>su_uuid = \<lambda>_. ''id'', su_scoreboardCache = None, su_broadcaster = True\<rparr> None demo_frozen_world))
   = Inr [(12, 70), (11, 0)]"
  by code_simp

theorem statistics_ignore_freeze_witness:
  "\<forall>srv r. \<exists>rows. fst (GetStatisticsScoreboard srv demo_stats '''' r demo_frozen_world) = Inr (200, rows) \<and>
    shist_Points (last (filter (\<lambda>h. shist_TeamID h = 11) rows)) = 500"
proof (intro allI)
  fix srv :: server and r
  let ?rows = "[\<lparr>shist_TeamID = 11, shist_TeamName = ''alpha'', shist_Points = 500, shist_Timestamp = 60000000\<rparr>,
    \<lparr>shist_TeamID = 12, shist_TeamName = ''delta'', shist_Points = 70, shist_Timestamp = 9\<rparr>]"
  have "fst (Stats_GetScoreboardHistory demo_stats 10 demo_frozen_world) = Inr ?rows" by code_simp
  then obtain w' where run: "GetStatisticsScoreboard srv demo_stats '''' r demo_frozen_world = (Inr (200, ?rows), w')"
    by (cases "Stats_GetScoreboardHistory demo_stats 10 demo_frozen_world")
      (simp add: GetStatisticsScoreboard_def defaultScoreboardHistoryLimit_def OnError_def RenderOK_def bindE_def)
  have "uncached demo_frozen_world" by (simp add: uncached_def demo_frozen_world_def demo_world_def world_of_def redis_lookup_def)
  moreover have "distinct (map teams_id (teams (store demo_frozen_world)))" "team_score (store demo_frozen_world) 11 = 500" by code_simp+
  ultimately show "\<exists>rows. fst (GetStatisticsScoreboard srv demo_stats '''' r demo_frozen_world) = Inr (200, rows) \<and>
    shist_Points (last (filter (\<lambda>h. shist_TeamID h = 11) rows)) = 500"
    using statistics_ignore_freeze [OF run, of 11] run by simp
qed

text \<open>The statistics of the challenges are public and cover hidden challenges: the reply of \<open>GET /statistics/challenges\<close> names every
  challenge there is, by its title.\<close>

theorem statistics_show_hidden:
  assumes "GetStatisticsChallenges srv r w = (Inr (s, rows), w')" "uncached w"
  shows "(\<lambda>x. (cstats_ID x, cstats_Title x)) ` set rows = (\<lambda>c. (challenges_id c, challenges_title c)) ` set (challenges (store w)) \<and>
    route ''GET'' ''/statistics/challenges'' [] ''GetStatisticsChallenges'' \<in> set (NewRouter n)"
proof -
  from assms(1) obtain w1 where "Stats_GetChallengeStats w = (Inr rows, w1)"
    by (auto simp: GetStatisticsChallenges_def bindE_Inr_iff OnError_Inr_iff RenderOK_def)
  then obtain w2 where "StatisticsRepository_GetChallengeStats (use_fault w) = (Inr rows, w2)"
    unfolding Stats_GetChallengeStats_def by (auto elim!: GetOrLoad_uncached [OF _ assms(2)])
  then have "(\<lambda>x. (cstats_ID x, cstats_Title x)) ` set rows = (\<lambda>c. (challenges_id c, challenges_title c)) ` set (challenges (store w))"
    by (auto simp: StatisticsRepository_GetChallengeStats_def bindE_Inr_iff sql_Inr_iff sqlc_GetChallengeStats_def image_image)
  moreover have "route ''GET'' ''/statistics/challenges'' [] ''GetStatisticsChallenges'' \<in> set (NewRouter n)"
    unfolding NewRouter_def setupPublicRoutes_def by simp
  ultimately show ?thesis ..
qed

theorem statistics_show_hidden_witness:
  "\<forall>srv r. \<exists>rows. fst (GetStatisticsChallenges srv r demo_world) = Inr (200, rows) \<and> (32, ''shadow'') \<in> (\<lambda>x. (cstats_ID x, cstats_Title x)) ` set rows \<and>
    map challenges_is_hidden (filter (\<lambda>c. challenges_id c = 32) (challenges (store demo_world))) = [Some True]"
proof (intro allI)
  fix srv :: server and r
  have "isl (fst (Stats_GetChallengeStats demo_world)) = False" by code_simp
  then obtain rows w1 where "Stats_GetChallengeStats demo_world = (Inr rows, w1)"
    by (cases "Stats_GetChallengeStats demo_world") (auto simp: isl_def split: sum.splits, metis Inr_Inl_False sum.exhaust_sel)
  then have run: "GetStatisticsChallenges srv r demo_world = (Inr (200, rows), w1)"
    by (simp add: GetStatisticsChallenges_def OnError_def RenderOK_def bindE_def)
  have "uncached demo_world" by (simp add: uncached_def demo_world_def world_of_def redis_lookup_def)
  moreover have "(32, ''shadow'') \<in> (\<lambda>c. (challenges_id c, challenges_title c)) ` set (challenges (store demo_world))"
    "map challenges_is_hidden (filter (\<lambda>c. challenges_id c = 32) (challenges (store demo_world))) = [Some True]" by code_simp+
  ultimately show "\<exists>rows. fst (GetStatisticsChallenges srv r demo_world) = Inr (200, rows) \<and>
    (32, ''shadow'') \<in> (\<lambda>x. (cstats_ID x, cstats_Title x)) ` set rows \<and>
    map challenges_is_hidden (filter (\<lambda>c. challenges_id c = 32) (challenges (store demo_world))) = [Some True]"
    using statistics_show_hidden [OF run, of 1] run by simp
qed

section \<open>A hidden challenge, a missing notification\<close>

text \<open>Neither the route nor the use case looks at \<open>IsHidden\<close>: who knows the identifier can solve a hidden challenge.\<close>

theorem hidden_challenge_solved:
  "fst (serve demo_server demo_submit_chain
     (PostChallengesIDSubmit demo_server (ax_uuid_String demo_ext 32) (Body ''2''))
     (demo_request ''Token dave'') demo_http_world) = Inr (200, ''flag accepted'') \<and>
   map challenges_is_hidden (filter (\<lambda>c. challenges_id c = 32) (challenges (store demo_http_world))) = [Some True]"
  by (rule conjI; code_simp)

text \<open>The error that there is no such notification has no status of its own.\<close>

theorem missing_notification_500:
  "case fst (PutAdminNotificationsID demo_server (ax_uuid_String demo_ext 999)
       (Body \<lparr>nreq_Content = ''c'', nreq_IsPinned = None, nreq_Title = ''t'', nreq_Type = None\<rparr>) (demo_request ''Token root'') demo_http_world) of
     Inl (Refuse r) \<Rightarrow> resp_status r = 500 | _ \<Rightarrow> False"
  by code_simp

end
