(* ===== verification/CTF_Hub.thy ===== *)
theory CTF_Hub
  imports CTF_Prelude "HOL-Library.Sublist"
begin

text \<open>
  \<open>pkg/websocket/hub.go\<close>, \<open>client.go\<close> and \<open>controller/websocket\<close>: the hub, its clients and their two pumps.
  Each goroutine is cut where another may run; \<open>hub_step\<close> is one such part and an execution is a sequence of
  them. A client is a pointer, its fields are in \<open>hub_conns\<close>. A message is its JSON text. What redis delivers on
  the channel of the hub waits in \<open>hub_sub\<close>; a publication reaches every subscriber, this process included.
\<close>

section \<open>Clients\<close>

text \<open>\<open>ReadPump\<close>: before \<open>Register\<close> has returned, reading, in \<open>Unregister\<close>, about to close the connection, gone.\<close>

datatype read_pump = RdStart | RdLoop | RdUnregister | RdClose | RdGone

text \<open>\<open>WritePump\<close>: not started, in its \<open>select\<close>, in the inner loop with the messages of the frame so far, gone.
  The messages of a frame are separated by newlines.\<close>

datatype write_pump = WrStart | WrSelect | WrDrain "string list" | WrGone

record hub_client =
  hc_send :: "string list"
  hc_closed :: bool
  hc_open :: bool
  hc_reader :: read_pump
  hc_writer :: write_pump
  hc_out :: "string list list"

definition send_capacity :: nat where "send_capacity = 256"

definition NewClient :: hub_client where
  "NewClient = \<lparr>hc_send = [], hc_closed = False, hc_open = True, hc_reader = RdStart, hc_writer = WrStart, hc_out = []\<rparr>"

section \<open>The hub\<close>

text \<open>\<open>hub_waiting\<close> are the calls of \<open>BroadcastEvent\<close> that have queued their item and have not yet published it.
  \<open>hub_panic\<close> records a send on a closed channel or a second \<open>close\<close>.\<close>

record hub =
  hub_conns :: "nat \<Rightarrow> hub_client option"
  hub_clients :: "nat list"
  hub_broadcast :: "string list"
  hub_clientCount :: int
  hub_running :: bool
  hub_waiting :: "string list"
  hub_subscribed :: bool
  hub_sub :: "string list"
  hub_panic :: bool

definition broadcast_capacity :: nat where "broadcast_capacity = 256"

definition NewHub :: hub where
  "NewHub = \<lparr>hub_conns = \<lambda>_. None, hub_clients = [], hub_broadcast = [], hub_clientCount = 0, hub_running = True,
     hub_waiting = [], hub_subscribed = True, hub_sub = [], hub_panic = False\<rparr>"

definition set_conn :: "nat \<Rightarrow> hub_client \<Rightarrow> hub \<Rightarrow> hub" where
  "set_conn c cl h = h\<lparr>hub_conns := (hub_conns h)(c \<mapsto> cl)\<rparr>"

text \<open>\<open>select { case client.send <- data: default: }\<close>\<close>

definition try_send :: "string \<Rightarrow> nat \<Rightarrow> hub \<Rightarrow> hub" where
  "try_send data c h = (case hub_conns h c of
     None \<Rightarrow> h\<lparr>hub_panic := True\<rparr>
   | Some cl \<Rightarrow>
       if hc_closed cl then h\<lparr>hub_panic := True\<rparr>
       else if length (hc_send cl) < send_capacity then set_conn c (cl\<lparr>hc_send := hc_send cl @ [data]\<rparr>) h
       else h)"

text \<open>The order in which Go walks the clients does not matter: each send touches one client.\<close>

definition broadcastToClients :: "string \<Rightarrow> hub \<Rightarrow> hub" where
  "broadcastToClients data h = fold (try_send data) (hub_clients h) h"

definition close_send :: "nat \<Rightarrow> hub \<Rightarrow> hub" where
  "close_send c h = (case hub_conns h c of
     None \<Rightarrow> h\<lparr>hub_panic := True\<rparr>
   | Some cl \<Rightarrow> if hc_closed cl then h\<lparr>hub_panic := True\<rparr> else set_conn c (cl\<lparr>hc_closed := True\<rparr>) h)"

definition unregisterClient :: "nat \<Rightarrow> hub \<Rightarrow> hub" where
  "unregisterClient c h =
     (if c \<in> set (hub_clients h)
      then let h' = close_send c (h\<lparr>hub_clients := removeAll c (hub_clients h)\<rparr>)
        in h'\<lparr>hub_clientCount := hub_clientCount h' - 1\<rparr>
      else h)"

definition registerClient :: "string \<Rightarrow> nat \<Rightarrow> hub \<Rightarrow> hub" where
  "registerClient welcome c h = try_send welcome c
     (h\<lparr>hub_clients := List.insert c (hub_clients h), hub_clientCount := hub_clientCount h + 1\<rparr>)"

text \<open>\<open>BroadcastEvent\<close>: the item is queued unless the queue stays full, then published once it was handed out or after five
  seconds; \<open>SubscribeToRedis\<close> passes on what redis delivers.\<close>

definition BroadcastEvent_queue :: "string \<Rightarrow> hub \<Rightarrow> hub option" where
  "BroadcastEvent_queue d h =
     (if length (hub_broadcast h) < broadcast_capacity
      then Some (h\<lparr>hub_broadcast := hub_broadcast h @ [d], hub_waiting := hub_waiting h @ [d]\<rparr>) else None)"

definition BroadcastEvent_publish :: "string \<Rightarrow> bool \<Rightarrow> hub \<Rightarrow> hub" where
  "BroadcastEvent_publish d ok h =
     h\<lparr>hub_waiting := remove1 d (hub_waiting h), hub_sub := (if ok then hub_sub h @ [d] else hub_sub h)\<rparr>"

definition Hub_Broadcast :: "string \<Rightarrow> hub \<Rightarrow> hub option" where
  "Hub_Broadcast d h = (if length (hub_broadcast h) < broadcast_capacity
     then Some (h\<lparr>hub_broadcast := hub_broadcast h @ [d]\<rparr>) else None)"

definition SubscribeToRedis :: "string \<Rightarrow> hub \<Rightarrow> hub option" where
  "SubscribeToRedis d h = (case hub_sub h of [] \<Rightarrow> None | d' # rest \<Rightarrow>
     if hub_subscribed h \<and> d' = d then Hub_Broadcast d (h\<lparr>hub_sub := rest\<rparr>) else None)"

definition Accept_client :: "nat \<Rightarrow> hub \<Rightarrow> hub option" where
  "Accept_client c h = (case hub_conns h c of None \<Rightarrow> Some (set_conn c NewClient h) | Some _ \<Rightarrow> None)"

section \<open>Pumps\<close>

text \<open>What one turn of \<open>WritePump\<close> may do; \<open>ok\<close> is whether its call on the connection succeeds. A receive from the
  closed channel in the inner loop yields an empty message: the loop does not look whether the channel is closed.\<close>

definition writer_stops :: "hub_client \<Rightarrow> hub_client" where
  "writer_stops cl = cl\<lparr>hc_writer := WrGone, hc_open := False\<rparr>"

definition WritePump :: "bool \<Rightarrow> hub_client \<Rightarrow> hub_client option" where
  "WritePump ok cl = (case hc_writer cl of
     WrSelect \<Rightarrow> (case hc_send cl of
         m # rest \<Rightarrow> Some (if ok then cl\<lparr>hc_send := rest, hc_writer := WrDrain [m]\<rparr> else writer_stops (cl\<lparr>hc_send := rest\<rparr>))
       | [] \<Rightarrow> if hc_closed cl then Some (writer_stops cl) else None)
   | WrDrain f \<Rightarrow> (case hc_send cl of
         m # rest \<Rightarrow> Some (if ok then cl\<lparr>hc_send := rest, hc_writer := WrDrain (f @ [m])\<rparr> else writer_stops (cl\<lparr>hc_send := rest\<rparr>))
       | [] \<Rightarrow>
           if hc_closed cl then Some (if ok then cl\<lparr>hc_writer := WrDrain (f @ [''''])\<rparr> else writer_stops cl)
           else Some (if ok then cl\<lparr>hc_writer := WrSelect, hc_out := hc_out cl @ [f]\<rparr> else writer_stops cl))
   | _ \<Rightarrow> None)"

text \<open>The ticker.\<close>

definition WritePump_ping :: "bool \<Rightarrow> hub_client \<Rightarrow> hub_client option" where
  "WritePump_ping ok cl = (if hc_writer cl = WrSelect then Some (if ok then cl else writer_stops cl) else None)"

text \<open>Reading fails: the peer has closed, or it sent nothing for \<open>pongWait\<close>.\<close>

definition ReadPump_fails :: "hub_client \<Rightarrow> hub_client option" where
  "ReadPump_fails cl = (if hc_reader cl = RdLoop then Some (cl\<lparr>hc_reader := RdUnregister\<rparr>) else None)"

definition ReadPump_closes :: "hub_client \<Rightarrow> hub_client option" where
  "ReadPump_closes cl = (if hc_reader cl = RdClose then Some (cl\<lparr>hc_reader := RdGone, hc_open := False\<rparr>) else None)"

section \<open>Steps\<close>

datatype hub_event =
    Accepted nat
  | Registered nat string
  | Unregistered nat
  | Broadcasted string
  | Stopped
  | Written nat
  | ReadFailed nat
  | ReaderClosed nat
  | Queued string
  | GaveUp string
  | Published string bool
  | Received string
  | PeerPublished string
  | Unsubscribed

inductive hub_step :: "hub \<Rightarrow> hub_event \<Rightarrow> hub \<Rightarrow> bool" where
  HandleWS: "Accept_client c h = Some h' \<Longrightarrow> hub_step h (Accepted c) h'"
| Register: "hub_running h \<Longrightarrow> hub_conns h c = Some cl \<Longrightarrow> hc_reader cl = RdStart \<Longrightarrow>
    hub_step h (Registered c welcome) (registerClient welcome c (set_conn c (cl\<lparr>hc_reader := RdLoop, hc_writer := WrSelect\<rparr>) h))"
| Unregister: "hub_running h \<Longrightarrow> hub_conns h c = Some cl \<Longrightarrow> hc_reader cl = RdUnregister \<Longrightarrow>
    hub_step h (Unregistered c) (unregisterClient c (set_conn c (cl\<lparr>hc_reader := RdClose\<rparr>) h))"
| Broadcast: "hub_running h \<Longrightarrow> hub_broadcast h = d # rest \<Longrightarrow>
    hub_step h (Broadcasted d) (broadcastToClients d (h\<lparr>hub_broadcast := rest\<rparr>))"
| Stop: "hub_running h \<Longrightarrow> hub_step h Stopped (h\<lparr>hub_running := False\<rparr>)"
| Write: "hub_conns h c = Some cl \<Longrightarrow> WritePump ok cl = Some cl' \<Longrightarrow> ok \<longrightarrow> hc_open cl \<Longrightarrow>
    hub_step h (Written c) (set_conn c cl' h)"
| Ping: "hub_conns h c = Some cl \<Longrightarrow> WritePump_ping ok cl = Some cl' \<Longrightarrow> ok \<longrightarrow> hc_open cl \<Longrightarrow>
    hub_step h (Written c) (set_conn c cl' h)"
| ReadFail: "hub_conns h c = Some cl \<Longrightarrow> ReadPump_fails cl = Some cl' \<Longrightarrow> hub_step h (ReadFailed c) (set_conn c cl' h)"
| ReadClose: "hub_conns h c = Some cl \<Longrightarrow> ReadPump_closes cl = Some cl' \<Longrightarrow> hub_step h (ReaderClosed c) (set_conn c cl' h)"
| Queue: "BroadcastEvent_queue d h = Some h' \<Longrightarrow> hub_step h (Queued d) h'"
| GiveUp: "BroadcastEvent_queue d h = None \<Longrightarrow> hub_step h (GaveUp d) h"
| Publish: "d \<in> set (hub_waiting h) \<Longrightarrow> ok \<longrightarrow> hub_subscribed h \<Longrightarrow>
    hub_step h (Published d ok) (BroadcastEvent_publish d ok h)"
| Receive: "SubscribeToRedis d h = Some h' \<Longrightarrow> hub_step h (Received d) h'"
| Peer: "hub_subscribed h \<Longrightarrow> hub_step h (PeerPublished d) (h\<lparr>hub_sub := hub_sub h @ [d]\<rparr>)"
| Unsubscribe: "hub_step h Unsubscribed (h\<lparr>hub_subscribed := False\<rparr>)"

inductive hub_run :: "hub \<Rightarrow> hub_event list \<Rightarrow> hub \<Rightarrow> bool" for h0 where
  hub_run_Nil: "hub_run h0 [] h0"
| hub_run_snoc: "hub_run h0 es h \<Longrightarrow> hub_step h e h' \<Longrightarrow> hub_run h0 (es @ [e]) h'"

section \<open>What an execution did\<close>

text \<open>The items the loop of the hub handed out, and the calls of \<open>BroadcastEvent\<close> that did not give up.\<close>

definition broadcasts :: "hub_event list \<Rightarrow> string list" where
  "broadcasts es = List.map_filter (\<lambda>e. case e of Broadcasted d \<Rightarrow> Some d | _ \<Rightarrow> None) es"

definition queued :: "hub_event list \<Rightarrow> string list" where
  "queued es = List.map_filter (\<lambda>e. case e of Queued d \<Rightarrow> Some d | _ \<Rightarrow> None) es"

definition published :: "hub_event list \<Rightarrow> string list" where
  "published es = List.map_filter (\<lambda>e. case e of Published d ok \<Rightarrow> Some d | _ \<Rightarrow> None) es"

definition arrived :: "hub_event list \<Rightarrow> string list" where
  "arrived es = List.map_filter (\<lambda>e. case e of Published d ok \<Rightarrow> if ok then Some d else None | PeerPublished d \<Rightarrow> Some d | _ \<Rightarrow> None) es"

text \<open>What the hub offered to a client: the welcome, then the items handed out while it was registered.\<close>

fun offer :: "nat \<Rightarrow> hub_event \<Rightarrow> bool \<times> string list \<Rightarrow> bool \<times> string list" where
  "offer c (Registered c' m) (reg, ms) = (if c' = c then (True, ms @ [m]) else (reg, ms))"
| "offer c (Unregistered c') (reg, ms) = (if c' = c then (False, ms) else (reg, ms))"
| "offer c (Broadcasted d) (reg, ms) = (if reg then (True, ms @ [d]) else (False, ms))"
| "offer c e s = s"

definition offered :: "nat \<Rightarrow> hub_event list \<Rightarrow> string list" where
  "offered c es = snd (fold (offer c) es (False, []))"

text \<open>What the enabled parts do.\<close>

lemma hub_parts:
  "Accept_client c h = Some h' \<longleftrightarrow> hub_conns h c = None \<and> h' = set_conn c NewClient h"
  "BroadcastEvent_queue d h = Some h' \<longleftrightarrow> length (hub_broadcast h) < broadcast_capacity \<and>
     h' = h\<lparr>hub_broadcast := hub_broadcast h @ [d], hub_waiting := hub_waiting h @ [d]\<rparr>"
  "SubscribeToRedis d h = Some h' \<longleftrightarrow> hub_subscribed h \<and> length (hub_broadcast h) < broadcast_capacity \<and>
     (\<exists>rest. hub_sub h = d # rest \<and> h' = h\<lparr>hub_sub := rest, hub_broadcast := hub_broadcast h @ [d]\<rparr>)"
  by (auto simp: Accept_client_def BroadcastEvent_queue_def SubscribeToRedis_def Hub_Broadcast_def split: option.splits list.splits)

end
