(* ===== verification/CTF_HubProps.thy ===== *)
theory CTF_HubProps
  imports CTF_Hub
begin

text \<open>
  The hub over all interleavings: it never panics; each client gets what was offered to it in order, and all of
  it unless a broadcast found its channel full, the channel was closed or the writer ended; what a server broadcasts comes back to it from redis; and a frame that is open when the
  channel is closed is never finished.
\<close>

section \<open>Sending to all clients\<close>

definition push :: "string \<Rightarrow> hub_client \<Rightarrow> hub_client" where
  "push d cl = (if length (hc_send cl) < send_capacity then cl\<lparr>hc_send := hc_send cl @ [d]\<rparr> else cl)"

lemma set_conn_simps [simp]:
  "hub_conns (set_conn c cl h) = (hub_conns h)(c \<mapsto> cl)" "hub_clients (set_conn c cl h) = hub_clients h"
  "hub_broadcast (set_conn c cl h) = hub_broadcast h" "hub_clientCount (set_conn c cl h) = hub_clientCount h"
  "hub_running (set_conn c cl h) = hub_running h" "hub_waiting (set_conn c cl h) = hub_waiting h"
  "hub_subscribed (set_conn c cl h) = hub_subscribed h" "hub_sub (set_conn c cl h) = hub_sub h"
  "hub_panic (set_conn c cl h) = hub_panic h"
  by (simp_all add: set_conn_def)

lemma try_send_open:
  "hub_conns h c = Some cl \<Longrightarrow> \<not> hc_closed cl \<Longrightarrow> try_send d c h = set_conn c (push d cl) h"
  by (simp add: try_send_def push_def set_conn_def fun_upd_idem)

lemma fold_try_send:
  assumes "distinct cs" "\<forall>c \<in> set cs. \<exists>cl. hub_conns h c = Some cl \<and> \<not> hc_closed cl"
  shows "fold (try_send d) cs h =
    h\<lparr>hub_conns := \<lambda>c. if c \<in> set cs then map_option (push d) (hub_conns h c) else hub_conns h c\<rparr>"
  using assms
proof (induction cs arbitrary: h)
  case (Cons c cs)
  from Cons.prems obtain cl where cl: "hub_conns h c = Some cl" "\<not> hc_closed cl" by auto
  have "\<forall>x \<in> set cs. \<exists>y. hub_conns (set_conn c (push d cl) h) x = Some y \<and> \<not> hc_closed y" using Cons.prems by auto
  from Cons.IH [OF _ this] Cons.prems(1) cl show ?case
    by (auto simp: try_send_open set_conn_def fun_eq_iff)
qed simp

section \<open>The hub never panics\<close>

definition client_ok :: "bool \<Rightarrow> hub_client \<Rightarrow> bool" where
  "client_ok reg cl \<longleftrightarrow>
     (reg \<longleftrightarrow> hc_reader cl \<in> {RdLoop, RdUnregister}) \<and> (hc_closed cl \<longleftrightarrow> hc_reader cl \<in> {RdClose, RdGone}) \<and>
     (hc_writer cl = WrStart \<longleftrightarrow> hc_reader cl = RdStart) \<and> length (hc_send cl) \<le> send_capacity \<and>
     (hc_reader cl = RdStart \<longrightarrow> hc_send cl = [] \<and> hc_out cl = [])"

definition hub_inv :: "hub \<Rightarrow> bool" where
  "hub_inv h \<longleftrightarrow> distinct (hub_clients h) \<and> hub_clientCount h = int (length (hub_clients h)) \<and> \<not> hub_panic h \<and>
     length (hub_broadcast h) \<le> broadcast_capacity \<and> (\<forall>c \<in> set (hub_clients h). hub_conns h c \<noteq> None) \<and>
     (\<forall>c cl. hub_conns h c = Some cl \<longrightarrow> client_ok (c \<in> set (hub_clients h)) cl)"

lemma hub_inv_clients:
  assumes "hub_inv h"
  shows "distinct (hub_clients h)" "\<forall>c \<in> set (hub_clients h). \<exists>cl. hub_conns h c = Some cl \<and> \<not> hc_closed cl"
  using assms unfolding hub_inv_def client_ok_def by (blast, fastforce)

lemma hub_invD: "hub_inv h \<Longrightarrow> hub_conns h c = Some cl \<Longrightarrow> client_ok (c \<in> set (hub_clients h)) cl"
  by (simp add: hub_inv_def)

lemma broadcastToClients_inv:
  "hub_inv h \<Longrightarrow> broadcastToClients d h =
    h\<lparr>hub_conns := \<lambda>c. if c \<in> set (hub_clients h) then map_option (push d) (hub_conns h c) else hub_conns h c\<rparr>"
  unfolding broadcastToClients_def using fold_try_send [OF hub_inv_clients] by simp

lemma hub_inv_conn:
  assumes "hub_inv h" "hub_conns h c = Some cl" "client_ok (c \<in> set (hub_clients h)) cl'"
  shows "hub_inv (set_conn c cl' h)"
  using assms by (auto simp: hub_inv_def)

lemma WritePump_cases:
  assumes "WritePump ok cl = Some cl'"
  obtains m rest where "hc_send cl = m # rest" "ok" "hc_writer cl = WrSelect" "cl' = cl\<lparr>hc_send := rest, hc_writer := WrDrain [m]\<rparr>"
  | m rest f where "hc_send cl = m # rest" "ok" "hc_writer cl = WrDrain f" "cl' = cl\<lparr>hc_send := rest, hc_writer := WrDrain (f @ [m])\<rparr>"
  | f where "hc_send cl = []" "hc_closed cl" "ok" "hc_writer cl = WrDrain f" "cl' = cl\<lparr>hc_writer := WrDrain (f @ [''''])\<rparr>"
  | f where "hc_send cl = []" "\<not> hc_closed cl" "ok" "hc_writer cl = WrDrain f"
      "cl' = cl\<lparr>hc_writer := WrSelect, hc_out := hc_out cl @ [f]\<rparr>"
  | cl0 where "cl0 = cl \<or> cl0 = cl\<lparr>hc_send := tl (hc_send cl)\<rparr>" "hc_writer cl = WrSelect \<or> (\<exists>f. hc_writer cl = WrDrain f)"
      "cl' = writer_stops cl0"
proof (cases "hc_writer cl")
  case WrSelect
  note wr = this
  show thesis
  proof (cases "hc_send cl")
    case Nil
    with assms wr that(5) [of cl] show thesis by (simp add: WritePump_def split: if_splits)
  next
    case (Cons m rest)
    with assms wr that(1) that(5) [of "cl\<lparr>hc_send := rest\<rparr>"] show thesis by (simp add: WritePump_def split: if_splits)
  qed
next
  case (WrDrain f)
  note wr = this
  show thesis
  proof (cases "hc_send cl")
    case Nil
    with assms wr that(3,4) that(5) [of cl] show thesis by (simp add: WritePump_def split: if_splits)
  next
    case (Cons m rest)
    with assms wr that(2) that(5) [of "cl\<lparr>hc_send := rest\<rparr>"] show thesis by (simp add: WritePump_def split: if_splits)
  qed
qed (use assms in \<open>simp_all add: WritePump_def\<close>)

lemma client_ok_writer:
  assumes "client_ok r cl" "hc_writer cl \<noteq> WrStart" "hc_reader cl' = hc_reader cl" "hc_closed cl' = hc_closed cl"
    "hc_writer cl' \<noteq> WrStart" "length (hc_send cl') \<le> length (hc_send cl)"
  shows "client_ok r cl'"
  using assms by (simp add: client_ok_def)

lemma client_ok_pumps:
  assumes "client_ok r cl"
  shows "WritePump ok cl = Some cl' \<Longrightarrow> client_ok r cl'" "WritePump_ping ok cl = Some cl' \<Longrightarrow> client_ok r cl'"
    "ReadPump_fails cl = Some cl' \<Longrightarrow> client_ok r cl'" "ReadPump_closes cl = Some cl' \<Longrightarrow> client_ok r cl'"
    "r \<Longrightarrow> client_ok r (push d cl)"
proof -
  show "WritePump ok cl = Some cl' \<Longrightarrow> client_ok r cl'"
    by (erule WritePump_cases; rule client_ok_writer [OF assms]; ((elim disjE exE)?; simp add: writer_stops_def))
qed (use assms in \<open>auto simp: client_ok_def WritePump_ping_def ReadPump_fails_def ReadPump_closes_def writer_stops_def push_def
      split: if_splits\<close>)

lemma hub_inv_broadcast:
  assumes "hub_inv h" "hub_broadcast h = d # rest"
  shows "hub_inv (broadcastToClients d (h\<lparr>hub_broadcast := rest\<rparr>))"
proof -
  have "hub_inv (h\<lparr>hub_broadcast := rest\<rparr>)" using assms by (auto simp: hub_inv_def)
  from broadcastToClients_inv [OF this] assms(1) show ?thesis
    using client_ok_pumps(5) assms(2) unfolding hub_inv_def by (simp split: if_splits) fastforce
qed

lemma hub_inv_register:
  assumes "hub_inv h" "hub_conns h c = Some cl" "hc_reader cl = RdStart"
  shows "hub_inv (registerClient m c (set_conn c (cl\<lparr>hc_reader := RdLoop, hc_writer := WrSelect\<rparr>) h))"
proof -
  have ok: "client_ok (c \<in> set (hub_clients h)) cl" using hub_invD [OF assms(1,2)] .
  then have new: "c \<notin> set (hub_clients h)" "\<not> hc_closed cl" "hc_send cl = []" using assms(3) by (auto simp: client_ok_def)
  then have "client_ok True (push m (cl\<lparr>hc_reader := RdLoop, hc_writer := WrSelect\<rparr>))"
    by (intro client_ok_pumps(5)) (simp_all add: client_ok_def)
  then show ?thesis using assms(1) new by (auto simp: registerClient_def try_send_open hub_inv_def List.insert_def)
qed

lemma hub_inv_unregister:
  assumes "hub_inv h" "hub_conns h c = Some cl" "hc_reader cl = RdUnregister"
  shows "hub_inv (unregisterClient c (set_conn c (cl\<lparr>hc_reader := RdClose\<rparr>) h))"
proof -
  have ok: "client_ok (c \<in> set (hub_clients h)) cl" using hub_invD [OF assms(1,2)] .
  then have c: "c \<in> set (hub_clients h)" "\<not> hc_closed cl" using assms(3) by (auto simp: client_ok_def)
  have "length (removeAll c (hub_clients h)) = length (hub_clients h) - 1"
    using c(1) hub_inv_clients(1) [OF assms(1)] distinct_remove1_removeAll length_remove1 by metis
  then have len: "int (length (removeAll c (hub_clients h))) = int (length (hub_clients h)) - 1"
    using length_pos_if_in_set [OF c(1)] by linarith
  then show ?thesis using assms(1,3) c ok len
    by (auto simp: unregisterClient_def close_send_def Let_def hub_inv_def client_ok_def distinct_removeAll)
qed

lemma hub_inv_step:
  assumes "hub_step h e h'" "hub_inv h" shows "hub_inv h'"
  using assms
proof (induction rule: hub_step.induct)
  case (HandleWS c h h')
  then have "c \<notin> set (hub_clients h)" "h' = set_conn c NewClient h" by (auto simp: hub_inv_def hub_parts)
  with HandleWS show ?case by (auto simp: hub_inv_def NewClient_def client_ok_def)
next
  case (Register h c cl m)
  then show ?case by (intro hub_inv_register)
next
  case (Unregister h c cl)
  then show ?case by (intro hub_inv_unregister)
next
  case (Broadcast h d rest)
  then show ?case by (intro hub_inv_broadcast)
qed (blast intro: hub_inv_conn hub_invD client_ok_pumps | auto simp: hub_inv_def hub_parts BroadcastEvent_publish_def)+

lemma hub_inv_run: "hub_run h0 es h \<Longrightarrow> hub_inv h0 \<Longrightarrow> hub_inv h"
  by (induction rule: hub_run.induct) (auto intro: hub_inv_step)

lemma hub_inv_New: "hub_inv NewHub"
  by (simp add: hub_inv_def NewHub_def)

text \<open>C37 Whatever the interleaving of connections, pumps, broadcasts and redis, the hub never sends on a closed channel nor closes one
  twice, a client it lists has an open channel of at most 256 messages, and the counter is the number of clients.\<close>

theorem hub_never_panics:
  assumes "hub_run NewHub es h"
  shows "\<not> hub_panic h \<and> distinct (hub_clients h) \<and> hub_clientCount h = int (length (hub_clients h)) \<and>
    length (hub_broadcast h) \<le> 256 \<and>
    (\<forall>c \<in> set (hub_clients h). \<exists>cl. hub_conns h c = Some cl \<and> \<not> hc_closed cl \<and> length (hc_send cl) \<le> 256)"
proof -
  have inv: "hub_inv h" using hub_inv_run [OF assms hub_inv_New] .
  moreover have "\<exists>cl. hub_conns h c = Some cl \<and> \<not> hc_closed cl \<and> length (hc_send cl) \<le> 256" if "c \<in> set (hub_clients h)" for c
    using inv hub_inv_clients(2) [OF inv] hub_invD [OF inv] that by (fastforce simp: client_ok_def send_capacity_def)
  ultimately show ?thesis by (simp add: hub_inv_def broadcast_capacity_def)
qed

section \<open>What a client gets\<close>

definition seen :: "hub_client \<Rightarrow> string list" where
  "seen cl = concat (hc_out cl) @ (case hc_writer cl of WrDrain f \<Rightarrow> f | _ \<Rightarrow> []) @ hc_send cl"

definition client_view :: "hub_client \<Rightarrow> string list \<Rightarrow> bool" where
  "client_view cl ms \<longleftrightarrow> subseq (concat (hc_out cl)) ms \<and>
     (\<not> hc_closed cl \<longrightarrow> subseq (seen cl) ms)"

lemma subseq_drop_tail:
  assumes "subseq (xs @ ys @ zs) ms"
  shows "subseq (xs @ zs) ms" "subseq (xs @ tl zs) ms"
proof -
  have "subseq (xs @ zs) (xs @ ys @ zs)" "subseq (xs @ tl zs) (xs @ ys @ zs)"
    by (cases zs, auto intro: list_emb_append_mono)+
  with assms show "subseq (xs @ zs) ms" "subseq (xs @ tl zs) ms" by (blast intro: subseq_order.trans)+
qed

lemmas subseq_drops = subseq_drop_tail subseq_drop_tail(2) [where ys = "[]", simplified]

lemma client_view_pumps:
  assumes "client_view cl ms"
  shows "WritePump ok cl = Some cl' \<Longrightarrow> client_view cl' ms" "WritePump_ping ok cl = Some cl' \<Longrightarrow> client_view cl' ms"
    "ReadPump_fails cl = Some cl' \<Longrightarrow> client_view cl' ms" "ReadPump_closes cl = Some cl' \<Longrightarrow> client_view cl' ms"
proof -
  show "WritePump ok cl = Some cl' \<Longrightarrow> client_view cl' ms"
    by (erule WritePump_cases)
      (use assms in \<open>auto simp: client_view_def writer_stops_def seen_def intro: subseq_drops\<close>)
qed (use assms in \<open>auto simp: client_view_def seen_def WritePump_ping_def ReadPump_fails_def ReadPump_closes_def writer_stops_def
      split: if_splits\<close>)

lemma client_view_push:
  assumes "client_view cl ms" "\<not> hc_closed cl" shows "client_view (push d cl) (ms @ [d])"
proof (cases "length (hc_send cl) < send_capacity")
  case True
  then have "seen (push d cl) = seen cl @ [d]" by (simp add: seen_def push_def)
  with True assms show ?thesis
    by (auto simp: client_view_def push_def intro: subseq_rev_drop_many list_emb_append_mono)
next
  case False
  have "subseq xs ms \<Longrightarrow> subseq xs (ms @ [d])" for xs by (rule subseq_rev_drop_many)
  then show ?thesis using False assms by (auto simp: client_view_def push_def)
qed

definition conn :: "hub \<Rightarrow> nat \<Rightarrow> hub_client" where
  "conn h c = (case hub_conns h c of None \<Rightarrow> NewClient | Some cl \<Rightarrow> cl)"

definition follows :: "hub \<Rightarrow> hub_event list \<Rightarrow> bool" where
  "follows h es \<longleftrightarrow> (\<forall>c. \<exists>ms. fold (offer c) es (False, []) = (c \<in> set (hub_clients h), ms) \<and> client_view (conn h c) ms \<and>
     (hc_reader (conn h c) = RdStart \<longrightarrow> ms = []))"

lemma client_view_New: "client_view NewClient []"
  by (simp add: client_view_def seen_def NewClient_def)

lemma conn_simps:
  "conn (set_conn c cl h) c' = (if c' = c then cl else conn h c')" "hub_conns h c = Some cl \<Longrightarrow> conn h c = cl"
  "conn (h\<lparr>hub_clients := cs, hub_clientCount := k\<rparr>) c = conn h c"
  by (simp_all add: conn_def)

lemma follows_snoc:
  assumes "follows h es"
    and "\<And>c ms. client_view (conn h c) ms \<Longrightarrow> hc_reader (conn h c) = RdStart \<longrightarrow> ms = [] \<Longrightarrow>
      \<exists>ms'. offer c e (c \<in> set (hub_clients h), ms) = (c \<in> set (hub_clients h'), ms') \<and> client_view (conn h' c) ms' \<and>
        (hc_reader (conn h' c) = RdStart \<longrightarrow> ms' = [])"
  shows "follows h' (es @ [e])"
  unfolding follows_def
proof
  fix c
  obtain ms where "fold (offer c) es (False, []) = (c \<in> set (hub_clients h), ms)" "client_view (conn h c) ms"
    "hc_reader (conn h c) = RdStart \<longrightarrow> ms = []" using assms(1) unfolding follows_def by blast
  with assms(2) [OF this(2,3)] show "\<exists>ms. fold (offer c) (es @ [e]) (False, []) = (c \<in> set (hub_clients h'), ms) \<and>
      client_view (conn h' c) ms \<and> (hc_reader (conn h' c) = RdStart \<longrightarrow> ms = [])" by simp
qed

lemma follows_conn:
  assumes "follows h es" "hub_conns h c = Some cl" "\<And>c p. offer c e p = p"
    and "\<And>ms. client_view cl ms \<Longrightarrow> client_view cl' ms" "hc_reader cl' = RdStart \<Longrightarrow> hc_reader cl = RdStart"
  shows "follows (set_conn c cl' h) (es @ [e])"
  by (rule follows_snoc [OF assms(1)]) (use assms(2-) in \<open>auto simp: conn_simps\<close>)

lemma follows_same:
  assumes "follows h es" "\<And>c p. offer c e p = p" "hub_clients h' = hub_clients h" "hub_conns h' = hub_conns h"
  shows "follows h' (es @ [e])"
  by (rule follows_snoc [OF assms(1)]) (use assms(2-) in \<open>auto simp: conn_def\<close>)

lemma reader_kept:
  "WritePump ok cl = Some cl' \<Longrightarrow> hc_reader cl' = hc_reader cl" "WritePump_ping ok cl = Some cl' \<Longrightarrow> hc_reader cl' = hc_reader cl"
  "ReadPump_fails cl = Some cl' \<Longrightarrow> hc_reader cl' \<noteq> RdStart" "ReadPump_closes cl = Some cl' \<Longrightarrow> hc_reader cl' \<noteq> RdStart"
  by (auto simp: WritePump_ping_def ReadPump_fails_def ReadPump_closes_def writer_stops_def elim!: WritePump_cases split: if_splits)

lemma follows_register:
  assumes "follows h es" "hub_inv h" "hub_conns h c = Some cl" "hc_reader cl = RdStart"
  shows "follows (registerClient m c (set_conn c (cl\<lparr>hc_reader := RdLoop, hc_writer := WrSelect\<rparr>) h)) (es @ [Registered c m])"
proof -
  let ?cl = "cl\<lparr>hc_reader := RdLoop, hc_writer := WrSelect\<rparr>"
  have ok: "\<not> hc_closed cl" "hc_send cl = []" "hc_out cl = []" using hub_invD [OF assms(2,3)] assms(4) by (auto simp: client_ok_def)
  then have "client_view (push m ?cl) [m]" by (simp add: client_view_def seen_def push_def)
  moreover have "hc_reader (push m ?cl) \<noteq> RdStart" by (simp add: push_def)
  moreover have "registerClient m c (set_conn c ?cl h) = set_conn c (push m ?cl)
      (set_conn c ?cl h\<lparr>hub_clients := List.insert c (hub_clients h), hub_clientCount := hub_clientCount h + 1\<rparr>)"
    using ok by (simp add: registerClient_def try_send_open)
  ultimately show ?thesis
    by (intro follows_snoc [OF assms(1)]) (use assms(3,4) in \<open>auto simp: conn_simps\<close>)
qed

lemma follows_unregister:
  assumes "follows h es" "hub_inv h" "hub_conns h c = Some cl" "hc_reader cl = RdUnregister"
  shows "follows (unregisterClient c (set_conn c (cl\<lparr>hc_reader := RdClose\<rparr>) h)) (es @ [Unregistered c])"
proof -
  have ok: "\<not> hc_closed cl" "c \<in> set (hub_clients h)" using hub_invD [OF assms(2,3)] assms(4) by (auto simp: client_ok_def)
  then have u: "hub_conns (unregisterClient c (set_conn c (cl\<lparr>hc_reader := RdClose\<rparr>) h)) = (hub_conns h)(c \<mapsto> cl\<lparr>hc_reader := RdClose, hc_closed := True\<rparr>)"
    "hub_clients (unregisterClient c (set_conn c (cl\<lparr>hc_reader := RdClose\<rparr>) h)) = removeAll c (hub_clients h)"
    by (simp_all add: unregisterClient_def close_send_def Let_def)
  have "client_view cl ms \<Longrightarrow> client_view (cl\<lparr>hc_reader := RdClose, hc_closed := True\<rparr>) ms" for ms
    by (simp add: client_view_def)
  with u show ?thesis
    by (intro follows_snoc [OF assms(1)]) (use assms(3,4) in \<open>auto simp: conn_def\<close>)
qed

lemma follows_broadcast:
  assumes "follows h es" "hub_inv h" "hub_broadcast h = d # rest"
  shows "follows (broadcastToClients d (h\<lparr>hub_broadcast := rest\<rparr>)) (es @ [Broadcasted d])"
proof -
  have "hub_inv (h\<lparr>hub_broadcast := rest\<rparr>)" using assms(2,3) by (auto simp: hub_inv_def)
  note b = broadcastToClients_inv [OF this, of d]
  show ?thesis
  proof (rule follows_snoc [OF assms(1)])
    fix c ms
    assume ms: "client_view (conn h c) ms" "hc_reader (conn h c) = RdStart \<longrightarrow> ms = []"
    show "\<exists>ms'. offer c (Broadcasted d) (c \<in> set (hub_clients h), ms) =
        (c \<in> set (hub_clients (broadcastToClients d (h\<lparr>hub_broadcast := rest\<rparr>))), ms') \<and>
        client_view (conn (broadcastToClients d (h\<lparr>hub_broadcast := rest\<rparr>)) c) ms' \<and>
        (hc_reader (conn (broadcastToClients d (h\<lparr>hub_broadcast := rest\<rparr>)) c) = RdStart \<longrightarrow> ms' = [])"
    proof (cases "c \<in> set (hub_clients h)")
      case True
      then obtain cl where cl: "hub_conns h c = Some cl" "\<not> hc_closed cl" using hub_inv_clients(2) [OF assms(2)] by blast
      moreover have "hc_reader (push d cl) \<noteq> RdStart" using hub_invD [OF assms(2) cl(1)] True by (auto simp: client_ok_def push_def)
      ultimately show ?thesis using ms True client_view_push [of cl ms d] by (simp add: b conn_def)
    next
      case False
      with ms show ?thesis by (simp add: b conn_def)
    qed
  qed
qed

lemma follows_accept:
  assumes "follows h es" "Accept_client c h = Some h'"
  shows "follows h' (es @ [Accepted c])"
proof -
  have "conn h' c' = conn h c'" "hub_clients h' = hub_clients h" for c' using assms(2) by (auto simp: conn_def hub_parts)
  then show ?thesis by (intro follows_snoc [OF assms(1)]) simp
qed

lemma follows_step: "hub_step h e h' \<Longrightarrow> hub_inv h \<Longrightarrow> follows h es \<Longrightarrow> follows h' (es @ [e])"
proof (induction rule: hub_step.induct)
  case (Write h c cl ok cl')
  then show ?case by (intro follows_conn [of h es c cl]) (auto simp: reader_kept intro: client_view_pumps)
next
  case (Ping h c cl ok cl')
  then show ?case by (intro follows_conn [of h es c cl]) (auto simp: reader_kept intro: client_view_pumps)
next
  case (ReadFail h c cl cl')
  then show ?case by (intro follows_conn [of h es c cl]) (auto dest: reader_kept intro: client_view_pumps)
next
  case (ReadClose h c cl cl')
  then show ?case by (intro follows_conn [of h es c cl]) (auto dest: reader_kept intro: client_view_pumps)
qed (blast intro: follows_accept follows_register follows_unregister follows_broadcast | 
    (rule follows_same, assumption, simp, (auto simp: hub_parts BroadcastEvent_publish_def) [2]))+

lemma follows_run:
  assumes "hub_run h0 es h" "hub_inv h0" "follows h0 []" shows "follows h es"
  using assms by (induction rule: hub_run.induct) (auto intro: follows_step hub_inv_run)

lemma follows_New: "follows NewHub []"
  by (simp add: follows_def conn_def NewHub_def client_view_New)

lemma client_view_run:
  assumes "hub_run NewHub es h" "hub_conns h c = Some cl" shows "client_view cl (offered c es)"
proof -
  obtain b ms where "fold (offer c) es (False, []) = (b, ms)" "client_view (conn h c) ms"
    using follows_run [OF assms(1) hub_inv_New follows_New] unfolding follows_def by blast
  then show ?thesis by (simp add: offered_def conn_simps(2) [OF assms(2)])
qed

text \<open>While the channel is open and the writer runs, something is lost only at a broadcast that finds the channel full.\<close>

definition client_full :: "nat \<Rightarrow> hub \<Rightarrow> bool" where
  "client_full c h \<longleftrightarrow> c \<in> set (hub_clients h) \<and> (\<exists>cl. hub_conns h c = Some cl \<and> length (hc_send cl) = send_capacity)"

definition complete :: "hub_client \<Rightarrow> string list \<Rightarrow> bool" where
  "complete cl ms \<longleftrightarrow> (\<not> hc_closed cl \<and> hc_writer cl \<noteq> WrGone \<longrightarrow> seen cl = ms)"

lemma complete_pumps:
  assumes "complete cl ms"
  shows "WritePump ok cl = Some cl' \<Longrightarrow> complete cl' ms" "WritePump_ping ok cl = Some cl' \<Longrightarrow> complete cl' ms"
    "ReadPump_fails cl = Some cl' \<Longrightarrow> complete cl' ms" "ReadPump_closes cl = Some cl' \<Longrightarrow> complete cl' ms"
proof -
  show "WritePump ok cl = Some cl' \<Longrightarrow> complete cl' ms"
    by (erule WritePump_cases) (use assms in \<open>auto simp: complete_def writer_stops_def seen_def\<close>)
qed (use assms in \<open>auto simp: complete_def seen_def WritePump_ping_def ReadPump_fails_def ReadPump_closes_def writer_stops_def
      split: if_splits\<close>)

lemma complete_push: "complete cl ms \<Longrightarrow> length (hc_send cl) < send_capacity \<Longrightarrow> complete (push d cl) (ms @ [d])"
  by (auto simp: complete_def push_def seen_def)

lemma offered_snoc:
  assumes "follows h es"
  shows "offered c (es @ [e]) = snd (offer c e (c \<in> set (hub_clients h), offered c es))"
    "hc_reader (conn h c) = RdStart \<Longrightarrow> offered c es = []"
proof -
  obtain ms where "fold (offer c) es (False, []) = (c \<in> set (hub_clients h), ms)" "hc_reader (conn h c) = RdStart \<longrightarrow> ms = []"
    using assms unfolding follows_def by blast
  then show "offered c (es @ [e]) = snd (offer c e (c \<in> set (hub_clients h), offered c es))"
    "hc_reader (conn h c) = RdStart \<Longrightarrow> offered c es = []" by (simp_all add: offered_def)
qed

lemma complete_step:
  assumes "hub_step h e h'" "hub_inv h" "follows h es" "complete (conn h c) (offered c es)"
  shows "complete (conn h' c) (offered c (es @ [e])) \<or> (\<exists>d. e = Broadcasted d) \<and> client_full c h"
  using assms
proof cases
  case (HandleWS c')
  then have "conn h' c = conn h c" by (auto simp: conn_def hub_parts)
  with HandleWS assms show ?thesis by (simp add: offered_snoc(1) [OF assms(3)])
next
  case (Register c' cl m)
  let ?cl = "cl\<lparr>hc_reader := RdLoop, hc_writer := WrSelect\<rparr>"
  have ok: "\<not> hc_closed cl" "hc_send cl = []" "hc_out cl = []" using hub_invD [OF assms(2)] Register by (auto simp: client_ok_def)
  then have "conn h' c = (if c = c' then push m ?cl else conn h c)"
    using Register by (auto simp: registerClient_def try_send_open conn_def)
  moreover have "c = c' \<Longrightarrow> offered c es = []" using offered_snoc(2) [OF assms(3)] Register by (simp add: conn_simps)
  moreover have "complete ?cl []" using ok by (simp add: complete_def seen_def)
  then have "complete (push m ?cl) [m]" using complete_push [of ?cl "[]" m] ok by (simp add: send_capacity_def)
  ultimately show ?thesis using assms(4) Register by (auto simp: offered_snoc(1) [OF assms(3)])
next
  case (Unregister c' cl)
  then have ok: "\<not> hc_closed cl" "c' \<in> set (hub_clients h)" using hub_invD [OF assms(2)] by (auto simp: client_ok_def)
  then have "conn h' c = (if c = c' then cl\<lparr>hc_reader := RdClose, hc_closed := True\<rparr> else conn h c)"
    using Unregister by (auto simp: unregisterClient_def close_send_def Let_def conn_def)
  then show ?thesis using assms(4) Unregister by (auto simp: offered_snoc(1) [OF assms(3)] complete_def)
next
  case (Broadcast d rest)
  have "hub_inv (h\<lparr>hub_broadcast := rest\<rparr>)" using assms(2) Broadcast by (auto simp: hub_inv_def)
  note b = broadcastToClients_inv [OF this, of d]
  show ?thesis
  proof (cases "c \<in> set (hub_clients h)")
    case True
    then obtain cl where cl: "hub_conns h c = Some cl" using hub_inv_clients(2) [OF assms(2)] by blast
    show ?thesis
    proof (cases "length (hc_send cl) < send_capacity")
      case room: True
      with complete_push [OF _ room, of "offered c es" d] cl True Broadcast assms(4) show ?thesis
        by (simp add: b conn_def offered_snoc(1) [OF assms(3)])
    next
      case False
      then have "length (hc_send cl) = send_capacity" using hub_invD [OF assms(2) cl] by (simp add: client_ok_def)
      with True cl Broadcast show ?thesis by (auto simp: client_full_def)
    qed
  next
    case False
    with Broadcast assms(4) show ?thesis by (simp add: b conn_def offered_snoc(1) [OF assms(3)])
  qed
qed (use assms(4) in \<open>auto simp: conn_def hub_parts BroadcastEvent_publish_def offered_snoc(1) [OF assms(3)] intro: complete_pumps\<close>)

lemma complete_run:
  assumes "hub_run NewHub es h"
  shows "complete (conn h c) (offered c es) \<or> (\<exists>es1 d es2 h1. es = es1 @ Broadcasted d # es2 \<and>
      hub_run NewHub es1 h1 \<and> hub_run h1 (Broadcasted d # es2) h \<and> client_full c h1)"
  using assms
proof (induction rule: hub_run.induct)
  case hub_run_Nil
  show ?case by (simp add: complete_def conn_def NewHub_def NewClient_def seen_def offered_def)
next
  case (hub_run_snoc es h e h')
  from hub_run_snoc.IH show ?case
  proof (elim disjE exE conjE)
    assume "complete (conn h c) (offered c es)"
    from complete_step [OF hub_run_snoc.hyps(2) hub_inv_run [OF hub_run_snoc.hyps(1) hub_inv_New]
        follows_run [OF hub_run_snoc.hyps(1) hub_inv_New follows_New] this]
    show ?thesis
    proof (elim disjE conjE exE)
      fix d assume "e = Broadcasted d" "client_full c h"
      moreover have "hub_run h ([] @ [e]) h'" by (rule hub_run.hub_run_snoc [OF hub_run.hub_run_Nil hub_run_snoc.hyps(2)])
      ultimately show ?thesis
        using hub_run_snoc.hyps(1) by (intro disjI2 exI [of _ es] exI [of _ d] exI [of _ "[]"] exI [of _ h]) simp
    qed blast
  next
    fix es1 d es2 h1
    assume *: "es = es1 @ Broadcasted d # es2" "hub_run NewHub es1 h1" "hub_run h1 (Broadcasted d # es2) h" "client_full c h1"
    have "hub_run h1 ((Broadcasted d # es2) @ [e]) h'" by (rule hub_run.hub_run_snoc [OF *(3) hub_run_snoc.hyps(2)])
    with * show ?thesis by (intro disjI2 exI [of _ es1] exI [of _ d] exI [of _ "es2 @ [e]"] exI [of _ h1]) simp
  qed
qed

text \<open>C38 A client is sent only what the hub offered to it (the welcome, and what was broadcast while it was registered), in
  that order and nothing else. While its channel has not been closed and its writer has not ended, a message can be missing
  only because of a broadcast that found its channel with 256 messages in it: otherwise what was sent, the frame being written
  and the channel are together exactly what was offered.\<close>

theorem client_gets_in_order:
  assumes "hub_run NewHub es h" "hub_conns h c = Some cl"
  shows "subseq (concat (hc_out cl)) (offered c es) \<and>
    (\<not> hc_closed cl \<and> hc_writer cl \<noteq> WrGone \<longrightarrow>
      concat (hc_out cl) @ (case hc_writer cl of WrDrain f \<Rightarrow> f | _ \<Rightarrow> []) @ hc_send cl = offered c es \<or>
      (\<exists>es1 d es2 h1 cl1. es = es1 @ Broadcasted d # es2 \<and> hub_run NewHub es1 h1 \<and> hub_run h1 (Broadcasted d # es2) h \<and>
         c \<in> set (hub_clients h1) \<and> hub_conns h1 c = Some cl1 \<and> length (hc_send cl1) = 256))"
  using client_view_run [OF assms] complete_run [OF assms(1), of c]
  by (auto simp: client_view_def complete_def seen_def conn_simps(2) [OF assms(2)] client_full_def send_capacity_def)

section \<open>The echo of redis\<close>

lemma hub_queues_kept [simp]:
  "hub_broadcast (try_send d c h) = hub_broadcast h" "hub_waiting (try_send d c h) = hub_waiting h"
  "hub_sub (try_send d c h) = hub_sub h"
  "hub_broadcast (unregisterClient c h) = hub_broadcast h" "hub_waiting (unregisterClient c h) = hub_waiting h"
  "hub_sub (unregisterClient c h) = hub_sub h"
  by (simp_all add: try_send_def unregisterClient_def close_send_def Let_def split: option.splits)

lemma hub_broadcast_kept [simp]:
  "hub_broadcast (broadcastToClients d h) = hub_broadcast h" "hub_waiting (broadcastToClients d h) = hub_waiting h"
  "hub_sub (broadcastToClients d h) = hub_sub h"
proof -
  have "hub_broadcast (fold (try_send d) cs h) = hub_broadcast h \<and> hub_waiting (fold (try_send d) cs h) = hub_waiting h \<and>
      hub_sub (fold (try_send d) cs h) = hub_sub h" for cs h
    by (induction cs arbitrary: h) simp_all
  then show "hub_broadcast (broadcastToClients d h) = hub_broadcast h" "hub_waiting (broadcastToClients d h) = hub_waiting h"
    "hub_sub (broadcastToClients d h) = hub_sub h" by (simp_all add: broadcastToClients_def)
qed

lemma count_remove1: "d \<in> set xs \<Longrightarrow> count_list (remove1 d xs) x + (if x = d then 1 else 0) = count_list xs x"
  by (induction xs) auto

lemma trace_snoc:
  "broadcasts (es @ [e]) = broadcasts es @ broadcasts [e]" "queued (es @ [e]) = queued es @ queued [e]"
  "published (es @ [e]) = published es @ published [e]" "arrived (es @ [e]) = arrived es @ arrived [e]"
  by (simp_all add: broadcasts_def queued_def published_def arrived_def map_filter_def)

lemmas trace_defs = queued_def published_def arrived_def broadcasts_def map_filter_def

lemma trace_counts_step:
  assumes "hub_step h e h'"
  shows "count_list (queued [e]) d + count_list (hub_waiting h) d = count_list (hub_waiting h') d + count_list (published [e]) d"
    "count_list (queued [e]) d + count_list (arrived [e]) d + count_list (hub_broadcast h) d + count_list (hub_sub h) d =
     count_list (broadcasts [e]) d + count_list (hub_broadcast h') d + count_list (hub_sub h') d"
  using assms
  by (cases rule: hub_step.cases; force simp: trace_defs registerClient_def hub_parts BroadcastEvent_publish_def dest: count_remove1 [of _ _ d])+

lemma trace_counts:
  assumes "hub_run NewHub es h"
  shows "count_list (queued es) d = count_list (hub_waiting h) d + count_list (published es) d \<and>
    count_list (queued es) d + count_list (arrived es) d =
      count_list (broadcasts es) d + count_list (hub_broadcast h) d + count_list (hub_sub h) d"
  using assms
proof (induction rule: hub_run.induct)
  case hub_run_Nil
  show ?case by (simp add: queued_def published_def arrived_def broadcasts_def map_filter_def NewHub_def)
next
  case (hub_run_snoc es h e h')
  with trace_counts_step [OF hub_run_snoc(2), of d] show ?case by (simp add: trace_snoc)
qed

lemma arrived_published:
  assumes "\<forall>d ok. Published d ok \<in> set es \<longrightarrow> ok" "\<forall>d. PeerPublished d \<notin> set es"
  shows "arrived es = published es"
  using assms by (induction es) (auto simp: arrived_def published_def map_filter_simps split: hub_event.splits)

text \<open>C40 Every event is handed out twice: a server hears on redis what it has itself published there and broadcasts it again. When
  redis delivers, no other server publishes and everything queued has been worked off, each event that \<open>BroadcastEvent\<close>
  took went to the clients exactly two times.\<close>

theorem events_handed_out_twice:
  assumes "hub_run NewHub es h" "hub_broadcast h = []" "hub_waiting h = []" "hub_sub h = []"
    and "\<forall>d ok. Published d ok \<in> set es \<longrightarrow> ok" "\<forall>d. PeerPublished d \<notin> set es"
  shows "count_list (broadcasts es) d = 2 * count_list (queued es) d"
  using trace_counts [OF assms(1), of d] arrived_published [OF assms(5,6)] assms(2-4) by simp

section \<open>A frame that is open when the channel is closed\<close>

lemma closed_step:
  assumes "hub_step h e h'" "hub_inv h" "hub_conns h c = Some cl" "hc_closed cl"
  shows "\<exists>cl' ok. hub_conns h' c = Some cl' \<and>
    (cl' = cl \<or> WritePump ok cl = Some cl' \<or> WritePump_ping ok cl = Some cl' \<or> ReadPump_closes cl = Some cl')"
proof -
  have rd: "hc_reader cl \<in> {RdClose, RdGone}" "c \<notin> set (hub_clients h)"
    using hub_invD [OF assms(2,3)] assms(4) by (auto simp: client_ok_def)
  from assms(1) show ?thesis
  proof cases
    case (Register c' cl' m)
    then have "c' \<noteq> c" using rd assms(3) by auto
    with Register assms(3) show ?thesis
      by (auto simp: registerClient_def try_send_def set_conn_def)
  next
    case (Unregister c' cl')
    then have "c' \<noteq> c" using rd assms(3) by auto
    with Unregister assms(3) show ?thesis
      by (auto simp: unregisterClient_def close_send_def Let_def)
  next
    case (Broadcast d rest)
    have "hub_inv (h\<lparr>hub_broadcast := rest\<rparr>)" using assms(2) Broadcast by (auto simp: hub_inv_def)
    from broadcastToClients_inv [OF this, of d] rd assms(3) Broadcast show ?thesis by simp
  next
    case (ReadFail c' cl1 cl2)
    then have "c' \<noteq> c" using rd assms(3) by (auto simp: ReadPump_fails_def)
    with ReadFail assms(3) show ?thesis by simp
  qed (use assms(3) in \<open>auto simp: hub_parts BroadcastEvent_publish_def\<close>)
qed

lemma frame_stuck_step:
  assumes "hub_step h e h'" "hub_inv h" "hub_conns h c = Some cl" "hc_closed cl" "hc_send cl = []"
    and "hc_writer cl = WrGone \<or> (\<exists>g. hc_writer cl = WrDrain (f @ g))"
  shows "\<exists>cl'. hub_conns h' c = Some cl' \<and> hc_closed cl' \<and> hc_send cl' = [] \<and> hc_out cl' = hc_out cl \<and>
    (hc_writer cl' = WrGone \<or> (\<exists>g. hc_writer cl' = WrDrain (f @ g)))"
proof -
  obtain cl' ok where cl': "hub_conns h' c = Some cl'"
    "cl' = cl \<or> WritePump ok cl = Some cl' \<or> WritePump_ping ok cl = Some cl' \<or> ReadPump_closes cl = Some cl'"
    using closed_step [OF assms(1-4)] by blast
  from this(2) have "hc_closed cl' \<and> hc_send cl' = [] \<and> hc_out cl' = hc_out cl \<and>
      (hc_writer cl' = WrGone \<or> (\<exists>g. hc_writer cl' = WrDrain (f @ g)))"
    using assms(4-6)
    by (elim disjE; auto simp: WritePump_def WritePump_ping_def ReadPump_closes_def writer_stops_def split: if_splits)
  with cl'(1) show ?thesis by blast
qed

text \<open>When the channel of a client is closed while its writer is filling a frame, the frame is never sent: from then on, whatever
  happens, the writer only adds empty lines to it, or is gone.\<close>

theorem open_frame_never_sent:
  assumes "hub_run NewHub es h" "hub_conns h c = Some cl" "hc_closed cl" "hc_send cl = []" "hc_writer cl = WrDrain f"
    and "hub_run h es2 h2"
  shows "\<exists>cl2. hub_conns h2 c = Some cl2 \<and> hc_out cl2 = hc_out cl \<and>
    (hc_writer cl2 = WrGone \<or> (\<exists>g. hc_writer cl2 = WrDrain (f @ g)))"
proof -
  have "\<exists>cl2. hub_conns h2 c = Some cl2 \<and> hc_closed cl2 \<and> hc_send cl2 = [] \<and> hc_out cl2 = hc_out cl \<and>
    (hc_writer cl2 = WrGone \<or> (\<exists>g. hc_writer cl2 = WrDrain (f @ g)))"
    using assms(6)
  proof (induction rule: hub_run.induct)
    case hub_run_Nil
    show ?case using assms(2-5) by (intro exI [of _ cl]) auto
  next
    case (hub_run_snoc es' h' e h'')
    then obtain cl' where cl': "hub_conns h' c = Some cl'" "hc_closed cl'" "hc_send cl' = []" "hc_out cl' = hc_out cl"
      "hc_writer cl' = WrGone \<or> (\<exists>g. hc_writer cl' = WrDrain (f @ g))" by blast
    have "hub_inv h'" using hub_inv_run [OF hub_run_snoc(1) hub_inv_run [OF assms(1) hub_inv_New]] .
    from frame_stuck_step [OF hub_run_snoc(2) this cl'(1-3,5)] cl'(4) show ?case by auto
  qed
  then show ?thesis by blast
qed

section \<open>A schedule that computes\<close>

text \<open>The step of an event when the calls on the connections succeed.\<close>

definition on_client :: "nat \<Rightarrow> (hub_client \<Rightarrow> hub_client option) \<Rightarrow> hub \<Rightarrow> hub option" where
  "on_client c f h = (case hub_conns h c of None \<Rightarrow> None | Some cl \<Rightarrow> map_option (\<lambda>cl'. set_conn c cl' h) (f cl))"

fun hub_next :: "hub_event \<Rightarrow> hub \<Rightarrow> hub option" where
  "hub_next (Accepted c) h = Accept_client c h"
| "hub_next (Registered c m) h = (case hub_conns h c of None \<Rightarrow> None | Some cl \<Rightarrow>
     if hub_running h \<and> hc_reader cl = RdStart
     then Some (registerClient m c (set_conn c (cl\<lparr>hc_reader := RdLoop, hc_writer := WrSelect\<rparr>) h)) else None)"
| "hub_next (Unregistered c) h = (case hub_conns h c of None \<Rightarrow> None | Some cl \<Rightarrow>
     if hub_running h \<and> hc_reader cl = RdUnregister
     then Some (unregisterClient c (set_conn c (cl\<lparr>hc_reader := RdClose\<rparr>) h)) else None)"
| "hub_next (Broadcasted d) h = (case hub_broadcast h of [] \<Rightarrow> None | d' # rest \<Rightarrow>
     if hub_running h \<and> d' = d then Some (broadcastToClients d (h\<lparr>hub_broadcast := rest\<rparr>)) else None)"
| "hub_next (Written c) h = on_client c (\<lambda>cl. if hc_open cl then WritePump True cl else None) h"
| "hub_next (ReadFailed c) h = on_client c ReadPump_fails h"
| "hub_next (Queued d) h = BroadcastEvent_queue d h"
| "hub_next (Published d ok) h = (if d \<in> set (hub_waiting h) \<and> (ok \<longrightarrow> hub_subscribed h)
     then Some (BroadcastEvent_publish d ok h) else None)"
| "hub_next (Received d) h = SubscribeToRedis d h"
| "hub_next _ h = None"

lemma hub_next_step: "hub_next e h = Some h' \<Longrightarrow> hub_step h e h'"
  by (cases "(e, h)" rule: hub_next.cases)
    (auto simp: on_client_def split: option.splits list.splits if_splits intro: hub_step.intros)

fun hub_exec :: "hub_event list \<Rightarrow> hub \<Rightarrow> hub option" where
  "hub_exec [] h = Some h"
| "hub_exec (e # es) h = (case hub_next e h of None \<Rightarrow> None | Some h' \<Rightarrow> hub_exec es h')"

lemma hub_exec_run: "hub_exec es h = Some h' \<Longrightarrow> hub_run h0 ds h \<Longrightarrow> hub_run h0 (ds @ es) h'"
proof (induction es arbitrary: h ds)
  case (Cons e es)
  then obtain h1 where 1: "hub_next e h = Some h1" "hub_exec es h1 = Some h'" by (auto split: option.splits)
  from Cons.IH [OF 1(2) hub_run_snoc [OF Cons.prems(2) hub_next_step [OF 1(1)]]] show ?case by simp
qed simp

text \<open>A client connects and an event is broadcast, and comes back from redis.\<close>

definition demo_schedule :: "hub_event list" where
  "demo_schedule = [Accepted 7, Registered 7 ''connected'', Queued ''solve'', Broadcasted ''solve'', Published ''solve'' True,
     Received ''solve'', Broadcasted ''solve'', Written 7, Written 7, Written 7, Written 7]"

definition demo_hub :: hub where
  "demo_hub = (case hub_exec demo_schedule NewHub of Some h \<Rightarrow> h | None \<Rightarrow> NewHub)"

lemma demo_hub_run: "hub_run NewHub demo_schedule demo_hub"
proof -
  have "hub_exec demo_schedule NewHub \<noteq> None" by code_simp
  then have "hub_exec demo_schedule NewHub = Some demo_hub" by (auto simp: demo_hub_def)
  from hub_exec_run [OF this hub_run_Nil] show ?thesis by simp
qed

lemma demo_hub_state: "hub_clients demo_hub = [7]" "hub_broadcast demo_hub = []" "hub_waiting demo_hub = []" "hub_sub demo_hub = []"
  "map_option hc_out (hub_conns demo_hub 7) = Some [[''connected'', ''solve'', ''solve'']]"
  by code_simp+

theorem hub_never_panics_witness: "\<not> hub_panic demo_hub \<and> hub_clientCount demo_hub = 1 \<and> hub_clients demo_hub = [7]"
  using hub_never_panics [OF demo_hub_run] demo_hub_state(1) by simp

theorem client_gets_in_order_witness:
  "\<exists>cl. hub_conns demo_hub 7 = Some cl \<and> concat (hc_out cl) = [''connected'', ''solve'', ''solve''] \<and>
    subseq [''connected'', ''solve'', ''solve''] (offered 7 demo_schedule)"
proof -
  obtain cl where cl: "hub_conns demo_hub 7 = Some cl" using demo_hub_state(5) by auto
  with demo_hub_state(5) have "concat (hc_out cl) = [''connected'', ''solve'', ''solve'']" by simp
  with client_gets_in_order [OF demo_hub_run cl] cl show ?thesis by auto
qed

theorem events_handed_out_twice_witness: "count_list (broadcasts demo_schedule) ''solve'' = 2 \<and> queued demo_schedule = [''solve'']"
proof -
  have "queued demo_schedule = [''solve'']" by (simp add: demo_schedule_def queued_def map_filter_simps)
  moreover have "count_list (broadcasts demo_schedule) ''solve'' = 2 * count_list (queued demo_schedule) ''solve''"
    by (rule events_handed_out_twice [OF demo_hub_run demo_hub_state(2-4)]) (auto simp: demo_schedule_def)
  ultimately show ?thesis by simp
qed

text \<open>The client is taken off while its writer is in the inner loop.\<close>

definition demo_closing :: "hub_event list" where
  "demo_closing = [Accepted 7, Registered 7 ''connected'', Written 7, ReadFailed 7, Unregistered 7]"

definition demo_closed :: hub where
  "demo_closed = (case hub_exec demo_closing NewHub of Some h \<Rightarrow> h | None \<Rightarrow> NewHub)"

lemma demo_closed_run: "hub_run NewHub demo_closing demo_closed" "hub_run demo_closed [Written 7, Written 7] (the (hub_exec [Written 7, Written 7] demo_closed))"
proof -
  have "hub_exec demo_closing NewHub \<noteq> None" by code_simp
  then have "hub_exec demo_closing NewHub = Some demo_closed" by (auto simp: demo_closed_def)
  from hub_exec_run [OF this hub_run_Nil] show "hub_run NewHub demo_closing demo_closed" by simp
  have "hub_exec [Written 7, Written 7] demo_closed \<noteq> None" by code_simp
  then have "hub_exec [Written 7, Written 7] demo_closed = Some (the (hub_exec [Written 7, Written 7] demo_closed))" by simp
  from hub_exec_run [OF this hub_run_Nil] show "hub_run demo_closed [Written 7, Written 7] (the (hub_exec [Written 7, Written 7] demo_closed))"
    by simp
qed

lemma demo_closed_client: "map_option (\<lambda>cl. (hc_closed cl, hc_send cl, hc_writer cl, hc_out cl)) (hub_conns demo_closed 7) =
    Some (True, [], WrDrain [''connected''], [])"
  by code_simp

theorem open_frame_never_sent_witness:
  "\<exists>cl. hub_conns (the (hub_exec [Written 7, Written 7] demo_closed)) 7 = Some cl \<and> hc_out cl = [] \<and>
    (hc_writer cl = WrGone \<or> (\<exists>g. hc_writer cl = WrDrain (''connected'' # g)))"
proof -
  obtain cl where cl: "hub_conns demo_closed 7 = Some cl" "hc_closed cl" "hc_send cl = []" "hc_writer cl = WrDrain [''connected'']"
      "hc_out cl = []"
    using demo_closed_client by auto
  from open_frame_never_sent [OF demo_closed_run(1) cl(1-4) demo_closed_run(2)] cl(5) show ?thesis by simp
qed

end
