(* ===== verification/CTF_Typed.thy ===== *)
theory CTF_Typed
  imports CTF_BoardProps
begin

text \<open>
  The columns of the score tables have the type \<open>integer\<close> of four bytes; the model holds them as unbounded
  integers. Every value that requests store fits.
\<close>

section \<open>The typing of the tables\<close>

definition challenge_typed :: "challenges_row \<Rightarrow> bool" where
  "challenge_typed r \<longleftrightarrow> columns_fit r \<and> int4_ok (challenges_solve_count r)"

definition db_typed :: "db \<Rightarrow> bool" where
  "db_typed d \<longleftrightarrow> chal_keys d \<and> (\<forall>r \<in> set (challenges d). challenge_typed r) \<and>
     (\<forall>a \<in> set (awards d). int4_ok (awards_value a)) \<and>
     (\<forall>h \<in> set (hints d). int4_ok (hints_cost h) \<and> int4_ok (hints_order_index h))"

lemma typedD: "db_typed d \<Longrightarrow> r \<in> set (challenges d) \<Longrightarrow> columns_fit r \<and> int4_ok (challenges_solve_count r)"
  by (simp add: db_typed_def challenge_typed_def)

lemma columns_fit_upd [simp]:
  "columns_fit (r\<lparr>challenges_solve_count := n\<rparr>) = columns_fit r"
  "columns_fit r \<Longrightarrow> columns_fit (r\<lparr>challenges_points := Some p\<rparr>) = int4_ok p"
  by (auto simp: columns_fit_def)

lemma typed_frame:
  "challenges d' = challenges d \<Longrightarrow> awards d' = awards d \<Longrightarrow> hints d' = hints d \<Longrightarrow> db_typed d \<Longrightarrow> db_typed d'"
  by (simp add: db_typed_def chal_keys_def)

lemma keeps_typed_frame:
  assumes "\<And>d. challenges (snd (q d)) = challenges d \<and> awards (snd (q d)) = awards d \<and> hints (snd (q d)) = hints d"
  shows "keeps db_typed q"
  using assms typed_frame by (intro keepsI) (metis snd_conv)

lemma typed_upd:
  assumes "db_typed d" "\<And>r. r \<in> set (challenges d) \<Longrightarrow> P r \<Longrightarrow> challenges_id (f r) = challenges_id r \<and> challenge_typed (f r)"
  shows "db_typed (d\<lparr>challenges := upd_where P f (challenges d)\<rparr>)"
proof -
  have "map challenges_id (upd_where P f (challenges d)) = map challenges_id (challenges d)"
    using assms(2) by (induction "challenges d" rule: list.induct) (auto simp: upd_where_def)
  then show ?thesis using assms by (auto simp: db_typed_def chal_keys_def in_upd_where)
qed

interpretation typed: challenge_store db_typed
proof
  show "keeps db_typed (sqlc_CreateChallenge r)" if "challenges_solve_count r = 0" "columns_fit r" for r
    using that by (intro keepsI)
      (auto simp: sqlc_CreateChallenge_def db_typed_def chal_keys_def challenge_typed_def int4_ok_def list_ex_iff split: if_splits)
  show "keeps db_typed (sqlc_UpdateChallenge r)" if "columns_fit r" for r
    using that by (intro keepsI) (auto simp: sqlc_UpdateChallenge_def challenge_typed_def dest: typedD intro!: typed_upd)
  show "keeps db_typed (sqlc_DeleteChallenge c)" for c
    by (rule keepsI) (auto simp: sqlc_DeleteChallenge_def delete_challenge_cascade_def delete_hints_cascade_def Let_def
        db_typed_def chal_keys_def distinct_del_where split: if_splits)
qed (rule keeps_typed_frame, simp add: sqlc_AddChallengeTag_def sqlc_DeleteChallengeTags_def audit_logs_insert_def)+

interpretation typed_teams: team_store db_typed
  by unfold_locales (rule keeps_typed_frame, auto simp: sqlc_UpdateUserTeamID_def teams_insert_def sqlc_SoftDeleteTeam_def
      update_live_team_def set_team_captain_def sqlc_BanTeam_def sqlc_UnbanTeam_def sqlc_DeleteSolvesByTeamID_def
      sqlc_SetTeamHidden_def sqlc_SetTeamBracket_def team_audit_log_insert_def split: option.splits)+

interpretation typed_admin: admin_store db_typed
proof
  show "keeps db_typed (sqlc_CreateAward r)" if "int4_ok (awards_value r)" for r
    using that by (intro keepsI) (auto simp: sqlc_CreateAward_def db_typed_def chal_keys_def split: if_splits)
  show "keeps db_typed (sqlc_CreateHint h)" if "int4_ok (hints_cost h)" "int4_ok (hints_order_index h)" for h
    using that by (intro keepsI) (auto simp: sqlc_CreateHint_def db_typed_def chal_keys_def split: if_splits)
  show "keeps db_typed (sqlc_UpdateHint i content cost place)" if "int4_ok cost" "int4_ok place" for i content cost place
    using that by (intro keepsI) (auto simp: sqlc_UpdateHint_def db_typed_def chal_keys_def in_upd_where)
  show "keeps db_typed (sqlc_DeleteHint i)" for i
    by (rule keepsI) (auto simp: sqlc_DeleteHint_def delete_hints_cascade_def db_typed_def chal_keys_def)
qed

section \<open>Requests keep it\<close>

lemma typed_registration: "db_keeps db_typed (UserRepo_Create u)"
proof (rule keepsI)
  fix w r w' assume ok: "db_typed (store w)" and run: "UserRepo_Create u w = (r, w')"
  then show "db_typed (store w')"
    by (cases r) (auto dest: repo_Inl_store elim!: UserRepo_Create_Inr intro: typed_frame)
qed

lemma typed_purge: "db_keeps db_typed (TeamRepo_HardDeleteTeams cutoff)"
proof -
  have "keeps db_typed (sqlc_HardDeleteTeamsBefore cutoff)"
    unfolding sqlc_HardDeleteTeamsBefore_def
    by (rule keeps_modifyE) (auto simp: db_typed_def chal_keys_def delete_teams_cascade_def)
  then show ?thesis unfolding TeamRepo_HardDeleteTeams_def by (intro valid_rules)
qed

lemma typed_team_exec: "db_keeps db_typed (team_exec uc q)"
  by (cases q; simp; intro valid_rules typed_registration typed_purge typed_teams.create typed_teams.try_create
    typed_teams.create_solo typed_teams.join typed_teams.leave typed_teams.transfer typed_teams.disband
    typed_teams.kick typed_teams.administration)

lemma typed_increment: "keeps db_typed (sqlc_IncrementChallengeSolveCount c)"
proof (rule keepsI)
  fix d r d' assume ok: "db_typed d" and run: "sqlc_IncrementChallengeSolveCount c d = (r, d')"
  show "db_typed d'"
  proof (cases "find (\<lambda>r. challenges_id r = c) (challenges d)")
    case (Some k)
    have k: "k \<in> set (challenges d)" "challenges_id k = c" using Some by (auto simp: find_Some_iff)
    have "int4_ok (challenges_solve_count x + 1)" if "int4_ok (challenges_solve_count k + 1)" "x \<in> set (challenges d)" "challenges_id x = c" for x
      using ok that k by (auto simp: db_typed_def chal_keys_def distinct_map inj_on_def)
    then show ?thesis
      using ok run Some by (auto simp: sqlc_IncrementChallengeSolveCount_def Let_def challenge_typed_def dest: typedD
          split: if_splits intro!: typed_upd)
  qed (use ok run in \<open>simp add: sqlc_IncrementChallengeSolveCount_def\<close>)
qed

lemma typed_points: "int4_ok p \<Longrightarrow> keeps db_typed (sqlc_UpdateChallengePoints c (Some p))"
  by (rule keepsI) (auto simp: sqlc_UpdateChallengePoints_def challenge_typed_def dest: typedD
      split: if_splits intro!: typed_upd)

lemma typed_record: "db_keeps db_typed (recordSolveTx u t c)"
proof -
  have "keeps db_typed (sqlc_CreateSolve r)" for r
    by (rule keeps_typed_frame) (simp add: sqlc_CreateSolve_def)
  moreover have "db_keeps db_typed (UpdateChallengePointsTx c p)" for p
    unfolding UpdateChallengePointsTx_def by (rule keeps_int32E, intro valid_rules typed_points)
  ultimately show ?thesis
    unfolding recordSolveTx_def submitRecordSolveCheckExisting_def GetSolveByTeamAndChallengeTx_def
      GetChallengeByIDTx_def CreateSolveTx_def IncrementChallengeSolveCountTx_def submitRecordSolveUpdatePointsIfDecay_def
      sqlc_GetSolveByTeamAndChallengeForUpdate_def sqlc_GetChallengeByIDForUpdate_def
    by (intro valid_rules typed_increment)
qed

lemma typed_submit: "db_keeps db_typed (Challenge_SubmitFlag uc c flag u t)"
proof -
  have "db_keeps db_typed (submitCheckFlag uc f ch)" for f ch by (rule submitCheckFlag_keeps) simp
  moreover have "db_keeps db_typed (submitNotifySolve uc tm ch b)" for tm ch b
    unfolding submitNotifySolve_def by (intro valid_rules)
  ultimately show ?thesis
    unfolding Challenge_SubmitFlag_def submitRecordSolve_def Let_def
    by (intro valid_rules submit_reads typed_record typed.cache)
qed

lemma typed_unlock: "db_keeps db_typed (Hint_UnlockHint uc t h)"
proof -
  have "keeps db_typed (sqlc_CreateHintUnlock now i hi tm)" for now i hi tm
    by (rule keeps_typed_frame) (simp add: sqlc_CreateHintUnlock_def)
  moreover have "db_keeps db_typed (InvalidateAll sc)" for sc
    unfolding InvalidateAll_def by (intro valid_rules)
  ultimately show ?thesis
    unfolding Hint_UnlockHint_def unlockHintInTx_def unlockHintCheckAlreadyUnlocked_def unlockHintChargeIfNeeded_def
      CreateHintUnlockTx_def GetHintUnlockByTeamAndHintTx_def HintRepo_GetByID_def sqlc_GetHintByID_def
      sqlc_GetHintUnlockByTeamAndHintForUpdate_def
    by (intro valid_rules typed_teams.reads typed_admin.award_tx)
qed

lemma typed_admin_exec: "db_keeps db_typed (admin_exec q)"
  by (cases q; simp; intro valid_rules typed_admin.award_create typed_admin.hint_create typed_admin.hint_update typed_admin.hint_delete)

lemma typed_board_run:
  assumes "board_run tuc cuc huc d d'" "db_typed d" "crypto_pure cuc"
  shows "db_typed d'"
  using assms
proof induction
  case (create d w title descr cat pts iv mv dc flag hid re ci fmt ts r w')
  then show ?case using keepsD [OF typed.create [OF crypto_pure_keeps [OF create.prems(2)]] _ create.hyps(2)] by simp
next
  case (update d w c title descr cat pts iv mv dc flag hid re ci fmt ts r w')
  then show ?case using keepsD [OF typed.update [OF crypto_pure_keeps [OF update.prems(2)]] _ update.hyps(2)] by simp
qed (blast dest: keepsD [OF typed_team_exec] keepsD [OF typed_submit] keepsD [OF typed_unlock] keepsD [OF typed.delete])+

text \<open>C30 Over every sequence of the requests on teams (registration, creation, joining, leaving, transfer, kick, disbanding,
  bans, visibility, brackets, the purge of deleted teams), submissions, unlocks of hints, creations, updates and deletions of
  challenges and of hints, creations of awards, and requests that leave the tables of the contest alone, whatever fails on the
  way: points, initial and minimal value, decay and solve count of every challenge, the value of every award, the price and
  place of every hint stay numbers that their columns of four bytes can hold, if they were at first. The import of a backup is
  not among these requests, and encrypting a flag is taken not to touch the database.\<close>

theorem contest_run_typed:
  assumes "contest_run tuc cuc huc d d'" "db_typed d" "crypto_pure cuc"
  shows "db_typed d'"
  using assms
proof induction
  case (board d d1 d2)
  then show ?case by (blast intro: typed_board_run)
next
  case (admin d w q r w')
  then show ?case by (blast dest: keepsD [OF typed_admin_exec])
next
  case (other d d1 d2)
  then show ?case by (blast intro: typed_frame [of d2 d1] dest: elsewhere_parts)
qed simp

text \<open>A hint is unlocked, an award is given, and the price of the hint is changed.\<close>

definition demo_priced :: world where
  "demo_priced = snd (admin_exec (AHintUpdate 41 ''look twice'' 70 1)
     (snd (admin_exec (AAward None 11 25 ''writeup'' 1) (snd (Hint_UnlockHint demo_hint_uc 11 41 demo_solved)))))"

theorem contest_run_typed_witness: "db_typed (store demo_priced)"
proof -
  have typed: "db_typed demo_db"
    by (simp add: db_typed_def chal_keys_def challenge_typed_def columns_fit_def int4_ok_def demo_db_def empty_db_def demo_challenge_def)
  have "contest_run demo_uc demo_chal_uc demo_hint_uc demo_db (store (snd (Hint_UnlockHint demo_hint_uc 11 41 demo_solved)))"
    by (rule contest_run.board [OF contest_run.start demo_board_run])
  then have "contest_run demo_uc demo_chal_uc demo_hint_uc demo_db (store demo_priced)"
    unfolding demo_priced_def by (blast intro: contest_run.admin prod.collapse [symmetric])
  from contest_run_typed [OF this typed demo_crypto_pure] show ?thesis .
qed

end
