(* ===== verification/CTF_Validator.thy ===== *)
theory CTF_Validator
  imports CTF_RestProps
begin

text \<open>
  \<open>pkg/validator\<close>: the rules for names, addresses, passwords and the texts of a challenge. Their patterns are
  anchored at both ends, so a match is a match of the whole text; \<open>MatchString\<close> of Go's \<open>regexp\<close> is a matcher by
  derivatives, shown to decide the language of the pattern. Strings are bytes, the classes hold only ASCII.
\<close>

section \<open>Regular expressions\<close>

datatype re = Void | Eps | Cls "char \<Rightarrow> bool" | Alt re re | Seq re re | Star re

fun nullable :: "re \<Rightarrow> bool" where
  "nullable Void = False"
| "nullable Eps = True"
| "nullable (Cls P) = False"
| "nullable (Alt r s) = (nullable r \<or> nullable s)"
| "nullable (Seq r s) = (nullable r \<and> nullable s)"
| "nullable (Star r) = True"

fun deriv :: "char \<Rightarrow> re \<Rightarrow> re" where
  "deriv c Void = Void"
| "deriv c Eps = Void"
| "deriv c (Cls P) = (if P c then Eps else Void)"
| "deriv c (Alt r s) = Alt (deriv c r) (deriv c s)"
| "deriv c (Seq r s) = (if nullable r then Alt (Seq (deriv c r) s) (deriv c s) else Seq (deriv c r) s)"
| "deriv c (Star r) = Seq (deriv c r) (Star r)"

definition MatchString :: "re \<Rightarrow> string \<Rightarrow> bool" where
  "MatchString r s = nullable (fold deriv s r)"

text \<open>The language of an expression.\<close>

inductive matches :: "re \<Rightarrow> string \<Rightarrow> bool" where
  "matches Eps []"
| "P c \<Longrightarrow> matches (Cls P) [c]"
| "matches r xs \<Longrightarrow> matches (Alt r s) xs"
| "matches s xs \<Longrightarrow> matches (Alt r s) xs"
| "matches r xs \<Longrightarrow> matches s ys \<Longrightarrow> matches (Seq r s) (xs @ ys)"
| "matches (Star r) []"
| "matches r xs \<Longrightarrow> matches (Star r) ys \<Longrightarrow> matches (Star r) (xs @ ys)"

inductive_simps matches_simps [simp]: "matches Void xs" "matches Eps xs" "matches (Cls P) xs" "matches (Alt r s) xs"
inductive_simps matches_Seq: "matches (Seq r s) xs"

lemma nullable_iff: "nullable r \<longleftrightarrow> matches r []"
  by (induction r) (auto simp: matches_Seq intro: matches.intros)

lemma matches_Star_Cons:
  "matches (Star r) (c # xs) \<longleftrightarrow> (\<exists>ys zs. xs = ys @ zs \<and> matches r (c # ys) \<and> matches (Star r) zs)"
proof
  show "\<exists>ys zs. xs = ys @ zs \<and> matches r (c # ys) \<and> matches (Star r) zs" if "matches (Star r) (c # xs)"
    using that by (induction "Star r" "c # xs" arbitrary: xs rule: matches.induct) (auto simp: append_eq_Cons_conv)
next
  assume "\<exists>ys zs. xs = ys @ zs \<and> matches r (c # ys) \<and> matches (Star r) zs"
  then obtain ys zs where "xs = ys @ zs" "matches r (c # ys)" "matches (Star r) zs" by blast
  then show "matches (Star r) (c # xs)" using matches.intros(7) [of r "c # ys" zs] by simp
qed

lemma deriv_iff: "matches (deriv c r) xs \<longleftrightarrow> matches r (c # xs)"
proof (induction r arbitrary: xs)
  case (Seq r s)
  show ?case by (auto simp: Seq matches_Seq nullable_iff Cons_eq_append_conv)
next
  case (Star r)
  show ?case by (auto simp: Star matches_Seq matches_Star_Cons)
qed auto

lemma MatchString_iff: "MatchString r s \<longleftrightarrow> matches r s"
  unfolding MatchString_def by (induction s arbitrary: r) (simp_all add: nullable_iff deriv_iff)

lemma matches_Seq_Cls: "matches (Seq (Cls P) s) xs \<longleftrightarrow> (\<exists>c ys. xs = c # ys \<and> P c \<and> matches s ys)"
  unfolding matches_Seq by auto (metis append_Cons append_Nil)

definition Plus :: "re \<Rightarrow> re" where "Plus r = Seq r (Star r)"

lemma matches_Star_Cls: "matches (Star (Cls P)) s \<longleftrightarrow> list_all P s"
  by (induction s) (auto simp: matches_Star_Cons intro: matches.intros)

lemma matches_Plus_Cls: "matches (Plus (Cls P)) s \<longleftrightarrow> s \<noteq> [] \<and> list_all P s"
  by (cases s) (auto simp: Plus_def matches_Seq_Cls matches_Star_Cls)

section \<open>The patterns\<close>

definition letter :: "char \<Rightarrow> bool" where
  "letter c = (let n = of_char c in (65 \<le> n \<and> n \<le> (90 :: nat)) \<or> (97 \<le> n \<and> n \<le> 122))"

definition alnum :: "char \<Rightarrow> bool" where
  "alnum c = (letter c \<or> (let n = of_char c in 48 \<le> n \<and> n \<le> (57 :: nat)))"

text \<open>\<open>\s\<close>: tab, newline, form feed, carriage return, space.\<close>

definition re_space :: "char \<Rightarrow> bool" where
  "re_space c = (c \<in> {CHR 0x09, CHR 0x0A, CHR 0x0C, CHR 0x0D, CHR '' ''})"

definition local_char :: "char \<Rightarrow> bool" where
  "local_char c = (alnum c \<or> c \<in> set ''._%+-'')"

definition domain_char :: "char \<Rightarrow> bool" where
  "domain_char c = (alnum c \<or> c \<in> set ''.-'')"

definition password_char :: "char \<Rightarrow> bool" where
  "password_char c = (alnum c \<or> c \<in> set (''!@#$%^&*()_+-=[]{};:|,.<>/?'' @ [CHR 0x27, CHR 0x22, CHR 0x5C]))"

definition team_char :: "char \<Rightarrow> bool" where
  "team_char c = (alnum c \<or> re_space c \<or> c \<in> set ''._-'')"

definition category_char :: "char \<Rightarrow> bool" where
  "category_char c = (alnum c \<or> re_space c \<or> c = CHR ''-'')"

definition usernameRegex :: re where "usernameRegex = Plus (Cls local_char)"

definition emailRegex :: re where
  "emailRegex = Seq (Plus (Cls local_char)) (Seq (Cls (\<lambda>c. c = CHR ''@'')) (Seq (Plus (Cls domain_char))
     (Seq (Cls (\<lambda>c. c = CHR ''.'')) (Seq (Cls letter) (Plus (Cls letter))))))"

definition passwordRegex :: re where "passwordRegex = Plus (Cls password_char)"

definition teamNameRegex :: re where "teamNameRegex = Plus (Cls team_char)"

definition categoryRegex :: re where "categoryRegex = Plus (Cls category_char)"

section \<open>The rules\<close>

definition ValidatePassword :: "string \<Rightarrow> bool" where
  "ValidatePassword password =
     (if length password < 6 \<or> 128 < length password then False else MatchString passwordRegex password)"

definition ValidateStrongPasswordField :: "string \<Rightarrow> bool" where
  "ValidateStrongPasswordField password =
     (if length password < 6 then False else if 128 < length password then False else MatchString passwordRegex password)"

definition ValidateUsername :: "string \<Rightarrow> bool" where
  "ValidateUsername username = MatchString usernameRegex username"

definition ValidateUsernameField :: "string \<Rightarrow> bool" where
  "ValidateUsernameField username =
     (if username = '''' \<or> 32 < length username then False else MatchString usernameRegex username)"

definition ValidateEmail :: "string \<Rightarrow> bool" where
  "ValidateEmail email = MatchString emailRegex email"

definition ValidateEmailField :: "string \<Rightarrow> bool" where
  "ValidateEmailField email = (if email = '''' then False else MatchString emailRegex email)"

definition ValidateTeamName :: "string \<Rightarrow> bool" where
  "ValidateTeamName name = (if length name = 0 \<or> 50 < length name then False else MatchString teamNameRegex name)"

definition ValidateChallengeTitle :: "string \<Rightarrow> bool" where
  "ValidateChallengeTitle title = (0 < length title \<and> length title \<le> 100)"

definition ValidateChallengeDescription :: "string \<Rightarrow> bool" where
  "ValidateChallengeDescription desc = (0 < length desc \<and> length desc \<le> 2000)"

definition ValidateChallengeCategory :: "string \<Rightarrow> bool" where
  "ValidateChallengeCategory category =
     (if length category = 0 \<or> 50 < length category then False else MatchString categoryRegex category)"

definition ValidateChallengeFlag :: "string \<Rightarrow> bool" where
  "ValidateChallengeFlag flag = (0 < length flag \<and> length flag \<le> 200)"

definition ValidateHintContent :: "string \<Rightarrow> bool" where
  "ValidateHintContent content = (0 < length content \<and> length content \<le> 500)"

definition ValidateNotEmpty :: "string \<Rightarrow> bool" where
  "ValidateNotEmpty s = (0 < length s)"

text \<open>The same rules once more, as functions of a field.\<close>

definition validateStrongPassword :: "string \<Rightarrow> bool" where "validateStrongPassword fl = ValidateStrongPasswordField fl"

definition validateUsername :: "string \<Rightarrow> bool" where "validateUsername fl = ValidateUsernameField fl"

definition validateEmail :: "string \<Rightarrow> bool" where "validateEmail fl = ValidateEmailField fl"

definition validateTeamName :: "string \<Rightarrow> bool" where
  "validateTeamName name = (if length name = 0 \<or> 50 < length name then False else MatchString teamNameRegex name)"

definition validateChallengeTitle :: "string \<Rightarrow> bool" where
  "validateChallengeTitle title = (0 < length title \<and> length title \<le> 100)"

definition validateChallengeDescription :: "string \<Rightarrow> bool" where
  "validateChallengeDescription desc = (0 < length desc \<and> length desc \<le> 2000)"

definition validateChallengeCategory :: "string \<Rightarrow> bool" where
  "validateChallengeCategory category =
     (if length category = 0 \<or> 50 < length category then False else MatchString categoryRegex category)"

definition validateChallengeFlag :: "string \<Rightarrow> bool" where
  "validateChallengeFlag flag = (0 < length flag \<and> length flag \<le> 200)"

definition validateHintContent :: "string \<Rightarrow> bool" where
  "validateHintContent content = (0 < length content \<and> length content \<le> 500)"

definition validateNotEmpty :: "string \<Rightarrow> bool" where
  "validateNotEmpty s = (0 < length s)"

text \<open>The names under which the rules can be asked for in a \<open>validate\<close> tag.\<close>

definition validations :: "string \<Rightarrow> (string \<Rightarrow> bool) option" where
  "validations = map_of
     [(''strong_password'', validateStrongPassword), (''custom_email'', validateEmail),
      (''custom_username'', validateUsername), (''team_name'', validateTeamName),
      (''challenge_title'', validateChallengeTitle), (''challenge_description'', validateChallengeDescription),
      (''challenge_category'', validateChallengeCategory), (''challenge_flag'', validateChallengeFlag),
      (''hint_content'', validateHintContent), (''not_empty'', validateNotEmpty)]"

text \<open>\<open>Validate\<close> on a structure, given by the rule its fields name in their tags and the texts they hold.\<close>

definition Validate :: "(string option \<times> string) list \<Rightarrow> bool" where
  "Validate fs = list_all (\<lambda>(tag, s). case tag of None \<Rightarrow> True
     | Some t \<Rightarrow> (case validations t of None \<Rightarrow> False | Some f \<Rightarrow> f s)) fs"

section \<open>What they accept\<close>

lemma email_language:
  "matches emailRegex s \<longleftrightarrow> (\<exists>a b c. s = a @ ''@'' @ b @ ''.'' @ c \<and> a \<noteq> [] \<and> list_all local_char a \<and>
     b \<noteq> [] \<and> list_all domain_char b \<and> 2 \<le> length c \<and> list_all letter c)"
proof -
  have tld: "matches (Seq (Cls letter) (Plus (Cls letter))) c \<longleftrightarrow> 2 \<le> length c \<and> list_all letter c" for c
    by (cases c) (auto simp: matches_Seq_Cls matches_Plus_Cls Suc_le_eq)
  have dom: "matches (Seq (Plus (Cls domain_char)) (Seq (Cls (\<lambda>c. c = CHR ''.'')) (Seq (Cls letter) (Plus (Cls letter))))) d
      \<longleftrightarrow> (\<exists>b c. d = b @ ''.'' @ c \<and> b \<noteq> [] \<and> list_all domain_char b \<and> 2 \<le> length c \<and> list_all letter c)" for d
    unfolding matches_Seq [of "Plus (Cls domain_char)"] matches_Seq_Cls [of "\<lambda>c. c = CHR ''.''"] tld matches_Plus_Cls by auto
  show ?thesis
    unfolding emailRegex_def matches_Seq [of "Plus (Cls local_char)"] matches_Seq_Cls [of "\<lambda>c. c = CHR ''@''"] dom
      matches_Plus_Cls
    by (simp, blast)
qed

lemma ValidateEmailField_iff: "ValidateEmailField s \<longleftrightarrow> ValidateEmail s"
  by (auto simp: ValidateEmailField_def ValidateEmail_def MatchString_iff email_language)

lemma ValidateUsernameField_iff:
  "ValidateUsernameField s \<longleftrightarrow> length s \<le> 32 \<and> ValidateUsername s"
  by (auto simp: ValidateUsernameField_def ValidateUsername_def MatchString_iff usernameRegex_def matches_Plus_Cls)

lemma ValidatePassword_iff:
  "ValidatePassword s \<longleftrightarrow> 6 \<le> length s \<and> length s \<le> 128 \<and> list_all password_char s"
  by (auto simp: ValidatePassword_def MatchString_iff passwordRegex_def matches_Plus_Cls)

text \<open>
  A team name is a non-empty text of letters, digits, white space and \<open>._-\<close>; white space alone is a team name.
\<close>

lemma ValidateTeamName_iff:
  "ValidateTeamName s \<longleftrightarrow> s \<noteq> [] \<and> length s \<le> 50 \<and> list_all team_char s"
  by (auto simp: ValidateTeamName_def MatchString_iff teamNameRegex_def matches_Plus_Cls)

lemma ValidateTeamName_blank: "ValidateTeamName ''  ''"
  by (simp add: ValidateTeamName_iff team_char_def re_space_def)

text \<open>
  The rules against the route: no request type carries a \<open>validate\<close> tag, so the structure a handler hands to
  \<open>Validate\<close> has no rule, and registration takes what the rules would refuse.
\<close>

theorem blank_registration:
  "case PostAuthRegister demo_server (Body \<lparr>rr_CustomFields = None, rr_Email = None, rr_Password = None, rr_Username = None\<rparr>)
        (demo_request '''') (demo_services, demo_http_world) of
     (r, (_, w')) \<Rightarrow> map_sum (\<lambda>_. ()) (map_prod id user_Username) r = Inr (201, '''') \<and>
       (\<exists>u \<in> set (users (store w')). users_username u = '''' \<and> users_email u = '''') \<and>
       \<not> ValidateUsernameField '''' \<and> \<not> ValidateEmailField '''' \<and> \<not> ValidateStrongPasswordField ''''"
  by code_simp
end
