(* ===== verification/CTF_Responses.thy ===== *)
theory CTF_Responses
  imports CTF_RestMore CTF_Demo
begin

text \<open>
  What the handlers show of an entity: the structures of \<open>internal/openapi/types.gen.go\<close> that are replies, and the
  functions of \<open>restapi/v1/response\<close> that fill them. A pointer is an option, a field left out is \<open>None\<close>. The texts of
  UUIDs and times are parameters (\<open>texts\<close>); the layouts \<open>time.RFC3339\<close> and \<open>2006-01-02T15:04:05Z07:00\<close> are the same.
  \<open>float32\<close> rounds to 24 bits.
\<close>

section \<open>The structures\<close>

record tag_response =
  rtag_Color :: "string option"
  rtag_ID :: "string option"
  rtag_Name :: "string option"

record challenge_response =
  rchal_Category :: "string option"
  rchal_Description :: "string option"
  rchal_ID :: "string option"
  rchal_IsHidden :: "bool option"
  rchal_Points :: "int option"
  rchal_SolveCount :: "int option"
  rchal_Solved :: "bool option"
  rchal_Tags :: "tag_response list option"
  rchal_Title :: "string option"

record scoreboard_entry_response =
  rsb_LastSolved :: "string option"
  rsb_Points :: "int option"
  rsb_TeamID :: "string option"
  rsb_TeamName :: "string option"

record first_blood_response =
  rfb_SolvedAt :: "string option"
  rfb_TeamID :: "string option"
  rfb_TeamName :: "string option"
  rfb_UserID :: "string option"
  rfb_Username :: "string option"

record hint_response =
  rhint_Content :: "string option"
  rhint_Cost :: "int option"
  rhint_ID :: "string option"
  rhint_OrderIndex :: "int option"
  rhint_Unlocked :: "bool option"

record hint_admin_response =
  rahint_ChallengeID :: "string option"
  rahint_Content :: "string option"
  rahint_Cost :: "int option"
  rahint_ID :: "string option"
  rahint_OrderIndex :: "int option"

record team_response =
  rteam_CaptainID :: "string option"
  rteam_CreatedAt :: "string option"
  rteam_ID :: "string option"
  rteam_InviteToken :: "string option"
  rteam_Name :: "string option"

record user_response =
  ruser_ID :: "string option"
  ruser_Role :: "string option"
  ruser_TeamID :: "string option"
  ruser_Username :: "string option"

record team_with_members_response =
  rteamm_BannedAt :: "string option"
  rteamm_BannedReason :: "string option"
  rteamm_CaptainID :: "string option"
  rteamm_CreatedAt :: "string option"
  rteamm_ID :: "string option"
  rteamm_InviteToken :: "string option"
  rteamm_IsBanned :: "bool option"
  rteamm_Members :: "user_response list option"
  rteamm_Name :: "string option"

record register_response =
  rreg_CreatedAt :: "string option"
  rreg_Email :: "string option"
  rreg_ID :: "string option"
  rreg_Username :: "string option"

record me_response =
  rme_CreatedAt :: "string option"
  rme_Email :: "string option"
  rme_ID :: "string option"
  rme_Role :: "string option"
  rme_TeamID :: "string option"
  rme_Username :: "string option"

record solve_response =
  rsolve_ChallengeID :: "string option"
  rsolve_ID :: "string option"
  rsolve_SolvedAt :: "string option"

record user_profile_response =
  rprof_CreatedAt :: "string option"
  rprof_ID :: "string option"
  rprof_Solves :: "solve_response list option"
  rprof_TeamID :: "string option"
  rprof_Username :: "string option"

record jwt_token_pair =
  rjwt_AccessExpiresAt :: "int option"
  rjwt_AccessToken :: "string option"
  rjwt_RefreshExpiresAt :: "int option"
  rjwt_RefreshToken :: "string option"

record award_response =
  raward_CreatedAt :: "string option"
  raward_CreatedBy :: "string option"
  raward_Description :: "string option"
  raward_ID :: "string option"
  raward_TeamID :: "string option"
  raward_Value :: "int option"

record api_token_response =
  rtok_CreatedAt :: "string option"
  rtok_Description :: "string option"
  rtok_ExpiresAt :: "time option"
  rtok_ID :: "string option"
  rtok_LastUsedAt :: "time option"

record api_token_created_response =
  rtokc_CreatedAt :: "string option"
  rtokc_Description :: "string option"
  rtokc_ExpiresAt :: "time option"
  rtokc_ID :: "string option"
  rtokc_Token :: string

record competition_response =
  rcomp_EndTime :: "string option"
  rcomp_FreezeTime :: "string option"
  rcomp_ID :: "int option"
  rcomp_IsPaused :: "bool option"
  rcomp_IsPublic :: "bool option"
  rcomp_Mode :: "string option"
  rcomp_Name :: "string option"
  rcomp_StartTime :: "string option"
  rcomp_Status :: "string option"

record competition_status_response =
  rstat_EndTime :: "string option"
  rstat_Name :: "string option"
  rstat_StartTime :: "string option"
  rstat_Status :: "string option"
  rstat_SubmissionAllowed :: "bool option"

record submission_response =
  rsub_ChallengeCategory :: "string option"
  rsub_ChallengeID :: "string option"
  rsub_ChallengeTitle :: "string option"
  rsub_CreatedAt :: "string option"
  rsub_ID :: "string option"
  rsub_IP :: "string option"
  rsub_IsCorrect :: "bool option"
  rsub_SubmittedFlag :: "string option"
  rsub_TeamID :: "string option"
  rsub_TeamName :: "string option"
  rsub_UserID :: "string option"
  rsub_Username :: "string option"

record submission_list_response =
  rsubl_Items :: "submission_response list option"
  rsubl_Page :: "int option"
  rsubl_PerPage :: "int option"
  rsubl_Total :: "int option"

record submission_stats_response =
  rsubs_Correct :: "int option"
  rsubs_Incorrect :: "int option"
  rsubs_Total :: "int option"

record global_rating_response =
  rglob_BestRank :: "int option"
  rglob_EventsCount :: "int option"
  rglob_LastUpdated :: "time option"
  rglob_TeamID :: "string option"
  rglob_TeamName :: "string option"
  rglob_TotalPoints :: "rat option"

record global_ratings_list_response =
  rglobl_Items :: "global_rating_response list option"
  rglobl_Total :: "int option"

record team_rating_item_response =
  rtri_CreatedAt :: "time option"
  rtri_CtfEventID :: "string option"
  rtri_ID :: "string option"
  rtri_Rank :: "int option"
  rtri_RatingPoints :: "rat option"
  rtri_Score :: "int option"

record team_rating_response =
  rtr_EventRatings :: "team_rating_item_response list option"
  rtr_Global :: "global_rating_response option"

record ctf_event_response =
  revent_CreatedAt :: "time option"
  revent_EndTime :: "time option"
  revent_ID :: "string option"
  revent_Name :: "string option"
  revent_StartTime :: "time option"
  revent_Weight :: "rat option"

record general_stats_response =
  rgen_ChallengeCount :: "int option"
  rgen_SolveCount :: "int option"
  rgen_TeamCount :: "int option"
  rgen_UserCount :: "int option"

record challenge_stats_response =
  rcs_Category :: "string option"
  rcs_ID :: "string option"
  rcs_Points :: "int option"
  rcs_SolveCount :: "int option"
  rcs_Title :: "string option"

record challenge_solve_entry_response =
  rcse_SolvedAt :: "time option"
  rcse_TeamID :: "string option"
  rcse_TeamName :: "string option"

record challenge_detail_stats_response =
  rcd_Category :: "string option"
  rcd_FirstBlood :: "challenge_solve_entry_response option"
  rcd_ID :: "string option"
  rcd_PercentageSolved :: "rat option"
  rcd_Points :: "int option"
  rcd_SolveCount :: "int option"
  rcd_Solves :: "challenge_solve_entry_response list option"
  rcd_Title :: "string option"
  rcd_TotalTeams :: "int option"

record scoreboard_history_entry_response =
  rhist_Points :: "int option"
  rhist_TeamID :: "string option"
  rhist_TeamName :: "string option"
  rhist_Timestamp :: "string option"

record score_point_response =
  rpoint_Score :: "int option"
  rpoint_Timestamp :: "string option"

record team_timeline_response =
  rline_TeamID :: "string option"
  rline_TeamName :: "string option"
  rline_Timeline :: "score_point_response list option"

record time_range_response =
  rrange_End :: "string option"
  rrange_Start :: "string option"

record scoreboard_graph_response =
  rgraph_Range :: "time_range_response option"
  rgraph_Teams :: "team_timeline_response list option"

record field_response =
  rfield_CreatedAt :: "time option"
  rfield_EntityType :: "string option"
  rfield_FieldType :: "string option"
  rfield_ID :: "string option"
  rfield_Name :: "string option"
  rfield_Options :: "string list option"
  rfield_OrderIndex :: "int option"
  rfield_Required :: "bool option"

record app_settings_response =
  rset_AppName :: "string option"
  rset_CorsOrigins :: "string option"
  rset_FrontendURL :: "string option"
  rset_RegistrationOpen :: "bool option"
  rset_ResendEnabled :: "bool option"
  rset_ResendFromEmail :: "string option"
  rset_ResendFromName :: "string option"
  rset_ResetTTLHours :: "int option"
  rset_ScoreboardVisible :: "string option"
  rset_SubmitLimitDurationMin :: "int option"
  rset_SubmitLimitPerUser :: "int option"
  rset_UpdatedAt :: "string option"
  rset_VerifyEmails :: "bool option"
  rset_VerifyTTLHours :: "int option"

record config_response =
  rconf_Description :: "string option"
  rconf_Key :: string
  rconf_UpdatedAt :: "time option"
  rconf_Value :: string
  rconf_ValueType :: string

record page_response =
  rpage_Content :: "string option"
  rpage_CreatedAt :: "time option"
  rpage_ID :: "string option"
  rpage_IsDraft :: "bool option"
  rpage_OrderIndex :: "int option"
  rpage_Slug :: "string option"
  rpage_Title :: "string option"
  rpage_UpdatedAt :: "time option"

record page_list_item_response =
  rpitem_ID :: "string option"
  rpitem_OrderIndex :: "int option"
  rpitem_Slug :: "string option"
  rpitem_Title :: "string option"

record notification_response =
  rnotif_Content :: "string option"
  rnotif_CreatedAt :: "string option"
  rnotif_ID :: "string option"
  rnotif_IsPinned :: "bool option"
  rnotif_Title :: "string option"
  rnotif_Type :: "string option"

record user_notification_response =
  runotif_Content :: "string option"
  runotif_CreatedAt :: "string option"
  runotif_ID :: "string option"
  runotif_IsRead :: "bool option"
  runotif_Title :: "string option"
  runotif_Type :: "string option"

record comment_response =
  rcomm_ChallengeID :: "string option"
  rcomm_Content :: "string option"
  rcomm_CreatedAt :: "time option"
  rcomm_ID :: "string option"
  rcomm_UpdatedAt :: "time option"
  rcomm_UserID :: "string option"

record bracket_response =
  rbrack_CreatedAt :: "time option"
  rbrack_Description :: "string option"
  rbrack_ID :: "string option"
  rbrack_IsDefault :: "bool option"
  rbrack_Name :: "string option"

section \<open>Texts and numbers\<close>

record texts =
  tx_uuid :: "uuid \<Rightarrow> string"
  tx_RFC3339 :: "time \<Rightarrow> string"
  tx_String :: "time \<Rightarrow> string"

definition IsZero :: "time \<Rightarrow> bool" where "IsZero t = (t = 0)"

text \<open>The unit in the last place of a \<open>float32\<close>, with its subnormal numbers; the values shown stay below its largest.\<close>

definition ulp32 :: "rat \<Rightarrow> rat" where "ulp32 x = 2 powi (max (binade x) (- 126) - 23)"

definition float32_of :: "rat \<Rightarrow> rat" where
  "float32_of x =
     (if x = 0 then 0 else sgn x * of_int (round_half_even (\<bar>x\<bar> / ulp32 \<bar>x\<bar>)) * ulp32 \<bar>x\<bar>)"

section \<open>Challenges, scoreboard, hints\<close>

definition FromTag :: "texts \<Rightarrow> tag \<Rightarrow> tag_response" where
  "FromTag tx t = \<lparr>rtag_Color = Some (tag_Color t), rtag_ID = Some (tx_uuid tx (tag_ID t)), rtag_Name = Some (tag_Name t)\<rparr>"

definition FromTagList :: "texts \<Rightarrow> tag list \<Rightarrow> tag_response list" where
  "FromTagList tx items = map (FromTag tx) items"

definition FromChallenge :: "texts \<Rightarrow> challenge \<Rightarrow> challenge_response" where
  "FromChallenge tx c =
     \<lparr>rchal_Category = Some (chal_Category c), rchal_Description = Some (chal_Description c),
      rchal_ID = Some (tx_uuid tx (chal_ID c)), rchal_IsHidden = Some (chal_IsHidden c),
      rchal_Points = Some (chal_Points c), rchal_SolveCount = Some (chal_SolveCount c), rchal_Solved = None,
      rchal_Tags = None, rchal_Title = Some (chal_Title c)\<rparr>"

definition FromChallengeWithSolved :: "texts \<Rightarrow> challenge_with_solved \<Rightarrow> challenge_response" where
  "FromChallengeWithSolved tx cws = (FromChallenge tx (cws_Challenge cws))\<lparr>rchal_Solved := Some (cws_Solved cws)\<rparr>"

definition FromChallengeWithTags :: "texts \<Rightarrow> challenge_with_tags \<Rightarrow> challenge_response" where
  "FromChallengeWithTags tx cwt =
     (let res = FromChallengeWithSolved tx (cwt_Challenge cwt) in
      if 0 < length (cwt_Tags cwt) then res\<lparr>rchal_Tags := Some (map (FromTag tx) (cwt_Tags cwt))\<rparr> else res)"

definition FromChallengeList :: "texts \<Rightarrow> challenge_with_tags list \<Rightarrow> challenge_response list" where
  "FromChallengeList tx items = map (FromChallengeWithTags tx) items"

definition FromScoreboardEntry :: "texts \<Rightarrow> scoreboard_entry \<Rightarrow> scoreboard_entry_response" where
  "FromScoreboardEntry tx e =
     \<lparr>rsb_LastSolved = (if \<not> IsZero (sb_SolvedAt e) then Some (tx_RFC3339 tx (sb_SolvedAt e)) else None),
      rsb_Points = Some (sb_Points e), rsb_TeamID = Some (tx_uuid tx (sb_TeamID e)), rsb_TeamName = Some (sb_TeamName e)\<rparr>"

definition FromScoreboardList :: "texts \<Rightarrow> scoreboard_entry list \<Rightarrow> scoreboard_entry_response list" where
  "FromScoreboardList tx items = map (FromScoreboardEntry tx) items"

definition FromFirstBlood :: "texts \<Rightarrow> first_blood_entry \<Rightarrow> first_blood_response" where
  "FromFirstBlood tx fb =
     \<lparr>rfb_SolvedAt = Some (tx_RFC3339 tx (fb_SolvedAt fb)), rfb_TeamID = Some (tx_uuid tx (fb_TeamID fb)),
      rfb_TeamName = Some (fb_TeamName fb), rfb_UserID = Some (tx_uuid tx (fb_UserID fb)), rfb_Username = Some (fb_Username fb)\<rparr>"

definition FromHintWithUnlock :: "texts \<Rightarrow> hint_with_unlock \<Rightarrow> hint_response" where
  "FromHintWithUnlock tx hw =
     (let h = hwu_Hint hw;
          res = \<lparr>rhint_Content = None, rhint_Cost = Some (hint_Cost h), rhint_ID = Some (tx_uuid tx (hint_ID h)),
            rhint_OrderIndex = Some (hint_OrderIndex h), rhint_Unlocked = Some (hwu_Unlocked hw)\<rparr>
      in if hwu_Unlocked hw then res\<lparr>rhint_Content := Some (hint_Content h)\<rparr> else res)"

definition FromHintWithUnlockList :: "texts \<Rightarrow> hint_with_unlock list \<Rightarrow> hint_response list" where
  "FromHintWithUnlockList tx hs = map (FromHintWithUnlock tx) hs"

definition FromUnlockedHint :: "texts \<Rightarrow> hint \<Rightarrow> hint_response" where
  "FromUnlockedHint tx h =
     \<lparr>rhint_Content = Some (hint_Content h), rhint_Cost = Some (hint_Cost h), rhint_ID = Some (tx_uuid tx (hint_ID h)),
      rhint_OrderIndex = Some (hint_OrderIndex h), rhint_Unlocked = Some True\<rparr>"

definition FromHint :: "texts \<Rightarrow> hint \<Rightarrow> hint_admin_response" where
  "FromHint tx h =
     \<lparr>rahint_ChallengeID = Some (tx_uuid tx (hint_ChallengeID h)), rahint_Content = Some (hint_Content h),
      rahint_Cost = Some (hint_Cost h), rahint_ID = Some (tx_uuid tx (hint_ID h)), rahint_OrderIndex = Some (hint_OrderIndex h)\<rparr>"

section \<open>Users and teams\<close>

definition FromUserForRegister :: "texts \<Rightarrow> user \<Rightarrow> register_response" where
  "FromUserForRegister tx u =
     \<lparr>rreg_CreatedAt = Some (tx_RFC3339 tx (user_CreatedAt u)), rreg_Email = Some (user_Email u),
      rreg_ID = Some (tx_uuid tx (user_ID u)), rreg_Username = Some (user_Username u)\<rparr>"

definition FromUserForMe :: "texts \<Rightarrow> user \<Rightarrow> me_response" where
  "FromUserForMe tx u =
     \<lparr>rme_CreatedAt = Some (tx_RFC3339 tx (user_CreatedAt u)), rme_Email = Some (user_Email u),
      rme_ID = Some (tx_uuid tx (user_ID u)), rme_Role = Some (user_Role u),
      rme_TeamID = map_option (tx_uuid tx) (user_TeamID u), rme_Username = Some (user_Username u)\<rparr>"

definition FromSolve :: "texts \<Rightarrow> solve \<Rightarrow> solve_response" where
  "FromSolve tx s =
     \<lparr>rsolve_ChallengeID = Some (tx_uuid tx (solve_ChallengeID s)), rsolve_ID = Some (tx_uuid tx (solve_ID s)),
      rsolve_SolvedAt = Some (tx_RFC3339 tx (solve_SolvedAt s))\<rparr>"

definition FromUserProfile :: "texts \<Rightarrow> user_profile \<Rightarrow> user_profile_response" where
  "FromUserProfile tx up =
     (let u = profile_User up in
      \<lparr>rprof_CreatedAt = Some (tx_RFC3339 tx (user_CreatedAt u)), rprof_ID = Some (tx_uuid tx (user_ID u)),
       rprof_Solves = Some (map (FromSolve tx) (profile_Solves up)),
       rprof_TeamID = map_option (tx_uuid tx) (user_TeamID u), rprof_Username = Some (user_Username u)\<rparr>)"

definition FromUser :: "texts \<Rightarrow> user \<Rightarrow> user_response" where
  "FromUser tx u =
     \<lparr>ruser_ID = Some (tx_uuid tx (user_ID u)), ruser_Role = Some (user_Role u),
      ruser_TeamID = map_option (tx_uuid tx) (user_TeamID u), ruser_Username = Some (user_Username u)\<rparr>"

definition FromTokenPair :: "token_pair \<Rightarrow> jwt_token_pair" where
  "FromTokenPair p =
     \<lparr>rjwt_AccessExpiresAt = Some (tp_AccessExpiresAt p), rjwt_AccessToken = Some (tp_AccessToken p),
      rjwt_RefreshExpiresAt = Some (tp_RefreshExpiresAt p), rjwt_RefreshToken = Some (tp_RefreshToken p)\<rparr>"

definition FromTeam :: "texts \<Rightarrow> team \<Rightarrow> team_response" where
  "FromTeam tx t =
     \<lparr>rteam_CaptainID = Some (tx_uuid tx (team_CaptainID t)), rteam_CreatedAt = Some (tx_RFC3339 tx (team_CreatedAt t)),
      rteam_ID = Some (tx_uuid tx (team_ID t)), rteam_InviteToken = Some (tx_uuid tx (team_InviteToken t)),
      rteam_Name = Some (team_Name t)\<rparr>"

definition FromTeamWithoutToken :: "texts \<Rightarrow> team \<Rightarrow> team_response" where
  "FromTeamWithoutToken tx t =
     \<lparr>rteam_CaptainID = Some (tx_uuid tx (team_CaptainID t)), rteam_CreatedAt = Some (tx_RFC3339 tx (team_CreatedAt t)),
      rteam_ID = Some (tx_uuid tx (team_ID t)), rteam_InviteToken = None, rteam_Name = Some (team_Name t)\<rparr>"

definition FromTeamWithMembers :: "texts \<Rightarrow> team \<Rightarrow> user list \<Rightarrow> team_with_members_response" where
  "FromTeamWithMembers tx t members =
     \<lparr>rteamm_BannedAt = map_option (tx_RFC3339 tx) (team_BannedAt t), rteamm_BannedReason = team_BannedReason t,
      rteamm_CaptainID = Some (tx_uuid tx (team_CaptainID t)), rteamm_CreatedAt = Some (tx_RFC3339 tx (team_CreatedAt t)),
      rteamm_ID = Some (tx_uuid tx (team_ID t)), rteamm_InviteToken = Some (tx_uuid tx (team_InviteToken t)),
      rteamm_IsBanned = Some (team_IsBanned t), rteamm_Members = Some (map (FromUser tx) members),
      rteamm_Name = Some (team_Name t)\<rparr>"

definition FromAward :: "texts \<Rightarrow> award \<Rightarrow> award_response" where
  "FromAward tx a =
     \<lparr>raward_CreatedAt = Some (tx_RFC3339 tx (award_CreatedAt a)), raward_CreatedBy = map_option (tx_uuid tx) (award_CreatedBy a),
      raward_Description = Some (award_Description a), raward_ID = Some (tx_uuid tx (award_ID a)),
      raward_TeamID = Some (tx_uuid tx (award_TeamID a)), raward_Value = Some (award_Value a)\<rparr>"

definition FromAwardList :: "texts \<Rightarrow> award list \<Rightarrow> award_response list" where
  "FromAwardList tx items = map (FromAward tx) items"

definition FromAPIToken :: "texts \<Rightarrow> api_token \<Rightarrow> api_token_response" where
  "FromAPIToken tx t =
     \<lparr>rtok_CreatedAt = Some (tx_RFC3339 tx (token_CreatedAt t)),
      rtok_Description = (if token_Description t \<noteq> '''' then Some (token_Description t) else None),
      rtok_ExpiresAt = token_ExpiresAt t, rtok_ID = Some (tx_uuid tx (token_ID t)), rtok_LastUsedAt = token_LastUsedAt t\<rparr>"

definition FromAPITokenCreated :: "texts \<Rightarrow> string \<Rightarrow> api_token \<Rightarrow> api_token_created_response" where
  "FromAPITokenCreated tx plaintext t =
     \<lparr>rtokc_CreatedAt = Some (tx_RFC3339 tx (token_CreatedAt t)),
      rtokc_Description = (if token_Description t \<noteq> '''' then Some (token_Description t) else None),
      rtokc_ExpiresAt = token_ExpiresAt t, rtokc_ID = Some (tx_uuid tx (token_ID t)), rtokc_Token = plaintext\<rparr>"

section \<open>Competition, submissions, ratings\<close>

text \<open>\<open>now\<close> is the reading of the clock in \<open>GetStatus\<close>, \<open>later\<close> the one in \<open>IsSubmissionAllowed\<close>.\<close>

definition FromCompetition :: "texts \<Rightarrow> time \<Rightarrow> competition \<Rightarrow> competition_response" where
  "FromCompetition tx now c =
     \<lparr>rcomp_EndTime = map_option (tx_RFC3339 tx) (comp_EndTime c), rcomp_FreezeTime = map_option (tx_RFC3339 tx) (comp_FreezeTime c),
      rcomp_ID = Some (comp_ID c), rcomp_IsPaused = Some (comp_IsPaused c), rcomp_IsPublic = Some (comp_IsPublic c),
      rcomp_Mode = Some (comp_Mode c), rcomp_Name = Some (comp_Name c),
      rcomp_StartTime = map_option (tx_RFC3339 tx) (comp_StartTime c), rcomp_Status = Some (Competition_GetStatus now c)\<rparr>"

definition FromCompetitionStatus :: "texts \<Rightarrow> time \<Rightarrow> time \<Rightarrow> competition \<Rightarrow> competition_status_response" where
  "FromCompetitionStatus tx now later c =
     \<lparr>rstat_EndTime = map_option (tx_RFC3339 tx) (comp_EndTime c), rstat_Name = Some (comp_Name c),
      rstat_StartTime = map_option (tx_RFC3339 tx) (comp_StartTime c), rstat_Status = Some (Competition_GetStatus now c),
      rstat_SubmissionAllowed = Some (Competition_IsSubmissionAllowed later c)\<rparr>"

definition FromSubmission :: "texts \<Rightarrow> submission_with_details \<Rightarrow> submission_response" where
  "FromSubmission tx d =
     (let s = subd_Submission d in
      \<lparr>rsub_ChallengeCategory = Some (subd_ChallengeCategory d), rsub_ChallengeID = Some (tx_uuid tx (sub_ChallengeID s)),
       rsub_ChallengeTitle = Some (subd_ChallengeTitle d), rsub_CreatedAt = Some (tx_RFC3339 tx (sub_CreatedAt s)),
       rsub_ID = Some (tx_uuid tx (sub_ID s)), rsub_IP = (if sub_IP s \<noteq> '''' then Some (sub_IP s) else None),
       rsub_IsCorrect = Some (sub_IsCorrect s), rsub_SubmittedFlag = Some (sub_SubmittedFlag s),
       rsub_TeamID = map_option (tx_uuid tx) (sub_TeamID s), rsub_TeamName = Some (subd_TeamName d),
       rsub_UserID = Some (tx_uuid tx (sub_UserID s)), rsub_Username = Some (subd_Username d)\<rparr>)"

definition FromSubmissionList :: "texts \<Rightarrow> submission_with_details list \<Rightarrow> int \<Rightarrow> int \<Rightarrow> int \<Rightarrow> submission_list_response" where
  "FromSubmissionList tx items total_rows page perPage =
     \<lparr>rsubl_Items = Some (map (FromSubmission tx) items), rsubl_Page = Some page, rsubl_PerPage = Some perPage,
      rsubl_Total = Some total_rows\<rparr>"

definition FromSubmissionStats :: "submission_stats \<Rightarrow> submission_stats_response" where
  "FromSubmissionStats s =
     \<lparr>rsubs_Correct = Some (substats_Correct s), rsubs_Incorrect = Some (substats_Incorrect s), rsubs_Total = Some (substats_Total s)\<rparr>"

definition FromGlobalRating :: "texts \<Rightarrow> global_rating \<Rightarrow> global_rating_response" where
  "FromGlobalRating tx g =
     \<lparr>rglob_BestRank = grating_BestRank g, rglob_EventsCount = Some (grating_EventsCount g),
      rglob_LastUpdated = Some (grating_LastUpdated g), rglob_TeamID = Some (tx_uuid tx (grating_TeamID g)),
      rglob_TeamName = Some (grating_TeamName g), rglob_TotalPoints = Some (float32_of (grating_TotalPoints g))\<rparr>"

definition FromGlobalRatingsList :: "texts \<Rightarrow> global_rating list \<Rightarrow> int \<Rightarrow> global_ratings_list_response" where
  "FromGlobalRatingsList tx items total_rows =
     \<lparr>rglobl_Items = Some (map (FromGlobalRating tx) items), rglobl_Total = Some total_rows\<rparr>"

definition FromTeamRatingItem :: "texts \<Rightarrow> team_rating \<Rightarrow> team_rating_item_response" where
  "FromTeamRatingItem tx tr =
     \<lparr>rtri_CreatedAt = Some (trating_CreatedAt tr), rtri_CtfEventID = Some (tx_uuid tx (trating_CTFEventID tr)),
      rtri_ID = Some (tx_uuid tx (trating_ID tr)), rtri_Rank = Some (trating_Rank tr),
      rtri_RatingPoints = Some (float32_of (trating_RatingPoints tr)), rtri_Score = Some (trating_Score tr)\<rparr>"

definition FromTeamRating :: "texts \<Rightarrow> global_rating option \<Rightarrow> team_rating list \<Rightarrow> team_rating_response" where
  "FromTeamRating tx global eventRatings =
     \<lparr>rtr_EventRatings = (if 0 < length eventRatings then Some (map (FromTeamRatingItem tx) eventRatings) else None),
      rtr_Global = map_option (FromGlobalRating tx) global\<rparr>"

definition FromCTFEvent :: "texts \<Rightarrow> ctf_event \<Rightarrow> ctf_event_response" where
  "FromCTFEvent tx e =
     \<lparr>revent_CreatedAt = Some (event_CreatedAt e), revent_EndTime = Some (event_EndTime e),
      revent_ID = Some (tx_uuid tx (event_ID e)), revent_Name = Some (event_Name e),
      revent_StartTime = Some (event_StartTime e), revent_Weight = Some (float32_of (event_Weight e))\<rparr>"

definition FromCTFEventList :: "texts \<Rightarrow> ctf_event list \<Rightarrow> ctf_event_response list" where
  "FromCTFEventList tx items = map (FromCTFEvent tx) items"

section \<open>Statistics\<close>

definition FromGeneralStats :: "general_stats \<Rightarrow> general_stats_response" where
  "FromGeneralStats s =
     \<lparr>rgen_ChallengeCount = Some (gstats_ChallengeCount s), rgen_SolveCount = Some (gstats_SolveCount s),
      rgen_TeamCount = Some (gstats_TeamCount s), rgen_UserCount = Some (gstats_UserCount s)\<rparr>"

definition FromChallengeStatsList :: "texts \<Rightarrow> challenge_stats list \<Rightarrow> challenge_stats_response list" where
  "FromChallengeStatsList tx stats = map (\<lambda>s.
     \<lparr>rcs_Category = Some (cstats_Category s), rcs_ID = Some (tx_uuid tx (cstats_ID s)), rcs_Points = Some (cstats_Points s),
      rcs_SolveCount = Some (cstats_SolveCount s), rcs_Title = Some (cstats_Title s)\<rparr>) stats"

definition FromSolveEntry :: "texts \<Rightarrow> challenge_solve_entry \<Rightarrow> challenge_solve_entry_response" where
  "FromSolveEntry tx e =
     \<lparr>rcse_SolvedAt = Some (csolve_SolvedAt e), rcse_TeamID = Some (tx_uuid tx (csolve_TeamID e)),
      rcse_TeamName = Some (csolve_TeamName e)\<rparr>"

definition FromChallengeDetailStats :: "texts \<Rightarrow> challenge_detail_stats \<Rightarrow> challenge_detail_stats_response" where
  "FromChallengeDetailStats tx s =
     \<lparr>rcd_Category = Some (cdetail_Category s), rcd_FirstBlood = map_option (FromSolveEntry tx) (cdetail_FirstBlood s),
      rcd_ID = Some (tx_uuid tx (cdetail_ID s)), rcd_PercentageSolved = Some (float32_of (cdetail_PercentageSolved s)),
      rcd_Points = Some (cdetail_Points s), rcd_SolveCount = Some (cdetail_SolveCount s),
      rcd_Solves = (if 0 < length (cdetail_Solves s) then Some (map (FromSolveEntry tx) (cdetail_Solves s)) else None),
      rcd_Title = Some (cdetail_Title s), rcd_TotalTeams = Some (cdetail_TotalTeams s)\<rparr>"

definition FromScoreboardHistoryList ::
  "texts \<Rightarrow> scoreboard_history_entry list \<Rightarrow> scoreboard_history_entry_response list" where
  "FromScoreboardHistoryList tx stats = map (\<lambda>s.
     \<lparr>rhist_Points = Some (shist_Points s), rhist_TeamID = Some (tx_uuid tx (shist_TeamID s)),
      rhist_TeamName = Some (shist_TeamName s), rhist_Timestamp = Some (tx_String tx (shist_Timestamp s))\<rparr>) stats"

definition FromScoreboardGraph :: "texts \<Rightarrow> scoreboard_graph \<Rightarrow> scoreboard_graph_response" where
  "FromScoreboardGraph tx g =
     \<lparr>rgraph_Range = Some \<lparr>rrange_End = Some (tx_RFC3339 tx (range_End (graph_Range g))),
        rrange_Start = Some (tx_RFC3339 tx (range_Start (graph_Range g)))\<rparr>,
      rgraph_Teams = Some (map (\<lambda>t.
        \<lparr>rline_TeamID = Some (tx_uuid tx (timeline_TeamID t)), rline_TeamName = Some (timeline_TeamName t),
         rline_Timeline = Some (map (\<lambda>p. \<lparr>rpoint_Score = Some (point_Score p),
           rpoint_Timestamp = Some (tx_RFC3339 tx (point_Timestamp p))\<rparr>) (timeline_Timeline t))\<rparr>) (graph_Teams g))\<rparr>"

section \<open>Fields, settings, pages, notifications, comments, brackets\<close>

definition FromField :: "texts \<Rightarrow> field \<Rightarrow> field_response" where
  "FromField tx f =
     \<lparr>rfield_CreatedAt = Some (field_CreatedAt f),
      rfield_EntityType = Some (if field_EntityType f = EntityTypeTeam then ''team'' else ''user''),
      rfield_FieldType = Some (if field_FieldType f \<in> {FieldTypeNumber, FieldTypeSelect, FieldTypeBoolean}
        then field_FieldType f else ''text''),
      rfield_ID = Some (tx_uuid tx (field_ID f)), rfield_Name = Some (field_Name f),
      rfield_Options = (if 0 < length (field_Options f) then Some (field_Options f) else None),
      rfield_OrderIndex = Some (field_OrderIndex f), rfield_Required = Some (field_Required f)\<rparr>"

definition FromFieldList :: "texts \<Rightarrow> field list \<Rightarrow> field_response list" where
  "FromFieldList tx items = map (FromField tx) items"

definition FromAppSettings :: "texts \<Rightarrow> app_settings \<Rightarrow> app_settings_response" where
  "FromAppSettings tx s =
     \<lparr>rset_AppName = Some (set_AppName s), rset_CorsOrigins = Some (set_CORSOrigins s), rset_FrontendURL = Some (set_FrontendURL s),
      rset_RegistrationOpen = Some (set_RegistrationOpen s), rset_ResendEnabled = Some (set_ResendEnabled s),
      rset_ResendFromEmail = Some (set_ResendFromEmail s), rset_ResendFromName = Some (set_ResendFromName s),
      rset_ResetTTLHours = Some (set_ResetTTLHours s), rset_ScoreboardVisible = Some (set_ScoreboardVisible s),
      rset_SubmitLimitDurationMin = Some (set_SubmitLimitDurationMin s),
      rset_SubmitLimitPerUser = Some (set_SubmitLimitPerUser s), rset_UpdatedAt = Some (tx_RFC3339 tx (set_UpdatedAt s)),
      rset_VerifyEmails = Some (set_VerifyEmails s), rset_VerifyTTLHours = Some (set_VerifyTTLHours s)\<rparr>"

definition FromConfig :: "config \<Rightarrow> config_response" where
  "FromConfig c =
     \<lparr>rconf_Description = (if config_Description c \<noteq> '''' then Some (config_Description c) else None),
      rconf_Key = config_Key c, rconf_UpdatedAt = (if \<not> IsZero (config_UpdatedAt c) then Some (config_UpdatedAt c) else None),
      rconf_Value = config_Value c, rconf_ValueType = config_ValueType c\<rparr>"

definition FromPage :: "texts \<Rightarrow> page \<Rightarrow> page_response" where
  "FromPage tx p =
     \<lparr>rpage_Content = Some (page_Content p), rpage_CreatedAt = Some (page_CreatedAt p), rpage_ID = Some (tx_uuid tx (page_ID p)),
      rpage_IsDraft = Some (page_IsDraft p), rpage_OrderIndex = Some (page_OrderIndex p), rpage_Slug = Some (page_Slug p),
      rpage_Title = Some (page_Title p), rpage_UpdatedAt = Some (page_UpdatedAt p)\<rparr>"

definition FromPageListItem :: "texts \<Rightarrow> page_list_item \<Rightarrow> page_list_item_response" where
  "FromPageListItem tx p =
     \<lparr>rpitem_ID = Some (tx_uuid tx (pitem_ID p)), rpitem_OrderIndex = Some (pitem_OrderIndex p), rpitem_Slug = Some (pitem_Slug p),
      rpitem_Title = Some (pitem_Title p)\<rparr>"

definition FromPageList :: "texts \<Rightarrow> page_list_item list \<Rightarrow> page_list_item_response list" where
  "FromPageList tx items = map (FromPageListItem tx) items"

definition FromPageFullList :: "texts \<Rightarrow> page list \<Rightarrow> page_response list" where
  "FromPageFullList tx items = map (FromPage tx) items"

definition FromNotification :: "texts \<Rightarrow> notification \<Rightarrow> notification_response" where
  "FromNotification tx n =
     \<lparr>rnotif_Content = Some (notif_Content n), rnotif_CreatedAt = Some (tx_RFC3339 tx (notif_CreatedAt n)),
      rnotif_ID = Some (tx_uuid tx (notif_ID n)), rnotif_IsPinned = Some (notif_IsPinned n), rnotif_Title = Some (notif_Title n),
      rnotif_Type = Some (notif_Type n)\<rparr>"

definition FromUserNotification :: "texts \<Rightarrow> user_notification \<Rightarrow> user_notification_response" where
  "FromUserNotification tx n =
     \<lparr>runotif_Content = Some (unotif_Content n), runotif_CreatedAt = Some (tx_RFC3339 tx (unotif_CreatedAt n)),
      runotif_ID = Some (tx_uuid tx (unotif_ID n)), runotif_IsRead = Some (unotif_IsRead n), runotif_Title = Some (unotif_Title n),
      runotif_Type = Some (unotif_Type n)\<rparr>"

definition FromComment :: "texts \<Rightarrow> comment \<Rightarrow> comment_response" where
  "FromComment tx c =
     \<lparr>rcomm_ChallengeID = Some (tx_uuid tx (comment_ChallengeID c)), rcomm_Content = Some (comment_Content c),
      rcomm_CreatedAt = Some (comment_CreatedAt c), rcomm_ID = Some (tx_uuid tx (comment_ID c)),
      rcomm_UpdatedAt = Some (comment_UpdatedAt c), rcomm_UserID = Some (tx_uuid tx (comment_UserID c))\<rparr>"

definition FromCommentList :: "texts \<Rightarrow> comment list \<Rightarrow> comment_response list" where
  "FromCommentList tx items = map (FromComment tx) items"

definition FromBracket :: "texts \<Rightarrow> bracket \<Rightarrow> bracket_response" where
  "FromBracket tx b =
     \<lparr>rbrack_CreatedAt = Some (bracket_CreatedAt b), rbrack_Description = Some (bracket_Description b),
      rbrack_ID = Some (tx_uuid tx (bracket_ID b)), rbrack_IsDefault = Some (bracket_IsDefault b),
      rbrack_Name = Some (bracket_Name b)\<rparr>"

definition FromBracketList :: "texts \<Rightarrow> bracket list \<Rightarrow> bracket_response list" where
  "FromBracketList tx items = map (FromBracket tx) items"

section \<open>A handler and what it shows\<close>

definition Shown :: "('a \<Rightarrow> 'b) \<Rightarrow> ('s, nat \<times> 'a) handler \<Rightarrow> ('s, nat \<times> 'b) handler" where
  "Shown f h r = bindE (h r) (\<lambda>(status, x). returnE (status, f x))"

text \<open>
  What the public replies do not depend on: two boards that differ only in the secrets of their rows (how flags are
  checked, invitation tokens, addresses and password hashes) give the same list of challenges, the same team and the
  same profile.
\<close>

section \<open>A board without its secrets\<close>

definition hide_challenge_row :: "challenges_row \<Rightarrow> challenges_row" where
  "hide_challenge_row c = c\<lparr>challenges_flag_hash := '''', challenges_is_regex := None,
     challenges_is_case_insensitive := None, challenges_flag_regex := None, challenges_flag_format_regex := None\<rparr>"

definition hide_team_row :: "teams_row \<Rightarrow> teams_row" where
  "hide_team_row t = t\<lparr>teams_invite_token := 0\<rparr>"

definition hide_user_row :: "users_row \<Rightarrow> users_row" where
  "hide_user_row u = u\<lparr>users_email := '''', users_password_hash := ''''\<rparr>"

definition hide_db :: "db \<Rightarrow> db" where
  "hide_db d = d\<lparr>challenges := map hide_challenge_row (challenges d),
     teams := map hide_team_row (teams d), users := map hide_user_row (users d)\<rparr>"

definition hide_world :: "world \<Rightarrow> world" where
  "hide_world w = w\<lparr>store := hide_db (store w)\<rparr>"

definition hide_challenge :: "challenge \<Rightarrow> challenge" where
  "hide_challenge c = c\<lparr>chal_FlagHash := '''', chal_IsRegex := False, chal_IsCaseInsensitive := False,
     chal_FlagRegex := '''', chal_FlagFormatRegex := None\<rparr>"

definition hide_solved :: "challenge_with_solved \<Rightarrow> challenge_with_solved" where
  "hide_solved c = c\<lparr>cws_Challenge := hide_challenge (cws_Challenge c)\<rparr>"

definition hide_tagged :: "challenge_with_tags \<Rightarrow> challenge_with_tags" where
  "hide_tagged c = c\<lparr>cwt_Challenge := hide_solved (cwt_Challenge c)\<rparr>"

definition hide_team :: "team \<Rightarrow> team" where "hide_team t = t\<lparr>team_InviteToken := 0\<rparr>"

definition hide_user :: "user \<Rightarrow> user" where "hide_user u = u\<lparr>user_Email := '''', user_PasswordHash := ''''\<rparr>"

section \<open>Runs on a board and on the board without its secrets\<close>

text \<open>\<open>m'\<close> on the board without secrets does what \<open>m\<close> does on the board and answers \<open>f\<close> of its answer.\<close>

definition blind :: "('a \<Rightarrow> 'b) \<Rightarrow> (world, 'e, 'a) sem \<Rightarrow> (world, 'e, 'b) sem \<Rightarrow> bool" where
  "blind f m m' = (\<forall>w. m' (hide_world w) = (map_sum id f (fst (m w)), hide_world (snd (m w))))"

named_theorems blind_rules \<open>how runs without secrets compose\<close>

lemma blind_bindE [blind_rules]:
  "blind f m m' \<Longrightarrow> (\<And>x. blind g (k x) (k' (f x))) \<Longrightarrow> blind g (bindE m k) (bindE m' k')"
  by (auto simp: blind_def bindE_def split: prod.splits sum.splits)

lemma blind_returnE: "f x = y \<Longrightarrow> blind f (returnE x) (returnE y)"
  by (auto simp: blind_def returnE_def)

lemma blind_throwE [blind_rules]: "blind f (throwE e) (throwE e)"
  by (simp add: blind_def throwE_def)

lemma blind_mapErr [blind_rules]: "blind f m m' \<Longrightarrow> blind f (mapErr h m) (mapErr h m')"
  by (auto simp: blind_def mapErr_def split: prod.splits sum.splits)

lemma blind_OnError [blind_rules]: "blind f m m' \<Longrightarrow> blind f (OnError m) (OnError m')"
  by (auto simp: blind_def OnError_def split: prod.splits sum.splits)

lemma blind_sql: "(\<And>d. q' (hide_db d) = (map_sum id f (fst (q d)), hide_db (snd (q d)))) \<Longrightarrow> blind f (sql q) (sql q')"
  by (auto simp: blind_def sql_def bindE_def driver_def next_fault_def use_fault_def hide_world_def
      split: prod.splits sum.splits list.splits)

lemma blind_select_all: "(\<And>d. g (hide_db d) = map f (g d)) \<Longrightarrow> blind (map f) (sql (select_all g)) (sql (select_all g))"
  by (rule blind_sql) (simp add: select_all_def asksE_def)

lemma blind_select_one: "(\<And>d. g (hide_db d) = map f (g d)) \<Longrightarrow> blind f (sql (select_one g)) (sql (select_one g))"
  by (rule blind_sql) (auto simp: select_one_def split: list.splits)

lemma blind_shown: "blind f h h' \<Longrightarrow> fst (h' (hide_world w)) = map_sum id f (fst (h w))"
  by (simp add: blind_def)

section \<open>The statements and the operations\<close>

lemma hide_row_simps [simp]:
  "challenges_id (hide_challenge_row c) = challenges_id c"
  "challenges_is_hidden (hide_challenge_row c) = challenges_is_hidden c"
  "users_id (hide_user_row u) = users_id u" "toEntityUser (hide_user_row u) = hide_user (toEntityUser u)"
  "teams_id (hide_team_row t) = teams_id t" "teams_deleted_at (hide_team_row t) = teams_deleted_at t"
  "toEntityTeamFromRow (hide_team_row t) = hide_team (toEntityTeamFromRow t)"
  "toEntityChallengeFromRow (hide_challenge_row c) = hide_challenge (toEntityChallengeFromRow c)"
  by (simp_all add: hide_challenge_row_def hide_challenge_def toEntityChallengeFromRow_def ptrStrToStr_def boolPtrToBool_def
      hide_team_row_def hide_team_def hide_user_row_def hide_user_def toEntityUser_def toEntityTeamFromRow_def)

lemma hide_db_simps [simp]:
  "challenges (hide_db d) = map hide_challenge_row (challenges d)" "solves (hide_db d) = solves d"
  "teams (hide_db d) = map hide_team_row (teams d)" "tags (hide_db d) = tags d"
  "users (hide_db d) = map hide_user_row (users d)"
  "challenge_tags (hide_db d) = challenge_tags d"
  by (simp_all add: hide_db_def)

lemma left_join_hidden:
  "left_join_solves team (hide_db d) (hide_challenge_row c) = map (apfst hide_challenge_row) (left_join_solves team d c)"
  by (simp add: left_join_solves_def split: list.split)

lemma blind_list_challenges:
  "blind (map (apfst hide_challenge_row)) (sql sqlc_ListChallenges) (sql sqlc_ListChallenges)"
  "blind (map (apfst hide_challenge_row)) (sql (sqlc_ListChallengesByTag tag)) (sql (sqlc_ListChallengesByTag tag))"
  "blind (map (apfst hide_challenge_row)) (sql (sqlc_ListChallengesForTeam team)) (sql (sqlc_ListChallengesForTeam team))"
  "blind (map (apfst hide_challenge_row)) (sql (sqlc_ListChallengesForTeamByTag tag team)) (sql (sqlc_ListChallengesForTeamByTag tag team))"
  unfolding sqlc_ListChallenges_def sqlc_ListChallengesByTag_def sqlc_ListChallengesForTeam_def sqlc_ListChallengesForTeamByTag_def
  by (rule blind_select_all; simp add: map_concat filter_map comp_def left_join_hidden if_distrib cong: if_cong)+

lemma blind_tags: "blind id (TagRepo_GetByChallengeIDs coll chals) (TagRepo_GetByChallengeIDs coll chals)"
  unfolding TagRepo_GetByChallengeIDs_def sqlc_GetTagsByChallengeIDs_def
  by (auto intro!: blind_rules blind_returnE blind_select_all [where f = id, simplified])

lemma blind_GetAll: "blind (map hide_solved) (ChallengeRepo_GetAll team tag) (ChallengeRepo_GetAll team tag)"
  unfolding ChallengeRepo_GetAll_def ChallengeRepo_listForTeamByTag_def ChallengeRepo_listByTag_def
    ChallengeRepo_listForTeam_def ChallengeRepo_listAllChallenges_def
  by (cases tag; cases team; simp;
      rule blind_rules, rule blind_rules, rule blind_list_challenges, rule blind_returnE; auto simp: hide_solved_def)

lemma hide_solved_ID [simp]: "chal_ID (cws_Challenge (hide_solved c)) = chal_ID (cws_Challenge c)"
  by (simp add: hide_solved_def hide_challenge_def)

lemma blind_Challenge_GetAll: "blind (map hide_tagged) (Challenge_GetAll uc team tag) (Challenge_GetAll uc team tag)"
  unfolding Challenge_GetAll_def
  by (auto simp: hide_tagged_def comp_def intro!: blind_rules(1) [OF blind_mapErr [OF blind_GetAll]]
      blind_rules(1) [OF blind_mapErr [OF blind_tags]] blind_returnE)

lemma blind_team_row: "blind hide_team_row (sql (sqlc_GetTeamByID t)) (sql (sqlc_GetTeamByID t))"
  unfolding sqlc_GetTeamByID_def by (rule blind_select_one) (simp add: filter_map comp_def)

lemma blind_user_row: "blind hide_user_row (sql (sqlc_GetUserByID u)) (sql (sqlc_GetUserByID u))"
  unfolding sqlc_GetUserByID_def by (rule blind_select_one) (simp add: filter_map comp_def)

lemma blind_Team_GetByID: "blind hide_team (Team_GetByID t) (Team_GetByID t)"
  unfolding Team_GetByID_def TeamRepo_GetByID_def
  by (rule blind_mapErr, rule blind_bindE [OF blind_mapErr [OF blind_team_row]], rule blind_returnE) simp

lemma blind_solves_of: "blind id (SolveRepo_GetByUserID u) (SolveRepo_GetByUserID u)"
  unfolding SolveRepo_GetByUserID_def sqlc_GetSolvesByUserID_def
  by (auto intro!: blind_rules blind_returnE blind_select_all [where f = id, simplified])

lemma blind_user: "blind hide_user (UserRepo_GetByID u) (UserRepo_GetByID u)"
  unfolding UserRepo_GetByID_def by (rule blind_bindE [OF blind_mapErr [OF blind_user_row]], rule blind_returnE) simp

lemma blind_User_GetProfile:
  "blind (\<lambda>p. p\<lparr>profile_User := hide_user (profile_User p)\<rparr>) (User_GetProfile u) (User_GetProfile u)"
  unfolding User_GetProfile_def Let_def
  by (auto simp: hide_user_def intro!: blind_bindE [OF blind_mapErr [OF blind_user]]
      blind_bindE [OF blind_mapErr [OF blind_solves_of]] blind_returnE)

section \<open>The replies\<close>

lemma blind_Shown:
  assumes "blind (map_prod id f) (h r) (h r)" "\<And>x. g (f x) = g x"
  shows "blind id (Shown g h r) (Shown g h r)"
  unfolding Shown_def using assms by (auto intro!: blind_bindE [OF assms(1)] blind_returnE split: prod.split)

lemma blind_RenderOK: "blind (map_prod id f) (RenderOK x) (RenderOK (f x))"
  unfolding RenderOK_def by (auto intro: blind_returnE)

lemma blind_ParseUUID: "blind id (srv_ParseUUID srv ID) (srv_ParseUUID srv ID)"
  unfolding ParseUUID_def by (auto intro: blind_rules blind_returnE split: option.split)

lemma shown_hides:
  "FromChallengeList tx (map hide_tagged cs) = FromChallengeList tx cs"
  "FromTeamWithoutToken tx (hide_team t) = FromTeamWithoutToken tx t"
  "FromUserProfile tx (p\<lparr>profile_User := hide_user (profile_User p)\<rparr>) = FromUserProfile tx p"
  by (simp_all add: FromChallengeList_def FromChallengeWithTags_def FromChallengeWithSolved_def FromChallenge_def hide_tagged_def
      hide_solved_def hide_challenge_def FromTeamWithoutToken_def hide_team_def FromUserProfile_def hide_user_def Let_def)

text \<open>C36 The list of challenges, the page of a team and the profile of a user do not depend on how flags are checked, on
  invitation tokens, or on addresses and password hashes: a board without them answers the same, whatever fails.\<close>

theorem public_replies_hide:
  "fst (Shown (FromChallengeList tx) (GetChallenges srv tag) r (hide_world w)) =
     fst (Shown (FromChallengeList tx) (GetChallenges srv tag) r w) \<and>
   fst (Shown (FromTeamWithoutToken tx) (GetTeamsID srv ID) r (hide_world w)) =
     fst (Shown (FromTeamWithoutToken tx) (GetTeamsID srv ID) r w) \<and>
   fst (Shown (FromUserProfile tx) (GetUsersID srv ID) r (hide_world w)) =
     fst (Shown (FromUserProfile tx) (GetUsersID srv ID) r w)"
proof -
  have "blind (map_prod id (map hide_tagged)) (GetChallenges srv tag r) (GetChallenges srv tag r)"
    unfolding GetChallenges_def Let_def RequireUser_def
    by (cases "cx_User r") (auto simp: bindE_assoc intro!: blind_bindE [OF blind_OnError [OF blind_Challenge_GetAll] blind_RenderOK] blind_rules)
  note chal = blind_Shown [where h = "GetChallenges srv tag" and g = "FromChallengeList tx", OF this, OF shown_hides(1)]
  have "blind (map_prod id hide_team) (GetTeamsID srv ID r) (GetTeamsID srv ID r)"
    unfolding GetTeamsID_def
    by (rule blind_bindE [OF blind_ParseUUID]) (simp add: blind_bindE [OF blind_OnError [OF blind_Team_GetByID] blind_RenderOK])
  note team = blind_Shown [where h = "GetTeamsID srv ID" and g = "FromTeamWithoutToken tx", OF this, OF shown_hides(2)]
  have "blind (map_prod id (\<lambda>p. p\<lparr>profile_User := hide_user (profile_User p)\<rparr>)) (GetUsersID srv ID r) (GetUsersID srv ID r)"
    unfolding GetUsersID_def
    by (rule blind_bindE [OF blind_ParseUUID]) (simp add: blind_bindE [OF blind_OnError [OF blind_User_GetProfile] blind_RenderOK])
  note user = blind_Shown [where h = "GetUsersID srv ID" and g = "FromUserProfile tx", OF this, OF shown_hides(3)]
  show ?thesis using blind_shown [OF chal] blind_shown [OF team] blind_shown [OF user] by (simp add: sum.map_id)
qed
end
