(* ===== verification/CTF_Crypto.thy ===== *)
theory CTF_Crypto
  imports CTF_BoardProps
begin

text \<open>
  \<open>pkg/crypto/aes.go\<close>: the service that encrypts the patterns of flags. The cipher in its mode is a parameter
  (\<open>aead_lib\<close>); the texts around it, base64 and the hexadecimal key, are the ones of Go's library. The random bytes
  of a nonce are what the reader answers in the state of the call.
\<close>

section \<open>\<open>encoding/base64\<close>\<close>

abbreviation b64_alphabet :: string where
  "b64_alphabet \<equiv> ''ABCDEFGHIJKLMNOPQRSTUVWXYZabcdefghijklmnopqrstuvwxyz0123456789+/''"

definition b64_char :: "nat \<Rightarrow> char" where "b64_char n = b64_alphabet ! n"

definition b64_value :: "char \<Rightarrow> nat option" where
  "b64_value c = (let n = length (takeWhile (\<lambda>x. x \<noteq> c) b64_alphabet) in if n < 64 then Some n else None)"

fun b64_EncodeToString :: "string \<Rightarrow> string" where
  "b64_EncodeToString [] = []"
| "b64_EncodeToString [a] = [b64_char (of_char a div 4), b64_char (of_char a mod 4 * 16), CHR ''='', CHR ''='']"
| "b64_EncodeToString [a, b] = [b64_char (of_char a div 4), b64_char (of_char a mod 4 * 16 + of_char b div 16),
     b64_char (of_char b mod 16 * 4), CHR ''='']"
| "b64_EncodeToString (a # b # c # s) = [b64_char (of_char a div 4), b64_char (of_char a mod 4 * 16 + of_char b div 16),
     b64_char (of_char b mod 16 * 4 + of_char c div 64), b64_char (of_char c mod 64)] @ b64_EncodeToString s"

fun b64_quanta :: "string \<Rightarrow> string option" where
  "b64_quanta [] = Some []"
| "b64_quanta (w # x # y # z # s) =
     (case (b64_value w, b64_value x) of
        (Some i, Some j) \<Rightarrow>
          let a = char_of (i * 4 + j div 16) in
          if y = CHR ''='' then (if z = CHR ''='' \<and> s = [] then Some [a] else None)
          else (case b64_value y of None \<Rightarrow> None
            | Some k \<Rightarrow>
                let b = char_of (j mod 16 * 16 + k div 4) in
                if z = CHR ''='' then (if s = [] then Some [a, b] else None)
                else (case b64_value z of None \<Rightarrow> None
                  | Some l \<Rightarrow> map_option (append [a, b, char_of (k mod 4 * 64 + l)]) (b64_quanta s)))
      | _ \<Rightarrow> None)"
| "b64_quanta _ = None"

text \<open>The decoder passes over the ends of lines.\<close>

definition b64_DecodeString :: "string \<Rightarrow> string option" where
  "b64_DecodeString s = b64_quanta (filter (\<lambda>c. c \<noteq> CHR 0x0A \<and> c \<noteq> CHR 0x0D) s)"

lemma b64_values: "\<forall>n \<in> set [0..<64]. b64_value (b64_char n) = Some n \<and> b64_char n \<notin> {CHR ''='', CHR 0x0A, CHR 0x0D}"
  by code_simp

lemma b64_char_simps:
  assumes "n < 64"
  shows "b64_value (b64_char n) = Some n" "b64_char n \<noteq> CHR ''=''" "b64_char n \<noteq> CHR 0x0A" "b64_char n \<noteq> CHR 0x0D"
  using b64_values assms by auto

lemma sextets_less:
  "of_char (a :: char) div 4 < (64 :: nat)" "of_char a mod 4 * 16 < (64 :: nat)"
  "of_char a mod 4 * 16 + of_char (b :: char) div 16 < (64 :: nat)" "of_char b mod 16 * 4 < (64 :: nat)"
  "of_char b mod 16 * 4 + of_char (c :: char) div 64 < (64 :: nat)" "of_char c mod 64 < (64 :: nat)"
  using nat_of_char_less_256 [of a] nat_of_char_less_256 [of b] nat_of_char_less_256 [of c] by linarith+

lemma octets:
  "of_char (b :: char) div 16 div 16 = (0 :: nat)" "of_char b div 16 mod 16 * 16 + of_char b mod 16 = (of_char b :: nat)"
  "of_char b div 64 div 4 = (0 :: nat)" "of_char b div 64 mod 4 * 64 + of_char b mod 64 = (of_char b :: nat)"
proof -
  have "of_char b div 16 < (16 :: nat)" "of_char b div 64 < (4 :: nat)" using nat_of_char_less_256 [of b] by linarith+
  then show "of_char b div 16 div 16 = (0 :: nat)" "of_char b div 16 mod 16 * 16 + of_char b mod 16 = (of_char b :: nat)"
    "of_char b div 64 div 4 = (0 :: nat)" "of_char b div 64 mod 4 * 64 + of_char b mod 64 = (of_char b :: nat)"
    by simp_all
qed

lemma b64_quanta_Encode: "b64_quanta (b64_EncodeToString s) = Some s"
  by (induction s rule: b64_EncodeToString.induct)
    (simp_all add: b64_char_simps sextets_less octets Let_def)

lemma b64_Encode_lines: "filter (\<lambda>c. c \<noteq> CHR 0x0A \<and> c \<noteq> CHR 0x0D) (b64_EncodeToString s) = b64_EncodeToString s"
  by (induction s rule: b64_EncodeToString.induct) (simp_all add: b64_char_simps sextets_less)

lemma b64_Decode_Encode: "b64_DecodeString (b64_EncodeToString s) = Some s"
  by (simp add: b64_DecodeString_def b64_Encode_lines b64_quanta_Encode)

section \<open>\<open>encoding/hex\<close>\<close>

definition hex_value :: "char \<Rightarrow> nat option" where
  "hex_value c = (let n = of_char c in
     if 48 \<le> n \<and> n \<le> 57 then Some (n - 48) else if 97 \<le> n \<and> n \<le> 102 then Some (n - 87)
     else if 65 \<le> n \<and> n \<le> 70 then Some (n - 55) else None)"

fun hex_DecodeString :: "string \<Rightarrow> string option" where
  "hex_DecodeString [] = Some []"
| "hex_DecodeString [_] = None"
| "hex_DecodeString (a # b # s) =
     (case (hex_value a, hex_value b) of
        (Some i, Some j) \<Rightarrow> map_option (Cons (char_of (i * 16 + j))) (hex_DecodeString s)
      | _ \<Rightarrow> None)"

lemma hex_DecodeString_length: "hex_DecodeString s = Some bs \<Longrightarrow> length s = 2 * length bs"
  by (induction s arbitrary: bs rule: hex_DecodeString.induct) (auto split: option.splits)

section \<open>The service\<close>

text \<open>
  \<open>cipher.AEAD\<close> over AES with a key: sealing under a nonce, and opening, which fails on what was not sealed so. A
  nonce has twelve bytes. \<open>aead_ok\<close> is what the mode promises.
\<close>

record aead_lib =
  gcm_Seal :: "string \<Rightarrow> string \<Rightarrow> string \<Rightarrow> string"
  gcm_Open :: "string \<Rightarrow> string \<Rightarrow> string \<Rightarrow> goerr + string"

definition aead_ok :: "aead_lib \<Rightarrow> bool" where
  "aead_ok L \<longleftrightarrow> (\<forall>key nonce p. length nonce = 12 \<longrightarrow> gcm_Open L key nonce (gcm_Seal L key nonce p) = Inr p)"

abbreviation gcm_NonceSize :: nat where "gcm_NonceSize \<equiv> 12"

definition aes_NewCipher :: "string \<Rightarrow> goerr + unit" where
  "aes_NewCipher key = (if length key \<in> {16, 24, 32} then Inr () else Inl (Plain ''crypto/aes: invalid key size''))"

definition NewCryptoService :: "string \<Rightarrow> goerr + string" where
  "NewCryptoService key =
     (if length key \<noteq> 64 then Inl (Plain ''key must be 64 characters (hex encoded 32 bytes) for AES-256'')
      else case hex_DecodeString key of
          None \<Rightarrow> Inl (wrap ''invalid hex key'' (Plain ''encoding/hex: invalid byte''))
        | Some keyBytes \<Rightarrow> Inr keyBytes)"

text \<open>\<open>read\<close> is what \<open>io.ReadFull\<close> answers for the nonce: all of its bytes, or an error.\<close>

definition CryptoService_Encrypt :: "aead_lib \<Rightarrow> string \<Rightarrow> goerr + string \<Rightarrow> string \<Rightarrow> goerr + string" where
  "CryptoService_Encrypt L key read plaintext =
     (case aes_NewCipher key of Inl e \<Rightarrow> Inl e
      | Inr _ \<Rightarrow> (case read of Inl e \<Rightarrow> Inl e
          | Inr nonce \<Rightarrow> Inr (b64_EncodeToString (nonce @ gcm_Seal L key nonce plaintext))))"

definition CryptoService_Decrypt :: "aead_lib \<Rightarrow> string \<Rightarrow> string \<Rightarrow> goerr + string" where
  "CryptoService_Decrypt L key ciphertext64 =
     (case b64_DecodeString ciphertext64 of None \<Rightarrow> Inl (Plain ''illegal base64 data'')
      | Some bytes \<Rightarrow> (case aes_NewCipher key of Inl e \<Rightarrow> Inl e
          | Inr _ \<Rightarrow>
              if length bytes < gcm_NonceSize then Inl (Plain ''ciphertext too short'')
              else gcm_Open L key (take gcm_NonceSize bytes) (drop gcm_NonceSize bytes)))"

definition crypto_of :: "aead_lib \<Rightarrow> string \<Rightarrow> (world \<Rightarrow> goerr + string) \<Rightarrow> crypto_service" where
  "crypto_of L key read =
     \<lparr>cs_Encrypt = (\<lambda>p w. (CryptoService_Encrypt L key (read w) p, w)), cs_Decrypt = CryptoService_Decrypt L key\<rparr>"

lemma NewCryptoService_key: "NewCryptoService k = Inr key \<Longrightarrow> aes_NewCipher key = Inr ()"
  by (auto simp: NewCryptoService_def aes_NewCipher_def split: if_splits option.splits dest: hex_DecodeString_length)

lemma Encrypt_Decrypt:
  assumes "aead_ok L" "\<And>nonce. read = Inr nonce \<Longrightarrow> length nonce = gcm_NonceSize"
    "CryptoService_Encrypt L key read p = Inr c"
  shows "CryptoService_Decrypt L key c = Inr p"
  using assms by (auto simp: CryptoService_Encrypt_def CryptoService_Decrypt_def b64_Decode_Encode aead_ok_def split: sum.splits)

lemma Encrypt_total:
  "NewCryptoService k = Inr key \<Longrightarrow> CryptoService_Encrypt L key (Inr nonce) p = Inr (b64_EncodeToString (nonce @ gcm_Seal L key nonce p))"
  by (simp add: CryptoService_Encrypt_def NewCryptoService_key)

text \<open>
  A challenge whose flag is an expression: its pattern is stored encrypted, and what the submission compares with is
  the pattern as it was given.
\<close>

lemma Create_regex_row:
  assumes "Challenge_Create uc title descr cat pts iv mv dc flag hid True ci fmt ts w = (Inr ch, w')"
  obtains cs w1 c where "cu_crypto uc = Some cs" "cs_Encrypt cs flag w = (Inr c, w1)"
    "chal_row (store w') (chal_ID ch) = Some (challenge_row ch)" "chal_IsRegex ch" "chal_IsCaseInsensitive ch = ci"
    "chal_FlagRegex ch = c" "chal_FlagHash ch = regex_hash"
proof -
  from assms obtain cs c w0 w1 w2 where cs: "cu_crypto uc = Some cs" "cs_Encrypt cs flag w = (Inr c, w0)"
    and "ChallengeRepo_Create
       \<lparr>chal_ID = 0, chal_Title = title, chal_Description = descr, chal_Category = cat,
        chal_Points = pts, chal_InitialValue = iv, chal_MinValue = mv,
        chal_Decay = dc, chal_SolveCount = 0, chal_FlagHash = regex_hash, chal_IsHidden = hid,
        chal_IsRegex = True, chal_IsCaseInsensitive = ci, chal_FlagRegex = c,
        chal_FlagFormatRegex = fmt\<rparr> w1 = (Inr ch, w2)"
    and "w' = w2 \<or> TagRepo_SetChallengeTags (chal_ID ch) ts w2 = (Inr (), w')"
    by (auto simp: Challenge_Create_def bindE_Inr_iff split: if_splits option.splits)
  then have "chal_row (store w') (chal_ID ch) = Some (challenge_row ch) \<and> chal_IsRegex ch \<and>
      chal_IsCaseInsensitive ch = ci \<and> chal_FlagRegex ch = c \<and> chal_FlagHash ch = regex_hash"
    by (auto simp: chal_row_def dest!: ChallengeRepo_Create_Inr SetChallengeTags_challenges)
      (metis challenge.select_convs challenge.update_convs(1))+
  with cs show ?thesis by (auto intro: that)
qed

text \<open>C32 A challenge created with an expression under the AES service is matched, in what is stored, by exactly the texts the
  expression matches, with case ignored where that was asked for; the hash in the row is the mark of an expression and
  the pattern itself is kept only as what the cipher made of it.\<close>

theorem Create_regex_roundtrip:
  assumes "Challenge_Create uc title descr cat pts iv mv dc flag hid True ci fmt ts w = (Inr ch, w')"
    "NewCryptoService k = Inr key" "cu_crypto uc = Some (crypto_of L key read)" "aead_ok L"
    "\<forall>nonce. read w = Inr nonce \<longrightarrow> length nonce = gcm_NonceSize"
  shows "\<exists>r nonce. chal_row (store w') (chal_ID ch) = Some r \<and> challenges_flag_hash r = regex_hash \<and>
    challenges_flag_regex r = Some (b64_EncodeToString (nonce @ gcm_Seal L key nonce flag)) \<and>
    (\<forall>s. flag_matches uc s (toEntityChallengeFromRow r) \<longleftrightarrow>
       (\<exists>re. compiled uc ((if ci then ''(?i)'' else '''') @ flag) = Some re \<and> ext_match (cu_ext uc) re s))"
proof -
  obtain c w1 where c: "cs_Encrypt (crypto_of L key read) flag w = (Inr c, w1)" "chal_row (store w') (chal_ID ch) = Some (challenge_row ch)"
    and ch: "chal_IsRegex ch" "chal_IsCaseInsensitive ch = ci" "chal_FlagRegex ch = c" "chal_FlagHash ch = regex_hash"
    using Create_regex_row [OF assms(1)] assms(3) by (metis option.inject)
  have enc: "CryptoService_Encrypt L key (read w) flag = Inr c" using c(1) by (auto simp: crypto_of_def)
  then obtain nonce where n: "read w = Inr nonce" "c = b64_EncodeToString (nonce @ gcm_Seal L key nonce flag)"
    by (auto simp: CryptoService_Encrypt_def split: sum.splits)
  have "CryptoService_Decrypt L key c = Inr flag" using Encrypt_Decrypt [OF assms(4) _ enc] assms(5) by blast
  then have "flag_matches uc s ch \<longleftrightarrow>
      (\<exists>re. compiled uc ((if ci then ''(?i)'' else '''') @ flag) = Some re \<and> ext_match (cu_ext uc) re s)" for s
    using ch assms(3) by (auto simp: flag_matches_def crypto_of_def split: option.splits)
  moreover have "c \<noteq> ''''" using n assms(5) by (cases nonce rule: b64_EncodeToString.cases) auto
  then have "challenges_flag_hash (challenge_row ch) = regex_hash" "challenges_flag_regex (challenge_row ch) = Some c"
    using ch by (simp_all add: challenge_row_def strPtrOrNil_def)
  ultimately show ?thesis using c(2) n(2) by (auto simp: challenge_row_entity)
qed

section \<open>At a concrete board\<close>

text \<open>A toy cipher that puts the nonce in front and looks for it.\<close>

definition demo_aead :: aead_lib where
  "demo_aead = \<lparr>gcm_Seal = (\<lambda>_ nonce p. nonce @ p),
     gcm_Open = (\<lambda>_ nonce c. if take 12 c = nonce then Inr (drop 12 c) else Inl (Plain ''message authentication failed''))\<rparr>"

definition demo_aes_uc :: challenge_uc where
  "demo_aes_uc = demo_chal_uc\<lparr>cu_crypto :=
     Some (crypto_of demo_aead (replicate 32 (CHR 0x00)) (\<lambda>_. Inr ''twelve bytes''))\<rparr>"

theorem Create_regex_roundtrip_witness:
  "\<exists>ch w' r. Challenge_Create demo_aes_uc ''new'' '''' ''web'' 500 500 100 10 ''x'' False True True None [] demo_world = (Inr ch, w') \<and>
    chal_row (store w') (chal_ID ch) = Some r \<and>
    (\<forall>s. flag_matches demo_aes_uc s (toEntityChallengeFromRow r) \<longleftrightarrow> s = ''(?i)x'')"
proof -
  let ?m = "Challenge_Create demo_aes_uc ''new'' '''' ''web'' 500 500 100 10 ''x'' False True True None [] demo_world"
  have "case fst ?m of Inl _ \<Rightarrow> False | Inr ch \<Rightarrow> True" by code_simp
  then obtain ch where "fst ?m = Inr ch" by (cases "fst ?m") auto
  then have run: "?m = (Inr ch, snd ?m)" by (simp add: prod_eq_iff)
  have key: "NewCryptoService (replicate 64 (CHR ''0'')) = Inr (replicate 32 (CHR 0x00))" by code_simp
  have aead: "aead_ok demo_aead" by (simp add: aead_ok_def demo_aead_def)
  have uc: "cu_crypto demo_aes_uc = Some (crypto_of demo_aead (replicate 32 (CHR 0x00)) (\<lambda>_. Inr ''twelve bytes''))"
    by (simp add: demo_aes_uc_def)
  have re: "(\<exists>re. compiled demo_aes_uc ((if True then ''(?i)'' else '''') @ ''x'') = Some re \<and> ext_match (cu_ext demo_aes_uc) re s)
      \<longleftrightarrow> s = ''(?i)x''" for s
    by (auto simp: demo_aes_uc_def demo_chal_uc_def compiled_def)
  from Create_regex_roundtrip [OF run key uc aead] obtain r where
    "chal_row (store (snd ?m)) (chal_ID ch) = Some r" "\<forall>s. flag_matches demo_aes_uc s (toEntityChallengeFromRow r) \<longleftrightarrow> s = ''(?i)x''"
    unfolding re by auto
  with run show ?thesis by blast
qed

lemma demo_aes_pure: "crypto_pure demo_aes_uc"
  by (auto simp: crypto_pure_def demo_aes_uc_def crypto_of_def)
end
