(* ===== verification/CTF_Startup.thy ===== *)
theory CTF_Startup
  imports CTF_Crypto CTF_AccountProps CTF_RestAdmin "HOL-Library.Multiset"
begin

text \<open>
  The start of the server: \<open>config\<close> reads the environment and then Vault, \<open>internal/wire\<close> builds the use cases and the
  server from the configuration, \<open>pkg/seed\<close> creates the administrator. The environment is the function \<open>os.Getenv\<close> after
  the files were loaded; a client of Vault answers a secret or an error. Durations of the configuration are nanoseconds
  in 64 bits, as \<open>time.Duration\<close>; the services count microseconds (\<open>micros\<close>).
\<close>

section \<open>The environment\<close>

type_synonym env = "string \<Rightarrow> string"

definition getEnv :: "env \<Rightarrow> string \<Rightarrow> string \<Rightarrow> string" where
  "getEnv env key defaultValue = (let v = env key in if v \<noteq> '''' then TrimSpace v else defaultValue)"

definition getEnvInt :: "env \<Rightarrow> string \<Rightarrow> int \<Rightarrow> int" where
  "getEnvInt env key defaultValue = (let v = env key in
     if v \<noteq> '''' then (case Atoi v of None \<Rightarrow> defaultValue | Some intValue \<Rightarrow> intValue) else defaultValue)"

definition ParseBool :: "string \<Rightarrow> bool option" where
  "ParseBool s =
     (if s \<in> {''1'', ''t'', ''T'', ''true'', ''TRUE'', ''True''} then Some True
      else if s \<in> {''0'', ''f'', ''F'', ''false'', ''FALSE'', ''False''} then Some False else None)"

definition getEnvBool :: "env \<Rightarrow> string \<Rightarrow> bool \<Rightarrow> bool" where
  "getEnvBool env key defaultValue = (let v = env key in
     if v \<noteq> '''' then (case ParseBool v of None \<Rightarrow> defaultValue | Some boolValue \<Rightarrow> boolValue) else defaultValue)"

text \<open>\<open>strings.Split\<close> at a character: one part more than the character occurs.\<close>

fun split_at :: "char \<Rightarrow> string \<Rightarrow> string list" where
  "split_at d [] = [[]]"
| "split_at d (c # s) = (if c = d then [] # split_at d s else (case split_at d s of p # ps \<Rightarrow> (c # p) # ps | [] \<Rightarrow> [[c]]))"

definition parseCORSOrigins :: "string \<Rightarrow> string list" where
  "parseCORSOrigins s = (if s = '''' then [] else map TrimSpace (split_at (CHR '','') s))"

section \<open>The secrets\<close>

record secrets =
  postgresUser :: string
  postgresPassword :: string
  postgresDB :: string
  redisPassword :: string
  jwtAccessSecret :: string
  jwtRefreshSecret :: string
  resendAPIKey :: string
  s3AccessKey :: string
  s3SecretKey :: string
  flagEncryptionKey :: string
  adminUsername :: string
  adminEmail :: string
  adminPassword :: string

definition env_secrets :: "env \<Rightarrow> secrets" where
  "env_secrets env =
     \<lparr>postgresUser = getEnv env ''POSTGRES_USER'' '''', postgresPassword = getEnv env ''POSTGRES_PASSWORD'' '''',
      postgresDB = getEnv env ''POSTGRES_DB'' '''', redisPassword = getEnv env ''REDIS_PASSWORD'' '''',
      jwtAccessSecret = getEnv env ''JWT_ACCESS_SECRET'' '''', jwtRefreshSecret = getEnv env ''JWT_REFRESH_SECRET'' '''',
      resendAPIKey = getEnv env ''RESEND_API_KEY'' '''', s3AccessKey = getEnv env ''STORAGE_S3_ACCESS_KEY'' '''',
      s3SecretKey = getEnv env ''STORAGE_S3_SECRET_KEY'' '''', flagEncryptionKey = getEnv env ''FLAG_ENCRYPTION_KEY'' '''',
      adminUsername = getEnv env ''ADMIN_USERNAME'' '''', adminEmail = getEnv env ''ADMIN_EMAIL'' '''',
      adminPassword = getEnv env ''ADMIN_PASSWORD'' ''''\<rparr>"

text \<open>A value of a secret: a string, or something that is none.\<close>

datatype vault_value = VString string | VOther

type_synonym vault_client = "string \<Rightarrow> goerr + (string \<rightharpoonup> vault_value)"

definition override :: "(string \<rightharpoonup> vault_value) \<Rightarrow> string \<Rightarrow> string \<Rightarrow> string" where
  "override s key old = (case s key of Some (VString v) \<Rightarrow> if v \<noteq> '''' then v else old | _ \<Rightarrow> old)"

datatype fetch = FDatabase | FRedis | FJwt | FResend | FStorage | FApp | FAdmin

fun fetch_path :: "fetch \<Rightarrow> string" where
  "fetch_path FDatabase = ''ctfboard/database''"
| "fetch_path FRedis = ''ctfboard/redis''"
| "fetch_path FJwt = ''ctfboard/jwt''"
| "fetch_path FResend = ''ctfboard/resend''"
| "fetch_path FStorage = ''ctfboard/storage''"
| "fetch_path FApp = ''ctfboard/app''"
| "fetch_path FAdmin = ''ctfboard/admin''"

fun fetch_apply :: "fetch \<Rightarrow> (string \<rightharpoonup> vault_value) \<Rightarrow> secrets \<Rightarrow> secrets" where
  "fetch_apply FDatabase s v = v\<lparr>postgresUser := override s RoleUser (postgresUser v),
     postgresPassword := override s ''password'' (postgresPassword v), postgresDB := override s ''dbname'' (postgresDB v)\<rparr>"
| "fetch_apply FRedis s v = v\<lparr>redisPassword := override s ''password'' (redisPassword v)\<rparr>"
| "fetch_apply FJwt s v = v\<lparr>jwtAccessSecret := override s ''access_secret'' (jwtAccessSecret v),
     jwtRefreshSecret := override s ''refresh_secret'' (jwtRefreshSecret v)\<rparr>"
| "fetch_apply FResend s v = v\<lparr>resendAPIKey := override s ''api_key'' (resendAPIKey v)\<rparr>"
| "fetch_apply FStorage s v = v\<lparr>s3AccessKey := override s ''access_key'' (s3AccessKey v),
     s3SecretKey := override s ''secret_key'' (s3SecretKey v)\<rparr>"
| "fetch_apply FApp s v = v\<lparr>flagEncryptionKey := override s ''flag_encryption_key'' (flagEncryptionKey v)\<rparr>"
| "fetch_apply FAdmin s v = v\<lparr>adminUsername := override s ''username'' (adminUsername v),
     adminEmail := override s ''email'' (adminEmail v), adminPassword := override s ''password'' (adminPassword v)\<rparr>"

definition vaultFetch :: "vault_client \<Rightarrow> fetch \<Rightarrow> secrets \<Rightarrow> secrets" where
  "vaultFetch client f v = (case client (fetch_path f) of Inl _ \<Rightarrow> v | Inr s \<Rightarrow> fetch_apply f s v)"

definition fetches :: "fetch list" where "fetches = [FDatabase, FRedis, FJwt, FResend, FStorage, FApp, FAdmin]"

text \<open>The fetches run concurrently; \<open>order\<close> is the order in which they assign.\<close>

definition load_secrets :: "env \<Rightarrow> (string \<Rightarrow> string \<Rightarrow> goerr + vault_client) \<Rightarrow> fetch list \<Rightarrow> secrets" where
  "load_secrets env vault_New order =
     (let v = env_secrets env; vaultAddr = env ''VAULT_ADDR''; vaultToken = env ''VAULT_TOKEN'' in
      if vaultAddr \<noteq> '''' \<and> vaultToken \<noteq> '''' then
        (case vault_New vaultAddr vaultToken of Inl _ \<Rightarrow> v | Inr client \<Rightarrow> fold (vaultFetch client) order v)
      else v)"

section \<open>The configuration\<close>

text \<open>\<open>time.Duration\<close> in its units, with the product in 64 bits.\<close>

definition minutes :: "int \<Rightarrow> int" where "minutes n = wrap64 (n * 60000000000)"

definition hours :: "int \<Rightarrow> int" where "hours n = wrap64 (n * 3600000000000)"

record config_App =
  cfg_Name :: string
  cfg_Version :: string
  cfg_ChiMode :: string
  cfg_LogLevel :: string
  cfg_FlagEncryptionKey :: string
  cfg_VerifyEmails :: bool

record config_Admin =
  cfg_Username :: string
  cfg_Email :: string
  cfg_Password :: string

record config_JWT =
  cfg_AccessSecret :: string
  cfg_RefreshSecret :: string
  cfg_AccessTTL :: int
  cfg_RefreshTTL :: int

record config_Redis =
  cfg_Host :: string
  cfg_RedisPort :: string
  cfg_RedisPassword :: string

record config_RateLimit =
  cfg_SubmitFlag :: int
  cfg_SubmitFlagDuration :: int

record config_Resend =
  cfg_APIKey :: string
  cfg_FromEmail :: string
  cfg_FromName :: string
  cfg_Enabled :: bool
  cfg_VerifyTTL :: int
  cfg_ResetTTL :: int
  cfg_FrontendURL :: string

record config_Storage =
  cfg_Provider :: string
  cfg_LocalPath :: string
  cfg_S3Endpoint :: string
  cfg_S3PublicEndpoint :: string
  cfg_S3AccessKey :: string
  cfg_S3SecretKey :: string
  cfg_S3Bucket :: string
  cfg_S3UseSSL :: bool
  cfg_PresignedExpiry :: int

record config_Competition =
  cfg_Mode :: string
  cfg_AllowTeamSwitch :: bool
  cfg_MinTeamSize :: int
  cfg_MaxTeamSize :: int

record server_config =
  cfg_App :: config_App
  cfg_Admin :: config_Admin
  cfg_Port :: string
  cfg_CORSOrigins :: "string list"
  cfg_URL :: string
  cfg_MigrationsPath :: string
  cfg_JWT :: config_JWT
  cfg_Redis :: config_Redis
  cfg_RateLimit :: config_RateLimit
  cfg_Resend :: config_Resend
  cfg_Storage :: config_Storage
  cfg_Competition :: config_Competition

definition dbURL :: "string \<Rightarrow> string \<Rightarrow> string \<Rightarrow> string \<Rightarrow> string \<Rightarrow> string" where
  "dbURL user password host port name =
     ''postgres://'' @ user @ '':'' @ password @ ''@'' @ host @ '':'' @ port @ ''/'' @ name @ ''?sslmode=disable''"

text \<open>The fields that the environment alone decides, from \<open>New\<close>'s variables to the literal of \<open>Config\<close>.\<close>

definition build_config :: "env \<Rightarrow> secrets \<Rightarrow> server_config" where
  "build_config env v =
     \<lparr>cfg_App = \<lparr>cfg_Name = getEnv env ''APP_NAME'' ''CTFBoard'', cfg_Version = getEnv env ''APP_VERSION'' ''1.0.0'',
        cfg_ChiMode = getEnv env ''CHI_MODE'' ''release'', cfg_LogLevel = getEnv env ''LOG_LEVEL'' ''info'',
        cfg_FlagEncryptionKey = flagEncryptionKey v, cfg_VerifyEmails = getEnvBool env ''VERIFY_EMAILS'' False\<rparr>,
      cfg_Admin = \<lparr>cfg_Username = adminUsername v, cfg_Email = adminEmail v, cfg_Password = adminPassword v\<rparr>,
      cfg_Port = getEnv env ''BACKEND_PORT'' ''8080'',
      cfg_CORSOrigins = parseCORSOrigins (getEnv env ''CORS_ORIGINS''
        ''http://localhost:3000,http://localhost:5173,http://localhost:5000''),
      cfg_URL = dbURL (postgresUser v) (postgresPassword v) (getEnv env ''POSTGRES_HOST'' ''postgres'')
        (getEnv env ''POSTGRES_PORT'' ''5432'') (postgresDB v),
      cfg_MigrationsPath = getEnv env ''MIGRATIONS_PATH'' ''migrations'',
      cfg_JWT = \<lparr>cfg_AccessSecret = jwtAccessSecret v, cfg_RefreshSecret = jwtRefreshSecret v,
        cfg_AccessTTL = hours 24, cfg_RefreshTTL = hours 72\<rparr>,
      cfg_Redis = \<lparr>cfg_Host = getEnv env ''REDIS_HOST'' ''redis'', cfg_RedisPort = getEnv env ''REDIS_PORT'' ''6379'',
        cfg_RedisPassword = redisPassword v\<rparr>,
      cfg_RateLimit = \<lparr>cfg_SubmitFlag = getEnvInt env ''RATE_LIMIT_SUBMIT_FLAG'' 10,
        cfg_SubmitFlagDuration = minutes (getEnvInt env ''RATE_LIMIT_SUBMIT_FLAG_DURATION'' 1)\<rparr>,
      cfg_Resend = \<lparr>cfg_APIKey = resendAPIKey v, cfg_FromEmail = getEnv env ''RESEND_FROM_EMAIL'' ''noreply@ctfboard.local'',
        cfg_FromName = getEnv env ''RESEND_FROM_NAME'' ''CTFBoard'', cfg_Enabled = getEnvBool env ''RESEND_ENABLED'' False,
        cfg_VerifyTTL = hours (getEnvInt env ''RESEND_VERIFY_TTL_HOURS'' 24),
        cfg_ResetTTL = hours (getEnvInt env ''RESEND_RESET_TTL_HOURS'' 1),
        cfg_FrontendURL = getEnv env ''FRONTEND_URL'' ''http://localhost:3000''\<rparr>,
      cfg_Storage = \<lparr>cfg_Provider = getEnv env ''STORAGE_PROVIDER'' ''filesystem'',
        cfg_LocalPath = getEnv env ''STORAGE_LOCAL_PATH'' ''./uploads'',
        cfg_S3Endpoint = getEnv env ''STORAGE_S3_ENDPOINT'' ''urchin:9000'',
        cfg_S3PublicEndpoint = getEnv env ''STORAGE_S3_PUBLIC_ENDPOINT'' '''',
        cfg_S3AccessKey = s3AccessKey v, cfg_S3SecretKey = s3SecretKey v,
        cfg_S3Bucket = getEnv env ''STORAGE_S3_BUCKET'' ''tasks'', cfg_S3UseSSL = getEnvBool env ''STORAGE_S3_USE_SSL'' False,
        cfg_PresignedExpiry = minutes (getEnvInt env ''STORAGE_PRESIGNED_EXPIRY_MINUTES'' 60)\<rparr>,
      cfg_Competition = \<lparr>cfg_Mode = getEnv env ''COMPETITION_MODE'' ''flexible'',
        cfg_AllowTeamSwitch = getEnvBool env ''ALLOW_TEAM_SWITCH'' True,
        cfg_MinTeamSize = getEnvInt env ''MIN_TEAM_SIZE'' 1, cfg_MaxTeamSize = getEnvInt env ''MAX_TEAM_SIZE'' 10\<rparr>\<rparr>"

definition Config_New ::
  "env \<Rightarrow> (string \<Rightarrow> string \<Rightarrow> goerr + vault_client) \<Rightarrow> fetch list \<Rightarrow> goerr + server_config" where
  "Config_New env vault_New order =
     (let v = load_secrets env vault_New order in
      if postgresUser v = '''' \<or> postgresPassword v = '''' \<or> postgresDB v = ''''
      then Inl (Plain ''required database configuration is missing (env or vault)'')
      else if jwtAccessSecret v = '''' \<or> jwtRefreshSecret v = ''''
      then Inl (Plain ''required jwt configuration is missing (env or vault)'')
      else if redisPassword v = '''' then Inl (Plain ''required redis configuration is missing (env or vault)'')
      else if flagEncryptionKey v = ''''
      then Inl (Plain ''required flag encryption key is missing (env or vault) - needed for regex challenges'')
      else Inr (build_config env v))"

section \<open>What the configuration promises\<close>

lemma fetch_commute: "f \<noteq> g \<Longrightarrow> fetch_apply f s (fetch_apply g t v) = fetch_apply g t (fetch_apply f s v)"
  by (cases f; cases g) simp_all

lemma vaultFetch_commute: "vaultFetch client f \<circ> vaultFetch client g = vaultFetch client g \<circ> vaultFetch client f"
  by (cases "f = g") (auto simp: fun_eq_iff vaultFetch_def fetch_commute split: sum.splits)

text \<open>
  The goroutines that fetch the secrets write different variables: in whatever order they run, the configuration, or
  the error, is the one of running them in turn.
\<close>

theorem Config_New_order:
  assumes "mset order = mset fetches"
  shows "Config_New env vault_New order = Config_New env vault_New fetches"
proof -
  have "fold (vaultFetch client) order = fold (vaultFetch client) fetches" for client
    using assms by (intro fold_multiset_equiv) (auto simp: vaultFetch_commute)
  then have "load_secrets env vault_New order = load_secrets env vault_New fetches"
    by (simp add: load_secrets_def Let_def split: sum.split)
  then show ?thesis by (simp add: Config_New_def)
qed

lemma Config_New_Inr_iff:
  "Config_New env vault_New order = Inr cfg \<longleftrightarrow> (let v = load_secrets env vault_New order in
     '''' \<notin> set [postgresUser v, postgresPassword v, postgresDB v, jwtAccessSecret v, jwtRefreshSecret v, redisPassword v,
       flagEncryptionKey v] \<and> cfg = build_config env v)"
  by (auto simp: Config_New_def Let_def)

text \<open>The address of the database does not tell its parts: user and password go into it as they are.\<close>

lemma dbURL_ambiguous: "dbURL ''ctf'' ''a:b'' h p n = dbURL ''ctf:a'' ''b'' h p n"
  by (simp add: dbURL_def)

section \<open>The wiring\<close>

text \<open>What the server takes from other packages.\<close>

record platform =
  pf_ext :: externals
  pf_accounts :: account_ext
  pf_jwt :: jwt_lib
  pf_aead :: aead_lib
  pf_rand :: "world \<Rightarrow> goerr + string"
  pf_limiter :: "string \<Rightarrow> int \<Rightarrow> string \<Rightarrow> bool op"
  pf_SplitHostPort :: "string \<Rightarrow> string option"

definition micros :: "int \<Rightarrow> time" where "micros d = d div 1000"

definition ProvideCrypto :: "platform \<Rightarrow> server_config \<Rightarrow> goerr + crypto_service option" where
  "ProvideCrypto pf cfg =
     (let key = cfg_FlagEncryptionKey (cfg_App cfg) in
      if key = '''' then Inr None
      else case NewCryptoService key of Inl e \<Rightarrow> Inl e | Inr bytes \<Rightarrow> Inr (Some (crypto_of (pf_aead pf) bytes (pf_rand pf))))"

definition ProvideScoreboardCacheService :: scoreboard_cache where
  "ProvideScoreboardCacheService = \<lparr>sc_cache = True, sc_getter = Some GetTeamBracketID\<rparr>"

definition ProvideTeamUseCase :: team_uc where
  "ProvideTeamUseCase = NewTeamUseCase (Some ProvideScoreboardCacheService)"

definition ProvideChallengeUseCase :: "platform \<Rightarrow> crypto_service option \<Rightarrow> challenge_uc" where
  "ProvideChallengeUseCase pf crypto =
     \<lparr>cu_ext = pf_ext pf, cu_tagRepo = True, cu_compRepo = True, cu_teamRepo = True,
      cu_scoreboardCache = Some ProvideScoreboardCacheService, cu_broadcaster = True, cu_crypto = crypto\<rparr>"

definition ProvideHintUseCase :: "platform \<Rightarrow> hint_uc" where
  "ProvideHintUseCase pf = \<lparr>hu_uuid = ext_uuid (pf_ext pf), hu_scoreboardCache = Some ProvideScoreboardCacheService\<rparr>"

definition ProvideSolveUseCase :: "platform \<Rightarrow> solve_uc" where
  "ProvideSolveUseCase pf =
     \<lparr>su_uuid = ext_uuid (pf_ext pf), su_scoreboardCache = Some ProvideScoreboardCacheService, su_broadcaster = True\<rparr>"

definition ProvideUserUseCase :: "platform \<Rightarrow> jwt_service \<Rightarrow> user_uc" where
  "ProvideUserUseCase pf jwt =
     \<lparr>uu_ext = pf_accounts pf, uu_JWTService = jwt, uu_FieldValidator = True, uu_FieldValueRepo = True\<rparr>"

definition ProvideEmailUseCase :: "platform \<Rightarrow> server_config \<Rightarrow> email_uc" where
  "ProvideEmailUseCase pf cfg =
     \<lparr>eu_ext = pf_accounts pf, eu_VerifyTTL = micros (cfg_VerifyTTL (cfg_Resend cfg)),
      eu_ResetTTL = micros (cfg_ResetTTL (cfg_Resend cfg)), eu_FrontendURL = cfg_FrontendURL (cfg_Resend cfg),
      eu_Enabled = cfg_Enabled (cfg_Resend cfg)\<rparr>"

definition provide_jwt :: "platform \<Rightarrow> server_config \<Rightarrow> jwt_service" where
  "provide_jwt pf cfg = NewJWTService (pf_jwt pf) (ax_uuid_String (pf_accounts pf)) (ax_uuid_Parse (pf_accounts pf))
     (cfg_AccessSecret (cfg_JWT cfg)) (cfg_RefreshSecret (cfg_JWT cfg))
     (micros (cfg_AccessTTL (cfg_JWT cfg))) (micros (cfg_RefreshTTL (cfg_JWT cfg)))"

text \<open>
  \<open>InitializeApp\<close>: the server behind the router, or the error of the key. The limit and the switch are arguments of
  \<open>NewRouter\<close>.
\<close>

definition InitializeApp :: "platform \<Rightarrow> server_config \<Rightarrow> goerr + server" where
  "InitializeApp pf cfg =
     (case ProvideCrypto pf cfg of Inl e \<Rightarrow> Inl e
      | Inr crypto \<Rightarrow> Inr
        \<lparr>srv_jwt = provide_jwt pf cfg, srv_ext = pf_accounts pf, srv_apiTokens = True, srv_limiter = pf_limiter pf,
         srv_SplitHostPort = pf_SplitHostPort pf, srv_verifyEmails = cfg_VerifyEmails (cfg_App cfg),
         srv_submitLimit = cfg_SubmitFlag (cfg_RateLimit cfg), srv_chal = ProvideChallengeUseCase pf crypto,
         srv_hints = ProvideHintUseCase pf, srv_solves = ProvideSolveUseCase pf, srv_teams = ProvideTeamUseCase,
         srv_awards = Some ProvideScoreboardCacheService, srv_users = ProvideUserUseCase pf (provide_jwt pf cfg),
         srv_email = ProvideEmailUseCase pf cfg\<rparr>)"

lemma InitializeApp_InrD:
  assumes "InitializeApp pf cfg = Inr srv"
  shows "crypto_pure (srv_chal srv)" "tu_maxTeamSize (srv_teams srv) = 10"
    "srv_verifyEmails srv = cfg_VerifyEmails (cfg_App cfg)" "srv_submitLimit srv = cfg_SubmitFlag (cfg_RateLimit cfg)"
    "srv_jwt srv = provide_jwt pf cfg" "uu_JWTService (srv_users srv) = provide_jwt pf cfg"
  using assms
  by (auto simp: InitializeApp_def ProvideCrypto_def Let_def crypto_pure_def ProvideChallengeUseCase_def crypto_of_def
      ProvideTeamUseCase_def NewTeamUseCase_def ProvideUserUseCase_def split: if_splits sum.splits)

text \<open>A server starts from a configuration exactly if its key is one: 64 hexadecimal digits, which \<open>New\<close> does not look at.\<close>

lemma InitializeApp_starts:
  "(\<exists>srv. InitializeApp pf cfg = Inr srv) \<longleftrightarrow>
     (let key = cfg_FlagEncryptionKey (cfg_App cfg) in
      key = '''' \<or> length key = 64 \<and> hex_DecodeString key \<noteq> None)"
  by (auto simp: InitializeApp_def ProvideCrypto_def Let_def NewCryptoService_def split: sum.splits option.splits if_splits)

text \<open>Requests that work elsewhere, in the sense of \<open>contest_run\<close>.\<close>

lemma elsewhere_users:
  assumes "\<And>r. user_key (f r) = user_key r" "elsewhere d s"
  shows "elsewhere d (s\<lparr>users := upd_where P f (users s)\<rparr>)"
proof -
  have "map user_key (upd_where P f us) = map user_key us" for us
    using assms(1) by (induction us) (simp_all add: upd_where_def)
  with assms(2) show ?thesis by (simp add: elsewhere_def)
qed

lemma elsewhere_tables:
  "keeps (elsewhere d) (sqlc_UpdatePassword u h)" "keeps (elsewhere d) (sqlc_UpdateUserVerified u b t)"
  "keeps (elsewhere d) (sqlc_DeleteVerificationTokensByUserAndType u ty)" "keeps (elsewhere d) (audit_logs_insert l)"
  "keeps (elsewhere d) (sqlc_UpdateCompetition a1 a2 a3 a4 a5 a6 a7 a8 a9 a10 a11 a12)"
  "keeps (elsewhere d) (sqlc_CreateSubmission sub)" "keeps (elsewhere d) (sqlc_UpdateAPITokenLastUsed i t)"
  unfolding sqlc_UpdatePassword_def sqlc_UpdateUserVerified_def sqlc_DeleteVerificationTokensByUserAndType_def
    sqlc_UpdateCompetition_def sqlc_UpdateAPITokenLastUsed_def
  by (rule keeps_modifyE, erule elsewhere_users [rotated], simp add: user_key_def,
      rule keeps_modifyE, erule elsewhere_users [rotated], simp add: user_key_def)
    (rule keepsI, auto simp: elsewhere_def audit_logs_insert_def sqlc_CreateSubmission_def split: if_splits)+

lemma elsewhere_requests:
  "db_keeps (elsewhere d) (Email_VerifyEmail euc tok)" "db_keeps (elsewhere d) (CompetitionUseCase_Update c admin ip)"
  "db_keeps (elsewhere d) (Submission_LogSubmission sub)" "db_keeps (elsewhere d) (APIToken_UpdateLastUsedAt i)"
  unfolding Email_VerifyEmail_def email_token_def VerificationTokenRepo_GetByToken_def sqlc_GetVerificationTokenByToken_def
    VerificationToken_IsExpired_def UserRepo_SetVerified_def VerificationTokenRepo_DeleteByUserAndType_def
    CompetitionUseCase_Update_def CompetitionRepo_Update_def AuditLogRepo_Create_def sqlc_CreateAuditLog_def
    Submission_LogSubmission_def SubmissionRepo_Create_def id_or_new_def time_or_now_def
    APIToken_UpdateLastUsedAt_def APITokenRepo_UpdateLastUsedAt_def
  by (intro valid_rules elsewhere_tables)+

lemma elsewhere_reset: "keeps (\<lambda>s. elsewhere d (store (snd s))) (Email_ResetPassword euc tok pw)"
proof -
  have lift: "keeps (\<lambda>s. elsewhere d (store (snd s))) (inWorld m)" if "db_keeps (elsewhere d) m" for m :: "'a op"
    using that by (intro keepsI) (auto simp: inWorld_def split: prod.splits dest: keepsD)
  have obj: "keeps (\<lambda>s. elsewhere d (store (snd s))) (inObj m)" for m
    by (intro keepsI) (auto simp: inObj_def split: prod.splits)
  show ?thesis
    unfolding Email_ResetPassword_def bcrypt_Generate_def email_token_def VerificationTokenRepo_GetByToken_def
      sqlc_GetVerificationTokenByToken_def VerificationToken_IsExpired_def UserRepo_UpdatePassword_def
      VerificationTokenRepo_DeleteByUserAndType_def
    by (intro valid_rules elsewhere_tables lift obj)
qed

text \<open>C31 Whatever the environment and Vault hold: take a database whose schema holds, whose solves and unlocks are unique and
  covered by the counts, whose captains are in their teams, and whose teams have at most ten members. On every database that a
  sequence of requests to the started server leads to from there, the schema, the uniqueness and the counts still hold, and no
  team has more than ten members, since \<open>MAX_TEAM_SIZE\<close> does not reach the use cases. The requests are those on teams
  (registration and the purge of deleted teams included), submissions, unlocks of hints, creations, updates and deletions of
  challenges and of hints, creations of awards, and all that leave the tables of the contest and the names, addresses and teams
  of the users alone; the import of a backup is not among them. The server's access tokens expire before its refresh tokens.\<close>

theorem started_server_board:
  assumes "Config_New env vault_New order = Inr cfg" "InitializeApp pf cfg = Inr srv"
    "contest_run (srv_teams srv) (srv_chal srv) (srv_hints srv) d d'" "board_ok d" "captains_ok (roster_of d)" "sizes_ok 10 (roster_of d)"
  shows "board_ok d' \<and> length (members_of d' t) \<le> 10 \<and> js_accessTTL (srv_jwt srv) < js_refreshTTL (srv_jwt srv)"
proof -
  note w = InitializeApp_InrD [OF assms(2)]
  have ok: "board_ok d'" and reach: "roster_reach 10 (roster_of d) (roster_of d')"
    using contest_run_inv [OF assms(3,4) w(1)] w(2) by auto
  have "sizes_ok 10 (roster_of d')" using roster_reach_invariant [OF reach] assms(5,6) by blast
  moreover have schema: "roster_schema d'" using ok by (simp add: board_ok_def)
  ultimately have "length (members_of d' t) \<le> 10"
    by (auto simp: sizes_ok_def card_r_members_of [OF roster_schemaD(1) [OF schema]])
  moreover have "js_accessTTL (srv_jwt srv) < js_refreshTTL (srv_jwt srv)"
    using assms(1) w(5) by (auto simp: Config_New_Inr_iff Let_def build_config_def micros_def hours_def wrap64_def
        provide_jwt_def NewJWTService_def)
  ultimately show ?thesis using ok by blast
qed

section \<open>At a concrete start\<close>

definition demo_env :: env where
  "demo_env k = (case map_of [(''POSTGRES_USER'', ''ctf''), (''POSTGRES_PASSWORD'', ''pw''), (''POSTGRES_DB'', ''ctf''),
     (''REDIS_PASSWORD'', '' pw ''), (''JWT_ACCESS_SECRET'', ''a''), (''JWT_REFRESH_SECRET'', ''r''), (''MAX_TEAM_SIZE'', ''4''),
     (''FLAG_ENCRYPTION_KEY'', replicate 64 (CHR ''0'')), (''VAULT_ADDR'', ''vault''), (''VAULT_TOKEN'', ''token'')] k of
     None \<Rightarrow> '''' | Some v \<Rightarrow> v)"

definition demo_vault :: "string \<Rightarrow> string \<Rightarrow> goerr + vault_client" where
  "demo_vault _ _ = Inr (\<lambda>path. if path = ''ctfboard/jwt'' then Inr [''access_secret'' \<mapsto> VString ''v'', ''refresh_secret'' \<mapsto> VOther]
     else Inl (Plain ''secret not found''))"

definition demo_platform :: platform where
  "demo_platform = \<lparr>pf_ext = cu_ext demo_chal_uc, pf_accounts = demo_ext, pf_jwt = js_lib demo_jwt, pf_aead = demo_aead,
     pf_rand = (\<lambda>_. Inr ''twelve bytes''), pf_limiter = (\<lambda>_ _ _. returnE False), pf_SplitHostPort = (\<lambda>_. None)\<rparr>"

theorem Config_New_order_witness:
  "map_sum id (\<lambda>cfg. (cfg_AccessSecret (cfg_JWT cfg), cfg_RefreshSecret (cfg_JWT cfg), cfg_RedisPassword (cfg_Redis cfg)))
     (Config_New demo_env demo_vault (rev fetches)) = Inr (''v'', ''r'', ''pw'')"
proof -
  have "mset (rev fetches) = mset fetches" by simp
  from Config_New_order [OF this, of demo_env demo_vault] show ?thesis by (simp only:) code_simp
qed

theorem started_server_board_witness:
  "\<exists>cfg srv. Config_New demo_env demo_vault fetches = Inr cfg \<and> cfg_MaxTeamSize (cfg_Competition cfg) = 4 \<and>
    InitializeApp demo_platform cfg = Inr srv \<and>
    board_ok (store (snd (Challenge_SubmitFlag (srv_chal srv) 31 '' 1 '' 4 (Some 12) demo_world)))"
proof -
  have "case Config_New demo_env demo_vault fetches of Inl _ \<Rightarrow> False | Inr cfg \<Rightarrow> cfg_MaxTeamSize (cfg_Competition cfg) = 4 \<and>
      (case InitializeApp demo_platform cfg of Inl _ \<Rightarrow> False | Inr _ \<Rightarrow> True)" by code_simp
  then obtain cfg srv where start: "Config_New demo_env demo_vault fetches = Inr cfg" "InitializeApp demo_platform cfg = Inr srv"
    and size: "cfg_MaxTeamSize (cfg_Competition cfg) = 4" by (auto split: sum.splits)
  let ?w = "snd (Challenge_SubmitFlag (srv_chal srv) 31 '' 1 '' 4 (Some 12) demo_world)"
  have "board_run (srv_teams srv) (srv_chal srv) (srv_hints srv) demo_db (store demo_world)"
    by (simp add: demo_world_def world_of_def board_run.start)
  from board_run.submit [OF this demo_regex_ok prod.collapse [symmetric]]
  have "board_run (srv_teams srv) (srv_chal srv) (srv_hints srv) demo_db (store ?w)" .
  from started_server_board [OF start contest_run.board [OF contest_run.start this] demo_board_ok demo_captains demo_sizes] start size show ?thesis by blast
qed

section \<open>The administrator\<close>

text \<open>Every error of the look-up, not only the one that says there is no such user, leads to the attempt to create the account.\<close>

definition CreateDefaultAdmin :: "account_ext \<Rightarrow> string \<Rightarrow> string \<Rightarrow> string \<Rightarrow> unit sv_op" where
  "CreateDefaultAdmin ax username email password =
     bindE (inWorld (errE (UserRepo_GetByEmail email))) (\<lambda>r. case r of
       Inr _ \<Rightarrow> returnE ()
     | Inl _ \<Rightarrow>
         bindE (bcrypt_Generate ax password) (\<lambda>hashedPassword.
         bindE (inWorld nowE) (\<lambda>now.
         bindE (inWorld uuid_New) (\<lambda>ID.
         bindE (inWorld (UserRepo_Create \<lparr>user_ID = ID, user_TeamID = None, user_Username = username, user_Email = email,
           user_PasswordHash = hashedPassword, user_Role = RoleAdmin, user_IsVerified = True, user_VerifiedAt = Some now,
           user_CreatedAt = now\<rparr>)) (\<lambda>_. returnE ())))))"

lemma UserRepo_Create_run:
  assumes "UserRepo_Create u w = (Inr u', w')" "user_Role u \<noteq> ''''"
  shows "\<exists>r. users (store w') = users (store w) @ [r] \<and> users_email r = user_Email u \<and> users_username r = user_Username u \<and>
    users_password_hash r = user_PasswordHash u \<and> users_role r = Some (user_Role u) \<and> users_is_verified r = Some False \<and>
    (\<forall>x \<in> set (users (store w)). users_email x \<noteq> user_Email u)"
  using assms by (auto simp: UserRepo_Create_def Let_def bindE_Inr_iff sql_Inr_iff nowE_Inr_iff uuid_New_Inr_iff sqlc_CreateUser_def
      users_insert_def list_ex_iff split: if_splits)

text \<open>
  A start that reports no error leaves the account alone when there is one under the address, whatever its role, and
  otherwise appends one account: an administrator, but not a verified one, though the code asks for that.
\<close>

theorem seed_admin_unverified:
  assumes "CreateDefaultAdmin ax username email password (sv, w) = (Inr (), (sv', w'))"
  shows "(store w' = store w \<and> (\<exists>u \<in> set (users (store w)). users_email u = email)) \<or>
    (\<exists>r. users (store w') = users (store w) @ [r] \<and> users_email r = email \<and> users_username r = username \<and>
       users_role r = Some RoleAdmin \<and> users_is_verified r = Some False \<and>
       (\<forall>x \<in> set (users (store w)). users_email x \<noteq> email))"
proof -
  let ?create = "\<lambda>ID hashed now. UserRepo_Create \<lparr>user_ID = ID, user_TeamID = None, user_Username = username,
    user_Email = email, user_PasswordHash = hashed, user_Role = RoleAdmin, user_IsVerified = True, user_VerifiedAt = Some now,
    user_CreatedAt = now\<rparr>"
  from assms obtain r w1 where g: "UserRepo_GetByEmail email w = (r, w1)"
    and rest: "(case r of Inr _ \<Rightarrow> returnE () | Inl _ \<Rightarrow> bindE (bcrypt_Generate ax password) (\<lambda>hashed.
      bindE (inWorld nowE) (\<lambda>now. bindE (inWorld uuid_New) (\<lambda>ID. bindE (inWorld (?create ID hashed now)) (\<lambda>_. returnE ())))))
      (sv, w1) = (Inr (), (sv', w'))"
    unfolding CreateDefaultAdmin_def
    by (subst (asm) bindE_Inr_iff) (auto simp: inWorld_iff errE_Inr_iff)
  have "db_keeps (\<lambda>d. d = store w) (UserRepo_GetByEmail email)"
    unfolding UserRepo_GetByEmail_def sqlc_GetUserByEmail_def by (intro valid_rules)
  with g have s: "store w1 = store w" by (auto dest: keepsD)
  show ?thesis
  proof (cases r)
    case (Inr u)
    with g have "\<exists>u \<in> set (users (store w)). users_email u = email"
      by (auto simp: UserRepo_GetByEmail_def bindE_Inr_iff sql_Inr_iff sqlc_GetUserByEmail_def select_one_Inr_iff filter_eq_Cons_iff)
    with Inr rest s show ?thesis by (simp add: returnE_def)
  next
    case (Inl e)
    with rest obtain ID hashed now wa w2 u where "nowE w1 = (Inr now, wa)" "uuid_New wa = (Inr ID, w2)"
      "?create ID hashed now w2 = (Inr u, w')"
      by (auto simp: bindE_Inr_iff inWorld_iff bcrypt_Generate_def inObj_iff liftE_Inr_iff)
    with s show ?thesis by (auto simp: nowE_Inr_iff uuid_New_Inr_iff dest!: UserRepo_Create_run)
  qed
qed

theorem seed_admin_unverified_witness:
  "\<exists>sv' w'. CreateDefaultAdmin demo_ext ''root'' ''root@ctf.io'' ''pw'' (demo_services, demo_world) = (Inr (), (sv', w')) \<and>
    users_is_verified (last (users (store w'))) = Some False \<and> users_role (last (users (store w'))) = Some RoleAdmin"
proof -
  let ?m = "CreateDefaultAdmin demo_ext ''root'' ''root@ctf.io'' ''pw'' (demo_services, demo_world)"
  have "fst ?m = Inr ()" by code_simp
  then obtain sv' w' where run: "?m = (Inr (), (sv', w'))" by (metis prod.collapse)
  have "\<not> (\<exists>u \<in> set (users (store demo_world)). users_email u = ''root@ctf.io'')" by code_simp
  with seed_admin_unverified [OF run] run show ?thesis by auto
qed

end
