(* ===== verification/Spec2Isabelle.thy ===== *)
theory Spec2Isabelle
  imports CTF_BoardProps CTF_ScoreboardProps CTF_Content CTF_FieldProps CTF_SettingsProps CTF_MailerProps
    CTF_AccountProps CTF_SubmissionProps CTF_RestProps CTF_NotificationProps CTF_RatingProps CTF_StatisticsProps
    CTF_FileProps CTF_BackupProps CTF_RestMoreProps CTF_HubProps CTF_Typed CTF_Validator
    CTF_Responses CTF_Crypto CTF_Startup
begin

text \<open>
  CTFBoard is a scoreboard server for capture-the-flag competitions, written in Go (\<open>src/backend\<close>).
  Teams of users submit flags for challenges; the first accepted submission of a team for a challenge is a
  solve, solves and awards make the score of the team, and the scoreboard ranks the teams. This library
  models the server from its routes down to the statements it sends to the database, and proves what
  makes its parts correct.

  \<^bold>\<open>How a request runs.\<close> The router (\<open>restapi/v1/router.go\<close>) puts middleware in front of a handler of
  \<open>restapi/v1\<close>; the handler decodes the body, calls one use case (\<open>internal/usecase\<close>) and renders its
  value or its error. A use case calls repositories (\<open>internal/repo/persistent\<close>), in a transaction where
  several writes belong together, the redis cache, the clock, the broadcaster of events and the mail
  queue. A repository runs the statements that \<open>sqlc\<close> generated.

  \<^bold>\<open>The state.\<close> \<open>world\<close> (\<open>CTF_World\<close>) holds the database (\<open>db\<close>: one list of rows per table), redis, the
  clock, the source of UUIDs, the events handed to the hub, and the in-process cache of compiled
  expressions. Objects with memory of their own (the dynamic configuration, the mail queue) are paired
  with it (\<open>CTF_Lift\<close>). A Go function is a function of the state that answers an error or a value and the
  next state (\<open>sem\<close> in \<open>CTF_Prelude\<close>); \<open>bindE\<close> is the early return on an error, \<open>errE\<close> hands the error to
  the caller as a value. Errors are the sentinels of \<open>internal/entity/error\<close> with their wrapping
  (\<open>CTF_Errors\<close>); a panic is an outcome of its own (\<open>GoPanic\<close>, and \<open>Panicked\<close> of a handler).
  \<open>faults\<close> is a script of the failures of the infrastructure: each call to the database or to redis
  takes the next entry, so a theorem about every world holds under every pattern of failures, and a
  theorem about a world without faults (\<open>calm\<close>) says that the code answers. A text that is too long for
  its column, a lost connection or a timeout is such a failure. UUIDs come from an arbitrary source; they
  may repeat, and then the primary key refuses the row.

  \<^bold>\<open>Theories, from the bottom.\<close>
  \<^item> \<open>CTF_Prelude\<close>, \<open>CTF_Lift\<close>, \<open>CTF_Paging\<close>, \<open>CTF_Strings\<close>, \<open>CTF_Strconv\<close>, \<open>CTF_Float\<close>: the monad with its Hoare
    triples, tables as lists, pages, Go's \<open>strings\<close> and \<open>strconv\<close>, and \<open>float64\<close> as rounded rationals.
  \<^item> \<open>CTF_Errors\<close>, \<open>CTF_Entities\<close>, \<open>CTF_Rows\<close>: \<open>internal/entity/error\<close>, \<open>internal/entity\<close>, \<open>sqlc/models.go\<close>.
  \<^item> \<open>CTF_BoundedCache\<close>, \<open>CTF_Cache\<close>, \<open>CTF_World\<close>: \<open>pkg/cache\<close>, redis, \<open>tx_base.go\<close>.
  \<^item> \<open>CTF_RosterStore\<close>, \<open>CTF_RosterRepo\<close>, \<open>CTF_TeamOps\<close>: users and teams, statements, repositories and
    \<open>usecase/team\<close>. \<open>CTF_Roster\<close> is the specification: who is in which team and leads it, and the steps
    a request may make; \<open>CTF_RosterFacts\<close>, \<open>CTF_TeamStore\<close>, \<open>CTF_Teams\<close> and \<open>CTF_TeamProps\<close> show that every
    method makes the step of its name or leaves the database alone, and what follows for sequences.
  \<^item> \<open>CTF_Competition\<close>: \<open>competition_postgres.go\<close>, \<open>competition.go\<close> and \<open>guard.go\<close>.
  \<^item> \<open>CTF_ScoreStore\<close>, \<open>CTF_ScoreRepo\<close>, \<open>CTF_Challenges\<close>, \<open>CTF_Hints\<close>, \<open>CTF_Tags\<close>, \<open>CTF_Scoring\<close>, \<open>CTF_Events\<close>:
    challenges, solves, hints and awards; \<open>usecase/challenge\<close>, \<open>scoring.go\<close>, \<open>pkg/websocket/broadcaster.go\<close>.
    \<open>CTF_ScoreFacts\<close>, \<open>CTF_Submit\<close>, \<open>CTF_SubmitCalm\<close>, \<open>CTF_SubmitMatch\<close>, \<open>CTF_SubmitProps\<close> characterise a submission,
    \<open>CTF_HintProps\<close> an unlock, \<open>CTF_Board\<close> and \<open>CTF_BoardProps\<close> sequences of both with the team requests and the changes of
    challenges (\<open>board_run\<close>), and with awards, changes of hints and requests that work elsewhere (\<open>contest_run\<close>).
  \<^item> \<open>CTF_Scoreboard\<close>, \<open>CTF_ScoreboardProps\<close>: the ranking queries, \<open>solve.go\<close> and its cache.
  \<^item> \<open>CTF_Content\<close>, \<open>CTF_Fields\<close>, \<open>CTF_FieldProps\<close>, \<open>CTF_Settings\<close>, \<open>CTF_SettingsProps\<close>: pages, brackets, comments,
    custom fields with their validator, application settings and the dynamic configuration.
  \<^item> \<open>CTF_Jwt\<close>, \<open>CTF_Accounts\<close>, \<open>CTF_AccountProps\<close>: \<open>pkg/jwt\<close>, \<open>usecase/user\<close>, \<open>usecase/email\<close>.
  \<^item> \<open>CTF_Crypto\<close>: \<open>pkg/crypto\<close>, which encrypts the expressions of flags, and the round trip of such a flag.
  \<^item> \<open>CTF_Notifications\<close>, \<open>CTF_NotificationProps\<close>, \<open>CTF_Ratings\<close>, \<open>CTF_RatingProps\<close>, \<open>CTF_Statistics\<close>,
    \<open>CTF_StatisticsProps\<close>: \<open>usecase/notification\<close>, \<open>rating.go\<close> and \<open>statistics.go\<close> with their statements.
  \<^item> \<open>CTF_Storage\<close>, \<open>CTF_Files\<close>, \<open>CTF_FileProps\<close>, \<open>CTF_Backup\<close>, \<open>CTF_BackupProps\<close>: the file system and the
    buckets behind \<open>internal/storage\<close>, the files of challenges (\<open>file.go\<close>), export and import (\<open>backup.go\<close>).
  \<^item> \<open>CTF_Hub\<close>, \<open>CTF_HubProps\<close>: \<open>hub.go\<close> and \<open>client.go\<close> of \<open>pkg/websocket\<close> as steps that interleave: connections, their
    two pumps, the loop of the hub, publication on redis and what comes back from it.
  \<^item> \<open>CTF_Mailer\<close>, \<open>CTF_MailerProps\<close>: \<open>pkg/mailer/async.go\<close> as steps that interleave.
  \<^item> \<open>CTF_Submissions\<close>, \<open>CTF_SubmissionProps\<close>: the log of submissions and its pages.
  \<^item> \<open>CTF_Http\<close>, \<open>CTF_Router\<close>, \<open>CTF_Requests\<close>, \<open>CTF_Rest\<close>, \<open>CTF_RestAdmin\<close>, \<open>CTF_RestMore\<close>, \<open>CTF_Responses\<close>: middleware,
    routes, request bodies, controllers, and the structures of the replies; \<open>CTF_RestProps\<close> and \<open>CTF_RestMoreProps\<close> show
    what the composed routes guarantee, \<open>CTF_Validator\<close> is \<open>pkg/validator\<close>, which no request type asks for.
  \<^item> \<open>CTF_Typed\<close>: every stored number fits its column. \<open>CTF_Startup\<close>: \<open>config\<close>, \<open>internal/wire\<close> and \<open>pkg/seed\<close>, from
    the environment to a server, and the invariants of the board for the server that starts.
  \<^item> \<open>CTF_Demo\<close>, \<open>CTF_JwtDemo\<close>: a concrete board and token library for the examples.

  A definition carries the name of the Go function, prefixed with its receiver where the name is not
  unique (\<open>Team_Join\<close> is \<open>TeamUseCase.Join\<close>, \<open>sqlc_GetTeamScore\<close> the statement \<open>GetTeamScore\<close>).

  \<^bold>\<open>Interfaces.\<close> \<open>team_store\<close>, \<open>challenge_store\<close> and \<open>admin_store\<close> (awards and hints) list what use cases ask of the
  tables to keep an invariant; they are interpreted for the schema of the roster, for solve counts, for the types of columns and for the
  whole board. \<open>blob_store\<close>, and \<open>strict_store\<close> that extends it, are what files and backups ask of a storage provider,
  interpreted for the file system; a bucket of a service that keeps its promises meets \<open>blob_store\<close> too.
  \<open>memo\<close> is the contract of a cache, interpreted for \<open>BoundedCache\<close>; \<open>rounding\<close> is what the score needs of
  floating point, interpreted for binary64 and for exact arithmetic.

  \<^bold>\<open>What the groups of lemmas show.\<close> Refinement of the roster by the team use case; the exact effect of a
  submission and of an unlock, that every other answer changes nothing, that every submission is
  answered; solve counts and keys over every sequence of requests; the ranking of the scoreboard and the
  staleness of its cache; bounds and monotonicity of the dynamic score in floating point; that tokens
  authenticate whom they were made for and a reset token works once; that no mail is lost or doubled
  under any interleaving; that the dynamic configuration is read as it is stored; that routes of
  administration and submission cannot be reached around their checks; that public replies do not depend on flags,
  invitation tokens, addresses and password hashes; that an uploaded file is downloaded as it was, that an import
  happens as a whole or not at all, and what an export brings back; that pages of the log of submissions tile it where no two
  times agree; that the hub never panics and sends every client
  its messages in order, of which one is missing only after a broadcast that found the client's channel full; that a server built from any configuration keeps the invariants of the board. Some theorems
  state behaviour that looks unintended (a blank title, the nil bracket, a late \<open>Send\<close>, events handed out twice, an
  archive that cannot be restored, a registration without a name); they say so.

  \<^bold>\<open>Parameters.\<close> Code that is not in the repository is an argument: SHA-256, bcrypt, AES-GCM, regular
  expressions of flags, the JWT library (\<open>jwt_lib_ok\<close> states what it documents), the case mapping of letters
  outside ASCII, the collation of the database, the text form of UUIDs, the rate limiter
  (\<open>limiter_ok\<close>: it does not write to the database), mail templates, the client of S3 (\<open>s3_ok\<close>), zip archives and the JSON of a backup, the order in which Go walks a map
  where that order shows, the order in which a query of the log of submissions meets the rows (\<open>scan_ok\<close>: each row once; other
  statements keep rows that their \<open>ORDER BY\<close> does not tell apart in the order of insertion), and the order in which goroutines run that are waited for (uploads of an import, fetches of
  secrets). JSON texts of requests and replies are the values they encode.

  \<^bold>\<open>Bounds.\<close> \<open>int\<close> of Go is unbounded here except where code converts it to 32 bits (\<open>int32E\<close>, with its
  error) or multiplies for an offset (\<open>wrap64\<close>). Times are microseconds, the precision of the
  database. No definition needs fuel: loops run over lists, and the workers of the mailer are a step
  relation.

  \<^bold>\<open>Not modelled.\<close> The generated OpenAPI client, server wrappers and embedded document (\<open>internal/openapi\<close>): they bind
  parameters and pass calls on, and are regenerated from a description. Logging, metrics, CORS and the stack of
  third-party middleware; the handshake and the frames of WebSocket, which a library does; the delivery of mail and its
  templates; migrations other than through the
  constraints the queries check; the process around the server (signals, connections).
\<close>

end
